(* ===== verification/LH_Prelude.thy ===== *)
theory LH_Prelude
  imports Complex_Main "HOL-Library.AList" "HOL-Library.List_Lexorder" "HOL-Library.Char_ord"
begin

text \<open>
  Shared vocabulary of the development: the exceptions the Python code raises, a result type
  with its sequencing combinators, insertion-ordered dictionaries, slices, and a generic
  contract for components that are driven by a list of operations.

  \<^item> \<open>exn\<close> names the exception classes the code raises or catches; \<open>is_value_error\<close> is the
    subclass test of \<open>except ValueError\<close>.
  \<^item> \<open>'a result\<close> is \<open>exn + 'a\<close>; \<open>ebind\<close> stops at the first exception, \<open>emap\<close> is a list
    comprehension whose element expression may raise.
  \<^item> \<open>('k, 'v) dict\<close> is an association list in insertion order; writing is \<open>AList.update\<close>
    (in place, or appended), \<open>pop\<close> is \<open>AList.delete\<close>, reading is \<open>map_of\<close>.
\<close>

named_theorems guard_simps "unfolding rules for the guards of the operations"
named_theorems inv_intros "invariant preservation, one rule per operation"

section \<open>Exceptions and results\<close>

datatype exn =
    ValueError string
  | TypeError string
  | KeyError string
  | RuntimeError string
  | OverflowError string
  | LeaseError string
  | VerificationError string
  | LeaseLifecycleError string
  | BodyTooLarge
  | StorageError "int option"
  | OtherError string

type_synonym 'a result = "exn + 'a"

text \<open>\<open>LeaseError\<close>, \<open>VerificationError\<close> and \<open>LeaseLifecycleError\<close> subclass \<open>ValueError\<close>.\<close>

fun is_value_error :: "exn \<Rightarrow> bool" where
  "is_value_error (ValueError _) = True"
| "is_value_error (LeaseError _) = True"
| "is_value_error (VerificationError _) = True"
| "is_value_error (LeaseLifecycleError _) = True"
| "is_value_error _ = False"

fun ebind :: "'a result \<Rightarrow> ('a \<Rightarrow> 'b result) \<Rightarrow> 'b result" where
  "ebind (Inl e) f = Inl e"
| "ebind (Inr x) f = f x"

definition guard :: "bool \<Rightarrow> exn \<Rightarrow> unit result" where
  "guard b e = (if b then Inr () else Inl e)"

fun emap :: "('a \<Rightarrow> 'b result) \<Rightarrow> 'a list \<Rightarrow> 'b list result" where
  "emap f [] = Inr []"
| "emap f (x # xs) = ebind (f x) (\<lambda>y. ebind (emap f xs) (\<lambda>ys. Inr (y # ys)))"

lemma ebind_Inr_iff [simp]: "ebind m f = Inr y \<longleftrightarrow> (\<exists>x. m = Inr x \<and> f x = Inr y)"
  by (cases m) auto

lemma ebind_Inl_iff: "ebind m f = Inl e \<longleftrightarrow> m = Inl e \<or> (\<exists>x. m = Inr x \<and> f x = Inl e)"
  by (cases m) auto

lemma guard_Inr [simp]: "guard b e = Inr u \<longleftrightarrow> b"
  by (simp add: guard_def)

lemma guard_Inl [simp]: "guard b e = Inl e' \<longleftrightarrow> \<not> b \<and> e' = e"
  by (auto simp: guard_def)

lemma guard_True [simp]: "guard True e = Inr ()"
  by (simp add: guard_def)

lemma guard_False [simp]: "guard False e = Inl e"
  by (simp add: guard_def)

lemma emap_Inr_list_all2: "emap f xs = Inr ys \<longleftrightarrow> list_all2 (\<lambda>x y. f x = Inr y) xs ys"
  by (induction xs arbitrary: ys) (auto simp: list_all2_Cons1)

lemma emap_length: "emap f xs = Inr ys \<Longrightarrow> length ys = length xs"
  by (auto simp: emap_Inr_list_all2 dest: list_all2_lengthD)

section \<open>Python slices and ordered dictionaries\<close>

text \<open>\<open>xs[-n:]\<close> for \<open>n \<ge> 1\<close>, and \<open>xs[-0:]\<close>, which is the whole list.\<close>

definition last_n :: "nat \<Rightarrow> 'a list \<Rightarrow> 'a list" where
  "last_n n xs = (if n = 0 then xs else drop (length xs - n) xs)"

lemma length_last_n: "0 < n \<Longrightarrow> length (last_n n xs) = min n (length xs)"
  by (auto simp: last_n_def)

lemma set_last_n_subset: "set (last_n n xs) \<subseteq> set xs"
  by (auto simp: last_n_def dest: in_set_dropD)

lemma last_n_idle: "length xs \<le> n \<Longrightarrow> last_n n xs = xs"
  by (simp add: last_n_def)

lemma count_list_drop_le: "count_list (drop k xs) x \<le> count_list xs x"
  by (metis append_take_drop_id count_list_append le_add2)

lemma count_list_last_n_le: "count_list (last_n n xs) x \<le> count_list xs x"
  by (simp add: last_n_def count_list_drop_le)

text \<open>
  \<open>sorted(s)\<close> of a set given by its elements: each once, in the order of the type. On strings
  the order is the code-point order of \<open>List_Lexorder\<close>.
\<close>

definition sorted_set :: "'a::linorder list \<Rightarrow> 'a list" where
  "sorted_set xs = sort (remdups xs)"

lemma set_sorted_set [simp]: "set (sorted_set xs) = set xs"
  by (simp add: sorted_set_def)

lemma distinct_sorted_set [simp]: "distinct (sorted_set xs)"
  by (simp add: sorted_set_def)

lemma sorted_sorted_set [simp]: "sorted (sorted_set xs)"
  by (simp add: sorted_set_def)

lemma sorted_set_cong: "set xs = set ys \<Longrightarrow> sorted_set xs = sorted_set ys"
  by (rule sorted_distinct_set_unique) auto

type_synonym ('k, 'v) dict = "('k \<times> 'v) list"

definition dict_ok :: "('k, 'v) dict \<Rightarrow> bool" where
  "dict_ok d \<longleftrightarrow> distinct (map fst d)"

lemma dict_ok_Nil [simp]: "dict_ok []"
  by (simp add: dict_ok_def)

lemma dict_ok_update [simp]: "dict_ok d \<Longrightarrow> dict_ok (AList.update k v d)"
  by (simp add: dict_ok_def distinct_update)

lemma dict_ok_delete [simp]: "dict_ok d \<Longrightarrow> dict_ok (AList.delete k d)"
  by (simp add: dict_ok_def distinct_delete)

lemma map_of_update [simp]: "map_of (AList.update k v d) = (map_of d)(k \<mapsto> v)"
  by (rule update_conv')

lemma map_of_delete [simp]: "map_of (AList.delete k d) = (map_of d)(k := None)"
  by (rule delete_conv')

lemma dict_ok_values: "dict_ok d \<Longrightarrow> (k, v) \<in> set d \<longleftrightarrow> map_of d k = Some v"
  by (simp add: dict_ok_def)

text \<open>A dictionary display or comprehension: later values replace earlier ones in place.\<close>

definition dict_of :: "('k \<times> 'v) list \<Rightarrow> ('k, 'v) dict" where
  "dict_of kvs = fold (\<lambda>(k, v). AList.update k v) kvs []"

lemma dict_ok_fold_update: "dict_ok d \<Longrightarrow> dict_ok (fold (\<lambda>(k, v). AList.update k v) kvs d)"
  by (induction kvs arbitrary: d) auto

lemma dict_ok_dict_of [simp]: "dict_ok (dict_of kvs)"
  by (simp add: dict_of_def dict_ok_fold_update)

lemma map_of_fold_update:
  "map_of (fold (\<lambda>(k, v). AList.update k v) kvs d) = map_of d ++ map_of (rev kvs)"
  by (induction kvs arbitrary: d) (auto simp: map_add_def fun_eq_iff split: option.splits)

lemma map_of_dict_of: "map_of (dict_of kvs) = map_of (rev kvs)"
  by (simp add: dict_of_def map_of_fold_update)

lemma dict_of_self: "dict_ok d \<Longrightarrow> map_of (dict_of d) = map_of d"
  unfolding map_of_dict_of dict_ok_def
  by (rule map_of_eqI) (auto simp: rev_map [symmetric])

section \<open>Components driven by operations\<close>

text \<open>
  Several components are a state and a set of operations, each a function from state to state.
  Whatever every operation keeps holds after any sequence of them; whatever every operation
  relates to its input by a preorder relates the end of a run to its start.
\<close>

locale op_machine =
  fixes exec :: "'op \<Rightarrow> 's \<Rightarrow> 's"
    and ok :: "'op \<Rightarrow> bool"
    and inv :: "'s \<Rightarrow> bool"
  assumes inv_exec: "inv s \<Longrightarrow> ok p \<Longrightarrow> inv (exec p s)"
begin

lemma inv_run: "inv s \<Longrightarrow> \<forall>p \<in> set ps. ok p \<Longrightarrow> inv (fold exec ps s)"
  by (induction ps arbitrary: s) (auto intro: inv_exec)

end

locale monotone_machine = op_machine +
  fixes rel :: "'s \<Rightarrow> 's \<Rightarrow> bool"
  assumes rel_refl: "rel s s"
    and rel_trans: "rel s t \<Longrightarrow> rel t u \<Longrightarrow> rel s u"
    and rel_exec: "inv s \<Longrightarrow> ok p \<Longrightarrow> rel s (exec p s)"
begin

lemma rel_run: "inv s \<Longrightarrow> \<forall>p \<in> set ps. ok p \<Longrightarrow> rel s (fold exec ps s)"
proof (induction ps arbitrary: s)
  case Nil
  show ?case by (simp add: rel_refl)
next
  case (Cons p ps)
  then have "rel (exec p s) (fold exec ps (exec p s))"
    by (intro Cons.IH) (auto intro: inv_exec)
  with Cons.prems show ?case by (auto intro: rel_trans rel_exec)
qed

lemma rel_segment:
  "inv s \<Longrightarrow> \<forall>p \<in> set ps. ok p \<Longrightarrow> \<forall>p \<in> set qs. ok p \<Longrightarrow>
    rel (fold exec ps s) (fold exec qs (fold exec ps s))"
  by (intro rel_run inv_run)

end

end
