(* ===== verification/PyFloat.thy ===== *)
theory PyFloat
  imports LH_Prelude
begin

text \<open>
  Python's \<open>float\<close>: IEEE 754 binary64. A value is a finite number, an infinity or a NaN;
  arithmetic computes exactly and rounds once, to the nearest double, ties to even, overflowing
  to infinity; comparisons with a NaN are false. The two zeros compare equal in Python and are
  one value here. \<open>is_double\<close> says that a finite value is one a Python float can hold.
\<close>

datatype pyfloat = Fin rat | PInf | NInf | NaN

section \<open>Rounding\<close>

text \<open>The number of binary digits of a natural number.\<close>

fun nbits :: "nat \<Rightarrow> nat" where
  "nbits n = (if n = 0 then 0 else Suc (nbits (n div 2)))"

declare nbits.simps [simp del]

lemma nbits_upper: "n < 2 ^ nbits n"
proof (induction n rule: nbits.induct)
  case (1 n)
  then show ?case
    by (cases "n = 0") (auto simp: nbits.simps [of n])
qed

lemma nbits_lower: "0 < n \<Longrightarrow> 2 ^ (nbits n - 1) \<le> n"
proof (induction n rule: nbits.induct)
  case (1 n)
  show ?case
  proof (cases "n div 2 = 0")
    case True
    with "1.prems" show ?thesis by (simp add: nbits.simps [of n] nbits.simps [of 0])
  next
    case False
    with "1" have "2 ^ (nbits (n div 2) - 1) \<le> n div 2" by simp
    moreover have "0 < nbits (n div 2)" using False by (simp add: nbits.simps [of "n div 2"])
    ultimately have "2 ^ nbits (n div 2) \<le> 2 * (n div 2)"
      by (cases "nbits (n div 2)") auto
    with "1.prems" show ?thesis by (simp add: nbits.simps [of n])
  qed
qed

lemma nbits_leI: "n < 2 ^ k \<Longrightarrow> nbits n \<le> k"
proof (rule ccontr)
  assume n: "n < 2 ^ k" and "\<not> nbits n \<le> k"
  then have "k \<le> nbits n - 1" "0 < n" by (auto simp: nbits.simps [of n] split: if_splits)
  then have "(2::nat) ^ k \<le> 2 ^ (nbits n - 1)" by (intro power_increasing) auto
  also have "\<dots> \<le> n" using \<open>0 < n\<close> by (rule nbits_lower)
  finally show False using n by simp
qed

text \<open>Round half to even.\<close>

definition rhe :: "rat \<Rightarrow> int" where
  "rhe q = (let f = \<lfloor>q\<rfloor>; d = q - of_int f in
     if d < 1/2 then f else if d > 1/2 then f + 1 else if even f then f else f + 1)"

lemma rhe_of_int [simp]: "rhe (of_int n) = n"
  by (simp add: rhe_def)

lemma rhe_bounds: "\<lfloor>q\<rfloor> \<le> rhe q" "rhe q \<le> \<lfloor>q\<rfloor> + 1"
  by (auto simp: rhe_def Let_def)

lemma rhe_mono: "p \<le> q \<Longrightarrow> rhe p \<le> rhe q"
proof -
  assume pq: "p \<le> q"
  then have "\<lfloor>p\<rfloor> \<le> \<lfloor>q\<rfloor>" by (rule floor_mono)
  then consider "\<lfloor>p\<rfloor> = \<lfloor>q\<rfloor>" | "\<lfloor>p\<rfloor> + 1 \<le> \<lfloor>q\<rfloor>" by linarith
  then show ?thesis
  proof cases
    case 1
    with pq show ?thesis by (auto simp: rhe_def Let_def)
  next
    case 2
    with rhe_bounds [of p] rhe_bounds [of q] show ?thesis by linarith
  qed
qed

lemma rhe_le_of_int: "q \<le> of_int n \<Longrightarrow> rhe q \<le> n"
  using rhe_mono [of q "of_int n"] by simp

lemma rhe_ge_of_int: "of_int n \<le> q \<Longrightarrow> n \<le> rhe q"
  using rhe_mono [of "of_int n" q] by simp

text \<open>
  Magnitudes are scaled by \<open>2 ^ 1074\<close>, so that the least positive double is \<open>1\<close> and every
  double is an integer. A scaled magnitude of at most 53 digits is kept to the unit, a longer one
  loses \<open>shift\<close> low digits.
\<close>

definition shift :: "rat \<Rightarrow> nat" where
  "shift y = nbits (nat \<lfloor>y\<rfloor>) - 53"

definition round_scaled :: "rat \<Rightarrow> rat" where
  "round_scaled y = of_int (rhe (y / 2 ^ shift y)) * 2 ^ shift y"

definition unit_scale :: rat where
  "unit_scale = 2 ^ 1074"

definition overflow_bound :: rat where
  "overflow_bound = 2 ^ 2098"

definition fl :: "rat \<Rightarrow> pyfloat" where
  "fl x = (let m = round_scaled (\<bar>x\<bar> * unit_scale) in
     if overflow_bound \<le> m then (if 0 < x then PInf else NInf)
     else Fin (sgn x * m / unit_scale))"

lemma unit_scale_pos [simp]: "0 < unit_scale" "unit_scale \<noteq> 0" "0 \<le> unit_scale"
  by (simp_all add: unit_scale_def)

lemma overflow_bound_pos [simp]: "0 < overflow_bound"
  by (simp add: overflow_bound_def)

lemma shift_upper: "0 \<le> y \<Longrightarrow> y < 2 ^ (53 + shift y)"
proof -
  assume "0 \<le> y"
  let ?n = "nat \<lfloor>y\<rfloor>"
  have "?n < 2 ^ nbits ?n" by (rule nbits_upper)
  also have "\<dots> \<le> 2 ^ (53 + shift y)" by (rule power_increasing) (auto simp: shift_def)
  finally have "of_nat ?n < (2::int) ^ (53 + shift y)"
    by (metis of_nat_less_iff of_nat_numeral of_nat_power)
  with \<open>0 \<le> y\<close> have "\<lfloor>y\<rfloor> < 2 ^ (53 + shift y)" by simp
  then show ?thesis by (simp add: floor_less_iff)
qed

lemma shift_lower: "0 < shift y \<Longrightarrow> 2 ^ (52 + shift y) \<le> y"
proof -
  assume s: "0 < shift y"
  let ?n = "nat \<lfloor>y\<rfloor>"
  from s have b: "nbits ?n = 53 + shift y" by (simp add: shift_def)
  then have "0 < ?n" by (cases "?n = 0") (auto simp: nbits.simps)
  with nbits_lower [OF this] b have "2 ^ (52 + shift y) \<le> ?n" by simp
  then have "(2::int) ^ (52 + shift y) \<le> \<lfloor>y\<rfloor>"
    using \<open>0 < ?n\<close> by (metis nat_numeral_as_int nat_power_eq nat_le_eq_zle zero_less_nat_eq
      linorder_not_less numeral_eq_Suc of_nat_le_iff of_nat_numeral of_nat_power int_nat_eq less_le)
  then show ?thesis by (simp add: le_floor_iff)
qed

lemma shift_mono: "0 \<le> x \<Longrightarrow> x \<le> y \<Longrightarrow> shift x \<le> shift y"
proof (rule ccontr)
  assume xy: "0 \<le> x" "x \<le> y" and "\<not> shift x \<le> shift y"
  then have s: "shift y + 1 \<le> shift x" by simp
  have "y < 2 ^ (53 + shift y)" using xy by (intro shift_upper) simp
  also have "\<dots> \<le> 2 ^ (52 + shift x)" by (rule power_increasing) (use s in auto)
  also have "\<dots> \<le> x" by (rule shift_lower) (use s in simp)
  finally show False using xy by simp
qed

lemma round_scaled_upper: "0 \<le> y \<Longrightarrow> round_scaled y \<le> 2 ^ (53 + shift y)"
proof -
  assume "0 \<le> y"
  then have "y / 2 ^ shift y \<le> of_int (2 ^ 53)"
    using shift_upper [of y] by (simp add: field_simps power_add)
  then have "rhe (y / 2 ^ shift y) \<le> 2 ^ 53" by (rule rhe_le_of_int)
  then have "of_int (rhe (y / 2 ^ shift y)) \<le> (2::rat) ^ 53"
    by (metis of_int_le_iff of_int_numeral of_int_power)
  then show ?thesis by (simp add: round_scaled_def power_add)
qed

lemma round_scaled_lower: "0 < shift y \<Longrightarrow> 2 ^ (52 + shift y) \<le> round_scaled y"
proof -
  assume "0 < shift y"
  then have "of_int (2 ^ 52) \<le> y / 2 ^ shift y"
    using shift_lower [of y] by (simp add: field_simps power_add)
  then have "2 ^ 52 \<le> rhe (y / 2 ^ shift y)" by (rule rhe_ge_of_int)
  then have "(2::rat) ^ 52 \<le> of_int (rhe (y / 2 ^ shift y))"
    by (metis of_int_le_iff of_int_numeral of_int_power)
  then show ?thesis by (simp add: round_scaled_def power_add)
qed

lemma round_scaled_nonneg: "0 \<le> y \<Longrightarrow> 0 \<le> round_scaled y"
  using rhe_ge_of_int [of 0 "y / 2 ^ shift y"] by (simp add: round_scaled_def)

lemma round_scaled_mono: "0 \<le> x \<Longrightarrow> x \<le> y \<Longrightarrow> round_scaled x \<le> round_scaled y"
proof -
  assume xy: "0 \<le> x" "x \<le> y"
  show ?thesis
  proof (cases "shift x = shift y")
    case True
    have "rhe (x / 2 ^ shift y) \<le> rhe (y / 2 ^ shift y)"
      by (rule rhe_mono) (use xy in \<open>simp add: divide_right_mono\<close>)
    with True show ?thesis by (simp add: round_scaled_def)
  next
    case False
    with shift_mono [OF xy] have s: "shift x + 1 \<le> shift y" by simp
    have "round_scaled x \<le> 2 ^ (53 + shift x)" using xy by (intro round_scaled_upper)
    also have "\<dots> \<le> 2 ^ (52 + shift y)" by (rule power_increasing) (use s in auto)
    also have "\<dots> \<le> round_scaled y" by (rule round_scaled_lower) (use s in simp)
    finally show ?thesis .
  qed
qed

text \<open>An integer of at most 53 significant digits is kept.\<close>

lemma round_scaled_exact:
  assumes "0 \<le> k" "k \<le> 2 ^ 53"
  shows "round_scaled (of_int k * 2 ^ e) = of_int k * 2 ^ e"
proof -
  let ?y = "of_int k * 2 ^ e :: rat"
  let ?s = "shift ?y"
  show ?thesis
  proof (cases "?s \<le> e")
    case True
    then have e: "(2::rat) ^ e = 2 ^ (e - ?s) * 2 ^ ?s" by (simp flip: power_add)
    have "?y / 2 ^ ?s = of_int (k * 2 ^ (e - ?s))"
      by (subst e) simp
    then have "rhe (?y / 2 ^ ?s) = k * 2 ^ (e - ?s)" by (metis rhe_of_int)
    with True show ?thesis by (simp add: round_scaled_def mult.assoc flip: power_add)
  next
    case False
    then have "e + 1 \<le> ?s" by simp
    have up: "(2::rat) ^ (53 + e) \<le> 2 ^ (52 + ?s)"
      by (rule power_increasing) (use False in auto)
    have lo: "2 ^ (52 + ?s) \<le> ?y" by (rule shift_lower) (use False in simp)
    have hi: "?y \<le> 2 ^ (53 + e)"
    proof -
      have "of_int k \<le> (2::rat) ^ 53" using assms(2) by (metis of_int_le_iff of_int_numeral of_int_power)
      then show ?thesis by (simp add: power_add)
    qed
    have y: "?y = 2 ^ (53 + e)" "(2::rat) ^ (53 + e) = 2 ^ (52 + ?s)"
      by (rule antisym [OF hi order_trans [OF up lo]], rule antisym [OF up order_trans [OF lo hi]])
    have cancel: "a = (2::rat) ^ (52 + n) \<Longrightarrow> a / 2 ^ n = of_int (2 ^ 52)" for a n
      by (simp add: power_add)
    have "?y / 2 ^ ?s = of_int (2 ^ 52)"
      by (rule cancel) (rule trans [OF y])
    then have "rhe (?y / 2 ^ ?s) = 2 ^ 52" by (metis rhe_of_int)
    then have "round_scaled ?y = of_int (2 ^ 52) * 2 ^ ?s" by (simp only: round_scaled_def)
    also have "\<dots> = 2 ^ (52 + ?s)" by (simp only: power_add of_int_power of_int_numeral)
    also have "\<dots> = ?y" by (rule trans [OF y, symmetric])
    finally show ?thesis .
  qed
qed

section \<open>Comparison and arithmetic\<close>

fun flt :: "pyfloat \<Rightarrow> pyfloat \<Rightarrow> bool" where
  "flt NaN _ = False"
| "flt _ NaN = False"
| "flt (Fin a) (Fin b) = (a < b)"
| "flt NInf b = (b \<noteq> NInf)"
| "flt a PInf = (a \<noteq> PInf)"
| "flt _ NInf = False"
| "flt PInf _ = False"

fun fle :: "pyfloat \<Rightarrow> pyfloat \<Rightarrow> bool" where
  "fle NaN _ = False"
| "fle _ NaN = False"
| "fle (Fin a) (Fin b) = (a \<le> b)"
| "fle NInf _ = True"
| "fle _ PInf = True"
| "fle a b = (a = b)"

text \<open>\<open>a \<ge> b\<close> and \<open>a > b\<close> are the mirrored tests; \<open>a == b\<close> fails on a NaN.\<close>

abbreviation fge :: "pyfloat \<Rightarrow> pyfloat \<Rightarrow> bool" where
  "fge a b \<equiv> fle b a"

abbreviation fgt :: "pyfloat \<Rightarrow> pyfloat \<Rightarrow> bool" where
  "fgt a b \<equiv> flt b a"

definition feq :: "pyfloat \<Rightarrow> pyfloat \<Rightarrow> bool" where
  "feq a b \<longleftrightarrow> a = b \<and> a \<noteq> NaN"

text \<open>Python's two-argument \<open>min\<close> and \<open>max\<close> keep the first of two equal or unordered values.\<close>

definition fmin :: "pyfloat \<Rightarrow> pyfloat \<Rightarrow> pyfloat" where
  "fmin a b = (if flt b a then b else a)"

definition fmax :: "pyfloat \<Rightarrow> pyfloat \<Rightarrow> pyfloat" where
  "fmax a b = (if fgt b a then b else a)"

fun isfinite :: "pyfloat \<Rightarrow> bool" where
  "isfinite (Fin _) = True"
| "isfinite _ = False"

fun fadd :: "pyfloat \<Rightarrow> pyfloat \<Rightarrow> pyfloat" where
  "fadd NaN _ = NaN"
| "fadd _ NaN = NaN"
| "fadd (Fin a) (Fin b) = fl (a + b)"
| "fadd PInf NInf = NaN"
| "fadd NInf PInf = NaN"
| "fadd PInf _ = PInf"
| "fadd _ PInf = PInf"
| "fadd NInf _ = NInf"
| "fadd _ NInf = NInf"

fun fneg :: "pyfloat \<Rightarrow> pyfloat" where
  "fneg (Fin a) = Fin (- a)"
| "fneg PInf = NInf"
| "fneg NInf = PInf"
| "fneg NaN = NaN"

definition fsub :: "pyfloat \<Rightarrow> pyfloat \<Rightarrow> pyfloat" where
  "fsub a b = fadd a (fneg b)"

fun fmul :: "pyfloat \<Rightarrow> pyfloat \<Rightarrow> pyfloat" where
  "fmul NaN _ = NaN"
| "fmul _ NaN = NaN"
| "fmul (Fin a) (Fin b) = fl (a * b)"
| "fmul (Fin a) b = (if a = 0 then NaN else if (0 < a) = (b = PInf) then PInf else NInf)"
| "fmul a (Fin b) = (if b = 0 then NaN else if (0 < b) = (a = PInf) then PInf else NInf)"
| "fmul a b = (if a = b then PInf else NInf)"

text \<open>
  \<open>float(n)\<close> of an int rounds to nearest and raises when the value is out of range; mixed
  int/float arithmetic converts this way first.
\<close>

definition float_of_int :: "int \<Rightarrow> pyfloat result" where
  "float_of_int n = (case fl (of_int n) of Fin x \<Rightarrow> Inr (Fin x)
     | _ \<Rightarrow> Inl (OverflowError ''int too large to convert to float''))"

text \<open>The truth value of a float: only zero is false.\<close>

definition ftruthy :: "pyfloat \<Rightarrow> bool" where
  "ftruthy x \<longleftrightarrow> x \<noteq> Fin 0"

definition is_double :: "pyfloat \<Rightarrow> bool" where
  "is_double x \<longleftrightarrow> (case x of Fin a \<Rightarrow> fl a = Fin a | _ \<Rightarrow> True)"

lemma fl_0 [simp]: "fl 0 = Fin 0"
  using round_scaled_exact [of 0 0] by (simp add: fl_def not_le)

lemma round_scaled_int:
  assumes "\<bar>n\<bar> \<le> 2 ^ 53"
  shows "round_scaled (\<bar>of_int n\<bar> * unit_scale) = \<bar>of_int n\<bar> * unit_scale"
    and "\<bar>of_int n\<bar> * unit_scale < overflow_bound"
proof -
  show "round_scaled (\<bar>of_int n\<bar> * unit_scale) = \<bar>of_int n\<bar> * unit_scale"
    unfolding unit_scale_def of_int_abs [symmetric]
    by (rule round_scaled_exact) (use assms in auto)
  have "\<bar>of_int n\<bar> \<le> (2::rat) ^ 53"
    using assms by (metis of_int_abs of_int_le_iff of_int_numeral of_int_power)
  then have "\<bar>of_int n\<bar> * unit_scale \<le> (2::rat) ^ 53 * unit_scale"
    by (rule mult_right_mono) simp
  also have "\<dots> = 2 ^ (53 + 1074)" by (simp only: unit_scale_def power_add)
  also have "\<dots> < overflow_bound"
    unfolding overflow_bound_def by (rule power_strict_increasing) auto
  finally show "\<bar>of_int n\<bar> * unit_scale < overflow_bound" .
qed

lemma fl_int: "\<bar>n\<bar> \<le> 2 ^ 53 \<Longrightarrow> fl (of_int n) = Fin (of_int n)"
  using round_scaled_int [of n]
  by (auto simp: fl_def Let_def not_le sgn_if)

lemma fl_numeral: "numeral w \<le> (2::int) ^ 53 \<Longrightarrow> fl (numeral w) = Fin (numeral w)"
  using fl_int [of "numeral w"] by simp

lemma fl_neg: "fl (- x) = fneg (fl x)"
  using round_scaled_exact [of 0 0] by (auto simp: fl_def Let_def sgn_if not_le)

text \<open>Rounding respects the order.\<close>

lemma fl_mono_nonneg:
  assumes "0 \<le> x" "x \<le> y"
  shows "fle (fl x) (fl y)"
proof -
  let ?x = "round_scaled (\<bar>x\<bar> * unit_scale)" and ?y = "round_scaled (\<bar>y\<bar> * unit_scale)"
  have "?x \<le> ?y"
    by (rule round_scaled_mono) (use assms in \<open>auto intro: mult_right_mono\<close>)
  moreover have "0 \<le> ?x" by (rule round_scaled_nonneg) simp
  ultimately show ?thesis
    using assms by (cases "x = 0") (auto simp: fl_def Let_def sgn_if divide_right_mono)
qed

lemma fle_fneg [simp]: "fle (fneg a) (fneg b) = fle b a"
  by (cases a; cases b) auto

lemma fl_not_NaN [simp]: "fl x \<noteq> NaN"
  by (simp add: fl_def Let_def)

lemma fle_trans: "fle a b \<Longrightarrow> fle b c \<Longrightarrow> fle a c"
  by (cases a; cases b; cases c) auto

lemma fle_refl [simp]: "fle a a \<longleftrightarrow> a \<noteq> NaN"
  by (cases a) auto

lemma fle_antisym: "fle a b \<Longrightarrow> fle b a \<Longrightarrow> a = b"
  by (cases a; cases b) auto

lemma fle_linear: "a \<noteq> NaN \<Longrightarrow> b \<noteq> NaN \<Longrightarrow> fle a b \<or> fle b a"
  by (cases a; cases b) auto

lemma not_flt: "a \<noteq> NaN \<Longrightarrow> b \<noteq> NaN \<Longrightarrow> \<not> flt a b \<longleftrightarrow> fle b a"
  by (cases a; cases b) auto

lemma not_fle: "a \<noteq> NaN \<Longrightarrow> b \<noteq> NaN \<Longrightarrow> \<not> fle a b \<longleftrightarrow> flt b a"
  by (cases a; cases b) auto

lemma flt_imp_fle: "flt a b \<Longrightarrow> fle a b"
  by (cases a; cases b) auto

lemma flt_not_NaN: "flt a b \<Longrightarrow> a \<noteq> NaN \<and> b \<noteq> NaN"
  by (cases a; cases b) auto

lemma fle_not_NaN: "fle a b \<Longrightarrow> a \<noteq> NaN \<and> b \<noteq> NaN"
  by (cases a; cases b) auto

lemma flt_irrefl [simp]: "\<not> flt a a"
  by (cases a) auto

lemma flt_NaN_right [simp]: "\<not> flt a NaN" "\<not> fle a NaN"
  by (cases a, auto)+

lemma flt_fle_trans: "flt a b \<Longrightarrow> fle b c \<Longrightarrow> flt a c"
  by (cases a; cases b; cases c) auto

lemma fle_flt_trans: "fle a b \<Longrightarrow> flt b c \<Longrightarrow> flt a c"
  by (cases a; cases b; cases c) auto

lemma flt_fle_contra: "flt a b \<Longrightarrow> fle b a \<Longrightarrow> False"
  by (cases a; cases b) auto

lemma fl_mono: "x \<le> y \<Longrightarrow> fle (fl x) (fl y)"
proof -
  assume xy: "x \<le> y"
  consider "0 \<le> x" | "y \<le> 0" | "x \<le> 0" "0 \<le> y" by linarith
  then show ?thesis
  proof cases
    case 1
    with xy show ?thesis by (intro fl_mono_nonneg)
  next
    case 2
    with xy have "fle (fl (- y)) (fl (- x))" by (intro fl_mono_nonneg) auto
    then show ?thesis by (simp add: fl_neg)
  next
    case 3
    then have "fle (fl 0) (fl (- x))" "fle (fl 0) (fl y)" by (auto intro!: fl_mono_nonneg simp del: fl_0)
    then have "fle (fneg (fneg (fl x))) (fneg (Fin 0))" "fle (Fin 0) (fl y)"
      by (simp_all only: fl_neg fl_0 fle_fneg)
    then show ?thesis by (cases "fl x"; cases "fl y") auto
  qed
qed

text \<open>Adding a nonnegative amount to a double never moves it down.\<close>

lemma fadd_increasing:
  assumes "is_double a" "fle (Fin 0) b" "a \<noteq> NaN" "a \<noteq> NInf"
  shows "fle a (fadd a b)"
proof (cases a)
  case (Fin x)
  show ?thesis
  proof (cases b)
    case (Fin y)
    have "fle (fl x) (fl (x + y))" by (rule fl_mono) (use assms Fin in auto)
    with assms Fin \<open>a = Fin x\<close> show ?thesis by (simp add: is_double_def)
  qed (use assms \<open>a = Fin x\<close> in auto)
next
  case PInf
  with assms show ?thesis by (cases b) auto
qed (use assms in auto)

lemma fmin_fle: "a \<noteq> NaN \<Longrightarrow> b \<noteq> NaN \<Longrightarrow> fle (fmin a b) a \<and> fle (fmin a b) b"
  by (auto simp: fmin_def not_flt intro: flt_imp_fle)

lemma fmin_cases: "fmin a b = a \<or> fmin a b = b"
  by (simp add: fmin_def)

lemma fle_fmin: "fle c (fmin a b) \<longleftrightarrow> fle c a \<and> fle c b" if "a \<noteq> NaN" "b \<noteq> NaN"
  using that by (auto simp: fmin_def not_flt intro: fle_trans flt_imp_fle)

lemma flt_fmin: "flt c (fmin a b) \<longleftrightarrow> flt c a \<and> flt c b" if "a \<noteq> NaN" "b \<noteq> NaN"
  using that by (auto simp: fmin_def not_flt intro: flt_fle_trans dest: flt_imp_fle)

end
