(* ===== verification/PyData.thy ===== *)
theory PyData
  imports PyFloat
begin

text \<open>
  The values of the Python standard library the components exchange.

  \<^item> \<open>datetime\<close>: an aware instant (UTC microseconds and offset), a naive wall clock, or a
    value whose \<open>tzinfo\<close> answers \<open>None\<close>. Ordering an aware value against one without an
    offset raises \<open>TypeError\<close>.
  \<^item> \<open>pyval\<close>: what a JSON-shaped Python object can be. \<open>json_dumps\<close> stands for
    \<open>json.dumps(v, sort_keys=True, separators=(",", ":"), allow_nan=False)\<close>. The text it
    returns is represented by the value that \<open>json.loads\<close> reads back from it, with the keys of
    every object in order: two texts are equal exactly when these trees are.
\<close>

section \<open>Timestamps\<close>

datatype datetime = Aware (utc_micros: int) (tz_offset: int) | Naive int | NoOffset int

fun has_tzinfo :: "datetime \<Rightarrow> bool" where
  "has_tzinfo (Naive _) = False"
| "has_tzinfo _ = True"

fun tz_aware :: "datetime \<Rightarrow> bool" where
  "tz_aware (Aware _ _) = True"
| "tz_aware _ = False"

fun wall :: "datetime \<Rightarrow> int" where
  "wall (Aware u off) = u"
| "wall (Naive w) = w"
| "wall (NoOffset w) = w"

definition dt_comparable :: "datetime \<Rightarrow> datetime \<Rightarrow> bool" where
  "dt_comparable a b \<longleftrightarrow> (tz_aware a \<longleftrightarrow> tz_aware b)"

definition dt_le :: "datetime \<Rightarrow> datetime \<Rightarrow> bool result" where
  "dt_le a b = (if dt_comparable a b then Inr (wall a \<le> wall b)
     else Inl (TypeError ''can't compare offset-naive and offset-aware datetimes''))"

definition dt_lt :: "datetime \<Rightarrow> datetime \<Rightarrow> bool result" where
  "dt_lt a b = (if dt_comparable a b then Inr (wall a < wall b)
     else Inl (TypeError ''can't compare offset-naive and offset-aware datetimes''))"

text \<open>Equality never raises: values of different kinds are unequal, offsets do not matter.\<close>

definition dt_eq :: "datetime \<Rightarrow> datetime \<Rightarrow> bool" where
  "dt_eq a b \<longleftrightarrow> dt_comparable a b \<and> wall a = wall b"

lemma dt_le_aware [simp]: "dt_le (Aware a i) (Aware b j) = Inr (a \<le> b)"
  by (simp add: dt_le_def dt_comparable_def)

lemma dt_lt_aware [simp]: "dt_lt (Aware a i) (Aware b j) = Inr (a < b)"
  by (simp add: dt_lt_def dt_comparable_def)

lemma dt_le_Inr: "dt_le a b = Inr r \<longleftrightarrow> dt_comparable a b \<and> r = (wall a \<le> wall b)"
  by (auto simp: dt_le_def)

lemma dt_lt_Inr: "dt_lt a b = Inr r \<longleftrightarrow> dt_comparable a b \<and> r = (wall a < wall b)"
  by (auto simp: dt_lt_def)

lemma tz_aware_cases: "tz_aware d \<longleftrightarrow> (\<exists>u off. d = Aware u off)"
  by (cases d) auto

lemma dt_comparable_aware [simp]: "tz_aware a \<Longrightarrow> tz_aware b \<Longrightarrow> dt_comparable a b"
  by (simp add: dt_comparable_def)

section \<open>JSON-shaped values\<close>

datatype pyval =
    PNone
  | PBool bool
  | PInt int
  | PFloat pyfloat
  | PStr string
  | PList "pyval list"
  | PTuple "pyval list"
  | PDict "(string \<times> pyval) list"
  | POpaque nat

lemma ebind_cong [fundef_cong]:
  "m = m' \<Longrightarrow> (\<And>x. m' = Inr x \<Longrightarrow> f x = g x) \<Longrightarrow> ebind m f = ebind m' g"
  by (cases m') auto

lemma emap_cong [fundef_cong]:
  "xs = ys \<Longrightarrow> (\<And>x. x \<in> set ys \<Longrightarrow> f x = g x) \<Longrightarrow> emap f xs = emap g ys"
  by (induction xs arbitrary: ys) auto

fun json_dumps :: "pyval \<Rightarrow> pyval result" where
  "json_dumps (PFloat x) =
     (if isfinite x then Inr (PFloat x)
      else Inl (ValueError ''Out of range float values are not JSON compliant''))"
| "json_dumps (PList vs) = ebind (emap json_dumps vs) (\<lambda>ws. Inr (PList ws))"
| "json_dumps (PTuple vs) = ebind (emap json_dumps vs) (\<lambda>ws. Inr (PList ws))"
| "json_dumps (PDict kvs) =
     ebind (emap (\<lambda>(k, v). ebind (json_dumps v) (\<lambda>w. Inr (k, w))) kvs)
       (\<lambda>kws. Inr (PDict (sort_key fst kws)))"
| "json_dumps (POpaque n) = Inl (TypeError ''Object is not JSON serializable'')"
| "json_dumps v = Inr v"

text \<open>\<open>json.loads\<close> of a text written by \<open>json_dumps\<close>.\<close>

definition json_loads :: "pyval \<Rightarrow> pyval" where
  "json_loads t = t"

text \<open>The truth value of an object.\<close>

fun truthy :: "pyval \<Rightarrow> bool" where
  "truthy PNone = False"
| "truthy (PBool b) = b"
| "truthy (PInt n) = (n \<noteq> 0)"
| "truthy (PFloat x) = ftruthy x"
| "truthy (PStr s) = (s \<noteq> [])"
| "truthy (PList vs) = (vs \<noteq> [])"
| "truthy (PTuple vs) = (vs \<noteq> [])"
| "truthy (PDict kvs) = (kvs \<noteq> [])"
| "truthy (POpaque n) = True"

lemma emap_fixed:
  assumes "emap f xs = Inr ys" and "\<And>x y. x \<in> set xs \<Longrightarrow> f x = Inr y \<Longrightarrow> f y = Inr y"
  shows "emap f ys = Inr ys"
  using assms
proof (induction xs arbitrary: ys)
  case Nil
  then show ?case by simp
next
  case (Cons x xs)
  from Cons.prems(1) obtain z zs where z: "f x = Inr z" "emap f xs = Inr zs" "ys = z # zs" by auto
  have "emap f zs = Inr zs" by (rule Cons.IH [OF z(2)]) (rule Cons.prems(2), simp_all)
  moreover have "f z = Inr z" by (rule Cons.prems(2) [OF _ z(1)]) simp
  ultimately show ?case using z(3) by simp
qed

lemma emap_self: "(\<And>x. x \<in> set xs \<Longrightarrow> f x = Inr x) \<Longrightarrow> emap f xs = Inr xs"
  by (induction xs) auto

lemma json_dumps_idem: "json_dumps v = Inr t \<Longrightarrow> json_dumps t = Inr t"
proof (induction v arbitrary: t)
  case (PList vs)
  then show ?case by (auto dest: emap_fixed)
next
  case (PTuple vs)
  then show ?case by (auto dest: emap_fixed)
next
  case (PDict kvs)
  let ?f = "\<lambda>(k, v). ebind (json_dumps v) (\<lambda>w. Inr (k, w))"
  from PDict.prems obtain kws where kws: "emap ?f kvs = Inr kws" "t = PDict (sort_key fst kws)"
    by auto
  have "emap ?f kws = Inr kws"
    using kws(1) by (rule emap_fixed) (use PDict.IH in force)
  then have "list_all2 (\<lambda>x y. ?f x = Inr y) kws kws" by (simp only: emap_Inr_list_all2)
  then have fixed: "?f kw = Inr kw" if "kw \<in> set kws" for kw
    using that by (auto simp: list.rel_refl_strong list_all2_same)
  have "emap ?f (sort_key fst kws) = Inr (sort_key fst kws)"
    by (rule emap_self) (use fixed in auto)
  then show ?case by (simp add: kws(2) sort_key_id_if_sorted)
qed (auto split: if_splits)

section \<open>\<open>str\<close>\<close>

text \<open>
  The text of integers and booleans; \<open>str_of\<close>, a parameter where it is used, is the text of all other
  objects that are not strings.
\<close>

fun nat_str :: "nat \<Rightarrow> string" where
  "nat_str n = (if n < 10 then [char_of (48 + n)] else nat_str (n div 10) @ [char_of (48 + n mod 10)])"

declare nat_str.simps [simp del]

fun int_str :: "int \<Rightarrow> string" where
  "int_str n = (if n < 0 then ''-'' @ nat_str (nat (- n)) else nat_str (nat n))"

definition bool_str :: "bool \<Rightarrow> string" where
  "bool_str b = (if b then ''True'' else ''False'')"

fun str_value :: "(pyval \<Rightarrow> string) \<Rightarrow> pyval \<Rightarrow> string" where
  "str_value str_of (PStr s) = s"
| "str_value str_of v = str_of v"

end
