(* ===== verification/Ephemeral_Leases.thy ===== *)
theory Ephemeral_Leases
  imports PyData
begin

text \<open>
  The lease vocabulary of \<open>long_haul/ephemeral.py\<close>: the lifecycle, attempt and mission enums,
  \<open>ResourceLease\<close> with its validator and its activity window, and the attempt and mission records
  the event log is replayed into. The lease controller of the same file is in
  \<open>Lease_Controller\<close>, after the event store it writes to.

  A time argument that defaults to \<open>datetime.now(UTC)\<close> takes the clock reading as an extra
  argument (\<open>default_now\<close>).
\<close>

section \<open>Enumerations\<close>

datatype vessel_lifecycle = PERSISTENT | EPHEMERAL | EXTERNAL

datatype attempt_status = RUNNING | INCONCLUSIVE | TIMED_OUT | COMPLETED

datatype attempt_termination = LEASE_LOST | RUNNER_INTERRUPTED | EXECUTION_TIMEOUT

datatype mission_run_status = M_ACTIVE | REPLAN_REQUIRED | M_COMPLETED

text \<open>The enum values, and the lookup by value that \<open>AttemptTermination(value)\<close> performs.\<close>

fun termination_value :: "attempt_termination \<Rightarrow> string" where
  "termination_value LEASE_LOST = ''lease_lost''"
| "termination_value RUNNER_INTERRUPTED = ''runner_interrupted''"
| "termination_value EXECUTION_TIMEOUT = ''execution_timeout''"

definition attempt_termination_of :: "string \<Rightarrow> attempt_termination result" where
  "attempt_termination_of value =
     (if value = ''lease_lost'' then Inr LEASE_LOST
      else if value = ''runner_interrupted'' then Inr RUNNER_INTERRUPTED
      else if value = ''execution_timeout'' then Inr EXECUTION_TIMEOUT
      else Inl (ValueError ''not a valid AttemptTermination''))"

lemma attempt_termination_of_value [simp]: "attempt_termination_of (termination_value t) = Inr t"
  by (cases t) (simp_all add: attempt_termination_of_def)

lemma termination_value_inject [simp]: "termination_value a = termination_value b \<longleftrightarrow> a = b"
  by (cases a; cases b) simp_all

section \<open>Resource leases\<close>

record resource_lease =
  lease_ident :: string
  acquired_at :: datetime
  lease_expires_at :: "datetime option"
  preemptible :: bool
  renewable :: bool
  trust_domain :: string
  durable_state :: bool
  cost_metadata :: "pyval option"

text \<open>The field constraints (nonempty strings), then \<open>validate_lease\<close>.\<close>

definition validate_lease :: "resource_lease \<Rightarrow> resource_lease result" where
  "validate_lease l =
     ebind (guard (lease_ident l \<noteq> [] \<and> trust_domain l \<noteq> []) (ValueError ''string too short'')) (\<lambda>_.
     ebind (guard (tz_aware (acquired_at l)) (ValueError ''lease acquired_at must be timezone-aware'')) (\<lambda>_.
     ebind (case lease_expires_at l of
         None \<Rightarrow> Inr ()
       | Some e \<Rightarrow>
           ebind (guard (tz_aware e) (ValueError ''lease expires_at must be timezone-aware'')) (\<lambda>_.
           ebind (dt_le e (acquired_at l)) (\<lambda>early.
           guard (\<not> early) (ValueError ''lease expires_at must be after acquired_at'')))) (\<lambda>_.
     ebind (case cost_metadata l of
         None \<Rightarrow> Inr ()
       | Some c \<Rightarrow> ebind (json_dumps c) (\<lambda>_. Inr ())) (\<lambda>_.
     Inr l))))"

definition default_now :: "datetime option \<Rightarrow> datetime \<Rightarrow> datetime" where
  "default_now value now = (case value of None \<Rightarrow> now | Some d \<Rightarrow> d)"

text \<open>\<open>ResourceLease.active\<close>: acquisition inclusive, expiry exclusive.\<close>

definition lease_active :: "resource_lease \<Rightarrow> datetime \<Rightarrow> bool result" where
  "lease_active l instant =
     ebind (guard (tz_aware instant) (ValueError ''lease checks require a timezone-aware time'')) (\<lambda>_.
     ebind (dt_le (acquired_at l) instant) (\<lambda>started.
     if \<not> started then Inr False
     else case lease_expires_at l of None \<Rightarrow> Inr True | Some e \<Rightarrow> dt_lt instant e))"

definition instant_of :: "datetime option \<Rightarrow> datetime \<Rightarrow> datetime result" where
  "instant_of value now = (let instant = default_now value now in
     ebind (guard (tz_aware instant) (ValueError ''lease lifecycle timestamps must be timezone-aware''))
       (\<lambda>_. Inr instant))"

section \<open>Attempts and missions\<close>

record work_attempt =
  att_id :: string
  att_mission_id :: string
  att_vessel_id :: string
  att_lease_id :: string
  att_restartable :: bool
  att_status :: attempt_status
  att_termination :: "attempt_termination option"
  att_started_at :: datetime
  att_ended_at :: "datetime option"
  att_start_event_id :: string
  att_end_event_id :: "string option"

record mission_run =
  run_mission_id :: string
  run_status :: mission_run_status
  attempt_ids :: "string list"
  active_attempt_ids :: "string list"

section \<open>Validity and the activity window\<close>

text \<open>A valid lease is one the validator returns unchanged.\<close>

definition lease_ok :: "resource_lease \<Rightarrow> bool" where
  "lease_ok l \<longleftrightarrow> validate_lease l = Inr l"

lemma validate_lease_id: "validate_lease l = Inr l' \<Longrightarrow> l' = l"
  by (auto simp: validate_lease_def)

lemma lease_ok_aware: "lease_ok l \<Longrightarrow> tz_aware (acquired_at l)"
  by (auto simp: lease_ok_def validate_lease_def)

lemma lease_ok_expires:
  "lease_ok l \<Longrightarrow> lease_expires_at l = Some e \<Longrightarrow> tz_aware e \<and> wall (acquired_at l) < wall e"
  by (auto simp: lease_ok_def validate_lease_def dt_le_Inr not_le)

lemma instant_of_Inr: "instant_of v now = Inr t \<longleftrightarrow> t = default_now v now \<and> tz_aware t"
  by (auto simp: instant_of_def Let_def)

text \<open>On a valid lease the activity test never raises and is the half-open window.\<close>

lemma lease_active_ok:
  assumes "lease_ok l" "tz_aware t"
  shows "lease_active l t = Inr (wall (acquired_at l) \<le> wall t
           \<and> (case lease_expires_at l of None \<Rightarrow> True | Some e \<Rightarrow> wall t < wall e))"
  using assms lease_ok_aware [OF assms(1)] lease_ok_expires [OF assms(1)]
  by (auto simp: lease_active_def dt_le_def dt_lt_def split: option.splits)

lemma lease_active_Inr_True:
  "lease_active l t = Inr True \<Longrightarrow> tz_aware t \<and> wall (acquired_at l) \<le> wall t
     \<and> (\<forall>e. lease_expires_at l = Some e \<longrightarrow> wall t < wall e)"
  by (auto simp: lease_active_def dt_le_Inr dt_lt_Inr split: option.splits if_splits)

text \<open>Renewal keeps a lease valid: the new expiry is aware and later than the acquisition.\<close>

lemma lease_ok_extend:
  assumes "lease_ok l" "tz_aware e" "wall (acquired_at l) < wall e"
  shows "lease_ok (l\<lparr>lease_expires_at := Some e\<rparr>)"
  using assms lease_ok_aware [OF assms(1)]
  by (auto simp: lease_ok_def validate_lease_def dt_le_def split: option.splits)

end
