(* ===== verification/Domain_Models.thy ===== *)
theory Domain_Models
  imports Ephemeral_Leases
begin

text \<open>
  The domain records of \<open>long_haul/models.py\<close>: capacities with their unit conversion, resources,
  links, vessels, model artifacts, inference profiles, embodiments, crew members and execution
  plans, each with the pydantic validator the class declares. A validator returns the record it
  leaves behind or the exception it raises.

  \<open>digest\<close> (SHA-256 of the canonical text) is a parameter of the artifact key: nothing here
  depends on which digest it is.
\<close>

section \<open>Enumerations\<close>

datatype execution_mode = LOCAL | POOL | PIPELINE | COMPOSE

datatype position = SUPPORT | CONSENT | STAND_ASIDE | CONCERN | OBJECT | BLOCK | ABSTAIN | UNKNOWN_POSITION

datatype resource_kind = CPU | GPU | NPU | MEMORY | STORAGE | SENSOR | OTHER

datatype capacity_kind = KMemory | KStorage | KCompute | KPower

datatype capacity_unit = MiB | GiB | Bytes | TOPS | Watts

datatype link_kind = Pcie | MemoryLink | Tailscale | Ethernet | StorageBus | OtherLink

datatype vessel_class = Station | Ship | LightCraft

definition all_modes :: "execution_mode list" where
  "all_modes = [LOCAL, POOL, PIPELINE, COMPOSE]"

lemma set_all_modes: "set all_modes = UNIV"
  using execution_mode.exhaust by (auto simp: all_modes_def)

fun mode_lower :: "execution_mode \<Rightarrow> string" where
  "mode_lower LOCAL = ''local''"
| "mode_lower POOL = ''pool''"
| "mode_lower PIPELINE = ''pipeline''"
| "mode_lower COMPOSE = ''compose''"

section \<open>Capacities\<close>

record capacity =
  cap_kind :: capacity_kind
  cap_amount :: pyfloat
  cap_unit :: capacity_unit

fun units_of :: "capacity_kind \<Rightarrow> capacity_unit list" where
  "units_of KMemory = [MiB, GiB, Bytes]"
| "units_of KStorage = [MiB, GiB, Bytes]"
| "units_of KCompute = [TOPS]"
| "units_of KPower = [Watts]"

fun unit_factor :: "capacity_unit \<Rightarrow> pyfloat result" where
  "unit_factor MiB = Inr (Fin 1)"
| "unit_factor GiB = Inr (Fin 1024)"
| "unit_factor Bytes = Inr (Fin (1 / (1024 * 1024)))"
| "unit_factor _ = Inl (KeyError ''unit'')"

definition as_mib :: "capacity \<Rightarrow> pyfloat result" where
  "as_mib c =
     ebind (guard (cap_kind c \<in> {KMemory, KStorage})
       (ValueError ''only memory/storage capacities convert to MiB'')) (\<lambda>_.
     ebind (unit_factor (cap_unit c)) (\<lambda>factor.
     let converted = fmul (cap_amount c) factor in
     ebind (guard (isfinite converted) (ValueError ''capacity conversion exceeds finite MiB range'')) (\<lambda>_.
     Inr converted)))"

text \<open>The field constraint (\<open>ge=0\<close>, finite), then \<open>compatible_unit\<close>.\<close>

definition validate_capacity :: "capacity \<Rightarrow> capacity result" where
  "validate_capacity c =
     ebind (guard (isfinite (cap_amount c) \<and> fge (cap_amount c) (Fin 0)) (ValueError ''amount'')) (\<lambda>_.
     ebind (guard (cap_unit c \<in> set (units_of (cap_kind c)))
       (ValueError ''incompatible capacity kind/unit'')) (\<lambda>_.
     if cap_kind c \<in> {KMemory, KStorage} then ebind (as_mib c) (\<lambda>_. Inr c) else Inr c))"

definition capacity_ok :: "capacity \<Rightarrow> bool" where
  "capacity_ok c \<longleftrightarrow> validate_capacity c = Inr c"

lemma validate_capacity_id: "validate_capacity c = Inr c' \<Longrightarrow> c' = c"
  by (auto simp: validate_capacity_def split: if_splits)

text \<open>A valid memory or storage capacity converts to a finite, nonnegative amount of MiB.\<close>

lemma unit_factor_pos: "unit_factor u = Inr f \<Longrightarrow> \<exists>x. f = Fin x \<and> 0 < x"
  by (cases u) auto

lemma fmul_nonneg: "fle (Fin 0) a \<Longrightarrow> fle (Fin 0) b \<Longrightarrow> fmul a b \<noteq> NaN \<Longrightarrow> fle (Fin 0) (fmul a b)"
  using fl_mono [of 0 "x * y" for x y] by (cases a; cases b) (auto split: if_splits)

lemma capacity_ok_as_mib:
  assumes "capacity_ok c" "cap_kind c \<in> {KMemory, KStorage}"
  shows "\<exists>x. as_mib c = Inr (Fin x) \<and> 0 \<le> x"
proof -
  from assms obtain m where m: "as_mib c = Inr m" and amt: "fle (Fin 0) (cap_amount c)"
    by (auto simp: capacity_ok_def validate_capacity_def split: if_splits)
  from m obtain f where f: "unit_factor (cap_unit c) = Inr f" "m = fmul (cap_amount c) f" "isfinite m"
    by (auto simp: as_mib_def Let_def)
  obtain x where "m = Fin x" using f(3) by (cases m) auto
  moreover have "fle (Fin 0) (fmul (cap_amount c) f)"
    by (rule fmul_nonneg [OF amt]) (use unit_factor_pos [OF f(1)] f(2) \<open>m = Fin x\<close> in auto)
  with f(2) have "fle (Fin 0) m" by simp
  ultimately show ?thesis using m by auto
qed

section \<open>Resources\<close>

record resource =
  res_id :: string
  res_kind :: resource_kind
  res_model :: "string option"
  res_architecture :: "string option"
  res_capacities :: "capacity list"
  res_memory_mb :: "int option"
  res_notes :: "string option"
  res_metadata :: "(string \<times> pyval) list"

text \<open>
  Field validation (each capacity, \<open>memory_mb\<close> not negative), then \<open>migrate_memory_mb\<close>: a legacy
  size becomes a memory capacity when the record has none, and capacity kinds must be distinct.
\<close>

definition migrate_memory_mb :: "int option \<Rightarrow> capacity list \<Rightarrow> capacity list result" where
  "migrate_memory_mb mb caps = (case mb of
       None \<Rightarrow> Inr caps
     | Some n \<Rightarrow>
         if \<exists>c \<in> set caps. cap_kind c = KMemory then Inr caps
         else ebind (float_of_int n) (\<lambda>x.
              ebind (validate_capacity \<lparr>cap_kind = KMemory, cap_amount = x, cap_unit = MiB\<rparr>) (\<lambda>c.
              Inr (caps @ [c]))))"

definition validate_resource :: "resource \<Rightarrow> resource result" where
  "validate_resource r =
     ebind (emap validate_capacity (res_capacities r)) (\<lambda>caps.
     ebind (guard (case res_memory_mb r of None \<Rightarrow> True | Some n \<Rightarrow> 0 \<le> n) (ValueError ''memory_mb'')) (\<lambda>_.
     ebind (migrate_memory_mb (res_memory_mb r) caps) (\<lambda>caps'.
     ebind (guard (distinct (map cap_kind caps'))
       (ValueError ''resource capacity kinds must be unique; capacities are not additive'')) (\<lambda>_.
     Inr (r\<lparr>res_capacities := caps'\<rparr>)))))"

text \<open>\<open>capacity_mib\<close> converts the first capacity of the kind.\<close>

fun first_mib :: "capacity list \<Rightarrow> capacity_kind \<Rightarrow> pyfloat option result" where
  "first_mib [] kind = Inr None"
| "first_mib (c # cs) kind =
     (if cap_kind c \<noteq> kind then first_mib cs kind else ebind (as_mib c) (\<lambda>m. Inr (Some m)))"

definition capacity_mib :: "resource \<Rightarrow> capacity_kind \<Rightarrow> pyfloat option result" where
  "capacity_mib r kind = first_mib (res_capacities r) kind"

definition resource_ok :: "resource \<Rightarrow> bool" where
  "resource_ok r \<longleftrightarrow> validate_resource r = Inr r"

lemma emap_validate_id: "emap validate_capacity cs = Inr cs' \<Longrightarrow> cs' = cs \<and> (\<forall>c \<in> set cs. capacity_ok c)"
  by (induction cs arbitrary: cs') (auto simp: capacity_ok_def dest: validate_capacity_id)

lemma emap_validate_ok: "(\<forall>c \<in> set cs. capacity_ok c) \<Longrightarrow> emap validate_capacity cs = Inr cs"
  by (induction cs) (auto simp: capacity_ok_def)

lemma capacity_ok_validated: "validate_capacity c = Inr c' \<Longrightarrow> capacity_ok c'"
  by (auto simp: capacity_ok_def dest: validate_capacity_id)

lemma migrate_memory_mb_ok:
  assumes "migrate_memory_mb mb caps = Inr caps'"
  shows "(\<forall>c \<in> set caps. capacity_ok c) \<Longrightarrow> (\<forall>c \<in> set caps'. capacity_ok c)"
    and "mb = None \<or> (\<exists>c \<in> set caps'. cap_kind c = KMemory)"
  using assms
  by (auto simp: migrate_memory_mb_def dest: capacity_ok_validated validate_capacity_id
    split: option.splits if_splits)

lemma migrate_memory_mb_idle:
  "mb = None \<or> (\<exists>c \<in> set caps. cap_kind c = KMemory) \<Longrightarrow> migrate_memory_mb mb caps = Inr caps"
  by (auto simp: migrate_memory_mb_def split: option.splits)

text \<open>Validation is idempotent: what it returns is valid, so replaying a stored record changes nothing.\<close>

lemma validate_resource_ok:
  assumes "validate_resource r = Inr r'"
  shows "resource_ok r'" "distinct (map cap_kind (res_capacities r'))"
    "\<forall>c \<in> set (res_capacities r'). capacity_ok c"
proof -
  from assms obtain caps caps' where caps: "emap validate_capacity (res_capacities r) = Inr caps"
    and nonneg: "case res_memory_mb r of None \<Rightarrow> True | Some n \<Rightarrow> 0 \<le> n"
    and mig: "migrate_memory_mb (res_memory_mb r) caps = Inr caps'"
    and dist: "distinct (map cap_kind caps')"
    and r': "r' = r\<lparr>res_capacities := caps'\<rparr>"
    by (auto simp: validate_resource_def)
  from emap_validate_id [OF caps] migrate_memory_mb_ok [OF mig]
  have ok: "\<forall>c \<in> set caps'. capacity_ok c"
    and idle: "migrate_memory_mb (res_memory_mb r) caps' = Inr caps'"
    by (auto intro: migrate_memory_mb_idle)
  show "\<forall>c \<in> set (res_capacities r'). capacity_ok c" "distinct (map cap_kind (res_capacities r'))"
    using ok dist by (simp_all add: r')
  show "resource_ok r'"
    using emap_validate_ok [OF ok] nonneg dist idle
    by (simp add: resource_ok_def validate_resource_def r')
qed

lemma first_mib_ok:
  assumes "\<forall>c \<in> set cs. capacity_ok c" "kind \<in> {KMemory, KStorage}"
  shows "\<exists>m. first_mib cs kind = Inr m \<and> (\<forall>x. m = Some x \<longrightarrow> fle (Fin 0) x \<and> isfinite x)"
  using assms by (induction cs) (fastforce dest: capacity_ok_as_mib)+

lemma resource_ok_capacities: "resource_ok r \<Longrightarrow> \<forall>c \<in> set (res_capacities r). capacity_ok c"
  using validate_resource_ok(3) by (auto simp: resource_ok_def)

section \<open>Links and vessels\<close>

record link =
  link_source :: string
  link_target :: string
  link_kind_of :: link_kind
  link_direct :: "bool option"
  latency_ms :: "pyfloat option"
  read_gbps :: "pyfloat option"
  write_gbps :: "pyfloat option"
  throughput_mbps :: "pyfloat option"
  link_path :: "string option"
  link_measured :: bool
  link_notes :: "string option"

definition nonneg_field :: "pyfloat option \<Rightarrow> bool" where
  "nonneg_field x = (case x of None \<Rightarrow> True | Some v \<Rightarrow> fge v (Fin 0))"

definition validate_link :: "link \<Rightarrow> link result" where
  "validate_link l =
     ebind (guard (nonneg_field (latency_ms l) \<and> nonneg_field (read_gbps l)
              \<and> nonneg_field (write_gbps l) \<and> nonneg_field (throughput_mbps l)) (ValueError ''link''))
       (\<lambda>_. Inr l)"

record vessel =
  vessel_id :: string
  vessel_name :: string
  class_name :: vessel_class
  tailscale_name :: "string option"
  vessel_resources :: "resource list"
  vessel_links :: "link list"
  lifecycle :: vessel_lifecycle
  vessel_lease :: "resource_lease option"

text \<open>Field validation of the nested records, then \<open>resource_references_exist\<close>.\<close>

definition validate_lease_option :: "resource_lease option \<Rightarrow> resource_lease option result" where
  "validate_lease_option lo =
     (case lo of None \<Rightarrow> Inr None | Some l \<Rightarrow> ebind (validate_lease l) (\<lambda>l'. Inr (Some l')))"

definition resource_references_exist :: "vessel \<Rightarrow> vessel result" where
  "resource_references_exist v = (let ids = map res_id (vessel_resources v) in
     ebind (guard (distinct ids) (ValueError ''resource ids must be unique within a vessel'')) (\<lambda>_.
     ebind (guard (\<forall>l \<in> set (vessel_links v). link_source l \<in> set ids \<and> link_target l \<in> set ids)
       (ValueError ''links must reference vessel resources'')) (\<lambda>_.
     ebind (guard (\<not> (lifecycle v \<noteq> PERSISTENT \<and> vessel_lease v = None))
       (ValueError ''ephemeral and external vessels require a resource lease'')) (\<lambda>_.
     ebind (guard (\<not> (lifecycle v = PERSISTENT \<and> vessel_lease v \<noteq> None))
       (ValueError ''persistent vessels cannot carry an ephemeral resource lease'')) (\<lambda>_.
     Inr v)))))"

definition validate_vessel :: "vessel \<Rightarrow> vessel result" where
  "validate_vessel v =
     ebind (emap validate_resource (vessel_resources v)) (\<lambda>rs.
     ebind (emap validate_link (vessel_links v)) (\<lambda>ls.
     ebind (validate_lease_option (vessel_lease v)) (\<lambda>lo.
     resource_references_exist (v\<lparr>vessel_resources := rs, vessel_links := ls, vessel_lease := lo\<rparr>))))"

definition vessel_ok :: "vessel \<Rightarrow> bool" where
  "vessel_ok v \<longleftrightarrow> validate_vessel v = Inr v"

lemma validate_link_id: "validate_link l = Inr l' \<Longrightarrow> l' = l"
  by (auto simp: validate_link_def)

lemma validate_lease_option_id: "validate_lease_option lo = Inr lo' \<Longrightarrow> lo' = lo"
  by (auto simp: validate_lease_option_def split: option.splits dest: validate_lease_id)

lemma resource_references_exist_id: "resource_references_exist v = Inr v' \<Longrightarrow> v' = v"
  by (auto simp: resource_references_exist_def Let_def)

lemma validate_vessel_id: "validate_vessel v = Inr v' \<Longrightarrow> vessel_id v' = vessel_id v
    \<and> vessel_lease v' = vessel_lease v \<and> lifecycle v' = lifecycle v"
  by (auto simp: validate_vessel_def dest!: resource_references_exist_id validate_lease_option_id)

lemma vessel_ok_lease: "vessel_ok v \<Longrightarrow> vessel_lease v = Some l \<Longrightarrow> lease_ok l"
  using validate_lease_id [of l]
  by (auto simp: vessel_ok_def validate_vessel_def validate_lease_option_def lease_ok_def)

lemma vessel_ok_lifecycle:
  "vessel_ok v \<Longrightarrow> vessel_lease v = None \<longleftrightarrow> lifecycle v = PERSISTENT"
  by (auto simp: vessel_ok_def validate_vessel_def resource_references_exist_def Let_def
    dest!: validate_lease_option_id)

section \<open>Artifacts, profiles, crew and plans\<close>

record model_artifact =
  foundation :: string
  revision :: "string option"
  quantization :: "string option"
  adapters :: "string list"
  auxiliary_artifacts :: "string list"

definition opt_str :: "string option \<Rightarrow> pyval" where
  "opt_str s = (case s of None \<Rightarrow> PNone | Some x \<Rightarrow> PStr x)"

definition artifact_dump :: "model_artifact \<Rightarrow> pyval" where
  "artifact_dump a = PDict
     [(''foundation'', PStr (foundation a)), (''revision'', opt_str (revision a)),
      (''quantization'', opt_str (quantization a)), (''adapters'', PList (map PStr (adapters a))),
      (''auxiliary_artifacts'', PList (map PStr (auxiliary_artifacts a)))]"

definition artifact_key :: "(pyval \<Rightarrow> string) \<Rightarrow> model_artifact \<Rightarrow> string result" where
  "artifact_key digest a =
     ebind (json_dumps (artifact_dump a)) (\<lambda>encoded. Inr (''artifact-v2:'' @ digest encoded))"

record inference_profile =
  profile_id :: string
  profile_runtime_id :: string
  strategy :: string
  profile_artifact :: model_artifact
  participating_resources :: "string list"
  requirements :: "capacity list"
  profile_options :: "(string \<times> pyval) list"
  profile_schema_version :: int

fun kind_value :: "capacity_kind \<Rightarrow> string" where
  "kind_value KMemory = ''memory''"
| "kind_value KStorage = ''storage''"
| "kind_value KCompute = ''compute''"
| "kind_value KPower = ''power''"

fun unit_value :: "capacity_unit \<Rightarrow> string" where
  "unit_value MiB = ''MiB''"
| "unit_value GiB = ''GiB''"
| "unit_value Bytes = ''bytes''"
| "unit_value TOPS = ''TOPS''"
| "unit_value Watts = ''watts''"

definition capacity_dump :: "capacity \<Rightarrow> pyval" where
  "capacity_dump c = PDict [(''kind'', PStr (kind_value (cap_kind c))),
     (''amount'', PFloat (cap_amount c)), (''unit'', PStr (unit_value (cap_unit c)))]"

definition profile_dump :: "inference_profile \<Rightarrow> pyval" where
  "profile_dump p = PDict
     [(''id'', PStr (profile_id p)), (''runtime_id'', PStr (profile_runtime_id p)),
      (''strategy'', PStr (strategy p)), (''artifact'', artifact_dump (profile_artifact p)),
      (''participating_resources'', PList (map PStr (participating_resources p))),
      (''requirements'', PList (map capacity_dump (requirements p))),
      (''options'', PDict (profile_options p)), (''schema_version'', PInt (profile_schema_version p))]"

definition profile_identity :: "inference_profile \<Rightarrow> pyval result" where
  "profile_identity p = json_dumps (profile_dump p)"

text \<open>Nonempty resources, valid requirements, then \<open>unambiguous_options\<close>.\<close>

definition validate_profile :: "inference_profile \<Rightarrow> inference_profile result" where
  "validate_profile p =
     ebind (guard (participating_resources p \<noteq> []) (ValueError ''participating_resources'')) (\<lambda>_.
     ebind (emap validate_capacity (requirements p)) (\<lambda>_.
     ebind (json_dumps (PDict (profile_options p))) (\<lambda>_. Inr p)))"

record competence =
  comp_domain :: string
  sample_count :: int
  success_rate :: "pyfloat option"
  calibration_error :: "pyfloat option"

record embodiment =
  emb_artifact :: "model_artifact option"
  emb_model :: "string option"
  emb_vessel :: string
  emb_resource :: "string option"
  emb_runtime :: "string option"
  emb_profile_id :: "string option"

definition validate_embodiment :: "embodiment \<Rightarrow> embodiment result" where
  "validate_embodiment e =
     (let e' = (case (emb_artifact e, emb_model e) of
          (None, Some m) \<Rightarrow>
            if m = [] then e
            else e\<lparr>emb_artifact := Some \<lparr>foundation = m, revision = None, quantization = None,
                   adapters = [], auxiliary_artifacts = []\<rparr>\<rparr>
        | _ \<Rightarrow> e)
      in ebind (guard (emb_artifact e' \<noteq> None) (ValueError ''embodiment needs artifact or legacy model''))
           (\<lambda>_. Inr e'))"

record crew_member =
  crew_id :: string
  callsign :: string
  primary_role :: string
  crew_scopes :: "string list"
  permissions :: "string list"
  crew_embodiment :: "embodiment option"
  crew_competence :: "competence list"
  generation :: int

record decision_position =
  participant :: string
  pos_position :: position
  pos_category :: "string option"
  pos_rationale :: "string option"
  pos_evidence :: "string list"

record execution_plan =
  plan_id :: string
  plan_mode :: execution_mode
  plan_crew :: "string list"
  plan_vessels :: "string list"
  plan_resources :: "string list"
  plan_profile_id :: "string option"
  estimated_value :: "pyfloat option"
  plan_notes :: "string option"

text \<open>Equal identities mean equal components, adapter and auxiliary order included.\<close>

lemma map_PStr_inject: "map PStr xs = map PStr ys \<longleftrightarrow> xs = ys"
  by (simp add: inj_map_eq_map inj_def)

lemma opt_str_inject: "opt_str a = opt_str b \<longleftrightarrow> a = b"
  by (auto simp: opt_str_def split: option.splits)

lemma artifact_dump_inject: "artifact_dump a = artifact_dump b \<longleftrightarrow> a = b"
  by (cases a; cases b) (auto simp: artifact_dump_def map_PStr_inject opt_str_inject)

lemma emap_dumps_PStr [simp]: "emap json_dumps (map PStr xs) = Inr (map PStr xs)"
  by (induction xs) auto

lemma json_dumps_opt_str [simp]: "json_dumps (opt_str s) = Inr (opt_str s)"
  by (cases s) (auto simp: opt_str_def)

lemma json_dumps_artifact:
  "json_dumps (artifact_dump a) = Inr (PDict
     [(''adapters'', PList (map PStr (adapters a))),
      (''auxiliary_artifacts'', PList (map PStr (auxiliary_artifacts a))),
      (''foundation'', PStr (foundation a)), (''quantization'', opt_str (quantization a)),
      (''revision'', opt_str (revision a))])"
  by (simp add: artifact_dump_def less_char_def less_eq_char_def)

end
