(* ===== verification/Fleet_Events.thy ===== *)
theory Fleet_Events
  imports Domain_Models
begin

text \<open>
  The append-only event store and its replay, \<open>long_haul/events/store.py\<close>.

  An \<open>event\<close> carries a payload dictionary. A payload value is the pydantic dump of a record
  (\<open>VVessel\<close>, \<open>VLease\<close>, \<open>VEmbodiment\<close>, \<open>VCompetence\<close>), a string, a list of strings, a
  boolean, an integer or another JSON value; reading a missing key raises \<open>KeyError\<close> and a value
  of the wrong shape fails validation. The store is the list of the lines written so far, each
  standing for the event pydantic reads back from it, or \<open>None\<close> before the file exists. Each
  \<open>_apply_*\<close> handler of the file is a function on \<open>fleet_state\<close>; the dictionaries of that state
  keep insertion order. \<open>materialize\<close> folds the handlers over a log.
\<close>

section \<open>Events and the store\<close>

datatype event_type =
    E_observation | E_self_report | E_inference | E_unknown | E_request | E_decision
  | E_embodiment_change | E_competence_update | E_rupture | E_repair
  | E_resource_admitted | E_resource_lease_renewed | E_resource_disappeared
  | E_work_contract_created | E_work_attempt_started | E_work_attempt_completed
  | E_work_attempt_interrupted | E_work_attempt_timed_out | E_work_evidence
  | E_work_disposition | E_work_fact | E_work_constraint | E_work_subgoal
  | E_work_failure | E_work_failure_resolved | E_work_artifact_verified
  | E_evaluation_started | E_evaluation_evidence | E_evaluation_regression
  | E_work_progress_intervention | E_work_attempt_handed_back

datatype pvalue =
    VVessel vessel
  | VLease resource_lease
  | VEmbodiment embodiment
  | VCompetence "competence list"
  | VStr string
  | VStrs "string list"
  | VBool bool
  | VInt int
  | VOther pyval

type_synonym payload = "(string \<times> pvalue) list"

record event =
  ev_id :: string
  ev_timestamp :: datetime
  ev_type :: event_type
  ev_actor :: "string option"
  ev_source :: "string option"
  ev_payload :: payload

type_synonym event_store = "event list option"

definition store_append :: "event_store \<Rightarrow> event \<Rightarrow> event_store" where
  "store_append s e = Some ((case s of None \<Rightarrow> [] | Some es \<Rightarrow> es) @ [e])"

definition store_events :: "event_store \<Rightarrow> event list" where
  "store_events s = (case s of None \<Rightarrow> [] | Some es \<Rightarrow> es)"

text \<open>\<open>payload[key]\<close>, and the conversions of a payload value to the type its reader needs.\<close>

definition pget :: "payload \<Rightarrow> string \<Rightarrow> pvalue result" where
  "pget p k = (case map_of p k of None \<Rightarrow> Inl (KeyError k) | Some v \<Rightarrow> Inr v)"

fun as_str :: "pvalue \<Rightarrow> string result" where
  "as_str (VStr s) = Inr s"
| "as_str _ = Inl (ValueError ''validation error: string'')"

fun as_strs :: "pvalue \<Rightarrow> string list result" where
  "as_strs (VStrs s) = Inr s"
| "as_strs _ = Inl (TypeError ''not a list of strings'')"

fun as_bool :: "pvalue \<Rightarrow> bool result" where
  "as_bool (VBool b) = Inr b"
| "as_bool _ = Inl (ValueError ''validation error: bool'')"

fun as_int :: "pvalue \<Rightarrow> int result" where
  "as_int (VInt n) = Inr n"
| "as_int _ = Inl (TypeError ''not an int'')"

fun as_vessel :: "pvalue \<Rightarrow> vessel result" where
  "as_vessel (VVessel v) = validate_vessel v"
| "as_vessel _ = Inl (ValueError ''validation error: vessel'')"

fun as_lease :: "pvalue \<Rightarrow> resource_lease result" where
  "as_lease (VLease l) = validate_lease l"
| "as_lease _ = Inl (ValueError ''validation error: lease'')"

fun as_embodiment :: "pvalue \<Rightarrow> embodiment result" where
  "as_embodiment (VEmbodiment e) = validate_embodiment e"
| "as_embodiment _ = Inl (ValueError ''validation error: embodiment'')"

fun as_competence :: "pvalue \<Rightarrow> competence list result" where
  "as_competence (VCompetence cs) = Inr cs"
| "as_competence _ = Inl (TypeError ''not a competence list'')"

definition pget_str :: "payload \<Rightarrow> string \<Rightarrow> string result" where
  "pget_str p k = ebind (pget p k) as_str"

section \<open>The replayed state\<close>

record fleet_state =
  crew :: "(string, crew_member) dict"
  ruptures :: "payload list"
  vessels :: "(string, vessel) dict"
  unavailable_vessels :: "(string, string) dict"
  attempts :: "(string, work_attempt) dict"
  missions :: "(string, mission_run) dict"

text \<open>\<open>FleetState.active_vessels\<close>: admitted, not lost, and covered by the lease now.\<close>

fun vessel_covered :: "fleet_state \<Rightarrow> datetime \<Rightarrow> vessel \<Rightarrow> bool result" where
  "vessel_covered st instant v =
     (if vessel_id v \<in> fst ` set (unavailable_vessels st) then Inr False
      else case vessel_lease v of None \<Rightarrow> Inr True | Some l \<Rightarrow> lease_active l instant)"

fun efilter :: "('a \<Rightarrow> bool result) \<Rightarrow> 'a list \<Rightarrow> 'a list result" where
  "efilter P [] = Inr []"
| "efilter P (x # xs) =
     ebind (P x) (\<lambda>b. ebind (efilter P xs) (\<lambda>ys. Inr (if b then x # ys else ys)))"

definition active_vessels :: "fleet_state \<Rightarrow> datetime option \<Rightarrow> datetime \<Rightarrow> vessel list result" where
  "active_vessels st value now = (let instant = default_now value now in
     ebind (guard (tz_aware instant) (ValueError ''fleet snapshots require a timezone-aware time'')) (\<lambda>_.
     efilter (vessel_covered st instant) (map snd (vessels st))))"

section \<open>Handlers\<close>

text \<open>\<open>_mission\<close> creates the mission run on first use.\<close>

definition mission_of :: "fleet_state \<Rightarrow> string \<Rightarrow> mission_run" where
  "mission_of st m = (case map_of (missions st) m of
       Some r \<Rightarrow> r
     | None \<Rightarrow> \<lparr>run_mission_id = m, run_status = M_ACTIVE, attempt_ids = [], active_attempt_ids = []\<rparr>)"

definition put_mission :: "string \<Rightarrow> mission_run \<Rightarrow> fleet_state \<Rightarrow> fleet_state" where
  "put_mission m r st = st\<lparr>missions := AList.update m r (missions st)\<rparr>"

definition interruption_reason :: "string \<Rightarrow> attempt_termination result" where
  "interruption_reason value =
     ebind (attempt_termination_of value) (\<lambda>reason.
     ebind (guard (reason \<noteq> EXECUTION_TIMEOUT)
       (ValueError ''execution timeouts require a work_attempt_timed_out event'')) (\<lambda>_.
     Inr reason))"

definition end_attempt ::
  "event \<Rightarrow> attempt_status \<Rightarrow> attempt_termination option \<Rightarrow> string \<Rightarrow> fleet_state \<Rightarrow> fleet_state" where
  "end_attempt ev status termination a st =
     (case map_of (attempts st) a of
        None \<Rightarrow> st
      | Some att \<Rightarrow>
          if att_status att \<noteq> RUNNING then st
          else
            let att' = att\<lparr>att_status := status, att_termination := termination,
                  att_ended_at := Some (ev_timestamp ev), att_end_event_id := Some (ev_id ev)\<rparr>;
                st' = st\<lparr>attempts := AList.update a att' (attempts st)\<rparr>;
                m = att_mission_id att;
                run = mission_of st' m;
                active = filter (\<lambda>v. v \<noteq> a) (active_attempt_ids run);
                status' = (if active \<noteq> [] then M_ACTIVE
                           else if status = COMPLETED then M_COMPLETED else REPLAN_REQUIRED)
            in put_mission m (run\<lparr>active_attempt_ids := active, run_status := status'\<rparr>) st')"

definition apply_embodiment_change :: "fleet_state \<Rightarrow> event \<Rightarrow> fleet_state result" where
  "apply_embodiment_change st ev =
     ebind (pget_str (ev_payload ev) ''crew_id'') (\<lambda>cid.
     ebind (case map_of (crew st) cid of None \<Rightarrow> Inl (KeyError cid) | Some m \<Rightarrow> Inr m) (\<lambda>member.
     ebind (ebind (pget (ev_payload ev) ''embodiment'') as_embodiment) (\<lambda>e.
     ebind (case map_of (ev_payload ev) ''generation'' of
         None \<Rightarrow> Inr (generation member + 1) | Some v \<Rightarrow> as_int v) (\<lambda>g.
     Inr (st\<lparr>crew := AList.update cid
       (member\<lparr>crew_embodiment := Some e, generation := g\<rparr>) (crew st)\<rparr>)))))"

definition apply_competence_update :: "fleet_state \<Rightarrow> event \<Rightarrow> fleet_state result" where
  "apply_competence_update st ev =
     ebind (ebind (pget (ev_payload ev) ''competence'') as_competence) (\<lambda>c.
     ebind (pget_str (ev_payload ev) ''crew_id'') (\<lambda>cid.
     ebind (case map_of (crew st) cid of None \<Rightarrow> Inl (KeyError cid) | Some m \<Rightarrow> Inr m) (\<lambda>member.
     Inr (st\<lparr>crew := AList.update cid (member\<lparr>crew_competence := c\<rparr>) (crew st)\<rparr>))))"

definition apply_rupture :: "fleet_state \<Rightarrow> event \<Rightarrow> fleet_state result" where
  "apply_rupture st ev = Inr (st\<lparr>ruptures := ruptures st @ [ev_payload ev]\<rparr>)"

definition apply_repair :: "fleet_state \<Rightarrow> event \<Rightarrow> fleet_state result" where
  "apply_repair st ev = (let rupture_id = map_of (ev_payload ev) ''rupture_id'' in
     Inr (st\<lparr>ruptures := filter (\<lambda>r. map_of r ''id'' \<noteq> rupture_id) (ruptures st)\<rparr>))"

definition apply_resource_admitted :: "fleet_state \<Rightarrow> event \<Rightarrow> fleet_state result" where
  "apply_resource_admitted st ev =
     ebind (ebind (pget (ev_payload ev) ''vessel'') as_vessel) (\<lambda>v.
     Inr (st\<lparr>vessels := AList.update (vessel_id v) v (vessels st),
             unavailable_vessels := AList.delete (vessel_id v) (unavailable_vessels st)\<rparr>))"

definition apply_resource_lease_renewed :: "fleet_state \<Rightarrow> event \<Rightarrow> fleet_state result" where
  "apply_resource_lease_renewed st ev =
     ebind (pget_str (ev_payload ev) ''vessel_id'') (\<lambda>vid.
     case map_of (vessels st) vid of
       None \<Rightarrow> Inr st
     | Some v \<Rightarrow>
         ebind (ebind (pget (ev_payload ev) ''lease'') as_lease) (\<lambda>l.
         Inr (st\<lparr>vessels := AList.update vid (v\<lparr>vessel_lease := Some l\<rparr>) (vessels st)\<rparr>)))"

definition apply_resource_disappeared :: "fleet_state \<Rightarrow> event \<Rightarrow> fleet_state result" where
  "apply_resource_disappeared st ev =
     ebind (pget_str (ev_payload ev) ''vessel_id'') (\<lambda>vid.
     ebind (pget_str (ev_payload ev) ''lease_id'') (\<lambda>lid.
     ebind (ebind (pget_str (ev_payload ev) ''reason'') interruption_reason) (\<lambda>reason.
     ebind (case map_of (ev_payload ev) ''interrupted_attempt_ids'' of
         None \<Rightarrow> Inr [] | Some v \<Rightarrow> as_strs v) (\<lambda>ids.
     Inr (fold (end_attempt ev INCONCLUSIVE (Some reason)) ids
       (st\<lparr>unavailable_vessels := AList.update vid lid (unavailable_vessels st)\<rparr>))))))"

text \<open>The bookkeeping of a started attempt, after the record is built.\<close>

definition record_attempt :: "work_attempt \<Rightarrow> fleet_state \<Rightarrow> fleet_state" where
  "record_attempt att st =
     (let st' = st\<lparr>attempts := AList.update (att_id att) att (attempts st)\<rparr>;
          run = mission_of st' (att_mission_id att)
      in put_mission (att_mission_id att)
           (run\<lparr>run_status := M_ACTIVE, attempt_ids := attempt_ids run @ [att_id att],
                active_attempt_ids := active_attempt_ids run @ [att_id att]\<rparr>) st')"

definition apply_work_attempt_started :: "fleet_state \<Rightarrow> event \<Rightarrow> fleet_state result" where
  "apply_work_attempt_started st ev =
     ebind (pget_str (ev_payload ev) ''attempt_id'') (\<lambda>a.
     ebind (pget_str (ev_payload ev) ''mission_id'') (\<lambda>m.
     ebind (pget_str (ev_payload ev) ''vessel_id'') (\<lambda>vid.
     ebind (pget_str (ev_payload ev) ''lease_id'') (\<lambda>lid.
     ebind (case map_of (ev_payload ev) ''restartable'' of None \<Rightarrow> Inr False | Some v \<Rightarrow> as_bool v) (\<lambda>r.
     Inr (record_attempt \<lparr>att_id = a, att_mission_id = m, att_vessel_id = vid, att_lease_id = lid,
            att_restartable = r, att_status = RUNNING, att_termination = None,
            att_started_at = ev_timestamp ev, att_ended_at = None,
            att_start_event_id = ev_id ev, att_end_event_id = None\<rparr> st))))))"

definition apply_work_attempt_interrupted :: "fleet_state \<Rightarrow> event \<Rightarrow> fleet_state result" where
  "apply_work_attempt_interrupted st ev =
     ebind (pget_str (ev_payload ev) ''attempt_id'') (\<lambda>a.
     ebind (ebind (pget_str (ev_payload ev) ''reason'') interruption_reason) (\<lambda>reason.
     Inr (end_attempt ev INCONCLUSIVE (Some reason) a st)))"

definition apply_work_attempt_timed_out :: "fleet_state \<Rightarrow> event \<Rightarrow> fleet_state result" where
  "apply_work_attempt_timed_out st ev =
     ebind (pget_str (ev_payload ev) ''attempt_id'') (\<lambda>a.
     Inr (end_attempt ev TIMED_OUT (Some EXECUTION_TIMEOUT) a st))"

definition apply_work_attempt_completed :: "fleet_state \<Rightarrow> event \<Rightarrow> fleet_state result" where
  "apply_work_attempt_completed st ev =
     (if map_of (ev_payload ev) ''attempt_id'' = None then Inr st
      else ebind (pget_str (ev_payload ev) ''attempt_id'') (\<lambda>a.
           Inr (end_attempt ev COMPLETED None a st)))"

text \<open>The handler table \<open>_EVENT_HANDLERS\<close>; every other type leaves the state alone.\<close>

definition apply_event :: "fleet_state \<Rightarrow> event \<Rightarrow> fleet_state result" where
  "apply_event st ev = (case ev_type ev of
       E_embodiment_change \<Rightarrow> apply_embodiment_change st ev
     | E_competence_update \<Rightarrow> apply_competence_update st ev
     | E_rupture \<Rightarrow> apply_rupture st ev
     | E_repair \<Rightarrow> apply_repair st ev
     | E_resource_admitted \<Rightarrow> apply_resource_admitted st ev
     | E_resource_lease_renewed \<Rightarrow> apply_resource_lease_renewed st ev
     | E_resource_disappeared \<Rightarrow> apply_resource_disappeared st ev
     | E_work_attempt_started \<Rightarrow> apply_work_attempt_started st ev
     | E_work_attempt_interrupted \<Rightarrow> apply_work_attempt_interrupted st ev
     | E_work_attempt_timed_out \<Rightarrow> apply_work_attempt_timed_out st ev
     | E_work_attempt_completed \<Rightarrow> apply_work_attempt_completed st ev
     | _ \<Rightarrow> Inr st)"

fun replay :: "fleet_state \<Rightarrow> event list \<Rightarrow> fleet_state result" where
  "replay st [] = Inr st"
| "replay st (e # es) = ebind (apply_event st e) (\<lambda>st'. replay st' es)"

definition initial_state :: "crew_member list \<Rightarrow> vessel list \<Rightarrow> fleet_state" where
  "initial_state ms vs = \<lparr>crew = dict_of (map (\<lambda>m. (crew_id m, m)) ms), ruptures = [],
     vessels = dict_of (map (\<lambda>v. (vessel_id v, v)) vs), unavailable_vessels = [],
     attempts = [], missions = []\<rparr>"

definition materialize :: "event list \<Rightarrow> crew_member list \<Rightarrow> vessel list \<Rightarrow> fleet_state result" where
  "materialize es ms vs = replay (initial_state ms vs) es"

end
