(* ===== verification/Fleet_Invariants.thy ===== *)
theory Fleet_Invariants
  imports Fleet_Events
begin

text \<open>
  What replay keeps true. \<open>attempt_coherent\<close> ties the status of an attempt to its termination
  and its end; \<open>missions_inv\<close> says that every mission lists exactly its running attempts as active,
  once each, and is active exactly while it has one. Every handler keeps it, so it holds of every
  log that starts no attempt id twice (\<open>replay_missions_inv\<close>).
\<close>

section \<open>Invariants\<close>

definition attempt_coherent :: "work_attempt \<Rightarrow> bool" where
  "attempt_coherent a \<longleftrightarrow>
     (case att_status a of
        RUNNING \<Rightarrow> att_termination a = None \<and> att_ended_at a = None \<and> att_end_event_id a = None
      | INCONCLUSIVE \<Rightarrow> att_termination a \<in> {Some LEASE_LOST, Some RUNNER_INTERRUPTED}
          \<and> att_ended_at a \<noteq> None \<and> att_end_event_id a \<noteq> None
      | TIMED_OUT \<Rightarrow> att_termination a = Some EXECUTION_TIMEOUT
          \<and> att_ended_at a \<noteq> None \<and> att_end_event_id a \<noteq> None
      | COMPLETED \<Rightarrow> att_termination a = None
          \<and> att_ended_at a \<noteq> None \<and> att_end_event_id a \<noteq> None)"

definition running_in :: "fleet_state \<Rightarrow> string \<Rightarrow> string set" where
  "running_in st m = {a. \<exists>att. map_of (attempts st) a = Some att
     \<and> att_mission_id att = m \<and> att_status att = RUNNING}"

definition mission_ok :: "fleet_state \<Rightarrow> string \<Rightarrow> mission_run \<Rightarrow> bool" where
  "mission_ok st m run \<longleftrightarrow> run_mission_id run = m \<and> distinct (active_attempt_ids run)
     \<and> set (active_attempt_ids run) = running_in st m
     \<and> (run_status run = M_ACTIVE \<longleftrightarrow> active_attempt_ids run \<noteq> [])"

definition attempt_ok :: "fleet_state \<Rightarrow> string \<Rightarrow> work_attempt \<Rightarrow> bool" where
  "attempt_ok st a att \<longleftrightarrow> att_id att = a \<and> attempt_coherent att
     \<and> (\<exists>run. map_of (missions st) (att_mission_id att) = Some run \<and> a \<in> set (attempt_ids run))"

definition missions_inv :: "fleet_state \<Rightarrow> bool" where
  "missions_inv st \<longleftrightarrow> dict_ok (attempts st) \<and> dict_ok (missions st)
     \<and> (\<forall>a att. map_of (attempts st) a = Some att \<longrightarrow> attempt_ok st a att)
     \<and> (\<forall>m run. map_of (missions st) m = Some run \<longrightarrow> mission_ok st m run)"

lemma missions_invD:
  assumes "missions_inv st"
  shows "map_of (attempts st) a = Some att \<Longrightarrow> attempt_ok st a att"
    and "map_of (missions st) m = Some run \<Longrightarrow> mission_ok st m run"
  using assms by (auto simp: missions_inv_def)

text \<open>The invariant reads the attempts and the missions only.\<close>

lemma missions_inv_frame:
  "attempts st' = attempts st \<Longrightarrow> missions st' = missions st \<Longrightarrow> missions_inv st' = missions_inv st"
  by (simp add: missions_inv_def attempt_ok_def mission_ok_def running_in_def)

section \<open>Ending an attempt\<close>

definition ended :: "event \<Rightarrow> attempt_status \<Rightarrow> attempt_termination option \<Rightarrow> work_attempt \<Rightarrow> work_attempt" where
  "ended ev status termination att = att\<lparr>att_status := status, att_termination := termination,
     att_ended_at := Some (ev_timestamp ev), att_end_event_id := Some (ev_id ev)\<rparr>"

lemma ended_simps [simp]:
  "att_id (ended ev s t att) = att_id att"
  "att_mission_id (ended ev s t att) = att_mission_id att"
  "att_vessel_id (ended ev s t att) = att_vessel_id att"
  "att_lease_id (ended ev s t att) = att_lease_id att"
  "att_status (ended ev s t att) = s"
  "att_termination (ended ev s t att) = t"
  by (simp_all add: ended_def)

lemma ended_coherent: "s \<noteq> RUNNING \<Longrightarrow>
    (s = INCONCLUSIVE \<longrightarrow> t \<in> {Some LEASE_LOST, Some RUNNER_INTERRUPTED}) \<Longrightarrow>
    (s = TIMED_OUT \<longrightarrow> t = Some EXECUTION_TIMEOUT) \<Longrightarrow> (s = COMPLETED \<longrightarrow> t = None) \<Longrightarrow>
    attempt_coherent (ended ev s t att)"
  by (cases s) (auto simp: attempt_coherent_def ended_def)

definition ending_ok :: "attempt_status \<Rightarrow> attempt_termination option \<Rightarrow> bool" where
  "ending_ok s t \<longleftrightarrow> (s, t) \<in> {(INCONCLUSIVE, Some LEASE_LOST), (INCONCLUSIVE, Some RUNNER_INTERRUPTED),
     (TIMED_OUT, Some EXECUTION_TIMEOUT), (COMPLETED, None)}"

lemma ending_ok_coherent: "ending_ok s t \<Longrightarrow> attempt_coherent (ended ev s t att) \<and> s \<noteq> RUNNING"
  by (auto simp: ending_ok_def intro: ended_coherent)

text \<open>An unknown or already ended attempt is left alone.\<close>

lemma end_attempt_idle:
  "(\<forall>att. map_of (attempts st) a = Some att \<longrightarrow> att_status att \<noteq> RUNNING) \<Longrightarrow> end_attempt ev s t a st = st"
  by (auto simp: end_attempt_def split: option.splits)

text \<open>What stays, and what the running attempt becomes.\<close>

lemma end_attempt_frame [simp]:
  "crew (end_attempt ev s t a st) = crew st"
  "ruptures (end_attempt ev s t a st) = ruptures st"
  "vessels (end_attempt ev s t a st) = vessels st"
  "unavailable_vessels (end_attempt ev s t a st) = unavailable_vessels st"
  by (auto simp: end_attempt_def put_mission_def Let_def split: option.splits)

lemma attempts_end_attempt:
  assumes "map_of (attempts st) a = Some att" "att_status att = RUNNING"
  shows "attempts (end_attempt ev s t a st) = AList.update a (ended ev s t att) (attempts st)"
  using assms by (simp add: end_attempt_def put_mission_def Let_def ended_def)

lemma map_of_attempts_end_attempt:
  "map_of (attempts (end_attempt ev s t a st)) b =
     (case map_of (attempts st) b of None \<Rightarrow> None
      | Some att \<Rightarrow> Some (if b = a \<and> att_status att = RUNNING then ended ev s t att else att))"
proof (cases "\<exists>att. map_of (attempts st) a = Some att \<and> att_status att = RUNNING")
  case True
  then show ?thesis by (auto simp: attempts_end_attempt split: option.splits)
next
  case False
  then have "end_attempt ev s t a st = st" by (intro end_attempt_idle) auto
  with False show ?thesis by (auto split: option.splits)
qed

lemma missions_end_attempt:
  assumes "map_of (attempts st) a = Some att" "att_status att = RUNNING"
    "map_of (missions st) (att_mission_id att) = Some run"
  defines "active \<equiv> filter (\<lambda>v. v \<noteq> a) (active_attempt_ids run)"
  shows "missions (end_attempt ev s t a st) = AList.update (att_mission_id att)
     (run\<lparr>active_attempt_ids := active,
          run_status := (if active \<noteq> [] then M_ACTIVE else if s = COMPLETED then M_COMPLETED else REPLAN_REQUIRED)\<rparr>)
     (missions st)"
  using assms by (simp add: end_attempt_def put_mission_def Let_def mission_of_def)

lemma running_in_end_attempt:
  assumes "s \<noteq> RUNNING"
  shows "running_in (end_attempt ev s t a st) m = running_in st m - {a}"
  using assms by (auto simp: running_in_def map_of_attempts_end_attempt split: option.splits if_splits)

definition drop_active :: "string \<Rightarrow> attempt_status \<Rightarrow> mission_run \<Rightarrow> mission_run" where
  "drop_active a s run = (let active = filter (\<lambda>v. v \<noteq> a) (active_attempt_ids run) in
     run\<lparr>active_attempt_ids := active,
         run_status := (if active \<noteq> [] then M_ACTIVE else if s = COMPLETED then M_COMPLETED else REPLAN_REQUIRED)\<rparr>)"

lemma drop_active_simps [simp]:
  "run_mission_id (drop_active a s run) = run_mission_id run"
  "attempt_ids (drop_active a s run) = attempt_ids run"
  "active_attempt_ids (drop_active a s run) = filter (\<lambda>v. v \<noteq> a) (active_attempt_ids run)"
  "run_status (drop_active a s run) = M_ACTIVE \<longleftrightarrow> filter (\<lambda>v. v \<noteq> a) (active_attempt_ids run) \<noteq> []"
  by (simp_all add: drop_active_def Let_def)

lemma missions_end_attempt_drop:
  assumes "map_of (attempts st) a = Some att" "att_status att = RUNNING"
    "map_of (missions st) (att_mission_id att) = Some run"
  shows "missions (end_attempt ev s t a st)
     = AList.update (att_mission_id att) (drop_active a s run) (missions st)"
  by (simp only: missions_end_attempt [OF assms] drop_active_def Let_def)

lemma mission_ok_drop_active:
  assumes "mission_ok st m run" "s \<noteq> RUNNING"
  shows "mission_ok (end_attempt ev s t a st) m (drop_active a s run)"
  using assms(1) unfolding mission_ok_def running_in_end_attempt [OF assms(2)]
  by (simp add: set_diff_eq [symmetric] conj_commute) blast

lemma attempt_ok_end_attempt:
  assumes inv: "missions_inv st" and ok: "ending_ok s t"
    and b: "map_of (attempts (end_attempt ev s t a st)) b = Some batt"
  shows "attempt_ok (end_attempt ev s t a st) b batt"
proof -
  from b obtain batt0 where b0: "map_of (attempts st) b = Some batt0"
    and batt: "batt = (if b = a \<and> att_status batt0 = RUNNING then ended ev s t batt0 else batt0)"
    by (auto simp: map_of_attempts_end_attempt split: option.splits)
  from missions_invD(1) [OF inv b0] obtain run where run: "att_id batt0 = b" "attempt_coherent batt0"
    "map_of (missions st) (att_mission_id batt0) = Some run" "b \<in> set (attempt_ids run)"
    by (auto simp: attempt_ok_def)
  have "\<exists>r. map_of (missions (end_attempt ev s t a st)) (att_mission_id batt0) = Some r
      \<and> attempt_ids r = attempt_ids run"
  proof (cases "\<exists>att. map_of (attempts st) a = Some att \<and> att_status att = RUNNING")
    case True
    then obtain att where att: "map_of (attempts st) a = Some att" "att_status att = RUNNING" by auto
    from missions_invD(1) [OF inv att(1)] obtain ra where
      "map_of (missions st) (att_mission_id att) = Some ra" by (auto simp: attempt_ok_def)
    from missions_end_attempt_drop [OF att this] this run(3) show ?thesis by auto
  next
    case False
    then have "end_attempt ev s t a st = st" by (intro end_attempt_idle) auto
    with run(3) show ?thesis by simp
  qed
  with run batt ending_ok_coherent [OF ok] show ?thesis by (auto simp: attempt_ok_def)
qed

lemma end_attempt_missions_inv [inv_intros]:
  assumes inv: "missions_inv st" and ok: "ending_ok s t"
  shows "missions_inv (end_attempt ev s t a st)"
proof (cases "\<exists>att. map_of (attempts st) a = Some att \<and> att_status att = RUNNING")
  case False
  then have "end_attempt ev s t a st = st" by (intro end_attempt_idle) auto
  with inv show ?thesis by simp
next
  case True
  then obtain att where att: "map_of (attempts st) a = Some att" "att_status att = RUNNING" by auto
  from missions_invD(1) [OF inv att(1)] obtain run where
    run: "map_of (missions st) (att_mission_id att) = Some run" by (auto simp: attempt_ok_def)
  note misn = missions_end_attempt_drop [OF att run, of ev s t]
  have sr: "s \<noteq> RUNNING" using ending_ok_coherent [OF ok] by blast
  have "mission_ok (end_attempt ev s t a st) m r"
    if r: "map_of (missions (end_attempt ev s t a st)) m = Some r" for m r
  proof (cases "m = att_mission_id att")
    case True
    with r have "r = drop_active a s run" by (simp add: misn)
    with mission_ok_drop_active [OF missions_invD(2) [OF inv run] sr] True show ?thesis by simp
  next
    case False
    with r have "mission_ok st m r" using missions_invD(2) [OF inv] by (simp add: misn)
    moreover have "a \<notin> running_in st m" using False att by (auto simp: running_in_def)
    ultimately show ?thesis by (simp add: mission_ok_def running_in_end_attempt [OF sr])
  qed
  moreover have "dict_ok (attempts (end_attempt ev s t a st))" "dict_ok (missions (end_attempt ev s t a st))"
    using inv by (simp_all add: attempts_end_attempt [OF att] misn missions_inv_def)
  ultimately show ?thesis
    using attempt_ok_end_attempt [OF inv ok] by (auto simp: missions_inv_def)
qed

lemma fold_end_attempt_frame [simp]:
  "crew (fold (end_attempt ev s t) as st) = crew st"
  "ruptures (fold (end_attempt ev s t) as st) = ruptures st"
  "vessels (fold (end_attempt ev s t) as st) = vessels st"
  "unavailable_vessels (fold (end_attempt ev s t) as st) = unavailable_vessels st"
  by (induction as arbitrary: st) simp_all

lemma fold_end_attempt_missions_inv [inv_intros]:
  "missions_inv st \<Longrightarrow> ending_ok s t \<Longrightarrow> missions_inv (fold (end_attempt ev s t) as st)"
  by (induction as arbitrary: st) (auto intro: end_attempt_missions_inv)

lemma map_of_attempts_fold_end:
  assumes "s \<noteq> RUNNING"
  shows "map_of (attempts (fold (end_attempt ev s t) as st)) b =
     (case map_of (attempts st) b of None \<Rightarrow> None
      | Some att \<Rightarrow> Some (if b \<in> set as \<and> att_status att = RUNNING then ended ev s t att else att))"
  using assms
  by (induction as arbitrary: st) (auto simp: map_of_attempts_end_attempt split: option.splits)

lemma dom_attempts_end [simp]:
  "dom (map_of (attempts (end_attempt ev s t a st))) = dom (map_of (attempts st))"
  by (auto simp: dom_def map_of_attempts_end_attempt split: option.splits)

lemma dom_attempts_fold_end [simp]:
  "dom (map_of (attempts (fold (end_attempt ev s t) as st))) = dom (map_of (attempts st))"
  by (induction as arbitrary: st) (simp_all del: dom_map_of_conv_image_fst)

section \<open>Starting an attempt\<close>

lemma record_attempt_frame [simp]:
  "crew (record_attempt att st) = crew st"
  "ruptures (record_attempt att st) = ruptures st"
  "vessels (record_attempt att st) = vessels st"
  "unavailable_vessels (record_attempt att st) = unavailable_vessels st"
  "attempts (record_attempt att st) = AList.update (att_id att) att (attempts st)"
  by (simp_all add: record_attempt_def put_mission_def Let_def)

definition add_active :: "string \<Rightarrow> mission_run \<Rightarrow> mission_run" where
  "add_active a run = run\<lparr>run_status := M_ACTIVE, attempt_ids := attempt_ids run @ [a],
     active_attempt_ids := active_attempt_ids run @ [a]\<rparr>"

lemma mission_of_frame [simp]:
  "mission_of (st\<lparr>attempts := x\<rparr>) m = mission_of st m"
  by (simp add: mission_of_def)

lemma missions_record_attempt:
  "missions (record_attempt att st) = AList.update (att_mission_id att)
     (add_active (att_id att) (mission_of st (att_mission_id att))) (missions st)"
  by (simp add: record_attempt_def put_mission_def Let_def add_active_def)

lemma running_in_record_attempt:
  assumes "att_status att = RUNNING" "att_id att \<notin> dom (map_of (attempts st))"
  shows "running_in (record_attempt att st) m
     = running_in st m \<union> (if m = att_mission_id att then {att_id att} else {})"
  using assms by (auto simp: running_in_def split: if_splits)

lemma mission_of_ok:
  assumes "missions_inv st"
  shows "run_mission_id (mission_of st m) = m \<and> distinct (active_attempt_ids (mission_of st m))
     \<and> set (active_attempt_ids (mission_of st m)) = running_in st m"
proof (cases "map_of (missions st) m")
  case None
  have "running_in st m = {}"
    using missions_invD(1) [OF assms] None by (fastforce simp: running_in_def attempt_ok_def)
  with None show ?thesis by (simp add: mission_of_def)
next
  case (Some run)
  with missions_invD(2) [OF assms Some] show ?thesis by (simp add: mission_of_def mission_ok_def)
qed

lemma record_attempt_missions_inv [inv_intros]:
  assumes inv: "missions_inv st" and run: "att_status att = RUNNING"
    and coh: "attempt_coherent att" and fresh: "att_id att \<notin> dom (map_of (attempts st))"
  shows "missions_inv (record_attempt att st)"
proof -
  let ?st = "record_attempt att st"
  note ri = running_in_record_attempt [OF run fresh]
  have notin: "att_id att \<notin> running_in st m" for m using fresh by (auto simp: running_in_def)
  have att_ok: "attempt_ok ?st b batt" if b: "map_of (attempts ?st) b = Some batt" for b batt
  proof (cases "b = att_id att")
    case True
    with b coh show ?thesis
      by (simp add: attempt_ok_def missions_record_attempt add_active_def)
  next
    case False
    with b have "attempt_ok st b batt" using missions_invD(1) [OF inv] by simp
    then show ?thesis
      by (auto simp: attempt_ok_def missions_record_attempt add_active_def mission_of_def)
  qed
  have mis_ok: "mission_ok ?st m r" if m: "map_of (missions ?st) m = Some r" for m r
  proof (cases "m = att_mission_id att")
    case True
    with m have "r = add_active (att_id att) (mission_of st m)" by (simp add: missions_record_attempt)
    with mission_of_ok [OF inv, of m] notin [of m] True show ?thesis
      by (simp add: mission_ok_def add_active_def ri)
  next
    case False
    with m have "mission_ok st m r" using missions_invD(2) [OF inv] by (simp add: missions_record_attempt)
    with False show ?thesis by (simp add: mission_ok_def ri)
  qed
  show ?thesis
    using inv att_ok mis_ok by (auto simp: missions_inv_def missions_record_attempt)
qed

section \<open>Replay\<close>

text \<open>The attempt ids a log starts, in order.\<close>

definition started_id :: "event \<Rightarrow> string option" where
  "started_id ev = (if ev_type ev = E_work_attempt_started
     then (case pget_str (ev_payload ev) ''attempt_id'' of Inr a \<Rightarrow> Some a | Inl _ \<Rightarrow> None) else None)"

definition started_ids :: "event list \<Rightarrow> string list" where
  "started_ids es = List.map_filter started_id es"

lemma started_ids_simps [simp]:
  "started_ids [] = []"
  "started_ids (e # es) = (case started_id e of None \<Rightarrow> [] | Some a \<Rightarrow> [a]) @ started_ids es"
  "started_ids (es @ fs) = started_ids es @ started_ids fs"
  by (simp_all add: started_ids_def map_filter_def split: option.splits)

lemma interruption_reason_ok:
  "interruption_reason v = Inr r \<Longrightarrow> ending_ok INCONCLUSIVE (Some r)"
  by (cases r) (auto simp: interruption_reason_def ending_ok_def)

lemma ending_ok_simps [simp]: "ending_ok TIMED_OUT (Some EXECUTION_TIMEOUT)" "ending_ok COMPLETED None"
  by (simp_all add: ending_ok_def)

text \<open>Handlers that leave attempts and missions alone.\<close>

definition same_work :: "fleet_state \<Rightarrow> fleet_state \<Rightarrow> bool" where
  "same_work st st' \<longleftrightarrow> attempts st' = attempts st \<and> missions st' = missions st"

lemma same_work_crew:
  "apply_embodiment_change st ev = Inr st' \<Longrightarrow> same_work st st'"
  "apply_competence_update st ev = Inr st' \<Longrightarrow> same_work st st'"
  "apply_rupture st ev = Inr st' \<Longrightarrow> same_work st st'"
  "apply_repair st ev = Inr st' \<Longrightarrow> same_work st st'"
  by (auto simp: same_work_def apply_embodiment_change_def apply_competence_update_def
    apply_rupture_def apply_repair_def Let_def)

lemma same_work_vessels:
  "apply_resource_admitted st ev = Inr st' \<Longrightarrow> same_work st st'"
  "apply_resource_lease_renewed st ev = Inr st' \<Longrightarrow> same_work st st'"
  by (auto simp: same_work_def apply_resource_admitted_def apply_resource_lease_renewed_def
    split: option.splits)

lemmas same_work_handlers = same_work_crew same_work_vessels

definition work_step :: "fleet_state \<Rightarrow> event \<Rightarrow> fleet_state \<Rightarrow> bool" where
  "work_step st ev st' \<longleftrightarrow> missions_inv st'
     \<and> dom (map_of (attempts st')) = dom (map_of (attempts st)) \<union> set_option (started_id ev)"

lemma same_work_step:
  "missions_inv st \<Longrightarrow> same_work st st' \<Longrightarrow> started_id ev = None \<Longrightarrow> work_step st ev st'"
  by (simp add: work_step_def same_work_def missions_inv_frame [of st' st])

lemma end_attempt_step:
  "missions_inv st \<Longrightarrow> started_id ev = None \<Longrightarrow> ending_ok s t \<Longrightarrow> work_step st ev (end_attempt ev s t a st)"
  by (simp add: work_step_def end_attempt_missions_inv del: dom_map_of_conv_image_fst)

lemma ending_steps:
  assumes "missions_inv st" "started_id ev = None"
  shows "apply_work_attempt_interrupted st ev = Inr st' \<Longrightarrow> work_step st ev st'"
    and "apply_work_attempt_timed_out st ev = Inr st' \<Longrightarrow> work_step st ev st'"
    and "apply_work_attempt_completed st ev = Inr st' \<Longrightarrow> work_step st ev st'"
  using assms same_work_step [OF assms(1) _ assms(2)]
  by (auto simp: apply_work_attempt_interrupted_def apply_work_attempt_timed_out_def
    apply_work_attempt_completed_def same_work_def
    intro!: end_attempt_step interruption_reason_ok split: if_splits)

lemma disappeared_step:
  assumes inv: "missions_inv st" and "started_id ev = None" "apply_resource_disappeared st ev = Inr st'"
  shows "work_step st ev st'"
proof -
  from assms(3) obtain vid lid v r ids where r: "interruption_reason v = Inr r"
    and st': "st' = fold (end_attempt ev INCONCLUSIVE (Some r)) ids
                (st\<lparr>unavailable_vessels := AList.update vid lid (unavailable_vessels st)\<rparr>)"
    by (auto simp: apply_resource_disappeared_def)
  have "missions_inv (st\<lparr>unavailable_vessels := AList.update vid lid (unavailable_vessels st)\<rparr>)"
    using inv by (subst missions_inv_frame) simp_all
  then have "missions_inv st'"
    unfolding st' by (rule fold_end_attempt_missions_inv) (rule interruption_reason_ok [OF r])
  with assms(2) show ?thesis
    unfolding work_step_def st' dom_attempts_fold_end by simp
qed

lemma started_step:
  assumes "missions_inv st" "ev_type ev = E_work_attempt_started"
    "apply_work_attempt_started st ev = Inr st'"
    "\<And>a. started_id ev = Some a \<Longrightarrow> a \<notin> dom (map_of (attempts st))"
  shows "work_step st ev st'"
proof -
  from assms(3) obtain a m vid lid r where a: "pget_str (ev_payload ev) ''attempt_id'' = Inr a"
    and st0: "st' = record_attempt \<lparr>att_id = a, att_mission_id = m, att_vessel_id = vid, att_lease_id = lid,
            att_restartable = r, att_status = RUNNING, att_termination = None,
            att_started_at = ev_timestamp ev, att_ended_at = None,
            att_start_event_id = ev_id ev, att_end_event_id = None\<rparr> st"
    by (auto simp: apply_work_attempt_started_def)
  obtain att where att: "pget_str (ev_payload ev) ''attempt_id'' = Inr (att_id att)"
    "att_status att = RUNNING" "attempt_coherent att" and st': "st' = record_attempt att st"
    by (rule that [OF _ _ _ st0]) (simp_all add: a attempt_coherent_def)
  from att(1) assms(2) have sid: "started_id ev = Some (att_id att)" by (simp add: started_id_def)
  have "missions_inv st'" unfolding st'
    by (rule record_attempt_missions_inv [OF assms(1) att(2,3) assms(4) [OF sid]])
  with sid show ?thesis
    by (simp add: work_step_def st' del: dom_map_of_conv_image_fst)
qed

lemma apply_event_work_step:
  assumes inv: "missions_inv st" and step: "apply_event st ev = Inr st'"
    and fresh: "\<And>a. started_id ev = Some a \<Longrightarrow> a \<notin> dom (map_of (attempts st))"
  shows "work_step st ev st'"
proof (cases "ev_type ev = E_work_attempt_started")
  case True
  with started_step [OF inv True _ fresh] step show ?thesis by (simp add: apply_event_def)
next
  case False
  then have none: "started_id ev = None" by (simp add: started_id_def)
  have "same_work st st \<and> (\<forall>st'. same_work st st' \<longrightarrow> work_step st ev st')"
    using same_work_step [OF inv _ none] by (auto simp: same_work_def)
  with step False ending_steps [OF inv none] disappeared_step [OF inv none] same_work_handlers
  show ?thesis by (cases "ev_type ev") (auto simp: apply_event_def)
qed

lemma apply_event_missions_inv:
  assumes "missions_inv st" "apply_event st ev = Inr st'"
    and "\<And>a. started_id ev = Some a \<Longrightarrow> a \<notin> dom (map_of (attempts st))"
  shows "missions_inv st'"
    and "dom (map_of (attempts st')) = dom (map_of (attempts st)) \<union> set_option (started_id ev)"
  using apply_event_work_step [OF assms] by (simp_all add: work_step_def)

lemma replay_missions_inv:
  assumes "missions_inv st" "replay st es = Inr st'" "distinct (started_ids es)"
    "set (started_ids es) \<inter> dom (map_of (attempts st)) = {}"
  shows "missions_inv st' \<and> dom (map_of (attempts st')) = dom (map_of (attempts st)) \<union> set (started_ids es)"
  using assms
proof (induction es arbitrary: st)
  case Nil
  then show ?case by simp
next
  case (Cons e es)
  from Cons.prems(2) obtain st1 where st1: "apply_event st e = Inr st1" "replay st1 es = Inr st'" by auto
  have fresh: "a \<notin> dom (map_of (attempts st))" if "started_id e = Some a" for a
    using Cons.prems(4) that by auto
  note step = apply_event_missions_inv [OF Cons.prems(1) st1(1) fresh]
  have "missions_inv st' \<and> dom (map_of (attempts st')) = dom (map_of (attempts st1)) \<union> set (started_ids es)"
    by (rule Cons.IH [OF step(1) st1(2)])
      (use Cons.prems step(2) in \<open>auto simp del: dom_map_of_conv_image_fst split: option.splits\<close>)
  with step(2) show ?case by (auto simp del: dom_map_of_conv_image_fst split: option.splits)
qed

lemma missions_inv_initial [simp]: "missions_inv (initial_state ms vs)"
  by (simp add: missions_inv_def initial_state_def)

lemma replay_append: "replay st (es @ fs) = ebind (replay st es) (\<lambda>st'. replay st' fs)"
proof (induction es arbitrary: st)
  case Nil
  show ?case by simp
next
  case (Cons e es)
  then show ?case by (cases "apply_event st e") auto
qed

end
