(* ===== verification/Lease_Controller.thy ===== *)
theory Lease_Controller
  imports Fleet_Invariants
begin

text \<open>
  \<open>FleetLeaseController\<close> of \<open>long_haul/ephemeral.py\<close>. Each method reads the state by replaying the
  store, checks its guards in the order of the code, and appends one event; it returns the new
  store or the exception. The event id (a fresh UUID), the caller's time and the clock reading
  that replaces a missing one are arguments.
\<close>

section \<open>The methods\<close>

type_synonym ctl_call = "string \<times> datetime option \<times> datetime"

definition ctl_append ::
  "string \<Rightarrow> event_type \<Rightarrow> payload \<Rightarrow> datetime \<Rightarrow> event_store \<Rightarrow> event_store" where
  "ctl_append eid ty p instant s = store_append s
     \<lparr>ev_id = eid, ev_timestamp = instant, ev_type = ty, ev_actor = None,
      ev_source = Some ''fleet-lease-controller'', ev_payload = p\<rparr>"

definition ctl_state :: "event_store \<Rightarrow> fleet_state result" where
  "ctl_state s = materialize (store_events s) [] []"

definition ctl_admit :: "ctl_call \<Rightarrow> vessel \<Rightarrow> event_store \<Rightarrow> event_store result" where
  "ctl_admit c v s = (case c of (eid, at', now) \<Rightarrow>
     ebind (instant_of at' now) (\<lambda>instant.
     case (lifecycle v, vessel_lease v) of
       (PERSISTENT, _) \<Rightarrow> Inl (LeaseLifecycleError ''admission requires an ephemeral or external vessel with a lease'')
     | (_, None) \<Rightarrow> Inl (LeaseLifecycleError ''admission requires an ephemeral or external vessel with a lease'')
     | (_, Some l) \<Rightarrow>
         ebind (lease_active l instant) (\<lambda>active.
         ebind (guard active (LeaseLifecycleError ''cannot admit a vessel under an inactive lease'')) (\<lambda>_.
         ebind (ctl_state s) (\<lambda>current.
         ebind (guard (\<not> (vessel_id v \<in> dom (map_of (vessels current))
                    \<and> vessel_id v \<notin> dom (map_of (unavailable_vessels current))))
           (LeaseLifecycleError ''vessel is already admitted'')) (\<lambda>_.
         Inr (ctl_append eid E_resource_admitted [(''vessel'', VVessel v)] instant s)))))))"

text \<open>
  The lookup three methods share: the lease of a vessel that is not marked unavailable, when its
  id is the caller's.
\<close>

definition matching_lease :: "fleet_state \<Rightarrow> string \<Rightarrow> string \<Rightarrow> resource_lease option" where
  "matching_lease st vid lid =
     (if vid \<in> dom (map_of (unavailable_vessels st)) then None
      else case map_of (vessels st) vid of
             None \<Rightarrow> None
           | Some v \<Rightarrow> (case vessel_lease v of
               None \<Rightarrow> None
             | Some l \<Rightarrow> if lease_ident l \<noteq> lid then None else Some l))"

definition require_lease :: "fleet_state \<Rightarrow> string \<Rightarrow> string \<Rightarrow> string \<Rightarrow> resource_lease result" where
  "require_lease st vid lid msg = (case matching_lease st vid lid of
       None \<Rightarrow> Inl (LeaseLifecycleError msg) | Some l \<Rightarrow> Inr l)"

definition ctl_renew :: "ctl_call \<Rightarrow> string \<Rightarrow> string \<Rightarrow> datetime \<Rightarrow> event_store \<Rightarrow> event_store result" where
  "ctl_renew c vid lid expires_at s = (case c of (eid, at', now) \<Rightarrow>
     ebind (instant_of at' now) (\<lambda>instant.
     ebind (instant_of (Some expires_at) now) (\<lambda>new_end.
     ebind (ctl_state s) (\<lambda>current.
     ebind (require_lease current vid lid ''lease is stale or vessel is unavailable'') (\<lambda>lease.
     ebind (guard (renewable lease) (LeaseLifecycleError ''lease does not support renewal'')) (\<lambda>_.
     ebind (lease_active lease instant) (\<lambda>active.
     ebind (if \<not> active then Inr True else dt_le new_end instant) (\<lambda>late.
     ebind (guard (\<not> late) (LeaseLifecycleError ''lease cannot be renewed after expiry'')) (\<lambda>_.
     ebind (case lease_expires_at lease of None \<Rightarrow> Inr False | Some e \<Rightarrow> dt_le new_end e) (\<lambda>short.
     ebind (guard (\<not> short) (LeaseLifecycleError ''renewed expiry must extend the current lease'')) (\<lambda>_.
     Inr (ctl_append eid E_resource_lease_renewed
       [(''vessel_id'', VStr vid), (''lease'', VLease (lease\<lparr>lease_expires_at := Some new_end\<rparr>))] instant s))))))))))))"

definition ctl_start_attempt ::
  "ctl_call \<Rightarrow> string \<Rightarrow> string \<Rightarrow> string \<Rightarrow> string \<Rightarrow> bool \<Rightarrow> event_store \<Rightarrow> event_store result" where
  "ctl_start_attempt c a m vid lid restart s = (case c of (eid, at', now) \<Rightarrow>
     ebind (instant_of at' now) (\<lambda>instant.
     ebind (ctl_state s) (\<lambda>current.
     ebind (require_lease current vid lid ''attempt vessel has no matching available lease'') (\<lambda>lease.
     ebind (lease_active lease instant) (\<lambda>active.
     ebind (guard active (LeaseLifecycleError ''attempt vessel lease is expired or not yet active'')) (\<lambda>_.
     ebind (guard (a \<notin> dom (map_of (attempts current)))
       (LeaseLifecycleError ''attempt id has already been used'')) (\<lambda>_.
     Inr (ctl_append eid E_work_attempt_started
       [(''attempt_id'', VStr a), (''mission_id'', VStr m), (''vessel_id'', VStr vid),
        (''lease_id'', VStr lid), (''restartable'', VBool restart)] instant s))))))))"

definition interrupted_attempts :: "fleet_state \<Rightarrow> string \<Rightarrow> string \<Rightarrow> string list" where
  "interrupted_attempts st vid lid = map att_id (filter (\<lambda>att. att_status att = RUNNING
     \<and> att_vessel_id att = vid \<and> att_lease_id att = lid) (map snd (attempts st)))"

definition ctl_disappear ::
  "ctl_call \<Rightarrow> string \<Rightarrow> string \<Rightarrow> attempt_termination \<Rightarrow> event_store \<Rightarrow> event_store result" where
  "ctl_disappear c vid lid reason s = (case c of (eid, at', now) \<Rightarrow>
     ebind (instant_of at' now) (\<lambda>instant.
     ebind (guard (reason \<in> {LEASE_LOST, RUNNER_INTERRUPTED})
       (LeaseLifecycleError ''resource disappearance must be lease_lost or runner_interrupted'')) (\<lambda>_.
     ebind (ctl_state s) (\<lambda>current.
     ebind (require_lease current vid lid ''lease is stale or vessel is already unavailable'') (\<lambda>lease.
     Inr (ctl_append eid E_resource_disappeared
       [(''vessel_id'', VStr vid), (''lease_id'', VStr lid), (''reason'', VStr (termination_value reason)),
        (''interrupted_attempt_ids'', VStrs (interrupted_attempts current vid lid))] instant s))))))"

definition ctl_timeout :: "ctl_call \<Rightarrow> string \<Rightarrow> event_store \<Rightarrow> event_store result" where
  "ctl_timeout c a s = (case c of (eid, at', now) \<Rightarrow>
     ebind (instant_of at' now) (\<lambda>instant.
     ebind (ctl_state s) (\<lambda>current.
     ebind (guard (case map_of (attempts current) a of None \<Rightarrow> False | Some att \<Rightarrow> att_status att = RUNNING)
       (LeaseLifecycleError ''only a running attempt can time out'')) (\<lambda>_.
     Inr (ctl_append eid E_work_attempt_timed_out
       [(''attempt_id'', VStr a), (''reason'', VStr (termination_value EXECUTION_TIMEOUT))] instant s)))))"

section \<open>Sequences of calls\<close>

text \<open>
  The calls a fleet makes, and the events other producers append to the same log: anything but
  the resource and start events, which only the controller writes, and the two crew updates, which
  need a declared crew.
\<close>

datatype fleet_op =
    Admit ctl_call vessel
  | Renew ctl_call string string datetime
  | Start ctl_call string string string string bool
  | Disappear ctl_call string string attempt_termination
  | Timeout ctl_call string
  | Outside event

fun outside_event :: "event \<Rightarrow> bool" where
  "outside_event ev = (case ev_type ev of
       E_resource_admitted \<Rightarrow> False | E_resource_lease_renewed \<Rightarrow> False
     | E_resource_disappeared \<Rightarrow> False | E_work_attempt_started \<Rightarrow> False
     | E_embodiment_change \<Rightarrow> False | E_competence_update \<Rightarrow> False
     | E_work_attempt_interrupted \<Rightarrow>
         (case ebind (pget_str (ev_payload ev) ''attempt_id'') (\<lambda>_.
               ebind (pget_str (ev_payload ev) ''reason'') interruption_reason) of Inr _ \<Rightarrow> True | Inl _ \<Rightarrow> False)
     | E_work_attempt_timed_out \<Rightarrow>
         (case pget_str (ev_payload ev) ''attempt_id'' of Inr _ \<Rightarrow> True | Inl _ \<Rightarrow> False)
     | E_work_attempt_completed \<Rightarrow> map_of (ev_payload ev) ''attempt_id'' = None
         \<or> (case pget_str (ev_payload ev) ''attempt_id'' of Inr _ \<Rightarrow> True | Inl _ \<Rightarrow> False)
     | _ \<Rightarrow> True)"

fun fleet_call :: "fleet_op \<Rightarrow> event_store \<Rightarrow> event_store result" where
  "fleet_call (Admit c v) s = ctl_admit c v s"
| "fleet_call (Renew c vid lid e) s = ctl_renew c vid lid e s"
| "fleet_call (Start c a m vid lid r) s = ctl_start_attempt c a m vid lid r s"
| "fleet_call (Disappear c vid lid r) s = ctl_disappear c vid lid r s"
| "fleet_call (Timeout c a) s = ctl_timeout c a s"
| "fleet_call (Outside ev) s = Inr (store_append s ev)"

text \<open>A call that raises leaves the log as it was.\<close>

definition fleet_exec :: "fleet_op \<Rightarrow> event_store \<Rightarrow> event_store" where
  "fleet_exec p s = (case fleet_call p s of Inr s' \<Rightarrow> s' | Inl _ \<Rightarrow> s)"

text \<open>Vessels handed to \<open>admit\<close> are validated models; outside events are as described.\<close>

fun fleet_op_ok :: "fleet_op \<Rightarrow> bool" where
  "fleet_op_ok (Admit c v) = vessel_ok v"
| "fleet_op_ok (Outside ev) = outside_event ev"
| "fleet_op_ok _ = True"

end
