(* ===== verification/Lease_Safety.thy ===== *)
theory Lease_Safety
  imports Lease_Controller
begin

text \<open>
  What the lease controller guarantees about the log it shares: whatever sequence of calls and
  outside events produced it, the log replays, every mission lists exactly its running attempts, and
  a running attempt is always on an available vessel that holds the attempt's own lease.
\<close>

section \<open>The event log interface\<close>

text \<open>What a client of the store relies on: an appended event is read back last.\<close>

lemma replay_one: "replay st [e] = apply_event st e"
  by (cases "apply_event st e") auto

locale event_log =
  fixes log_append :: "'s \<Rightarrow> event \<Rightarrow> 's"
    and log_events :: "'s \<Rightarrow> event list"
  assumes events_append: "log_events (log_append s e) = log_events s @ [e]"
begin

lemma materialize_append:
  "materialize (log_events (log_append s e)) ms vs
     = ebind (materialize (log_events s) ms vs) (\<lambda>st. apply_event st e)"
  unfolding materialize_def events_append replay_append
  by (simp add: replay_one del: replay.simps)

lemma events_fold_append: "log_events (fold (\<lambda>e s. log_append s e) es s) = log_events s @ es"
  by (induction es arbitrary: s) (simp_all add: events_append)

end

interpretation jsonl_log: event_log store_append store_events
  by unfold_locales (simp add: store_append_def store_events_def split: option.split)

lemma ctl_state_append:
  "ctl_state (store_append s e) = ebind (ctl_state s) (\<lambda>st. apply_event st e)"
  unfolding ctl_state_def by (rule jsonl_log.materialize_append)

section \<open>The invariant\<close>

definition on_lease :: "fleet_state \<Rightarrow> string \<Rightarrow> string \<Rightarrow> bool" where
  "on_lease st vid lid \<longleftrightarrow> (\<exists>l. matching_lease st vid lid = Some l)"

definition present :: "fleet_state \<Rightarrow> string \<Rightarrow> bool" where
  "present st vid \<longleftrightarrow> vid \<in> dom (map_of (vessels st)) \<and> vid \<notin> dom (map_of (unavailable_vessels st))"

definition lease_inv :: "fleet_state \<Rightarrow> bool" where
  "lease_inv st \<longleftrightarrow> dict_ok (vessels st)
     \<and> (\<forall>vid v l. map_of (vessels st) vid = Some v \<longrightarrow> vessel_lease v = Some l \<longrightarrow> lease_ok l)
     \<and> (\<forall>a att. map_of (attempts st) a = Some att \<longrightarrow> att_status att = RUNNING \<longrightarrow>
          on_lease st (att_vessel_id att) (att_lease_id att))"

definition fleet_inv :: "fleet_state \<Rightarrow> bool" where
  "fleet_inv st \<longleftrightarrow> missions_inv st \<and> lease_inv st"

definition log_inv :: "event_store \<Rightarrow> bool" where
  "log_inv s \<longleftrightarrow> (\<exists>st. ctl_state s = Inr st \<and> fleet_inv st)"

lemma matching_lease_Some:
  "matching_lease st vid lid = Some l \<longleftrightarrow> vid \<notin> dom (map_of (unavailable_vessels st))
     \<and> (\<exists>v. map_of (vessels st) vid = Some v \<and> vessel_lease v = Some l) \<and> lease_ident l = lid"
  by (auto simp: matching_lease_def split: option.splits if_splits)

lemma require_lease_Inr:
  "require_lease st vid lid msg = Inr l \<longleftrightarrow> matching_lease st vid lid = Some l"
  by (auto simp: require_lease_def split: option.splits)

lemma lease_invD:
  assumes "lease_inv st"
  shows "matching_lease st vid lid = Some l \<Longrightarrow> lease_ok l"
    and "map_of (attempts st) a = Some att \<Longrightarrow> att_status att = RUNNING \<Longrightarrow>
      on_lease st (att_vessel_id att) (att_lease_id att)"
  using assms by (auto simp: lease_inv_def matching_lease_Some)

text \<open>Matching reads the vessels and the unavailable set only.\<close>

lemma on_lease_frame:
  "vessels st' = vessels st \<Longrightarrow> unavailable_vessels st' = unavailable_vessels st \<Longrightarrow>
    on_lease st' vid lid = on_lease st vid lid"
  by (simp add: on_lease_def matching_lease_def)

lemma lease_inv_end_attempt:
  assumes "lease_inv st" "s \<noteq> RUNNING"
  shows "lease_inv (end_attempt ev s t a st)"
  using assms on_lease_frame [of "end_attempt ev s t a st" st]
  by (auto simp: lease_inv_def map_of_attempts_end_attempt split: option.splits if_splits)

section \<open>One lemma per kind of event\<close>

lemma admitted_inv:
  assumes inv: "fleet_inv st" and ok: "vessel_ok v"
    and new: "\<not> present st (vessel_id v)"
  shows "fleet_inv (st\<lparr>vessels := AList.update (vessel_id v) v (vessels st),
             unavailable_vessels := AList.delete (vessel_id v) (unavailable_vessels st)\<rparr>)"
    (is "fleet_inv ?st")
proof -
  have "on_lease ?st (att_vessel_id att) (att_lease_id att)"
    if att: "map_of (attempts st) a = Some att" "att_status att = RUNNING" for a att
  proof -
    from inv lease_invD(2) [OF _ att] have on: "on_lease st (att_vessel_id att) (att_lease_id att)"
      by (simp add: fleet_inv_def)
    then have "att_vessel_id att \<noteq> vessel_id v"
      using new by (auto simp: present_def on_lease_def matching_lease_Some simp del: dom_map_of_conv_image_fst)
    with on show ?thesis
      by (auto simp: on_lease_def matching_lease_Some simp del: dom_map_of_conv_image_fst)
  qed
  with inv vessel_ok_lease [OF ok] show ?thesis
    by (auto simp: fleet_inv_def lease_inv_def missions_inv_frame [of ?st st] split: if_splits)
qed

lemma renewed_inv:
  assumes inv: "fleet_inv st" and l: "matching_lease st vid lid = Some l"
    and v: "map_of (vessels st) vid = Some v" and ok: "lease_ok (l\<lparr>lease_expires_at := e\<rparr>)"
  shows "fleet_inv (st\<lparr>vessels := AList.update vid (v\<lparr>vessel_lease := Some (l\<lparr>lease_expires_at := e\<rparr>)\<rparr>) (vessels st)\<rparr>)"
    (is "fleet_inv ?st")
proof -
  have "on_lease ?st w k" if "on_lease st w k" for w k
    using that l v by (auto simp: on_lease_def matching_lease_Some simp del: dom_map_of_conv_image_fst)
  with inv ok show ?thesis
    by (auto simp: fleet_inv_def lease_inv_def missions_inv_frame [of ?st st] split: if_splits)
qed

lemma started_inv:
  assumes inv: "fleet_inv st" and l: "matching_lease st (att_vessel_id att) (att_lease_id att) = Some l"
    and att: "att_status att = RUNNING" "attempt_coherent att" "att_id att \<notin> dom (map_of (attempts st))"
  shows "fleet_inv (record_attempt att st)"
proof -
  have "on_lease (record_attempt att st) w k \<longleftrightarrow> on_lease st w k" for w k
    by (rule on_lease_frame) simp_all
  with inv l att show ?thesis
    by (auto simp: fleet_inv_def lease_inv_def on_lease_def simp del: dom_map_of_conv_image_fst
      intro: record_attempt_missions_inv split: if_splits)
qed

text \<open>
  A lost vessel: the attempts the controller names are exactly the running ones on the lost lease,
  which by the invariant are all the running ones on the vessel.
\<close>

lemma set_interrupted_attempts:
  assumes "missions_inv st"
  shows "set (interrupted_attempts st vid lid) = {a. \<exists>att. map_of (attempts st) a = Some att
     \<and> att_status att = RUNNING \<and> att_vessel_id att = vid \<and> att_lease_id att = lid}"
proof -
  have "dict_ok (attempts st)" using assms by (simp add: missions_inv_def)
  then have dict: "(a, att) \<in> set (attempts st) \<longleftrightarrow> map_of (attempts st) a = Some att" for a att
    by (rule dict_ok_values)
  have ident: "map_of (attempts st) a = Some att \<Longrightarrow> att_id att = a" for a att
    using missions_invD(1) [OF assms] by (auto simp: attempt_ok_def)
  show ?thesis
  proof (intro set_eqI iffI)
    fix a
    assume "a \<in> set (interrupted_attempts st vid lid)"
    then obtain b att where "(b, att) \<in> set (attempts st)" "att_id att = a" "att_status att = RUNNING"
        "att_vessel_id att = vid" "att_lease_id att = lid"
      by (auto simp: interrupted_attempts_def)
    then show "a \<in> {a. \<exists>att. map_of (attempts st) a = Some att
     \<and> att_status att = RUNNING \<and> att_vessel_id att = vid \<and> att_lease_id att = lid}"
      using ident [of b att] by (auto simp: dict)
  next
    fix a
    assume "a \<in> {a. \<exists>att. map_of (attempts st) a = Some att
     \<and> att_status att = RUNNING \<and> att_vessel_id att = vid \<and> att_lease_id att = lid}"
    then obtain att where att: "map_of (attempts st) a = Some att" "att_status att = RUNNING"
        "att_vessel_id att = vid" "att_lease_id att = lid"
      by blast
    then have "att_id att = a" "att \<in> snd ` set (attempts st)"
      using dict [of a att] by (force intro: ident)+
    with att show "a \<in> set (interrupted_attempts st vid lid)"
      unfolding interrupted_attempts_def set_map [of att_id] by (intro image_eqI [of _ _ att]) simp_all
  qed
qed

lemma running_vessel_lease:
  assumes "fleet_inv st" "matching_lease st vid lid = Some l"
    "map_of (attempts st) a = Some att" "att_status att = RUNNING" "att_vessel_id att = vid"
  shows "a \<in> set (interrupted_attempts st vid lid)"
proof -
  have inv: "missions_inv st" "lease_inv st" using assms(1) unfolding fleet_inv_def by blast+
  have "on_lease st vid (att_lease_id att)"
    using lease_invD(2) [OF inv(2) assms(3,4)] assms(5) by simp
  with inv assms show ?thesis
    by (auto simp: set_interrupted_attempts on_lease_def matching_lease_Some)
qed

lemma disappeared_inv:
  assumes inv: "fleet_inv st" and l: "matching_lease st vid lid = Some l" and r: "ending_ok INCONCLUSIVE (Some r)"
  shows "fleet_inv (fold (end_attempt ev INCONCLUSIVE (Some r)) (interrupted_attempts st vid lid)
           (st\<lparr>unavailable_vessels := AList.update vid lid (unavailable_vessels st)\<rparr>))"
    (is "fleet_inv (fold _ ?ids ?st1)")
proof -
  let ?st = "fold (end_attempt ev INCONCLUSIVE (Some r)) ?ids ?st1"
  have m1: "missions_inv ?st1" using inv by (simp add: fleet_inv_def missions_inv_frame [of ?st1 st])
  have "on_lease ?st (att_vessel_id att) (att_lease_id att)"
    if att: "map_of (attempts ?st) a = Some att" "att_status att = RUNNING" for a att
  proof -
    from att have a: "map_of (attempts st) a = Some att" "a \<notin> set ?ids"
      by (auto simp: map_of_attempts_fold_end split: option.splits if_splits)
    with running_vessel_lease [OF inv l a(1) att(2)] have "att_vessel_id att \<noteq> vid" by blast
    moreover have "on_lease st (att_vessel_id att) (att_lease_id att)"
      using inv a(1) att(2) lease_invD(2) by (simp add: fleet_inv_def)
    ultimately show ?thesis
      by (auto simp: on_lease_def matching_lease_Some simp del: dom_map_of_conv_image_fst)
  qed
  moreover have "lease_inv st" using inv by (simp add: fleet_inv_def)
  ultimately show ?thesis
    using fold_end_attempt_missions_inv [OF m1 r]
    by (auto simp: fleet_inv_def lease_inv_def)
qed

section \<open>The calls, described by the replayed state\<close>

lemma ctl_state_ctl_append:
  "ctl_state (ctl_append eid ty p t s) = ebind (ctl_state s) (\<lambda>st. apply_event st
     \<lparr>ev_id = eid, ev_timestamp = t, ev_type = ty, ev_actor = None,
      ev_source = Some ''fleet-lease-controller'', ev_payload = p\<rparr>)"
  by (simp add: ctl_append_def ctl_state_append)

lemmas pget_simps = pget_def pget_str_def

lemma ctl_admit_state:
  assumes "ctl_admit (eid, t, now) v s = Inr s'" "vessel_ok v"
  obtains l st where "vessel_lease v = Some l" "lifecycle v \<noteq> PERSISTENT"
    "lease_active l (default_now t now) = Inr True" "ctl_state s = Inr st"
    "\<not> present st (vessel_id v)"
    "ctl_state s' = Inr (st\<lparr>vessels := AList.update (vessel_id v) v (vessels st),
             unavailable_vessels := AList.delete (vessel_id v) (unavailable_vessels st)\<rparr>)"
proof -
  from assms(1) obtain l st where "vessel_lease v = Some l" "lifecycle v \<noteq> PERSISTENT"
    "lease_active l (default_now t now) = Inr True" "ctl_state s = Inr st"
    "\<not> present st (vessel_id v)"
    "s' = ctl_append eid E_resource_admitted [(''vessel'', VVessel v)] (default_now t now) s"
    by (auto simp: ctl_admit_def instant_of_Inr simp flip: present_def simp del: dom_map_of_conv_image_fst
      split: vessel_lifecycle.splits option.splits)
  moreover have "validate_vessel v = Inr v" using assms(2) by (simp add: vessel_ok_def)
  ultimately show thesis
    by (intro that) (simp_all add: ctl_state_ctl_append apply_event_def apply_resource_admitted_def
      pget_simps del: dom_map_of_conv_image_fst)
qed

lemma ctl_renew_state:
  assumes "ctl_renew (eid, t, now) vid lid e s = Inr s'" "log_inv s"
  obtains l v st where "ctl_state s = Inr st" "matching_lease st vid lid = Some l"
    "map_of (vessels st) vid = Some v" "renewable l" "tz_aware e"
    "lease_active l (default_now t now) = Inr True" "wall (default_now t now) < wall e"
    "lease_ok (l\<lparr>lease_expires_at := Some e\<rparr>)"
    "\<And>e'. lease_expires_at l = Some e' \<Longrightarrow> wall e' < wall e"
    "ctl_state s' = Inr (st\<lparr>vessels := AList.update vid
       (v\<lparr>vessel_lease := Some (l\<lparr>lease_expires_at := Some e\<rparr>)\<rparr>) (vessels st)\<rparr>)"
proof -
  from assms(1) obtain l st where st: "ctl_state s = Inr st" "matching_lease st vid lid = Some l"
    "renewable l" "tz_aware e" "lease_active l (default_now t now) = Inr True"
    "dt_le e (default_now t now) = Inr False"
    "(case lease_expires_at l of None \<Rightarrow> Inr False | Some e' \<Rightarrow> dt_le e e') = Inr False"
    and s': "s' = ctl_append eid E_resource_lease_renewed
       [(''vessel_id'', VStr vid), (''lease'', VLease (l\<lparr>lease_expires_at := Some e\<rparr>))] (default_now t now) s"
    by (auto simp: ctl_renew_def instant_of_Inr default_now_def require_lease_Inr split: if_splits)
  from st(2) obtain v where v: "map_of (vessels st) vid = Some v" by (auto simp: matching_lease_Some)
  from assms(2) st(1) have "lease_inv st" by (auto simp: log_inv_def fleet_inv_def)
  then have "lease_ok l" using st(2) by (rule lease_invD)
  moreover have lt: "wall (default_now t now) < wall e" using st(6) by (auto simp: dt_le_Inr)
  ultimately have ok: "lease_ok (l\<lparr>lease_expires_at := Some e\<rparr>)"
    using lease_active_Inr_True [OF st(5)] by (intro lease_ok_extend [OF _ st(4)]) auto
  have longer: "wall e' < wall e" if "lease_expires_at l = Some e'" for e'
    using st(7) that by (auto simp: dt_le_Inr)
  have "ctl_state s' = Inr (st\<lparr>vessels := AList.update vid
       (v\<lparr>vessel_lease := Some (l\<lparr>lease_expires_at := Some e\<rparr>)\<rparr>) (vessels st)\<rparr>)"
    using ok st(1) v by (simp add: s' ctl_state_ctl_append apply_event_def
      apply_resource_lease_renewed_def pget_simps lease_ok_def)
  with st v lt ok longer show thesis by (intro that [of st l v])
qed

lemma ctl_start_attempt_state:
  assumes "ctl_start_attempt (eid, t, now) a m vid lid r s = Inr s'"
  obtains l st where "ctl_state s = Inr st" "matching_lease st vid lid = Some l"
    "lease_active l (default_now t now) = Inr True" "map_of (attempts st) a = None"
    "ctl_state s' = Inr (record_attempt \<lparr>att_id = a, att_mission_id = m, att_vessel_id = vid,
        att_lease_id = lid, att_restartable = r, att_status = RUNNING, att_termination = None,
        att_started_at = default_now t now, att_ended_at = None,
        att_start_event_id = eid, att_end_event_id = None\<rparr> st)"
proof -
  from assms obtain l st where st: "ctl_state s = Inr st" "matching_lease st vid lid = Some l"
    "lease_active l (default_now t now) = Inr True" "map_of (attempts st) a = None"
    and s': "s' = ctl_append eid E_work_attempt_started
       [(''attempt_id'', VStr a), (''mission_id'', VStr m), (''vessel_id'', VStr vid),
        (''lease_id'', VStr lid), (''restartable'', VBool r)] (default_now t now) s"
    by (auto simp: ctl_start_attempt_def instant_of_Inr require_lease_Inr domIff simp del: dom_map_of_conv_image_fst)
  show thesis
    by (rule that [OF st]) (simp add: s' ctl_state_ctl_append st(1) apply_event_def
      apply_work_attempt_started_def pget_simps)
qed

lemma interruption_reason_value:
  "reason \<noteq> EXECUTION_TIMEOUT \<Longrightarrow> interruption_reason (termination_value reason) = Inr reason"
  by (simp add: interruption_reason_def)

lemma ctl_disappear_state:
  assumes "ctl_disappear (eid, t, now) vid lid reason s = Inr s'"
  obtains l st ev where "ctl_state s = Inr st" "matching_lease st vid lid = Some l"
    "reason \<in> {LEASE_LOST, RUNNER_INTERRUPTED}" "ev_id ev = eid" "ev_timestamp ev = default_now t now"
    "ctl_state s' = Inr (fold (end_attempt ev INCONCLUSIVE (Some reason)) (interrupted_attempts st vid lid)
        (st\<lparr>unavailable_vessels := AList.update vid lid (unavailable_vessels st)\<rparr>))"
proof -
  from assms obtain l st where st: "ctl_state s = Inr st" "matching_lease st vid lid = Some l"
    "reason \<in> {LEASE_LOST, RUNNER_INTERRUPTED}"
    and s': "s' = ctl_append eid E_resource_disappeared
       [(''vessel_id'', VStr vid), (''lease_id'', VStr lid), (''reason'', VStr (termination_value reason)),
        (''interrupted_attempt_ids'', VStrs (interrupted_attempts st vid lid))] (default_now t now) s"
    by (auto simp: ctl_disappear_def instant_of_Inr require_lease_Inr simp del: dom_map_of_conv_image_fst)
  from st(3) have r: "interruption_reason (termination_value reason) = Inr reason"
    by (intro interruption_reason_value) auto
  show thesis
    by (rule that [OF st, of "\<lparr>ev_id = eid, ev_timestamp = default_now t now, ev_type = E_resource_disappeared, ev_actor = None,
      ev_source = Some ''fleet-lease-controller'', ev_payload =
       [(''vessel_id'', VStr vid), (''lease_id'', VStr lid), (''reason'', VStr (termination_value reason)),
        (''interrupted_attempt_ids'', VStrs (interrupted_attempts st vid lid))]\<rparr>"]) (simp_all add: s' ctl_state_ctl_append st(1) apply_event_def
      apply_resource_disappeared_def pget_simps r)
qed

lemma ctl_timeout_state:
  assumes "ctl_timeout (eid, t, now) a s = Inr s'"
  obtains att st ev where "ctl_state s = Inr st" "map_of (attempts st) a = Some att" "att_status att = RUNNING"
    "ev_id ev = eid" "ev_timestamp ev = default_now t now"
    "ctl_state s' = Inr (end_attempt ev TIMED_OUT (Some EXECUTION_TIMEOUT) a st)"
proof -
  from assms obtain att st where st: "ctl_state s = Inr st" "map_of (attempts st) a = Some att"
      "att_status att = RUNNING"
    and s': "s' = ctl_append eid E_work_attempt_timed_out
       [(''attempt_id'', VStr a), (''reason'', VStr (termination_value EXECUTION_TIMEOUT))] (default_now t now) s"
    by (auto simp: ctl_timeout_def instant_of_Inr split: option.splits)
  show thesis
    by (rule that [OF st, of "\<lparr>ev_id = eid, ev_timestamp = default_now t now, ev_type = E_work_attempt_timed_out, ev_actor = None,
      ev_source = Some ''fleet-lease-controller'', ev_payload =
       [(''attempt_id'', VStr a), (''reason'', VStr (termination_value EXECUTION_TIMEOUT))]\<rparr>"]) (simp_all add: s' ctl_state_ctl_append st(1) apply_event_def
      apply_work_attempt_timed_out_def pget_simps)
qed

section \<open>Every call and every outside event keeps the invariant\<close>

lemma fleet_inv_end_attempt:
  "fleet_inv st \<Longrightarrow> ending_ok s t \<Longrightarrow> fleet_inv (end_attempt ev s t a st)"
  by (simp add: fleet_inv_def end_attempt_missions_inv lease_inv_end_attempt ending_ok_coherent)

lemma fleet_inv_frame:
  "attempts st' = attempts st \<Longrightarrow> missions st' = missions st \<Longrightarrow> vessels st' = vessels st \<Longrightarrow>
    unavailable_vessels st' = unavailable_vessels st \<Longrightarrow> fleet_inv st' = fleet_inv st"
  by (simp add: fleet_inv_def missions_inv_frame [of st' st] lease_inv_def on_lease_frame [of st' st])

lemma outside_event_step:
  assumes inv: "fleet_inv st" and ev: "outside_event ev"
  obtains st' where "apply_event st ev = Inr st'" "fleet_inv st'"
proof (cases "ev_type ev")
  case E_work_attempt_interrupted
  with ev obtain a r where "pget_str (ev_payload ev) ''attempt_id'' = Inr a"
      "ebind (pget_str (ev_payload ev) ''reason'') interruption_reason = Inr r"
    by (auto split: sum.splits)
  then show thesis using E_work_attempt_interrupted inv
    by (intro that [of "end_attempt ev INCONCLUSIVE (Some r) a st"] fleet_inv_end_attempt)
      (auto simp: apply_event_def apply_work_attempt_interrupted_def dest: interruption_reason_ok)
next
  case E_work_attempt_timed_out
  with ev obtain a where "pget_str (ev_payload ev) ''attempt_id'' = Inr a" by (auto split: sum.splits)
  then show thesis using E_work_attempt_timed_out inv
    by (intro that [of "end_attempt ev TIMED_OUT (Some EXECUTION_TIMEOUT) a st"] fleet_inv_end_attempt)
      (auto simp: apply_event_def apply_work_attempt_timed_out_def)
next
  case E_work_attempt_completed
  show thesis
  proof (cases "map_of (ev_payload ev) ''attempt_id'' = None")
    case True
    then show thesis using E_work_attempt_completed inv
      by (intro that [of st]) (auto simp: apply_event_def apply_work_attempt_completed_def)
  next
    case False
    with ev E_work_attempt_completed obtain a where "pget_str (ev_payload ev) ''attempt_id'' = Inr a"
      by (auto split: sum.splits)
    then show thesis using E_work_attempt_completed inv False
      by (intro that [of "end_attempt ev COMPLETED None a st"] fleet_inv_end_attempt)
        (auto simp: apply_event_def apply_work_attempt_completed_def)
  qed
next
  case E_rupture
  then show thesis using inv
    by (intro that [of "st\<lparr>ruptures := ruptures st @ [ev_payload ev]\<rparr>"])
      (simp_all add: apply_event_def apply_rupture_def fleet_inv_frame [of "st\<lparr>ruptures := r\<rparr>" st for r])
next
  case E_repair
  then show thesis using inv
    by (intro that [of "st\<lparr>ruptures := filter (\<lambda>r. map_of r ''id'' \<noteq> map_of (ev_payload ev) ''rupture_id'') (ruptures st)\<rparr>"])
      (simp_all add: apply_event_def apply_repair_def fleet_inv_frame [of "st\<lparr>ruptures := r\<rparr>" st for r])
qed (use ev inv in \<open>auto simp: apply_event_def intro: that\<close>)

lemma log_invD: "log_inv s \<Longrightarrow> ctl_state s = Inr st \<Longrightarrow> fleet_inv st"
  by (auto simp: log_inv_def)

lemma log_invI: "ctl_state s = Inr st \<Longrightarrow> fleet_inv st \<Longrightarrow> log_inv s"
  by (auto simp: log_inv_def)

lemma ctl_admit_inv:
  assumes "ctl_admit (eid, t, now) v s = Inr s'" "vessel_ok v" "log_inv s"
  shows "log_inv s'"
  by (rule ctl_admit_state [OF assms(1,2)], rule log_invI, assumption, rule admitted_inv)
    (simp_all add: log_invD [OF assms(3)] assms(2) present_def)

lemma ctl_renew_inv:
  assumes "ctl_renew (eid, t, now) vid lid e s = Inr s'" "log_inv s"
  shows "log_inv s'"
  by (rule ctl_renew_state [OF assms]) (rule log_invI renewed_inv log_invD [OF assms(2)] | assumption)+

lemma ctl_start_attempt_inv:
  assumes "ctl_start_attempt (eid, t, now) a m vid lid r s = Inr s'" "log_inv s"
  shows "log_inv s'"
  by (rule ctl_start_attempt_state [OF assms(1)], rule log_invI, assumption, rule started_inv)
    (simp_all add: log_invD [OF assms(2)] attempt_coherent_def domIff del: dom_map_of_conv_image_fst)

lemma ctl_disappear_inv:
  assumes "ctl_disappear (eid, t, now) vid lid reason s = Inr s'" "log_inv s"
  shows "log_inv s'"
  by (rule ctl_disappear_state [OF assms(1)], rule log_invI, assumption, rule disappeared_inv)
    (auto simp: ending_ok_def intro: log_invD [OF assms(2)])

lemma ctl_timeout_inv:
  assumes "ctl_timeout (eid, t, now) a s = Inr s'" "log_inv s"
  shows "log_inv s'"
  by (rule ctl_timeout_state [OF assms(1)], rule log_invI, assumption, rule fleet_inv_end_attempt)
    (auto intro: log_invD [OF assms(2)])

lemma outside_inv: "outside_event ev \<Longrightarrow> log_inv s \<Longrightarrow> log_inv (store_append s ev)"
  using outside_event_step by (fastforce simp: log_inv_def ctl_state_append)

lemma fleet_call_inv:
  assumes "log_inv s" "fleet_op_ok p" "fleet_call p s = Inr s'"
  shows "log_inv s'"
proof (cases p)
  case (Admit c v)
  with assms ctl_admit_inv show ?thesis by (cases c) simp
next
  case (Renew c vid lid e)
  with assms ctl_renew_inv show ?thesis by (cases c) simp
next
  case (Start c a m vid lid r)
  with assms ctl_start_attempt_inv show ?thesis by (cases c) simp
next
  case (Disappear c vid lid r)
  with assms ctl_disappear_inv show ?thesis by (cases c) simp
next
  case (Timeout c a)
  with assms ctl_timeout_inv show ?thesis by (cases c) simp
next
  case (Outside ev)
  with assms outside_inv [of ev s] show ?thesis by auto
qed

interpretation fleet_log: op_machine fleet_exec fleet_op_ok log_inv
  by unfold_locales (auto simp: fleet_exec_def split: sum.splits intro: fleet_call_inv)

lemma log_inv_empty: "log_inv None"
  by (simp add: log_inv_def ctl_state_def materialize_def store_events_def fleet_inv_def lease_inv_def)
    (simp add: initial_state_def dict_of_def)

section \<open>What the properties need\<close>

lemma end_inconclusive_completed:
  "map_of (missions (end_attempt ev INCONCLUSIVE t a st)) m = Some run \<Longrightarrow> run_status run = M_COMPLETED \<Longrightarrow>
    \<exists>run0. map_of (missions st) m = Some run0 \<and> run_status run0 = M_COMPLETED"
  by (auto simp: end_attempt_def put_mission_def Let_def split: option.splits if_splits)

lemma fold_inconclusive_completed:
  "map_of (missions (fold (end_attempt ev INCONCLUSIVE t) ids st)) m = Some run \<Longrightarrow> run_status run = M_COMPLETED \<Longrightarrow>
    \<exists>run0. map_of (missions st) m = Some run0 \<and> run_status run0 = M_COMPLETED"
  by (induction ids arbitrary: st) (auto dest: end_inconclusive_completed)

lemma fold_inconclusive_replan:
  assumes inv: "missions_inv st" and r: "ending_ok INCONCLUSIVE t"
    and a: "map_of (attempts st) a = Some att" "att_status att = RUNNING"
    and run: "map_of (missions (fold (end_attempt ev INCONCLUSIVE t) ids st)) (att_mission_id att) = Some run"
  shows "run_status run = (if active_attempt_ids run = [] then REPLAN_REQUIRED else M_ACTIVE)"
proof -
  let ?st = "fold (end_attempt ev INCONCLUSIVE t) ids st"
  have "missions_inv ?st" by (rule fold_end_attempt_missions_inv [OF inv r])
  then have ok: "mission_ok ?st (att_mission_id att) run" using run by (rule missions_invD)
  from missions_invD(1) [OF inv a(1)] obtain run0 where
    run0: "map_of (missions st) (att_mission_id att) = Some run0" by (auto simp: attempt_ok_def)
  then have "mission_ok st (att_mission_id att) run0" by (rule missions_invD(2) [OF inv])
  with a have "run_status run0 = M_ACTIVE" by (auto simp: mission_ok_def running_in_def)
  with fold_inconclusive_completed [OF run] run0 have "run_status run \<noteq> M_COMPLETED" by auto
  with ok show ?thesis by (cases "run_status run") (auto simp: mission_ok_def)
qed

lemma efilter_total: "(\<And>x. x \<in> set xs \<Longrightarrow> P x = Inr (Q x)) \<Longrightarrow> efilter P xs = Inr (filter Q xs)"
  by (induction xs) auto

lemma lease_inv_vessel: "lease_inv st \<Longrightarrow> v \<in> snd ` set (vessels st) \<Longrightarrow> vessel_lease v = Some l \<Longrightarrow> lease_ok l"
  by (auto simp: lease_inv_def dict_ok_values)

section \<open>Properties\<close>

text \<open>A leased vessel and a run of calls on it, for the witnesses.\<close>

definition sample_lease :: resource_lease where
  "sample_lease = \<lparr>lease_ident = ''L1'', acquired_at = Aware 0 0, lease_expires_at = Some (Aware 100 0),
     preemptible = False, renewable = True, trust_domain = ''lab'', durable_state = False,
     cost_metadata = None\<rparr>"

definition sample_vessel :: vessel where
  "sample_vessel = \<lparr>vessel_id = ''V1'', vessel_name = ''node'', class_name = Ship, tailscale_name = None,
     vessel_resources = [], vessel_links = [], lifecycle = EPHEMERAL, vessel_lease = Some sample_lease\<rparr>"

definition sample_ops :: "fleet_op list" where
  "sample_ops = [Admit (''e1'', Some (Aware 10 0), Aware 10 0) sample_vessel,
     Start (''e2'', Some (Aware 20 0), Aware 20 0) ''A1'' ''M1'' ''V1'' ''L1'' True]"

definition sample_log :: event_store where
  "sample_log = fold fleet_exec sample_ops None"

lemmas sample_simps = sample_log_def sample_ops_def sample_vessel_def sample_lease_def fleet_exec_def
  ctl_admit_def ctl_start_attempt_def instant_of_def default_now_def lease_active_def ctl_state_def
  materialize_def store_events_def initial_state_def dict_of_def ctl_append_def store_append_def
  apply_event_def apply_resource_admitted_def apply_work_attempt_started_def pget_def pget_str_def
  require_lease_def matching_lease_def validate_vessel_def validate_lease_option_def validate_lease_def
  resource_references_exist_def record_attempt_def put_mission_def mission_of_def Let_def

lemma sample_vessel_ok: "vessel_ok sample_vessel"
  by (simp add: vessel_ok_def sample_simps)

lemma sample_ops_ok: "\<forall>p \<in> set sample_ops. fleet_op_ok p"
  by (simp add: sample_ops_def sample_vessel_ok)

lemma sample_log_inv: "log_inv sample_log"
  unfolding sample_log_def by (rule fleet_log.inv_run [OF log_inv_empty sample_ops_ok])



text \<open>
  C21. Reporting a vessel lost closes all of its work. When \<open>disappear\<close> is accepted, the replayed
  state marks the vessel unavailable under that lease; every attempt that was running on the vessel
  is now inconclusive with the given reason, ended at the call's time by the call's event, and every
  other attempt is untouched; the mission of each closed attempt stays active only if it has another
  running attempt, and otherwise requires replanning.
\<close>

theorem disappear_closes_work:
  assumes "log_inv s" and "ctl_disappear (eid, t, now) vid lid reason s = Inr s'"
  shows "\<exists>st st'. ctl_state s = Inr st \<and> ctl_state s' = Inr st' \<and> map_of (unavailable_vessels st') vid = Some lid
    \<and> (\<forall>a. map_of (attempts st') a = (case map_of (attempts st) a of
          Some att \<Rightarrow> Some (if att_status att = RUNNING \<and> att_vessel_id att = vid
            then att\<lparr>att_status := INCONCLUSIVE, att_termination := Some reason,
                     att_ended_at := Some (default_now t now), att_end_event_id := Some eid\<rparr> else att)
        | None \<Rightarrow> None))
    \<and> (\<forall>a att run. map_of (attempts st) a = Some att \<longrightarrow> att_status att = RUNNING \<longrightarrow> att_vessel_id att = vid \<longrightarrow>
          map_of (missions st') (att_mission_id att) = Some run \<longrightarrow>
          run_status run = (if active_attempt_ids run = [] then REPLAN_REQUIRED else M_ACTIVE))"
proof -
  from assms(2) obtain l st ev where st: "ctl_state s = Inr st" "matching_lease st vid lid = Some l"
    "reason \<in> {LEASE_LOST, RUNNER_INTERRUPTED}" and ev: "ev_id ev = eid" "ev_timestamp ev = default_now t now"
    and s': "ctl_state s' = Inr (fold (end_attempt ev INCONCLUSIVE (Some reason)) (interrupted_attempts st vid lid)
        (st\<lparr>unavailable_vessels := AList.update vid lid (unavailable_vessels st)\<rparr>))"
      (is "_ = Inr (fold _ ?ids ?st1)")
    by (rule ctl_disappear_state)
  have inv: "fleet_inv st" by (rule log_invD [OF assms(1) st(1)])
  then have m: "missions_inv st" and m1: "missions_inv ?st1"
    by (simp_all add: fleet_inv_def missions_inv_frame [of ?st1 st])
  have ids: "a \<in> set ?ids \<longleftrightarrow> att_status att = RUNNING \<and> att_vessel_id att = vid"
    if "map_of (attempts st) a = Some att" for a att
    using running_vessel_lease [OF inv st(2) that] that by (auto simp: set_interrupted_attempts [OF m])
  have r: "ending_ok INCONCLUSIVE (Some reason)" using st(3) by (auto simp: ending_ok_def)
  have "map_of (attempts (fold (end_attempt ev INCONCLUSIVE (Some reason)) ?ids ?st1)) a =
      (case map_of (attempts st) a of
          Some att \<Rightarrow> Some (if att_status att = RUNNING \<and> att_vessel_id att = vid
            then att\<lparr>att_status := INCONCLUSIVE, att_termination := Some reason,
                     att_ended_at := Some (default_now t now), att_end_event_id := Some eid\<rparr> else att)
        | None \<Rightarrow> None)" for a
    using ids [of a] by (auto simp: map_of_attempts_fold_end ended_def ev split: option.splits)
  with st(1) s' fold_inconclusive_replan [OF m1 r, of _ _ ev ?ids] show ?thesis
    by simp
qed

theorem disappear_closes_work_witness:
  "\<exists>s' st'. ctl_disappear (''e3'', Some (Aware 30 0), Aware 30 0) ''V1'' ''L1'' LEASE_LOST sample_log = Inr s'
     \<and> ctl_state s' = Inr st' \<and> map_of (unavailable_vessels st') ''V1'' = Some ''L1''"
proof -
  have "\<exists>s'. ctl_disappear (''e3'', Some (Aware 30 0), Aware 30 0) ''V1'' ''L1'' LEASE_LOST sample_log = Inr s'"
    by (simp add: ctl_disappear_def sample_simps)
  with disappear_closes_work [OF sample_log_inv] show ?thesis by blast
qed

text \<open>The lease window the controller tests: acquisition inclusive, expiry exclusive.\<close>

definition in_window :: "resource_lease \<Rightarrow> datetime \<Rightarrow> bool" where
  "in_window l i \<longleftrightarrow> wall (acquired_at l) \<le> wall i \<and> (\<forall>e. lease_expires_at l = Some e \<longrightarrow> wall i < wall e)"

lemma start_decided:
  assumes "log_inv s" and "ctl_state s = Inr st"
  shows "ctl_start_attempt (eid, t, now) a m vid lid r s = (let i = default_now t now in
    if \<not> tz_aware i then Inl (ValueError ''lease lifecycle timestamps must be timezone-aware'')
    else case matching_lease st vid lid of
        None \<Rightarrow> Inl (LeaseLifecycleError ''attempt vessel has no matching available lease'')
      | Some l \<Rightarrow>
          if \<not> in_window l i then Inl (LeaseLifecycleError ''attempt vessel lease is expired or not yet active'')
          else if map_of (attempts st) a \<noteq> None then Inl (LeaseLifecycleError ''attempt id has already been used'')
          else Inr (ctl_append eid E_work_attempt_started
            [(''attempt_id'', VStr a), (''mission_id'', VStr m), (''vessel_id'', VStr vid),
             (''lease_id'', VStr lid), (''restartable'', VBool r)] i s))"
proof -
  have inv: "lease_inv st" using log_invD [OF assms] by (simp add: fleet_inv_def)
  have active: "lease_active l i = Inr (in_window l i)"
    if m: "matching_lease st vid lid = Some l" and tz: "tz_aware i" for l i
  proof -
    obtain v where "map_of (vessels st) vid = Some v" "vessel_lease v = Some l" using m unfolding matching_lease_Some by blast
    then show ?thesis
      using tz inv by (subst lease_active_ok) (auto simp: lease_inv_def in_window_def split: option.split)
  qed
  show ?thesis
    by (auto simp: ctl_start_attempt_def instant_of_def Let_def assms(2) require_lease_def active guard_def domIff
      simp del: dom_map_of_conv_image_fst split: option.split)
qed

lemma start_outcome:
  assumes "log_inv s" and "ctl_state s = Inr st" and i: "i = default_now t now"
    and held: "held \<longleftrightarrow> matching_lease st vid lid \<noteq> None"
    and live: "\<And>l. matching_lease st vid lid = Some l \<Longrightarrow> live \<longleftrightarrow> in_window l i"
    and unused: "unused \<longleftrightarrow> map_of (attempts st) a = None"
  shows "case ctl_start_attempt (eid, t, now) a m vid lid r s of
      Inl x \<Rightarrow> \<not> (tz_aware i \<and> held \<and> live \<and> unused)
        \<and> x = (if \<not> tz_aware i then ValueError ''lease lifecycle timestamps must be timezone-aware''
            else LeaseLifecycleError (if \<not> held then ''attempt vessel has no matching available lease''
              else if \<not> live then ''attempt vessel lease is expired or not yet active''
              else ''attempt id has already been used''))
    | Inr s' \<Rightarrow> tz_aware i \<and> held \<and> live \<and> unused
        \<and> store_events s' = store_events s @ [\<lparr>ev_id = eid, ev_timestamp = i, ev_type = E_work_attempt_started, ev_actor = None,
            ev_source = Some ''fleet-lease-controller'', ev_payload = [(''attempt_id'', VStr a), (''mission_id'', VStr m),
              (''vessel_id'', VStr vid), (''lease_id'', VStr lid), (''restartable'', VBool r)]\<rparr>]
        \<and> (\<exists>st' att. ctl_state s' = Inr st' \<and> map_of (attempts st') = (map_of (attempts st))(a \<mapsto> att)
          \<and> att_status att = RUNNING \<and> att_mission_id att = m \<and> att_vessel_id att = vid \<and> att_lease_id att = lid
          \<and> att_started_at att = i \<and> att_start_event_id att = eid \<and> att_restartable att = r
          \<and> vessels st' = vessels st \<and> unavailable_vessels st' = unavailable_vessels st)"
proof (cases "ctl_start_attempt (eid, t, now) a m vid lid r s")
  case (Inl x)
  then show ?thesis
    using live by (simp add: start_decided [OF assms(1,2)] Let_def i held unused split: if_split_asm option.split_asm)
next
  case (Inr s')
  have "tz_aware i \<and> held \<and> live \<and> unused" and s': "s' = ctl_append eid E_work_attempt_started
      [(''attempt_id'', VStr a), (''mission_id'', VStr m), (''vessel_id'', VStr vid),
       (''lease_id'', VStr lid), (''restartable'', VBool r)] i s"
    using Inr live by (simp_all add: start_decided [OF assms(1,2)] Let_def i held unused split: if_split_asm option.split_asm)
  moreover have "store_events s' = store_events s @ [\<lparr>ev_id = eid, ev_timestamp = i, ev_type = E_work_attempt_started, ev_actor = None,
      ev_source = Some ''fleet-lease-controller'', ev_payload = [(''attempt_id'', VStr a), (''mission_id'', VStr m),
        (''vessel_id'', VStr vid), (''lease_id'', VStr lid), (''restartable'', VBool r)]\<rparr>]"
    by (simp add: s' store_events_def ctl_append_def store_append_def split: option.split)
  moreover obtain st' where "ctl_state s' = Inr st'" and st': "st' = record_attempt \<lparr>att_id = a, att_mission_id = m, att_vessel_id = vid,
      att_lease_id = lid, att_restartable = r, att_status = RUNNING, att_termination = None,
      att_started_at = i, att_ended_at = None, att_start_event_id = eid, att_end_event_id = None\<rparr> st"
    by (rule ctl_start_attempt_state [OF Inr]) (use assms(2) i in simp)
  moreover have "map_of (attempts st') = (map_of (attempts st))(a \<mapsto> \<lparr>att_id = a, att_mission_id = m, att_vessel_id = vid,
      att_lease_id = lid, att_restartable = r, att_status = RUNNING, att_termination = None,
      att_started_at = i, att_ended_at = None, att_start_event_id = eid, att_end_event_id = None\<rparr>)"
    "vessels st' = vessels st" "unavailable_vessels st' = unavailable_vessels st"
    unfolding st' by simp_all
  ultimately show ?thesis unfolding Inr sum.case by (intro conjI exI [of _ st'] exI) (assumption | simp)+
qed

text \<open>
  C9. A start is decided by its guards, in their order. It is accepted exactly when the given time is
  timezone-aware, the vessel is not lost and holds the lease the caller names, that lease's window
  (acquisition inclusive, expiry exclusive) contains the time, and the attempt id has never been used.
  A refusal raises the error of the first guard that fails. An accepted start appends exactly one event,
  the start of this attempt at that time; the replayed state then differs in one new attempt, running, on
  that vessel and lease, and in the missions.
\<close>

theorem start_accepted_iff:
  assumes "log_inv s" and "ctl_state s = Inr st"
  shows "let i = default_now t now;
      held = vid \<notin> dom (map_of (unavailable_vessels st))
        \<and> (\<exists>v l. map_of (vessels st) vid = Some v \<and> vessel_lease v = Some l \<and> lease_ident l = lid);
      live = (\<exists>v l. map_of (vessels st) vid = Some v \<and> vessel_lease v = Some l \<and> wall (acquired_at l) \<le> wall i
        \<and> (\<forall>e. lease_expires_at l = Some e \<longrightarrow> wall i < wall e));
      unused = a \<notin> dom (map_of (attempts st)) in
    case ctl_start_attempt (eid, t, now) a m vid lid r s of
      Inl x \<Rightarrow> \<not> (tz_aware i \<and> held \<and> live \<and> unused)
        \<and> x = (if \<not> tz_aware i then ValueError ''lease lifecycle timestamps must be timezone-aware''
            else LeaseLifecycleError (if \<not> held then ''attempt vessel has no matching available lease''
              else if \<not> live then ''attempt vessel lease is expired or not yet active''
              else ''attempt id has already been used''))
    | Inr s' \<Rightarrow> tz_aware i \<and> held \<and> live \<and> unused
        \<and> store_events s' = store_events s @ [\<lparr>ev_id = eid, ev_timestamp = i, ev_type = E_work_attempt_started, ev_actor = None,
            ev_source = Some ''fleet-lease-controller'', ev_payload = [(''attempt_id'', VStr a), (''mission_id'', VStr m),
              (''vessel_id'', VStr vid), (''lease_id'', VStr lid), (''restartable'', VBool r)]\<rparr>]
        \<and> (\<exists>st' att. ctl_state s' = Inr st' \<and> map_of (attempts st') = (map_of (attempts st))(a \<mapsto> att)
          \<and> att_status att = RUNNING \<and> att_mission_id att = m \<and> att_vessel_id att = vid \<and> att_lease_id att = lid
          \<and> att_started_at att = i \<and> att_start_event_id att = eid \<and> att_restartable att = r
          \<and> vessels st' = vessels st \<and> unavailable_vessels st' = unavailable_vessels st)"
  unfolding Let_def
  by (rule start_outcome [OF assms refl])
    (auto simp: matching_lease_Some in_window_def domIff simp del: dom_map_of_conv_image_fst)

theorem start_accepted_iff_witness:
  "\<exists>s'. ctl_start_attempt (''e3'', Some (Aware 99 0), Aware 0 0) ''A2'' ''M1'' ''V1'' ''L1'' False sample_log = Inr s'
     \<and> length (store_events s') = Suc (length (store_events sample_log))
     \<and> ctl_start_attempt (''e3'', Some (Aware 100 0), Aware 0 0) ''A2'' ''M1'' ''V1'' ''L1'' False sample_log
       = Inl (LeaseLifecycleError ''attempt vessel lease is expired or not yet active'')"
proof -
  obtain st where st: "ctl_state sample_log = Inr st" using sample_log_inv by (auto simp: log_inv_def)
  then have sample: "map_of (vessels st) ''V1'' = Some sample_vessel" "map_of (unavailable_vessels st) ''V1'' = None"
      "map_of (attempts st) ''A2'' = None"
    by (auto simp: sample_simps)
  have "\<exists>s'. ctl_start_attempt (''e3'', Some (Aware 99 0), Aware 0 0) ''A2'' ''M1'' ''V1'' ''L1'' False sample_log = Inr s'
      \<and> length (store_events s') = Suc (length (store_events sample_log))"
    using start_accepted_iff [OF sample_log_inv st, of "Some (Aware 99 0)" "Aware 0 0" "''V1''" "''L1''" "''A2''" "''e3''" "''M1''" False]
      sample by (auto simp: Let_def default_now_def sample_vessel_def sample_lease_def domIff
        simp del: dom_map_of_conv_image_fst split: sum.split_asm)
  moreover have "ctl_start_attempt (''e3'', Some (Aware 100 0), Aware 0 0) ''A2'' ''M1'' ''V1'' ''L1'' False sample_log
       = Inl (LeaseLifecycleError ''attempt vessel lease is expired or not yet active'')"
    using start_accepted_iff [OF sample_log_inv st, of "Some (Aware 100 0)" "Aware 0 0" "''V1''" "''L1''" "''A2''" "''e3''" "''M1''" False]
      sample by (auto simp: Let_def default_now_def sample_vessel_def sample_lease_def domIff
        simp del: dom_map_of_conv_image_fst split: sum.split_asm)
  ultimately show ?thesis by blast
qed

text \<open>
  Renewal only ever extends a live lease: when \<open>renew\<close> is accepted the lease was renewable and
  active at the call's time, the new expiry is later than the call and than the old expiry, the
  replayed state differs from the previous one only in that lease's expiry, and the lease is still
  one the validator accepts.
\<close>

theorem renew_extends:
  assumes "log_inv s" and "ctl_renew (eid, t, now) vid lid e s = Inr s'"
  shows "\<exists>st v l. ctl_state s = Inr st \<and> map_of (vessels st) vid = Some v \<and> vessel_lease v = Some l
    \<and> lease_ident l = lid \<and> renewable l \<and> lease_active l (default_now t now) = Inr True
    \<and> wall (default_now t now) < wall e \<and> (\<forall>e'. lease_expires_at l = Some e' \<longrightarrow> wall e' < wall e)
    \<and> lease_ok (l\<lparr>lease_expires_at := Some e\<rparr>)
    \<and> ctl_state s' = Inr (st\<lparr>vessels := AList.update vid
         (v\<lparr>vessel_lease := Some (l\<lparr>lease_expires_at := Some e\<rparr>)\<rparr>) (vessels st)\<rparr>)"
  by (rule ctl_renew_state [OF assms(2,1)]) (auto simp: matching_lease_Some)

theorem renew_extends_witness:
  "\<exists>s' st' v l. ctl_renew (''e3'', Some (Aware 50 0), Aware 50 0) ''V1'' ''L1'' (Aware 200 0) sample_log = Inr s'
     \<and> ctl_state s' = Inr st' \<and> map_of (vessels st') ''V1'' = Some v \<and> vessel_lease v = Some l
     \<and> lease_expires_at l = Some (Aware 200 0)"
proof -
  have "\<exists>s'. ctl_renew (''e3'', Some (Aware 50 0), Aware 50 0) ''V1'' ''L1'' (Aware 200 0) sample_log = Inr s'"
    by (simp add: ctl_renew_def sample_simps)
  with renew_extends [OF sample_log_inv] show ?thesis by fastforce
qed

text \<open>
  On a replayed fleet the snapshot of active vessels never fails at a timezone-aware time and is
  exactly the admitted vessels, in admission order, that are not lost and either have no lease or
  one whose window contains the time.
\<close>

theorem active_vessels_exact:
  assumes "log_inv s" and "ctl_state s = Inr st" and "tz_aware (default_now t now)"
  shows "active_vessels st t now = Inr (filter (\<lambda>v. vessel_id v \<notin> dom (map_of (unavailable_vessels st))
      \<and> (\<forall>l. vessel_lease v = Some l \<longrightarrow> wall (acquired_at l) \<le> wall (default_now t now)
           \<and> (\<forall>e. lease_expires_at l = Some e \<longrightarrow> wall (default_now t now) < wall e)))
    (map snd (vessels st)))"
proof -
  have inv: "lease_inv st" using log_invD [OF assms(1,2)] by (simp add: fleet_inv_def)
  have "vessel_covered st (default_now t now) v = Inr (vessel_id v \<notin> dom (map_of (unavailable_vessels st))
      \<and> (\<forall>l. vessel_lease v = Some l \<longrightarrow> wall (acquired_at l) \<le> wall (default_now t now)
           \<and> (\<forall>e. lease_expires_at l = Some e \<longrightarrow> wall (default_now t now) < wall e)))"
    if "v \<in> set (map snd (vessels st))" for v
    using that lease_inv_vessel [OF inv, of v] assms(3)
    by (auto simp: lease_active_ok dom_map_of_conv_image_fst split: option.splits)
  then have "efilter (vessel_covered st (default_now t now)) (map snd (vessels st)) = Inr (filter
      (\<lambda>v. vessel_id v \<notin> dom (map_of (unavailable_vessels st))
        \<and> (\<forall>l. vessel_lease v = Some l \<longrightarrow> wall (acquired_at l) \<le> wall (default_now t now)
           \<and> (\<forall>e. lease_expires_at l = Some e \<longrightarrow> wall (default_now t now) < wall e)))
      (map snd (vessels st)))"
    by (rule efilter_total)
  with assms(3) show ?thesis by (simp add: active_vessels_def Let_def)
qed

theorem active_vessels_exact_witness:
  "\<exists>st vs. ctl_state sample_log = Inr st \<and> active_vessels st (Some (Aware 99 0)) (Aware 0 0) = Inr vs \<and> vs = [sample_vessel]"
proof -
  obtain st where st: "ctl_state sample_log = Inr st" using sample_log_inv by (auto simp: log_inv_def)
  then have "vessels st = [(''V1'', sample_vessel)]" "unavailable_vessels st = []"
    by (auto simp: sample_simps)
  with active_vessels_exact [OF sample_log_inv st, of "Some (Aware 99 0)" "Aware 0 0"] st show ?thesis
    by (simp add: default_now_def sample_vessel_def sample_lease_def)
qed

text \<open>
  Replaying any log in which no attempt id is started twice, over any declared crew and vessels,
  yields consistent missions: every recorded attempt belongs to its mission's list and has end
  fields that agree with its status, and a mission's active list is exactly its running attempts,
  without duplicates, with the mission active exactly when the list is not empty.
\<close>

theorem materialized_missions_consistent:
  assumes "materialize es ms vs = Inr st" and "distinct (started_ids es)"
  shows "missions_inv st"
  using replay_missions_inv [OF missions_inv_initial, of ms vs es st] assms
  by (auto simp: materialize_def initial_state_def)

theorem materialized_missions_consistent_witness:
  "\<exists>st. materialize (store_events sample_log) [] [] = Inr st \<and> missions_inv st \<and> missions st \<noteq> []"
proof -
  obtain st where st: "ctl_state sample_log = Inr st" using sample_log_inv by (auto simp: log_inv_def)
  then have "missions st \<noteq> []" by (auto simp: sample_simps)
  moreover have "distinct (started_ids (store_events sample_log))"
    by (simp add: sample_simps started_ids_def started_id_def)
  ultimately show ?thesis
    using st materialized_missions_consistent by (auto simp: ctl_state_def)
qed

end
