(* ===== verification/Runtime_Contracts.thy ===== *)
theory Runtime_Contracts
  imports Domain_Models
begin

text \<open>
  The runtime-neutral records of \<open>long_haul/runtime.py\<close> and the benchmark observations of
  \<open>long_haul/benchmarks/store.py\<close>.

  Model equality is equality of the fields; a runtime's \<open>capabilities\<close> dictionary compares
  without regard to insertion order (\<open>runtime_eq\<close>). \<open>validation_dump\<close> and \<open>observation_dump\<close> are
  the JSON dumps the scheduler uses to tell records apart. A benchmark file is the list of the
  records its lines hold, or \<open>None\<close> before it exists.
\<close>

section \<open>Enumerations\<close>

datatype validation_state = SUPPORTED | UNSUPPORTED | UNKNOWN

datatype validation_depth = STRUCTURAL | PREFLIGHT | EXECUTION | BENCHMARK

datatype failure_class =
    FAIL_SYSTEM | FAIL_RUNTIME | FAIL_ARTIFACT | FAIL_RESOURCE | FAIL_EXECUTION | FAIL_TIMEOUT
  | FAIL_INTERRUPTION

datatype validation_provenance = VMeasured | VProbe | VSimulated

datatype provenance = Measured | Imported | Simulated | Estimated

fun state_value :: "validation_state \<Rightarrow> string" where
  "state_value SUPPORTED = ''SUPPORTED''"
| "state_value UNSUPPORTED = ''UNSUPPORTED''"
| "state_value UNKNOWN = ''UNKNOWN''"

fun depth_value :: "validation_depth \<Rightarrow> string" where
  "depth_value STRUCTURAL = ''STRUCTURAL''"
| "depth_value PREFLIGHT = ''PREFLIGHT''"
| "depth_value EXECUTION = ''EXECUTION''"
| "depth_value BENCHMARK = ''BENCHMARK''"

fun vprovenance_value :: "validation_provenance \<Rightarrow> string" where
  "vprovenance_value VMeasured = ''measured''"
| "vprovenance_value VProbe = ''probe''"
| "vprovenance_value VSimulated = ''simulated''"

fun provenance_value :: "provenance \<Rightarrow> string" where
  "provenance_value Measured = ''measured''"
| "provenance_value Imported = ''imported''"
| "provenance_value Simulated = ''simulated''"
| "provenance_value Estimated = ''estimated''"

fun mode_value :: "execution_mode \<Rightarrow> string" where
  "mode_value LOCAL = ''LOCAL''"
| "mode_value POOL = ''POOL''"
| "mode_value PIPELINE = ''PIPELINE''"
| "mode_value COMPOSE = ''COMPOSE''"

section \<open>Runtime identity\<close>

text \<open>A capability is a boolean or a string.\<close>

datatype capability = CapBool bool | CapStr string

record runtime_identity =
  runtime_id :: string
  rt_version :: "string option"
  rt_build_id :: "string option"
  binary_path :: "string option"
  backends :: "string list"
  capabilities :: "(string, capability) dict"

definition runtime_eq :: "runtime_identity \<Rightarrow> runtime_identity \<Rightarrow> bool" where
  "runtime_eq a b \<longleftrightarrow> runtime_id a = runtime_id b \<and> rt_version a = rt_version b
     \<and> rt_build_id a = rt_build_id b \<and> binary_path a = binary_path b \<and> backends a = backends b
     \<and> set (capabilities a) = set (capabilities b)"

fun join :: "string \<Rightarrow> string list \<Rightarrow> string" where
  "join sep [] = []"
| "join sep [s] = s"
| "join sep (s # t # ss) = s @ sep @ join sep (t # ss)"

text \<open>\<open>value or "unknown"\<close>: an empty string also becomes \<open>unknown\<close>.\<close>

definition or_unknown :: "string option \<Rightarrow> string" where
  "or_unknown v = (case v of None \<Rightarrow> ''unknown'' | Some s \<Rightarrow> if s = [] then ''unknown'' else s)"

definition runtime_fingerprint :: "runtime_identity \<Rightarrow> string" where
  "runtime_fingerprint r = join ''|''
     [runtime_id r, or_unknown (rt_version r), or_unknown (rt_build_id r), join '','' (sort (backends r))]"

section \<open>Profile validations\<close>

record profile_validation =
  val_runtime :: runtime_identity
  val_profile_id :: string
  val_artifact_key :: string
  val_resources :: "string list"
  val_strategy :: string
  val_options :: "(string \<times> pyval) list"
  val_state :: validation_state
  val_depth :: validation_depth
  val_rationale :: string
  val_timestamp :: datetime
  val_provenance :: validation_provenance

text \<open>The fingerprint renders the sorted options with \<open>repr\<close>, a parameter here.\<close>

definition validation_fingerprint ::
  "((string \<times> pyval) list \<Rightarrow> string) \<Rightarrow> profile_validation \<Rightarrow> string" where
  "validation_fingerprint repr_items v = join ''|''
     [runtime_fingerprint (val_runtime v), val_profile_id v, val_artifact_key v,
      join '','' (sort (val_resources v)), val_strategy v, repr_items (sort_key fst (val_options v))]"

fun capability_dump :: "capability \<Rightarrow> pyval" where
  "capability_dump (CapBool b) = PBool b"
| "capability_dump (CapStr s) = PStr s"

definition runtime_dump :: "runtime_identity \<Rightarrow> pyval" where
  "runtime_dump r = PDict
     [(''runtime_id'', PStr (runtime_id r)), (''version'', opt_str (rt_version r)),
      (''build_id'', opt_str (rt_build_id r)), (''binary_path'', opt_str (binary_path r)),
      (''backends'', PList (map PStr (backends r))),
      (''capabilities'', PDict (map (\<lambda>(k, c). (k, capability_dump c)) (capabilities r)))]"

text \<open>An ISO timestamp, represented by what it says.\<close>

fun datetime_dump :: "datetime \<Rightarrow> pyval" where
  "datetime_dump (Aware u off) = PList [PInt u, PInt off]"
| "datetime_dump (Naive w) = PList [PInt w]"
| "datetime_dump (NoOffset w) = PList [PInt w]"

definition validation_dump :: "profile_validation \<Rightarrow> pyval" where
  "validation_dump v = PDict
     [(''runtime'', runtime_dump (val_runtime v)), (''profile_id'', PStr (val_profile_id v)),
      (''artifact_key'', PStr (val_artifact_key v)), (''resources'', PList (map PStr (val_resources v))),
      (''strategy'', PStr (val_strategy v)), (''options'', PDict (val_options v)),
      (''state'', PStr (state_value (val_state v))), (''depth'', PStr (depth_value (val_depth v))),
      (''rationale'', PStr (val_rationale v)), (''timestamp'', datetime_dump (val_timestamp v)),
      (''provenance'', PStr (vprovenance_value (val_provenance v)))]"

section \<open>Requests and results\<close>

datatype prompt_mode = RuntimeDefault | Rendered

record execution_request =
  request_id :: string
  req_profile :: inference_profile
  prompt :: string
  max_tokens :: int
  temperature :: pyfloat
  timeout_seconds :: pyfloat
  req_allow_unknown :: bool
  seed :: "int option"
  context_tokens :: "int option"
  req_prompt_mode :: prompt_mode

definition opt_range :: "int \<Rightarrow> int \<Rightarrow> int option \<Rightarrow> bool" where
  "opt_range lo hi v = (case v of None \<Rightarrow> True | Some n \<Rightarrow> lo \<le> n \<and> n \<le> hi)"

definition validate_request :: "execution_request \<Rightarrow> execution_request result" where
  "validate_request r =
     ebind (validate_profile (req_profile r)) (\<lambda>_.
     ebind (guard (1 \<le> max_tokens r \<and> max_tokens r \<le> 4096) (ValueError ''max_tokens'')) (\<lambda>_.
     ebind (guard (isfinite (temperature r) \<and> fge (temperature r) (Fin 0)) (ValueError ''temperature'')) (\<lambda>_.
     ebind (guard (isfinite (timeout_seconds r) \<and> fgt (timeout_seconds r) (Fin 0)) (ValueError ''timeout_seconds'')) (\<lambda>_.
     ebind (guard (opt_range 0 2147483647 (seed r)) (ValueError ''seed'')) (\<lambda>_.
     ebind (guard (opt_range 1 2147483647 (context_tokens r)) (ValueError ''context_tokens'')) (\<lambda>_.
     Inr r))))))"

record timing =
  load_seconds :: "pyfloat option"
  ttft_seconds :: "pyfloat option"
  t_prompt_tokens :: "int option"
  generated_tokens :: "int option"
  prefill_tps :: "pyfloat option"
  decode_tps :: "pyfloat option"
  total_seconds :: "pyfloat option"

definition no_timing :: timing where
  "no_timing = \<lparr>load_seconds = None, ttft_seconds = None, t_prompt_tokens = None, generated_tokens = None,
     prefill_tps = None, decode_tps = None, total_seconds = None\<rparr>"

record execution_result =
  res_request_id :: string
  res_runtime :: runtime_identity
  success :: bool
  res_output :: "string option"
  timings :: timing
  error_class :: "failure_class option"
  error_detail :: "string option"
  raw_exit_code :: "int option"

definition failed_result :: "execution_request \<Rightarrow> runtime_identity \<Rightarrow> failure_class \<Rightarrow> string \<Rightarrow> timing \<Rightarrow> execution_result" where
  "failed_result r rt cls detail t = \<lparr>res_request_id = request_id r, res_runtime = rt, success = False, res_output = None,
     timings = t, error_class = Some cls, error_detail = Some detail, raw_exit_code = None\<rparr>"

section \<open>Benchmark observations\<close>

record workload =
  workload_name :: string
  prompt_tokens :: int
  output_tokens :: int
  cold :: bool

record observation =
  obs_id :: string
  obs_timestamp :: datetime
  obs_profile :: inference_profile
  obs_plan_mode :: execution_mode
  obs_resources :: "string list"
  obs_workload :: workload
  obs_provenance :: provenance
  obs_load_seconds :: "pyfloat option"
  obs_ttft_seconds :: "pyfloat option"
  obs_prefill_tps :: "pyfloat option"
  obs_decode_tps :: "pyfloat option"
  residency_mib :: "(string, pyfloat) dict"
  utilization :: "(string, pyfloat) dict"
  network :: "(string, pyfloat + string) dict"
  power_watts :: "pyfloat option"
  obs_error :: "string option"
  obs_schema_version :: int
  obs_runtime :: "runtime_identity option"

definition opt_float :: "pyfloat option \<Rightarrow> pyval" where
  "opt_float x = (case x of None \<Rightarrow> PNone | Some v \<Rightarrow> PFloat v)"

definition workload_dump :: "workload \<Rightarrow> pyval" where
  "workload_dump w = PDict [(''name'', PStr (workload_name w)), (''prompt_tokens'', PInt (prompt_tokens w)),
     (''output_tokens'', PInt (output_tokens w)), (''cold'', PBool (cold w))]"

fun network_dump :: "pyfloat + string \<Rightarrow> pyval" where
  "network_dump (Inl x) = PFloat x"
| "network_dump (Inr s) = PStr s"

definition floats_dump :: "(string, pyfloat) dict \<Rightarrow> pyval" where
  "floats_dump d = PDict (map (\<lambda>(k, x). (k, PFloat x)) d)"

text \<open>The dump with the id left out.\<close>

definition observation_dump :: "observation \<Rightarrow> pyval" where
  "observation_dump b = PDict
     [(''timestamp'', datetime_dump (obs_timestamp b)), (''profile'', profile_dump (obs_profile b)),
      (''plan_mode'', PStr (mode_value (obs_plan_mode b))), (''resources'', PList (map PStr (obs_resources b))),
      (''workload'', workload_dump (obs_workload b)), (''provenance'', PStr (provenance_value (obs_provenance b))),
      (''load_seconds'', opt_float (obs_load_seconds b)), (''ttft_seconds'', opt_float (obs_ttft_seconds b)),
      (''prefill_tps'', opt_float (obs_prefill_tps b)), (''decode_tps'', opt_float (obs_decode_tps b)),
      (''residency_mib'', floats_dump (residency_mib b)), (''utilization'', floats_dump (utilization b)),
      (''network'', PDict (map (\<lambda>(k, x). (k, network_dump x)) (network b))),
      (''power_watts'', opt_float (power_watts b)), (''error'', opt_str (obs_error b)),
      (''schema_version'', PInt (obs_schema_version b)),
      (''runtime'', (case obs_runtime b of None \<Rightarrow> PNone | Some r \<Rightarrow> runtime_dump r))]"

section \<open>The benchmark store\<close>

type_synonym benchmark_store = "observation list option"

definition bench_append :: "benchmark_store \<Rightarrow> observation \<Rightarrow> benchmark_store" where
  "bench_append s b = Some ((case s of None \<Rightarrow> [] | Some bs \<Rightarrow> bs) @ [b])"

definition bench_query ::
  "string option \<Rightarrow> execution_mode option \<Rightarrow> string set option \<Rightarrow> benchmark_store \<Rightarrow> observation list" where
  "bench_query pid mode resources s =
     filter (\<lambda>x. (case pid of None \<Rightarrow> True | Some p \<Rightarrow> profile_id (obs_profile x) = p)
        \<and> (case mode of None \<Rightarrow> True | Some m \<Rightarrow> obs_plan_mode x = m)
        \<and> (case resources of None \<Rightarrow> True | Some rs \<Rightarrow> rs \<subseteq> set (obs_resources x)))
       (case s of None \<Rightarrow> [] | Some bs \<Rightarrow> bs)"

text \<open>
  \<open>evidence_is_fresh\<close>: both timestamps carry a \<open>tzinfo\<close> and the observation lies between the
  cutoff and the clock reading \<open>now\<close>.
\<close>

definition evidence_is_fresh :: "datetime \<Rightarrow> datetime \<Rightarrow> datetime \<Rightarrow> bool result" where
  "evidence_is_fresh now timestamp not_before =
     (if \<not> (has_tzinfo timestamp \<and> has_tzinfo not_before) then Inr False
      else ebind (dt_le not_before timestamp) (\<lambda>b.
           if \<not> b then Inr False else dt_le timestamp now))"

text \<open>A short-circuit \<open>and\<close> whose conjuncts may raise.\<close>

definition eand :: "bool result \<Rightarrow> bool result \<Rightarrow> bool result" where
  "eand a b = ebind a (\<lambda>x. if x then b else Inr False)"

lemma eand_Inr: "eand a b = Inr r \<longleftrightarrow> (a = Inr False \<and> \<not> r) \<or> (a = Inr True \<and> b = Inr r)"
  by (auto simp: eand_def split: if_splits)

fun efilter_idx :: "(nat \<Rightarrow> 'a \<Rightarrow> bool result) \<Rightarrow> nat \<Rightarrow> 'a list \<Rightarrow> 'a list result" where
  "efilter_idx P i [] = Inr []"
| "efilter_idx P i (x # xs) =
     ebind (P i x) (\<lambda>b. ebind (efilter_idx P (Suc i) xs) (\<lambda>ys. Inr (if b then x # ys else ys)))"

text \<open>The clock is read once for each record that reaches the freshness test: reading \<open>i\<close> is for record \<open>i\<close>.\<close>

definition bench_query_compatible ::
  "(nat \<Rightarrow> datetime) \<Rightarrow> inference_profile \<Rightarrow> runtime_identity \<Rightarrow> workload \<Rightarrow> datetime
     \<Rightarrow> execution_mode option \<Rightarrow> benchmark_store \<Rightarrow> observation list result" where
  "bench_query_compatible clock p r w not_before mode s =
     efilter_idx (\<lambda>i x.
       eand (ebind (profile_identity (obs_profile x)) (\<lambda>a.
             ebind (profile_identity p) (\<lambda>b. Inr (a = b))))
       (eand (Inr ((case obs_runtime x of None \<Rightarrow> False | Some r' \<Rightarrow> runtime_eq r' r)
          \<and> obs_workload x = w \<and> obs_resources x = participating_resources p
          \<and> obs_provenance x = Measured \<and> obs_error x = None))
       (evidence_is_fresh (clock i) (obs_timestamp x) not_before))) 0 (bench_query None mode None s)"

end
