(* ===== verification/Scheduler_Core.thy ===== *)
theory Scheduler_Core
  imports Runtime_Contracts
begin

text \<open>
  Plan selection over normalized evidence, \<open>long_haul/scheduler/core.py\<close>.

  The scheduler is a record of its inputs, built by \<open>make_scheduler\<close>. The SHA-256 digest of an
  artifact key is the parameter \<open>digest\<close>; the clock that bounds the freshness of evidence is read
  once per benchmark of each evaluation, \<open>clock i\<close> being the reading for record \<open>i\<close>. Reasons are the
  strings of the code. \<open>sorted\<close> is a stable insertion sort over the comparison of the sort keys.
\<close>

section \<open>Missions and candidates\<close>

datatype preemption_policy = AllowPreemptible | PreferPreemptible | ForbidPreemptible

record mission_requirements =
  mission_id :: string
  required_resources :: "string set"
  requires_sync_cross_node :: bool
  allow_modes :: "execution_mode set"
  mission_workload :: "workload option"
  evidence_not_before :: "datetime option"
  safety_ok :: bool
  cooperation_ok :: bool
  minimum_memory_mib :: pyfloat
  allow_unknown_runtime :: bool
  restartable :: bool
  preemption :: preemption_policy

definition validate_mission :: "mission_requirements \<Rightarrow> mission_requirements result" where
  "validate_mission m =
     ebind (guard (isfinite (minimum_memory_mib m) \<and> \<not> flt (minimum_memory_mib m) (Fin 0))
       (ValueError ''minimum_memory_mib must be finite and nonnegative'')) (\<lambda>_.
     ebind (guard (\<not> (preemption m = PreferPreemptible \<and> \<not> restartable m))
       (ValueError ''preemptible resources can only be preferred for restartable work'')) (\<lambda>_.
     Inr m))"

text \<open>The rank tuple: six integers, then the efficiency.\<close>

type_synonym rank_tuple = "int list \<times> pyfloat"

record candidate =
  cand_plan :: execution_plan
  eligible :: bool
  reasons :: "string list"
  evidence :: "observation option"
  preemption_preference :: int
  cand_rank :: "rank_tuple option"

section \<open>The scheduler's inputs\<close>

record scheduler =
  sch_vessels :: "vessel list"
  sch_links :: "link list"
  benchmarks :: "observation list"
  vessels_by_id :: "(string, vessel) dict"
  sch_now :: datetime
  sch_resources :: "(string, resource) dict"
  validations :: "profile_validation list"
  current_runtimes :: "(string, runtime_identity) dict"

text \<open>A runtime id is current when all the identities given for it agree.\<close>

definition group_runtimes :: "runtime_identity list \<Rightarrow> (string, runtime_identity list) dict" where
  "group_runtimes rs = fold (\<lambda>r d. AList.update (runtime_id r)
     ((case map_of d (runtime_id r) of None \<Rightarrow> [] | Some g \<Rightarrow> g) @ [r]) d) rs []"

definition agreed_runtimes :: "runtime_identity list \<Rightarrow> (string, runtime_identity) dict" where
  "agreed_runtimes rs = map (\<lambda>(k, g). (k, hd g))
     (filter (\<lambda>(k, g). \<forall>r \<in> set g. runtime_eq r (hd g)) (group_runtimes rs))"

definition make_scheduler ::
  "vessel list \<Rightarrow> link list \<Rightarrow> observation list \<Rightarrow> profile_validation list \<Rightarrow> runtime_identity list
     \<Rightarrow> datetime option \<Rightarrow> datetime \<Rightarrow> scheduler result" where
  "make_scheduler vs ls bs vals rts now reading =
     (let instant = (case now of None \<Rightarrow> reading | Some t \<Rightarrow> t) in
      ebind (guard (tz_aware instant) (ValueError ''scheduler time must be timezone-aware'')) (\<lambda>_.
      Inr \<lparr>sch_vessels = vs, sch_links = ls, benchmarks = bs,
           vessels_by_id = dict_of (map (\<lambda>v. (vessel_id v, v)) vs), sch_now = instant,
           sch_resources = dict_of (map (\<lambda>r. (res_id r, r)) (concat (map vessel_resources vs))),
           validations = vals, current_runtimes = agreed_runtimes rts\<rparr>))"

section \<open>Generating plans\<close>

definition plan_for :: "scheduler \<Rightarrow> inference_profile \<Rightarrow> execution_mode \<Rightarrow> execution_plan" where
  "plan_for s p mode = \<lparr>plan_id = mode_lower mode @ '':'' @ profile_id p, plan_mode = mode, plan_crew = [],
     plan_vessels = sorted_set (map vessel_id (filter (\<lambda>v. \<exists>r \<in> set (vessel_resources v).
       res_id r \<in> set (participating_resources p)) (sch_vessels s))),
     plan_resources = participating_resources p, plan_profile_id = Some (profile_id p),
     estimated_value = None, plan_notes = None\<rparr>"

definition generate :: "scheduler \<Rightarrow> inference_profile list \<Rightarrow> execution_plan list" where
  "generate s ps = concat (map (\<lambda>p. map (plan_for s p) all_modes) ps)"

section \<open>Validation and evidence\<close>

text \<open>The only record under its key, when all the records share one key; else none.\<close>

definition unique_by :: "('a \<Rightarrow> pyval result) \<Rightarrow> 'a list \<Rightarrow> 'a option result" where
  "unique_by key xs =
     ebind (emap (\<lambda>x. ebind (key x) (\<lambda>k. Inr (k, x))) xs) (\<lambda>kvs.
     Inr (case dict_of kvs of [(k, x)] \<Rightarrow> Some x | _ \<Rightarrow> None))"

definition validation_matches ::
  "(pyval \<Rightarrow> string) \<Rightarrow> inference_profile \<Rightarrow> runtime_identity \<Rightarrow> profile_validation \<Rightarrow> bool result" where
  "validation_matches digest p rt v =
     eand (Inr (val_profile_id v = profile_id p \<and> runtime_eq (val_runtime v) rt))
    (eand (ebind (artifact_key digest (profile_artifact p)) (\<lambda>k. Inr (val_artifact_key v = k)))
    (eand (Inr (val_resources v = participating_resources p \<and> val_strategy v = strategy p))
          (ebind (json_dumps (PDict (val_options v))) (\<lambda>a.
           ebind (json_dumps (PDict (profile_options p))) (\<lambda>b. Inr (a = b))))))"

definition named :: "string option \<Rightarrow> bool" where
  "named v \<longleftrightarrow> (case v of None \<Rightarrow> False | Some s \<Rightarrow> s \<noteq> [])"

definition find_validation ::
  "(pyval \<Rightarrow> string) \<Rightarrow> scheduler \<Rightarrow> inference_profile \<Rightarrow> profile_validation option result" where
  "find_validation digest s p = (case map_of (current_runtimes s) (profile_runtime_id p) of
       None \<Rightarrow> Inr None
     | Some rt \<Rightarrow>
         if \<not> (named (rt_version rt) \<or> named (rt_build_id rt)) then Inr None
         else ebind (efilter_idx (\<lambda>_. validation_matches digest p rt) 0 (validations s)) (\<lambda>ms.
              unique_by (\<lambda>v. json_dumps (validation_dump v)) ms))"

definition compatible_observation ::
  "observation \<Rightarrow> mission_requirements \<Rightarrow> execution_plan \<Rightarrow> inference_profile \<Rightarrow> runtime_identity
     \<Rightarrow> bool result" where
  "compatible_observation b m plan p rt =
     eand (ebind (profile_identity (obs_profile b)) (\<lambda>x. ebind (profile_identity p) (\<lambda>y. Inr (x = y))))
       (Inr (obs_plan_mode b = plan_mode plan \<and> obs_resources b = plan_resources plan
          \<and> Some (obs_workload b) = mission_workload m
          \<and> (case obs_runtime b of None \<Rightarrow> False | Some r \<Rightarrow> runtime_eq r rt)
          \<and> obs_error b = None \<and> obs_provenance b = Measured))"

definition throughput_of :: "observation \<Rightarrow> pyfloat option" where
  "throughput_of b = (if prompt_tokens (obs_workload b) \<noteq> 0 \<and> output_tokens (obs_workload b) = 0
     then obs_prefill_tps b else obs_decode_tps b)"

definition metrics_of :: "observation \<Rightarrow> pyfloat option list" where
  "metrics_of b = [obs_load_seconds b, obs_ttft_seconds b, obs_prefill_tps b, obs_decode_tps b, power_watts b]
     @ map (Some \<circ> snd) (residency_mib b) @ map (Some \<circ> snd) (utilization b)
     @ concat (map (\<lambda>(k, x). case x of Inl f \<Rightarrow> [Some f] | Inr _ \<Rightarrow> []) (network b))"

definition valid_metrics :: "observation \<Rightarrow> bool" where
  "valid_metrics b \<longleftrightarrow> throughput_of b \<noteq> None
     \<and> (\<forall>x \<in> set (metrics_of b). case x of None \<Rightarrow> True | Some f \<Rightarrow> isfinite f \<and> fge f (Fin 0))"

definition find_evidence ::
  "(nat \<Rightarrow> datetime) \<Rightarrow> scheduler \<Rightarrow> mission_requirements \<Rightarrow> execution_plan \<Rightarrow> inference_profile
     \<Rightarrow> observation option result" where
  "find_evidence clock s m plan p =
     (case (map_of (current_runtimes s) (profile_runtime_id p), mission_workload m, evidence_not_before m) of
        (Some rt, Some w, Some cutoff) \<Rightarrow>
          if \<not> has_tzinfo cutoff then Inr None
          else ebind (efilter_idx (\<lambda>i b. eand (compatible_observation b m plan p rt)
                 (eand (evidence_is_fresh (clock i) (obs_timestamp b) cutoff) (Inr (valid_metrics b)))) 0 (benchmarks s)) (\<lambda>bs.
               unique_by (\<lambda>b. json_dumps (observation_dump b)) (sort_key obs_id bs))
      | _ \<Rightarrow> Inr None)"

section \<open>Placement\<close>

definition planned_lease :: "scheduler \<Rightarrow> string \<Rightarrow> resource_lease option" where
  "planned_lease s vid = (case map_of (vessels_by_id s) vid of None \<Rightarrow> None | Some v \<Rightarrow> vessel_lease v)"

fun vessel_lease_reasons :: "scheduler \<Rightarrow> mission_requirements \<Rightarrow> string \<Rightarrow> string list result" where
  "vessel_lease_reasons s m vid = (case planned_lease s vid of
       None \<Rightarrow> Inr []
     | Some l \<Rightarrow>
         ebind (lease_active l (sch_now s)) (\<lambda>active.
         Inr ((if \<not> active then [''resource lease for vessel '' @ vid @ '' is expired or not yet active''] else [])
            @ (if preemption m = ForbidPreemptible \<and> preemptible l
               then [''preemptible resource is forbidden for vessel '' @ vid] else []))))"

definition lease_reasons ::
  "scheduler \<Rightarrow> mission_requirements \<Rightarrow> execution_plan \<Rightarrow> string list result" where
  "lease_reasons s m plan =
     ebind (emap (vessel_lease_reasons s m) (plan_vessels plan)) (\<lambda>rs.
     Inr ((if \<exists>vid \<in> set (plan_vessels plan). map_of (vessels_by_id s) vid = None
           then [''planned vessel is unavailable''] else []) @ concat rs))"

definition unacceptable_pipeline_link :: "scheduler \<Rightarrow> mission_requirements \<Rightarrow> execution_plan \<Rightarrow> bool" where
  "unacceptable_pipeline_link s m plan \<longleftrightarrow>
     \<not> (plan_mode plan \<noteq> PIPELINE \<or> length (plan_vessels plan) \<le> 1 \<or> \<not> requires_sync_cross_node m)
     \<and> \<not> (\<exists>l \<in> set (filter (\<lambda>l. {link_source l, link_target l} = set (plan_vessels plan)) (sch_links s)).
           link_kind_of l = Tailscale \<and> link_direct l = Some True \<and> link_path l = Some ''direct'')"

fun max_of :: "pyfloat \<Rightarrow> pyfloat list \<Rightarrow> pyfloat" where
  "max_of m [] = m"
| "max_of m (x # xs) = max_of (fmax m x) xs"

definition memory_issue ::
  "scheduler \<Rightarrow> mission_requirements \<Rightarrow> execution_plan \<Rightarrow> inference_profile \<Rightarrow> string option result" where
  "memory_issue s m plan p =
     ebind (emap (\<lambda>r. capacity_mib r KMemory) (map (\<lambda>r. the (map_of (sch_resources s) r))
        (filter (\<lambda>r. map_of (sch_resources s) r \<noteq> None) (plan_resources plan)))) (\<lambda>capacities.
     ebind (emap as_mib (filter (\<lambda>c. cap_kind c = KMemory) (requirements p))) (\<lambda>bounds.
     let known = concat (map (\<lambda>c. case c of None \<Rightarrow> [] | Some x \<Rightarrow> [x]) capacities);
         required = (case bounds @ [minimum_memory_mib m] of b # bs \<Rightarrow> max_of b bs)
     in Inr (if \<not> ftruthy required then None
             else case known of
                 [] \<Rightarrow> Some ''named resource memory capacity unknown''
               | k # ks \<Rightarrow> if flt (max_of k ks) required
                   then Some ''profile requirements exceed named resource capacity'' else None)))"

definition placement_reasons ::
  "scheduler \<Rightarrow> mission_requirements \<Rightarrow> execution_plan \<Rightarrow> inference_profile \<Rightarrow> string list result" where
  "placement_reasons s m plan p =
     ebind (lease_reasons s m plan) (\<lambda>leases.
     ebind (memory_issue s m plan p) (\<lambda>memory.
     Inr ((if \<not> safety_ok m then [''hard safety constraint failed''] else [])
        @ (if \<not> cooperation_ok m then [''hard cooperation-integrity constraint failed''] else [])
        @ (if plan_mode plan \<notin> allow_modes m then [''mode is outside mission constraints''] else [])
        @ (if \<not> required_resources m \<subseteq> set (plan_resources plan) then [''required resource placement missing''] else [])
        @ (if set (participating_resources p) \<noteq> set (plan_resources plan)
           then [''plan/profile resource pairing mismatch''] else [])
        @ leases
        @ (case memory of None \<Rightarrow> [] | Some r \<Rightarrow> [r])
        @ (if unacceptable_pipeline_link s m plan
           then [''synchronous PIPELINE requires acceptable direct Tailscale path''] else []))))"

section \<open>Evaluation\<close>

definition no_evidence_reason :: string where
  "no_evidence_reason = ''no comparable benchmark evidence; uncertainty retained''"

definition validation_reasons :: "mission_requirements \<Rightarrow> profile_validation option \<Rightarrow> string list" where
  "validation_reasons m validation = (case validation of
       None \<Rightarrow> [''no runtime feasibility validation'']
     | Some v \<Rightarrow> (case val_state v of
         UNSUPPORTED \<Rightarrow> [''runtime profile unsupported: '' @ val_rationale v]
       | UNKNOWN \<Rightarrow> if allow_unknown_runtime m then []
                    else [''runtime profile unknown outside exploration policy: '' @ val_rationale v]
       | SUPPORTED \<Rightarrow> []))"

definition uses_preemptible :: "scheduler \<Rightarrow> execution_plan \<Rightarrow> bool" where
  "uses_preemptible s plan \<longleftrightarrow> (\<exists>vid \<in> set (plan_vessels plan).
     case planned_lease s vid of None \<Rightarrow> False | Some l \<Rightarrow> preemptible l)"

definition evaluate ::
  "(pyval \<Rightarrow> string) \<Rightarrow> (nat \<Rightarrow> datetime) \<Rightarrow> scheduler \<Rightarrow> mission_requirements \<Rightarrow> execution_plan
     \<Rightarrow> inference_profile \<Rightarrow> candidate result" where
  "evaluate digest clock s m plan p =
     ebind (find_validation digest s p) (\<lambda>validation.
     ebind (placement_reasons s m plan p) (\<lambda>placement.
     ebind (find_evidence clock s m plan p) (\<lambda>found.
     let rs = validation_reasons m validation @ placement
                @ (if found = None then [no_evidence_reason] else [])
     in Inr \<lparr>cand_plan = plan, eligible = (rs = [] \<or> rs = [no_evidence_reason]), reasons = rs,
             evidence = found,
             preemption_preference =
               (if preemption m = PreferPreemptible \<and> \<not> uses_preemptible s plan then 1 else 0),
             cand_rank = None\<rparr>)))"

section \<open>Ranking and selection\<close>

definition rank_of :: "candidate \<Rightarrow> rank_tuple" where
  "rank_of c =
     (let measured = (case evidence c of None \<Rightarrow> 0 | Some b \<Rightarrow> if obs_provenance b = Measured then 1 else 0);
          continuity = (if plan_mode (cand_plan c) \<noteq> PIPELINE then 1 else 0);
          throughput = (case evidence c of None \<Rightarrow> None | Some b \<Rightarrow> throughput_of b);
          efficiency = fneg (case throughput of None \<Rightarrow> Fin 0 | Some t \<Rightarrow> if ftruthy t then t else Fin 0)
      in ([0, 0, 0, - measured, preemption_preference c, - continuity], efficiency))"

definition assign_rank :: "candidate \<Rightarrow> candidate" where
  "assign_rank c = (if eligible c then c\<lparr>cand_rank := Some (rank_of c)\<rparr> else c)"

text \<open>
  The sort key \<open>(not c.eligible, c.rank or (99,)*6, c.plan.plan_id)\<close>. Tuples compare at the first
  position where they differ; a rank is longer than its replacement by the efficiency.
\<close>

type_synonym sort_key_tuple = "bool \<times> int list \<times> pyfloat option \<times> string"

definition key_of :: "candidate \<Rightarrow> sort_key_tuple" where
  "key_of c = (case cand_rank c of
       Some (ints, e) \<Rightarrow> (\<not> eligible c, ints, Some e, plan_id (cand_plan c))
     | None \<Rightarrow> (\<not> eligible c, replicate 6 99, None, plan_id (cand_plan c)))"

fun efficiency_lt :: "pyfloat option \<Rightarrow> pyfloat option \<Rightarrow> bool" where
  "efficiency_lt None (Some _) = True"
| "efficiency_lt (Some a) (Some b) = flt a b"
| "efficiency_lt _ None = False"

fun efficiency_eq :: "pyfloat option \<Rightarrow> pyfloat option \<Rightarrow> bool" where
  "efficiency_eq None None = True"
| "efficiency_eq (Some a) (Some b) = feq a b"
| "efficiency_eq _ _ = False"

fun key_lt :: "sort_key_tuple \<Rightarrow> sort_key_tuple \<Rightarrow> bool" where
  "key_lt (n, i, e, p) (n', i', e', p') =
     (if n \<noteq> n' then n < n' else if i \<noteq> i' then i < i'
      else if \<not> efficiency_eq e e' then efficiency_lt e e' else p < p')"

fun insert_by :: "('a \<Rightarrow> 'a \<Rightarrow> bool) \<Rightarrow> 'a \<Rightarrow> 'a list \<Rightarrow> 'a list" where
  "insert_by lt x [] = [x]"
| "insert_by lt x (y # ys) = (if lt x y then x # y # ys else y # insert_by lt x ys)"

definition sort_by :: "('a \<Rightarrow> 'a \<Rightarrow> bool) \<Rightarrow> 'a list \<Rightarrow> 'a list" where
  "sort_by lt xs = fold (insert_by lt) xs []"

definition cand_lt :: "candidate \<Rightarrow> candidate \<Rightarrow> bool" where
  "cand_lt a b \<longleftrightarrow> key_lt (key_of a) (key_of b)"

definition rank_candidates :: "candidate list \<Rightarrow> candidate list" where
  "rank_candidates cs = sort_by cand_lt (map assign_rank cs)"

fun evaluate_all ::
  "(pyval \<Rightarrow> string) \<Rightarrow> (nat \<Rightarrow> nat \<Rightarrow> datetime) \<Rightarrow> nat \<Rightarrow> scheduler \<Rightarrow> mission_requirements
     \<Rightarrow> (string, inference_profile) dict \<Rightarrow> execution_plan list \<Rightarrow> candidate list result" where
  "evaluate_all digest clock i s m d [] = Inr []"
| "evaluate_all digest clock i s m d (plan # plans) =
     ebind (case map_of d (the (plan_profile_id plan)) of
         None \<Rightarrow> Inl (KeyError (the (plan_profile_id plan))) | Some p \<Rightarrow> Inr p) (\<lambda>p.
     ebind (evaluate digest (clock i) s m plan p) (\<lambda>c.
     ebind (evaluate_all digest clock (Suc i) s m d plans) (\<lambda>cs. Inr (c # cs))))"

definition profiles_by_id :: "inference_profile list \<Rightarrow> (string, inference_profile) dict" where
  "profiles_by_id ps = dict_of (map (\<lambda>p. (profile_id p, p)) ps)"

definition select ::
  "(pyval \<Rightarrow> string) \<Rightarrow> (nat \<Rightarrow> nat \<Rightarrow> datetime) \<Rightarrow> scheduler \<Rightarrow> mission_requirements
     \<Rightarrow> inference_profile list \<Rightarrow> candidate result" where
  "select digest clock s m ps =
     (let d = profiles_by_id ps in
      ebind (evaluate_all digest clock 0 s m d (generate s (map snd d))) (\<lambda>cs.
      let ranked = rank_candidates cs in
      if \<not> (\<exists>c \<in> set ranked. eligible c)
      then Inl (ValueError (''no eligible plan: '' @ join ''; '' (concat (map reasons ranked))))
      else Inr (hd (filter eligible ranked))))"

end
