(* ===== verification/Scheduler_Ranking.thy ===== *)
theory Scheduler_Ranking
  imports Scheduler_Core "HOL-Library.Multiset" "HOL-Library.Product_Lexorder"
begin

text \<open>
  The order in which the scheduler ranks candidates. The interface \<open>stable_order\<close> is what
  \<open>sorted\<close> needs of a comparison; the candidates' sort keys provide it whenever no efficiency is
  NaN, which every evaluated candidate satisfies because evidence with a non-finite metric is
  discarded.
\<close>

section \<open>Stable sorting over a comparison\<close>

lemma mset_insert_by: "mset (insert_by lt x ys) = add_mset x (mset ys)"
  by (induction ys) auto

lemma mset_fold_insert_by: "mset (fold (insert_by lt) xs ys) = mset xs + mset ys"
  by (induction xs arbitrary: ys) (auto simp: mset_insert_by)

lemma mset_sort_by [simp]: "mset (sort_by lt xs) = mset xs"
  by (simp add: sort_by_def mset_fold_insert_by)

lemma set_sort_by [simp]: "set (sort_by lt xs) = set xs"
  by (metis mset_sort_by set_mset_mset)

lemma set_insert_by [simp]: "set (insert_by lt x ys) = insert x (set ys)"
  by (metis mset_insert_by set_mset_add_mset_insert set_mset_mset)

locale stable_order =
  fixes lt :: "'a \<Rightarrow> 'a \<Rightarrow> bool"
    and wf :: "'a \<Rightarrow> bool"
  assumes asym: "wf x \<Longrightarrow> wf y \<Longrightarrow> lt x y \<Longrightarrow> \<not> lt y x"
    and le_trans: "wf x \<Longrightarrow> wf y \<Longrightarrow> wf z \<Longrightarrow> \<not> lt y x \<Longrightarrow> \<not> lt z y \<Longrightarrow> \<not> lt z x"
begin

abbreviation sorted_by :: "'a list \<Rightarrow> bool" where
  "sorted_by \<equiv> sorted_wrt (\<lambda>x y. \<not> lt y x)"

lemma sorted_insert_by:
  "wf x \<Longrightarrow> \<forall>y \<in> set ys. wf y \<Longrightarrow> sorted_by ys \<Longrightarrow> sorted_by (insert_by lt x ys)"
proof (induction ys)
  case Nil
  show ?case by simp
next
  case (Cons y ys)
  show ?case
  proof (cases "lt x y")
    case True
    have "\<not> lt z x" if "z \<in> set ys" for z
      using that True Cons.prems by (intro le_trans [of x y z]) (auto dest: asym)
    with True Cons.prems show ?thesis by (auto dest: asym)
  next
    case False
    with Cons show ?thesis by auto
  qed
qed

lemma sorted_sort_by: "\<forall>x \<in> set xs. wf x \<Longrightarrow> sorted_by (sort_by lt xs)"
proof -
  have "\<forall>x \<in> set xs. wf x \<Longrightarrow> \<forall>y \<in> set ys. wf y \<Longrightarrow> sorted_by ys \<Longrightarrow>
      sorted_by (fold (insert_by lt) xs ys)" for ys
    by (induction xs arbitrary: ys) (auto simp: sorted_insert_by)
  then show "\<forall>x \<in> set xs. wf x \<Longrightarrow> sorted_by (sort_by lt xs)"
    by (simp add: sort_by_def)
qed

text \<open>Stability: records that compare alike keep their order.\<close>

definition alike :: "'a \<Rightarrow> 'a \<Rightarrow> bool" where
  "alike x y \<longleftrightarrow> \<not> lt x y \<and> \<not> lt y x"

lemma filter_insert_by:
  assumes "wf x" "\<forall>y \<in> set ys. wf y" "wf z" "sorted_by ys"
  shows "filter (alike z) (insert_by lt x ys) = (if alike z x then filter (alike z) ys @ [x] else filter (alike z) ys)"
  using assms
proof (induction ys)
  case Nil
  show ?case by simp
next
  case (Cons y ys)
  have "\<not> alike z w" if "lt x y" "alike z x" "w \<in> set (y # ys)" for w
  proof
    assume "alike z w"
    have yw: "\<not> lt w y" using that(3) Cons.prems asym [of y y] by auto
    have "wf w" "wf y" using that(3) Cons.prems by auto
    then have "\<not> lt x y"
      using le_trans [of y w x] le_trans [of w z x] yw \<open>alike z w\<close> that(2) Cons.prems
      by (auto simp: alike_def)
    with that(1) show False by simp
  qed
  then have "lt x y \<Longrightarrow> alike z x \<Longrightarrow> filter (alike z) (y # ys) = []"
    by (metis filter_False)
  with Cons show ?case by auto
qed

lemma stable_sort_by:
  assumes "\<forall>x \<in> set xs. wf x" "wf z"
  shows "filter (alike z) (sort_by lt xs) = filter (alike z) xs"
proof -
  have "\<forall>x \<in> set xs. wf x \<Longrightarrow> \<forall>y \<in> set ys. wf y \<Longrightarrow> sorted_by ys \<Longrightarrow>
      filter (alike z) (fold (insert_by lt) xs ys) = filter (alike z) ys @ filter (alike z) xs" for ys
  proof (induction xs arbitrary: ys)
    case Nil
    show ?case by simp
  next
    case (Cons x xs)
    then have "filter (alike z) (fold (insert_by lt) xs (insert_by lt x ys))
        = filter (alike z) (insert_by lt x ys) @ filter (alike z) xs"
      by (intro Cons.IH) (auto simp: sorted_insert_by)
    with Cons show ?case by (simp add: filter_insert_by [OF _ _ assms(2)])
  qed
  with assms(1) show ?thesis by (simp add: sort_by_def)
qed

text \<open>The first record of the sorted list that satisfies a test is one of the least that do.\<close>

lemma first_least:
  assumes "\<forall>x \<in> set xs. wf x" "\<exists>x \<in> set xs. P x"
  shows "hd (filter P (sort_by lt xs)) \<in> set xs" "P (hd (filter P (sort_by lt xs)))"
    "\<And>y. y \<in> set xs \<Longrightarrow> P y \<Longrightarrow> \<not> lt y (hd (filter P (sort_by lt xs)))"
proof -
  from assms(2) obtain x ys where xs: "filter P (sort_by lt xs) = x # ys"
    by (cases "filter P (sort_by lt xs)") (auto simp: filter_empty_conv)
  have "x \<in> set xs" "P x" using arg_cong [OF xs, of set] by auto
  then show "hd (filter P (sort_by lt xs)) \<in> set xs" "P (hd (filter P (sort_by lt xs)))"
    by (simp_all add: xs)
  fix y assume y: "y \<in> set xs" "P y"
  have "sorted_by (filter P (sort_by lt xs))"
    by (rule sorted_wrt_filter [OF sorted_sort_by [OF assms(1)]])
  moreover have "y \<in> set (filter P (sort_by lt xs))" using y by simp
  ultimately show "\<not> lt y (hd (filter P (sort_by lt xs)))"
    using asym [of y y] assms(1) y(1) by (auto simp: xs)
qed

end

section \<open>The keys of the candidates\<close>

text \<open>Keys without a NaN embed into a lexicographic product of linear orders.\<close>

fun float_rank :: "pyfloat option \<Rightarrow> int \<times> rat" where
  "float_rank None = (-2, 0)"
| "float_rank (Some NInf) = (-1, 0)"
| "float_rank (Some (Fin x)) = (0, x)"
| "float_rank (Some PInf) = (1, 0)"
| "float_rank (Some NaN) = (2, 0)"

definition key_rank :: "sort_key_tuple \<Rightarrow> bool \<times> int list \<times> (int \<times> rat) \<times> string" where
  "key_rank k = (case k of (n, i, e, p) \<Rightarrow> (n, i, float_rank e, p))"

definition ranked_ok :: "candidate \<Rightarrow> bool" where
  "ranked_ok c \<longleftrightarrow> (\<forall>i. cand_rank c \<noteq> Some (i, NaN))"

lemma float_rank_lt: "a \<noteq> Some NaN \<Longrightarrow> b \<noteq> Some NaN \<Longrightarrow> efficiency_lt a b \<longleftrightarrow> float_rank a < float_rank b"
  by (cases a rule: float_rank.cases; cases b rule: float_rank.cases) auto

lemma float_rank_eq: "a \<noteq> Some NaN \<Longrightarrow> b \<noteq> Some NaN \<Longrightarrow> efficiency_eq a b \<longleftrightarrow> float_rank a = float_rank b"
  by (cases a rule: float_rank.cases; cases b rule: float_rank.cases) (auto simp: feq_def)

lemma key_lt_rank:
  "fst (snd (snd k)) \<noteq> Some NaN \<Longrightarrow> fst (snd (snd k')) \<noteq> Some NaN \<Longrightarrow> key_lt k k' \<longleftrightarrow> key_rank k < key_rank k'"
  by (cases k; cases k') (auto simp: key_rank_def float_rank_lt float_rank_eq)

lemma cand_lt_rank: "ranked_ok a \<Longrightarrow> ranked_ok b \<Longrightarrow> cand_lt a b \<longleftrightarrow> key_rank (key_of a) < key_rank (key_of b)"
  unfolding cand_lt_def by (rule key_lt_rank) (auto simp: key_of_def ranked_ok_def split: option.splits)

interpretation candidates: stable_order cand_lt ranked_ok
  by unfold_locales (auto simp: cand_lt_rank)

lemma assign_rank_ok:
  "cand_rank c = None \<Longrightarrow> (\<And>b t. evidence c = Some b \<Longrightarrow> throughput_of b = Some t \<Longrightarrow> t \<noteq> NaN) \<Longrightarrow>
    ranked_ok (assign_rank c)"
  by (auto simp: ranked_ok_def assign_rank_def rank_of_def Let_def split: option.splits)
    (metis fneg.simps pyfloat.distinct pyfloat.exhaust)+

end
