(* ===== verification/Scheduler_Safety.thy ===== *)
theory Scheduler_Safety
  imports Scheduler_Ranking
begin

text \<open>
  What the scheduler guarantees: a candidate is eligible exactly when the abstract specification
  \<open>admissible\<close> holds of it (a supporting validation, every hard constraint, the lease windows, a
  single named resource large enough for every memory bound), collection order never decides a
  contradiction, and selection returns a least candidate among the admissible ones or raises when
  there is none.
\<close>

section \<open>Filters and unique records\<close>

lemma efilter_idx_set:
  "efilter_idx P i xs = Inr ys \<Longrightarrow> y \<in> set ys \<Longrightarrow> y \<in> set xs \<and> (\<exists>j. P j y = Inr True)"
proof (induction xs arbitrary: i ys)
  case (Cons x xs)
  then obtain b zs where "P i x = Inr b" "efilter_idx P (Suc i) xs = Inr zs" "ys = (if b then x # zs else zs)"
    by auto
  with Cons show ?case by (cases b) auto
qed simp

lemma efilter_idx_complete:
  "efilter_idx (\<lambda>_. P) i xs = Inr ys \<Longrightarrow> x \<in> set xs \<Longrightarrow> P x = Inr True \<Longrightarrow> x \<in> set ys"
  by (induction xs arbitrary: i ys) auto

lemma efilter_idx_total:
  "(\<And>j x. x \<in> set xs \<Longrightarrow> \<exists>b. P j x = Inr b) \<Longrightarrow> \<exists>ys. efilter_idx P i xs = Inr ys"
proof (induction xs arbitrary: i)
  case Nil
  show ?case by simp
next
  case (Cons x xs)
  then obtain b where "P i x = Inr b" by (meson list.set_intros(1))
  moreover obtain ys where "efilter_idx P (Suc i) xs = Inr ys" using Cons by (metis list.set_intros(2))
  ultimately show ?case by simp
qed

lemma emap_total: "(\<And>x. x \<in> set xs \<Longrightarrow> \<exists>y. f x = Inr y) \<Longrightarrow> \<exists>ys. emap f xs = Inr ys"
proof (induction xs)
  case (Cons x xs)
  then show ?case by (metis ebind.simps(2) emap.simps(2) list.set_intros)
qed simp

lemma keys_dict_of: "fst ` set (dict_of kvs) = fst ` set kvs"
  by (metis dom_map_of_conv_image_fst map_of_dict_of set_rev)

lemma single_entry: "(case d of [(k, x)] \<Rightarrow> Some x | _ \<Rightarrow> None) = Some y \<Longrightarrow> \<exists>k. d = [(k, y)]"
  by (cases d rule: remdups_adj.cases) auto

lemma unique_by_Some:
  assumes "unique_by key xs = Inr (Some x)"
  shows "x \<in> set xs" "\<exists>k. \<forall>y \<in> set xs. key y = Inr k"
proof -
  from assms obtain kvs k where kvs: "emap (\<lambda>x. ebind (key x) (\<lambda>k. Inr (k, x))) xs = Inr kvs"
    and d: "dict_of kvs = [(k, x)]"
    by (auto simp: unique_by_def dest: single_entry)
  from kvs have xs: "list_all2 (\<lambda>x (k, y). key x = Inr k \<and> y = x) xs kvs"
    unfolding emap_Inr_list_all2 by (rule list_all2_mono) auto
  have "map_of (rev kvs) k = Some x" by (simp add: map_of_dict_of [symmetric] d)
  then have "(k, x) \<in> set kvs" by (auto dest: map_of_SomeD)
  with xs show "x \<in> set xs" by (fastforce simp: list_all2_conv_all_nth in_set_conv_nth)
  have keys: "fst kv = k" if "kv \<in> set kvs" for kv
    using keys_dict_of [of kvs] that by (auto simp: d)
  show "\<exists>k. \<forall>y \<in> set xs. key y = Inr k"
  proof (intro exI ballI)
    fix y assume "y \<in> set xs"
    then obtain kv where "kv \<in> set kvs" "key y = Inr (fst kv)"
      using xs by (fastforce simp: list_all2_conv_all_nth in_set_conv_nth)
    with keys show "key y = Inr k" by auto
  qed
qed

lemma unique_by_total:
  assumes "\<And>x. x \<in> set xs \<Longrightarrow> \<exists>k. key x = Inr k"
  shows "\<exists>r. unique_by key xs = Inr r"
proof -
  have "\<exists>kvs. emap (\<lambda>x. ebind (key x) (\<lambda>k. Inr (k, x))) xs = Inr kvs"
    using assms by (intro emap_total) fastforce
  then show ?thesis by (auto simp: unique_by_def)
qed

section \<open>Well-formed inputs\<close>

lemma emap_id_elem: "(\<And>x y. f x = Inr y \<Longrightarrow> Q y) \<Longrightarrow> emap f xs = Inr ys \<Longrightarrow> \<forall>y \<in> set ys. Q y"
  by (induction xs arbitrary: ys) auto

lemma vessel_ok_resources: "vessel_ok v \<Longrightarrow> r \<in> set (vessel_resources v) \<Longrightarrow> resource_ok r"
proof -
  assume v: "vessel_ok v" and r: "r \<in> set (vessel_resources v)"
  then obtain rs where rs: "emap validate_resource (vessel_resources v) = Inr rs"
    and "vessel_resources v = rs"
    by (auto simp: vessel_ok_def validate_vessel_def dest!: resource_references_exist_id
      dest: arg_cong [of _ _ vessel_resources])
  then show "resource_ok r"
    using r emap_id_elem [of validate_resource resource_ok, OF validate_resource_ok(1) rs] by auto
qed

definition dumpable :: "(string \<times> pyval) list \<Rightarrow> bool" where
  "dumpable kvs \<longleftrightarrow> (\<exists>t. json_dumps (PDict kvs) = Inr t)"

text \<open>
  The inputs the records' validators let through, with the options of recorded validations
  JSON-serializable and timestamps that carry an offset.
\<close>

definition profile_ok :: "inference_profile \<Rightarrow> bool" where
  "profile_ok p \<longleftrightarrow> validate_profile p = Inr p"

definition scheduler_ok :: "scheduler \<Rightarrow> bool" where
  "scheduler_ok s \<longleftrightarrow> tz_aware (sch_now s)
     \<and> (\<forall>vid v. map_of (vessels_by_id s) vid = Some v \<longrightarrow> vessel_ok v)
     \<and> (\<forall>rid r. map_of (sch_resources s) rid = Some r \<longrightarrow> resource_ok r)
     \<and> (\<forall>v \<in> set (validations s). dumpable (val_options v))
     \<and> (\<forall>b \<in> set (benchmarks s). profile_ok (obs_profile b) \<and> (has_tzinfo (obs_timestamp b) \<longrightarrow> tz_aware (obs_timestamp b)))"

definition mission_ready :: "mission_requirements \<Rightarrow> bool" where
  "mission_ready m \<longleftrightarrow> validate_mission m = Inr m
     \<and> (\<forall>t. evidence_not_before m = Some t \<longrightarrow> has_tzinfo t \<longrightarrow> tz_aware t)"

lemma map_of_dict_of_in: "map_of (dict_of kvs) k = Some v \<Longrightarrow> (k, v) \<in> set kvs"
  by (auto simp: map_of_dict_of dest: map_of_SomeD)

lemma make_scheduler_ok:
  assumes "make_scheduler vs ls bs vals rts now reading = Inr s" "\<forall>v \<in> set vs. vessel_ok v"
    "\<forall>v \<in> set vals. dumpable (val_options v)"
    "\<forall>b \<in> set bs. profile_ok (obs_profile b) \<and> (has_tzinfo (obs_timestamp b) \<longrightarrow> tz_aware (obs_timestamp b))"
  shows "scheduler_ok s"
proof -
  have "resource_ok r" if "v \<in> set vs" "r \<in> set (vessel_resources v)" for v r
    using that assms(2) vessel_ok_resources by blast
  with assms show ?thesis
    by (auto simp: scheduler_ok_def make_scheduler_def Let_def dest!: map_of_dict_of_in)
qed

section \<open>Leases\<close>

definition lease_open :: "resource_lease \<Rightarrow> datetime \<Rightarrow> bool" where
  "lease_open l t \<longleftrightarrow> wall (acquired_at l) \<le> wall t \<and> (\<forall>e. lease_expires_at l = Some e \<longrightarrow> wall t < wall e)"

lemma lease_active_open: "lease_ok l \<Longrightarrow> tz_aware t \<Longrightarrow> lease_active l t = Inr (lease_open l t)"
  by (auto simp: lease_active_ok lease_open_def split: option.splits)

lemma planned_lease_ok: "scheduler_ok s \<Longrightarrow> planned_lease s vid = Some l \<Longrightarrow> lease_ok l"
  by (auto simp: scheduler_ok_def planned_lease_def split: option.splits intro: vessel_ok_lease)

definition leases_ok :: "scheduler \<Rightarrow> mission_requirements \<Rightarrow> execution_plan \<Rightarrow> bool" where
  "leases_ok s m plan \<longleftrightarrow> (\<forall>vid \<in> set (plan_vessels plan). map_of (vessels_by_id s) vid \<noteq> None
     \<and> (\<forall>l. planned_lease s vid = Some l \<longrightarrow> lease_open l (sch_now s)
          \<and> \<not> (preemption m = ForbidPreemptible \<and> preemptible l)))"

lemma vessel_lease_reasons_ok:
  assumes "scheduler_ok s"
  shows "\<exists>rs. vessel_lease_reasons s m vid = Inr rs \<and> no_evidence_reason \<notin> set rs
    \<and> (rs = [] \<longleftrightarrow> (\<forall>l. planned_lease s vid = Some l \<longrightarrow> lease_open l (sch_now s)
          \<and> \<not> (preemption m = ForbidPreemptible \<and> preemptible l)))"
  using assms planned_lease_ok [OF assms, of vid]
  by (auto simp: scheduler_ok_def lease_active_open no_evidence_reason_def split: option.splits)

lemma emap_concat_Nil:
  assumes "\<And>x. x \<in> set xs \<Longrightarrow> \<exists>rs. f x = Inr rs \<and> bad \<notin> set rs \<and> (rs = [] \<longleftrightarrow> P x)"
  shows "\<exists>rss. emap f xs = Inr rss \<and> bad \<notin> set (concat rss) \<and> (concat rss = [] \<longleftrightarrow> (\<forall>x \<in> set xs. P x))"
  using assms
proof (induction xs)
  case (Cons x xs)
  then obtain rs rss where "f x = Inr rs" "bad \<notin> set rs" "rs = [] \<longleftrightarrow> P x"
    "emap f xs = Inr rss" "bad \<notin> set (concat rss)" "concat rss = [] \<longleftrightarrow> (\<forall>x \<in> set xs. P x)"
    by (metis list.set_intros)
  then show ?case by auto
qed simp

lemma lease_reasons_ok:
  assumes "scheduler_ok s"
  shows "\<exists>rs. lease_reasons s m plan = Inr rs \<and> no_evidence_reason \<notin> set rs \<and> (rs = [] \<longleftrightarrow> leases_ok s m plan)"
proof -
  obtain rss where rss: "emap (vessel_lease_reasons s m) (plan_vessels plan) = Inr rss"
    "no_evidence_reason \<notin> set (concat rss)"
    "concat rss = [] \<longleftrightarrow> (\<forall>vid \<in> set (plan_vessels plan). \<forall>l. planned_lease s vid = Some l \<longrightarrow>
       lease_open l (sch_now s) \<and> \<not> (preemption m = ForbidPreemptible \<and> preemptible l))"
    using emap_concat_Nil [where f = "vessel_lease_reasons s m" and xs = "plan_vessels plan", OF vessel_lease_reasons_ok [OF assms, of m]] by blast
  have "no_evidence_reason \<noteq> ''planned vessel is unavailable''" by (simp add: no_evidence_reason_def)
  with rss show ?thesis
    unfolding lease_reasons_def leases_ok_def by (simp del: set_concat concat_eq_Nil_conv) blast
qed

section \<open>Memory\<close>

lemma fmax_upper: "a \<noteq> NaN \<Longrightarrow> b \<noteq> NaN \<Longrightarrow> fle a (fmax a b) \<and> fle b (fmax a b) \<and> fmax a b \<in> {a, b}"
  by (cases "flt a b") (auto simp: fmax_def not_flt flt_imp_fle)

lemma max_of_ok:
  "\<forall>x \<in> set (m # xs). x \<noteq> NaN \<Longrightarrow> max_of m xs \<in> set (m # xs) \<and> (\<forall>x \<in> set (m # xs). fle x (max_of m xs))"
proof (induction xs arbitrary: m)
  case (Cons x xs)
  then have up: "fle m (fmax m x)" "fle x (fmax m x)" "fmax m x \<in> {m, x}" using fmax_upper [of m x] by auto
  moreover have "max_of (fmax m x) xs \<in> set (fmax m x # xs)
      \<and> (\<forall>y \<in> set (fmax m x # xs). fle y (max_of (fmax m x) xs))"
    using Cons.prems up(3) by (intro Cons.IH) auto
  ultimately show ?case by (auto intro: fle_trans)
qed simp

lemma max_of_fle: "\<forall>x \<in> set (m # xs). x \<noteq> NaN \<Longrightarrow> fle (max_of m xs) y \<longleftrightarrow> (\<forall>x \<in> set (m # xs). fle x y)"
  using max_of_ok [of m xs] by (auto intro: fle_trans)

lemma fle_max_of: "\<forall>x \<in> set (m # xs). x \<noteq> NaN \<Longrightarrow> fle y (max_of m xs) \<longleftrightarrow> (\<exists>x \<in> set (m # xs). fle y x)"
  using max_of_ok [of m xs] by (metis fle_trans)

text \<open>The simultaneous lower bounds, and what the named resources are known to have.\<close>

definition memory_bounds :: "mission_requirements \<Rightarrow> inference_profile \<Rightarrow> pyfloat set" where
  "memory_bounds m p = insert (minimum_memory_mib m)
     {x. \<exists>c \<in> set (requirements p). cap_kind c = KMemory \<and> as_mib c = Inr x}"

definition known_memory :: "scheduler \<Rightarrow> execution_plan \<Rightarrow> pyfloat set" where
  "known_memory s plan = {x. \<exists>rid \<in> set (plan_resources plan). \<exists>r. map_of (sch_resources s) rid = Some r
     \<and> capacity_mib r KMemory = Inr (Some x)}"

definition memory_ok :: "scheduler \<Rightarrow> mission_requirements \<Rightarrow> execution_plan \<Rightarrow> inference_profile \<Rightarrow> bool" where
  "memory_ok s m plan p \<longleftrightarrow> memory_bounds m p = {Fin 0}
     \<or> (\<exists>x \<in> known_memory s plan. \<forall>b \<in> memory_bounds m p. fle b x)"

lemma resource_mib: "resource_ok r \<Longrightarrow> \<exists>x. capacity_mib r KMemory = Inr x \<and> x \<noteq> Some NaN"
  using first_mib_ok [OF resource_ok_capacities, of r KMemory] by (auto simp: capacity_mib_def)

lemma profile_ok_requirements: "profile_ok p \<Longrightarrow> c \<in> set (requirements p) \<Longrightarrow> capacity_ok c"
  using emap_validate_id by (auto simp: profile_ok_def validate_profile_def)

lemma known_list:
  assumes s: "scheduler_ok s"
  shows "\<exists>caps. emap (\<lambda>r. capacity_mib r KMemory) (map (\<lambda>r. the (map_of (sch_resources s) r))
        (filter (\<lambda>r. map_of (sch_resources s) r \<noteq> None) rids)) = Inr caps
     \<and> Some NaN \<notin> set caps \<and> (\<forall>x. Some x \<in> set caps \<longleftrightarrow>
          (\<exists>rid \<in> set rids. \<exists>r. map_of (sch_resources s) rid = Some r \<and> capacity_mib r KMemory = Inr (Some x)))"
proof (induction rids)
  case (Cons rid rids)
  then obtain caps where caps: "emap (\<lambda>r. capacity_mib r KMemory) (map (\<lambda>r. the (map_of (sch_resources s) r))
        (filter (\<lambda>r. map_of (sch_resources s) r \<noteq> None) rids)) = Inr caps" "Some NaN \<notin> set caps"
      "\<forall>x. Some x \<in> set caps \<longleftrightarrow> (\<exists>rid \<in> set rids. \<exists>r. map_of (sch_resources s) rid = Some r
         \<and> capacity_mib r KMemory = Inr (Some x))" by blast
  show ?case
  proof (cases "map_of (sch_resources s) rid")
    case None
    with caps show ?thesis by simp
  next
    case (Some r)
    with s obtain x where x: "capacity_mib r KMemory = Inr x" "x \<noteq> Some NaN"
      using resource_mib [of r] by (auto simp: scheduler_ok_def)
    with Some caps show ?thesis by (intro exI [of _ "x # caps"]) auto
  qed
qed simp

lemma bounds_list:
  assumes "\<forall>c \<in> set cs. capacity_ok c"
  shows "\<exists>bounds. emap as_mib (filter (\<lambda>c. cap_kind c = KMemory) cs) = Inr bounds
     \<and> (\<forall>x. x \<in> set bounds \<longleftrightarrow> (\<exists>c \<in> set cs. cap_kind c = KMemory \<and> as_mib c = Inr x))
     \<and> (\<forall>x \<in> set bounds. x \<noteq> NaN \<and> fle (Fin 0) x)"
  using assms
proof (induction cs)
  case (Cons c cs)
  then obtain bounds where bounds: "emap as_mib (filter (\<lambda>c. cap_kind c = KMemory) cs) = Inr bounds"
      "\<forall>x. x \<in> set bounds \<longleftrightarrow> (\<exists>c \<in> set cs. cap_kind c = KMemory \<and> as_mib c = Inr x)"
      "\<forall>x \<in> set bounds. x \<noteq> NaN \<and> fle (Fin 0) x" by auto
  show ?case
  proof (cases "cap_kind c = KMemory")
    case True
    with Cons.prems obtain x where "as_mib c = Inr (Fin x)" "0 \<le> x" using capacity_ok_as_mib [of c] by auto
    with True bounds show ?thesis by (intro exI [of _ "Fin x # bounds"]) auto
  qed (use bounds in auto)
qed simp

lemma memory_issue_ok:
  assumes s: "scheduler_ok s" and m: "validate_mission m = Inr m" and p: "profile_ok p"
  shows "\<exists>issue. memory_issue s m plan p = Inr issue \<and> issue \<noteq> Some no_evidence_reason
    \<and> (issue = None \<longleftrightarrow> memory_ok s m plan p)"
proof -
  obtain caps where caps: "emap (\<lambda>r. capacity_mib r KMemory) (map (\<lambda>r. the (map_of (sch_resources s) r))
        (filter (\<lambda>r. map_of (sch_resources s) r \<noteq> None) (plan_resources plan))) = Inr caps"
      "Some NaN \<notin> set caps" "\<And>x. Some x \<in> set caps \<longleftrightarrow> x \<in> known_memory s plan"
    using known_list [OF s, of "plan_resources plan"] by (auto simp: known_memory_def)
  define known where "known = concat (map (\<lambda>c. case c of None \<Rightarrow> [] | Some x \<Rightarrow> [x]) caps)"
  have known: "set known = known_memory s plan" "\<forall>x \<in> set known. x \<noteq> NaN"
    using caps(2) caps(3) [symmetric] by (auto simp: known_def split: option.splits)
  obtain bounds where bounds: "emap as_mib (filter (\<lambda>c. cap_kind c = KMemory) (requirements p)) = Inr bounds"
      "\<And>x. x \<in> set bounds \<longleftrightarrow> (\<exists>c \<in> set (requirements p). cap_kind c = KMemory \<and> as_mib c = Inr x)"
      "\<forall>x \<in> set bounds. x \<noteq> NaN \<and> fle (Fin 0) x"
    using bounds_list [of "requirements p"] profile_ok_requirements [OF p] by blast
  have min: "minimum_memory_mib m \<noteq> NaN" "fle (Fin 0) (minimum_memory_mib m)"
    using m by (auto simp: validate_mission_def not_flt) (metis isfinite.simps(4) not_flt pyfloat.distinct(5))+
  obtain b bs where split: "bounds @ [minimum_memory_mib m] = b # bs" by (cases bounds) auto
  have all: "set (b # bs) = memory_bounds m p"
    unfolding split [symmetric] by (auto simp: memory_bounds_def bounds(2))
  have nn: "\<forall>x \<in> set (b # bs). x \<noteq> NaN" and pos: "\<forall>x \<in> set (b # bs). fle (Fin 0) x"
    unfolding split [symmetric] using bounds(3) min by auto
  have zero: "\<not> ftruthy (max_of b bs) \<longleftrightarrow> memory_bounds m p = {Fin 0}"
  proof -
    have "x = Fin 0" if "max_of b bs = Fin 0" "x \<in> set (b # bs)" for x
      using max_of_ok [OF nn] pos that by (intro fle_antisym) auto
    then have "set (b # bs) = {Fin 0}" if "max_of b bs = Fin 0"
      using that max_of_ok [OF nn] by fastforce
    moreover have "max_of b bs \<in> set (b # bs)" using max_of_ok [OF nn] by blast
    ultimately have "max_of b bs = Fin 0 \<longleftrightarrow> set (b # bs) = {Fin 0}"
      by (metis singletonD)
    then show ?thesis unfolding all [symmetric] ftruthy_def by blast
  qed
  have issue: "memory_issue s m plan p = Inr (if \<not> ftruthy (max_of b bs) then None
      else case known of [] \<Rightarrow> Some ''named resource memory capacity unknown''
         | k # ks \<Rightarrow> if flt (max_of k ks) (max_of b bs)
             then Some ''profile requirements exceed named resource capacity'' else None)"
    unfolding memory_issue_def caps(1) bounds(1) by (simp add: split known_def)
  show ?thesis
  proof (cases known)
    case Nil
    with known(1) have "known_memory s plan = {}" by simp
    then show ?thesis
      using zero Nil by (simp add: issue memory_ok_def no_evidence_reason_def)
  next
    case (Cons k ks)
    have "\<not> flt (max_of k ks) (max_of b bs) \<longleftrightarrow> fle (max_of b bs) (max_of k ks)"
      using max_of_ok [OF nn] nn max_of_ok [of k ks] known(2) unfolding Cons by (intro not_flt) blast+
    also have "\<dots> \<longleftrightarrow> (\<exists>x \<in> known_memory s plan. \<forall>b \<in> memory_bounds m p. fle b x)"
      using fle_max_of [of k ks "max_of b bs"] known(2) unfolding known(1) [symmetric] Cons all [symmetric] max_of_fle [OF nn] by blast
    finally show ?thesis
      using zero Cons by (simp add: issue memory_ok_def no_evidence_reason_def) blast
  qed
qed

section \<open>The abstract specification\<close>

text \<open>A supporting validation, or an unknown one under an exploration policy.\<close>

definition feasible :: "mission_requirements \<Rightarrow> profile_validation option \<Rightarrow> bool" where
  "feasible m validation \<longleftrightarrow> (\<exists>v. validation = Some v \<and>
     (val_state v = SUPPORTED \<or> val_state v = UNKNOWN \<and> allow_unknown_runtime m))"

definition link_ok :: "scheduler \<Rightarrow> mission_requirements \<Rightarrow> execution_plan \<Rightarrow> bool" where
  "link_ok s m plan \<longleftrightarrow>
     (plan_mode plan = PIPELINE \<and> requires_sync_cross_node m \<and> 1 < length (plan_vessels plan) \<longrightarrow>
      (\<exists>l \<in> set (sch_links s). {link_source l, link_target l} = set (plan_vessels plan)
         \<and> link_kind_of l = Tailscale \<and> link_direct l = Some True \<and> link_path l = Some ''direct''))"

definition constraints_ok ::
  "scheduler \<Rightarrow> mission_requirements \<Rightarrow> execution_plan \<Rightarrow> inference_profile \<Rightarrow> bool" where
  "constraints_ok s m plan p \<longleftrightarrow> safety_ok m \<and> cooperation_ok m \<and> plan_mode plan \<in> allow_modes m
     \<and> required_resources m \<subseteq> set (plan_resources plan)
     \<and> set (participating_resources p) = set (plan_resources plan)
     \<and> leases_ok s m plan \<and> memory_ok s m plan p \<and> link_ok s m plan"

definition admissible ::
  "(pyval \<Rightarrow> string) \<Rightarrow> scheduler \<Rightarrow> mission_requirements \<Rightarrow> execution_plan \<Rightarrow> inference_profile \<Rightarrow> bool" where
  "admissible digest s m plan p \<longleftrightarrow>
     (\<exists>validation. find_validation digest s p = Inr validation \<and> feasible m validation) \<and> constraints_ok s m plan p"

lemma placement_reasons_ok:
  assumes "scheduler_ok s" "validate_mission m = Inr m" "profile_ok p"
  shows "\<exists>rs. placement_reasons s m plan p = Inr rs \<and> no_evidence_reason \<notin> set rs
    \<and> (rs = [] \<longleftrightarrow> constraints_ok s m plan p)"
proof -
  obtain ls where ls: "lease_reasons s m plan = Inr ls" "no_evidence_reason \<notin> set ls"
    "ls = [] \<longleftrightarrow> leases_ok s m plan"
    using lease_reasons_ok [OF assms(1)] by blast
  obtain issue where issue: "memory_issue s m plan p = Inr issue" "issue \<noteq> Some no_evidence_reason"
    "issue = None \<longleftrightarrow> memory_ok s m plan p"
    using memory_issue_ok [OF assms] by blast
  have link: "unacceptable_pipeline_link s m plan \<longleftrightarrow> \<not> link_ok s m plan"
    by (auto simp: unacceptable_pipeline_link_def link_ok_def)
  show ?thesis
    using ls(2,3) issue(2,3)
    by (cases issue) (auto simp: placement_reasons_def ls(1) issue(1) link constraints_ok_def
      no_evidence_reason_def)
qed

lemma validation_reasons_ok:
  "no_evidence_reason \<notin> set (validation_reasons m v) \<and> (validation_reasons m v = [] \<longleftrightarrow> feasible m v)"
  by (cases v; cases "val_state (the v)")
    (auto simp: validation_reasons_def feasible_def no_evidence_reason_def)

lemma evaluate_Inr:
  assumes "evaluate digest clock s m plan p = Inr c"
  obtains v rs found where "find_validation digest s p = Inr v" "placement_reasons s m plan p = Inr rs"
    "find_evidence clock s m plan p = Inr found"
    "reasons c = validation_reasons m v @ rs @ (if found = None then [no_evidence_reason] else [])"
    "eligible c \<longleftrightarrow> reasons c = [] \<or> reasons c = [no_evidence_reason]"
    "cand_plan c = plan" "evidence c = found" "cand_rank c = None"
    "preemption_preference c = (if preemption m = PreferPreemptible \<and> \<not> uses_preemptible s plan then 1 else 0)"
proof -
  from assms obtain v rs found where r: "find_validation digest s p = Inr v" "placement_reasons s m plan p = Inr rs"
    "find_evidence clock s m plan p = Inr found"
    by (auto simp: evaluate_def)
  let ?rs = "validation_reasons m v @ rs @ (if found = None then [no_evidence_reason] else [])"
  have "c = \<lparr>cand_plan = plan, eligible = (?rs = [] \<or> ?rs = [no_evidence_reason]), reasons = ?rs,
      evidence = found, preemption_preference =
        (if preemption m = PreferPreemptible \<and> \<not> uses_preemptible s plan then 1 else 0), cand_rank = None\<rparr>"
    using assms by (simp only: evaluate_def r Let_def ebind.simps sum.inject)
  then show thesis by (intro that [OF r]) simp_all
qed

lemma eligible_iff:
  assumes s: "scheduler_ok s" "validate_mission m = Inr m" "profile_ok p"
    and c: "evaluate digest clock s m plan p = Inr c"
  shows "eligible c \<longleftrightarrow> admissible digest s m plan p"
  using c
proof (rule evaluate_Inr)
  fix v rs found
  assume v: "find_validation digest s p = Inr v" and rs: "placement_reasons s m plan p = Inr rs"
    and e: "reasons c = validation_reasons m v @ rs @ (if found = None then [no_evidence_reason] else [])"
      "eligible c \<longleftrightarrow> reasons c = [] \<or> reasons c = [no_evidence_reason]"
  from placement_reasons_ok [OF s, of plan] rs
  have ok: "no_evidence_reason \<notin> set rs" "rs = [] \<longleftrightarrow> constraints_ok s m plan p" by auto
  have "eligible c \<longleftrightarrow> validation_reasons m v = [] \<and> rs = []"
    unfolding e using validation_reasons_ok [of m v] ok(1)
    by (cases "validation_reasons m v"; cases rs) auto
  then show ?thesis
    using validation_reasons_ok [of m v] ok(2) v by (auto simp: admissible_def)
qed

section \<open>Evaluation never raises on valid inputs\<close>

definition dumps_ok :: "pyval \<Rightarrow> bool" where
  "dumps_ok v \<longleftrightarrow> (\<exists>t. json_dumps v = Inr t)"

lemma emap_total_iff: "(\<exists>ys. emap f xs = Inr ys) \<longleftrightarrow> (\<forall>x \<in> set xs. \<exists>y. f x = Inr y)"
  by (induction xs) auto

lemma dumps_ok_simps [simp]:
  "dumps_ok PNone" "dumps_ok (PBool b)" "dumps_ok (PInt n)" "dumps_ok (PStr s)"
  "dumps_ok (PFloat x) \<longleftrightarrow> isfinite x"
  "dumps_ok (PList vs) \<longleftrightarrow> (\<forall>v \<in> set vs. dumps_ok v)"
  "dumps_ok (PDict kvs) \<longleftrightarrow> (\<forall>kv \<in> set kvs. dumps_ok (snd kv))"
  by (auto simp: dumps_ok_def emap_total_iff split_beta)

lemma dumpable_iff: "dumpable kvs \<longleftrightarrow> dumps_ok (PDict kvs)"
  by (simp add: dumpable_def dumps_ok_def)

lemma dumps_ok_fields [simp]:
  "dumps_ok (opt_str s)" "dumps_ok (artifact_dump a)" "dumps_ok (workload_dump w)"
  by (auto simp: opt_str_def artifact_dump_def workload_dump_def split: option.splits)

lemma dumps_ok_datetime [simp]: "dumps_ok (datetime_dump d)"
  by (cases d) auto

lemma dumps_ok_opt_float [simp]: "dumps_ok (opt_float x) \<longleftrightarrow> (\<forall>f. x = Some f \<longrightarrow> isfinite f)"
  by (cases x) (auto simp: opt_float_def)

lemma dumps_ok_network [simp]: "dumps_ok (network_dump n) \<longleftrightarrow> (\<forall>f. n = Inl f \<longrightarrow> isfinite f)"
  by (cases n) auto

lemma dumps_ok_capability [simp]: "dumps_ok (capability_dump c)"
  by (cases c) auto

lemma dumps_ok_runtime [simp]: "dumps_ok (runtime_dump r)"
  by (auto simp: runtime_dump_def)

lemma dumps_ok_profile: "profile_ok p \<Longrightarrow> dumps_ok (profile_dump p)"
proof -
  assume p: "profile_ok p"
  then have "dumpable (profile_options p)" by (auto simp: profile_ok_def validate_profile_def dumpable_def)
  moreover have "isfinite (cap_amount c)" if "c \<in> set (requirements p)" for c
    using profile_ok_requirements [OF p that] by (auto simp: capacity_ok_def validate_capacity_def)
  ultimately show ?thesis by (auto simp: profile_dump_def dumpable_iff capacity_dump_def)
qed

lemma dumps_ok_validation: "dumpable (val_options v) \<Longrightarrow> dumps_ok (validation_dump v)"
  by (simp add: validation_dump_def dumpable_iff)

lemma dumps_ok_observation:
  assumes "profile_ok (obs_profile b)" "valid_metrics b"
  shows "dumps_ok (observation_dump b)"
proof -
  have fin: "isfinite f" if "Some f \<in> set (metrics_of b)" for f
    using assms(2) that by (auto simp: valid_metrics_def)
  have res: "isfinite x" if "(k, x) \<in> set (residency_mib b)" for k x
    using that by (intro fin) (force simp: metrics_of_def)
  have util: "isfinite x" if "(k, x) \<in> set (utilization b)" for k x
    using that by (intro fin) (force simp: metrics_of_def)
  have net: "isfinite x" if "(k, Inl x) \<in> set (network b)" for k x
    using that by (intro fin) (force simp: metrics_of_def)
  have opt: "isfinite f" if "x = Some f" "x \<in> {obs_load_seconds b, obs_ttft_seconds b, obs_prefill_tps b,
      obs_decode_tps b, power_watts b}" for x f
    using that by (intro fin) (auto simp: metrics_of_def)
  have "dumps_ok (floats_dump (residency_mib b))" "dumps_ok (floats_dump (utilization b))"
    "dumps_ok (PDict (map (\<lambda>(k, x). (k, network_dump x)) (network b)))"
    using res util net by (auto simp: floats_dump_def)
  with opt dumps_ok_profile [OF assms(1)] show ?thesis
    by (auto simp: observation_dump_def split: option.splits)
qed

lemma eand_total: "\<exists>b. x = Inr b \<Longrightarrow> \<exists>b. y = Inr b \<Longrightarrow> \<exists>b. eand x y = Inr b"
  by (auto simp: eand_def)

lemma find_validation_total:
  assumes "scheduler_ok s" "profile_ok p"
  shows "\<exists>v. find_validation digest s p = Inr v"
proof -
  have p: "dumps_ok (PDict (profile_options p))"
    using assms(2) by (auto simp: profile_ok_def validate_profile_def dumps_ok_def)
  have vals: "dumpable (val_options v)" if "v \<in> set (validations s)" for v
    using assms(1) that by (simp add: scheduler_ok_def)
  have m: "\<exists>b. validation_matches digest p rt v = Inr b" if "v \<in> set (validations s)" for v rt
    using p vals [OF that]
    by (auto simp: validation_matches_def eand_def artifact_key_def json_dumps_artifact dumpable_def dumps_ok_def)
  have u: "\<exists>r. unique_by (\<lambda>v. json_dumps (validation_dump v)) ms = Inr r" if "set ms \<subseteq> set (validations s)" for ms
    using that vals dumps_ok_validation by (intro unique_by_total) (auto simp: dumps_ok_def)
  show ?thesis
  proof (cases "map_of (current_runtimes s) (profile_runtime_id p)")
    case None
    then show ?thesis by (simp add: find_validation_def)
  next
    case (Some rt)
    obtain ms where ms: "efilter_idx (\<lambda>_. validation_matches digest p rt) 0 (validations s) = Inr ms"
      using efilter_idx_total [of "validations s" "\<lambda>_. validation_matches digest p rt"] m by blast
    with Some u [of ms] efilter_idx_set [OF ms] show ?thesis by (auto simp: find_validation_def)
  qed
qed

lemma evidence_is_fresh_total:
  "tz_aware now \<Longrightarrow> (has_tzinfo t \<longrightarrow> tz_aware t) \<Longrightarrow> (has_tzinfo c \<longrightarrow> tz_aware c) \<Longrightarrow>
    \<exists>b. evidence_is_fresh now t c = Inr b"
  by (auto simp: evidence_is_fresh_def dt_le_def)

lemma compatible_observation_total:
  "profile_ok (obs_profile b) \<Longrightarrow> profile_ok p \<Longrightarrow> \<exists>r. compatible_observation b m plan p rt = Inr r"
  unfolding compatible_observation_def
  by (rule eand_total) (auto simp: profile_identity_def dest!: dumps_ok_profile [unfolded dumps_ok_def])

lemma find_evidence_total:
  assumes s: "scheduler_ok s" and m: "mission_ready m" and p: "profile_ok p" and clock: "\<And>i. tz_aware (clock i)"
  shows "\<exists>e. find_evidence clock s m plan p = Inr e"
proof (cases "map_of (current_runtimes s) (profile_runtime_id p)"; cases "mission_workload m"; cases "evidence_not_before m")
  fix rt w cutoff
  assume some: "map_of (current_runtimes s) (profile_runtime_id p) = Some rt" "mission_workload m = Some w"
    "evidence_not_before m = Some cutoff"
  let ?P = "\<lambda>i b. eand (compatible_observation b m plan p rt)
                 (eand (evidence_is_fresh (clock i) (obs_timestamp b) cutoff) (Inr (valid_metrics b)))"
  have ok: "profile_ok (obs_profile b)" "has_tzinfo (obs_timestamp b) \<longrightarrow> tz_aware (obs_timestamp b)"
    if "b \<in> set (benchmarks s)" for b
    using s that by (auto simp: scheduler_ok_def)
  have cut: "has_tzinfo cutoff \<longrightarrow> tz_aware cutoff" using m some(3) by (simp add: mission_ready_def)
  have "\<exists>r. ?P i b = Inr r" if "b \<in> set (benchmarks s)" for i b
    by (intro eand_total compatible_observation_total evidence_is_fresh_total clock ok p cut that) simp
  then obtain bs where bs: "efilter_idx ?P 0 (benchmarks s) = Inr bs"
    using efilter_idx_total [of "benchmarks s" ?P] by blast
  have "b \<in> set (benchmarks s) \<and> valid_metrics b" if "b \<in> set bs" for b
    using efilter_idx_set [OF bs that] by (auto simp: eand_Inr)
  then have "\<exists>r. unique_by (\<lambda>b. json_dumps (observation_dump b)) (sort_key obs_id bs) = Inr r"
    using ok(1) dumps_ok_observation by (intro unique_by_total) (auto simp: dumps_ok_def)
  then show ?thesis using some bs by (auto simp: find_evidence_def)
qed (simp_all add: find_evidence_def)

lemma evaluate_total:
  assumes "scheduler_ok s" "mission_ready m" "profile_ok p" "\<And>i. tz_aware (clock i)"
  shows "\<exists>c. evaluate digest clock s m plan p = Inr c"
proof -
  have m: "validate_mission m = Inr m" using assms(2) by (simp add: mission_ready_def)
  obtain v where v: "find_validation digest s p = Inr v"
    using find_validation_total [OF assms(1,3)] by blast
  obtain rs where rs: "placement_reasons s m plan p = Inr rs"
    using placement_reasons_ok [OF assms(1) m assms(3)] by blast
  obtain e where e: "find_evidence clock s m plan p = Inr e"
    using find_evidence_total [OF assms(1-3), of clock] assms(4) by blast
  show ?thesis by (simp only: evaluate_def v rs e ebind.simps Let_def) blast
qed

section \<open>Selection\<close>

lemma evaluated_metrics:
  assumes "evaluate digest clock s m plan p = Inr c" "evidence c = Some b"
  shows "valid_metrics b" "obs_provenance b = Measured" "b \<in> set (benchmarks s)" "obs_error b = None"
    "obs_plan_mode b = plan_mode plan" "obs_resources b = plan_resources plan" "Some (obs_workload b) = mission_workload m"
proof -
  from assms(1) have "find_evidence clock s m plan p = Inr (Some b)"
    by (rule evaluate_Inr) (simp add: assms(2))
  then obtain rt cutoff bs where bs: "efilter_idx (\<lambda>i b. eand (compatible_observation b m plan p rt)
                 (eand (evidence_is_fresh (clock i) (obs_timestamp b) cutoff) (Inr (valid_metrics b)))) 0 (benchmarks s) = Inr bs"
      "unique_by (\<lambda>b. json_dumps (observation_dump b)) (sort_key obs_id bs) = Inr (Some b)"
    by (auto simp: find_evidence_def split: option.splits if_splits)
  from unique_by_Some(1) [OF bs(2)] have "b \<in> set bs" by simp
  from efilter_idx_set [OF bs(1) this]
  show "valid_metrics b" "obs_provenance b = Measured" "b \<in> set (benchmarks s)" "obs_error b = None"
    "obs_plan_mode b = plan_mode plan" "obs_resources b = plan_resources plan" "Some (obs_workload b) = mission_workload m"
    by (auto simp: eand_Inr compatible_observation_def)
qed

lemma evaluated_ranked_ok:
  assumes "evaluate digest clock s m plan p = Inr c"
  shows "ranked_ok (assign_rank c)"
proof (rule assign_rank_ok)
  show "cand_rank c = None" using assms by (rule evaluate_Inr)
  fix b t assume "evidence c = Some b" "throughput_of b = Some t"
  moreover have "throughput_of b \<in> set (metrics_of b)" by (auto simp: throughput_of_def metrics_of_def)
  ultimately have "case Some t of None \<Rightarrow> True | Some f \<Rightarrow> isfinite f \<and> fge f (Fin 0)"
    using evaluated_metrics(1) [OF assms] by (auto simp: valid_metrics_def)
  then show "t \<noteq> NaN" by auto
qed

text \<open>Each candidate comes from a generated plan and the profile it names.\<close>

definition evaluated ::
  "(pyval \<Rightarrow> string) \<Rightarrow> (nat \<Rightarrow> nat \<Rightarrow> datetime) \<Rightarrow> scheduler \<Rightarrow> mission_requirements
     \<Rightarrow> execution_plan \<Rightarrow> inference_profile \<Rightarrow> candidate \<Rightarrow> bool" where
  "evaluated digest clock s m plan p c \<longleftrightarrow> (\<exists>j. evaluate digest (clock j) s m plan p = Inr c)"

lemma evaluate_all_Cons:
  assumes "evaluate_all digest clock i s m d (plan # plans) = Inr cs"
  obtains p c cs' where "map_of d (the (plan_profile_id plan)) = Some p" "evaluated digest clock s m plan p c"
    "evaluate_all digest clock (Suc i) s m d plans = Inr cs'" "cs = c # cs'"
proof -
  from assms obtain p c cs' where "map_of d (the (plan_profile_id plan)) = Some p"
      "evaluate digest (clock i) s m plan p = Inr c"
      "evaluate_all digest clock (Suc i) s m d plans = Inr cs'" "cs = c # cs'"
    by (auto split: option.splits)
  then show thesis by (intro that) (auto simp: evaluated_def)
qed

lemma evaluate_all_sound:
  "evaluate_all digest clock i s m d plans = Inr cs \<Longrightarrow> c \<in> set cs \<Longrightarrow>
    \<exists>plan \<in> set plans. \<exists>p. map_of d (the (plan_profile_id plan)) = Some p \<and> evaluated digest clock s m plan p c"
proof (induction plans arbitrary: i cs)
  case (Cons plan plans)
  from Cons.prems(1) show ?case
    by (rule evaluate_all_Cons) (use Cons in \<open>fastforce simp del: evaluate_all.simps\<close>)
qed simp

lemma evaluate_all_complete:
  "evaluate_all digest clock i s m d plans = Inr cs \<Longrightarrow> plan \<in> set plans \<Longrightarrow>
    map_of d (the (plan_profile_id plan)) = Some p \<Longrightarrow> \<exists>c \<in> set cs. evaluated digest clock s m plan p c"
proof (induction plans arbitrary: i cs)
  case (Cons plan' plans)
  from Cons.prems(1) show ?case
    by (rule evaluate_all_Cons) (use Cons in \<open>fastforce simp del: evaluate_all.simps\<close>)
qed simp

lemma evaluate_all_total:
  assumes "\<And>plan. plan \<in> set plans \<Longrightarrow> \<exists>p. map_of d (the (plan_profile_id plan)) = Some p
      \<and> (\<forall>j. \<exists>c. evaluate digest (clock j) s m plan p = Inr c)"
  shows "\<exists>cs. evaluate_all digest clock i s m d plans = Inr cs"
  using assms
proof (induction plans arbitrary: i)
  case (Cons plan plans)
  then obtain p c cs where "map_of d (the (plan_profile_id plan)) = Some p"
    "evaluate digest (clock i) s m plan p = Inr c" "evaluate_all digest clock (Suc i) s m d plans = Inr cs"
    by (metis list.set_intros)
  then show ?case by simp
qed simp

lemma profiles_by_id_key: "(k, p) \<in> set (profiles_by_id ps) \<Longrightarrow> k = profile_id p \<and> p \<in> set ps"
proof -
  assume "(k, p) \<in> set (profiles_by_id ps)"
  then have "map_of (profiles_by_id ps) k = Some p" by (simp add: profiles_by_id_def dict_ok_values [symmetric])
  then show ?thesis by (auto simp: profiles_by_id_def dest: map_of_dict_of_in)
qed

lemma map_of_profiles_by_id: "map_of (profiles_by_id ps) (profile_id p) = Some p \<longleftrightarrow> p \<in> snd ` set (profiles_by_id ps)"
proof -
  have "dict_ok (profiles_by_id ps)" by (simp add: profiles_by_id_def)
  then have "map_of (profiles_by_id ps) (profile_id p) = Some p \<longleftrightarrow> (profile_id p, p) \<in> set (profiles_by_id ps)"
    by (rule dict_ok_values [symmetric])
  also have "\<dots> \<longleftrightarrow> p \<in> snd ` set (profiles_by_id ps)"
  proof
    assume "p \<in> snd ` set (profiles_by_id ps)"
    then obtain k where "(k, p) \<in> set (profiles_by_id ps)" by auto
    with profiles_by_id_key [OF this] show "(profile_id p, p) \<in> set (profiles_by_id ps)" by simp
  qed (rule image_eqI [where f = snd], simp_all)
  finally show ?thesis .
qed

lemma plan_for_profile [simp]: "plan_profile_id (plan_for s p mode) = Some (profile_id p)"
  by (simp add: plan_for_def)

lemma set_generate:
  "plan \<in> set (generate s (map snd (profiles_by_id ps))) \<longleftrightarrow>
    (\<exists>p mode. map_of (profiles_by_id ps) (profile_id p) = Some p \<and> plan = plan_for s p mode)"
  unfolding generate_def map_of_profiles_by_id by (auto simp: set_all_modes image_iff Bex_def)

lemma select_candidates:
  assumes s: "scheduler_ok s" "mission_ready m" "\<forall>p \<in> set ps. profile_ok p" "\<forall>i j. tz_aware (clock i j)"
  obtains cs where
    "evaluate_all digest clock 0 s m (profiles_by_id ps) (generate s (map snd (profiles_by_id ps))) = Inr cs"
    "\<And>c. c \<in> set cs \<Longrightarrow> \<exists>p mode. map_of (profiles_by_id ps) (profile_id p) = Some p
       \<and> evaluated digest clock s m (plan_for s p mode) p c"
    "\<And>p mode. map_of (profiles_by_id ps) (profile_id p) = Some p \<Longrightarrow>
       \<exists>c \<in> set cs. evaluated digest clock s m (plan_for s p mode) p c"
proof -
  let ?d = "profiles_by_id ps" and ?plans = "generate s (map snd (profiles_by_id ps))"
  have ok: "profile_ok p" if "map_of ?d (profile_id p) = Some p" for p
    using that s(3) profiles_by_id_key map_of_profiles_by_id by (metis imageE prod.collapse)
  have "\<exists>c. evaluate digest (clock j) s m plan p = Inr c" if "map_of ?d (profile_id p) = Some p" for plan p j
    using s by (intro evaluate_total ok that) auto
  then have "\<exists>cs. evaluate_all digest clock 0 s m ?d ?plans = Inr cs"
    by (intro evaluate_all_total) (auto simp: set_generate)
  then obtain cs where cs: "evaluate_all digest clock 0 s m ?d ?plans = Inr cs" ..
  show thesis
  proof (rule that [OF cs])
    fix c assume "c \<in> set cs"
    then show "\<exists>p mode. map_of ?d (profile_id p) = Some p \<and> evaluated digest clock s m (plan_for s p mode) p c"
      using evaluate_all_sound [OF cs] by (fastforce simp: set_generate)
  next
    fix p mode assume "map_of ?d (profile_id p) = Some p"
    then show "\<exists>c \<in> set cs. evaluated digest clock s m (plan_for s p mode) p c"
      by (intro evaluate_all_complete [OF cs]) (auto simp: set_generate)
  qed
qed

lemma assign_rank_simps [simp]:
  "eligible (assign_rank c) = eligible c" "cand_plan (assign_rank c) = cand_plan c"
  "evidence (assign_rank c) = evidence c" "reasons (assign_rank c) = reasons c"
  "preemption_preference (assign_rank c) = preemption_preference c"
  by (simp_all add: assign_rank_def)

lemma select_cases:
  assumes s: "scheduler_ok s" "mission_ready m" "\<forall>p \<in> set ps. profile_ok p" "\<forall>i j. tz_aware (clock i j)"
  obtains (none) msg where "select digest clock s m ps = Inl (ValueError msg)"
      "\<And>p mode c. map_of (profiles_by_id ps) (profile_id p) = Some p \<Longrightarrow> \<not> admissible digest s m (plan_for s p mode) p"
    | (some) p mode c where "select digest clock s m ps = Inr (assign_rank c)" "eligible c"
      "map_of (profiles_by_id ps) (profile_id p) = Some p" "evaluated digest clock s m (plan_for s p mode) p c"
      "\<And>q mode'. map_of (profiles_by_id ps) (profile_id q) = Some q \<Longrightarrow>
         \<exists>c'. evaluated digest clock s m (plan_for s q mode') q c'
           \<and> (eligible c' \<longrightarrow> \<not> cand_lt (assign_rank c') (assign_rank c))"
proof -
  let ?d = "profiles_by_id ps"
  obtain cs where cs: "evaluate_all digest clock 0 s m ?d (generate s (map snd ?d)) = Inr cs"
    and sound: "\<And>c. c \<in> set cs \<Longrightarrow> \<exists>p mode. map_of ?d (profile_id p) = Some p
       \<and> evaluated digest clock s m (plan_for s p mode) p c"
    and complete: "\<And>p mode. map_of ?d (profile_id p) = Some p \<Longrightarrow>
       \<exists>c \<in> set cs. evaluated digest clock s m (plan_for s p mode) p c"
    using select_candidates [OF s] by metis
  have m: "validate_mission m = Inr m" using s(2) by (simp add: mission_ready_def)
  have ok: "profile_ok p" if "map_of ?d (profile_id p) = Some p" for p
    using that s(3) profiles_by_id_key map_of_profiles_by_id by (metis imageE prod.collapse)
  have elig: "eligible c \<longleftrightarrow> admissible digest s m (plan_for s p mode) p"
    if "map_of ?d (profile_id p) = Some p" "evaluated digest clock s m (plan_for s p mode) p c" for p mode c
    using that eligible_iff [OF s(1) m ok] by (auto simp: evaluated_def)
  let ?ranked = "rank_candidates cs"
  have set: "set ?ranked = assign_rank ` set cs" by (simp add: rank_candidates_def)
  have wf: "\<forall>c \<in> set (map assign_rank cs). ranked_ok c"
    using sound by (auto simp: evaluated_def dest!: evaluated_ranked_ok)
  show thesis
  proof (cases "\<exists>c \<in> set ?ranked. eligible c")
    case False
    then have "select digest clock s m ps
        = Inl (ValueError (''no eligible plan: '' @ join ''; '' (concat (map reasons ?ranked))))"
      by (simp add: select_def cs Let_def)
    moreover have "\<not> admissible digest s m (plan_for s p mode) p" if "map_of ?d (profile_id p) = Some p" for p mode
      using complete [OF that, of mode] elig [OF that] False by (auto simp: set)
    ultimately show thesis by (rule none)
  next
    case True
    let ?best = "hd (filter eligible ?ranked)"
    have sel: "select digest clock s m ps = Inr ?best" using True by (simp add: select_def cs Let_def)
    from True have ex: "\<exists>c \<in> set (map assign_rank cs). eligible c" by (simp add: set)
    note best = candidates.first_least [OF wf ex, folded rank_candidates_def]
    from best(1) obtain c where c: "c \<in> set cs" "?best = assign_rank c" by auto
    from sound [OF c(1)] obtain p mode where p: "map_of ?d (profile_id p) = Some p"
      "evaluated digest clock s m (plan_for s p mode) p c" by blast
    have "\<exists>c'. evaluated digest clock s m (plan_for s q mode') q c'
           \<and> (eligible c' \<longrightarrow> \<not> cand_lt (assign_rank c') (assign_rank c))"
      if q: "map_of ?d (profile_id q) = Some q" for q mode'
    proof -
      from complete [OF q] obtain c' where c': "c' \<in> set cs" "evaluated digest clock s m (plan_for s q mode') q c'"
        by blast
      with best(3) [of "assign_rank c'"] c(2) show ?thesis by auto
    qed
    with p c(2) sel best(2) show thesis by (intro some [of c p mode]) simp_all
  qed
qed

section \<open>Collection order\<close>

lemma dict_singleton: "dict_ok d \<Longrightarrow> fst ` set d = {k} \<Longrightarrow> \<exists>x. d = [(k, x)]"
  by (cases d; cases "tl d") (auto simp: dict_ok_def)

lemma unique_by_defined:
  assumes r: "unique_by key xs = Inr r"
  shows "r \<noteq> None \<longleftrightarrow> xs \<noteq> [] \<and> (\<exists>k. \<forall>x \<in> set xs. key x = Inr k)"
proof
  assume "r \<noteq> None"
  then obtain x where "r = Some x" by auto
  with r unique_by_Some [of key xs x] show "xs \<noteq> [] \<and> (\<exists>k. \<forall>x \<in> set xs. key x = Inr k)" by auto
next
  assume "xs \<noteq> [] \<and> (\<exists>k. \<forall>x \<in> set xs. key x = Inr k)"
  then obtain k where k: "xs \<noteq> []" "\<forall>x \<in> set xs. key x = Inr k" by blast
  then have "emap (\<lambda>x. ebind (key x) (\<lambda>k. Inr (k, x))) xs = Inr (map (\<lambda>x. (k, x)) xs)"
    by (simp add: emap_Inr_list_all2 list_all2_conv_all_nth)
  moreover have "fst ` set (dict_of (map (\<lambda>x. (k, x)) xs)) = {k}"
    using k(1) by (cases xs) (auto simp: keys_dict_of image_image)
  then obtain x where "dict_of (map (\<lambda>x. (k, x)) xs) = [(k, x)]" using dict_singleton dict_ok_dict_of by metis
  ultimately show "r \<noteq> None" using r by (auto simp: unique_by_def)
qed

lemma emap_pairs:
  "emap (\<lambda>(k, v). ebind (f v) (\<lambda>w. Inr (k, w))) kvs = Inr kws \<Longrightarrow>
    map fst kws = map fst kvs \<and> (\<forall>k v. (k, v) \<in> set kvs \<longrightarrow> (\<exists>w. f v = Inr w \<and> (k, w) \<in> set kws))"
proof (induction kvs arbitrary: kws)
  case (Cons kv kvs)
  then obtain w zs where "f (snd kv) = Inr w" "kws = (fst kv, w) # zs"
      "emap (\<lambda>(k, v). ebind (f v) (\<lambda>w. Inr (k, w))) kvs = Inr zs"
    by (auto split: prod.splits)
  with Cons.IH [of zs] show ?case by auto
qed simp

lemma json_dumps_field:
  assumes "json_dumps (PDict kvs) = Inr t" "(k, v) \<in> set kvs"
  shows "\<exists>ws w. t = PDict ws \<and> json_dumps v = Inr w \<and> (k, w) \<in> set ws \<and> (distinct (map fst kvs) \<longrightarrow> dict_ok ws)"
proof -
  from assms(1) obtain kws where kws: "emap (\<lambda>(k, v). ebind (json_dumps v) (\<lambda>w. Inr (k, w))) kvs = Inr kws"
    and t: "t = PDict (sort_key fst kws)" by auto
  have "distinct (map fst (sort_key fst kws)) \<longleftrightarrow> distinct (map fst kws)"
    by (metis mset_eq_imp_distinct_iff mset_map mset_sort)
  with emap_pairs [OF kws] assms(2) t show ?thesis by (auto simp: dict_ok_def)
qed

lemma json_dumps_same_field:
  assumes "json_dumps (PDict kvs) = Inr t" "json_dumps (PDict kvs') = Inr t" "distinct (map fst kvs)"
    "(k, v) \<in> set kvs" "(k, v') \<in> set kvs'"
  shows "json_dumps v = json_dumps v'"
proof -
  obtain ws w where w: "t = PDict ws" "json_dumps v = Inr w" "(k, w) \<in> set ws" "dict_ok ws"
    using json_dumps_field [OF assms(1,4)] assms(3) by blast
  obtain w' where w': "json_dumps v' = Inr w'" "(k, w') \<in> set ws"
    using json_dumps_field [OF assms(2,5)] w(1) by auto
  have "w = w'" using w(3,4) w'(2) by (auto simp: dict_ok_def dest: eq_key_imp_eq_value)
  with w(2) w'(1) show ?thesis by simp
qed

lemma state_value_inject: "state_value a = state_value b \<Longrightarrow> a = b"
  by (cases a; cases b) auto

lemma validation_dump_state:
  assumes "json_dumps (validation_dump v) = Inr t" "json_dumps (validation_dump v') = Inr t"
  shows "val_state v = val_state v'"
proof -
  have "json_dumps (PStr (state_value (val_state v))) = json_dumps (PStr (state_value (val_state v')))"
    by (rule json_dumps_same_field [OF assms [unfolded validation_dump_def], of "''state''"]) simp_all
  then show ?thesis by (auto dest: state_value_inject)
qed

lemma find_validation_matches:
  assumes "find_validation digest s p = Inr r" "map_of (current_runtimes s) (profile_runtime_id p) = Some rt"
    "named (rt_version rt) \<or> named (rt_build_id rt)"
  obtains ms where "unique_by (\<lambda>v. json_dumps (validation_dump v)) ms = Inr r"
    "set ms = {v \<in> set (validations s). validation_matches digest p rt v = Inr True}"
proof -
  from assms obtain ms where ms: "efilter_idx (\<lambda>_. validation_matches digest p rt) 0 (validations s) = Inr ms"
      "unique_by (\<lambda>v. json_dumps (validation_dump v)) ms = Inr r"
    by (auto simp: find_validation_def)
  show thesis
    by (rule that [OF ms(2)]) (use efilter_idx_set [OF ms(1)] efilter_idx_complete [OF ms(1)] in auto)
qed

end
