(* ===== verification/Scheduler_Properties.thy ===== *)
theory Scheduler_Properties
  imports Scheduler_Safety
begin

text \<open>
  The scheduler's properties, each with a small fleet on which it is exercised: one node with
  16 GiB, one profile that needs 4 GiB, one runtime and one supporting validation.
\<close>

section \<open>A small fleet\<close>

definition sample_digest :: "pyval \<Rightarrow> string" where
  "sample_digest v = ''digest''"

definition sample_clock :: "nat \<Rightarrow> datetime" where
  "sample_clock i = Aware 50 0"

definition sample_profile :: inference_profile where
  "sample_profile = \<lparr>profile_id = ''P'', profile_runtime_id = ''rt'', strategy = ''cpu'',
     profile_artifact = \<lparr>foundation = ''m'', revision = None, quantization = None, adapters = [], auxiliary_artifacts = []\<rparr>,
     participating_resources = [''r1''],
     requirements = [\<lparr>cap_kind = KMemory, cap_amount = Fin 4, cap_unit = GiB\<rparr>],
     profile_options = [], profile_schema_version = 1\<rparr>"

definition sample_node :: vessel where
  "sample_node = \<lparr>vessel_id = ''V'', vessel_name = ''node'', class_name = Ship, tailscale_name = None,
     vessel_resources = [\<lparr>res_id = ''r1'', res_kind = MEMORY, res_model = None, res_architecture = None,
       res_capacities = [\<lparr>cap_kind = KMemory, cap_amount = Fin 16, cap_unit = GiB\<rparr>],
       res_memory_mb = None, res_notes = None, res_metadata = []\<rparr>],
     vessel_links = [], lifecycle = PERSISTENT, vessel_lease = None\<rparr>"

definition sample_runtime :: runtime_identity where
  "sample_runtime = \<lparr>runtime_id = ''rt'', rt_version = Some ''1'', rt_build_id = None, binary_path = None,
     backends = [], capabilities = []\<rparr>"

definition sample_validation :: "validation_state \<Rightarrow> profile_validation" where
  "sample_validation state = \<lparr>val_runtime = sample_runtime, val_profile_id = ''P'',
     val_artifact_key = ''artifact-v2:digest'', val_resources = [''r1''], val_strategy = ''cpu'', val_options = [],
     val_state = state, val_depth = PREFLIGHT, val_rationale = ''ok'', val_timestamp = Aware 1 0,
     val_provenance = VProbe\<rparr>"

definition sample_scheduler :: "profile_validation list \<Rightarrow> scheduler" where
  "sample_scheduler vals = (case make_scheduler [sample_node] [] [] vals [sample_runtime] (Some (Aware 5 0)) (Aware 5 0) of
     Inr s \<Rightarrow> s | Inl _ \<Rightarrow> undefined)"

definition sample_mission :: mission_requirements where
  "sample_mission = \<lparr>mission_id = ''M'', required_resources = {''r1''}, requires_sync_cross_node = False,
     allow_modes = {LOCAL, PIPELINE}, mission_workload = None, evidence_not_before = None, safety_ok = True,
     cooperation_ok = True, minimum_memory_mib = Fin 0, allow_unknown_runtime = False, restartable = False,
     preemption = AllowPreemptible\<rparr>"

lemma sample_make: "make_scheduler [sample_node] [] [] vals [sample_runtime] (Some (Aware 5 0)) (Aware 5 0)
    = Inr (sample_scheduler vals)"
  by (simp add: sample_scheduler_def make_scheduler_def)

lemma fl_4096: "fl 4096 = Fin 4096" and fl_16384: "fl 16384 = Fin 16384"
  by (rule fl_numeral, simp)+

lemma sample_node_ok: "vessel_ok sample_node"
  by (simp add: vessel_ok_def validate_vessel_def sample_node_def validate_resource_def validate_capacity_def
    as_mib_def fl_16384 migrate_memory_mb_def validate_lease_option_def resource_references_exist_def)

lemma sample_profile_ok: "profile_ok sample_profile"
  by (simp add: profile_ok_def validate_profile_def sample_profile_def validate_capacity_def as_mib_def fl_4096)

lemma sample_scheduler_ok:
  "\<forall>v \<in> set vals. val_options v = [] \<Longrightarrow> scheduler_ok (sample_scheduler vals)"
  by (rule make_scheduler_ok [OF sample_make]) (auto simp: sample_node_ok dumpable_def)

lemma sample_mission_ready: "mission_ready sample_mission"
  by (simp add: mission_ready_def validate_mission_def sample_mission_def)

lemmas sample_defs = sample_scheduler_def make_scheduler_def sample_node_def sample_runtime_def
  sample_validation_def sample_profile_def sample_mission_def agreed_runtimes_def group_runtimes_def
  runtime_eq_def dict_of_def find_validation_def validation_matches_def eand_def artifact_key_def
  json_dumps_artifact sample_digest_def named_def unique_by_def

lemma sample_validated: "find_validation sample_digest (sample_scheduler [sample_validation SUPPORTED]) sample_profile
    = Inr (Some (sample_validation SUPPORTED))"
  by (simp add: sample_defs validation_dump_def runtime_dump_def opt_str_def)

section \<open>Properties\<close>

text \<open>
  C29. The code's eligibility flag is the abstract specification. For valid inputs, \<open>evaluate\<close> marks
  a candidate eligible exactly when the profile has one certifying validation (supported, or unknown
  under an exploration policy) and the plan meets every hard constraint: safety, cooperation, mode,
  required and paired resources, every planned vessel known with its lease window open (and not
  preemptible where forbidden), every memory bound within one single named resource, and a direct
  link where the mission needs a synchronous pipeline. Missing evidence never decides it.
\<close>

theorem evaluate_eligible_iff_admissible:
  assumes "scheduler_ok s" "validate_mission m = Inr m" "profile_ok p"
    and "evaluate digest clock s m plan p = Inr c"
  shows "eligible c \<longleftrightarrow> admissible digest s m plan p"
  using assms by (rule eligible_iff)

lemma sample_evaluates:
  "\<forall>v \<in> set vals. val_options v = [] \<Longrightarrow> \<exists>c. evaluate sample_digest sample_clock (sample_scheduler vals) sample_mission
     (plan_for (sample_scheduler vals) sample_profile mode) sample_profile = Inr c"
  using sample_scheduler_ok sample_mission_ready sample_profile_ok
  by (intro evaluate_total) (simp_all add: sample_clock_def)

lemma sample_16_GiB: "fl (16 * 1024) = Fin 16384"
  using fl_16384 by simp

lemma sample_admissible:
  "admissible sample_digest (sample_scheduler [sample_validation SUPPORTED]) sample_mission
     (plan_for (sample_scheduler [sample_validation SUPPORTED]) sample_profile LOCAL) sample_profile"
proof -
  have "Fin 16384 \<in> known_memory (sample_scheduler [sample_validation SUPPORTED])
      (plan_for (sample_scheduler [sample_validation SUPPORTED]) sample_profile LOCAL)"
    by (simp add: known_memory_def sample_defs plan_for_def capacity_mib_def as_mib_def fl_16384)
  moreover have "\<forall>b \<in> memory_bounds sample_mission sample_profile. fle b (Fin 16384)"
    by (auto simp: memory_bounds_def sample_mission_def sample_profile_def as_mib_def fl_4096)
  ultimately have "memory_ok (sample_scheduler [sample_validation SUPPORTED]) sample_mission
      (plan_for (sample_scheduler [sample_validation SUPPORTED]) sample_profile LOCAL) sample_profile"
    unfolding memory_ok_def by blast
  moreover have "feasible sample_mission (Some (sample_validation SUPPORTED))"
    by (simp add: feasible_def sample_validation_def)
  moreover have "leases_ok (sample_scheduler [sample_validation SUPPORTED]) sample_mission
      (plan_for (sample_scheduler [sample_validation SUPPORTED]) sample_profile LOCAL)"
    by (simp add: leases_ok_def planned_lease_def sample_defs plan_for_def sorted_set_def)
  ultimately show ?thesis
    using sample_validated
    by (simp add: admissible_def constraints_ok_def link_ok_def plan_for_def sample_mission_def sample_profile_def)
qed

theorem evaluate_eligible_iff_admissible_witness:
  "\<exists>c. evaluate sample_digest sample_clock (sample_scheduler [sample_validation SUPPORTED]) sample_mission
     (plan_for (sample_scheduler [sample_validation SUPPORTED]) sample_profile LOCAL) sample_profile = Inr c \<and> eligible c"
proof -
  obtain c where c: "evaluate sample_digest sample_clock (sample_scheduler [sample_validation SUPPORTED]) sample_mission
     (plan_for (sample_scheduler [sample_validation SUPPORTED]) sample_profile LOCAL) sample_profile = Inr c"
    using sample_evaluates [of "[sample_validation SUPPORTED]"] by (auto simp: sample_validation_def)
  have "scheduler_ok (sample_scheduler [sample_validation SUPPORTED])"
    by (rule sample_scheduler_ok) (simp add: sample_validation_def)
  moreover have "validate_mission sample_mission = Inr sample_mission"
    using sample_mission_ready by (simp add: mission_ready_def)
  ultimately show ?thesis
    using evaluate_eligible_iff_admissible [OF _ _ sample_profile_ok c] sample_admissible c by blast
qed

text \<open>
  Selection is decisive: on valid inputs it returns a plan exactly when some profile and some
  mode give an admissible plan, and otherwise raises \<open>ValueError\<close>; no other outcome is possible.
\<close>

theorem select_decides:
  assumes "scheduler_ok s" "mission_ready m" "\<forall>p \<in> set ps. profile_ok p" "\<forall>i j. tz_aware (clock i j)"
  shows "if \<exists>p mode. map_of (profiles_by_id ps) (profile_id p) = Some p \<and> admissible digest s m (plan_for s p mode) p
    then \<exists>c. select digest clock s m ps = Inr c
    else \<exists>msg. select digest clock s m ps = Inl (ValueError msg)"
  using assms
proof (cases rule: select_cases [of s m ps clock digest])
  case (some p mode c)
  have "admissible digest s m (plan_for s p mode) p"
  proof -
    have "profile_ok p"
      using some(3) assms(3) profiles_by_id_key [of "profile_id p" p ps] by (auto dest: map_of_SomeD)
    then show ?thesis
      using some(2,4) eligible_iff [of s m p digest] assms(1,2) by (auto simp: evaluated_def mission_ready_def)
  qed
  with some show ?thesis by auto
qed (use assms in auto)

theorem select_decides_witness:
  "\<exists>c. select sample_digest (\<lambda>_. sample_clock) (sample_scheduler [sample_validation SUPPORTED]) sample_mission [sample_profile] = Inr c"
proof -
  have s: "scheduler_ok (sample_scheduler [sample_validation SUPPORTED])"
    by (rule sample_scheduler_ok) (simp add: sample_validation_def)
  have "map_of (profiles_by_id [sample_profile]) (profile_id sample_profile) = Some sample_profile"
    by (simp add: profiles_by_id_def dict_of_def)
  with select_decides [OF s sample_mission_ready, of "[sample_profile]" "\<lambda>_. sample_clock" sample_digest]
    sample_admissible sample_profile_ok show ?thesis
    by (auto simp: sample_clock_def split: if_splits)
qed

lemma sample_selects:
  "\<exists>best. select sample_digest (\<lambda>_. sample_clock) (sample_scheduler [sample_validation SUPPORTED])
     sample_mission [sample_profile] = Inr best"
proof -
  have s: "scheduler_ok (sample_scheduler [sample_validation SUPPORTED])"
    by (rule sample_scheduler_ok) (simp add: sample_validation_def)
  have p: "map_of (profiles_by_id [sample_profile]) (profile_id sample_profile) = Some sample_profile"
    by (simp add: profiles_by_id_def dict_of_def)
  show ?thesis
    by (rule select_cases [OF s sample_mission_ready, of "[sample_profile]" "\<lambda>_. sample_clock" sample_digest])
      (use p sample_profile_ok sample_admissible in \<open>auto simp: sample_clock_def\<close>)
qed

lemma cand_lt_measured:
  assumes "eligible c'" "eligible c" "evidence c' = Some b" "obs_provenance b = Measured" "evidence c = None"
  shows "cand_lt (assign_rank c') (assign_rank c)"
  using assms by (simp add: cand_lt_def key_of_def assign_rank_def rank_of_def Let_def)

text \<open>
  C6. The selected plan is admissible and no admissible plan is preferred to it: every other
  generated plan was evaluated, and where it came out eligible its sort key (measured evidence first,
  then the preemption preference, then continuity over PIPELINE, then throughput, then the plan id)
  is not smaller. In particular an unmeasured plan is selected only when no eligible plan has
  comparable measured evidence.
\<close>

theorem select_best:
  assumes "scheduler_ok s" "mission_ready m" "\<forall>p \<in> set ps. profile_ok p" "\<forall>i j. tz_aware (clock i j)"
    and "select digest clock s m ps = Inr best"
  shows "eligible best \<and> (\<exists>p mode. map_of (profiles_by_id ps) (profile_id p) = Some p
       \<and> cand_plan best = plan_for s p mode \<and> admissible digest s m (plan_for s p mode) p)
    \<and> (\<forall>q mode. map_of (profiles_by_id ps) (profile_id q) = Some q \<longrightarrow>
         (\<exists>c. evaluated digest clock s m (plan_for s q mode) q c \<and> (eligible c \<longrightarrow>
            \<not> cand_lt (assign_rank c) best \<and> (evidence best = None \<longrightarrow> evidence c = None))))"
  using assms(1-4)
proof (cases rule: select_cases [of s m ps clock digest])
  case (some p mode c)
  have best: "best = assign_rank c" using some(1) assms(5) by simp
  have plan: "cand_plan c = plan_for s p mode"
    using some(4) by (auto simp: evaluated_def elim: evaluate_Inr)
  have "profile_ok p"
    using some(3) assms(3) profiles_by_id_key [of "profile_id p" p ps] by (auto dest: map_of_SomeD)
  then have adm: "admissible digest s m (plan_for s p mode) p"
    using some(2,4) eligible_iff [of s m p digest] assms(1,2) by (auto simp: evaluated_def mission_ready_def)
  have "\<exists>c'. evaluated digest clock s m (plan_for s q mode') q c' \<and> (eligible c' \<longrightarrow>
            \<not> cand_lt (assign_rank c') best \<and> (evidence best = None \<longrightarrow> evidence c' = None))"
    if q: "map_of (profiles_by_id ps) (profile_id q) = Some q" for q mode'
  proof -
    from some(5) [OF q] obtain c' where c': "evaluated digest clock s m (plan_for s q mode') q c'"
      "eligible c' \<longrightarrow> \<not> cand_lt (assign_rank c') (assign_rank c)" by blast
    have "obs_provenance b = Measured" if "evidence c' = Some b" for b
      using c'(1) that by (auto simp: evaluated_def intro: evaluated_metrics)
    then have "eligible c' \<longrightarrow> evidence c = None \<longrightarrow> evidence c' = None"
      using cand_lt_measured [of c' c] c'(2) some(2) by (cases "evidence c'") auto
    with c' best show ?thesis by auto
  qed
  with some(2,3) plan adm best show ?thesis by auto
qed (use assms in auto)

theorem select_best_witness:
  "\<exists>best. select sample_digest (\<lambda>_. sample_clock) (sample_scheduler [sample_validation SUPPORTED]) sample_mission [sample_profile] = Inr best
     \<and> eligible best"
proof -
  have s: "scheduler_ok (sample_scheduler [sample_validation SUPPORTED])"
    by (rule sample_scheduler_ok) (simp add: sample_validation_def)
  obtain best where best: "select sample_digest (\<lambda>_. sample_clock) (sample_scheduler [sample_validation SUPPORTED])
      sample_mission [sample_profile] = Inr best"
    using sample_selects by blast
  with select_best [OF s sample_mission_ready _ _ best] sample_profile_ok show ?thesis
    by (auto simp: sample_clock_def)
qed

text \<open>
  Contradictory or repeated certification fails closed, and the order in which validations were
  collected never decides. Given the same set of validations in any order, both lookups return a
  record or neither does, and the records they return certify the same state; and if two matching
  validations disagree on the state, none is returned.
\<close>

theorem validation_order_irrelevant:
  assumes "find_validation digest s p = Inr r" "find_validation digest s' p = Inr r'"
    and "current_runtimes s' = current_runtimes s" "set (validations s') = set (validations s)"
  shows "map_option val_state r = map_option val_state r'
    \<and> (\<forall>rt v w. map_of (current_runtimes s) (profile_runtime_id p) = Some rt \<longrightarrow>
         {v, w} \<subseteq> set (validations s) \<longrightarrow> validation_matches digest p rt v = Inr True \<longrightarrow>
         validation_matches digest p rt w = Inr True \<longrightarrow> val_state v \<noteq> val_state w \<longrightarrow> r = None)"
proof (cases "\<exists>rt. map_of (current_runtimes s) (profile_runtime_id p) = Some rt \<and> (named (rt_version rt) \<or> named (rt_build_id rt))")
  case False
  then have "r = None" "r' = None"
    using assms by (auto simp: find_validation_def split: option.splits if_splits)
  then show ?thesis by simp
next
  case True
  then obtain rt where rt: "map_of (current_runtimes s) (profile_runtime_id p) = Some rt"
    "named (rt_version rt) \<or> named (rt_build_id rt)" by blast
  let ?key = "\<lambda>v. json_dumps (validation_dump v)"
  let ?M = "{v \<in> set (validations s). validation_matches digest p rt v = Inr True}"
  obtain ms where ms: "unique_by ?key ms = Inr r" "set ms = ?M"
    by (rule find_validation_matches [OF assms(1) rt])
  obtain ms' where ms': "unique_by ?key ms' = Inr r'" "set ms' = ?M"
    by (rule find_validation_matches [OF assms(2)]) (use rt assms(3,4) in auto)
  have same: "val_state v = val_state w" if "\<forall>x \<in> ?M. ?key x = Inr k" "v \<in> ?M" "w \<in> ?M" for k v w
    using that by (intro validation_dump_state) auto
  have "ms = [] \<longleftrightarrow> ms' = []" using ms(2) ms'(2) by (metis set_empty)
  then have none: "r = None \<longleftrightarrow> r' = None"
    using unique_by_defined [OF ms(1)] unique_by_defined [OF ms'(1)] unfolding ms(2) ms'(2) by blast
  have st: "val_state v = val_state w" if "r = Some v" "r' = Some w" for v w
  proof -
    note v = unique_by_Some [OF ms(1) [unfolded that(1)]] and w = unique_by_Some [OF ms'(1) [unfolded that(2)]]
    obtain k where "\<forall>x \<in> ?M. ?key x = Inr k" using v(2) unfolding ms(2) by blast
    moreover have "v \<in> ?M" "w \<in> ?M" using v(1) w(1) unfolding ms(2) ms'(2) by blast+
    ultimately show ?thesis by (rule same)
  qed
  have "map_option val_state r = map_option val_state r'"
  proof (cases r)
    case None
    with none show ?thesis by simp
  next
    case (Some v)
    with none obtain w where "r' = Some w" by (cases r') simp_all
    with Some st [OF Some this] show ?thesis by simp
  qed
  moreover have "r = None" if "v \<in> ?M" "w \<in> ?M" "val_state v \<noteq> val_state w" for v w
  proof (rule ccontr)
    assume "r \<noteq> None"
    then obtain k where "\<forall>x \<in> ?M. ?key x = Inr k"
      using unique_by_defined [OF ms(1)] unfolding ms(2) by blast
    then have "val_state v = val_state w" using that(1,2) by (rule same)
    with that(3) show False ..
  qed
  ultimately show ?thesis using rt(1) by auto
qed

theorem validation_order_irrelevant_witness:
  "\<exists>r. find_validation sample_digest (sample_scheduler [sample_validation SUPPORTED, sample_validation UNSUPPORTED]) sample_profile = Inr r
     \<and> r = None"
proof -
  let ?vals = "[sample_validation SUPPORTED, sample_validation UNSUPPORTED]"
  let ?s = "sample_scheduler ?vals"
  have ok: "scheduler_ok ?s" by (rule sample_scheduler_ok) (simp add: sample_validation_def)
  obtain r where r: "find_validation sample_digest ?s sample_profile = Inr r"
    using find_validation_total [OF ok sample_profile_ok] by blast
  have m: "validation_matches sample_digest sample_profile sample_runtime v = Inr True" if "v \<in> set ?vals" for v
    using that by (auto simp: sample_defs)
  have rt: "map_of (current_runtimes ?s) (profile_runtime_id sample_profile) = Some sample_runtime"
    and vals: "set (validations ?s) = set ?vals"
    by (simp_all add: sample_defs)
  have "val_state (sample_validation SUPPORTED) \<noteq> val_state (sample_validation UNSUPPORTED)"
    by (simp add: sample_validation_def)
  moreover have "{sample_validation SUPPORTED, sample_validation UNSUPPORTED} \<subseteq> set (validations ?s)"
    using vals by simp
  ultimately have "r = None"
    using validation_order_irrelevant [OF r r refl refl] rt m by simp
  with r show ?thesis by blast
qed

end
