(* ===== verification/Work_Contracts.thy ===== *)
theory Work_Contracts
  imports PyData
begin

text \<open>
  Engineering work contracts, \<open>long_haul/work/contracts.py\<close>: path scopes, budgets, acceptance
  predicates, the contract validator, the Flash qualification test and the acceptance decision.

  Text is a list of Latin-1 code points; \<open>strip\<close> removes the white space \<open>str.strip\<close> removes
  there. Validators return the record as they leave it or the \<open>ValueError\<close> they raise.
\<close>

section \<open>Text operations\<close>

definition is_space :: "char \<Rightarrow> bool" where
  "is_space c \<longleftrightarrow> of_char c \<in> {9, 10, 11, 12, 13, 28, 29, 30, 31, 32, 133, 160 :: nat}"

definition strip :: "string \<Rightarrow> string" where
  "strip s = rev (dropWhile is_space (rev (dropWhile is_space s)))"

definition rstrip_char :: "char \<Rightarrow> string \<Rightarrow> string" where
  "rstrip_char c s = rev (dropWhile (\<lambda>x. x = c) (rev s))"

definition replace_char :: "char \<Rightarrow> char \<Rightarrow> string \<Rightarrow> string" where
  "replace_char a b s = map (\<lambda>c. if c = a then b else c) s"

fun split_on :: "char \<Rightarrow> string \<Rightarrow> string list" where
  "split_on sep [] = [[]]"
| "split_on sep (c # s) =
     (if c = sep then [] # split_on sep s
      else case split_on sep s of [] \<Rightarrow> [[c]] | w # ws \<Rightarrow> (c # w) # ws)"

fun starts_with :: "string \<Rightarrow> string \<Rightarrow> bool" where
  "starts_with s [] = True"
| "starts_with [] (p # ps) = False"
| "starts_with (c # s) (p # ps) = (c = p \<and> starts_with s ps)"

definition is_digit :: "char \<Rightarrow> bool" where
  "is_digit c \<longleftrightarrow> 48 \<le> (of_char c :: nat) \<and> (of_char c :: nat) \<le> 57"

definition decimal :: "string \<Rightarrow> int" where
  "decimal s = fold (\<lambda>c n. 10 * n + (of_char c - 48)) s 0"

definition lower_char :: "char \<Rightarrow> char" where
  "lower_char c = (let n = of_char c :: nat in if 65 \<le> n \<and> n \<le> 90 \<or> 192 \<le> n \<and> n \<le> 222 \<and> n \<noteq> 215 then char_of (n + 32) else c)"

abbreviation slash :: char where "slash \<equiv> CHR ''/''"

text \<open>The components of a relative \<open>PurePosixPath\<close>: empty and \<open>.\<close> segments are dropped.\<close>

definition posix_parts :: "string \<Rightarrow> string list" where
  "posix_parts s = filter (\<lambda>w. w \<noteq> [] \<and> w \<noteq> ''.'') (split_on slash s)"

definition validate_scope :: "string \<Rightarrow> string result" where
  "validate_scope path = (let value = replace_char (CHR 0x5C) slash (strip path) in
     ebind (guard (\<not> (value = [] \<or> starts_with value ''/'' \<or> ''..'' \<in> set (posix_parts value)))
       (ValueError ''work scope paths must be non-empty repository-relative paths''))
       (\<lambda>_. Inr (rstrip_char slash value)))"

section \<open>Contract data\<close>

datatype predicate_kind = P_TEST | P_BUILD | P_LINT | P_STATIC_CHECK | P_ARTIFACT

datatype failure_kind = SCOPE_VIOLATION | F_TIMEOUT | MALFORMED_ACTION | F_NO_PROGRESS | RESOURCE_EXHAUSTION

datatype evidence_state = E_PASS | E_FAIL | E_UNKNOWN

datatype work_disposition = ACCEPTED | REJECTED | INCOMPLETE

fun failure_value :: "failure_kind \<Rightarrow> string" where
  "failure_value SCOPE_VIOLATION = ''scope_violation''"
| "failure_value F_TIMEOUT = ''timeout''"
| "failure_value MALFORMED_ACTION = ''malformed_action''"
| "failure_value F_NO_PROGRESS = ''no_progress''"
| "failure_value RESOURCE_EXHAUSTION = ''resource_exhaustion''"

record work_budget =
  wall_seconds :: pyfloat
  max_attempts :: int
  max_tokens_per_attempt :: "int option"
  max_no_progress :: "int option"

definition at_least_one :: "int option \<Rightarrow> bool" where
  "at_least_one v = (case v of None \<Rightarrow> True | Some n \<Rightarrow> 1 \<le> n)"

definition validate_budget :: "work_budget \<Rightarrow> work_budget result" where
  "validate_budget b =
     ebind (guard (fgt (wall_seconds b) (Fin 0)) (ValueError ''wall_seconds'')) (\<lambda>_.
     ebind (guard (1 \<le> max_attempts b) (ValueError ''max_attempts'')) (\<lambda>_.
     ebind (guard (at_least_one (max_tokens_per_attempt b)) (ValueError ''max_tokens_per_attempt'')) (\<lambda>_.
     ebind (guard (at_least_one (max_no_progress b)) (ValueError ''max_no_progress_steps'')) (\<lambda>_.
     Inr b))))"

text \<open>
  The Flash extension: every field but the memory figure is a literal type with one value
  (tier F0, runtime \<open>wasm-control\<close>, no model, one thread, no GPU, no sensors, fallback \<open>decline\<close>).
\<close>

record flash_extension =
  application_memory_mib :: "int option"

datatype capability_state = CapAvailable | CapUnavailable | CapUnknown

definition admits :: "flash_extension \<Rightarrow> capability_state \<Rightarrow> int option \<Rightarrow> bool \<Rightarrow> bool" where
  "admits x state observed initialized =
     (if state \<noteq> CapAvailable \<or> \<not> initialized then False
      else case (application_memory_mib x, observed) of
             (Some need, Some have') \<Rightarrow> need \<le> have' | _ \<Rightarrow> False)"

record acceptance_predicate =
  predicate_id :: string
  pred_kind :: predicate_kind
  pred_description :: string
  pred_command :: "string list"
  artifact_path :: "string option"

definition validate_predicate :: "acceptance_predicate \<Rightarrow> acceptance_predicate result" where
  "validate_predicate p =
     ebind (guard (predicate_id p \<noteq> [] \<and> pred_description p \<noteq> []) (ValueError ''string too short'')) (\<lambda>_.
     if pred_kind p = P_ARTIFACT then
       (case artifact_path p of
          None \<Rightarrow> Inl (ValueError ''artifact predicates require artifact_path'')
        | Some [] \<Rightarrow> Inl (ValueError ''artifact predicates require artifact_path'')
        | Some path \<Rightarrow> ebind (validate_scope path) (\<lambda>v. Inr (p\<lparr>artifact_path := Some v\<rparr>)))
     else ebind (guard (pred_command p \<noteq> []) (ValueError ''predicates require a command'')) (\<lambda>_. Inr p))"

record work_contract =
  contract_id :: string
  wc_mission_id :: string
  objective :: string
  wc_context :: string
  wc_plan_id :: "string option"
  allowed_paths :: "string list"
  forbidden_paths :: "string list"
  wc_capabilities :: "string list"
  wc_authority_scopes :: "string list"
  budget :: work_budget
  success_predicates :: "acceptance_predicate list"
  failure_predicates :: "(failure_kind \<times> (int + pyfloat) option) list"
  flash_execution :: "flash_extension option"

text \<open>The field constraints, then \<open>validate_contract\<close>.\<close>

definition validate_contract :: "work_contract \<Rightarrow> work_contract result" where
  "validate_contract c =
     ebind (guard (contract_id c \<noteq> [] \<and> wc_mission_id c \<noteq> [] \<and> objective c \<noteq> []
        \<and> allowed_paths c \<noteq> [] \<and> success_predicates c \<noteq> []) (ValueError ''too short'')) (\<lambda>_.
     ebind (validate_budget (budget c)) (\<lambda>_.
     ebind (emap validate_predicate (success_predicates c)) (\<lambda>preds.
     ebind (guard (case flash_execution c of None \<Rightarrow> True | Some x \<Rightarrow> at_least_one (application_memory_mib x))
       (ValueError ''application_memory_mib'')) (\<lambda>_.
     ebind (emap validate_scope (allowed_paths c)) (\<lambda>allowed.
     ebind (emap validate_scope (forbidden_paths c)) (\<lambda>forbidden.
     ebind (guard (distinct allowed) (ValueError ''allowed_paths must be unique'')) (\<lambda>_.
     ebind (guard (distinct forbidden) (ValueError ''forbidden_paths must be unique'')) (\<lambda>_.
     ebind (guard (distinct (map predicate_id preds)) (ValueError ''success predicate ids must be unique'')) (\<lambda>_.
     Inr (c\<lparr>success_predicates := preds, allowed_paths := allowed, forbidden_paths := forbidden\<rparr>))))))))))"

definition in_scope :: "string \<Rightarrow> string \<Rightarrow> bool" where
  "in_scope candidate scope \<longleftrightarrow> candidate = scope \<or> starts_with candidate (scope @ ''/'')"

definition permits_path :: "work_contract \<Rightarrow> string \<Rightarrow> bool result" where
  "permits_path c path =
     ebind (validate_scope path) (\<lambda>candidate.
     Inr ((\<exists>scope \<in> set (allowed_paths c). in_scope candidate scope)
        \<and> \<not> (\<exists>scope \<in> set (forbidden_paths c). in_scope candidate scope)))"

section \<open>The acceptance decision\<close>

record predicate_evidence =
  ev_predicate_id :: string
  ev_state :: evidence_state
  ev_detail_source :: string
  ev_detail :: string
  artifact_fingerprint :: "string option"

record work_evaluation =
  eval_contract_id :: string
  disposition :: work_disposition
  eval_evidence :: "predicate_evidence list"
  eval_reasons :: "string list"

fun comma_join :: "string list \<Rightarrow> string" where
  "comma_join [] = []"
| "comma_join [s] = s"
| "comma_join (s # t # ss) = s @ '', '' @ comma_join (t # ss)"

definition state_of :: "predicate_evidence list \<Rightarrow> string \<Rightarrow> evidence_state option" where
  "state_of evidence pid = map_option ev_state (map_of (dict_of (map (\<lambda>e. (ev_predicate_id e, e)) evidence)) pid)"

definition evaluate_work ::
  "work_contract \<Rightarrow> predicate_evidence list \<Rightarrow> failure_kind option \<Rightarrow> work_evaluation result" where
  "evaluate_work c evidence failure =
     ebind (guard (distinct (map ev_predicate_id evidence))
       (ValueError ''evidence predicate ids must be unique within an attempt'')) (\<lambda>_.
     let expected = map predicate_id (success_predicates c);
         verdict = (\<lambda>d rs. \<lparr>eval_contract_id = contract_id c, disposition = d,
           eval_evidence = evidence, eval_reasons = rs\<rparr>);
         failed = sorted_set (filter (\<lambda>pid. state_of evidence pid = Some E_FAIL) expected);
         missing = sorted_set (filter (\<lambda>pid. state_of evidence pid \<in> {None, Some E_UNKNOWN}) expected)
     in Inr (case failure of
          Some f \<Rightarrow> verdict REJECTED [''failure predicate triggered: '' @ failure_value f]
        | None \<Rightarrow>
            if failed \<noteq> [] then verdict REJECTED [''failed predicates: '' @ comma_join failed]
            else if missing \<noteq> [] then verdict INCOMPLETE [''unverified predicates: '' @ comma_join missing]
            else verdict ACCEPTED []))"

end
