(* ===== verification/Work_Acceptance.thy ===== *)
theory Work_Acceptance
  imports Work_Contracts "HOL-Library.Multiset" "HOL-Library.Sublist"
begin

text \<open>
  What the work contracts guarantee: acceptance needs a passing observation of every predicate and
  nothing else, collection order is irrelevant, a validated contract's scopes are relative and
  without \<open>..\<close>, and on paths in normal form \<open>permits_path\<close> is prefix inclusion of path components.
\<close>

section \<open>Splitting and joining\<close>

fun join_on :: "char \<Rightarrow> string list \<Rightarrow> string" where
  "join_on sep [] = []"
| "join_on sep [w] = w"
| "join_on sep (w # v # ws) = w @ sep # join_on sep (v # ws)"

lemma split_on_not_Nil [simp]: "split_on sep s \<noteq> []"
  by (induction s) (auto split: list.splits)

lemma join_split [simp]: "join_on sep (split_on sep s) = s"
proof (induction s)
  case (Cons c s)
  show ?case
  proof (cases "split_on sep s")
    case (Cons w ws)
    with Cons.IH show ?thesis by (cases ws) auto
  qed simp
qed simp

lemma split_append_sep: "split_on sep (a @ sep # b) = split_on sep a @ split_on sep b"
  by (induction a) (auto split: list.splits)

lemma join_append: "xs \<noteq> [] \<Longrightarrow> ys \<noteq> [] \<Longrightarrow> join_on sep (xs @ ys) = join_on sep xs @ sep # join_on sep ys"
proof (induction xs rule: join_on.induct [of _ sep])
  case (2 sep w)
  then show ?case by (cases ys) auto
qed auto

lemma starts_with_prefix: "starts_with s p \<longleftrightarrow> prefix p s"
  by (induction s p rule: starts_with.induct) auto

text \<open>The textual test is inclusion of the segment lists, whatever the two paths look like.\<close>

lemma in_scope_segments: "in_scope candidate scope \<longleftrightarrow> prefix (split_on slash scope) (split_on slash candidate)"
proof
  assume "in_scope candidate scope"
  then consider "candidate = scope" | rest where "candidate = scope @ slash # rest"
    by (auto simp: in_scope_def starts_with_prefix prefix_def)
  then show "prefix (split_on slash scope) (split_on slash candidate)"
    by cases (auto simp: split_append_sep)
next
  assume "prefix (split_on slash scope) (split_on slash candidate)"
  then obtain ws where ws: "split_on slash candidate = split_on slash scope @ ws" by (auto simp: prefix_def)
  have "candidate = join_on slash (split_on slash scope @ ws)" by (metis join_split ws)
  then show "in_scope candidate scope"
    by (cases "ws = []") (auto simp: in_scope_def starts_with_prefix prefix_def join_append)
qed

section \<open>Validated scopes\<close>

lemma split_replicate_sep: "split_on sep (a @ replicate k sep) = split_on sep a @ replicate k []"
proof (induction k arbitrary: a)
  case (Suc k)
  have "split_on sep (a @ replicate (Suc k) sep) = split_on sep a @ split_on sep (replicate k sep)"
    using split_append_sep [of sep a "replicate k sep"] by simp
  moreover have "split_on sep (replicate k sep) = replicate (Suc k) []"
    by (induction k) auto
  ultimately show ?case by simp
qed simp

lemma rstrip_split: "\<exists>k. s = rstrip_char c s @ replicate k c"
proof -
  have "takeWhile (\<lambda>x. x = c) (rev s) = replicate (length (takeWhile (\<lambda>x. x = c) (rev s))) c"
    by (rule replicate_eqI [symmetric, THEN sym]) (auto dest: set_takeWhileD)
  then have "rev s = replicate (length (takeWhile (\<lambda>x. x = c) (rev s))) c @ dropWhile (\<lambda>x. x = c) (rev s)"
    by (metis takeWhile_dropWhile_id)
  then have "s = rstrip_char c s @ replicate (length (takeWhile (\<lambda>x. x = c) (rev s))) c"
    by (metis rev_append rev_replicate rev_rev_ident rstrip_char_def)
  then show ?thesis ..
qed

lemma rstrip_last: "rstrip_char c s \<noteq> [] \<Longrightarrow> last (rstrip_char c s) \<noteq> c"
  using hd_dropWhile [of "\<lambda>x. x = c" "rev s"] by (simp add: rstrip_char_def last_rev)

definition scope_ok :: "string \<Rightarrow> bool" where
  "scope_ok v \<longleftrightarrow> v \<noteq> [] \<and> hd v \<noteq> slash \<and> last v \<noteq> slash \<and> ''..'' \<notin> set (split_on slash v) \<and> CHR 0x5C \<notin> set v"

lemma validate_scope_ok:
  assumes "validate_scope path = Inr v"
  shows "scope_ok v"
proof -
  define raw where "raw = replace_char (CHR 0x5C) slash (strip path)"
  from assms have v: "v = rstrip_char slash raw" "raw \<noteq> []" "\<not> starts_with raw ''/''"
    "''..'' \<notin> set (posix_parts raw)"
    by (auto simp: validate_scope_def Let_def raw_def)
  obtain k where k: "raw = v @ replicate k slash" using rstrip_split [of raw slash] v(1) by auto
  have hd: "hd raw \<noteq> slash" using v(2,3) by (cases raw) auto
  with k v(2) have ne: "v \<noteq> []" by (cases k) auto
  have "''..'' \<notin> set (split_on slash raw)" using v(4) by (auto simp: posix_parts_def)
  then have "''..'' \<notin> set (split_on slash v)" by (simp add: k split_replicate_sep)
  moreover have "CHR 0x5C \<notin> set raw" by (auto simp: raw_def replace_char_def)
  then have "CHR 0x5C \<notin> set v" by (simp add: k)
  moreover have "last v \<noteq> slash" unfolding v(1) by (rule rstrip_last) (use ne v(1) in simp)
  moreover have "hd v \<noteq> slash" using hd ne by (simp add: k)
  ultimately show ?thesis using ne by (simp add: scope_ok_def)
qed

lemma emap_elem: "emap f xs = Inr ys \<Longrightarrow> y \<in> set ys \<Longrightarrow> \<exists>x \<in> set xs. f x = Inr y"
  by (induction xs arbitrary: ys) auto

section \<open>Evidence\<close>

lemma state_of_iff:
  assumes "distinct (map ev_predicate_id evidence)"
  shows "state_of evidence pid = Some s \<longleftrightarrow> (\<exists>e \<in> set evidence. ev_predicate_id e = pid \<and> ev_state e = s)"
proof -
  have "dict_ok (map (\<lambda>e. (ev_predicate_id e, e)) evidence)" using assms by (simp add: dict_ok_def comp_def)
  then have "map_of (dict_of (map (\<lambda>e. (ev_predicate_id e, e)) evidence)) pid = Some e
      \<longleftrightarrow> (pid, e) \<in> set (map (\<lambda>e. (ev_predicate_id e, e)) evidence)" for e
    unfolding dict_of_self [OF \<open>dict_ok _\<close>] by (rule dict_ok_values [symmetric])
  then show ?thesis by (auto simp: state_of_def)
qed

lemma option_eqI: "(\<And>s. a = Some s \<longleftrightarrow> b = Some s) \<Longrightarrow> a = b"
  by (cases a) (metis option.exhaust, metis)

lemma state_of_perm:
  assumes "mset evidence = mset evidence'" "distinct (map ev_predicate_id evidence)"
  shows "state_of evidence = state_of evidence'"
proof
  fix pid
  have "set evidence = set evidence'" using assms(1) by (metis set_mset_mset)
  moreover have "distinct (map ev_predicate_id evidence')"
    using assms by (metis mset_eq_imp_distinct_iff mset_map)
  ultimately have "state_of evidence pid = Some s \<longleftrightarrow> state_of evidence' pid = Some s" for s
    by (simp add: state_of_iff assms(2))
  then show "state_of evidence pid = state_of evidence' pid" by (rule option_eqI)
qed

lemma sorted_set_Nil [simp]: "sorted_set xs = [] \<longleftrightarrow> xs = []"
  by (metis set_empty set_sorted_set)

section \<open>Properties\<close>

definition sample_contract :: work_contract where
  "sample_contract = \<lparr>contract_id = ''C'', wc_mission_id = ''M'', objective = ''o'', wc_context = [], wc_plan_id = None,
     allowed_paths = [''src''], forbidden_paths = [''src/secret''], wc_capabilities = [], wc_authority_scopes = [],
     budget = \<lparr>wall_seconds = Fin 60, max_attempts = 3, max_tokens_per_attempt = None, max_no_progress = None\<rparr>,
     success_predicates = [\<lparr>predicate_id = ''t1'', pred_kind = P_TEST, pred_description = ''d'',
        pred_command = [''pytest''], artifact_path = None\<rparr>,
       \<lparr>predicate_id = ''t2'', pred_kind = P_LINT, pred_description = ''d'', pred_command = [''ruff''], artifact_path = None\<rparr>],
     failure_predicates = [], flash_execution = Some \<lparr>application_memory_mib = Some 64\<rparr>\<rparr>"

definition sample_evidence :: "string \<Rightarrow> evidence_state \<Rightarrow> predicate_evidence" where
  "sample_evidence pid st = \<lparr>ev_predicate_id = pid, ev_state = st, ev_detail_source = ''ci'', ev_detail = [],
     artifact_fingerprint = None\<rparr>"

text \<open>
  C10. Work is accepted on external evidence alone. The decision raises \<open>ValueError\<close> exactly when
  two pieces of evidence name the same predicate. Otherwise it accepts if and only if no failure
  predicate triggered and every success predicate of the contract has a passing observation, rejects
  if and only if one triggered or some predicate has a failing observation, is incomplete in
  the remaining cases, keeps the evidence as given, and gives a reason unless it accepts.
\<close>

theorem evaluate_work_verdict:
  "if distinct (map ev_predicate_id evidence) then \<exists>r. evaluate_work c evidence failure = Inr r
      \<and> eval_evidence r = evidence \<and> eval_contract_id r = contract_id c
      \<and> (disposition r = ACCEPTED \<longleftrightarrow> failure = None \<and> (\<forall>p \<in> set (success_predicates c).
           \<exists>e \<in> set evidence. ev_predicate_id e = predicate_id p \<and> ev_state e = E_PASS))
      \<and> (disposition r = REJECTED \<longleftrightarrow> failure \<noteq> None \<or> (\<exists>p \<in> set (success_predicates c).
           \<exists>e \<in> set evidence. ev_predicate_id e = predicate_id p \<and> ev_state e = E_FAIL))
      \<and> (eval_reasons r = [] \<longleftrightarrow> disposition r = ACCEPTED)
    else \<exists>msg. evaluate_work c evidence failure = Inl (ValueError msg)"
proof (cases "distinct (map ev_predicate_id evidence)")
  case True
  note st = state_of_iff [OF True]
  have pass: "state_of evidence pid \<notin> {None, Some E_UNKNOWN} \<and> state_of evidence pid \<noteq> Some E_FAIL
      \<longleftrightarrow> state_of evidence pid = Some E_PASS" for pid
    by (cases "state_of evidence pid"; cases "the (state_of evidence pid)") auto
  have "(\<forall>p \<in> set (success_predicates c). state_of evidence (predicate_id p) \<noteq> Some E_FAIL)
      \<and> (\<forall>p \<in> set (success_predicates c). state_of evidence (predicate_id p) \<notin> {None, Some E_UNKNOWN})
      \<longleftrightarrow> (\<forall>p \<in> set (success_predicates c). state_of evidence (predicate_id p) = Some E_PASS)"
    using pass by blast
  then show ?thesis
    using True unfolding st [symmetric] evaluate_work_def
    by (cases failure) (auto simp: Let_def filter_empty_conv)
next
  case False
  then show ?thesis by (simp add: evaluate_work_def)
qed

theorem evaluate_work_verdict_witness:
  "\<exists>r. evaluate_work sample_contract [sample_evidence ''t2'' E_PASS, sample_evidence ''t1'' E_PASS] None = Inr r
     \<and> disposition r = ACCEPTED"
  using evaluate_work_verdict [of "[sample_evidence ''t2'' E_PASS, sample_evidence ''t1'' E_PASS]" sample_contract None]
  by (auto simp: sample_evidence_def sample_contract_def)

text \<open>
  The order in which evidence arrives is irrelevant: the decision on any rearrangement of the
  evidence is the same disposition with the same reasons, and raises exactly when the original does.
\<close>

theorem evaluate_work_order_irrelevant:
  assumes "mset evidence = mset evidence'"
  shows "map_sum id (\<lambda>r. (disposition r, eval_reasons r)) (evaluate_work c evidence failure)
    = map_sum id (\<lambda>r. (disposition r, eval_reasons r)) (evaluate_work c evidence' failure)"
proof -
  have d: "distinct (map ev_predicate_id evidence) = distinct (map ev_predicate_id evidence')"
    using assms by (metis mset_eq_imp_distinct_iff mset_map)
  show ?thesis
  proof (cases "distinct (map ev_predicate_id evidence)")
    case True
    with state_of_perm [OF assms True] d show ?thesis
      by (cases failure) (simp_all add: evaluate_work_def Let_def)
  next
    case False
    with d show ?thesis by (simp add: evaluate_work_def)
  qed
qed

theorem evaluate_work_order_irrelevant_witness:
  "map_sum id (\<lambda>r. (disposition r, eval_reasons r)) (evaluate_work sample_contract [sample_evidence ''t1'' E_PASS, sample_evidence ''t2'' E_FAIL] None)
    = map_sum id (\<lambda>r. (disposition r, eval_reasons r)) (evaluate_work sample_contract [sample_evidence ''t2'' E_FAIL, sample_evidence ''t1'' E_PASS] None)"
  by (rule evaluate_work_order_irrelevant) simp

text \<open>
  A validated contract names only repository-relative scopes: each allowed and forbidden path is
  nonempty, neither starts nor ends with a slash, contains no backslash and no \<open>..\<close> segment; the
  allowed paths, the forbidden paths and the predicate ids are each without repetition, and the
  budget allows at least one attempt in a positive time.
\<close>

theorem validated_contract_scopes:
  assumes "validate_contract c = Inr c'"
  shows "(\<forall>v \<in> set (allowed_paths c') \<union> set (forbidden_paths c'). scope_ok v) \<and> distinct (allowed_paths c')
    \<and> distinct (forbidden_paths c') \<and> distinct (map predicate_id (success_predicates c')) \<and> allowed_paths c' \<noteq> []
    \<and> 1 \<le> max_attempts (budget c') \<and> flt (Fin 0) (wall_seconds (budget c'))"
proof -
  from assms obtain preds allowed forbidden where
    emaps: "emap validate_scope (allowed_paths c) = Inr allowed" "emap validate_scope (forbidden_paths c) = Inr forbidden"
    and c': "c' = c\<lparr>success_predicates := preds, allowed_paths := allowed, forbidden_paths := forbidden\<rparr>"
    and rest: "distinct allowed" "distinct forbidden" "distinct (map predicate_id preds)" "allowed_paths c \<noteq> []"
      "1 \<le> max_attempts (budget c)" "flt (Fin 0) (wall_seconds (budget c))"
    by (auto simp: validate_contract_def validate_budget_def)
  moreover have "allowed \<noteq> []" using emaps(1) rest(4) emap_length by fastforce
  ultimately show ?thesis
    using emap_elem [OF emaps(1)] emap_elem [OF emaps(2)] by (auto simp: c' dest: validate_scope_ok)
qed

lemma sample_contract_valid: "validate_contract sample_contract = Inr sample_contract"
  by (simp add: validate_contract_def sample_contract_def validate_budget_def validate_predicate_def at_least_one_def
    validate_scope_def strip_def is_space_def replace_char_def posix_parts_def rstrip_char_def Let_def)

theorem validated_contract_scopes_witness:
  "scope_ok ''src'' \<and> scope_ok ''src/secret'' \<and> distinct (allowed_paths sample_contract)"
  using validated_contract_scopes [OF sample_contract_valid] by (simp add: sample_contract_def)

text \<open>
  On paths in normal form (no empty and no \<open>.\<close> segment) the textual path test is the intended
  one: a path is permitted exactly when the components of some allowed scope are a prefix of its
  components and those of no forbidden scope are; a sibling such as \<open>src2\<close> of \<open>src\<close> is never confused
  with a child.
\<close>

theorem permits_path_components:
  assumes "validate_scope path = Inr v"
    and "\<forall>s \<in> insert v (set (allowed_paths c) \<union> set (forbidden_paths c)). posix_parts s = split_on slash s"
  shows "permits_path c path = Inr ((\<exists>s \<in> set (allowed_paths c). prefix (posix_parts s) (posix_parts v))
    \<and> \<not> (\<exists>s \<in> set (forbidden_paths c). prefix (posix_parts s) (posix_parts v)))"
proof -
  have "in_scope v s \<longleftrightarrow> prefix (posix_parts s) (posix_parts v)"
    if "s \<in> set (allowed_paths c) \<union> set (forbidden_paths c)" for s
    using that assms(2) by (auto simp: in_scope_segments)
  with assms(1) show ?thesis by (auto simp: permits_path_def)
qed

lemmas scope_simps = validate_scope_def strip_def is_space_def replace_char_def posix_parts_def rstrip_char_def
  Let_def permits_path_def in_scope_def

theorem permits_path_components_witness:
  "permits_path sample_contract ''src/a.py'' = Inr True \<and> permits_path sample_contract ''src2/a.py'' = Inr False
     \<and> permits_path sample_contract ''src/secret/k'' = Inr False"
proof -
  have v: "validate_scope ''src/a.py'' = Inr ''src/a.py''" "validate_scope ''src2/a.py'' = Inr ''src2/a.py''"
    "validate_scope ''src/secret/k'' = Inr ''src/secret/k''"
    by (simp_all add: scope_simps)
  show ?thesis
    using permits_path_components [OF v(1), of sample_contract] permits_path_components [OF v(2), of sample_contract]
      permits_path_components [OF v(3), of sample_contract]
    by (simp add: sample_contract_def posix_parts_def)
qed

text \<open>
  Outside normal form the test can be evaded: \<open>permits_path\<close> accepts \<open>src/./secret/key\<close> under a
  contract that allows \<open>src\<close> and forbids \<open>src/secret\<close>, although the path has the same components as
  \<open>src/secret/key\<close>, which it refuses.
\<close>

theorem permits_path_dot_segment:
  "validate_contract sample_contract = Inr sample_contract
    \<and> permits_path sample_contract ''src/secret/key'' = Inr False
    \<and> permits_path sample_contract ''src/./secret/key'' = Inr True
    \<and> posix_parts ''src/./secret/key'' = posix_parts ''src/secret/key''"
  using sample_contract_valid by (simp add: scope_simps) (simp add: sample_contract_def)

end
