(* ===== verification/Work_Evaluator.thy ===== *)
theory Work_Evaluator
  imports Work_Acceptance
begin

text \<open>
  Read-only evaluation bound to exact artifacts, \<open>long_haul/work/evaluator.py\<close>.

  The evaluation target is a parameter: its fingerprint, \<open>run_check i command\<close> for the check run on
  behalf of predicate number \<open>i\<close>, and \<open>inspect i path\<close>, which succeeds, is refused with a
  \<open>FileNotFoundError\<close> or \<open>PermissionError\<close> (whose text becomes the detail), or raises another
  exception, which escapes the runner.
\<close>

section \<open>Evidence packets\<close>

record candidate_artifact =
  cand_fingerprint :: string
  cand_reference :: string

record evaluator_identity =
  evaluator_id :: string
  evaluator_version :: string
  evaluator_runtime :: string

record check_record =
  check_predicate_id :: string
  check_command :: "string list"
  check_state :: evidence_state
  check_detail :: string

record evidence_packet =
  packet_id :: string
  pk_contract_id :: string
  pk_attempt_id :: string
  pk_candidate :: candidate_artifact
  pk_evaluator :: evaluator_identity
  checks :: "check_record list"
  verified :: "string list"
  unresolved :: "string list"
  regressions :: "string list"

definition unique_checks :: "evidence_packet \<Rightarrow> evidence_packet result" where
  "unique_checks pk =
     ebind (guard (distinct (map check_predicate_id (checks pk)))
       (ValueError ''evidence predicate ids must be unique within an attempt'')) (\<lambda>_. Inr pk)"

text \<open>The nonempty fields, then \<open>unique_checks\<close>.\<close>

definition validate_packet :: "evidence_packet \<Rightarrow> evidence_packet result" where
  "validate_packet pk =
     ebind (guard (packet_id pk \<noteq> [] \<and> pk_contract_id pk \<noteq> [] \<and> pk_attempt_id pk \<noteq> []
        \<and> cand_fingerprint (pk_candidate pk) \<noteq> [] \<and> cand_reference (pk_candidate pk) \<noteq> []
        \<and> evaluator_id (pk_evaluator pk) \<noteq> [] \<and> evaluator_version (pk_evaluator pk) \<noteq> []
        \<and> evaluator_runtime (pk_evaluator pk) \<noteq> []
        \<and> (\<forall>ck \<in> set (checks pk). check_predicate_id ck \<noteq> [])) (ValueError ''too short'')) (\<lambda>_.
     unique_checks pk)"

definition packet_evidence :: "evidence_packet \<Rightarrow> predicate_evidence list" where
  "packet_evidence pk = map (\<lambda>ck. \<lparr>ev_predicate_id = check_predicate_id ck, ev_state = check_state ck,
     ev_detail_source = ''evidence:'' @ packet_id pk, ev_detail = check_detail ck,
     artifact_fingerprint = Some (cand_fingerprint (pk_candidate pk))\<rparr>) (checks pk)"

definition evaluate_packet :: "work_contract \<Rightarrow> evidence_packet \<Rightarrow> string \<Rightarrow> work_evaluation result" where
  "evaluate_packet c pk fingerprint =
     ebind (unique_checks pk) (\<lambda>_.
     ebind (guard (pk_contract_id pk = contract_id c)
       (ValueError ''evidence packet belongs to a different work contract'')) (\<lambda>_.
     if cand_fingerprint (pk_candidate pk) \<noteq> fingerprint
     then Inr \<lparr>eval_contract_id = contract_id c, disposition = INCOMPLETE,
            eval_evidence = packet_evidence pk,
            eval_reasons = [''stale evidence: candidate fingerprint changed'']\<rparr>
     else evaluate_work c (packet_evidence pk) None))"

definition reopen_regressions :: "evidence_packet \<Rightarrow> evidence_packet \<Rightarrow> evidence_packet" where
  "reopen_regressions previous current =
     (let previous_pass = map check_predicate_id (filter (\<lambda>ck. check_state ck = E_PASS) (checks previous));
          current_fail = map check_predicate_id (filter (\<lambda>ck. check_state ck = E_FAIL) (checks current))
      in current\<lparr>regressions := sorted_set (filter (\<lambda>pid. pid \<in> set current_fail) previous_pass)\<rparr>)"

section \<open>The runner\<close>

datatype inspection = Inspected | Refused string | Raised exn

record target =
  fingerprint :: string
  run_check :: "nat \<Rightarrow> string list \<Rightarrow> (evidence_state \<times> string) result"
  inspect :: "nat \<Rightarrow> string \<Rightarrow> inspection"

definition check_predicate :: "target \<Rightarrow> nat \<Rightarrow> acceptance_predicate \<Rightarrow> check_record result" where
  "check_predicate t i p =
     ebind (if pred_command p \<noteq> [] then run_check t i (pred_command p)
            else case artifact_path p of
                None \<Rightarrow> Inr (E_UNKNOWN, ''predicate has no evaluator action'')
              | Some [] \<Rightarrow> Inr (E_UNKNOWN, ''predicate has no evaluator action'')
              | Some path \<Rightarrow> (case inspect t i path of
                    Inspected \<Rightarrow> Inr (E_PASS, ''artifact present and inspectable'')
                  | Refused msg \<Rightarrow> Inr (E_FAIL, msg)
                  | Raised e \<Rightarrow> Inl e)) (\<lambda>(state, detail).
     ebind (guard (predicate_id p \<noteq> []) (ValueError ''predicate_id'')) (\<lambda>_.
     Inr \<lparr>check_predicate_id = predicate_id p, check_command = pred_command p, check_state = state,
          check_detail = detail\<rparr>))"

fun check_all :: "target \<Rightarrow> nat \<Rightarrow> acceptance_predicate list \<Rightarrow> check_record list result" where
  "check_all t i [] = Inr []"
| "check_all t i (p # ps) =
     ebind (check_predicate t i p) (\<lambda>ck. ebind (check_all t (Suc i) ps) (\<lambda>cks. Inr (ck # cks)))"

definition run_evaluation ::
  "target \<Rightarrow> evaluator_identity \<Rightarrow> work_contract \<Rightarrow> string \<Rightarrow> string \<Rightarrow> string
     \<Rightarrow> (evidence_packet \<times> work_evaluation) result" where
  "run_evaluation t who c attempt_id pkid reference =
     ebind (check_all t 0 (success_predicates c)) (\<lambda>cks.
     ebind (validate_packet \<lparr>packet_id = pkid, pk_contract_id = contract_id c, pk_attempt_id = attempt_id,
         pk_candidate = \<lparr>cand_fingerprint = fingerprint t, cand_reference = reference\<rparr>,
         pk_evaluator = who, checks = cks,
         verified = map check_predicate_id (filter (\<lambda>ck. check_state ck = E_PASS) cks),
         unresolved = map check_predicate_id (filter (\<lambda>ck. check_state ck = E_UNKNOWN) cks),
         regressions = []\<rparr>) (\<lambda>pk.
     ebind (evaluate_packet c pk (fingerprint t)) (\<lambda>r. Inr (pk, r))))"

section \<open>Lemmas\<close>

lemma packet_evidence_ids: "map ev_predicate_id (packet_evidence pk) = map check_predicate_id (checks pk)"
  by (simp add: packet_evidence_def)

lemma ex_packet_evidence:
  "(\<exists>e \<in> set (packet_evidence pk). ev_predicate_id e = pid \<and> ev_state e = st)
     \<longleftrightarrow> (\<exists>ck \<in> set (checks pk). check_predicate_id ck = pid \<and> check_state ck = st)"
  by (simp add: packet_evidence_def)

lemma evaluate_work_accepted:
  assumes "evaluate_work c evidence None = Inr r"
  shows "distinct (map ev_predicate_id evidence)"
    "disposition r = ACCEPTED \<longleftrightarrow> (\<forall>p \<in> set (success_predicates c).
       \<exists>e \<in> set evidence. ev_predicate_id e = predicate_id p \<and> ev_state e = E_PASS)"
proof -
  show d: "distinct (map ev_predicate_id evidence)" using assms by (simp add: evaluate_work_def)
  have pass: "state_of evidence pid \<notin> {None, Some E_UNKNOWN} \<and> state_of evidence pid \<noteq> Some E_FAIL
      \<longleftrightarrow> state_of evidence pid = Some E_PASS" for pid
    by (cases "state_of evidence pid"; cases "the (state_of evidence pid)") auto
  have "disposition r = ACCEPTED \<longleftrightarrow> (\<forall>p \<in> set (success_predicates c). state_of evidence (predicate_id p) = Some E_PASS)"
    using assms unfolding pass [symmetric] by (auto simp: evaluate_work_def Let_def filter_empty_conv split: if_splits)
  then show "disposition r = ACCEPTED \<longleftrightarrow> (\<forall>p \<in> set (success_predicates c).
       \<exists>e \<in> set evidence. ev_predicate_id e = predicate_id p \<and> ev_state e = E_PASS)"
    by (simp add: state_of_iff [OF d])
qed

lemma check_all_length: "check_all t i ps = Inr cks \<Longrightarrow> map check_predicate_id cks = map predicate_id ps"
  by (induction ps arbitrary: i cks) (auto simp: check_predicate_def split: prod.splits)

lemma check_all_nth:
  "check_all t i ps = Inr cks \<Longrightarrow> k < length ps \<Longrightarrow> check_predicate t (i + k) (ps ! k) = Inr (cks ! k) \<and> length cks = length ps"
proof (induction ps arbitrary: i cks k)
  case (Cons p ps)
  then obtain ck cks' where "check_predicate t i p = Inr ck" "check_all t (Suc i) ps = Inr cks'" "cks = ck # cks'"
    by auto
  with Cons.IH [of "Suc i" cks' "k - 1"] Cons.prems show ?case
    by (cases k) (auto dest: check_all_length [THEN map_eq_imp_length_eq])
qed simp

lemma evaluate_packet_Inr:
  assumes "evaluate_packet c pk fp = Inr r"
  shows "pk_contract_id pk = contract_id c" "distinct (map check_predicate_id (checks pk))"
    "disposition r = ACCEPTED \<longleftrightarrow> cand_fingerprint (pk_candidate pk) = fp \<and> (\<forall>p \<in> set (success_predicates c).
       \<exists>ck \<in> set (checks pk). check_predicate_id ck = predicate_id p \<and> check_state ck = E_PASS)"
proof -
  show "pk_contract_id pk = contract_id c" "distinct (map check_predicate_id (checks pk))"
    using assms by (auto simp: evaluate_packet_def unique_checks_def)
  show "disposition r = ACCEPTED \<longleftrightarrow> cand_fingerprint (pk_candidate pk) = fp \<and> (\<forall>p \<in> set (success_predicates c).
       \<exists>ck \<in> set (checks pk). check_predicate_id ck = predicate_id p \<and> check_state ck = E_PASS)"
  proof (cases "cand_fingerprint (pk_candidate pk) = fp")
    case True
    with assms have "evaluate_work c (packet_evidence pk) None = Inr r" by (auto simp: evaluate_packet_def)
    from evaluate_work_accepted(2) [OF this] True show ?thesis by (simp add: ex_packet_evidence)
  next
    case False
    with assms show ?thesis by (auto simp: evaluate_packet_def)
  qed
qed

section \<open>Properties\<close>

definition sample_target :: "(string list \<Rightarrow> evidence_state) \<Rightarrow> target" where
  "sample_target outcome = \<lparr>fingerprint = ''sha'', run_check = (\<lambda>i cmd. Inr (outcome cmd, [])),
     inspect = (\<lambda>i path. Refused ''missing'')\<rparr>"

definition sample_evaluator :: evaluator_identity where
  "sample_evaluator = \<lparr>evaluator_id = ''e'', evaluator_version = ''1'', evaluator_runtime = ''py''\<rparr>"

text \<open>
  Acceptance is bound to one artifact. A packet is accepted only when it belongs to the contract,
  its candidate fingerprint is the one asked about, and it holds exactly one check for each
  predicate id it mentions with a passing check for every success predicate; a packet for any other
  fingerprint is never accepted.
\<close>

theorem packet_acceptance_bound:
  assumes "evaluate_packet c pk fp = Inr r"
  shows "pk_contract_id pk = contract_id c \<and> distinct (map check_predicate_id (checks pk))
    \<and> (disposition r = ACCEPTED \<longleftrightarrow> cand_fingerprint (pk_candidate pk) = fp \<and> (\<forall>p \<in> set (success_predicates c).
       \<exists>ck \<in> set (checks pk). check_predicate_id ck = predicate_id p \<and> check_state ck = E_PASS))
    \<and> (cand_fingerprint (pk_candidate pk) \<noteq> fp \<longrightarrow> disposition r = INCOMPLETE)"
proof -
  have "cand_fingerprint (pk_candidate pk) \<noteq> fp \<longrightarrow> disposition r = INCOMPLETE"
    using assms by (auto simp: evaluate_packet_def)
  with evaluate_packet_Inr [OF assms] show ?thesis by blast
qed

definition sample_packet :: evidence_packet where
  "sample_packet = \<lparr>packet_id = ''p'', pk_contract_id = ''C'', pk_attempt_id = ''a'',
     pk_candidate = \<lparr>cand_fingerprint = ''sha'', cand_reference = ''ref''\<rparr>, pk_evaluator = sample_evaluator,
     checks = [\<lparr>check_predicate_id = ''t1'', check_command = [], check_state = E_PASS, check_detail = []\<rparr>,
       \<lparr>check_predicate_id = ''t2'', check_command = [], check_state = E_PASS, check_detail = []\<rparr>],
     verified = [], unresolved = [], regressions = []\<rparr>"

theorem packet_acceptance_bound_witness:
  "(\<exists>r. evaluate_packet sample_contract sample_packet ''sha'' = Inr r \<and> disposition r = ACCEPTED)
    \<and> (\<exists>r. evaluate_packet sample_contract sample_packet ''other'' = Inr r \<and> disposition r = INCOMPLETE)"
proof -
  have "\<exists>r. evaluate_packet sample_contract sample_packet fp = Inr r" for fp
    by (simp add: evaluate_packet_def unique_checks_def sample_packet_def sample_contract_def
      packet_evidence_def evaluate_work_def)
  then obtain r r' where r: "evaluate_packet sample_contract sample_packet ''sha'' = Inr r"
      "evaluate_packet sample_contract sample_packet ''other'' = Inr r'" by blast
  with packet_acceptance_bound [OF r(1)] packet_acceptance_bound [OF r(2)] show ?thesis
    by (auto simp: sample_packet_def sample_contract_def)
qed

text \<open>
  The runner's verdict is the checks' verdict. When an evaluation completes, the packet carries the
  target's fingerprint and one check per success predicate in order, its verified and unresolved
  lists are the passing and the unknown checks, and the work is accepted exactly when the check run
  for every predicate passed.
\<close>

theorem run_evaluation_accepts_iff:
  assumes "run_evaluation t who c attempt pkid reference = Inr (pk, r)"
  shows "cand_fingerprint (pk_candidate pk) = fingerprint t
    \<and> map check_predicate_id (checks pk) = map predicate_id (success_predicates c)
    \<and> (disposition r = ACCEPTED \<longleftrightarrow> (\<forall>k < length (success_predicates c). \<exists>ck.
         check_predicate t k (success_predicates c ! k) = Inr ck \<and> check_state ck = E_PASS))
    \<and> set (verified pk) = {check_predicate_id ck |ck. ck \<in> set (checks pk) \<and> check_state ck = E_PASS}
    \<and> set (unresolved pk) = {check_predicate_id ck |ck. ck \<in> set (checks pk) \<and> check_state ck = E_UNKNOWN}"
proof -
  from assms obtain cks where cks: "check_all t 0 (success_predicates c) = Inr cks"
    and r: "evaluate_packet c pk (fingerprint t) = Inr r"
    and pk: "checks pk = cks" "cand_fingerprint (pk_candidate pk) = fingerprint t"
      "verified pk = map check_predicate_id (filter (\<lambda>ck. check_state ck = E_PASS) cks)"
      "unresolved pk = map check_predicate_id (filter (\<lambda>ck. check_state ck = E_UNKNOWN) cks)"
    by (auto simp: run_evaluation_def validate_packet_def unique_checks_def)
  have ids: "map check_predicate_id cks = map predicate_id (success_predicates c)"
    by (rule check_all_length [OF cks])
  then have len: "length cks = length (success_predicates c)" by (rule map_eq_imp_length_eq)
  have nth: "check_predicate t k (success_predicates c ! k) = Inr (cks ! k)" if "k < length (success_predicates c)" for k
    using check_all_nth [OF cks that] by simp
  have id: "check_predicate_id (cks ! k) = predicate_id (success_predicates c ! k)" if "k < length cks" for k
    using arg_cong [OF ids, of "\<lambda>xs. xs ! k"] that len by simp
  have dist: "distinct (map check_predicate_id cks)" using evaluate_packet_Inr(2) [OF r] by (simp add: pk)
  have "disposition r = ACCEPTED \<longleftrightarrow> (\<forall>k < length cks. check_state (cks ! k) = E_PASS)"
    unfolding evaluate_packet_Inr(3) [OF r] pk
  proof safe
    fix k assume k: "k < length cks" and all: "\<forall>p \<in> set (success_predicates c).
        \<exists>ck \<in> set cks. check_predicate_id ck = predicate_id p \<and> check_state ck = E_PASS"
    from k len have "success_predicates c ! k \<in> set (success_predicates c)" by simp
    with all obtain j where j: "j < length cks" "check_predicate_id (cks ! j) = predicate_id (success_predicates c ! k)"
        "check_state (cks ! j) = E_PASS"
      by (metis in_set_conv_nth)
    with k id [OF k] dist have "j = k" by (auto simp: distinct_conv_nth) metis
    with j(3) show "check_state (cks ! k) = E_PASS" by simp
  next
    fix p assume "\<forall>k < length cks. check_state (cks ! k) = E_PASS" "p \<in> set (success_predicates c)"
    then show "\<exists>ck \<in> set cks. check_predicate_id ck = predicate_id p \<and> check_state ck = E_PASS"
      using len id by (metis in_set_conv_nth)
  qed
  with pk ids nth len show ?thesis by auto
qed

theorem run_evaluation_accepts_iff_witness:
  "\<exists>pk r. run_evaluation (sample_target (\<lambda>_. E_PASS)) sample_evaluator sample_contract ''a'' ''p'' ''ref'' = Inr (pk, r)
     \<and> disposition r = ACCEPTED"
proof -
  have "\<exists>pk r. run_evaluation (sample_target (\<lambda>_. E_PASS)) sample_evaluator sample_contract ''a'' ''p'' ''ref'' = Inr (pk, r)"
    by (simp add: run_evaluation_def sample_target_def sample_contract_def check_predicate_def validate_packet_def
      unique_checks_def sample_evaluator_def evaluate_packet_def packet_evidence_def evaluate_work_def)
  then obtain pk r where r: "run_evaluation (sample_target (\<lambda>_. E_PASS)) sample_evaluator sample_contract ''a'' ''p'' ''ref'' = Inr (pk, r)"
    by blast
  have "\<exists>ck. check_predicate (sample_target (\<lambda>_. E_PASS)) k (success_predicates sample_contract ! k) = Inr ck \<and> check_state ck = E_PASS"
    if "k < length (success_predicates sample_contract)" for k
    using that by (auto simp: sample_contract_def check_predicate_def sample_target_def less_Suc_eq)
  with run_evaluation_accepts_iff [OF r] r show ?thesis by blast
qed

end
