(* ===== verification/Flash_Delivery.thy ===== *)
theory Flash_Delivery
  imports Work_Contracts
begin

text \<open>
  The in-memory Flash delivery contract, \<open>long_haul/work/flash_delivery.py\<close>.

  \<open>fixture\<close> is the object's state with two counters the code does not keep: how often the clock was
  read and how many ids were made. The injected collaborators are the fields of \<open>env\<close>: \<open>clock i\<close> is
  the i-th reading, \<open>id_factory i label\<close> the i-th id, and \<open>verifier\<close> takes the contract, the
  normalized result and the state it finds, and returns the state it leaves (it may call back) with
  its verdict or an exception. Each method returns the new state and its value or exception.
\<close>

section \<open>State and collaborators\<close>

record delivery =
  d_job_id :: string
  d_contract_id :: string
  d_attempt_id :: string
  d_lease_id :: string
  d_expires_at :: pyfloat

record fixture =
  fx_job_id :: string
  fx_contract :: work_contract
  lease_seconds :: pyfloat
  started_at :: pyfloat
  attempt_number :: nat
  current :: "delivery option"
  accepted_result :: "pyval option"
  completed :: bool
  ticks :: nat
  ids_made :: nat

record env =
  clock :: "nat \<Rightarrow> pyfloat"
  id_factory :: "nat \<Rightarrow> string \<Rightarrow> string"
  verifier :: "work_contract \<Rightarrow> pyval \<Rightarrow> fixture \<Rightarrow> fixture \<times> bool result"

definition read_clock :: "env \<Rightarrow> fixture \<Rightarrow> pyfloat \<times> fixture" where
  "read_clock e s = (clock e (ticks s), s\<lparr>ticks := Suc (ticks s)\<rparr>)"

definition make_id :: "env \<Rightarrow> string \<Rightarrow> fixture \<Rightarrow> string \<times> fixture" where
  "make_id e label s = (id_factory e (ids_made s) label, s\<lparr>ids_made := Suc (ids_made s)\<rparr>)"

definition make_fixture :: "env \<Rightarrow> string \<Rightarrow> work_contract \<Rightarrow> pyfloat \<Rightarrow> fixture result" where
  "make_fixture e job c lease =
     ebind (guard (\<not> fle lease (Fin 0)) (ValueError ''lease_seconds must be positive'')) (\<lambda>_.
     Inr \<lparr>fx_job_id = job, fx_contract = c, lease_seconds = lease, started_at = clock e 0, attempt_number = 0,
          current = None, accepted_result = None, completed = False, ticks = 1, ids_made = 0\<rparr>)"

definition completed_result :: "fixture \<Rightarrow> pyval option" where
  "completed_result s = map_option json_loads (accepted_result s)"

definition deadline :: "fixture \<Rightarrow> pyfloat" where
  "deadline s = fadd (started_at s) (wall_seconds (budget (fx_contract s)))"

section \<open>Operations\<close>

text \<open>The delivery a claim hands out, after the attempt number is advanced.\<close>

definition grant :: "env \<Rightarrow> fixture \<Rightarrow> fixture \<times> delivery" where
  "grant e s =
     (let s1 = s\<lparr>attempt_number := Suc (attempt_number s)\<rparr>;
          (now, s2) = read_clock e s1;
          (aid, s3) = make_id e (''attempt-'' @ nat_str (attempt_number s1)) s2;
          (lid, s4) = make_id e (''lease-'' @ nat_str (attempt_number s1)) s3;
          d = \<lparr>d_job_id = fx_job_id s, d_contract_id = contract_id (fx_contract s), d_attempt_id = aid,
               d_lease_id = lid, d_expires_at = fmin (fadd now (lease_seconds s)) (deadline s)\<rparr>
      in (s4\<lparr>current := Some d\<rparr>, d))"

text \<open>Whether the current delivery, if any, is unexpired; the clock is read only for that.\<close>

definition lease_live :: "env \<Rightarrow> fixture \<Rightarrow> bool \<times> fixture" where
  "lease_live e s = (case current s of
       None \<Rightarrow> (False, s)
     | Some d \<Rightarrow> (let (t, s') = read_clock e s in (flt t (d_expires_at d), s')))"

definition claim :: "env \<Rightarrow> fixture \<Rightarrow> fixture \<times> delivery option" where
  "claim e s =
     (if completed s then (s, None)
      else let (t, s1) = read_clock e s in
        if fge t (deadline s1) then (s1, None)
        else if max_attempts (budget (fx_contract s1)) \<le> int (attempt_number s1) then (s1, None)
        else let (live, s2) = lease_live e s1 in
          if live then (s2, None)
          else let (s3, d) = grant e s2 in (s3, Some d))"

definition require_current :: "env \<Rightarrow> string \<Rightarrow> fixture \<Rightarrow> fixture \<times> delivery result" where
  "require_current e lid s =
     (if completed s then (s, Inl (LeaseError ''job is already completed''))
      else case current s of
        None \<Rightarrow> (s, Inl (LeaseError ''stale or unknown lease''))
      | Some d \<Rightarrow>
          if d_lease_id d \<noteq> lid then (s, Inl (LeaseError ''stale or unknown lease''))
          else let (t, s1) = read_clock e s in
            if fge t (d_expires_at d) then (s1, Inl (LeaseError ''lease expired'')) else (s1, Inr d))"

definition renew :: "env \<Rightarrow> string \<Rightarrow> fixture \<Rightarrow> fixture \<times> delivery result" where
  "renew e lid s = (case require_current e lid s of
       (s1, Inl x) \<Rightarrow> (s1, Inl x)
     | (s1, Inr d) \<Rightarrow>
         let (now, s2) = read_clock e s1;
             d' = d\<lparr>d_expires_at := fmin (fadd now (lease_seconds s2)) (deadline s2)\<rparr>
         in (s2\<lparr>current := Some d'\<rparr>, Inr d'))"

definition abandon :: "env \<Rightarrow> string \<Rightarrow> fixture \<Rightarrow> fixture \<times> unit result" where
  "abandon e lid s = (case require_current e lid s of
       (s1, Inl x) \<Rightarrow> (s1, Inl x)
     | (s1, Inr d) \<Rightarrow> (s1\<lparr>current := None\<rparr>, Inr ()))"

definition complete :: "env \<Rightarrow> string \<Rightarrow> pyval \<Rightarrow> fixture \<Rightarrow> fixture \<times> pyval option result" where
  "complete e lid result s = (case json_dumps result of
       Inl _ \<Rightarrow> (s, Inl (VerificationError ''result must be finite JSON data''))
     | Inr result_json \<Rightarrow>
         if completed s then
           (if (case current s of None \<Rightarrow> False | Some d \<Rightarrow> d_lease_id d = lid) \<and> accepted_result s = Some result_json
            then (s, Inr (completed_result s))
            else (s, Inl (LeaseError ''job is already completed by another or differing result'')))
         else (case require_current e lid s of
             (s1, Inl x) \<Rightarrow> (s1, Inl x)
           | (s1, Inr _) \<Rightarrow> (case verifier e (fx_contract s1) (json_loads result_json) s1 of
               (s2, Inl x) \<Rightarrow> (s2, Inl x)
             | (s2, Inr ok) \<Rightarrow>
                 if \<not> ok then (s2, Inl (VerificationError ''trusted verifier rejected result''))
                 else (case require_current e lid s2 of
                     (s3, Inl x) \<Rightarrow> (s3, Inl x)
                   | (s3, Inr _) \<Rightarrow>
                       let s4 = s3\<lparr>accepted_result := Some result_json, completed := True\<rparr>
                       in (s4, Inr (completed_result s4))))))"

section \<open>Sequences of operations\<close>

datatype flash_op = FClaim | FRenew string | FAbandon string | FComplete string pyval

fun flash_exec :: "env \<Rightarrow> flash_op \<Rightarrow> fixture \<Rightarrow> fixture" where
  "flash_exec e FClaim s = fst (claim e s)"
| "flash_exec e (FRenew lid) s = fst (renew e lid s)"
| "flash_exec e (FAbandon lid) s = fst (abandon e lid s)"
| "flash_exec e (FComplete lid r) s = fst (complete e lid r s)"

section \<open>Invariant and history relation\<close>

text \<open>
  Two states of one job. The job's terms are fixed, counters grow, and a completed job is frozen.
\<close>

definition frozen :: "fixture \<Rightarrow> fixture \<Rightarrow> bool" where
  "frozen s s' \<longleftrightarrow> fx_job_id s' = fx_job_id s \<and> fx_contract s' = fx_contract s
     \<and> lease_seconds s' = lease_seconds s \<and> started_at s' = started_at s
     \<and> attempt_number s \<le> attempt_number s' \<and> ticks s \<le> ticks s' \<and> ids_made s \<le> ids_made s'
     \<and> (completed s \<longrightarrow> completed s' \<and> accepted_result s' = accepted_result s \<and> current s' = current s
          \<and> attempt_number s' = attempt_number s)"

definition delivery_ok :: "env \<Rightarrow> fixture \<Rightarrow> delivery \<Rightarrow> bool" where
  "delivery_ok e s d \<longleftrightarrow> d_job_id d = fx_job_id s \<and> d_contract_id d = contract_id (fx_contract s)
     \<and> fle (d_expires_at d) (deadline s) \<and> 2 \<le> ids_made s
     \<and> (\<exists>label. d_lease_id d = id_factory e (ids_made s - 1) label)"

definition terms_ok :: "fixture \<Rightarrow> bool" where
  "terms_ok s \<longleftrightarrow> validate_budget (budget (fx_contract s)) = Inr (budget (fx_contract s))
     \<and> flt (Fin 0) (lease_seconds s) \<and> isfinite (started_at s)"

definition flash_inv :: "env \<Rightarrow> fixture \<Rightarrow> bool" where
  "flash_inv e s \<longleftrightarrow> terms_ok s \<and> int (attempt_number s) \<le> max_attempts (budget (fx_contract s))
     \<and> (\<forall>d. current s = Some d \<longrightarrow> delivery_ok e s d)
     \<and> (completed s \<longleftrightarrow> accepted_result s \<noteq> None) \<and> (completed s \<longrightarrow> current s \<noteq> None)"

text \<open>
  The clock is finite, and a verifier that calls back leaves a state the operations could have left.
\<close>

definition env_ok :: "env \<Rightarrow> bool" where
  "env_ok e \<longleftrightarrow> (\<forall>i. isfinite (clock e i))
     \<and> (\<forall>c r s. flash_inv e s \<longrightarrow> flash_inv e (fst (verifier e c r s)) \<and> frozen s (fst (verifier e c r s)))"

lemma frozen_refl [simp]: "frozen s s"
  by (simp add: frozen_def)

lemma frozen_trans: "frozen s t \<Longrightarrow> frozen t u \<Longrightarrow> frozen s u"
  unfolding frozen_def by fastforce

lemma isfinite_cases: "isfinite x \<longleftrightarrow> (\<exists>q. x = Fin q)"
  by (cases x) auto

lemma fadd_not_NaN: "isfinite a \<Longrightarrow> flt (Fin 0) b \<Longrightarrow> fadd a b \<noteq> NaN"
  by (cases a; cases b) auto

lemma terms_ok_deadline: "terms_ok s \<Longrightarrow> deadline s \<noteq> NaN"
  by (auto simp: terms_ok_def validate_budget_def deadline_def fadd_not_NaN)

lemma expiry_le_deadline:
  "terms_ok s \<Longrightarrow> isfinite now \<Longrightarrow> fle (fmin (fadd now (lease_seconds s)) (deadline s)) (deadline s)"
  using fmin_fle [of "fadd now (lease_seconds s)" "deadline s"] terms_ok_deadline [of s]
  by (simp add: terms_ok_def fadd_not_NaN)

end
