(* ===== verification/Flash_Safety.thy ===== *)
theory Flash_Safety
  imports Flash_Delivery
begin

text \<open>
  Safety of the in-memory delivery: attempts stay within the budget, every lease ends by the
  deadline, a superseded lease is dead for good, and acceptance happens once, under a live lease and
  a passing verdict, after which nothing changes.
\<close>

section \<open>The operations keep the invariant and the history\<close>

definition good_step :: "env \<Rightarrow> fixture \<Rightarrow> fixture \<Rightarrow> bool" where
  "good_step e s s' \<longleftrightarrow> flash_inv e s' \<and> frozen s s'"

lemma good_refl: "flash_inv e s \<Longrightarrow> good_step e s s"
  by (simp add: good_step_def)

lemma good_trans: "good_step e s t \<Longrightarrow> good_step e t u \<Longrightarrow> good_step e s u"
  by (auto simp: good_step_def intro: frozen_trans)

lemma flash_inv_ticks: "flash_inv e (s\<lparr>ticks := n\<rparr>) = flash_inv e s"
  by (simp add: flash_inv_def terms_ok_def delivery_ok_def deadline_def)

lemma read_clock_good: "flash_inv e s \<Longrightarrow> good_step e s (snd (read_clock e s))"
  by (simp add: good_step_def read_clock_def flash_inv_ticks frozen_def)

lemma read_clock_finite: "env_ok e \<Longrightarrow> isfinite (fst (read_clock e s))"
  by (simp add: env_ok_def read_clock_def)

lemma grant_good:
  assumes "env_ok e" "flash_inv e s" "\<not> completed s" "int (attempt_number s) < max_attempts (budget (fx_contract s))"
  shows "good_step e s (fst (grant e s))"
proof -
  have t: "terms_ok s" using assms(2) by (simp add: flash_inv_def)
  have now: "isfinite (clock e (ticks s))" using assms(1) by (simp add: env_ok_def)
  from expiry_le_deadline [OF t now] assms show ?thesis
    by (auto simp: good_step_def grant_def read_clock_def make_id_def Let_def flash_inv_def terms_ok_def
      delivery_ok_def deadline_def frozen_def)
qed

lemma lease_live_good: "flash_inv e s \<Longrightarrow> good_step e s (snd (lease_live e s))"
  using read_clock_good [of e s] by (auto simp: lease_live_def good_refl split: option.splits prod.splits)

lemma lease_live_frame: "fx_contract (snd (lease_live e s)) = fx_contract s"
  "attempt_number (snd (lease_live e s)) = attempt_number s" "completed (snd (lease_live e s)) = completed s"
  "current (snd (lease_live e s)) = current s" "ids_made (snd (lease_live e s)) = ids_made s"
  by (auto simp: lease_live_def read_clock_def Let_def split: option.splits)

lemma claim_eq:
  "claim e s = (if completed s then (s, None) else
     let s1 = snd (read_clock e s); s2 = snd (lease_live e s1) in
     if fge (clock e (ticks s)) (deadline s) \<or> max_attempts (budget (fx_contract s)) \<le> int (attempt_number s) then (s1, None)
     else if fst (lease_live e s1) then (s2, None)
     else (fst (grant e s2), Some (snd (grant e s2))))"
  by (simp add: claim_def read_clock_def case_prod_beta deadline_def Let_def)

text \<open>The ways a claim ends.\<close>

lemma claim_cases:
  obtains (none) s' where "claim e s = (s', None)" "s' = s \<or> s' = snd (read_clock e s)
      \<or> s' = snd (lease_live e (snd (read_clock e s)))"
    | (granted) s2 where "claim e s = (fst (grant e s2), Some (snd (grant e s2)))"
      "s2 = snd (lease_live e (snd (read_clock e s)))" "\<not> completed s"
      "\<not> fge (clock e (ticks s)) (deadline s)" "int (attempt_number s) < max_attempts (budget (fx_contract s))"
      "\<forall>d. current s = Some d \<longrightarrow> \<not> flt (clock e (Suc (ticks s))) (d_expires_at d)"
proof -
  let ?s1 = "snd (read_clock e s)"
  consider "completed s" | "\<not> completed s" "fge (clock e (ticks s)) (deadline s) \<or> max_attempts (budget (fx_contract s)) \<le> int (attempt_number s)"
    | "\<not> completed s" "\<not> fge (clock e (ticks s)) (deadline s)" "int (attempt_number s) < max_attempts (budget (fx_contract s))"
      "fst (lease_live e ?s1)"
    | "\<not> completed s" "\<not> fge (clock e (ticks s)) (deadline s)" "int (attempt_number s) < max_attempts (budget (fx_contract s))"
      "\<not> fst (lease_live e ?s1)"
    by linarith
  then show thesis
  proof cases
    case 1
    then show thesis by (intro none [of s]) (simp_all add: claim_eq)
  next
    case 2
    then show thesis by (intro none [of ?s1]) (auto simp: claim_eq)
  next
    case 3
    then show thesis by (intro none [of "snd (lease_live e ?s1)"]) (simp_all add: claim_eq)
  next
    case 4
    have "\<forall>d. current s = Some d \<longrightarrow> \<not> flt (clock e (Suc (ticks s))) (d_expires_at d)"
      using 4(4) by (auto simp: lease_live_def read_clock_def)
    with 4 show thesis by (intro granted [of "snd (lease_live e ?s1)"]) (simp_all add: claim_eq Let_def)
  qed
qed

lemma live_good: "flash_inv e s \<Longrightarrow> good_step e s (snd (lease_live e (snd (read_clock e s))))"
  using read_clock_good [of e s] lease_live_good [of e "snd (read_clock e s)"]
  by (auto simp: good_step_def intro: frozen_trans)

lemma claim_good:
  assumes "env_ok e" "flash_inv e s"
  shows "good_step e s (fst (claim e s))"
proof (cases e s rule: claim_cases)
  case (none s')
  then show ?thesis
    using good_refl [OF assms(2)] read_clock_good [OF assms(2)] live_good [OF assms(2)] by auto
next
  case (granted s2)
  have s2: "good_step e s s2" unfolding granted(2) by (rule live_good [OF assms(2)])
  have "fx_contract s2 = fx_contract s" "attempt_number s2 = attempt_number s" "completed s2 = completed s"
    unfolding granted(2) lease_live_frame by (simp_all add: read_clock_def)
  with granted(3,5) s2 have "good_step e s2 (fst (grant e s2))"
    by (intro grant_good assms(1)) (simp_all add: good_step_def)
  with s2 granted(1) show ?thesis by (auto intro: good_trans)
qed

text \<open>A granted call of \<open>require_current\<close> names the live lease and only advances the clock.\<close>

lemma require_current_state: "fst (require_current e lid s) = s \<or> fst (require_current e lid s) = s\<lparr>ticks := Suc (ticks s)\<rparr>"
  by (auto simp: require_current_def read_clock_def Let_def split: option.splits)

lemma require_current_Inr:
  "require_current e lid s = (s1, Inr d) \<longleftrightarrow> \<not> completed s \<and> current s = Some d \<and> d_lease_id d = lid
     \<and> \<not> fge (clock e (ticks s)) (d_expires_at d) \<and> s1 = s\<lparr>ticks := Suc (ticks s)\<rparr>"
  by (auto simp: require_current_def read_clock_def Let_def split: option.splits if_splits)

lemma require_current_Inl: "require_current e lid s = (s1, Inl x) \<Longrightarrow> \<exists>msg. x = LeaseError msg"
  by (auto simp: require_current_def read_clock_def Let_def split: option.splits if_splits)

lemma require_current_good: "flash_inv e s \<Longrightarrow> good_step e s (fst (require_current e lid s))"
  using require_current_state [of e lid s] by (auto simp: good_step_def flash_inv_ticks frozen_def)

lemma renew_good:
  assumes "env_ok e" "flash_inv e s"
  shows "good_step e s (fst (renew e lid s))"
proof (cases "require_current e lid s")
  case (Pair s1 r)
  have s1: "good_step e s s1" using require_current_good [OF assms(2), of lid] Pair by simp
  show ?thesis
  proof (cases r)
    case (Inl x)
    with Pair s1 show ?thesis by (simp add: renew_def)
  next
    case (Inr d)
    with Pair have r: "\<not> completed s" "current s = Some d" "s1 = s\<lparr>ticks := Suc (ticks s)\<rparr>"
      by (auto simp: require_current_Inr)
    have t: "terms_ok s" using assms(2) by (simp add: flash_inv_def)
    have now: "isfinite (clock e (Suc (ticks s)))" using assms(1) by (simp add: env_ok_def)
    from expiry_le_deadline [OF t now] r assms(2) show ?thesis
      by (auto simp: renew_def Pair Inr read_clock_def Let_def good_step_def flash_inv_def terms_ok_def
        delivery_ok_def deadline_def frozen_def)
  qed
qed

lemma abandon_good:
  assumes "flash_inv e s"
  shows "good_step e s (fst (abandon e lid s))"
proof (cases "require_current e lid s")
  case (Pair s1 r)
  have s1: "good_step e s s1" using require_current_good [OF assms, of lid] Pair by simp
  show ?thesis
  proof (cases r)
    case (Inl x)
    with Pair s1 show ?thesis by (simp add: abandon_def)
  next
    case (Inr d)
    with Pair have "\<not> completed s" "s1 = s\<lparr>ticks := Suc (ticks s)\<rparr>" by (auto simp: require_current_Inr)
    with assms Inr Pair show ?thesis
      by (simp add: abandon_def good_step_def flash_inv_def terms_ok_def frozen_def)
  qed
qed

text \<open>The ways a completion ends.\<close>

lemma complete_cases:
  obtains (same) x where "complete e lid result s = (s, Inl x)"
    | (again) "complete e lid result s = (s, Inr (completed_result s))" "completed s"
    | (refused) x where "complete e lid result s = (fst (require_current e lid s), Inl x)"
    | (rejected) d rj x s2 where "complete e lid result s = (s2, Inl x)" "json_dumps result = Inr rj"
      "require_current e lid s = (s\<lparr>ticks := Suc (ticks s)\<rparr>, Inr d)"
      "s2 = fst (verifier e (fx_contract s) (json_loads rj) (s\<lparr>ticks := Suc (ticks s)\<rparr>))
        \<or> s2 = fst (require_current e lid (fst (verifier e (fx_contract s) (json_loads rj) (s\<lparr>ticks := Suc (ticks s)\<rparr>))))"
    | (committed) d d' rj s2 s4 where "complete e lid result s = (s4, Inr (completed_result s4))"
      "json_dumps result = Inr rj" "require_current e lid s = (s\<lparr>ticks := Suc (ticks s)\<rparr>, Inr d)"
      "verifier e (fx_contract s) (json_loads rj) (s\<lparr>ticks := Suc (ticks s)\<rparr>) = (s2, Inr True)"
      "require_current e lid s2 = (s2\<lparr>ticks := Suc (ticks s2)\<rparr>, Inr d')"
      "s4 = s2\<lparr>ticks := Suc (ticks s2), accepted_result := Some rj, completed := True\<rparr>"
proof (cases "json_dumps result")
  case (Inl x)
  then show thesis by (intro same) (simp add: complete_def)
next
  case rj: (Inr rj)
  show thesis
  proof (cases "completed s")
    case True
    then show thesis
      using same again by (cases "(case current s of None \<Rightarrow> False | Some d \<Rightarrow> d_lease_id d = lid) \<and> accepted_result s = Some rj")
        (auto simp: complete_def rj)
  next
    case c: False
    obtain s1 r where r: "require_current e lid s = (s1, r)" by (cases "require_current e lid s")
    show thesis
    proof (cases r)
      case (Inl x)
      with r c rj show thesis by (intro refused) (simp add: complete_def)
    next
      case (Inr d)
      with r have s1: "s1 = s\<lparr>ticks := Suc (ticks s)\<rparr>" by (simp add: require_current_Inr)
      obtain s2 v where v: "verifier e (fx_contract s) (json_loads rj) s1 = (s2, v)" by fastforce
      obtain s3 r' where r': "require_current e lid s2 = (s3, r')" by (cases "require_current e lid s2")
      have eq: "complete e lid result s = (case v of Inl x \<Rightarrow> (s2, Inl x) | Inr ok \<Rightarrow>
          if \<not> ok then (s2, Inl (VerificationError ''trusted verifier rejected result''))
          else (case r' of Inl x \<Rightarrow> (s3, Inl x) | Inr _ \<Rightarrow>
            let s4 = s3\<lparr>accepted_result := Some rj, completed := True\<rparr> in (s4, Inr (completed_result s4))))"
        using c rj r Inr v r' s1 by (auto simp: complete_def split: sum.splits)
      show thesis
      proof (cases "v = Inr True \<and> (\<exists>d'. r' = Inr d')")
        case True
        then obtain d' where "v = Inr True" "r' = Inr d'" by blast
        with eq rj r Inr v r' s1 show thesis
          by (intro committed [of _ rj d s2 d']) (auto simp: require_current_Inr Let_def)
      next
        case False
        with eq rj r Inr v r' s1 show thesis
          by (cases v; cases r') (auto intro!: rejected [of _ _ rj d] split: if_splits)
      qed
    qed
  qed
qed

lemma tick_good: "flash_inv e s \<Longrightarrow> good_step e s (s\<lparr>ticks := Suc (ticks s)\<rparr>)"
  using read_clock_good [of e s] by (simp add: read_clock_def)

lemma verifier_good:
  assumes "env_ok e" "flash_inv e s"
  shows "good_step e s (fst (verifier e c r s))"
  using assms by (simp add: env_ok_def good_step_def)

lemma commit_good:
  assumes "flash_inv e s" "current s = Some d" "\<not> completed s"
  shows "good_step e s (s\<lparr>ticks := Suc (ticks s), accepted_result := Some rj, completed := True\<rparr>)"
  using assms by (simp add: good_step_def flash_inv_def terms_ok_def delivery_ok_def deadline_def frozen_def)

lemma complete_good:
  assumes "env_ok e" "flash_inv e s"
  shows "good_step e s (fst (complete e lid result s))"
proof -
  let ?s1 = "s\<lparr>ticks := Suc (ticks s)\<rparr>"
  have s1: "good_step e s ?s1" by (rule tick_good [OF assms(2)])
  have v: "good_step e s (fst (verifier e c r ?s1))" for c r
    by (rule good_trans [OF s1]) (use s1 in \<open>simp add: good_step_def verifier_good [OF assms(1), unfolded good_step_def]\<close>)
  show ?thesis
  proof (cases e lid result s rule: complete_cases)
    case (same x)
    then show ?thesis using good_refl [OF assms(2)] by simp
  next
    case again
    then show ?thesis using good_refl [OF assms(2)] by simp
  next
    case (refused x)
    then show ?thesis using require_current_good [OF assms(2)] by simp
  next
    case (rejected d rj x s2)
    have "good_step e s s2"
      using rejected(4) v [of "fx_contract s" "json_loads rj"] require_current_good [of e _ lid]
      by (auto simp: good_step_def intro: frozen_trans)
    with rejected(1) show ?thesis by simp
  next
    case (committed d d' rj s2 s4)
    have "good_step e s s2" using v [of "fx_contract s" "json_loads rj"] committed(4) by simp
    moreover from this have "good_step e s2 s4"
      unfolding committed(6) using committed(5)
      by (intro commit_good) (auto simp: good_step_def require_current_Inr)
    ultimately show ?thesis using committed(1) good_trans by fastforce
  qed
qed

lemma flash_exec_good: "env_ok e \<Longrightarrow> flash_inv e s \<Longrightarrow> good_step e s (flash_exec e p s)"
  by (cases p) (simp_all add: claim_good renew_good abandon_good complete_good)

interpretation flash: monotone_machine "flash_exec e" "\<lambda>_. env_ok e" "flash_inv e" frozen for e
  by unfold_locales (auto intro: frozen_trans dest: flash_exec_good simp: good_step_def)

lemma make_fixture_inv:
  assumes "make_fixture e job c lease = Inr s" "env_ok e" "lease \<noteq> NaN"
    "validate_budget (budget c) = Inr (budget c)"
  shows "flash_inv e s"
  using assms by (auto simp: make_fixture_def flash_inv_def terms_ok_def env_ok_def validate_budget_def not_fle)

end
