(* ===== verification/Flash_Properties.thy ===== *)
theory Flash_Properties
  imports Flash_Safety Work_Acceptance
begin

text \<open>
  The properties of the in-memory delivery, exercised with a clock that ticks once per reading, ids
  that are never repeated and a verifier that accepts.
\<close>

section \<open>A small job\<close>

definition sample_env :: env where
  "sample_env = \<lparr>clock = (\<lambda>i. Fin (of_nat i)), id_factory = (\<lambda>i label. replicate i (CHR ''x'')),
     verifier = (\<lambda>c r s. (s, Inr True))\<rparr>"

definition sample_job :: fixture where
  "sample_job = \<lparr>fx_job_id = ''J'', fx_contract = sample_contract, lease_seconds = Fin 5, started_at = Fin 0,
     attempt_number = 0, current = None, accepted_result = None, completed = False, ticks = 1, ids_made = 0\<rparr>"

lemma sample_env_ok: "env_ok sample_env"
  by (simp add: env_ok_def sample_env_def)

lemma sample_make_fixture: "make_fixture sample_env ''J'' sample_contract (Fin 5) = Inr sample_job"
  by (simp add: make_fixture_def sample_job_def sample_env_def)

lemma sample_budget: "validate_budget (budget sample_contract) = Inr (budget sample_contract)"
  by (simp add: sample_contract_def validate_budget_def at_least_one_def)

lemma sample_job_inv: "flash_inv sample_env sample_job"
  by (rule make_fixture_inv [OF sample_make_fixture sample_env_ok _ sample_budget]) simp

lemmas sample_run = claim_def complete_def renew_def require_current_def grant_def read_clock_def make_id_def
  lease_live_def deadline_def sample_env_def sample_job_def sample_contract_def fl_numeral fmin_def
  completed_result_def Let_def

section \<open>Properties\<close>

text \<open>The leases that the claims of a sequence of operations hand out.\<close>

fun leases_granted :: "env \<Rightarrow> flash_op list \<Rightarrow> fixture \<Rightarrow> delivery list" where
  "leases_granted e [] s = []"
| "leases_granted e (p # ps) s =
     (if p = FClaim then (case snd (claim e s) of None \<Rightarrow> [] | Some d \<Rightarrow> [d]) else [])
     @ leases_granted e ps (flash_exec e p s)"

lemma claim_counts: "snd (claim e s) = Some d \<Longrightarrow> attempt_number (fst (claim e s)) = Suc (attempt_number s)"
proof (cases e s rule: claim_cases)
  case (granted s2)
  have "attempt_number s2 = attempt_number s" unfolding granted(2) lease_live_frame by (simp add: read_clock_def)
  with granted show ?thesis by (simp add: grant_def read_clock_def make_id_def Let_def)
qed simp

lemma claim_current: "snd (claim e s) = Some d \<Longrightarrow> current (fst (claim e s)) = Some d"
  by (cases e s rule: claim_cases) (auto simp: grant_def read_clock_def make_id_def Let_def)

lemma leases_granted_bounded:
  assumes "env_ok e" "flash_inv e s"
  shows "attempt_number s + length (leases_granted e ps s) \<le> attempt_number (fold (flash_exec e) ps s)
    \<and> (\<forall>d \<in> set (leases_granted e ps s). fle (d_expires_at d) (deadline s) \<and> d_job_id d = fx_job_id s
        \<and> d_contract_id d = contract_id (fx_contract s))"
  using assms(2)
proof (induction ps arbitrary: s)
  case (Cons p ps)
  have next_inv: "flash_inv e (flash_exec e p s)" and step: "frozen s (flash_exec e p s)"
    using flash.inv_run [OF Cons.prems, of "[p]"] flash.rel_run [OF Cons.prems, of "[p]"] assms(1) by simp_all
  note IH = Cons.IH [OF next_inv]
  have terms: "deadline (flash_exec e p s) = deadline s" "fx_job_id (flash_exec e p s) = fx_job_id s"
    "fx_contract (flash_exec e p s) = fx_contract s" "attempt_number s \<le> attempt_number (flash_exec e p s)"
    using step by (simp_all add: frozen_def deadline_def)
  show ?case
  proof (cases "p = FClaim \<and> snd (claim e s) \<noteq> None")
    case True
    then obtain d where d: "p = FClaim" "snd (claim e s) = Some d" by blast
    then have "current (flash_exec e p s) = Some d" by (simp add: claim_current)
    with next_inv have "delivery_ok e (flash_exec e p s) d" by (simp add: flash_inv_def)
    moreover have "attempt_number (flash_exec e p s) = Suc (attempt_number s)" using d claim_counts by simp
    ultimately show ?thesis using IH terms d by (auto simp: delivery_ok_def)
  next
    case False
    then have "leases_granted e (p # ps) s = leases_granted e ps (flash_exec e p s)" by auto
    then show ?thesis using IH terms by auto
  qed
qed simp

text \<open>
  C24. Whatever sequence of claims, renewals, abandonments and completions a job sees, with a verifier
  that may call back into it, the claims of the sequence hand out at most as many leases as the
  contract's budget has attempts, each for this job and contract; no lease, as granted or as renewed,
  outlives the job's deadline (start plus wall seconds); the attempts counted never exceed the budget;
  and a result is stored exactly when the job is completed.
\<close>

theorem flash_runs_bounded:
  assumes "make_fixture e job c lease = Inr s" "env_ok e" "lease \<noteq> NaN"
    "validate_budget (budget c) = Inr (budget c)"
  shows "let s' = fold (flash_exec e) ps s in
    int (length (leases_granted e ps s)) \<le> max_attempts (budget c)
    \<and> int (attempt_number s') \<le> max_attempts (budget c)
    \<and> (\<forall>d. d \<in> set (leases_granted e ps s) \<or> current s' = Some d \<longrightarrow>
         fle (d_expires_at d) (fadd (clock e 0) (wall_seconds (budget c))) \<and> d_job_id d = job \<and> d_contract_id d = contract_id c)
    \<and> (completed s' \<longleftrightarrow> accepted_result s' \<noteq> None)"
proof -
  have inv: "flash_inv e s" by (rule make_fixture_inv [OF assms])
  let ?s = "fold (flash_exec e) ps s"
  have "flash_inv e ?s" using flash.inv_run [OF inv] assms(2) by blast
  moreover have "frozen s ?s" using flash.rel_run [OF inv] assms(2) by blast
  moreover have "fx_contract s = c" "started_at s = clock e 0" "fx_job_id s = job" "attempt_number s = 0"
    using assms(1) by (auto simp: make_fixture_def)
  ultimately show ?thesis
    using leases_granted_bounded [OF assms(2) inv, of ps]
    by (auto simp: Let_def flash_inv_def delivery_ok_def frozen_def deadline_def)
qed

theorem flash_runs_bounded_witness:
  "int (length (leases_granted sample_env [FClaim, FRenew ''x'', FClaim] sample_job)) \<le> 3
    \<and> leases_granted sample_env [FClaim, FRenew ''x'', FClaim] sample_job \<noteq> []"
  using flash_runs_bounded [OF sample_make_fixture sample_env_ok _ sample_budget, of "[FClaim, FRenew ''x'', FClaim]"]
  by (simp add: Let_def sample_contract_def) (simp add: sample_run)

lemma live_ticks:
  "snd (lease_live e (snd (read_clock e s))) = s\<lparr>ticks := if current s = None then ticks s + 1 else ticks s + 2\<rparr>"
  by (auto simp: lease_live_def read_clock_def Let_def split: option.splits)

text \<open>
  C17. A claim is granted exactly when it should be: the job is not completed, the clock is before the
  deadline, an attempt is left, and no lease is in force (none was granted, or the clock has reached
  its expiry). The grant uses up one attempt and becomes the current delivery: for this job and
  contract, with the next two ids of the factory, expiring \<open>lease_seconds\<close> after the clock was read
  for the grant or at the deadline, whichever is earlier. Nothing else of the job changes.
\<close>

theorem claim_granted_iff:
  "(snd (claim e s) \<noteq> None \<longleftrightarrow> \<not> completed s \<and> \<not> fge (clock e (ticks s)) (deadline s)
      \<and> int (attempt_number s) < max_attempts (budget (fx_contract s))
      \<and> \<not> (\<exists>d. current s = Some d \<and> flt (clock e (Suc (ticks s))) (d_expires_at d)))
    \<and> (\<forall>d. snd (claim e s) = Some d \<longrightarrow>
      (let n = Suc (attempt_number s); t = (if current s = None then ticks s + 1 else ticks s + 2) in
        d = \<lparr>d_job_id = fx_job_id s, d_contract_id = contract_id (fx_contract s),
          d_attempt_id = id_factory e (ids_made s) (''attempt-'' @ nat_str n),
          d_lease_id = id_factory e (Suc (ids_made s)) (''lease-'' @ nat_str n),
          d_expires_at = fmin (fadd (clock e t) (lease_seconds s)) (deadline s)\<rparr>
        \<and> fst (claim e s) = s\<lparr>attempt_number := n, current := Some d, ticks := Suc t, ids_made := ids_made s + 2\<rparr>))"
proof (cases e s rule: claim_cases)
  case (none s')
  then have "\<not> (\<not> completed s \<and> \<not> fge (clock e (ticks s)) (deadline s)
      \<and> int (attempt_number s) < max_attempts (budget (fx_contract s))
      \<and> \<not> (\<exists>d. current s = Some d \<and> flt (clock e (Suc (ticks s))) (d_expires_at d)))"
    by (auto simp: claim_eq Let_def lease_live_def read_clock_def split: if_splits option.splits)
  with none show ?thesis by simp
next
  case (granted s2)
  note s2 = granted(2) [unfolded live_ticks]
  have "int (attempt_number s) < max_attempts (budget (fx_contract s))
      \<and> \<not> (\<exists>d. current s = Some d \<and> flt (clock e (Suc (ticks s))) (d_expires_at d))"
    using granted(5,6) by blast
  then show ?thesis
    using granted(3,4) unfolding granted(1) s2 by (simp add: grant_def read_clock_def make_id_def Let_def deadline_def)
qed

theorem claim_granted_iff_witness:
  "snd (claim sample_env sample_job) \<noteq> None"
  using claim_granted_iff [of sample_env sample_job] by (simp add: sample_run)

text \<open>What a completion does to the published result.\<close>

lemma live_strictly_before:
  assumes "env_ok e" "flash_inv e s" "current s = Some d" "\<not> fge (clock e (ticks s)) (d_expires_at d)"
  shows "flt (clock e (ticks s)) (d_expires_at d)"
proof -
  have "delivery_ok e s d" using assms(2,3) by (simp add: flash_inv_def)
  then have "clock e (ticks s) \<noteq> NaN" "d_expires_at d \<noteq> NaN"
    using assms(1) by (auto simp: env_ok_def delivery_ok_def dest: spec [of _ "ticks s"] fle_not_NaN)
  then show ?thesis using assms(4) by (simp add: not_fle)
qed

lemma verifier_keeps_inv:
  assumes "env_ok e" "flash_inv e s"
  shows "good_step e s (fst (verifier e c r (s\<lparr>ticks := Suc (ticks s)\<rparr>)))"
proof -
  have "flash_inv e (s\<lparr>ticks := Suc (ticks s)\<rparr>)" "frozen s (s\<lparr>ticks := Suc (ticks s)\<rparr>)"
    using assms(2) by (simp_all add: flash_inv_ticks frozen_def)
  then show ?thesis using assms(1) frozen_trans by (auto simp: env_ok_def good_step_def)
qed

lemma other_operations_publish_nothing:
  assumes "accepted_result (flash_exec e p s) \<noteq> accepted_result s"
  shows "\<exists>lid result. p = FComplete lid result"
proof (cases p)
  case FClaim
  have "accepted_result (fst (claim e s)) = accepted_result s"
  proof (cases e s rule: claim_cases)
    case (none s')
    then show ?thesis unfolding live_ticks by (auto simp: read_clock_def)
  next
    case (granted s2)
    then show ?thesis unfolding live_ticks by (simp add: grant_def read_clock_def make_id_def Let_def)
  qed
  with FClaim assms show ?thesis by simp
next
  case (FRenew lid)
  then show ?thesis
    using assms by (cases "require_current e lid s" rule: prod.exhaust)
      (use require_current_state [of e lid s] in \<open>auto simp: renew_def read_clock_def Let_def split: sum.splits\<close>)
next
  case (FAbandon lid)
  then show ?thesis
    using assms by (cases "require_current e lid s" rule: prod.exhaust)
      (use require_current_state [of e lid s] in \<open>auto simp: abandon_def split: sum.splits\<close>)
qed simp

text \<open>
  C7. Only acceptance publishes. Let an operation change the stored result, or let a completion of a job
  that was not completed return a value. Then the operation is a \<open>complete\<close>, its result is finite JSON, and
  its caller's lease was the current one with the clock strictly before its expiry. Either the verifier,
  called on the normalized result, left the stored result alone: then it accepted, the same lease was still
  the current one and strictly before its expiry (so before the job's deadline) at the commit, the job stores
  exactly that result and the call returns it. Or the verifier called back and a completion it made itself
  published: then the outer call raises and leaves what that completion stored. In particular no call that
  raises, and no claim, renewal or abandonment, publishes anything of its own.
\<close>

theorem acceptance_needs_lease_and_verdict:
  assumes "env_ok e" "flash_inv e s"
    "accepted_result (flash_exec e p s) \<noteq> accepted_result s
      \<or> (\<exists>lid result v. p = FComplete lid result \<and> \<not> completed s \<and> snd (complete e lid result s) = Inr v)"
  shows "\<exists>lid result rj d0. p = FComplete lid result \<and> json_dumps result = Inr rj
    \<and> current s = Some d0 \<and> d_lease_id d0 = lid \<and> flt (clock e (ticks s)) (d_expires_at d0)
    \<and> (let (s2, verdict) = verifier e (fx_contract s) rj (s\<lparr>ticks := Suc (ticks s)\<rparr>); (s', answer) = complete e lid result s in
        flash_exec e p s = s' \<and>
        (if accepted_result s2 = accepted_result s
         then verdict = Inr True \<and> answer = Inr (Some rj) \<and> completed s' \<and> accepted_result s' = Some rj
           \<and> (\<exists>d. current s2 = Some d \<and> d_lease_id d = lid \<and> flt (clock e (ticks s2)) (d_expires_at d)
               \<and> fle (d_expires_at d) (deadline s) \<and> current s' = Some d)
         else accepted_result s' = accepted_result s2 \<and> (\<exists>x. answer = Inl x)))"
proof -
  obtain lid result where p: "p = FComplete lid result" using assms(3) other_operations_publish_nothing by blast
  have before: "flt (clock e (ticks s)) (d_expires_at d)" if "require_current e lid s = (s\<lparr>ticks := Suc (ticks s)\<rparr>, Inr d)" for d
    using that live_strictly_before [OF assms(1,2)] by (simp add: require_current_Inr)
  show ?thesis
  proof (cases e lid result s rule: complete_cases)
    case (rejected d rj x s2)
    let ?v = "verifier e (fx_contract s) rj (s\<lparr>ticks := Suc (ticks s)\<rparr>)"
    have left: "accepted_result s2 = accepted_result (fst ?v)"
      using rejected(4) require_current_state [of e lid "fst ?v"] by (auto simp: json_loads_def)
    with assms(3) p rejected(1) have "accepted_result (fst ?v) \<noteq> accepted_result s" by auto
    with rejected p before left show ?thesis
      by (intro exI [of _ lid] exI [of _ result] exI [of _ rj] exI [of _ d]) (auto simp: require_current_Inr split: prod.splits)
  next
    case (committed d0 d rj s2 s4)
    have after: "good_step e s s2"
      using verifier_keeps_inv [OF assms(1,2), of "fx_contract s" rj] committed(4) by (simp add: json_loads_def)
    then have inv2: "flash_inv e s2" and terms: "frozen s s2" by (simp_all add: good_step_def)
    have d: "current s2 = Some d" "d_lease_id d = lid" "\<not> completed s2" using committed(5) by (auto simp: require_current_Inr)
    have "flt (clock e (ticks s2)) (d_expires_at d)"
      using committed(5) live_strictly_before [OF assms(1) inv2] by (simp add: require_current_Inr)
    moreover have "fle (d_expires_at d) (deadline s)"
      using inv2 d(1) terms by (simp add: flash_inv_def delivery_ok_def frozen_def deadline_def)
    moreover have "accepted_result s2 = accepted_result s"
      using inv2 d(3) terms assms(2) by (auto simp: flash_inv_def frozen_def)
    ultimately show ?thesis
      using committed p before d
      by (intro exI [of _ lid] exI [of _ result] exI [of _ rj] exI [of _ d0])
        (auto simp: require_current_Inr completed_result_def json_loads_def)
  qed (use assms(3) p require_current_state [of e lid s] in auto)
qed

definition sample_claimed :: fixture where
  "sample_claimed = fst (claim sample_env sample_job)"

lemma sample_claimed_inv: "flash_inv sample_env sample_claimed"
  using claim_good [OF sample_env_ok sample_job_inv] by (simp add: sample_claimed_def good_step_def)

theorem acceptance_needs_lease_and_verdict_witness:
  "accepted_result (flash_exec sample_env (FComplete ''x'' (PInt 1)) sample_claimed) = Some (PInt 1)"
proof -
  have v: "snd (complete sample_env ''x'' (PInt 1) sample_claimed) = Inr (Some (PInt 1))" "\<not> completed sample_claimed"
    by (simp_all add: sample_claimed_def sample_run json_loads_def)
  have "accepted_result (flash_exec sample_env (FComplete ''x'' (PInt 1)) sample_claimed) \<noteq> accepted_result sample_claimed
      \<or> (\<exists>lid result v. FComplete ''x'' (PInt 1) = FComplete lid result \<and> \<not> completed sample_claimed
        \<and> snd (complete sample_env lid result sample_claimed) = Inr v)"
    using v by blast
  from acceptance_needs_lease_and_verdict [OF sample_env_ok sample_claimed_inv this]
  show ?thesis by (auto simp: sample_env_def json_loads_def split: prod.splits)
qed

text \<open>
  Completion is final. Once a job is completed, no later sequence of operations changes the
  accepted result, the holder or the attempt count: claims return nothing, renewals and abandonments
  raise \<open>LeaseError\<close>, and a repeated completion returns the accepted result when it comes from the
  same lease with the same canonical JSON and raises otherwise.
\<close>

theorem completion_is_final:
  assumes "env_ok e" "flash_inv e s" "completed s"
  shows "let s' = fold (flash_exec e) ps s in
    completed s' \<and> completed_result s' = completed_result s \<and> completed_result s' \<noteq> None
    \<and> current s' = current s \<and> attempt_number s' = attempt_number s
    \<and> snd (claim e s') = None
    \<and> (\<exists>msg. snd (renew e lid s') = Inl (LeaseError msg)) \<and> (\<exists>msg. snd (abandon e lid s') = Inl (LeaseError msg))
    \<and> (\<forall>rj. json_dumps result = Inr rj \<longrightarrow> snd (complete e lid result s') =
          (if (\<exists>d. current s = Some d \<and> d_lease_id d = lid) \<and> accepted_result s = Some rj
           then Inr (completed_result s) else Inl (LeaseError ''job is already completed by another or differing result'')))"
proof -
  let ?s = "fold (flash_exec e) ps s"
  have "frozen s ?s" using flash.rel_run [OF assms(2)] assms(1) by blast
  with assms(3) have s': "completed ?s" "accepted_result ?s = accepted_result s" "current ?s = current s"
      "attempt_number ?s = attempt_number s"
    by (simp_all add: frozen_def)
  moreover have "accepted_result s \<noteq> None" using assms(2,3) by (simp add: flash_inv_def)
  ultimately show ?thesis
    by (auto simp: Let_def completed_result_def claim_def renew_def abandon_def require_current_def complete_def
      split: option.splits)
qed

definition sample_done :: fixture where
  "sample_done = fst (complete sample_env ''x'' (PInt 1) sample_claimed)"

lemma sample_done_ok: "flash_inv sample_env sample_done \<and> completed sample_done"
proof
  show "flash_inv sample_env sample_done"
    using complete_good [OF sample_env_ok sample_claimed_inv] by (simp add: sample_done_def good_step_def)
  show "completed sample_done" by (simp add: sample_done_def sample_claimed_def sample_run)
qed

theorem completion_is_final_witness:
  "completed_result (fold (flash_exec sample_env) [FClaim, FComplete ''x'' (PInt 2)] sample_done) = completed_result sample_done
    \<and> completed_result sample_done \<noteq> None"
  using completion_is_final [OF sample_env_ok, of sample_done "[FClaim, FComplete ''x'' (PInt 2)]" "''x''" "PInt 2"] sample_done_ok
  unfolding Let_def by metis

text \<open>
  A superseded lease is dead for good. If the id factory never repeats an id, then once a claim
  has replaced the delivery \<open>d\<close> by a new one, no later sequence of operations makes \<open>d\<close>'s lease
  current again: renewing, abandoning or completing under it raises \<open>LeaseError\<close> ever after (or
  \<open>VerificationError\<close> for a result that is not JSON), and leaves the attempts, the current delivery
  and the accepted result as they were.
\<close>

theorem superseded_lease_is_dead:
  assumes "env_ok e" "\<forall>i j l l'. id_factory e i l = id_factory e j l' \<longrightarrow> i = j" "flash_inv e s"
    "current s = Some d" "claim e s = (s1, Some d1)"
  shows "let s2 = fold (flash_exec e) ps s1; lid = d_lease_id d in
    (\<forall>d2. current s2 = Some d2 \<longrightarrow> d_lease_id d2 \<noteq> lid)
    \<and> (\<exists>msg. snd (renew e lid s2) = Inl (LeaseError msg)) \<and> (\<exists>msg. snd (abandon e lid s2) = Inl (LeaseError msg))
    \<and> (\<exists>msg. snd (complete e lid result s2) \<in> {Inl (LeaseError msg), Inl (VerificationError msg)})
    \<and> fst (renew e lid s2) = s2 \<and> fst (abandon e lid s2) = s2 \<and> fst (complete e lid result s2) = s2"
proof -
  have inv1: "flash_inv e s1" using claim_good [OF assms(1,3)] assms(5) by (simp add: good_step_def)
  have made: "ids_made s1 = ids_made s + 2"
    using assms(5)
  proof (cases e s rule: claim_cases)
    case (granted s2)
    have "ids_made s2 = ids_made s" unfolding granted(2) lease_live_frame by (simp add: read_clock_def)
    with granted(1) assms(5) show ?thesis by (auto simp: grant_def read_clock_def make_id_def Let_def)
  qed simp
  let ?s2 = "fold (flash_exec e) ps s1"
  have inv2: "flash_inv e ?s2" and later: "frozen s1 ?s2"
    using flash.inv_run [OF inv1] flash.rel_run [OF inv1] assms(1) by blast+
  have other: "d_lease_id d2 \<noteq> d_lease_id d" if "current ?s2 = Some d2" for d2
  proof
    assume eq: "d_lease_id d2 = d_lease_id d"
    from inv2 that have "delivery_ok e ?s2 d2" by (simp add: flash_inv_def)
    moreover from assms(3,4) have "delivery_ok e s d" by (simp add: flash_inv_def)
    ultimately have "ids_made ?s2 - 1 = ids_made s - 1" "2 \<le> ids_made s"
      using eq assms(2) unfolding delivery_ok_def by metis+
    moreover have "ids_made s + 2 \<le> ids_made ?s2" using later made by (simp add: frozen_def)
    ultimately show False by linarith
  qed
  then have dead: "\<exists>msg. require_current e (d_lease_id d) ?s2 = (?s2, Inl (LeaseError msg))"
    by (auto simp: require_current_def split: option.splits)
  then have "\<exists>msg. renew e (d_lease_id d) ?s2 = (?s2, Inl (LeaseError msg))"
    "\<exists>msg. abandon e (d_lease_id d) ?s2 = (?s2, Inl (LeaseError msg))"
    by (auto simp: renew_def abandon_def)
  moreover have "\<exists>x msg. complete e (d_lease_id d) result ?s2 = (?s2, Inl x) \<and> x \<in> {LeaseError msg, VerificationError msg}"
    using dead other by (cases "json_dumps result") (auto simp: complete_def split: option.splits)
  ultimately show ?thesis using other by (auto simp: Let_def)
qed

definition sample_expired :: fixture where
  "sample_expired = sample_claimed\<lparr>ticks := 20\<rparr>"

lemma sample_reclaim: "\<exists>d s1 d1. current sample_expired = Some d \<and> d_lease_id d = ''x'' \<and> claim sample_env sample_expired = (s1, Some d1)"
  by (simp add: sample_expired_def sample_claimed_def sample_run)

theorem superseded_lease_is_dead_witness:
  "\<exists>s1 d1 msg. claim sample_env sample_expired = (s1, Some d1)
    \<and> snd (renew sample_env ''x'' (fold (flash_exec sample_env) [FAbandon ''xxx'', FClaim] s1)) = Inl (LeaseError msg)"
proof -
  obtain d s1 d1 where r: "current sample_expired = Some d" "d_lease_id d = ''x''" "claim sample_env sample_expired = (s1, Some d1)"
    using sample_reclaim by blast
  have inj: "\<forall>i j l l'. id_factory sample_env i l = id_factory sample_env j l' \<longrightarrow> i = j"
    by (auto simp: sample_env_def dest: arg_cong [where f = length])
  have inv: "flash_inv sample_env sample_expired"
    using sample_claimed_inv by (simp add: sample_expired_def flash_inv_ticks)
  from superseded_lease_is_dead [OF sample_env_ok inj inv r(1,3), of "[FAbandon ''xxx'', FClaim]" "PInt 1"] r(3)
  show ?thesis unfolding Let_def r(2) by blast
qed

end
