(* ===== verification/Flash_Http.thy ===== *)
theory Flash_Http
  imports Flash_Properties
begin

text \<open>
  The WSGI boundary of the delivery fixture, \<open>long_haul/work/flash_http.py\<close>.

  A \<open>request\<close> holds the \<open>environ\<close> entries the adapter reads (native strings are Latin-1; a missing
  entry is the code's default or \<open>None\<close>) and the bytes the input stream has. \<open>parse\<close> is
  \<open>json.loads\<close> on a body. A response is its status line, the JSON payload as a canonical tree and the
  extra headers. \<open>http_call\<close> returns the new fixture state and the response; every exception of the
  handlers becomes a response there.
\<close>

section \<open>Requests, responses, adapter\<close>

record request =
  rq_method :: string
  rq_path :: string
  rq_content_type :: string
  rq_content_length :: "string option"
  rq_input :: string

record response =
  rs_status :: string
  rs_payload :: "pyval option"
  rs_headers :: "(string \<times> string) list"

definition respond :: "string \<Rightarrow> pyval option \<Rightarrow> (string \<times> string) list \<Rightarrow> response result" where
  "respond status payload extra = (case payload of
       None \<Rightarrow> Inr \<lparr>rs_status = status, rs_payload = None, rs_headers = extra\<rparr>
     | Some p \<Rightarrow> ebind (json_dumps p) (\<lambda>data.
         Inr \<lparr>rs_status = status, rs_payload = Some data,
              rs_headers = (''Content-Type'', ''application/json; charset=utf-8'') # extra\<rparr>))"

record adapter =
  max_body_bytes :: int
  admitted :: bool

definition make_adapter :: "fixture \<Rightarrow> capability_state \<Rightarrow> int option \<Rightarrow> bool \<Rightarrow> int \<Rightarrow> adapter result" where
  "make_adapter s state observed initialized max_body =
     ebind (guard (\<not> max_body < 1) (ValueError ''max_body_bytes must be positive'')) (\<lambda>_.
     Inr \<lparr>max_body_bytes = max_body,
          admitted = (case flash_execution (fx_contract s) of None \<Rightarrow> False
                      | Some x \<Rightarrow> admits x state observed initialized)\<rparr>)"

section \<open>Decoding\<close>

text \<open>\<open>int\<close> refuses a text of more than 4300 digits.\<close>

definition read_body :: "adapter \<Rightarrow> request \<Rightarrow> string result" where
  "read_body ad rq = (case rq_content_length rq of
       None \<Rightarrow> Inl (ValueError ''invalid Content-Length'')
     | Some raw \<Rightarrow>
         ebind (guard (raw \<noteq> [] \<and> (\<forall>c \<in> set raw. is_digit c)) (ValueError ''invalid Content-Length'')) (\<lambda>_.
         ebind (guard (length raw \<le> 4300) (ValueError ''Exceeds the limit for integer string conversion'')) (\<lambda>_.
         ebind (guard (decimal raw \<le> max_body_bytes ad) BodyTooLarge) (\<lambda>_.
         let body = take (nat (decimal raw)) (rq_input rq) in
         ebind (guard (int (length body) = decimal raw)
           (ValueError ''request body length does not match Content-Length'')) (\<lambda>_. Inr body)))))"

definition decode :: "(string \<Rightarrow> pyval result) \<Rightarrow> string \<Rightarrow> (string \<times> pyval) list result" where
  "decode parse body =
     ebind (guard (body \<noteq> []) (ValueError ''request body must be a JSON object'')) (\<lambda>_.
     ebind (parse body) (\<lambda>v. case v of PDict kvs \<Rightarrow> Inr kvs
       | _ \<Rightarrow> Inl (ValueError ''request body must be a JSON object'')))"

text \<open>The strict request models: no other keys, a string lease id, a required result.\<close>

definition claim_request :: "(string \<times> pyval) list \<Rightarrow> unit result" where
  "claim_request kvs = guard (kvs = []) (ValueError ''extra fields'')"

definition lease_request :: "(string \<times> pyval) list \<Rightarrow> string result" where
  "lease_request kvs = (case map_of kvs ''lease_id'' of
       Some (PStr lid) \<Rightarrow> ebind (guard (fst ` set kvs \<subseteq> {''lease_id''}) (ValueError ''extra fields'')) (\<lambda>_. Inr lid)
     | _ \<Rightarrow> Inl (ValueError ''lease_id''))"

definition complete_request :: "(string \<times> pyval) list \<Rightarrow> (string \<times> pyval) result" where
  "complete_request kvs = (case (map_of kvs ''lease_id'', map_of kvs ''result'') of
       (Some (PStr lid), Some r) \<Rightarrow>
         ebind (guard (fst ` set kvs \<subseteq> {''lease_id'', ''result''}) (ValueError ''extra fields'')) (\<lambda>_. Inr (lid, r))
     | _ \<Rightarrow> Inl (ValueError ''lease_id and result''))"

definition strip_char :: "char \<Rightarrow> string \<Rightarrow> string" where
  "strip_char c s = rstrip_char c (dropWhile (\<lambda>x. x = c) s)"

definition operation_from_path :: "string \<Rightarrow> string \<Rightarrow> string option" where
  "operation_from_path job path = (case split_on slash (strip_char slash path) of
       [a, b, c, d] \<Rightarrow> if a = ''v1'' \<and> b = ''jobs'' \<and> c = job then Some d else None
     | _ \<Rightarrow> None)"

definition content_type_ok :: "string \<Rightarrow> bool" where
  "content_type_ok ct \<longleftrightarrow> map lower_char (strip (takeWhile (\<lambda>c. c \<noteq> CHR '';'') ct)) = ''application/json''"

section \<open>Handlers\<close>

definition delivery_payload :: "delivery \<Rightarrow> pyval" where
  "delivery_payload d = PDict [(''status'', PStr ''claimed''), (''job_id'', PStr (d_job_id d)),
     (''contract_id'', PStr (d_contract_id d)), (''attempt_id'', PStr (d_attempt_id d)),
     (''lease_id'', PStr (d_lease_id d)), (''lease_expires_at'', PFloat (d_expires_at d))]"

definition handle_claim ::
  "env \<Rightarrow> adapter \<Rightarrow> (string \<Rightarrow> pyval result) \<Rightarrow> string \<Rightarrow> fixture \<Rightarrow> fixture \<times> response result" where
  "handle_claim e ad parse body s =
     (case ebind (decode parse body) claim_request of
        Inl x \<Rightarrow> (s, Inl x)
      | Inr _ \<Rightarrow>
          if \<not> admitted ad then (s, respond ''200 OK'' (Some (PDict
            [(''status'', PStr ''declined''), (''reason'', PStr ''synthetic_f0_policy'')])) [])
          else (case claim e s of
              (s', None) \<Rightarrow> (s', respond ''200 OK'' (Some (PDict [(''status'', PStr ''no_work'')])) [])
            | (s', Some d) \<Rightarrow> (s', respond ''200 OK'' (Some (delivery_payload d)) [])))"

definition handle_operation ::
  "env \<Rightarrow> (string \<Rightarrow> pyval result) \<Rightarrow> string \<Rightarrow> string \<Rightarrow> fixture \<Rightarrow> fixture \<times> response result" where
  "handle_operation e parse operation body s =
     (case decode parse body of
        Inl x \<Rightarrow> (s, Inl x)
      | Inr data \<Rightarrow>
          if operation = ''complete'' then
            (case complete_request data of
               Inl x \<Rightarrow> (s, Inl x)
             | Inr (lid, r) \<Rightarrow> (case complete e lid r s of
                 (s', Inl x) \<Rightarrow> (s', Inl x)
               | (s', Inr v) \<Rightarrow> (s', respond ''200 OK'' (Some (PDict [(''status'', PStr ''completed''),
                   (''result'', case v of None \<Rightarrow> PNone | Some t \<Rightarrow> t)])) [])))
          else (case lease_request data of
               Inl x \<Rightarrow> (s, Inl x)
             | Inr lid \<Rightarrow>
                 if operation = ''renew'' then (case renew e lid s of
                     (s', Inl x) \<Rightarrow> (s', Inl x)
                   | (s', Inr d) \<Rightarrow> (s', respond ''200 OK'' (Some (PDict [(''status'', PStr ''renewed''),
                       (''lease_id'', PStr (d_lease_id d)), (''lease_expires_at'', PFloat (d_expires_at d))])) []))
                 else if operation = ''abandon'' then (case abandon e lid s of
                     (s', Inl x) \<Rightarrow> (s', Inl x)
                   | (s', Inr _) \<Rightarrow> (s', respond ''200 OK'' (Some (PDict [(''status'', PStr ''abandoned'')])) []))
                 else (s, respond ''404 Not Found'' (Some (PDict [(''error'', PStr ''not_found'')])) [])))"

definition dispatch ::
  "env \<Rightarrow> adapter \<Rightarrow> (string \<Rightarrow> pyval result) \<Rightarrow> request \<Rightarrow> fixture \<Rightarrow> fixture \<times> response result" where
  "dispatch e ad parse rq s =
     (if \<not> content_type_ok (rq_content_type rq)
      then (s, Inl (ValueError ''Content-Type must be application/json''))
      else case read_body ad rq of
          Inl x \<Rightarrow> (s, Inl x)
        | Inr body \<Rightarrow>
            if rq_path rq = ''/v1/jobs/claim'' then handle_claim e ad parse body s
            else (case operation_from_path (fx_job_id s) (rq_path rq) of
                None \<Rightarrow> (s, respond ''404 Not Found'' (Some (PDict [(''error'', PStr ''not_found'')])) [])
              | Some operation \<Rightarrow> handle_operation e parse operation body s))"

definition plain_error :: "string \<Rightarrow> (string \<times> string) list \<Rightarrow> (string \<times> string) list \<Rightarrow> response" where
  "plain_error status payload extra = \<lparr>rs_status = status,
     rs_payload = Some (PDict (map (\<lambda>(k, v). (k, PStr v)) payload)),
     rs_headers = (''Content-Type'', ''application/json; charset=utf-8'') # extra\<rparr>"

definition error_response :: "exn \<Rightarrow> response" where
  "error_response x = (case x of
       BodyTooLarge \<Rightarrow> plain_error ''413 Payload Too Large'' [(''error'', ''body_too_large'')] []
     | LeaseError _ \<Rightarrow> plain_error ''409 Conflict''
         [(''error'', ''lease_conflict''), (''message'', ''claim is stale, expired, or inactive'')] []
     | VerificationError _ \<Rightarrow> plain_error ''422 Unprocessable Entity''
         [(''error'', ''invalid_result''), (''message'', ''result was rejected by verification'')] []
     | _ \<Rightarrow> if is_value_error x
           then plain_error ''400 Bad Request''
             [(''error'', ''invalid_request''), (''message'', ''request is malformed or invalid'')] []
           else plain_error ''500 Internal Server Error''
             [(''error'', ''internal_error''), (''message'', ''request could not be completed'')] [])"

definition http_call ::
  "env \<Rightarrow> adapter \<Rightarrow> (string \<Rightarrow> pyval result) \<Rightarrow> request \<Rightarrow> fixture \<Rightarrow> fixture \<times> response" where
  "http_call e ad parse rq s =
     (if rq_method rq \<noteq> ''POST''
      then (s, plain_error ''405 Method Not Allowed'' [(''error'', ''method_not_allowed'')] [(''Allow'', ''POST'')])
      else case dispatch e ad parse rq s of
          (s', Inr r) \<Rightarrow> (s', r)
        | (s', Inl x) \<Rightarrow> (s', error_response x))"

section \<open>The operation a request names\<close>

text \<open>
  What a request asks for, read off the request alone: a POST of JSON whose body has its declared length
  and is an object with exactly the keys of the operation its path names. Any other request names none;
  neither does a claim at a controller that did not admit the job.
\<close>

definition request_object :: "adapter \<Rightarrow> (string \<Rightarrow> pyval result) \<Rightarrow> request \<Rightarrow> (string \<times> pyval) list option" where
  "request_object ad parse rq =
     (if rq_method rq = ''POST'' \<and> content_type_ok (rq_content_type rq)
      then (case ebind (read_body ad rq) (decode parse) of Inl x \<Rightarrow> None | Inr kvs \<Rightarrow> Some kvs) else None)"

definition lease_operation :: "string \<Rightarrow> string \<Rightarrow> (string \<times> pyval) list \<Rightarrow> flash_op option" where
  "lease_operation name lid kvs =
     (if name = ''renew'' \<and> fst ` set kvs = {''lease_id''} then Some (FRenew lid)
      else if name = ''abandon'' \<and> fst ` set kvs = {''lease_id''} then Some (FAbandon lid)
      else if name = ''complete'' \<and> fst ` set kvs = {''lease_id'', ''result''}
        then map_option (FComplete lid) (map_of kvs ''result'')
      else None)"

definition named_operation :: "adapter \<Rightarrow> (string \<Rightarrow> pyval result) \<Rightarrow> string \<Rightarrow> request \<Rightarrow> flash_op option" where
  "named_operation ad parse job rq = (case request_object ad parse rq of
       None \<Rightarrow> None
     | Some kvs \<Rightarrow>
         if rq_path rq = ''/v1/jobs/claim'' then (if kvs = [] \<and> admitted ad then Some FClaim else None)
         else (case (operation_from_path job (rq_path rq), map_of kvs ''lease_id'') of
             (Some name, Some (PStr lid)) \<Rightarrow> lease_operation name lid kvs
           | _ \<Rightarrow> None))"

definition perform :: "env \<Rightarrow> flash_op option \<Rightarrow> fixture \<Rightarrow> fixture" where
  "perform e p s = (case p of None \<Rightarrow> s | Some q \<Rightarrow> flash_exec e q s)"

lemma fst_case_result:
  "fst (case x of (s', y) \<Rightarrow> case y of Inl a \<Rightarrow> (s', f s' a) | Inr b \<Rightarrow> (s', g s' b)) = fst x"
  "fst (case w of (s', z) \<Rightarrow> case z of None \<Rightarrow> (s', h s') | Some d \<Rightarrow> (s', k s' d)) = fst w"
  by (auto split: prod.splits sum.splits option.splits)

lemma handle_claim_performs:
  "fst (handle_claim e ad parse body s) =
     perform e (if admitted ad \<and> decode parse body = Inr [] then Some FClaim else None) s"
  by (cases "decode parse body") (auto simp: handle_claim_def claim_request_def guard_def perform_def fst_case_result)

lemma key_present: "map_of kvs k = Some v \<Longrightarrow> k \<in> fst ` set kvs"
  by (metis map_of_eq_None_iff option.distinct(1))

lemma lease_key: "map_of kvs k = Some v \<Longrightarrow> fst ` set kvs \<subseteq> {k} \<longleftrightarrow> fst ` set kvs = {k}"
  using key_present [of kvs k v] by blast

lemma lease_result_keys:
  "map_of kvs k = Some v \<Longrightarrow> map_of kvs l = Some w \<Longrightarrow> fst ` set kvs \<subseteq> {k, l} \<longleftrightarrow> fst ` set kvs = {k, l}"
  using key_present [of kvs k v] key_present [of kvs l w] by blast

lemma guard_Inr_eq: "ebind (guard b x) (\<lambda>_. Inr y) = Inr z \<longleftrightarrow> b \<and> y = z"
  by (auto simp: guard_def)

lemma complete_request_Inr:
  "complete_request kvs = Inr (lid, r) \<longleftrightarrow> map_of kvs ''lease_id'' = Some (PStr lid) \<and> map_of kvs ''result'' = Some r
     \<and> fst ` set kvs = {''lease_id'', ''result''}"
proof (cases "\<exists>l q. map_of kvs ''lease_id'' = Some (PStr l) \<and> map_of kvs ''result'' = Some q")
  case True
  then obtain l q where v: "map_of kvs ''lease_id'' = Some (PStr l)" "map_of kvs ''result'' = Some q" by blast
  show ?thesis unfolding complete_request_def v lease_result_keys [OF v] by (simp add: guard_Inr_eq conj_commute)
next
  case False
  then show ?thesis by (auto simp: complete_request_def split: option.split pyval.split)
qed

lemma lease_request_Inr:
  "lease_request kvs = Inr lid \<longleftrightarrow> map_of kvs ''lease_id'' = Some (PStr lid) \<and> fst ` set kvs = {''lease_id''}"
proof (cases "\<exists>l. map_of kvs ''lease_id'' = Some (PStr l)")
  case True
  then obtain l where v: "map_of kvs ''lease_id'' = Some (PStr l)" by blast
  show ?thesis unfolding lease_request_def v lease_key [OF v] by (simp add: guard_Inr_eq conj_commute)
next
  case False
  then show ?thesis by (auto simp: lease_request_def split: option.split pyval.split)
qed

lemma result_present: "fst ` set kvs = {''lease_id'', ''result''} \<Longrightarrow> \<exists>r. map_of kvs ''result'' = Some r"
  by (metis insertI1 insertI2 map_of_eq_None_iff not_None_eq)

definition operation_of :: "string \<Rightarrow> (string \<times> pyval) list \<Rightarrow> flash_op option" where
  "operation_of name kvs = (case map_of kvs ''lease_id'' of Some (PStr lid) \<Rightarrow> lease_operation name lid kvs | _ \<Rightarrow> None)"

lemma complete_named:
  "operation_of ''complete'' kvs = (case complete_request kvs of Inl x \<Rightarrow> None | Inr (lid, r) \<Rightarrow> Some (FComplete lid r))"
proof (cases "complete_request kvs")
  case (Inl x)
  then have "\<not> (map_of kvs ''lease_id'' = Some (PStr lid) \<and> fst ` set kvs = {''lease_id'', ''result''})" for lid
    using complete_request_Inr [of kvs lid] result_present [of kvs] by (metis Inr_Inl_False)
  with Inl show ?thesis by (simp add: operation_of_def lease_operation_def split: option.split pyval.split)
next
  case (Inr lr)
  then obtain lid r where "lr = (lid, r)" "complete_request kvs = Inr (lid, r)" by (cases lr) auto
  then show ?thesis unfolding complete_request_Inr by (simp add: operation_of_def lease_operation_def Inr)
qed

lemma lease_named:
  assumes "name \<noteq> ''complete''"
  shows "operation_of name kvs = (case lease_request kvs of Inl x \<Rightarrow> None
     | Inr lid \<Rightarrow> if name = ''renew'' then Some (FRenew lid) else if name = ''abandon'' then Some (FAbandon lid) else None)"
proof (cases "lease_request kvs")
  case (Inl x)
  then have "\<not> (map_of kvs ''lease_id'' = Some (PStr lid) \<and> fst ` set kvs = {''lease_id''})" for lid
    using lease_request_Inr [of kvs lid] by (metis Inr_Inl_False)
  with Inl assms show ?thesis by (simp add: operation_of_def lease_operation_def split: option.split pyval.split)
next
  case (Inr lid)
  then have "lease_request kvs = Inr lid" .
  then show ?thesis using assms unfolding lease_request_Inr by (simp add: operation_of_def lease_operation_def Inr)
qed

lemma handle_operation_performs:
  "fst (handle_operation e parse name body s) =
     perform e (case decode parse body of Inl x \<Rightarrow> None | Inr kvs \<Rightarrow> operation_of name kvs) s"
proof (cases "decode parse body")
  case (Inr kvs)
  show ?thesis
  proof (cases "name = ''complete''")
    case True
    with Inr show ?thesis
      by (cases "complete_request kvs") (auto simp: handle_operation_def complete_named perform_def fst_case_result)
  next
    case False
    with Inr show ?thesis
      by (cases "lease_request kvs") (auto simp: handle_operation_def lease_named perform_def fst_case_result)
  qed
qed (simp add: handle_operation_def perform_def)

lemma named_operation_eq:
  "named_operation ad parse job rq = (case request_object ad parse rq of
       None \<Rightarrow> None
     | Some kvs \<Rightarrow>
         if rq_path rq = ''/v1/jobs/claim'' then (if kvs = [] \<and> admitted ad then Some FClaim else None)
         else (case operation_from_path job (rq_path rq) of None \<Rightarrow> None | Some name \<Rightarrow> operation_of name kvs))"
  by (simp add: named_operation_def operation_of_def split: option.split)

lemma http_call_performs: "fst (http_call e ad parse rq s) = perform e (named_operation ad parse (fx_job_id s) rq) s"
proof -
  have "fst (http_call e ad parse rq s) = fst (dispatch e ad parse rq s)" if "rq_method rq = ''POST''"
    using that by (auto simp: http_call_def split: prod.splits sum.splits)
  moreover have "fst (dispatch e ad parse rq s) = perform e (named_operation ad parse (fx_job_id s) rq) s"
    if "rq_method rq = ''POST''"
  proof (cases "content_type_ok (rq_content_type rq) \<and> (\<exists>body. read_body ad rq = Inr body)")
    case True
    then obtain body where "content_type_ok (rq_content_type rq)" "read_body ad rq = Inr body" by blast
    with that show ?thesis
      by (cases "decode parse body") (auto simp: dispatch_def named_operation_eq request_object_def handle_claim_performs
        handle_operation_performs perform_def split: option.split)
  next
    case False
    with that show ?thesis
      by (cases "read_body ad rq") (auto simp: dispatch_def named_operation_eq request_object_def perform_def)
  qed
  ultimately show ?thesis
    by (cases "rq_method rq = ''POST''") (auto simp: http_call_def named_operation_eq request_object_def perform_def)
qed

text \<open>Serving a list of requests.\<close>

definition serve :: "env \<Rightarrow> adapter \<Rightarrow> (string \<Rightarrow> pyval result) \<Rightarrow> request \<Rightarrow> fixture \<Rightarrow> fixture" where
  "serve e ad parse rq s = fst (http_call e ad parse rq s)"

lemma serve_run:
  assumes "env_ok e" "flash_inv e s"
  shows "fold (serve e ad parse) rqs s = fold (flash_exec e) (List.map_filter (named_operation ad parse (fx_job_id s)) rqs) s"
  using assms(2)
proof (induction rqs arbitrary: s)
  case (Cons rq rqs)
  let ?p = "named_operation ad parse (fx_job_id s) rq"
  have step: "serve e ad parse rq s = perform e ?p s" by (simp add: serve_def http_call_performs)
  show ?case
  proof (cases ?p)
    case None
    with step Cons show ?thesis by (simp add: perform_def List.map_filter_def)
  next
    case (Some p)
    have "flash_inv e (flash_exec e p s)" "fx_job_id (flash_exec e p s) = fx_job_id s"
      using flash.inv_run [OF Cons.prems, of "[p]"] flash.rel_run [OF Cons.prems, of "[p]"] assms(1) by (simp_all add: frozen_def)
    with Some step Cons.IH show ?thesis by (simp add: perform_def List.map_filter_def)
  qed
qed (simp add: List.map_filter_def)

lemma no_claim_inert:
  "FClaim \<notin> set ps \<Longrightarrow> current s = None \<Longrightarrow> \<not> completed s \<Longrightarrow> fold (flash_exec e) ps s = s"
proof (induction ps)
  case (Cons p ps)
  then have "flash_exec e p s = s"
    by (cases p) (auto simp: renew_def abandon_def complete_def require_current_def split: sum.splits)
  with Cons show ?case by simp
qed simp

lemma claim_needs_admission: "named_operation ad parse job rq = Some FClaim \<Longrightarrow> admitted ad"
  by (auto simp: named_operation_def lease_operation_def split: option.splits pyval.splits if_split_asm)

section \<open>Properties\<close>

text \<open>
  C30. The HTTP boundary performs what the requests name and nothing else. Serving any list of requests,
  well formed or not, to a job that its operations may have left so leaves it exactly as performing, in
  order, the operations the requests name: one per well-formed POST with its lease id and result, none for
  any other request, no claim without admission. So the job's invariant holds and its history is kept; and
  at a controller that did not admit the job, a job without a current claim and without a result stays as it is.
\<close>

theorem http_refines_operations:
  assumes "env_ok e" "flash_inv e s"
  shows "fold (serve e ad parse) rqs s = fold (flash_exec e) (List.map_filter (named_operation ad parse (fx_job_id s)) rqs) s
    \<and> flash_inv e (fold (serve e ad parse) rqs s) \<and> frozen s (fold (serve e ad parse) rqs s)
    \<and> (\<not> admitted ad \<and> current s = None \<and> \<not> completed s \<longrightarrow> fold (serve e ad parse) rqs s = s)"
proof -
  let ?ps = "List.map_filter (named_operation ad parse (fx_job_id s)) rqs"
  have run: "fold (serve e ad parse) rqs s = fold (flash_exec e) ?ps s" by (rule serve_run [OF assms])
  have "FClaim \<notin> set ?ps" if "\<not> admitted ad"
    using that claim_needs_admission [of ad parse "fx_job_id s"] by (fastforce simp: List.map_filter_def)
  then have "fold (flash_exec e) ?ps s = s" if "\<not> admitted ad" "current s = None" "\<not> completed s"
    using that no_claim_inert by blast
  moreover have "flash_inv e (fold (flash_exec e) ?ps s)" "frozen s (fold (flash_exec e) ?ps s)"
    using assms flash.inv_run [of e s ?ps] flash.rel_run [of e s ?ps] by blast+
  ultimately show ?thesis unfolding run by blast
qed

definition sample_parse :: "string \<Rightarrow> pyval result" where
  "sample_parse body = Inr (PDict (if body = ''{}'' then [] else [(''lease_id'', PStr ''x''), (''result'', PInt 1)]))"

definition sample_request :: request where
  "sample_request = \<lparr>rq_method = ''POST'', rq_path = ''/v1/jobs/claim'', rq_content_type = ''application/json'',
     rq_content_length = Some ''2'', rq_input = ''{}''\<rparr>"

definition sample_completion :: request where
  "sample_completion = \<lparr>rq_method = ''POST'', rq_path = ''/v1/jobs/J/complete'', rq_content_type = ''application/json'',
     rq_content_length = Some ''3'', rq_input = ''...''\<rparr>"

lemma sample_named:
  "named_operation \<lparr>max_body_bytes = 16, admitted = True\<rparr> sample_parse ''J'' sample_request = Some FClaim"
  "named_operation \<lparr>max_body_bytes = 16, admitted = True\<rparr> sample_parse ''J'' sample_completion = Some (FComplete ''x'' (PInt 1))"
  by (simp_all add: named_operation_def request_object_def sample_request_def sample_completion_def content_type_ok_def lower_char_def
    strip_def is_space_def read_body_def is_digit_def decimal_def decode_def sample_parse_def guard_def lease_operation_def
    operation_from_path_def strip_char_def rstrip_char_def)

theorem http_refines_operations_witness:
  "fold (serve sample_env \<lparr>max_body_bytes = 16, admitted = False\<rparr> sample_parse) [sample_request, sample_completion] sample_job = sample_job
    \<and> accepted_result (fold (serve sample_env \<lparr>max_body_bytes = 16, admitted = True\<rparr> sample_parse)
        [sample_request\<lparr>rq_method := ''GET''\<rparr>, sample_request, sample_completion] sample_job) = Some (PInt 1)"
proof -
  have "named_operation \<lparr>max_body_bytes = 16, admitted = True\<rparr> sample_parse ''J'' (sample_request\<lparr>rq_method := ''GET''\<rparr>) = None"
    by (simp add: named_operation_def request_object_def)
  then have ops: "List.map_filter (named_operation \<lparr>max_body_bytes = 16, admitted = True\<rparr> sample_parse (fx_job_id sample_job))
      [sample_request\<lparr>rq_method := ''GET''\<rparr>, sample_request, sample_completion] = [FClaim, FComplete ''x'' (PInt 1)]"
    by (simp add: List.map_filter_def sample_named sample_job_def)
  have "accepted_result (fold (flash_exec sample_env) [FClaim, FComplete ''x'' (PInt 1)] sample_job) = Some (PInt 1)"
    by (simp add: sample_run json_loads_def)
  with http_refines_operations [OF sample_env_ok sample_job_inv, of "\<lparr>max_body_bytes = 16, admitted = True\<rparr>" sample_parse
      "[sample_request\<lparr>rq_method := ''GET''\<rparr>, sample_request, sample_completion]"]
  have completes: "accepted_result (fold (serve sample_env \<lparr>max_body_bytes = 16, admitted = True\<rparr> sample_parse)
        [sample_request\<lparr>rq_method := ''GET''\<rparr>, sample_request, sample_completion] sample_job) = Some (PInt 1)"
    unfolding ops by metis
  have "\<not> admitted \<lparr>max_body_bytes = 16, admitted = False\<rparr> \<and> current sample_job = None \<and> \<not> completed sample_job"
    by (simp add: sample_job_def)
  with http_refines_operations [OF sample_env_ok sample_job_inv, of "\<lparr>max_body_bytes = 16, admitted = False\<rparr>" sample_parse
      "[sample_request, sample_completion]"] completes
  show ?thesis by blast
qed

definition sent :: "response result \<Rightarrow> bool" where
  "sent r \<longleftrightarrow> (\<forall>x. r = Inr x \<longrightarrow> rs_status x \<in> {''200 OK'', ''404 Not Found''}
     \<and> (\<exists>t. rs_payload x = Some t \<and> json_dumps t = Inr t))"

lemma sent_respond [simp]: "status \<in> {''200 OK'', ''404 Not Found''} \<Longrightarrow> sent (respond status (Some p) extra)"
  by (auto simp: sent_def respond_def dest: json_dumps_idem)

lemma sent_Inl [simp]: "sent (Inl x)"
  by (simp add: sent_def)

lemma dispatch_sent: "sent (snd (dispatch e ad parse rq s))"
  by (auto simp: dispatch_def handle_claim_def handle_operation_def split: sum.split option.split prod.split)

lemma error_payload:
  "json_dumps (PDict [(''error'', PStr a)]) = Inr (PDict [(''error'', PStr a)])"
  "json_dumps (PDict [(''error'', PStr a), (''message'', PStr b)]) = Inr (PDict [(''error'', PStr a), (''message'', PStr b)])"
  by (simp_all add: less_char_def less_eq_char_def)

text \<open>
  C31. Every request gets one well-formed answer and no exception escapes: the status is one of the
  eight the adapter uses and the body is finite JSON. A request that is not a POST is answered 405
  without touching the job, and an adapter without admission answers every valid claim with
  \<open>declined\<close>.
\<close>

theorem http_always_answers:
  "rs_status (snd (http_call e ad parse rq s)) \<in> {''200 OK'', ''400 Bad Request'', ''404 Not Found'',
      ''405 Method Not Allowed'', ''409 Conflict'', ''413 Payload Too Large'', ''422 Unprocessable Entity'',
      ''500 Internal Server Error''}
    \<and> (\<exists>t. rs_payload (snd (http_call e ad parse rq s)) = Some t \<and> json_dumps t = Inr t)
    \<and> (rq_method rq \<noteq> ''POST'' \<longrightarrow> fst (http_call e ad parse rq s) = s
        \<and> rs_status (snd (http_call e ad parse rq s)) = ''405 Method Not Allowed'')"
proof (cases "rq_method rq = ''POST''")
  case True
  obtain s' r where d: "dispatch e ad parse rq s = (s', r)" by fastforce
  show ?thesis
  proof (cases r)
    case (Inl x)
    have "json_dumps (the (rs_payload (error_response x))) = Inr (the (rs_payload (error_response x)))"
      "rs_payload (error_response x) \<noteq> None"
      by (cases x; simp add: error_response_def plain_error_def less_char_def less_eq_char_def)+
    moreover have "rs_status (error_response x) \<in> {''400 Bad Request'', ''409 Conflict'', ''413 Payload Too Large'',
        ''422 Unprocessable Entity'', ''500 Internal Server Error''}"
      by (cases x) (simp_all add: error_response_def plain_error_def)
    ultimately show ?thesis using True d Inl by (auto simp: http_call_def)
  next
    case (Inr x)
    with dispatch_sent [of e ad parse rq s] d True show ?thesis by (auto simp: http_call_def sent_def)
  qed
next
  case False
  then show ?thesis by (simp add: http_call_def plain_error_def)
qed

theorem http_always_answers_witness:
  "rs_status (snd (http_call sample_env \<lparr>max_body_bytes = 16, admitted = True\<rparr> sample_parse
     (sample_request\<lparr>rq_method := ''GET''\<rparr>) sample_job)) = ''405 Method Not Allowed''"
  using http_always_answers [of sample_env "\<lparr>max_body_bytes = 16, admitted = True\<rparr>" sample_parse
     "sample_request\<lparr>rq_method := ''GET''\<rparr>" sample_job]
  by simp

text \<open>
  A claim can be lost. With an unbounded lease and an unbounded budget, both of which the
  constructors accept, the fixture grants the claim and stores the new delivery, but its infinite
  expiry is not JSON, so the worker is answered 400 and never learns the lease that now blocks every
  other claim.
\<close>

theorem infinite_lease_claim_is_lost:
  "\<exists>s s' r d. make_fixture sample_env ''J'' (sample_contract\<lparr>budget := (budget sample_contract)\<lparr>wall_seconds := PInf\<rparr>\<rparr>) PInf = Inr s
    \<and> validate_contract (fx_contract s) = Inr (fx_contract s)
    \<and> http_call sample_env \<lparr>max_body_bytes = 16, admitted = True\<rparr> sample_parse sample_request s = (s', r)
    \<and> rs_status r = ''400 Bad Request'' \<and> current s' = Some d \<and> d_expires_at d = PInf \<and> attempt_number s' = 1"
proof -
  let ?c = "sample_contract\<lparr>budget := (budget sample_contract)\<lparr>wall_seconds := PInf\<rparr>\<rparr>"
  let ?s = "sample_job\<lparr>fx_contract := ?c, lease_seconds := PInf\<rparr>"
  have "make_fixture sample_env ''J'' ?c PInf = Inr ?s"
    by (simp add: make_fixture_def sample_env_def sample_job_def)
  moreover have "validate_contract ?c = Inr ?c"
    using sample_contract_valid by (auto simp: validate_contract_def validate_budget_def at_least_one_def sample_contract_def)
  moreover have "\<exists>s' r d. http_call sample_env \<lparr>max_body_bytes = 16, admitted = True\<rparr> sample_parse sample_request ?s = (s', r)
      \<and> rs_status r = ''400 Bad Request'' \<and> current s' = Some d \<and> d_expires_at d = PInf \<and> attempt_number s' = 1"
    by (simp add: http_call_def dispatch_def sample_request_def content_type_ok_def lower_char_def strip_def is_space_def
      read_body_def is_digit_def decimal_def handle_claim_def decode_def sample_parse_def claim_request_def
      delivery_payload_def respond_def sample_run error_response_def plain_error_def)
  ultimately show ?thesis by auto
qed

end
