(* ===== verification/Work_Progress.thy ===== *)
theory Work_Progress
  imports PyData LH_Prelude
begin

text \<open>
  Progress classification and bounded recovery of one work attempt (\<open>work/progress.py\<close>).

  \<open>observe\<close> is \<open>ProgressMonitor.observe\<close>: a step and the monitor's state give an optional
  intervention and the next state. The state keeps bounded windows and counters only; the
  second half shows that they are exactly summaries of the whole history of steps, so that what
  the monitor reports can be read off the history.

  Parameters: \<open>digest\<close> is SHA-256 of \<open>"{action}:{canonical}"\<close>, given the action and the canonical
  JSON tree; \<open>str_of\<close> is \<open>str\<close> on objects JSON cannot encode (\<open>default=str\<close>).
\<close>

section \<open>Steps, policy and state\<close>

datatype progress_kind = INFORMATION | STATE_CHANGE | VERIFICATION | RECOVERY | NO_PROGRESS

datatype step_outcome = S_SUCCESS | S_FAILURE | S_UNKNOWN

record attempt_step =
  step_id :: string
  step_action :: string
  step_arguments :: "(string \<times> pyval) list"
  step_outcome :: step_outcome
  step_progress :: progress_kind
  result_fingerprint :: "string option"

definition validate_step :: "attempt_step \<Rightarrow> attempt_step result" where
  "validate_step s = ebind (guard (step_id s \<noteq> [] \<and> step_action s \<noteq> []) (ValueError ''string_too_short'')) (\<lambda>_. Inr s)"

record progress_policy =
  recent_window :: int
  repeated_call_limit :: int
  consecutive_limit :: int
  repeated_failure_limit :: int
  max_no_progress_steps :: int

definition default_policy :: progress_policy where
  "default_policy = \<lparr>recent_window = 8, repeated_call_limit = 3, consecutive_limit = 3,
     repeated_failure_limit = 2, max_no_progress_steps = 6\<rparr>"

definition policy_ok :: "progress_policy \<Rightarrow> bool" where
  "policy_ok p \<longleftrightarrow> 1 \<le> recent_window p \<and> 2 \<le> repeated_call_limit p \<and> 2 \<le> consecutive_limit p
     \<and> 2 \<le> repeated_failure_limit p \<and> 1 \<le> max_no_progress_steps p"

record intervention =
  iv_reason :: string
  iv_signature :: string
  iv_recent_count :: int
  iv_consecutive_count :: int
  iv_no_progress_steps :: int
  terminate_attempt :: bool

record progress_state =
  pm_signatures :: "string list"
  last_signature :: "string option"
  consecutive_count :: int
  no_progress_steps :: int
  failure_pairs :: "string list"
  interventions :: int

definition initial_progress :: progress_state where
  "initial_progress = \<lparr>pm_signatures = [], last_signature = None, consecutive_count = 0,
     no_progress_steps = 0, failure_pairs = [], interventions = 0\<rparr>"

section \<open>Signatures\<close>

text \<open>
  \<open>json.dumps(arguments, sort_keys=True, default=str)\<close> as the tree of the text it writes. Unlike
  \<open>json_dumps\<close> it is total: infinities and NaN are written as tokens and other objects as \<open>str\<close>.
\<close>

fun dumps_default :: "(nat \<Rightarrow> string) \<Rightarrow> pyval \<Rightarrow> pyval" where
  "dumps_default str_of (PList vs) = PList (map (dumps_default str_of) vs)"
| "dumps_default str_of (PTuple vs) = PList (map (dumps_default str_of) vs)"
| "dumps_default str_of (PDict kvs) = PDict (sort_key fst (map (\<lambda>(k, v). (k, dumps_default str_of v)) kvs))"
| "dumps_default str_of (POpaque n) = PStr (str_of n)"
| "dumps_default str_of v = v"

definition stable_signature :: "(string \<times> pyval \<Rightarrow> string) \<Rightarrow> (nat \<Rightarrow> string) \<Rightarrow> string \<Rightarrow> (string \<times> pyval) list \<Rightarrow> string" where
  "stable_signature digest str_of action arguments = digest (action, dumps_default str_of (PDict arguments))"

definition step_signature :: "(string \<times> pyval \<Rightarrow> string) \<Rightarrow> (nat \<Rightarrow> string) \<Rightarrow> attempt_step \<Rightarrow> string" where
  "step_signature digest str_of s = stable_signature digest str_of (step_action s) (step_arguments s)"

definition fingerprint_or_unknown :: "string option \<Rightarrow> string" where
  "fingerprint_or_unknown r = (case r of None \<Rightarrow> ''unknown'' | Some f \<Rightarrow> if f = [] then ''unknown'' else f)"

definition failure_pair_signature :: "(string \<times> pyval \<Rightarrow> string) \<Rightarrow> (nat \<Rightarrow> string) \<Rightarrow> attempt_step \<Rightarrow> string option" where
  "failure_pair_signature digest str_of s =
     (if step_outcome s \<noteq> S_FAILURE then None
      else Some (step_signature digest str_of s @ '':'' @ fingerprint_or_unknown (result_fingerprint s)))"

section \<open>The monitor\<close>

text \<open>\<open>xs[-n:]\<close>.\<close>

definition neg_slice :: "int \<Rightarrow> 'a list \<Rightarrow> 'a list" where
  "neg_slice n xs = (if 0 < n then last_n (nat n) xs else drop (nat (- n)) xs)"

definition resets_budget :: "attempt_step \<Rightarrow> bool" where
  "resets_budget s \<longleftrightarrow> step_progress s = STATE_CHANGE \<or> step_progress s = RECOVERY
     \<or> step_progress s = VERIFICATION \<and> step_outcome s = S_SUCCESS"

definition push_failure :: "progress_policy \<Rightarrow> string option \<Rightarrow> string list \<Rightarrow> string list \<times> int" where
  "push_failure p f pairs = (case f of None \<Rightarrow> (pairs, 0)
     | Some x \<Rightarrow> if x = [] then (pairs, 0)
         else let pairs' = neg_slice (recent_window p) (pairs @ [x]) in (pairs', int (count_list pairs' x)))"

definition choose_reason :: "progress_policy \<Rightarrow> progress_kind \<Rightarrow> int \<Rightarrow> int \<Rightarrow> int \<Rightarrow> int \<Rightarrow> string option" where
  "choose_reason p kind failures consecutive recent idle =
     (if repeated_failure_limit p \<le> failures then Some ''repeated_failure_pair''
      else if consecutive_limit p \<le> consecutive then Some ''consecutive_repeated_action''
      else if repeated_call_limit p \<le> recent \<and> kind \<noteq> VERIFICATION then Some ''repeated_action''
      else if max_no_progress_steps p \<le> idle then Some ''no_progress_budget_exhausted''
      else None)"

definition observe :: "(string \<times> pyval \<Rightarrow> string) \<Rightarrow> (nat \<Rightarrow> string) \<Rightarrow> progress_policy \<Rightarrow> attempt_step
    \<Rightarrow> progress_state \<Rightarrow> intervention option \<times> progress_state" where
  "observe digest str_of p s st =
     (let sig = step_signature digest str_of s;
          recent = neg_slice (recent_window p) (pm_signatures st);
          recent_count = int (count_list recent sig) + 1;
          consecutive = (if last_signature st = Some sig then consecutive_count st + 1 else 1);
          signatures = neg_slice (recent_window p) (pm_signatures st @ [sig]);
          idle = (if resets_budget s then 0 else no_progress_steps st + 1);
          (pairs, failures) = push_failure p (failure_pair_signature digest str_of s) (failure_pairs st);
          st' = st\<lparr>pm_signatures := signatures, last_signature := Some sig, consecutive_count := consecutive,
            no_progress_steps := idle, failure_pairs := pairs\<rparr>
      in case choose_reason p (step_progress s) failures consecutive recent_count idle of
           None \<Rightarrow> (None, st')
         | Some r \<Rightarrow> (Some \<lparr>iv_reason = r, iv_signature = sig, iv_recent_count = recent_count,
               iv_consecutive_count = consecutive, iv_no_progress_steps = idle,
               terminate_attempt = (max_no_progress_steps p \<le> idle)\<rparr>,
             st'\<lparr>interventions := interventions st + 1\<rparr>))"

definition recovery_event_payload :: "progress_state \<Rightarrow> string \<Rightarrow> string \<Rightarrow> intervention \<Rightarrow> pyval" where
  "recovery_event_payload st cid aid iv = PDict
     [(''contract_id'', PStr cid), (''attempt_id'', PStr aid), (''reason'', PStr (iv_reason iv)),
      (''signature'', PStr (iv_signature iv)), (''recent_count'', PInt (iv_recent_count iv)),
      (''consecutive_count'', PInt (iv_consecutive_count iv)),
      (''no_progress_steps'', PInt (iv_no_progress_steps iv)),
      (''terminate_attempt'', PBool (terminate_attempt iv)),
      (''intervention_count'', PInt (interventions st))]"

definition monitor_step :: "(string \<times> pyval \<Rightarrow> string) \<Rightarrow> (nat \<Rightarrow> string) \<Rightarrow> progress_policy \<Rightarrow> attempt_step
    \<Rightarrow> progress_state \<Rightarrow> progress_state" where
  "monitor_step digest str_of p s st = snd (observe digest str_of p s st)"

definition monitor :: "(string \<times> pyval \<Rightarrow> string) \<Rightarrow> (nat \<Rightarrow> string) \<Rightarrow> progress_policy \<Rightarrow> attempt_step list
    \<Rightarrow> progress_state" where
  "monitor digest str_of p steps = fold (monitor_step digest str_of p) steps initial_progress"

section \<open>The state summarises the history\<close>

text \<open>How many of the last elements in a row satisfy a predicate.\<close>

definition trailing :: "('a \<Rightarrow> bool) \<Rightarrow> 'a list \<Rightarrow> nat" where
  "trailing P xs = length (takeWhile P (rev xs))"

lemma trailing_Nil [simp]: "trailing P [] = 0"
  by (simp add: trailing_def)

lemma trailing_snoc [simp]: "trailing P (xs @ [x]) = (if P x then trailing P xs + 1 else 0)"
  by (simp add: trailing_def)

lemma trailing_append_all: "\<forall>y \<in> set ys. P y \<Longrightarrow> trailing P (xs @ ys) = length ys + trailing P xs"
  by (induction ys rule: rev_induct) (simp_all flip: append_assoc)

lemma trailing_append_same: "trailing P xs = length xs \<longleftrightarrow> (\<forall>x \<in> set xs. P x)"
  by (metis trailing_def length_rev set_rev set_takeWhileD takeWhile_eq_all_conv takeWhile_eq_take take_all_iff order_refl)

lemma neg_slice_pos: "1 \<le> n \<Longrightarrow> neg_slice n xs = last_n (nat n) xs"
  by (simp add: neg_slice_def)

lemma last_n_snoc: "0 < n \<Longrightarrow> last_n n (last_n n xs @ [x]) = last_n n (xs @ [x])"
  by (cases "length xs \<le> n") (auto simp: last_n_def Suc_diff_le)

lemma last_n_last_n [simp]: "0 < n \<Longrightarrow> last_n n (last_n n xs) = last_n n xs"
  by (simp add: last_n_def)

lemma last_n_Nil [simp]: "last_n n [] = []"
  by (simp add: last_n_def)

text \<open>What the state must hold after a history of steps.\<close>

definition summarises :: "(string \<times> pyval \<Rightarrow> string) \<Rightarrow> (nat \<Rightarrow> string) \<Rightarrow> progress_policy \<Rightarrow> attempt_step list
    \<Rightarrow> progress_state \<Rightarrow> bool" where
  "summarises digest str_of p h st \<longleftrightarrow>
     pm_signatures st = last_n (nat (recent_window p)) (map (step_signature digest str_of) h)
   \<and> last_signature st = (if h = [] then None else Some (step_signature digest str_of (last h)))
   \<and> consecutive_count st = int (trailing (\<lambda>s. Some (step_signature digest str_of s) = last_signature st) h)
   \<and> no_progress_steps st = int (trailing (\<lambda>s. \<not> resets_budget s) h)
   \<and> failure_pairs st = last_n (nat (recent_window p)) (List.map_filter (failure_pair_signature digest str_of) h)"

lemma map_filter_snoc:
  "List.map_filter f (xs @ [x]) = List.map_filter f xs @ (case f x of None \<Rightarrow> [] | Some y \<Rightarrow> [y])"
  by (simp add: List.map_filter_def split: option.splits)

lemma failure_pair_nonempty: "failure_pair_signature digest str_of s \<noteq> Some []"
  by (simp add: failure_pair_signature_def)

lemma monitor_step_fields:
  fixes digest :: "string \<times> pyval \<Rightarrow> string" and str_of :: "nat \<Rightarrow> string"
  defines "sg \<equiv> step_signature digest str_of"
  shows "pm_signatures (monitor_step digest str_of p s st) = neg_slice (recent_window p) (pm_signatures st @ [sg s])"
    and "last_signature (monitor_step digest str_of p s st) = Some (sg s)"
    and "consecutive_count (monitor_step digest str_of p s st)
      = (if last_signature st = Some (sg s) then consecutive_count st + 1 else 1)"
    and "no_progress_steps (monitor_step digest str_of p s st) = (if resets_budget s then 0 else no_progress_steps st + 1)"
    and "failure_pairs (monitor_step digest str_of p s st)
      = fst (push_failure p (failure_pair_signature digest str_of s) (failure_pairs st))"
    and "interventions (monitor_step digest str_of p s st)
      = interventions st + (if fst (observe digest str_of p s st) = None then 0 else 1)"
  by (simp_all add: monitor_step_def observe_def sg_def Let_def split_def split: option.splits)

lemma summarises_initial: "summarises digest str_of p [] initial_progress"
  by (simp add: summarises_def initial_progress_def List.map_filter_def)

lemma summarises_step:
  assumes "policy_ok p" "summarises digest str_of p h st"
  shows "summarises digest str_of p (h @ [s]) (monitor_step digest str_of p s st)"
proof -
  have w: "1 \<le> recent_window p" "0 < nat (recent_window p)" using assms(1) by (auto simp: policy_ok_def)
  have "fst (push_failure p (failure_pair_signature digest str_of s) (failure_pairs st))
      = last_n (nat (recent_window p)) (List.map_filter (failure_pair_signature digest str_of) (h @ [s]))"
    using assms(2) w failure_pair_nonempty [of digest str_of s]
    by (auto simp: summarises_def push_failure_def map_filter_snoc neg_slice_pos last_n_snoc Let_def split: option.splits)
  moreover have "trailing (\<lambda>t. step_signature digest str_of t = step_signature digest str_of s) h = 0"
    if "last_signature st \<noteq> Some (step_signature digest str_of s)"
    using that assms(2) by (cases h rule: rev_cases) (auto simp: summarises_def)
  moreover have "consecutive_count st = int (trailing (\<lambda>t. step_signature digest str_of t = step_signature digest str_of s) h)"
    if "last_signature st = Some (step_signature digest str_of s)"
    using that assms(2) by (simp add: summarises_def)
  ultimately show ?thesis
    using assms(2) w
    by (auto simp: summarises_def monitor_step_fields neg_slice_pos last_n_snoc)
qed

lemma summarises_monitor: "policy_ok p \<Longrightarrow> summarises digest str_of p h (monitor digest str_of p h)"
  by (induction h rule: rev_induct) (auto simp: monitor_def summarises_initial summarises_step)

text \<open>The monitor as a machine: its windows stay bounded and its counters never decrease below zero.\<close>

definition progress_inv :: "progress_policy \<Rightarrow> progress_state \<Rightarrow> bool" where
  "progress_inv p st \<longleftrightarrow> int (length (pm_signatures st)) \<le> recent_window p \<and> int (length (failure_pairs st)) \<le> recent_window p
     \<and> 0 \<le> no_progress_steps st \<and> 0 \<le> consecutive_count st \<and> 0 \<le> interventions st"

lemma length_neg_slice: "1 \<le> n \<Longrightarrow> int (length (neg_slice n xs)) \<le> n"
  by (simp add: neg_slice_pos length_last_n)

lemma progress_inv_step: "policy_ok p \<Longrightarrow> progress_inv p st \<Longrightarrow> progress_inv p (monitor_step digest str_of p s st)"
  by (auto simp: progress_inv_def monitor_step_fields policy_ok_def length_neg_slice push_failure_def Let_def
      split: option.splits)

interpretation progress: monotone_machine "monitor_step digest str_of p" "\<lambda>_. policy_ok p" "progress_inv p"
    "\<lambda>s t. interventions s \<le> interventions t" for digest str_of p
  by unfold_locales (auto simp: progress_inv_step monitor_step_fields)

section \<open>What is reported\<close>

text \<open>The numbers an observation compares with the limits, read off the history.\<close>

definition same_call :: "(string \<times> pyval \<Rightarrow> string) \<Rightarrow> (nat \<Rightarrow> string) \<Rightarrow> attempt_step \<Rightarrow> attempt_step \<Rightarrow> bool" where
  "same_call digest str_of s t \<longleftrightarrow> step_signature digest str_of t = step_signature digest str_of s"

definition recent_calls :: "(string \<times> pyval \<Rightarrow> string) \<Rightarrow> (nat \<Rightarrow> string) \<Rightarrow> progress_policy \<Rightarrow> attempt_step list \<Rightarrow> attempt_step \<Rightarrow> int" where
  "recent_calls digest str_of p h s = int (length (filter (same_call digest str_of s) (last_n (nat (recent_window p)) h))) + 1"

definition recent_failures :: "(string \<times> pyval \<Rightarrow> string) \<Rightarrow> (nat \<Rightarrow> string) \<Rightarrow> progress_policy \<Rightarrow> attempt_step list \<Rightarrow> attempt_step \<Rightarrow> int" where
  "recent_failures digest str_of p h s = (case failure_pair_signature digest str_of s of None \<Rightarrow> 0
     | Some x \<Rightarrow> int (count_list (last_n (nat (recent_window p)) (List.map_filter (failure_pair_signature digest str_of) (h @ [s]))) x))"

definition idle_steps :: "attempt_step list \<Rightarrow> int" where
  "idle_steps h = int (trailing (\<lambda>t. \<not> resets_budget t) h)"

lemma last_n_map: "last_n n (map f xs) = map f (last_n n xs)"
  by (simp add: last_n_def drop_map)

lemma count_list_filter_map: "count_list (map f xs) (f s) = length (filter (\<lambda>t. f t = f s) xs)"
  by (induction xs) auto

lemma observe_on_summary:
  assumes "policy_ok p" "summarises digest str_of p h st"
  shows "fst (observe digest str_of p s st) =
    map_option (\<lambda>r. \<lparr>iv_reason = r, iv_signature = step_signature digest str_of s, iv_recent_count = recent_calls digest str_of p h s,
        iv_consecutive_count = int (trailing (same_call digest str_of s) (h @ [s])),
        iv_no_progress_steps = idle_steps (h @ [s]), terminate_attempt = (max_no_progress_steps p \<le> idle_steps (h @ [s]))\<rparr>)
     (choose_reason p (step_progress s) (recent_failures digest str_of p h s)
        (int (trailing (same_call digest str_of s) (h @ [s]))) (recent_calls digest str_of p h s) (idle_steps (h @ [s])))"
proof -
  let ?sg = "step_signature digest str_of"
  let ?w = "nat (recent_window p)"
  have w: "1 \<le> recent_window p" "0 < ?w" using assms(1) by (auto simp: policy_ok_def)
  have recent: "int (count_list (neg_slice (recent_window p) (pm_signatures st)) (?sg s)) + 1 = recent_calls digest str_of p h s"
    using assms(2) w by (simp add: summarises_def neg_slice_pos recent_calls_def last_n_map count_list_filter_map same_call_def [abs_def])
  have summary: "summarises digest str_of p (h @ [s]) (monitor_step digest str_of p s st)"
    by (rule summarises_step [OF assms])
  have consecutive: "(if last_signature st = Some (?sg s) then consecutive_count st + 1 else 1)
      = int (trailing (same_call digest str_of s) (h @ [s]))"
  proof -
    have "consecutive_count (monitor_step digest str_of p s st)
        = int (trailing (\<lambda>t. Some (?sg t) = last_signature (monitor_step digest str_of p s st)) (h @ [s]))"
      using summary unfolding summarises_def by blast
    then show ?thesis by (simp add: monitor_step_fields same_call_def [abs_def])
  qed
  have idle: "(if resets_budget s then 0 else no_progress_steps st + 1) = idle_steps (h @ [s])"
    using assms(2) by (simp add: summarises_def idle_steps_def)
  have failures: "snd (push_failure p (failure_pair_signature digest str_of s) (failure_pairs st)) = recent_failures digest str_of p h s"
    using assms(2) w failure_pair_nonempty [of digest str_of s]
    by (auto simp: summarises_def push_failure_def recent_failures_def map_filter_snoc neg_slice_pos last_n_snoc Let_def split: option.splits)
  show ?thesis
    unfolding observe_def Let_def split_def recent consecutive idle failures
    by (simp split: option.splits)
qed

lemma choose_reason_None:
  "choose_reason p kind failures consecutive recent idle = None \<longleftrightarrow>
     failures < repeated_failure_limit p \<and> consecutive < consecutive_limit p
     \<and> (recent < repeated_call_limit p \<or> kind = VERIFICATION) \<and> idle < max_no_progress_steps p"
  by (auto simp: choose_reason_def)

definition sample_step :: "string \<Rightarrow> step_outcome \<Rightarrow> progress_kind \<Rightarrow> attempt_step" where
  "sample_step a out kind = \<lparr>step_id = ''s'', step_action = a, step_arguments = [(''path'', PStr ''src'')],
     step_outcome = out, step_progress = kind, result_fingerprint = None\<rparr>"

lemma default_policy_ok: "policy_ok default_policy"
  by (simp add: policy_ok_def default_policy_def)

text \<open>
  C19. The monitor reports what the history says. After any history, observing a step intervenes if and
  only if, counted over the history itself, the same failing call with the same result was seen often
  enough in the recent failures, or the call was repeated without interruption, or the call (not a
  verification) recurs within the recent window, or the steps since the last progress exhaust the
  budget; the report carries those numbers.
\<close>

theorem monitor_reports_history:
  assumes "policy_ok p"
  shows "(fst (observe digest str_of p s (monitor digest str_of p h)) \<noteq> None \<longleftrightarrow>
        repeated_failure_limit p \<le> recent_failures digest str_of p h s
      \<or> consecutive_limit p \<le> int (trailing (same_call digest str_of s) (h @ [s]))
      \<or> (repeated_call_limit p \<le> recent_calls digest str_of p h s \<and> step_progress s \<noteq> VERIFICATION)
      \<or> max_no_progress_steps p \<le> idle_steps (h @ [s]))
    \<and> (\<forall>iv. fst (observe digest str_of p s (monitor digest str_of p h)) = Some iv \<longrightarrow>
        iv_recent_count iv = recent_calls digest str_of p h s
        \<and> iv_consecutive_count iv = int (trailing (same_call digest str_of s) (h @ [s]))
        \<and> iv_no_progress_steps iv = idle_steps (h @ [s]))"
  unfolding observe_on_summary [OF assms summarises_monitor [OF assms]]
  using choose_reason_None [of p "step_progress s" "recent_failures digest str_of p h s"]
  by (auto simp: not_le)

theorem monitor_reports_history_witness:
  "fst (observe (\<lambda>(a, v). a) (\<lambda>_. []) default_policy (sample_step ''ls'' S_SUCCESS INFORMATION)
      (monitor (\<lambda>(a, v). a) (\<lambda>_. []) default_policy (replicate 2 (sample_step ''ls'' S_SUCCESS INFORMATION)))) \<noteq> None"
proof -
  have "consecutive_limit default_policy \<le> int (trailing (same_call (\<lambda>(a, v). a) (\<lambda>_. []) (sample_step ''ls'' S_SUCCESS INFORMATION))
      (replicate 2 (sample_step ''ls'' S_SUCCESS INFORMATION) @ [sample_step ''ls'' S_SUCCESS INFORMATION]))"
    by (simp add: trailing_def same_call_def default_policy_def)
  then show ?thesis
    using monitor_reports_history [OF default_policy_ok, of "\<lambda>(a, v). a" "\<lambda>_. []"] by blast
qed

lemma trailing_ge_iff:
  "0 < n \<Longrightarrow> n \<le> trailing P xs \<longleftrightarrow> n \<le> length xs \<and> (\<forall>x \<in> set (last_n n xs). P x)"
proof (induction xs arbitrary: n rule: rev_induct)
  case Nil
  then show ?case by simp
next
  case (snoc x xs)
  have split: "last_n n (xs @ [x]) = (if n = 1 then [x] else last_n (n - 1) xs @ [x])" if "n \<le> length (xs @ [x])"
    using snoc.prems that by (auto simp: last_n_def)
  show ?case
  proof (cases "n = 1")
    case True
    with split show ?thesis by simp
  next
    case False
    with snoc.IH [of "n - 1"] snoc.prems split show ?thesis by (cases "n \<le> length xs + 1") auto
  qed
qed

lemma terminates_iff_idle:
  assumes "policy_ok p"
  shows "(\<exists>iv. fst (observe digest str_of p s (monitor digest str_of p h)) = Some iv \<and> terminate_attempt iv) \<longleftrightarrow>
    max_no_progress_steps p \<le> int (length (h @ [s]))
    \<and> (\<forall>t \<in> set (last_n (nat (max_no_progress_steps p)) (h @ [s])). \<not> resets_budget t)"
proof -
  have "(\<exists>iv. fst (observe digest str_of p s (monitor digest str_of p h)) = Some iv \<and> terminate_attempt iv)
      \<longleftrightarrow> max_no_progress_steps p \<le> idle_steps (h @ [s])"
    unfolding observe_on_summary [OF assms summarises_monitor [OF assms]] by (auto simp: choose_reason_def)
  also have "\<dots> \<longleftrightarrow> nat (max_no_progress_steps p) \<le> trailing (\<lambda>t. \<not> resets_budget t) (h @ [s])"
    unfolding idle_steps_def by linarith
  also have "\<dots> \<longleftrightarrow> nat (max_no_progress_steps p) \<le> length (h @ [s])
      \<and> (\<forall>t \<in> set (last_n (nat (max_no_progress_steps p)) (h @ [s])). \<not> resets_budget t)"
    using assms by (intro trailing_ge_iff) (simp add: policy_ok_def)
  finally show ?thesis by (simp add: nat_le_iff)
qed

text \<open>
  An attempt is told to stop exactly when it has gone its whole budget without progress. An
  observation terminates the attempt if and only if at least \<open>max_no_progress_steps\<close> steps were
  taken and none of the last \<open>max_no_progress_steps\<close> changed state, recovered or verified
  successfully; whatever came before, and whatever else is reported.
\<close>

theorem monitor_terminates_iff_idle:
  assumes "policy_ok p"
  shows "(\<exists>iv. fst (observe digest str_of p s (monitor digest str_of p h)) = Some iv \<and> terminate_attempt iv) \<longleftrightarrow>
    max_no_progress_steps p \<le> int (length (h @ [s]))
    \<and> (\<forall>t \<in> set (last_n (nat (max_no_progress_steps p)) (h @ [s])). \<not> resets_budget t)"
  using assms by (rule terminates_iff_idle)

theorem monitor_terminates_iff_idle_witness:
  "\<exists>iv. fst (observe (\<lambda>(a, v). a) (\<lambda>_. []) default_policy (sample_step ''f'' S_SUCCESS INFORMATION)
      (monitor (\<lambda>(a, v). a) (\<lambda>_. []) default_policy (map (\<lambda>a. sample_step a S_SUCCESS INFORMATION) [''a'', ''b'', ''c'', ''d'', ''e''])))
      = Some iv \<and> terminate_attempt iv"
  by (rule monitor_terminates_iff_idle [OF default_policy_ok, THEN iffD2])
    (simp add: default_policy_def last_n_def sample_step_def resets_budget_def)

text \<open>
  The monitor's memory is bounded whatever the attempt does: after any number of steps both
  windows hold at most \<open>recent_window\<close> entries, the windows are the most recent calls and failures,
  and \<open>interventions\<close> counts exactly the steps that were reported.
\<close>

theorem monitor_memory_bounded:
  assumes "policy_ok p"
  shows "int (length (pm_signatures (monitor digest str_of p h))) \<le> recent_window p
    \<and> int (length (failure_pairs (monitor digest str_of p h))) \<le> recent_window p
    \<and> pm_signatures (monitor digest str_of p h) = map (step_signature digest str_of) (last_n (nat (recent_window p)) h)
    \<and> interventions (monitor digest str_of p h)
      = int (card {k. k < length h \<and> fst (observe digest str_of p (h ! k) (monitor digest str_of p (take k h))) \<noteq> None})"
proof (intro conjI)
  have "progress_inv p (monitor digest str_of p h)"
    unfolding monitor_def
    by (rule progress.inv_run) (use assms in \<open>auto simp: progress_inv_def initial_progress_def policy_ok_def\<close>)
  then show "int (length (pm_signatures (monitor digest str_of p h))) \<le> recent_window p"
    "int (length (failure_pairs (monitor digest str_of p h))) \<le> recent_window p"
    by (simp_all add: progress_inv_def)
  show "pm_signatures (monitor digest str_of p h) = map (step_signature digest str_of) (last_n (nat (recent_window p)) h)"
    using summarises_monitor [OF assms] by (simp add: summarises_def last_n_map)
  show "interventions (monitor digest str_of p h)
      = int (card {k. k < length h \<and> fst (observe digest str_of p (h ! k) (monitor digest str_of p (take k h))) \<noteq> None})"
  proof (induction h rule: rev_induct)
    case Nil
    show ?case by (simp add: monitor_def initial_progress_def)
  next
    case (snoc s h)
    let ?R = "\<lambda>h k. fst (observe digest str_of p (h ! k) (monitor digest str_of p (take k h))) \<noteq> None"
    have "{k. k < length (h @ [s]) \<and> ?R (h @ [s]) k} = {k. k < length h \<and> ?R h k}
        \<union> (if fst (observe digest str_of p s (monitor digest str_of p h)) = None then {} else {length h})"
      by (auto simp: nth_append less_Suc_eq split: if_splits)
    moreover have "length h \<notin> {k. k < length h \<and> ?R h k}" by simp
    ultimately show ?case
      using snoc.IH by (simp add: monitor_def monitor_step_fields)
  qed
qed

theorem monitor_memory_bounded_witness:
  "int (length (pm_signatures (monitor (\<lambda>(a, v). a) (\<lambda>_. []) default_policy (replicate 20 (sample_step ''ls'' S_FAILURE NO_PROGRESS))))) \<le> 8"
proof -
  have "recent_window default_policy = 8" by (simp add: default_policy_def)
  then show ?thesis
    using monitor_memory_bounded [OF default_policy_ok, THEN conjunct1, of "\<lambda>(a, v). a" "\<lambda>_. []"
      "replicate 20 (sample_step ''ls'' S_FAILURE NO_PROGRESS)"] by simp
qed

end
