(* ===== verification/Decision_Engine.thy ===== *)
theory Decision_Engine
  imports Domain_Models LH_Prelude "HOL-Library.FSet"
begin

text \<open>
  The decision protocol (\<open>decisions/engine.py\<close>): independent initial positions are captured once per
  participant, then one resolution is recorded if the protocol allows it.

  \<open>decision_record\<close> is \<open>DecisionRecord\<close>; its sets are finite sets and the resolution is the literal type.
  Both operations mutate the record they are given; here they return the new record or the
  exception, and a raise leaves the record as it was.
\<close>

datatype resolution =
    R_CONSENSUS | R_CONSENT | R_SCOPED_AUTHORITY | R_EXPERIMENT | R_ESCALATION | R_RECORDED_DISAGREEMENT

record decision_record =
  decision_id :: string
  proposal :: string
  participants :: "string fset"
  consequential :: bool
  dr_exception :: "string option"
  initial_positions :: "decision_position list"
  final_positions :: "decision_position list"
  dr_resolution :: "resolution option"
  dr_action :: "string option"
  authority_holder :: "string option"
  authority_scope :: "string option"
  authority_scopes :: "(string \<times> string fset) list"

definition given :: "string option \<Rightarrow> bool" where
  "given s \<longleftrightarrow> (case s of None \<Rightarrow> False | Some t \<Rightarrow> t \<noteq> [])"

definition bad_block :: "decision_position \<Rightarrow> bool" where
  "bad_block p \<longleftrightarrow> pos_position p = BLOCK \<and> (\<not> given (pos_rationale p) \<or> pos_category p = Some ''preference'')"

definition validate_blocks :: "decision_record \<Rightarrow> decision_record result" where
  "validate_blocks r = ebind (guard (\<not> (\<exists>p \<in> set (initial_positions r @ final_positions r). bad_block p))
     (ValueError ''a block needs non-preference typed rationale'')) (\<lambda>_. Inr r)"

definition capture_initial :: "decision_record \<Rightarrow> decision_position \<Rightarrow> decision_record result" where
  "capture_initial r p =
     ebind (guard (participant p |\<in>| participants r) (ValueError ''unknown participant'')) (\<lambda>_.
     ebind (guard (\<not> (\<exists>q \<in> set (initial_positions r). participant q = participant p))
       (ValueError ''initial position already captured'')) (\<lambda>_.
     Inr (r\<lparr>initial_positions := initial_positions r @ [p]\<rparr>)))"

definition blocks :: "decision_record \<Rightarrow> decision_position list" where
  "blocks r = filter (\<lambda>p. pos_position p = BLOCK) (initial_positions r)"

definition scopes_of :: "decision_record \<Rightarrow> string \<Rightarrow> string fset" where
  "scopes_of r h = (case map_of (authority_scopes r) h of None \<Rightarrow> {||} | Some s \<Rightarrow> s)"

text \<open>The holder participates and has the declared, nonempty scope; \<open>None\<close> and \<open>""\<close> are no holder.\<close>

definition scoped_authority_ok :: "decision_record \<Rightarrow> string option \<Rightarrow> bool" where
  "scoped_authority_ok r holder \<longleftrightarrow> (case (holder, authority_scope r) of
      (Some h, Some s) \<Rightarrow> h \<noteq> [] \<and> h |\<in>| participants r \<and> s \<noteq> [] \<and> s |\<in>| scopes_of r h
    | _ \<Rightarrow> False)"

definition resolve :: "decision_record \<Rightarrow> resolution \<Rightarrow> string \<Rightarrow> string option \<Rightarrow> decision_record result" where
  "resolve r how act holder =
     ebind (guard (\<not> (consequential r \<and> length (initial_positions r) \<noteq> fcard (participants r) \<and> \<not> given (dr_exception r)))
       (ValueError ''consequential decision requires independent initial positions'')) (\<lambda>_.
     ebind (guard (\<not> (blocks r \<noteq> [] \<and> how \<notin> {R_ESCALATION, R_EXPERIMENT})) (ValueError ''unresolved block cannot be bypassed'')) (\<lambda>_.
     ebind (guard (\<not> (how = R_SCOPED_AUTHORITY \<and> \<not> scoped_authority_ok r holder))
       (ValueError ''scoped authority requires a participating holder with the declared scope'')) (\<lambda>_.
     Inr (r\<lparr>dr_resolution := Some how, dr_action := Some act, authority_holder := holder\<rparr>))))"

section \<open>Captured positions\<close>

text \<open>A capture that raises leaves the record alone; a caller may go on.\<close>

definition capture :: "decision_position \<Rightarrow> decision_record \<Rightarrow> decision_record" where
  "capture p r = (case capture_initial r p of Inl _ \<Rightarrow> r | Inr r' \<Rightarrow> r')"

definition one_voice_each :: "decision_record \<Rightarrow> bool" where
  "one_voice_each r \<longleftrightarrow> distinct (map participant (initial_positions r))
     \<and> (\<forall>p \<in> set (initial_positions r). participant p |\<in>| participants r)"

definition extends_positions :: "decision_record \<Rightarrow> decision_record \<Rightarrow> bool" where
  "extends_positions r r' \<longleftrightarrow> participants r' = participants r \<and> consequential r' = consequential r
     \<and> dr_exception r' = dr_exception r \<and> (\<exists>ps. initial_positions r' = initial_positions r @ ps)"

lemma capture_initial_Inr:
  "capture_initial r p = Inr r' \<longleftrightarrow> participant p |\<in>| participants r \<and> participant p \<notin> participant ` set (initial_positions r)
     \<and> r' = r\<lparr>initial_positions := initial_positions r @ [p]\<rparr>"
  by (auto simp: capture_initial_def image_iff)

lemma capture_cases:
  "capture p r = r \<or> (capture_initial r p = Inr (capture p r))"
  by (cases "capture_initial r p") (auto simp: capture_def)

lemma one_voice_capture: "one_voice_each r \<Longrightarrow> one_voice_each (capture p r)"
  using capture_cases [of p r] by (auto simp: one_voice_each_def capture_initial_Inr)

lemma extends_trans: "extends_positions r s \<Longrightarrow> extends_positions s t \<Longrightarrow> extends_positions r t"
  by (fastforce simp: extends_positions_def)

lemma extends_capture: "extends_positions r (capture p r)"
  using capture_cases [of p r] by (auto simp: extends_positions_def capture_initial_Inr)

interpretation captures: monotone_machine capture "\<lambda>_. True" one_voice_each extends_positions
proof unfold_locales
  show "extends_positions r r" for r by (simp add: extends_positions_def)
qed (auto simp: one_voice_capture extends_capture intro: extends_trans)

text \<open>With one position per participant, counting them is asking everybody.\<close>

lemma all_heard_iff:
  assumes "one_voice_each r"
  shows "length (initial_positions r) = fcard (participants r)
    \<longleftrightarrow> (\<forall>w. w |\<in>| participants r \<longrightarrow> (\<exists>p \<in> set (initial_positions r). participant p = w))"
proof -
  have sub: "participant ` set (initial_positions r) \<subseteq> fset (participants r)"
    using assms by (auto simp: one_voice_each_def)
  have "distinct (map participant (initial_positions r))" using assms by (simp add: one_voice_each_def)
  then have len: "length (initial_positions r) = card (participant ` set (initial_positions r))"
    using distinct_card [of "map participant (initial_positions r)"] by simp
  have "length (initial_positions r) = fcard (participants r) \<longleftrightarrow> participant ` set (initial_positions r) = fset (participants r)"
    using card_subset_eq [OF finite_fset sub] by (metis len fcard.rep_eq)
  also have "\<dots> \<longleftrightarrow> fset (participants r) \<subseteq> participant ` set (initial_positions r)"
    using sub by blast
  also have "\<dots> \<longleftrightarrow> (\<forall>w. w |\<in>| participants r \<longrightarrow> (\<exists>p \<in> set (initial_positions r). participant p = w))"
    unfolding subset_iff image_iff by metis
  finally show ?thesis .
qed

definition sample_position :: "string \<Rightarrow> position \<Rightarrow> string option \<Rightarrow> decision_position" where
  "sample_position w pos why = \<lparr>participant = w, pos_position = pos, pos_category = Some ''safety'', pos_rationale = why, pos_evidence = []\<rparr>"

definition sample_decision :: decision_record where
  "sample_decision = \<lparr>decision_id = ''d'', proposal = ''x'', participants = {|''NAV'', ''ENG''|}, consequential = True,
     dr_exception = None, initial_positions = [], final_positions = [], dr_resolution = None, dr_action = None,
     authority_holder = None, authority_scope = Some ''route'', authority_scopes = [(''NAV'', {|''route''|})]\<rparr>"

lemma sample_decision_voice: "one_voice_each sample_decision"
  by (simp add: one_voice_each_def sample_decision_def)

text \<open>Of the positions offered, those of the listed participants count, and of each the first.\<close>

fun first_voices :: "string fset \<Rightarrow> decision_position list \<Rightarrow> decision_position list" where
  "first_voices ws [] = []"
| "first_voices ws (p # ps) = (if participant p |\<in>| ws then p # first_voices (ws |-| {|participant p|}) ps else first_voices ws ps)"

definition spoken :: "decision_record \<Rightarrow> string fset" where
  "spoken r = fset_of_list (map participant (initial_positions r))"

lemma captured_voices:
  "initial_positions (fold capture ps r) = initial_positions r @ first_voices (participants r |-| spoken r) ps"
proof (induction ps arbitrary: r)
  case (Cons p ps)
  show ?case
  proof (cases "participant p |\<in>| participants r |-| spoken r")
    case True
    then have "capture p r = r\<lparr>initial_positions := initial_positions r @ [p]\<rparr>"
      by (auto simp: capture_def capture_initial_def spoken_def fset_of_list.rep_eq image_iff guard_def)
    moreover have "participants r |-| spoken r |-| {|participant p|}
        = participants r |-| spoken (r\<lparr>initial_positions := initial_positions r @ [p]\<rparr>)"
      by (auto simp: spoken_def)
    ultimately show ?thesis using True Cons [of "r\<lparr>initial_positions := initial_positions r @ [p]\<rparr>"] by simp
  next
    case False
    then have "capture p r = r"
      by (auto simp: capture_def capture_initial_def spoken_def fset_of_list.rep_eq image_iff guard_def)
    then show ?thesis using False Cons [of r] by auto
  qed
qed simp

lemma captured_rest:
  "fold capture ps r = r\<lparr>initial_positions := initial_positions (fold capture ps r)\<rparr>"
proof (induction ps arbitrary: r)
  case (Cons p ps)
  have "capture p r = r\<lparr>initial_positions := initial_positions (capture p r)\<rparr>"
    using capture_cases [of p r] by (auto simp: capture_initial_Inr)
  with Cons [of "capture p r"] show ?case by (metis (no_types, lifting) decision_record.surjective decision_record.update_convs(6) fold_simps(2))
qed simp

lemma first_voices_participants: "participant ` set (first_voices ws ps) = fset ws \<inter> participant ` set ps"
  by (induction ps arbitrary: ws) auto

section \<open>Properties\<close>

text \<open>
  C37. Which decisions are resolved. Take a decision opened without positions, and any sequence of positions
  offered to it. What it records are, in order, the first position of each of its participants, and nobody
  else's. Resolving it is refused, with the error of the first condition that fails, when the decision is
  consequential, has no recorded exception and some participant offered no position; when a recorded position blocks and
  the resolution is neither escalation nor experiment; and when the resolution is scoped authority and its holder is
  not a participant who has the declared scope. Otherwise the record gets the resolution, the action and the holder
  it was given, and nothing else in it changes. A decision that is not consequential may be resolved unheard, and a
  holder named for another resolution is recorded unchecked.
\<close>

theorem resolve_legitimate:
  fixes ps :: "decision_position list"
  assumes "initial_positions r0 = []"
  shows "(let qs = first_voices (participants r0) ps; r = r0\<lparr>initial_positions := qs\<rparr> in
    fold capture ps r0 = r
    \<and> resolve r how act holder =
      (if consequential r0 \<and> \<not> given (dr_exception r0) \<and> (\<exists>w. w |\<in>| participants r0 \<and> w \<notin> participant ` set ps)
       then Inl (ValueError ''consequential decision requires independent initial positions'')
       else if (\<exists>q \<in> set qs. pos_position q = BLOCK) \<and> how \<noteq> R_ESCALATION \<and> how \<noteq> R_EXPERIMENT
       then Inl (ValueError ''unresolved block cannot be bypassed'')
       else if how = R_SCOPED_AUTHORITY \<and> \<not> (\<exists>h sc. holder = Some h \<and> authority_scope r0 = Some sc \<and> h \<noteq> [] \<and> sc \<noteq> []
         \<and> h |\<in>| participants r0 \<and> sc |\<in>| scopes_of r0 h)
       then Inl (ValueError ''scoped authority requires a participating holder with the declared scope'')
       else Inr (r\<lparr>dr_resolution := Some how, dr_action := Some act, authority_holder := holder\<rparr>)))"
proof -
  let ?r = "r0\<lparr>initial_positions := first_voices (participants r0) ps\<rparr>"
  have run: "fold capture ps r0 = ?r"
    using captured_rest [of ps r0] captured_voices [of ps r0] by (simp add: assms spoken_def)
  have "one_voice_each r0" by (simp add: one_voice_each_def assms)
  then have "one_voice_each ?r" using captures.inv_run [of r0 ps] run by auto
  moreover have "(\<exists>q \<in> set (first_voices (participants r0) ps). participant q = w) \<longleftrightarrow> w |\<in>| participants r0 \<and> w \<in> participant ` set ps" for w
    using first_voices_participants [of "participants r0" ps] by (metis (no_types, lifting) IntE IntI image_iff)
  ultimately have heard: "length (first_voices (participants r0) ps) \<noteq> fcard (participants r0)
      \<longleftrightarrow> (\<exists>w. w |\<in>| participants r0 \<and> w \<notin> participant ` set ps)"
    using all_heard_iff [of ?r] by simp
  have blocks: "blocks ?r \<noteq> [] \<longleftrightarrow> (\<exists>q \<in> set (first_voices (participants r0) ps). pos_position q = BLOCK)"
    by (auto simp: blocks_def filter_empty_conv)
  have authority: "scoped_authority_ok ?r holder \<longleftrightarrow> (\<exists>h sc. holder = Some h \<and> authority_scope r0 = Some sc \<and> h \<noteq> [] \<and> sc \<noteq> []
      \<and> h |\<in>| participants r0 \<and> sc |\<in>| scopes_of r0 h)"
    by (auto simp: scoped_authority_ok_def scopes_of_def split: option.splits)
  show ?thesis
    unfolding Let_def resolve_def blocks authority using run heard by (auto simp: guard_def)
qed

theorem resolve_legitimate_witness:
  "resolve (fold capture [sample_position ''NAV'' SUPPORT None, sample_position ''ENG'' BLOCK (Some ''unsafe''),
      sample_position ''ENG'' SUPPORT None, sample_position ''GUEST'' SUPPORT None] sample_decision)
     R_CONSENSUS ''go'' None = Inl (ValueError ''unresolved block cannot be bypassed'')"
proof -
  let ?ps = "[sample_position ''NAV'' SUPPORT None, sample_position ''ENG'' BLOCK (Some ''unsafe''),
      sample_position ''ENG'' SUPPORT None, sample_position ''GUEST'' SUPPORT None]"
  have "initial_positions sample_decision = []" by (simp add: sample_decision_def)
  from resolve_legitimate [OF this, of ?ps R_CONSENSUS "''go''" None] show ?thesis
    by (simp add: Let_def) (simp add: sample_decision_def sample_position_def given_def)
qed

text \<open>
  Who has spoken cannot be overruled by speaking again: whatever is captured afterwards, the
  participants, and each participant's first recorded position, stay as they were, nobody outside the
  participants is ever recorded and nobody is recorded twice.
\<close>

theorem captured_positions_final:
  assumes "one_voice_each r" "capture_initial r p = Inr r'"
  shows "one_voice_each (fold capture ps r') \<and> participants (fold capture ps r') = participants r
    \<and> filter (\<lambda>q. participant q = participant p) (initial_positions (fold capture ps r')) = [p]
    \<and> (\<exists>msg. capture_initial (fold capture ps r') (p\<lparr>pos_position := q\<rparr>) = Inl (ValueError msg))"
proof -
  have r': "one_voice_each r'" "p \<in> set (initial_positions r')" "participants r' = participants r"
    using assms by (auto simp: capture_initial_Inr one_voice_each_def)
  have voice: "one_voice_each (fold capture ps r')" by (rule captures.inv_run) (use r' in auto)
  have "extends_positions r' (fold capture ps r')" by (rule captures.rel_run) (use r' in auto)
  then have here: "p \<in> set (initial_positions (fold capture ps r'))" "participants (fold capture ps r') = participants r"
    using r' by (auto simp: extends_positions_def)
  have "filter (\<lambda>q. participant q = participant p) xs = [p]" if "distinct (map participant xs)" "p \<in> set xs" for xs
    using that by (induction xs) (auto simp: filter_empty_conv image_iff)
  then have "filter (\<lambda>q. participant q = participant p) (initial_positions (fold capture ps r')) = [p]"
    using voice here by (auto simp: one_voice_each_def)
  moreover have "\<exists>msg. capture_initial (fold capture ps r') (p\<lparr>pos_position := q\<rparr>) = Inl (ValueError msg)"
    using here by (auto simp: capture_initial_def guard_def)
  ultimately show ?thesis using voice here by blast
qed

theorem captured_positions_final_witness:
  "\<exists>msg. capture_initial (fold capture [sample_position ''ENG'' OBJECT None]
      (sample_decision\<lparr>initial_positions := [sample_position ''NAV'' SUPPORT None]\<rparr>))
      ((sample_position ''NAV'' SUPPORT None)\<lparr>pos_position := BLOCK\<rparr>) = Inl (ValueError msg)"
proof -
  have "capture_initial sample_decision (sample_position ''NAV'' SUPPORT None)
      = Inr (sample_decision\<lparr>initial_positions := [sample_position ''NAV'' SUPPORT None]\<rparr>)"
    by (simp add: capture_initial_Inr sample_decision_def sample_position_def)
  from captured_positions_final [OF sample_decision_voice this] show ?thesis by blast
qed

text \<open>
  The rule that a block needs a non-preference rationale is checked when a record is built, not when
  a position is captured: a valid record accepts a block without rationale, which then vetoes a
  consensus although building the same record afresh is refused.
\<close>

theorem captured_block_unvalidated:
  "validate_blocks sample_decision = Inr sample_decision
   \<and> (\<exists>r. capture_initial sample_decision (sample_position ''NAV'' BLOCK None) = Inr r
        \<and> validate_blocks r = Inl (ValueError ''a block needs non-preference typed rationale'')
        \<and> (\<exists>r'. capture_initial r (sample_position ''ENG'' SUPPORT None) = Inr r'
             \<and> resolve r' R_CONSENSUS ''go'' None = Inl (ValueError ''unresolved block cannot be bypassed'')))"
  by (simp add: capture_initial_Inr sample_decision_def sample_position_def validate_blocks_def bad_block_def given_def
      resolve_def blocks_def guard_def fcard_finsert_disjoint)

end
