(* ===== verification/Work_Checkpoints.thy ===== *)
theory Work_Checkpoints
  imports Fleet_Events Work_Contracts Flash_Delivery "HOL-Library.Sublist"
begin

text \<open>
  Event-derived checkpoints of a work session (\<open>work/checkpoints.py\<close>): replaying the work events of one
  contract into a compact checkpoint, resuming a session from it, and rendering it as a digest of
  bounded length.

  Payload text is read with \<open>text_of\<close>, Python's \<open>str\<close>; \<open>repr_of\<close> is \<open>str\<close> on the values whose printed
  form is not spelled out here (floats and containers). The digest holds a character outside
  Latin-1, so it is a list of code points, and \<open>codes\<close> embeds the checkpoint's strings into it.
  Pydantic's \<open>min_length\<close> checks are the guards that return \<open>ValueError\<close>.
\<close>

section \<open>Checkpoints\<close>

record checkpoint_fact =
  fact_text :: string
  fact_source :: string

record artifact_state =
  art_fingerprint :: string
  art_description :: string
  art_source :: string

record checkpoint =
  cp_contract_id :: string
  facts :: "checkpoint_fact list"
  active_constraints :: "string list"
  completed_subgoals :: "string list"
  remaining_subgoals :: "string list"
  unresolved_failures :: "string list"
  artifact :: "artifact_state option"
  through_event_id :: "string option"

record work_session =
  session_id :: string
  ws_contract_id :: string
  ws_crew_id :: "string option"
  execution_plan_id :: "string option"
  resumed_from :: "string option"
  checkpoint_through :: "string option"

definition resume_session :: "string \<Rightarrow> work_session \<Rightarrow> checkpoint \<Rightarrow> work_session result" where
  "resume_session new_id previous cp =
     ebind (guard (ws_contract_id previous = cp_contract_id cp) (ValueError ''checkpoint contract does not match session contract'')) (\<lambda>_.
     Inr \<lparr>session_id = new_id, ws_contract_id = ws_contract_id previous, ws_crew_id = ws_crew_id previous,
          execution_plan_id = execution_plan_id previous, resumed_from = Some (session_id previous),
          checkpoint_through = through_event_id cp\<rparr>)"

section \<open>Payload text\<close>

fun text_of :: "(pvalue \<Rightarrow> string) \<Rightarrow> pvalue \<Rightarrow> string" where
  "text_of repr_of (VStr s) = s"
| "text_of repr_of (VOther (PStr s)) = s"
| "text_of repr_of (VBool b) = bool_str b"
| "text_of repr_of (VOther (PBool b)) = bool_str b"
| "text_of repr_of (VInt n) = int_str n"
| "text_of repr_of (VOther (PInt n)) = int_str n"
| "text_of repr_of (VOther PNone) = ''None''"
| "text_of repr_of v = repr_of v"

text \<open>\<open>str(payload.get(key, default))\<close>, and comparing \<open>payload.get(key)\<close> with a string.\<close>

definition get_text :: "(pvalue \<Rightarrow> string) \<Rightarrow> event \<Rightarrow> string \<Rightarrow> string \<Rightarrow> string" where
  "get_text repr_of e key dflt =
     (case map_of (ev_payload e) key of None \<Rightarrow> dflt | Some v \<Rightarrow> text_of repr_of v)"

definition payload_is :: "event \<Rightarrow> string \<Rightarrow> string \<Rightarrow> bool" where
  "payload_is e key s \<longleftrightarrow> map_of (ev_payload e) key = Some (VStr s) \<or> map_of (ev_payload e) key = Some (VOther (PStr s))"

section \<open>The handlers\<close>

type_synonym cp_state = "checkpoint \<times> string list"

definition append_unique :: "string list \<Rightarrow> string \<Rightarrow> string list" where
  "append_unique xs t = (if t \<noteq> [] \<and> t \<notin> set xs then xs @ [t] else xs)"

definition apply_fact :: "(pvalue \<Rightarrow> string) \<Rightarrow> event \<Rightarrow> cp_state \<Rightarrow> cp_state result" where
  "apply_fact repr_of e = (\<lambda>(cp, keys). let t = strip (get_text repr_of e ''text'' []) in
     if t \<noteq> [] \<and> t \<notin> set keys
     then ebind (guard (ev_id e \<noteq> []) (ValueError ''source_event_id: string_too_short'')) (\<lambda>_.
       Inr (cp\<lparr>facts := facts cp @ [\<lparr>fact_text = t, fact_source = ev_id e\<rparr>]\<rparr>, t # keys))
     else Inr (cp, keys))"

definition apply_constraint :: "(pvalue \<Rightarrow> string) \<Rightarrow> event \<Rightarrow> checkpoint \<Rightarrow> checkpoint" where
  "apply_constraint repr_of e cp =
     cp\<lparr>active_constraints := append_unique (active_constraints cp) (strip (get_text repr_of e ''text'' []))\<rparr>"

definition apply_subgoal :: "(pvalue \<Rightarrow> string) \<Rightarrow> event \<Rightarrow> checkpoint \<Rightarrow> checkpoint" where
  "apply_subgoal repr_of e cp = (let t = strip (get_text repr_of e ''text'' []) in
     if t = [] then cp
     else if payload_is e ''state'' ''completed''
     then cp\<lparr>completed_subgoals := append_unique (completed_subgoals cp) t,
             remaining_subgoals := filter (\<lambda>i. i \<noteq> t) (remaining_subgoals cp)\<rparr>
     else if payload_is e ''state'' ''remaining'' \<and> t \<notin> set (completed_subgoals cp)
     then cp\<lparr>remaining_subgoals := append_unique (remaining_subgoals cp) t\<rparr>
     else cp)"

definition drop_failure :: "string \<Rightarrow> string list \<Rightarrow> string list" where
  "drop_failure fid items = filter (\<lambda>i. \<not> starts_with i (fid @ '':'')) items"

definition apply_failure :: "(pvalue \<Rightarrow> string) \<Rightarrow> event \<Rightarrow> checkpoint \<Rightarrow> checkpoint" where
  "apply_failure repr_of e cp = (let fid = get_text repr_of e ''failure_id'' (ev_id e);
       detail = strip (get_text repr_of e ''detail'' fid) in
     cp\<lparr>unresolved_failures := drop_failure fid (unresolved_failures cp) @ [fid @ '': '' @ detail]\<rparr>)"

definition apply_failure_resolution :: "(pvalue \<Rightarrow> string) \<Rightarrow> event \<Rightarrow> checkpoint \<Rightarrow> checkpoint" where
  "apply_failure_resolution repr_of e cp =
     cp\<lparr>unresolved_failures := drop_failure (get_text repr_of e ''failure_id'' []) (unresolved_failures cp)\<rparr>"

definition apply_artifact :: "(pvalue \<Rightarrow> string) \<Rightarrow> event \<Rightarrow> checkpoint \<Rightarrow> checkpoint result" where
  "apply_artifact repr_of e cp = (let fp = strip (get_text repr_of e ''fingerprint'' []) in
     if fp = [] then Inr cp
     else ebind (guard (ev_id e \<noteq> []) (ValueError ''source_event_id: string_too_short'')) (\<lambda>_.
       Inr (cp\<lparr>artifact := Some \<lparr>art_fingerprint = fp, art_description = get_text repr_of e ''description'' [],
         art_source = ev_id e\<rparr>\<rparr>)))"

definition cp_apply_event :: "(pvalue \<Rightarrow> string) \<Rightarrow> event \<Rightarrow> cp_state \<Rightarrow> cp_state result" where
  "cp_apply_event repr_of e = (\<lambda>(cp, keys). case ev_type e of
       E_work_fact \<Rightarrow> apply_fact repr_of e (cp, keys)
     | E_work_constraint \<Rightarrow> Inr (apply_constraint repr_of e cp, keys)
     | E_work_subgoal \<Rightarrow> Inr (apply_subgoal repr_of e cp, keys)
     | E_work_failure \<Rightarrow> Inr (apply_failure repr_of e cp, keys)
     | E_work_failure_resolved \<Rightarrow> Inr (apply_failure_resolution repr_of e cp, keys)
     | E_work_artifact_verified \<Rightarrow> ebind (apply_artifact repr_of e cp) (\<lambda>cp'. Inr (cp', keys))
     | _ \<Rightarrow> Inr (cp, keys))"

definition cp_step :: "(pvalue \<Rightarrow> string) \<Rightarrow> string \<Rightarrow> event \<Rightarrow> cp_state \<Rightarrow> cp_state result" where
  "cp_step repr_of cid e = (\<lambda>(cp, keys).
     if payload_is e ''contract_id'' cid then cp_apply_event repr_of e (cp\<lparr>through_event_id := Some (ev_id e)\<rparr>, keys)
     else Inr (cp, keys))"

fun cp_fold :: "(pvalue \<Rightarrow> string) \<Rightarrow> string \<Rightarrow> event list \<Rightarrow> cp_state \<Rightarrow> cp_state result" where
  "cp_fold repr_of cid [] st = Inr st"
| "cp_fold repr_of cid (e # es) st = ebind (cp_step repr_of cid e st) (cp_fold repr_of cid es)"

definition empty_checkpoint :: "string \<Rightarrow> checkpoint" where
  "empty_checkpoint cid = \<lparr>cp_contract_id = cid, facts = [], active_constraints = [], completed_subgoals = [],
     remaining_subgoals = [], unresolved_failures = [], artifact = None, through_event_id = None\<rparr>"

definition materialize_checkpoint :: "(pvalue \<Rightarrow> string) \<Rightarrow> string \<Rightarrow> event list \<Rightarrow> checkpoint result" where
  "materialize_checkpoint repr_of cid es =
     ebind (guard (cid \<noteq> []) (ValueError ''contract_id: string_too_short'')) (\<lambda>_.
     ebind (cp_fold repr_of cid es (empty_checkpoint cid, [])) (\<lambda>(cp, keys). Inr cp))"

section \<open>The digest\<close>

type_synonym utext = "nat list"

definition codes :: "string \<Rightarrow> utext" where
  "codes s = map of_char s"

definition em_dash :: nat where "em_dash = 8212"

fun join_lines :: "utext list \<Rightarrow> utext" where
  "join_lines [] = []"
| "join_lines [l] = l"
| "join_lines (l # ls) = l @ [10] @ join_lines ls"

record task_digest =
  dg_contract_id :: string
  dg_text :: utext
  dg_max_chars :: int
  truncated :: bool
  omitted_items :: nat

definition artifact_line :: "artifact_state \<Rightarrow> utext" where
  "artifact_line a = rev (dropWhile (\<lambda>c. c = 32 \<or> c = em_dash)
     (rev (codes (art_fingerprint a) @ [32, em_dash, 32] @ codes (art_description a))))"

definition sections :: "checkpoint \<Rightarrow> (utext \<times> utext list) list" where
  "sections cp =
     [(codes ''Verified artifact'', case artifact cp of None \<Rightarrow> [] | Some a \<Rightarrow> [artifact_line a]),
      (codes ''Active constraints'', map codes (active_constraints cp)),
      (codes ''Unresolved failures'', map codes (unresolved_failures cp)),
      (codes ''Remaining subgoals'', map codes (remaining_subgoals cp)),
      (codes ''Completed subgoals'', map codes (completed_subgoals cp)),
      (codes ''Facts'', map (codes \<circ> fact_text) (facts cp))]"

abbreviation title_line :: "utext \<Rightarrow> utext" where "title_line t \<equiv> t @ codes '':''"
abbreviation item_line :: "utext \<Rightarrow> utext" where "item_line i \<equiv> codes ''- '' @ i"

fun render_items :: "int \<Rightarrow> utext \<Rightarrow> utext list \<Rightarrow> bool \<Rightarrow> utext list \<Rightarrow> nat \<Rightarrow> utext list \<times> nat" where
  "render_items m title [] title_added lines omitted = (lines, omitted)"
| "render_items m title (i # is) title_added lines omitted =
     (let pre = (if title_added then [] else title_line title @ [10]) in
      if int (length (join_lines (lines @ [pre @ item_line i]))) \<le> m
      then render_items m title is True
        ((if title_added then lines else lines @ [title_line title]) @ [item_line i]) omitted
      else render_items m title is title_added lines (omitted + 1))"

definition render_sections :: "int \<Rightarrow> (utext \<times> utext list) list \<Rightarrow> utext list \<times> nat \<Rightarrow> utext list \<times> nat" where
  "render_sections m = fold (\<lambda>(title, items) (lines, omitted). render_items m title (rev items) False lines omitted)"

definition header_line :: "checkpoint \<Rightarrow> utext" where
  "header_line cp = codes ''Work contract: '' @ codes (cp_contract_id cp)"

definition render_digest :: "checkpoint \<Rightarrow> int \<Rightarrow> task_digest result" where
  "render_digest cp m =
     (let (lines, omitted) = render_sections m (sections cp) ([header_line cp], 0);
          t = join_lines lines
      in ebind (guard (1 \<le> m) (ValueError ''max_chars: greater_than_equal'')) (\<lambda>_.
         Inr \<lparr>dg_contract_id = cp_contract_id cp,
           dg_text = (if int (length t) \<le> m then t else take (nat m) t),
           dg_max_chars = m, truncated = (0 < omitted), omitted_items = omitted\<rparr>))"

end
