(* ===== verification/Checkpoint_Properties.thy ===== *)
theory Checkpoint_Properties
  imports Work_Checkpoints Work_Acceptance
begin

text \<open>
  Properties of checkpoints: replay keeps the lists of a checkpoint free of repetition and of
  contradiction, depends only on the contract's own events, keeps exactly what those events said and
  exactly the open failures.
\<close>

section \<open>Consistency of a replayed checkpoint\<close>

definition cp_inv :: "cp_state \<Rightarrow> bool" where
  "cp_inv = (\<lambda>(cp, keys). set keys = fact_text ` set (facts cp) \<and> distinct (map fact_text (facts cp))
     \<and> distinct (active_constraints cp) \<and> distinct (completed_subgoals cp) \<and> distinct (remaining_subgoals cp)
     \<and> set (completed_subgoals cp) \<inter> set (remaining_subgoals cp) = {} \<and> distinct (unresolved_failures cp)
     \<and> [] \<notin> set (active_constraints cp) \<union> set (completed_subgoals cp) \<union> set (remaining_subgoals cp) \<union> fact_text ` set (facts cp))"

lemma set_append_unique: "set (append_unique xs t) = (if t = [] then set xs else insert t (set xs))"
  by (auto simp: append_unique_def)

lemma distinct_append_unique: "distinct xs \<Longrightarrow> distinct (append_unique xs t)"
  by (simp add: append_unique_def)

lemma starts_with_append: "starts_with (p @ s) p"
  by (simp add: starts_with_prefix)

lemma drop_failure_fresh: "fid @ '': '' @ d \<notin> set (drop_failure fid items)"
  using starts_with_append [of "fid @ '':''" "'' '' @ d"] by (auto simp: drop_failure_def)

lemmas drop_failure_fresh_cons = drop_failure_fresh [simplified]

lemma distinct_drop_failure: "distinct items \<Longrightarrow> distinct (drop_failure fid items)"
  by (simp add: drop_failure_def)

lemma cp_inv_apply_fact: "cp_inv st \<Longrightarrow> apply_fact repr_of e st = Inr st' \<Longrightarrow> cp_inv st'"
  by (cases st) (auto simp: cp_inv_def apply_fact_def Let_def split: if_splits)

lemma cp_inv_apply_event:
  assumes "cp_inv (cp, keys)" "cp_apply_event repr_of e (cp, keys) = Inr st'"
  shows "cp_inv st'"
proof (cases "ev_type e = E_work_fact")
  case True
  then show ?thesis using assms cp_inv_apply_fact [OF assms(1)] by (simp add: cp_apply_event_def)
next
  case False
  show ?thesis
    using assms False
    by (cases "ev_type e")
      (auto simp: cp_apply_event_def cp_inv_def apply_constraint_def apply_subgoal_def apply_failure_def apply_artifact_def
        apply_failure_resolution_def set_append_unique distinct_append_unique distinct_drop_failure drop_failure_fresh_cons Let_def
        split: if_splits)
qed

lemma cp_inv_through [simp]: "cp_inv (cp\<lparr>through_event_id := i\<rparr>, keys) \<longleftrightarrow> cp_inv (cp, keys)"
  by (simp add: cp_inv_def)

lemma cp_inv_step: "cp_inv st \<Longrightarrow> cp_step repr_of cid e st = Inr st' \<Longrightarrow> cp_inv st'"
proof (cases st)
  case (Pair cp keys)
  moreover assume "cp_inv st" "cp_step repr_of cid e st = Inr st'"
  ultimately show ?thesis
    using cp_inv_apply_event [of "cp\<lparr>through_event_id := Some (ev_id e)\<rparr>" keys repr_of e st']
    by (auto simp: cp_step_def split: if_splits)
qed

lemma cp_fold_append: "cp_fold repr_of cid (es @ fs) st = ebind (cp_fold repr_of cid es st) (cp_fold repr_of cid fs)"
proof (induction es arbitrary: st)
  case Nil
  show ?case by simp
next
  case (Cons e es)
  then show ?case by (cases "cp_step repr_of cid e st") auto
qed

lemma cp_inv_fold: "cp_inv st \<Longrightarrow> cp_fold repr_of cid es st = Inr st' \<Longrightarrow> cp_inv st'"
  by (induction es arbitrary: st) (auto dest: cp_inv_step)

lemma cp_inv_empty: "cp_inv (empty_checkpoint cid, [])"
  by (simp add: cp_inv_def empty_checkpoint_def)

lemma materialize_checkpoint_Inr:
  "materialize_checkpoint repr_of cid es = Inr cp \<longleftrightarrow>
     cid \<noteq> [] \<and> (\<exists>keys. cp_fold repr_of cid es (empty_checkpoint cid, []) = Inr (cp, keys))"
  by (auto simp: materialize_checkpoint_def)

text \<open>Events of other contracts do not matter.\<close>

abbreviation of_contract :: "string \<Rightarrow> event \<Rightarrow> bool" where
  "of_contract cid e \<equiv> payload_is e ''contract_id'' cid"

lemma cp_fold_filter: "cp_fold repr_of cid (filter (of_contract cid) es) st = cp_fold repr_of cid es st"
proof (induction es arbitrary: st)
  case Nil
  show ?case by simp
next
  case (Cons e es)
  then have "cp_fold repr_of cid (filter (of_contract cid) es) = cp_fold repr_of cid es" by (rule ext)
  then show ?case by (cases st) (auto simp: cp_step_def)
qed

text \<open>Whatever a handler does, it leaves the bookkeeping fields of the checkpoint alone.\<close>

lemma cp_apply_event_through:
  "cp_apply_event repr_of e (cp, keys) = Inr (cp', keys') \<Longrightarrow>
     through_event_id cp' = through_event_id cp \<and> cp_contract_id cp' = cp_contract_id cp"
  by (cases "ev_type e")
    (auto simp: cp_apply_event_def apply_fact_def apply_constraint_def apply_subgoal_def apply_failure_def
      apply_failure_resolution_def apply_artifact_def Let_def split: if_splits)

lemma cp_fold_snoc:
  "cp_fold repr_of cid (es @ [e]) st = Inr st' \<longleftrightarrow> (\<exists>st1. cp_fold repr_of cid es st = Inr st1 \<and> cp_step repr_of cid e st1 = Inr st')"
  by (simp add: cp_fold_append del: split_paired_Ex)

lemma cp_fold_through:
  "cp_fold repr_of cid es (empty_checkpoint cid, []) = Inr (cp, keys) \<Longrightarrow>
     cp_contract_id cp = cid
     \<and> through_event_id cp = (case filter (of_contract cid) es of [] \<Rightarrow> None | fs \<Rightarrow> Some (ev_id (last fs)))"
proof (induction es arbitrary: cp keys rule: rev_induct)
  case Nil
  then show ?case by (auto simp: empty_checkpoint_def)
next
  case (snoc e es)
  then obtain cp1 keys1 where st1: "cp_fold repr_of cid es (empty_checkpoint cid, []) = Inr (cp1, keys1)"
    "cp_step repr_of cid e (cp1, keys1) = Inr (cp, keys)"
    by (auto simp: cp_fold_snoc)
  show ?case
  proof (cases "of_contract cid e")
    case True
    then have "through_event_id cp = Some (ev_id e) \<and> cp_contract_id cp = cp_contract_id cp1"
      using st1(2) by (auto simp: cp_step_def dest: cp_apply_event_through)
    with True snoc.IH [OF st1(1)] show ?thesis by (auto split: list.splits)
  next
    case False
    with st1 snoc.IH [OF st1(1)] show ?thesis by (auto simp: cp_step_def)
  qed
qed

definition work_event :: "string \<Rightarrow> event_type \<Rightarrow> (string \<times> pvalue) list \<Rightarrow> event" where
  "work_event i ty kvs = \<lparr>ev_id = i, ev_timestamp = Aware 0 0, ev_type = ty, ev_actor = None, ev_source = None,
     ev_payload = (''contract_id'', VStr ''c'') # kvs\<rparr>"

text \<open>
  A replayed checkpoint is consistent and depends on its contract alone. Whenever replay returns a
  checkpoint, its facts, constraints, subgoals and failures are free of repetition and of empty
  entries, no subgoal is both completed and remaining, it records the id of the last event of the
  contract, and replaying only the events of the contract gives the same checkpoint.
\<close>

theorem checkpoint_consistent:
  assumes "materialize_checkpoint repr_of cid es = Inr cp"
  shows "distinct (map fact_text (facts cp)) \<and> distinct (active_constraints cp) \<and> distinct (completed_subgoals cp)
    \<and> distinct (remaining_subgoals cp) \<and> distinct (unresolved_failures cp)
    \<and> set (completed_subgoals cp) \<inter> set (remaining_subgoals cp) = {}
    \<and> [] \<notin> set (active_constraints cp) \<union> set (completed_subgoals cp) \<union> set (remaining_subgoals cp) \<union> fact_text ` set (facts cp)
    \<and> cp_contract_id cp = cid
    \<and> through_event_id cp = (case filter (of_contract cid) es of [] \<Rightarrow> None | fs \<Rightarrow> Some (ev_id (last fs)))
    \<and> materialize_checkpoint repr_of cid (filter (of_contract cid) es) = Inr cp"
proof -
  from assms obtain keys where st: "cid \<noteq> []" "cp_fold repr_of cid es (empty_checkpoint cid, []) = Inr (cp, keys)"
    by (auto simp: materialize_checkpoint_Inr)
  have "cp_inv (cp, keys)" using cp_inv_fold [OF cp_inv_empty st(2)] .
  moreover have "materialize_checkpoint repr_of cid (filter (of_contract cid) es) = Inr cp"
    using st by (auto simp: materialize_checkpoint_Inr cp_fold_filter)
  ultimately show ?thesis using cp_fold_through [OF st(2)] by (simp add: cp_inv_def)
qed

definition sample_events :: "event list" where
  "sample_events = [work_event ''e1'' E_work_subgoal [(''text'', VStr ''build''), (''state'', VStr ''remaining'')],
     work_event ''e2'' E_work_fact [(''text'', VStr ''tests pass'')],
     work_event ''e3'' E_work_subgoal [(''text'', VStr ''build''), (''state'', VStr ''completed'')]]"

lemma sample_events_run: "\<exists>cp. materialize_checkpoint (\<lambda>_. []) ''c'' sample_events = Inr cp \<and> completed_subgoals cp = [''build''] \<and> remaining_subgoals cp = []"
  by (simp add: materialize_checkpoint_def sample_events_def cp_step_def payload_is_def work_event_def cp_apply_event_def
      apply_subgoal_def apply_fact_def get_text_def strip_def is_space_def empty_checkpoint_def append_unique_def guard_def Let_def)

theorem checkpoint_consistent_witness:
  "\<exists>cp. materialize_checkpoint (\<lambda>_. []) ''c'' sample_events = Inr cp
     \<and> set (completed_subgoals cp) \<inter> set (remaining_subgoals cp) = {}"
  using sample_events_run checkpoint_consistent by blast

section \<open>The checkpoint as a history\<close>

text \<open>Of several entries with one key, the first.\<close>

fun first_by :: "('a \<Rightarrow> 'b) \<Rightarrow> 'a list \<Rightarrow> 'a list" where
  "first_by f [] = []"
| "first_by f (x # xs) = x # filter (\<lambda>y. f y \<noteq> f x) (first_by f xs)"

lemma first_by_snoc: "first_by f (xs @ [x]) = (if f x \<in> f ` set xs then first_by f xs else first_by f xs @ [x])"
  by (induction xs) auto

lemma first_by_keys: "f ` set (first_by f xs) = f ` set xs"
proof (induction xs)
  case (Cons x xs)
  have "f ` set (first_by f (x # xs)) = insert (f x) (f ` set (first_by f xs))" by auto
  then show ?case using Cons by simp
qed simp

lemma first_by_id: "set (first_by (\<lambda>t. t) xs) = set xs"
  using first_by_keys [of "\<lambda>t. t" xs] by simp

text \<open>
  The events of a contract of one type with a text, the texts of its subgoal events in one state, and its
  artifact events.
\<close>

definition said :: "(pvalue \<Rightarrow> string) \<Rightarrow> event \<Rightarrow> string" where
  "said repr_of e = strip (get_text repr_of e ''text'' [])"

definition saying :: "(pvalue \<Rightarrow> string) \<Rightarrow> string \<Rightarrow> event_type \<Rightarrow> event list \<Rightarrow> event list" where
  "saying repr_of cid ty = filter (\<lambda>e. of_contract cid e \<and> ev_type e = ty \<and> said repr_of e \<noteq> [])"

definition subgoals :: "(pvalue \<Rightarrow> string) \<Rightarrow> string \<Rightarrow> string \<Rightarrow> event list \<Rightarrow> string list" where
  "subgoals repr_of cid st es = map (said repr_of) (filter (\<lambda>e. payload_is e ''state'' st) (saying repr_of cid E_work_subgoal es))"

definition verified :: "(pvalue \<Rightarrow> string) \<Rightarrow> string \<Rightarrow> event list \<Rightarrow> event list" where
  "verified repr_of cid = filter (\<lambda>e. of_contract cid e \<and> ev_type e = E_work_artifact_verified
     \<and> strip (get_text repr_of e ''fingerprint'' []) \<noteq> [])"

definition history_checkpoint :: "(pvalue \<Rightarrow> string) \<Rightarrow> string \<Rightarrow> event list \<Rightarrow> cp_state \<Rightarrow> bool" where
  "history_checkpoint repr_of cid es = (\<lambda>(cp, keys).
     facts cp = map (\<lambda>e. \<lparr>fact_text = said repr_of e, fact_source = ev_id e\<rparr>) (first_by (said repr_of) (saying repr_of cid E_work_fact es))
   \<and> set keys = said repr_of ` set (saying repr_of cid E_work_fact es)
   \<and> active_constraints cp = first_by (\<lambda>t. t) (map (said repr_of) (saying repr_of cid E_work_constraint es))
   \<and> completed_subgoals cp = first_by (\<lambda>t. t) (subgoals repr_of cid ''completed'' es)
   \<and> remaining_subgoals cp = filter (\<lambda>t. t \<notin> set (subgoals repr_of cid ''completed'' es))
       (first_by (\<lambda>t. t) (subgoals repr_of cid ''remaining'' es))
   \<and> artifact cp = (case verified repr_of cid es of [] \<Rightarrow> None
       | vs \<Rightarrow> Some \<lparr>art_fingerprint = strip (get_text repr_of (last vs) ''fingerprint'' []),
           art_description = get_text repr_of (last vs) ''description'' [], art_source = ev_id (last vs)\<rparr>))"

lemma states_differ: "payload_is e ''state'' ''completed'' \<Longrightarrow> \<not> payload_is e ''state'' ''remaining''"
  by (auto simp: payload_is_def)

lemma history_same:
  assumes "history_checkpoint repr_of cid es (cp, keys)"
    and "saying repr_of cid E_work_fact [e] = []" "saying repr_of cid E_work_constraint [e] = []"
      "saying repr_of cid E_work_subgoal [e] = []" "verified repr_of cid [e] = []"
  shows "history_checkpoint repr_of cid (es @ [e]) (cp, keys)"
  using assms by (simp add: history_checkpoint_def subgoals_def saying_def verified_def split: if_splits)

lemmas histories = history_checkpoint_def saying_def subgoals_def verified_def first_by_snoc first_by_id append_unique_def

lemma said_updates:
  "apply_fact repr_of e (cp, keys) = (if said repr_of e \<noteq> [] \<and> said repr_of e \<notin> set keys
     then ebind (guard (ev_id e \<noteq> []) (ValueError ''source_event_id: string_too_short'')) (\<lambda>_.
       Inr (cp\<lparr>facts := facts cp @ [\<lparr>fact_text = said repr_of e, fact_source = ev_id e\<rparr>]\<rparr>, said repr_of e # keys))
     else Inr (cp, keys))"
  "apply_constraint repr_of e cp = cp\<lparr>active_constraints := append_unique (active_constraints cp) (said repr_of e)\<rparr>"
  "apply_subgoal repr_of e cp = (if said repr_of e = [] then cp
     else if payload_is e ''state'' ''completed''
     then cp\<lparr>completed_subgoals := append_unique (completed_subgoals cp) (said repr_of e),
             remaining_subgoals := filter (\<lambda>i. i \<noteq> said repr_of e) (remaining_subgoals cp)\<rparr>
     else if payload_is e ''state'' ''remaining'' \<and> said repr_of e \<notin> set (completed_subgoals cp)
     then cp\<lparr>remaining_subgoals := append_unique (remaining_subgoals cp) (said repr_of e)\<rparr>
     else cp)"
  by (simp_all add: apply_fact_def apply_constraint_def apply_subgoal_def said_def Let_def)

lemma history_through: "history_checkpoint repr_of cid es (cp\<lparr>through_event_id := i\<rparr>, keys) \<longleftrightarrow> history_checkpoint repr_of cid es (cp, keys)"
  by (simp add: history_checkpoint_def)

lemma history_failures: "history_checkpoint repr_of cid es (cp\<lparr>unresolved_failures := i\<rparr>, keys) \<longleftrightarrow> history_checkpoint repr_of cid es (cp, keys)"
  by (simp add: history_checkpoint_def)

lemma history_fact:
  assumes h: "history_checkpoint repr_of cid es (cp, keys)" and e: "of_contract cid e" "ev_type e = E_work_fact"
    and st: "apply_fact repr_of e (cp, keys) = Inr (cp', keys')"
  shows "history_checkpoint repr_of cid (es @ [e]) (cp', keys')"
proof (cases "said repr_of e \<noteq> [] \<and> said repr_of e \<notin> set keys")
  case True
  then have "cp' = cp\<lparr>facts := facts cp @ [\<lparr>fact_text = said repr_of e, fact_source = ev_id e\<rparr>]\<rparr>" "keys' = said repr_of e # keys"
    using st by (simp_all add: said_updates split: if_splits)
  with True h e show ?thesis by (simp add: histories)
next
  case False
  then have "cp' = cp" "keys' = keys" using st by (auto simp: said_updates)
  with False h e show ?thesis by (cases "said repr_of e = []") (simp_all add: histories insert_absorb)
qed

lemma history_subgoal:
  assumes h: "history_checkpoint repr_of cid es (cp, keys)" and e: "of_contract cid e" "ev_type e = E_work_subgoal"
  shows "history_checkpoint repr_of cid (es @ [e]) (apply_subgoal repr_of e cp, keys)"
proof (cases "said repr_of e = []")
  case True
  then show ?thesis using h e by (simp add: said_updates histories)
next
  case said: False
  show ?thesis
  proof (cases "payload_is e ''state'' ''completed''")
    case True
    then show ?thesis using h e said states_differ [OF True]
      by (simp add: said_updates histories) (auto intro: filter_cong)
  next
    case False
    then show ?thesis using h e said by (cases "payload_is e ''state'' ''remaining''") (auto simp: said_updates histories)
  qed
qed

lemma history_artifact:
  assumes h: "history_checkpoint repr_of cid es (cp, keys)" and e: "of_contract cid e" "ev_type e = E_work_artifact_verified"
    and st: "apply_artifact repr_of e cp = Inr cp'"
  shows "history_checkpoint repr_of cid (es @ [e]) (cp', keys)"
proof (cases "strip (get_text repr_of e ''fingerprint'' []) = []")
  case True
  then have "cp' = cp" using st by (simp add: apply_artifact_def)
  with True h e show ?thesis by (simp add: histories)
next
  case False
  then have "cp' = cp\<lparr>artifact := Some \<lparr>art_fingerprint = strip (get_text repr_of e ''fingerprint'' []),
      art_description = get_text repr_of e ''description'' [], art_source = ev_id e\<rparr>\<rparr>"
    using st by (simp add: apply_artifact_def Let_def split: if_splits)
  with False h e show ?thesis by (cases "verified repr_of cid es") (simp_all add: histories)
qed

lemma history_step:
  assumes "history_checkpoint repr_of cid es (cp, keys)" "cp_step repr_of cid e (cp, keys) = Inr (cp', keys')"
  shows "history_checkpoint repr_of cid (es @ [e]) (cp', keys')"
proof (cases "of_contract cid e")
  case False
  then have "cp' = cp" "keys' = keys" using assms(2) by (simp_all add: cp_step_def)
  then show ?thesis using False history_same [OF assms(1), of e] by (simp add: saying_def verified_def)
next
  case True
  let ?cp = "cp\<lparr>through_event_id := Some (ev_id e)\<rparr>"
  have h: "history_checkpoint repr_of cid es (?cp, keys)" using assms(1) by (simp add: history_through)
  have st: "cp_apply_event repr_of e (?cp, keys) = Inr (cp', keys')" using assms(2) True by (simp add: cp_step_def)
  have other: "history_checkpoint repr_of cid (es @ [e]) (?cp, keys)"
    if "ev_type e \<notin> {E_work_fact, E_work_constraint, E_work_subgoal, E_work_artifact_verified}"
    using history_same [OF h, of e] that by (simp add: saying_def verified_def)
  show ?thesis
  proof (cases "ev_type e")
    case E_work_fact
    then show ?thesis using history_fact [OF h True] st by (simp add: cp_apply_event_def)
  next
    case E_work_constraint
    then show ?thesis using h st True by (simp add: cp_apply_event_def said_updates, clarify) (simp add: histories)
  next
    case E_work_subgoal
    then show ?thesis using history_subgoal [OF h True] st by (simp add: cp_apply_event_def)
  next
    case E_work_artifact_verified
    then show ?thesis using history_artifact [OF h True] st by (auto simp: cp_apply_event_def ebind_Inr_iff)
  next
    case E_work_failure
    then show ?thesis using other st by (auto simp: cp_apply_event_def apply_failure_def Let_def history_failures)
  next
    case E_work_failure_resolved
    then show ?thesis using other st by (auto simp: cp_apply_event_def apply_failure_resolution_def history_failures)
  qed (use other st in \<open>simp_all add: cp_apply_event_def\<close>)
qed

lemma history_fold:
  "cp_fold repr_of cid es (empty_checkpoint cid, []) = Inr (cp, keys) \<Longrightarrow> history_checkpoint repr_of cid es (cp, keys)"
proof (induction es arbitrary: cp keys rule: rev_induct)
  case Nil
  then show ?case by (auto simp: empty_checkpoint_def history_checkpoint_def saying_def subgoals_def verified_def)
next
  case (snoc e es)
  then obtain cp1 keys1 where "cp_fold repr_of cid es (empty_checkpoint cid, []) = Inr (cp1, keys1)"
    "cp_step repr_of cid e (cp1, keys1) = Inr (cp, keys)"
    by (auto simp: cp_fold_snoc)
  then show ?case using snoc.IH history_step by blast
qed

lemma cp_step_named: "ev_id e \<noteq> [] \<Longrightarrow> \<exists>st'. cp_step repr_of cid e st = Inr st'"
  by (cases st; cases "ev_type e")
    (auto simp: cp_step_def cp_apply_event_def apply_fact_def apply_artifact_def Let_def)

lemma cp_fold_named: "\<forall>e \<in> set es. ev_id e \<noteq> [] \<Longrightarrow> \<exists>cp keys. cp_fold repr_of cid es st = Inr (cp, keys)"
proof (induction es arbitrary: st)
  case (Cons e es)
  then show ?case using cp_step_named [of e repr_of cid st] by auto
qed (cases st, simp)

text \<open>
  C36. A checkpoint says what the log said. For a contract with an id and events with ids the replay
  succeeds. Its facts are the fact events of the contract with a text, the first of each text, in order and with
  the id of that event; its constraints the distinct constraint texts in order of first appearance; its completed
  subgoals the distinct texts ever reported completed; its remaining ones those ever reported remaining and never
  completed, before or after; and its artifact the last one verified with a fingerprint. Texts are stripped, and
  empty ones ignored.
\<close>

theorem checkpoint_is_history:
  assumes "cid \<noteq> []" "\<forall>e \<in> set es. ev_id e \<noteq> []"
  shows "\<exists>cp. materialize_checkpoint repr_of cid es = Inr cp
    \<and> facts cp = map (\<lambda>e. \<lparr>fact_text = said repr_of e, fact_source = ev_id e\<rparr>)
        (first_by (said repr_of) (saying repr_of cid E_work_fact es))
    \<and> active_constraints cp = first_by (\<lambda>t. t) (map (said repr_of) (saying repr_of cid E_work_constraint es))
    \<and> completed_subgoals cp = first_by (\<lambda>t. t) (subgoals repr_of cid ''completed'' es)
    \<and> remaining_subgoals cp = filter (\<lambda>t. t \<notin> set (subgoals repr_of cid ''completed'' es))
        (first_by (\<lambda>t. t) (subgoals repr_of cid ''remaining'' es))
    \<and> artifact cp = (case verified repr_of cid es of [] \<Rightarrow> None
        | vs \<Rightarrow> Some \<lparr>art_fingerprint = strip (get_text repr_of (last vs) ''fingerprint'' []),
            art_description = get_text repr_of (last vs) ''description'' [], art_source = ev_id (last vs)\<rparr>)
    \<and> through_event_id cp = (case filter (of_contract cid) es of [] \<Rightarrow> None | fs \<Rightarrow> Some (ev_id (last fs)))"
proof -
  obtain cp keys where run: "cp_fold repr_of cid es (empty_checkpoint cid, []) = Inr (cp, keys)"
    using cp_fold_named [OF assms(2)] by blast
  then have "materialize_checkpoint repr_of cid es = Inr cp" using assms(1) by (simp add: materialize_checkpoint_Inr)
  with history_fold [OF run] cp_fold_through [OF run] show ?thesis by (intro exI [of _ cp]) (simp add: history_checkpoint_def)
qed

definition repeated_events :: "event list" where
  "repeated_events = sample_events @ [work_event ''e4'' E_work_fact [(''text'', VStr ''tests pass'')],
     work_event ''e5'' E_work_subgoal [(''text'', VStr ''build''), (''state'', VStr ''remaining'')],
     work_event ''e6'' E_work_subgoal [(''text'', VStr ''ship''), (''state'', VStr ''remaining'')]]"

theorem checkpoint_is_history_witness:
  "\<exists>cp. materialize_checkpoint (\<lambda>_. []) ''c'' repeated_events = Inr cp \<and> remaining_subgoals cp = [''ship'']
     \<and> completed_subgoals cp = [''build''] \<and> facts cp = [\<lparr>fact_text = ''tests pass'', fact_source = ''e2''\<rparr>]"
proof -
  have "\<forall>e \<in> set repeated_events. ev_id e \<noteq> []" by (simp add: repeated_events_def sample_events_def work_event_def)
  from checkpoint_is_history [OF _ this, of "''c''" "\<lambda>_. []"] show ?thesis
    by (simp add: repeated_events_def sample_events_def work_event_def saying_def subgoals_def said_def get_text_def payload_is_def
        strip_def is_space_def) blast
qed

section \<open>Open failures\<close>

definition failure_of :: "(pvalue \<Rightarrow> string) \<Rightarrow> event \<Rightarrow> string" where
  "failure_of repr_of e = get_text repr_of e ''failure_id'' (if ev_type e = E_work_failure then ev_id e else [])"

definition concerns :: "(pvalue \<Rightarrow> string) \<Rightarrow> string \<Rightarrow> string \<Rightarrow> event \<Rightarrow> bool" where
  "concerns repr_of cid f e \<longleftrightarrow> of_contract cid e \<and> ev_type e \<in> {E_work_failure, E_work_failure_resolved} \<and> failure_of repr_of e = f"

definition reports :: "(pvalue \<Rightarrow> string) \<Rightarrow> string \<Rightarrow> string \<Rightarrow> string \<Rightarrow> event \<Rightarrow> bool" where
  "reports repr_of cid f d e \<longleftrightarrow> of_contract cid e \<and> ev_type e = E_work_failure \<and> failure_of repr_of e = f
     \<and> strip (get_text repr_of e ''detail'' f) = d"

text \<open>A failure is open when it was reported and no later event concerns it.\<close>

definition open_failure :: "(pvalue \<Rightarrow> string) \<Rightarrow> string \<Rightarrow> event list \<Rightarrow> string \<Rightarrow> string \<Rightarrow> bool" where
  "open_failure repr_of cid es f d \<longleftrightarrow>
     (\<exists>pre e post. es = pre @ e # post \<and> reports repr_of cid f d e \<and> (\<forall>e' \<in> set post. \<not> concerns repr_of cid f e'))"

lemma open_failure_snoc:
  "open_failure repr_of cid (es @ [e]) f d \<longleftrightarrow> reports repr_of cid f d e \<or> (open_failure repr_of cid es f d \<and> \<not> concerns repr_of cid f e)"
proof
  assume "open_failure repr_of cid (es @ [e]) f d"
  then obtain pre x post where x: "es @ [e] = pre @ x # post" "reports repr_of cid f d x" "\<forall>e' \<in> set post. \<not> concerns repr_of cid f e'"
    by (auto simp: open_failure_def)
  then show "reports repr_of cid f d e \<or> (open_failure repr_of cid es f d \<and> \<not> concerns repr_of cid f e)"
    by (cases post rule: rev_cases) (auto simp: open_failure_def)
next
  assume "reports repr_of cid f d e \<or> (open_failure repr_of cid es f d \<and> \<not> concerns repr_of cid f e)"
  then show "open_failure repr_of cid (es @ [e]) f d"
  proof
    assume "reports repr_of cid f d e"
    then show ?thesis unfolding open_failure_def by (intro exI [of _ es] exI [of _ e] exI [of _ "[]"]) simp
  next
    assume *: "open_failure repr_of cid es f d \<and> \<not> concerns repr_of cid f e"
    then obtain pre x post where "es = pre @ x # post" "reports repr_of cid f d x" "\<forall>e' \<in> set post. \<not> concerns repr_of cid f e'"
      by (auto simp: open_failure_def)
    with * show ?thesis unfolding open_failure_def by (intro exI [of _ pre] exI [of _ x] exI [of _ "post @ [e]"]) auto
  qed
qed

lemma open_failure_concerned: "open_failure repr_of cid es f d \<Longrightarrow> \<exists>e \<in> set es. concerns repr_of cid f e"
  by (force simp: open_failure_def reports_def concerns_def)

lemma takeWhile_until: "c \<notin> set f \<Longrightarrow> takeWhile (\<lambda>x. x \<noteq> c) (f @ c # r) = f"
  by (induction f) auto

lemma item_of_failure:
  assumes "CHR '':'' \<notin> set f" "CHR '':'' \<notin> set g"
  shows "starts_with (f @ '': '' @ d) (g @ '':'') \<longleftrightarrow> f = g"
proof
  assume "starts_with (f @ '': '' @ d) (g @ '':'')"
  then obtain rest where "f @ '':'' @ '' '' @ d = g @ '':'' @ rest" by (auto simp: starts_with_prefix prefix_def)
  then have "takeWhile (\<lambda>c. c \<noteq> CHR '':'') (f @ CHR '':'' # '' '' @ d) = takeWhile (\<lambda>c. c \<noteq> CHR '':'') (g @ CHR '':'' # rest)" by simp
  then show "f = g" by (simp only: takeWhile_until [OF assms(1)] takeWhile_until [OF assms(2)])
qed (simp add: starts_with_prefix)

lemma item_inject:
  "CHR '':'' \<notin> set f \<Longrightarrow> CHR '':'' \<notin> set g \<Longrightarrow> f @ '': '' @ d = g @ '': '' @ d' \<longleftrightarrow> f = g \<and> d = d'"
  using item_of_failure [of f g d] by (auto simp: starts_with_prefix)

lemma unresolved_step:
  assumes "cp_step repr_of cid e (cp, keys) = Inr (cp', keys')"
  shows "unresolved_failures cp' =
    (if of_contract cid e \<and> ev_type e = E_work_failure
     then drop_failure (failure_of repr_of e) (unresolved_failures cp)
       @ [failure_of repr_of e @ '': '' @ strip (get_text repr_of e ''detail'' (failure_of repr_of e))]
     else if of_contract cid e \<and> ev_type e = E_work_failure_resolved
     then drop_failure (failure_of repr_of e) (unresolved_failures cp) else unresolved_failures cp)"
  using assms
  by (cases "ev_type e")
    (auto simp: cp_step_def cp_apply_event_def apply_fact_def apply_constraint_def apply_subgoal_def apply_failure_def
      apply_failure_resolution_def apply_artifact_def failure_of_def Let_def split: if_splits)

text \<open>
  C20. Exactly the open failures are carried forward. When no failure id of the contract contains a colon,
  the unresolved failures of a replayed checkpoint are the reports, with their details, of those
  failures that no later event of the contract reported again or resolved.
\<close>

theorem unresolved_failures_exact:
  assumes "materialize_checkpoint repr_of cid es = Inr cp"
    and "\<forall>e \<in> set es. \<forall>f. concerns repr_of cid f e \<longrightarrow> CHR '':'' \<notin> set f"
  shows "set (unresolved_failures cp) = {f @ '': '' @ d |f d. open_failure repr_of cid es f d}"
proof -
  from assms(1) obtain keys where st: "cp_fold repr_of cid es (empty_checkpoint cid, []) = Inr (cp, keys)"
    by (auto simp: materialize_checkpoint_Inr)
  have "set (unresolved_failures cp) = {f @ '': '' @ d |f d. open_failure repr_of cid es f d}
      \<and> (\<forall>f d. open_failure repr_of cid es f d \<longrightarrow> CHR '':'' \<notin> set f)"
    using st assms(2)
  proof (induction es arbitrary: cp keys rule: rev_induct)
    case Nil
    then show ?case by (auto simp: empty_checkpoint_def open_failure_def)
  next
    case (snoc e es)
    then obtain cp1 keys1 where st1: "cp_fold repr_of cid es (empty_checkpoint cid, []) = Inr (cp1, keys1)"
      "cp_step repr_of cid e (cp1, keys1) = Inr (cp, keys)"
      by (auto simp: cp_fold_snoc)
    from snoc.IH [OF st1(1)] snoc.prems(2)
    have IH: "set (unresolved_failures cp1) = {f @ '': '' @ d |f d. open_failure repr_of cid es f d}"
      "\<And>f d. open_failure repr_of cid es f d \<Longrightarrow> CHR '':'' \<notin> set f" by auto
    have plain: "CHR '':'' \<notin> set (failure_of repr_of e)" if "concerns repr_of cid (failure_of repr_of e) e"
      using snoc.prems(2) that by auto
    have dropped: "set (drop_failure g (unresolved_failures cp1)) = {f @ '': '' @ d |f d. open_failure repr_of cid es f d \<and> f \<noteq> g}"
      if "CHR '':'' \<notin> set g" for g
      unfolding drop_failure_def set_filter IH(1) using item_of_failure [OF IH(2) that] by blast
    show ?case
      unfolding open_failure_snoc unresolved_step [OF st1(2)]
      using dropped [of "failure_of repr_of e"] plain IH by (auto simp: concerns_def reports_def)
  qed
  then show ?thesis by blast
qed

definition failing_events :: "event list" where
  "failing_events = [work_event ''e1'' E_work_failure [(''failure_id'', VStr ''a''), (''detail'', VStr ''lint'')],
     work_event ''e2'' E_work_failure [(''detail'', VStr ''build'')],
     work_event ''e3'' E_work_failure_resolved [(''failure_id'', VStr ''a'')]]"

lemma failing_events_run:
  "\<exists>cp. materialize_checkpoint (\<lambda>_. []) ''c'' failing_events = Inr cp \<and> unresolved_failures cp = [''e2: build'']"
  by (simp add: materialize_checkpoint_def failing_events_def cp_step_def payload_is_def work_event_def cp_apply_event_def
      apply_failure_def apply_failure_resolution_def get_text_def strip_def is_space_def empty_checkpoint_def drop_failure_def
      guard_def Let_def)

theorem unresolved_failures_exact_witness:
  "open_failure (\<lambda>_. []) ''c'' failing_events ''e2'' ''build''"
proof -
  obtain cp where cp: "materialize_checkpoint (\<lambda>_. []) ''c'' failing_events = Inr cp" "unresolved_failures cp = [''e2: build'']"
    using failing_events_run by blast
  have plain: "\<forall>e \<in> set failing_events. \<forall>f. concerns (\<lambda>_. []) ''c'' f e \<longrightarrow> CHR '':'' \<notin> set f"
    by (simp add: failing_events_def concerns_def failure_of_def get_text_def work_event_def)
  have "''e2: build'' \<in> set (unresolved_failures cp)" by (simp add: cp(2))
  then obtain f d where fd: "''e2: build'' = f @ '': '' @ d" "open_failure (\<lambda>_. []) ''c'' failing_events f d"
    unfolding unresolved_failures_exact [OF cp(1) plain] by blast
  then have "CHR '':'' \<notin> set f"
    using plain open_failure_concerned by blast
  with fd(1) item_inject [of "''e2''" f "''build''" d] show ?thesis using fd(2) by simp
qed

text \<open>
  With a colon in an id the match is too wide: resolving failure \<open>a\<close> also discards the open failure
  \<open>a:b\<close>, which no event of the log resolved.
\<close>

theorem resolving_drops_longer_id:
  "\<exists>cp. materialize_checkpoint (\<lambda>_. []) ''c''
      [work_event ''e1'' E_work_failure [(''failure_id'', VStr ''a:b''), (''detail'', VStr ''lint'')],
       work_event ''e2'' E_work_failure_resolved [(''failure_id'', VStr ''a'')]] = Inr cp
    \<and> unresolved_failures cp = []
    \<and> open_failure (\<lambda>_. []) ''c''
      [work_event ''e1'' E_work_failure [(''failure_id'', VStr ''a:b''), (''detail'', VStr ''lint'')],
       work_event ''e2'' E_work_failure_resolved [(''failure_id'', VStr ''a'')]] ''a:b'' ''lint''"
proof -
  let ?e = "work_event ''e1'' E_work_failure [(''failure_id'', VStr ''a:b''), (''detail'', VStr ''lint'')]"
  let ?r = "work_event ''e2'' E_work_failure_resolved [(''failure_id'', VStr ''a'')]"
  have "open_failure (\<lambda>_. []) ''c'' [?e, ?r] ''a:b'' ''lint''"
    unfolding open_failure_def
    by (intro exI [of _ "[]"] exI [of _ ?e] exI [of _ "[?r]"])
      (simp add: reports_def concerns_def failure_of_def get_text_def payload_is_def work_event_def strip_def is_space_def)
  then show ?thesis
    by (simp add: materialize_checkpoint_def cp_step_def payload_is_def work_event_def cp_apply_event_def
        apply_failure_def apply_failure_resolution_def get_text_def strip_def is_space_def empty_checkpoint_def drop_failure_def
        guard_def Let_def)
qed

end
