(* ===== verification/Digest_Properties.thy ===== *)
theory Digest_Properties
  imports Checkpoint_Properties
begin

text \<open>
  The rendered digest of a checkpoint: it never exceeds its bound, shows whole items only, newest
  first within each section, counts what it leaves out, and is complete exactly when everything fits.
\<close>

section \<open>Joining lines\<close>

lemma join_snoc: "ls \<noteq> [] \<Longrightarrow> join_lines (ls @ [l]) = join_lines ls @ [10] @ l"
  by (induction ls rule: join_lines.induct) auto

lemma join_merged: "join_lines (ls @ [a @ [10] @ b]) = join_lines (ls @ [a, b])"
proof (cases "ls = []")
  case False
  then have "join_lines ((ls @ [a]) @ [b]) = join_lines (ls @ [a @ [10] @ b])" by (simp add: join_snoc del: append_assoc)
  then show ?thesis by simp
qed simp

lemma subseq_rev_rev: "subseq xs ys \<Longrightarrow> subseq (rev xs) (rev ys)"
proof (induction rule: list_emb.induct)
  case (list_emb_Cons2 x y xs ys)
  then show ?case by (simp add: list_emb_append_mono)
qed (simp_all add: subseq_rev_drop_many)

lemma join_length_mono: "ls \<noteq> [] \<Longrightarrow> length (join_lines ls) \<le> length (join_lines (ls @ ms))"
proof (induction ms rule: rev_induct)
  case (snoc m ms)
  then show ?case by (simp add: join_snoc flip: append_assoc)
qed simp

section \<open>Rendering one section\<close>

definition section_lines :: "utext \<Rightarrow> bool \<Rightarrow> utext list \<Rightarrow> utext list" where
  "section_lines title title_added is = (if title_added \<or> is = [] then [] else [title_line title]) @ map item_line is"

lemma section_lines_Nil [simp]: "section_lines title added [] = []"
  by (simp add: section_lines_def)

lemma section_lines_Cons:
  "section_lines title added (i # is) = (if added then [] else [title_line title]) @ [item_line i] @ section_lines title True is"
  by (simp add: section_lines_def)

lemma candidate_lines:
  "join_lines (lines @ [(if added then [] else title_line title @ [10]) @ item_line i])
    = join_lines ((if added then lines else lines @ [title_line title]) @ [item_line i])"
  using join_merged [of lines "title_line title" "item_line i"] by simp

text \<open>What a section adds: the lines of the items that fitted, in order, and a count of the others.\<close>

definition fits :: "int \<Rightarrow> utext list \<Rightarrow> bool" where
  "fits m ls \<longleftrightarrow> int (length (join_lines ls)) \<le> m"

lemma fits_prefix: "fits m (ls @ ms) \<Longrightarrow> ls \<noteq> [] \<Longrightarrow> fits m ls"
  using join_length_mono [of ls ms] by (simp add: fits_def)

lemma render_items_spec:
  assumes "lines \<noteq> []" "render_items m title is added lines om = (lines', om')"
  shows "\<exists>shown. subseq shown is \<and> lines' = lines @ section_lines title added shown \<and> om' + length shown = om + length is
    \<and> (fits m lines \<longrightarrow> fits m lines') \<and> (fits m (lines @ section_lines title added is) \<longrightarrow> shown = is)"
  using assms
proof (induction "is" arbitrary: added lines om)
  case Nil
  then show ?case by simp
next
  case (Cons i "is")
  let ?next = "(if added then lines else lines @ [title_line title]) @ [item_line i]"
  show ?case
  proof (cases "fits m ?next")
    case True
    then have "render_items m title is True ?next om = (lines', om')"
      using Cons.prems(2) by (simp add: candidate_lines fits_def Let_def)
    from Cons.IH [OF _ this] obtain shown where shown: "subseq shown is" "lines' = ?next @ section_lines title True shown"
      "om' + length shown = om + length is" "fits m ?next \<longrightarrow> fits m lines'"
      "fits m (?next @ section_lines title True is) \<longrightarrow> shown = is"
      by auto
    have "?next @ section_lines title True xs = lines @ section_lines title added (i # xs)" for xs
      by (simp add: section_lines_Cons)
    with shown True show ?thesis by (intro exI [of _ "i # shown"]) simp
  next
    case False
    then have "render_items m title is added lines (om + 1) = (lines', om')"
      using Cons.prems(2) by (simp add: candidate_lines fits_def Let_def)
    from Cons.IH [OF Cons.prems(1) this] obtain shown where shown: "subseq shown is"
      "lines' = lines @ section_lines title added shown" "om' + length shown = om + 1 + length is" "fits m lines \<longrightarrow> fits m lines'"
      by auto
    have "\<not> fits m (lines @ section_lines title added (i # is))"
    proof
      assume "fits m (lines @ section_lines title added (i # is))"
      moreover have "lines @ section_lines title added (i # is) = ?next @ section_lines title True is"
        by (simp add: section_lines_Cons)
      ultimately show False using False fits_prefix [of m ?next "section_lines title True is"] by simp
    qed
    with shown show ?thesis by (intro exI [of _ shown]) (simp add: list_emb_Cons)
  qed
qed

section \<open>Rendering all sections\<close>

definition all_lines :: "(utext \<times> utext list) list \<Rightarrow> utext list" where
  "all_lines secs = concat (map (\<lambda>(title, items). section_lines title False (rev items)) secs)"

definition item_count :: "(utext \<times> utext list) list \<Rightarrow> nat" where
  "item_count secs = sum_list (map (length \<circ> snd) secs)"

text \<open>A selection of a section: a subsequence of its items, in the order shown.\<close>

definition selects :: "utext \<times> utext list \<Rightarrow> utext \<times> utext list \<Rightarrow> bool" where
  "selects sel sec \<longleftrightarrow> fst sel = fst sec \<and> subseq (snd sel) (snd sec)"

lemma render_sections_spec:
  assumes "lines \<noteq> []" "render_sections m secs (lines, om) = (lines', om')"
  shows "\<exists>sel. list_all2 selects sel secs \<and> lines' = lines @ all_lines sel \<and> om' + item_count sel = om + item_count secs
    \<and> (fits m lines \<longrightarrow> fits m lines') \<and> (fits m (lines @ all_lines secs) \<longrightarrow> sel = secs)"
  using assms
proof (induction secs arbitrary: lines om)
  case Nil
  then show ?case by (simp add: render_sections_def all_lines_def item_count_def)
next
  case (Cons sec secs)
  obtain title items where sec: "sec = (title, items)" by (cases sec)
  obtain l1 o1 where r1: "render_items m title (rev items) False lines om = (l1, o1)"
    by (cases "render_items m title (rev items) False lines om")
  with Cons.prems sec have rest: "render_sections m secs (l1, o1) = (lines', om')"
    by (simp add: render_sections_def)
  from render_items_spec [OF Cons.prems(1) r1] obtain shown where shown: "subseq shown (rev items)"
    "l1 = lines @ section_lines title False shown" "o1 + length shown = om + length items" "fits m lines \<longrightarrow> fits m l1"
    "fits m (lines @ section_lines title False (rev items)) \<longrightarrow> shown = rev items"
    by auto
  from shown(2) Cons.prems(1) have "l1 \<noteq> []" by simp
  from Cons.IH [OF this rest] obtain sel where sel: "list_all2 selects sel secs" "lines' = l1 @ all_lines sel"
    "om' + item_count sel = o1 + item_count secs" "fits m l1 \<longrightarrow> fits m lines'" "fits m (l1 @ all_lines secs) \<longrightarrow> sel = secs"
    by auto
  have "subseq (rev shown) items" using shown(1) using subseq_rev_rev by fastforce
  then have "selects (title, rev shown) sec" by (simp add: selects_def sec)
  with sel(1) have a: "list_all2 selects ((title, rev shown) # sel) (sec # secs)" by simp
  have b: "lines' = lines @ all_lines ((title, rev shown) # sel)"
    using sel(2) shown(2) by (simp add: all_lines_def)
  have c: "om' + item_count ((title, rev shown) # sel) = om + item_count (sec # secs)"
    using sel(3) shown(3) by (simp add: item_count_def sec)
  have "shown = rev items \<and> sel = secs" if fit: "fits m (lines @ all_lines (sec # secs))"
  proof -
    have split: "lines @ all_lines (sec # secs) = (lines @ section_lines title False (rev items)) @ all_lines secs"
      by (simp add: all_lines_def sec)
    with fit Cons.prems(1) have "shown = rev items" using shown(5) by (metis append_is_Nil_conv fits_prefix)
    with fit split shown(2) sel(5) show ?thesis by simp
  qed
  then have d: "fits m (lines @ all_lines (sec # secs)) \<longrightarrow> (title, rev shown) # sel = sec # secs"
    by (auto simp: sec)
  from a b c d sel(4) shown(4) show ?case by blast
qed

lemma item_count_selects: "list_all2 selects sel secs \<Longrightarrow> item_count sel \<le> item_count secs \<and> (item_count sel = item_count secs \<longrightarrow> sel = secs)"
proof (induction rule: list_all2_induct)
  case (Cons x xs y ys)
  have le: "length (snd x) \<le> length (snd y)" using Cons.hyps by (auto simp: selects_def intro: list_emb_length)
  moreover have "x = y" if "length (snd x) = length (snd y)"
    using Cons.hyps that by (metis prod.collapse selects_def subseq_same_length)
  ultimately show ?case using Cons.IH by (auto simp: item_count_def)
qed (simp add: item_count_def)

section \<open>Properties\<close>

text \<open>
  A digest respects its bound and is honest about what it leaves out. For a positive bound rendering
  succeeds, the text is never longer than the bound and the flag says whether items were omitted. If
  the header fits, the text consists of the header and, section by section, the title and whole items
  of a subsequence of the section, newest first; \<open>omitted_items\<close> is exactly the number of items left
  out, and it is zero precisely when the complete rendering fits the bound.
\<close>

theorem digest_bounded_and_honest:
  assumes "1 \<le> m"
  shows "\<exists>d. render_digest cp m = Inr d \<and> int (length (dg_text d)) \<le> m \<and> truncated d = (0 < omitted_items d)
    \<and> (fits m [header_line cp] \<longrightarrow>
        (\<exists>sel. list_all2 selects sel (sections cp) \<and> dg_text d = join_lines (header_line cp # all_lines sel)
          \<and> omitted_items d + item_count sel = item_count (sections cp))
        \<and> (omitted_items d = 0 \<longleftrightarrow> fits m (header_line cp # all_lines (sections cp))))"
proof -
  obtain lines om where r: "render_sections m (sections cp) ([header_line cp], 0) = (lines, om)"
    by (cases "render_sections m (sections cp) ([header_line cp], 0)")
  let ?t = "if int (length (join_lines lines)) \<le> m then join_lines lines else take (nat m) (join_lines lines)"
  from r assms have d: "render_digest cp m = Inr \<lparr>dg_contract_id = cp_contract_id cp, dg_text = ?t, dg_max_chars = m,
      truncated = (0 < om), omitted_items = om\<rparr>"
    by (simp add: render_digest_def)
  from render_sections_spec [OF _ r] obtain sel where sel: "list_all2 selects sel (sections cp)"
    "lines = [header_line cp] @ all_lines sel" "om + item_count sel = item_count (sections cp)"
    "fits m [header_line cp] \<longrightarrow> fits m lines" "fits m ([header_line cp] @ all_lines (sections cp)) \<longrightarrow> sel = sections cp"
    by auto
  have "om = 0 \<longleftrightarrow> fits m (header_line cp # all_lines (sections cp))" if "fits m [header_line cp]"
  proof
    assume "om = 0"
    with sel(1,3) item_count_selects have "sel = sections cp" by fastforce
    with sel(2,4) that show "fits m (header_line cp # all_lines (sections cp))" by simp
  next
    assume "fits m (header_line cp # all_lines (sections cp))"
    with sel(3,5) show "om = 0" by simp
  qed
  with sel assms d show ?thesis by (auto simp: fits_def)
qed

theorem digest_bounded_and_honest_witness:
  "\<exists>d. render_digest ((empty_checkpoint ''c'')\<lparr>active_constraints := [''no network'']\<rparr>) 20 = Inr d \<and> length (dg_text d) \<le> 20"
  using digest_bounded_and_honest [of 20 "(empty_checkpoint ''c'')\<lparr>active_constraints := [''no network'']\<rparr>"] by auto

text \<open>
  A bound shorter than the header is not reported: the header itself is cut, yet a checkpoint
  without items says that nothing was truncated.
\<close>

theorem digest_cut_header_unreported:
  "\<exists>d. render_digest (empty_checkpoint ''contract-1'') 5 = Inr d \<and> dg_text d = codes ''Work ''
    \<and> dg_text d \<noteq> header_line (empty_checkpoint ''contract-1'') \<and> \<not> truncated d \<and> omitted_items d = 0"
  by (simp add: render_digest_def render_sections_def sections_def empty_checkpoint_def header_line_def codes_def)

end
