(* ===== verification/Flash_Protocol.thy ===== *)
theory Flash_Protocol
  imports Flash_Delivery
begin

text \<open>
  The durable record of one Flash job and the protocol it follows.

  \<open>job_state\<close> is \<open>_JobState\<close> of \<open>work/flash_storage.py\<close>, the JSON document one blob holds. \<open>encode_job\<close>
  is what writing it keeps: pydantic writes a float that is not finite as \<open>null\<close>. \<open>job_step\<close> is the
  protocol: the transitions a job may make, whoever writes them. Its second part shows what every
  run of the protocol keeps; that the workers' code makes only these transitions, under any
  interleaving, is shown over the code's model later.

  \<open>approves c v\<close> says that the trusted verifier has accepted the value \<open>v\<close> under contract \<open>c\<close>.
\<close>

section \<open>The record\<close>

record job_state =
  js_version :: int
  js_job_id :: string
  js_contract :: work_contract
  js_started_at :: pyfloat
  js_attempt_number :: int
  js_generation :: int
  js_lease_id :: "string option"
  js_lease_expires_at :: "pyfloat option"
  accepted_generation :: "int option"
  accepted_attempt_id :: "string option"
  accepted_claim_hash :: "string option"
  accepted_result_json :: "pyval option"
  terminal_reason :: "string option"
  notification_pending :: bool
  notification_sent :: bool

definition finite_or_null :: "pyfloat option \<Rightarrow> pyfloat option" where
  "finite_or_null x = (case x of None \<Rightarrow> None | Some f \<Rightarrow> if isfinite f then Some f else None)"

definition encode_job :: "job_state \<Rightarrow> job_state" where
  "encode_job s = s\<lparr>js_lease_expires_at := finite_or_null (js_lease_expires_at s)\<rparr>"

definition new_job :: "string \<Rightarrow> work_contract \<Rightarrow> pyfloat \<Rightarrow> job_state" where
  "new_job job c now = \<lparr>js_version = 1, js_job_id = job, js_contract = c, js_started_at = now, js_attempt_number = 0,
     js_generation = 0, js_lease_id = None, js_lease_expires_at = None, accepted_generation = None,
     accepted_attempt_id = None, accepted_claim_hash = None, accepted_result_json = None, terminal_reason = None,
     notification_pending = False, notification_sent = False\<rparr>"

text \<open>\<open>state.started_at + contract.budget.wall_seconds\<close>.\<close>

definition job_deadline :: "job_state \<Rightarrow> pyfloat" where
  "job_deadline s = fadd (js_started_at s) (wall_seconds (budget (js_contract s)))"

definition attempt_name :: "string \<Rightarrow> int \<Rightarrow> string" where
  "attempt_name job n = job @ ''-attempt-'' @ (if n < 0 then ''-'' @ nat_str (nat (- n)) else nat_str (nat n))"

section \<open>The protocol\<close>

definition open_job :: "job_state \<Rightarrow> bool" where
  "open_job s \<longleftrightarrow> accepted_result_json s = None \<and> terminal_reason s = None"

inductive job_step :: "(work_contract \<Rightarrow> pyval \<Rightarrow> bool) \<Rightarrow> job_state \<Rightarrow> job_state \<Rightarrow> bool"
  for approves :: "work_contract \<Rightarrow> pyval \<Rightarrow> bool" where
  js_claim: "open_job s \<Longrightarrow> js_attempt_number s < max_attempts (budget (js_contract s)) \<Longrightarrow>
    \<not> fle (job_deadline s) now \<Longrightarrow>
    (case js_lease_expires_at s of None \<Rightarrow> True | Some x \<Rightarrow> \<not> flt now (fmin x (job_deadline s))) \<Longrightarrow>
    job_step approves s (encode_job (s\<lparr>js_generation := js_generation s + 1, js_attempt_number := js_attempt_number s + 1,
      js_lease_id := Some h, js_lease_expires_at := Some (fmin (fadd now lease) (job_deadline s))\<rparr>))"
| js_exhaust: "open_job s \<Longrightarrow>
    js_attempt_number s \<ge> max_attempts (budget (js_contract s)) \<or> fle (job_deadline s) now \<Longrightarrow>
    job_step approves s (s\<lparr>terminal_reason := Some why\<rparr>)"
| js_renew: "open_job s \<Longrightarrow> js_lease_id s = Some h \<Longrightarrow>
    job_step approves s (encode_job (s\<lparr>js_lease_expires_at := Some (fmin (fadd now lease) (job_deadline s))\<rparr>))"
| js_abandon: "open_job s \<Longrightarrow> js_lease_id s = Some h \<Longrightarrow>
    job_step approves s (s\<lparr>js_lease_id := None, js_lease_expires_at := None\<rparr>)"
| js_accept: "open_job s \<Longrightarrow> js_lease_id s = Some h \<Longrightarrow> validate_contract (js_contract s) = Inr c \<Longrightarrow> approves c v \<Longrightarrow>
    job_step approves s (s\<lparr>accepted_generation := Some (js_generation s),
      accepted_attempt_id := Some (attempt_name (js_job_id s) (js_generation s)), accepted_claim_hash := Some h,
      accepted_result_json := Some v, notification_pending := True, notification_sent := False\<rparr>)"
| js_notified: "accepted_result_json s = Some v \<Longrightarrow> accepted_attempt_id s = Some a \<Longrightarrow>
    job_step approves s (s\<lparr>notification_pending := False, notification_sent := True\<rparr>)"

inductive_cases job_stepE: "job_step approves s t"

section \<open>What the protocol keeps\<close>

definition null_or_finite :: "job_state \<Rightarrow> bool" where
  "null_or_finite s \<longleftrightarrow> (\<forall>x. js_lease_expires_at s = Some x \<longrightarrow> isfinite x \<and> fle x (job_deadline s))"

definition job_ok :: "(work_contract \<Rightarrow> pyval \<Rightarrow> bool) \<Rightarrow> job_state \<Rightarrow> bool" where
  "job_ok approves s \<longleftrightarrow> js_version s = 1 \<and> js_generation s = js_attempt_number s \<and> 0 \<le> js_attempt_number s
     \<and> (js_attempt_number s = 0 \<or> js_attempt_number s \<le> max_attempts (budget (js_contract s)))
     \<and> null_or_finite s
     \<and> (js_lease_id s = None \<longrightarrow> js_lease_expires_at s = None)
     \<and> (js_lease_id s \<noteq> None \<longrightarrow> 1 \<le> js_generation s)
     \<and> (notification_pending s \<or> notification_sent s \<longleftrightarrow> accepted_result_json s \<noteq> None)
     \<and> \<not> (notification_pending s \<and> notification_sent s)
     \<and> (accepted_result_json s = None \<longrightarrow> accepted_generation s = None \<and> accepted_attempt_id s = None \<and> accepted_claim_hash s = None)
     \<and> (\<forall>v. accepted_result_json s = Some v \<longrightarrow> terminal_reason s = None \<and> accepted_generation s = Some (js_generation s)
         \<and> accepted_attempt_id s = Some (attempt_name (js_job_id s) (js_generation s))
         \<and> accepted_claim_hash s = js_lease_id s \<and> js_lease_id s \<noteq> None
         \<and> (\<exists>c. validate_contract (js_contract s) = Inr c \<and> approves c v))"

text \<open>How a later version of the record relates to an earlier one.\<close>

definition evolves :: "job_state \<Rightarrow> job_state \<Rightarrow> bool" where
  "evolves s t \<longleftrightarrow> js_job_id t = js_job_id s \<and> js_contract t = js_contract s \<and> js_started_at t = js_started_at s
     \<and> js_generation s \<le> js_generation t
     \<and> (js_generation t = js_generation s \<longrightarrow> js_lease_id t = js_lease_id s \<or> js_lease_id t = None)
     \<and> (terminal_reason s \<noteq> None \<and> accepted_result_json s = None \<longrightarrow> t = s)
     \<and> (accepted_result_json s \<noteq> None \<longrightarrow> t = s \<or> t = s\<lparr>notification_pending := False, notification_sent := True\<rparr>)"

lemma fmin_finite_le: "isfinite (fmin a d) \<Longrightarrow> d \<noteq> NaN \<Longrightarrow> fle (fmin a d) d"
  by (cases a; cases d) (auto simp: fmin_def split: if_splits)

lemma finite_or_null_Some: "finite_or_null x = Some f \<longleftrightarrow> x = Some f \<and> isfinite f"
  by (auto simp: finite_or_null_def split: option.splits)

lemma encode_job_simps [simp]:
  "js_version (encode_job s) = js_version s" "js_job_id (encode_job s) = js_job_id s"
  "js_contract (encode_job s) = js_contract s" "js_started_at (encode_job s) = js_started_at s"
  "js_attempt_number (encode_job s) = js_attempt_number s" "js_generation (encode_job s) = js_generation s"
  "js_lease_id (encode_job s) = js_lease_id s" "js_lease_expires_at (encode_job s) = finite_or_null (js_lease_expires_at s)"
  "accepted_generation (encode_job s) = accepted_generation s" "accepted_attempt_id (encode_job s) = accepted_attempt_id s"
  "accepted_claim_hash (encode_job s) = accepted_claim_hash s" "accepted_result_json (encode_job s) = accepted_result_json s"
  "terminal_reason (encode_job s) = terminal_reason s" "notification_pending (encode_job s) = notification_pending s"
  "notification_sent (encode_job s) = notification_sent s" "job_deadline (encode_job s) = job_deadline s"
  by (simp_all add: encode_job_def job_deadline_def)

lemma encode_job_finite: "null_or_finite s \<Longrightarrow> encode_job s = s"
  by (cases s) (auto simp: encode_job_def null_or_finite_def finite_or_null_def split: option.splits)

lemma job_deadline_simps [simp]:
  "job_deadline (s\<lparr>js_generation := g\<rparr>) = job_deadline s" "job_deadline (s\<lparr>js_attempt_number := n\<rparr>) = job_deadline s"
  "job_deadline (s\<lparr>js_lease_id := l\<rparr>) = job_deadline s" "job_deadline (s\<lparr>js_lease_expires_at := x\<rparr>) = job_deadline s"
  "job_deadline (s\<lparr>terminal_reason := r\<rparr>) = job_deadline s" "job_deadline (s\<lparr>accepted_generation := ag\<rparr>) = job_deadline s"
  "job_deadline (s\<lparr>accepted_attempt_id := aa\<rparr>) = job_deadline s" "job_deadline (s\<lparr>accepted_claim_hash := ac\<rparr>) = job_deadline s"
  "job_deadline (s\<lparr>accepted_result_json := ar\<rparr>) = job_deadline s" "job_deadline (s\<lparr>notification_pending := np\<rparr>) = job_deadline s"
  "job_deadline (s\<lparr>notification_sent := ns\<rparr>) = job_deadline s"
  by (simp_all add: job_deadline_def)

text \<open>The deadline is a number: nothing else could be stored or loaded.\<close>

definition proper_deadline :: "job_state \<Rightarrow> bool" where
  "proper_deadline s \<longleftrightarrow> job_deadline s \<noteq> NaN"

lemma job_ok_new: "job_ok approves (new_job job c now)"
  by (simp add: job_ok_def new_job_def null_or_finite_def)

lemma job_step_ok:
  assumes "job_step approves s t" "job_ok approves s" "proper_deadline s"
  shows "job_ok approves t"
  using assms(1)
proof cases
  case (js_claim now h lease)
  then show ?thesis using assms(2,3)
    by (auto simp: job_ok_def open_job_def null_or_finite_def finite_or_null_Some fmin_finite_le proper_deadline_def)
next
  case (js_renew h now lease)
  then show ?thesis using assms(2,3)
    by (auto simp: job_ok_def open_job_def null_or_finite_def finite_or_null_Some fmin_finite_le proper_deadline_def)
qed (use assms(2) in \<open>auto simp: job_ok_def open_job_def null_or_finite_def\<close>)

lemma job_step_evolves: "job_step approves s t \<Longrightarrow> evolves s t"
  by (erule job_stepE) (auto simp: evolves_def open_job_def)

lemma evolves_refl: "evolves s s"
  by (simp add: evolves_def)

lemma evolves_trans: "evolves s t \<Longrightarrow> evolves t u \<Longrightarrow> evolves s u"
proof (cases "open_job s")
  case True
  assume "evolves s t" "evolves t u"
  moreover have "js_generation u = js_generation s \<longrightarrow> js_lease_id u = js_lease_id s \<or> js_lease_id u = None"
    using \<open>evolves s t\<close> \<open>evolves t u\<close> unfolding evolves_def by (metis order_antisym)
  ultimately show ?thesis using True by (simp add: evolves_def open_job_def)
next
  case False
  assume st: "evolves s t" "evolves t u"
  show ?thesis
  proof (cases "accepted_result_json s")
    case None
    with False st(1) have "t = s" by (simp add: evolves_def open_job_def)
    with st(2) show ?thesis by simp
  next
    case (Some v)
    with st(1) consider "t = s" | "t = s\<lparr>notification_pending := False, notification_sent := True\<rparr>"
      by (auto simp: evolves_def)
    then show ?thesis
    proof cases
      case 1
      with st(2) show ?thesis by simp
    next
      case 2
      with Some st(2) have "u = t" by (auto simp: evolves_def)
      with st(1) show ?thesis by simp
    qed
  qed
qed

lemma job_step_deadline: "job_step approves s t \<Longrightarrow> job_deadline t = job_deadline s"
  by (erule job_stepE) simp_all

lemma job_run_evolves: "(job_step approves)\<^sup>*\<^sup>* s t \<Longrightarrow> evolves s t"
  by (induction rule: rtranclp_induct) (auto intro: evolves_refl evolves_trans job_step_evolves)

end
