(* ===== verification/Storage_Effects.thy ===== *)
theory Storage_Effects
  imports Flash_Protocol
begin

text \<open>
  How the storage-backed delivery talks to the outside. A method of \<open>DurableFlashDelivery\<close> is a
  program that makes calls and continues with each reply: the calls are the Blob and Queue client
  calls, the clock, the token factory, the verifier and the notifier, all of which are injected into
  the class. Between two calls the program only computes, so other workers act exactly at calls.

  An \<open>'a act\<close> threads the worker's own table of claims through such a program; an exception keeps
  the changes made to the table before it was raised.
\<close>

section \<open>What is stored and exchanged\<close>

record claim_index =
  ix_version :: int
  ix_job_id :: string
  ix_generation :: int
  ix_attempt_id :: string
  ix_claim_hash :: string
  ix_expires_at :: pyfloat

record notification_cursor =
  cu_version :: int
  continuation_token :: "string option"

text \<open>The documents the class writes, and anything else a blob might hold, which no model accepts.\<close>

datatype blob_data = JobBlob job_state | IndexBlob claim_index | CursorBlob notification_cursor | ForeignBlob nat

text \<open>The content of a queue message: not a string, a string that is not JSON, or JSON text.\<close>

datatype msg_text = NotText | NotJson | JsonText pyval

record message =
  msg_content :: msg_text
  msg_key :: nat
  msg_receipt :: "string option"

datatype call =
    CDownload string
  | CUpload string blob_data "string option"
  | CListPage "string option"
  | CSend msg_text
  | CReceive int
  | CUpdate message string int
  | CDelete message string
  | CClock
  | CToken
  | CVerify work_contract pyval
  | CNotify string string pyval

text \<open>\<open>CUpload n d None\<close> is \<open>overwrite=False\<close>; \<open>CUpload n d (Some e)\<close> is conditional on the etag \<open>e\<close>.\<close>

datatype reply =
    RFail exn
  | ROk
  | RBlob blob_data string
  | RPage "(string list \<times> string option) option"
  | RMessage "message option"
  | RReceipt "string option"
  | RTime pyfloat
  | RToken "string option"
  | RVerdict bool

datatype 'a io = Done 'a | Do call "reply \<Rightarrow> 'a io"

primrec io_bind :: "'a io \<Rightarrow> ('a \<Rightarrow> 'b io) \<Rightarrow> 'b io" where
  "io_bind (Done x) f = f x"
| "io_bind (Do c k) f = Do c (\<lambda>r. io_bind (k r) f)"

text \<open>A program served by one deterministic world; programs are finite trees, so it always ends.\<close>

primrec serve_io :: "('w \<Rightarrow> call \<Rightarrow> reply \<times> 'w) \<Rightarrow> 'a io \<Rightarrow> 'w \<Rightarrow> 'a \<times> 'w" where
  "serve_io h (Done x) w = (x, w)"
| "serve_io h (Do c k) w = (case h w c of (r, w') \<Rightarrow> serve_io h (k r) w')"

section \<open>Actions of a worker\<close>

record claim_context =
  cx_token :: string
  cx_job_id :: string
  cx_attempt_id :: string
  cx_generation :: int
  cx_message :: message
  cx_receipt :: string
  cx_delivery :: delivery

type_synonym claims = "(string \<times> claim_context) list"

type_synonym 'a act = "claims \<Rightarrow> ('a result \<times> claims) io"

definition ret :: "'a \<Rightarrow> 'a act" where
  "ret x cs = Done (Inr x, cs)"

definition throw :: "exn \<Rightarrow> 'a act" where
  "throw e cs = Done (Inl e, cs)"

definition act_bind :: "'a act \<Rightarrow> ('a \<Rightarrow> 'b act) \<Rightarrow> 'b act" where
  "act_bind m f cs = io_bind (m cs) (\<lambda>(r, cs'). case r of Inl e \<Rightarrow> Done (Inl e, cs') | Inr x \<Rightarrow> f x cs')"

definition try_catch :: "'a act \<Rightarrow> (exn \<Rightarrow> 'a act) \<Rightarrow> 'a act" where
  "try_catch m h cs = io_bind (m cs) (\<lambda>(r, cs'). case r of Inl e \<Rightarrow> h e cs' | Inr x \<Rightarrow> Done (Inr x, cs'))"

definition from_result :: "'a result \<Rightarrow> 'a act" where
  "from_result r cs = Done (r, cs)"

definition require :: "bool \<Rightarrow> exn \<Rightarrow> unit act" where
  "require b e = from_result (guard b e)"

definition get_claims :: "claims act" where
  "get_claims cs = Done (Inr cs, cs)"

definition put_claims :: "claims \<Rightarrow> unit act" where
  "put_claims cs' cs = Done (Inr (), cs')"

definition perform :: "call \<Rightarrow> reply act" where
  "perform c cs = Do c (\<lambda>r. case r of RFail x \<Rightarrow> Done (Inl x, cs) | _ \<Rightarrow> Done (Inr r, cs))"

text \<open>Typed calls; a client that answers with a value of another shape raises \<open>TypeError\<close>.\<close>

definition bad_reply :: "'a act" where
  "bad_reply = throw (TypeError ''unexpected reply'')"

definition download :: "string \<Rightarrow> (blob_data \<times> string) act" where
  "download n = act_bind (perform (CDownload n)) (\<lambda>r. case r of RBlob d e \<Rightarrow> ret (d, e) | _ \<Rightarrow> bad_reply)"

definition upload :: "string \<Rightarrow> blob_data \<Rightarrow> string option \<Rightarrow> unit act" where
  "upload n d cond = act_bind (perform (CUpload n d cond)) (\<lambda>r. case r of ROk \<Rightarrow> ret () | _ \<Rightarrow> bad_reply)"

definition list_page :: "string option \<Rightarrow> (string list \<times> string option) option act" where
  "list_page t = act_bind (perform (CListPage t)) (\<lambda>r. case r of RPage p \<Rightarrow> ret p | _ \<Rightarrow> bad_reply)"

definition send_message :: "msg_text \<Rightarrow> unit act" where
  "send_message t = act_bind (perform (CSend t)) (\<lambda>_. ret ())"

definition receive_message :: "int \<Rightarrow> message option act" where
  "receive_message v = act_bind (perform (CReceive v)) (\<lambda>r. case r of RMessage m \<Rightarrow> ret m | _ \<Rightarrow> bad_reply)"

definition update_message :: "message \<Rightarrow> string \<Rightarrow> int \<Rightarrow> string option act" where
  "update_message m rc v = act_bind (perform (CUpdate m rc v)) (\<lambda>r. case r of RReceipt x \<Rightarrow> ret x | _ \<Rightarrow> bad_reply)"

definition delete_message :: "message \<Rightarrow> string \<Rightarrow> unit act" where
  "delete_message m rc = act_bind (perform (CDelete m rc)) (\<lambda>_. ret ())"

definition read_time :: "pyfloat act" where
  "read_time = act_bind (perform CClock) (\<lambda>r. case r of RTime t \<Rightarrow> ret t | _ \<Rightarrow> bad_reply)"

definition make_token :: "string option act" where
  "make_token = act_bind (perform CToken) (\<lambda>r. case r of RToken t \<Rightarrow> ret t | _ \<Rightarrow> bad_reply)"

definition ask_verifier :: "work_contract \<Rightarrow> pyval \<Rightarrow> bool act" where
  "ask_verifier c v = act_bind (perform (CVerify c v)) (\<lambda>r. case r of RVerdict b \<Rightarrow> ret b | _ \<Rightarrow> bad_reply)"

definition notify :: "string \<Rightarrow> string \<Rightarrow> pyval \<Rightarrow> unit act" where
  "notify j a v = act_bind (perform (CNotify j a v)) (\<lambda>_. ret ())"

text \<open>\<open>_status(exc)\<close>; a zero status is not found.\<close>

fun status_of :: "exn \<Rightarrow> int option" where
  "status_of (StorageError s) = (if s = Some 0 then None else s)"
| "status_of _ = None"

definition status_in :: "exn \<Rightarrow> int list \<Rightarrow> bool" where
  "status_in e codes \<longleftrightarrow> (case status_of e of None \<Rightarrow> False | Some s \<Rightarrow> s \<in> set codes)"

fun is_lease_error :: "exn \<Rightarrow> bool" where
  "is_lease_error (LeaseError _) = True"
| "is_lease_error _ = False"

end
