(* ===== verification/Flash_Storage.thy ===== *)
theory Flash_Storage
  imports Storage_Effects
begin

text \<open>
  The queue- and blob-backed delivery adapter, \<open>DurableFlashDelivery\<close> of \<open>work/flash_storage.py\<close>: one
  definition per method, written as a program over the calls of \<open>Storage_Effects\<close>, with the calls
  in the order the code makes them.

  \<open>cfg\<close> holds the options and \<open>token_hash\<close>, SHA-256. A queue reference whose \<open>job_id\<close> is not a string
  raises (in the code a list of path-safe strings would be looked up and not found).
\<close>

section \<open>Options and names\<close>

record storage_options =
  opt_lease_seconds :: int
  recovery_scan_limit :: int
  accepted_trigger_drain_limit :: int
  max_local_claims :: int

definition validate_options :: "storage_options \<Rightarrow> storage_options result" where
  "validate_options opt =
     ebind (guard (\<not> opt_lease_seconds opt \<le> 0) (ValueError ''lease_seconds must be positive'')) (\<lambda>_.
     ebind (guard (\<not> min (min (recovery_scan_limit opt) (accepted_trigger_drain_limit opt)) (max_local_claims opt) < 1)
       (ValueError ''storage scan and claim limits must be positive'')) (\<lambda>_. Inr opt))"

record storage_cfg =
  options :: storage_options
  token_hash :: "string \<Rightarrow> string"

definition job_char :: "char \<Rightarrow> bool" where
  "job_char c \<longleftrightarrow> (let n = of_char c :: nat in
     (97 \<le> n \<and> n \<le> 122) \<or> (65 \<le> n \<and> n \<le> 90) \<or> (48 \<le> n \<and> n \<le> 57) \<or> n = 45 \<or> n = 95)"

definition job_blob :: "string \<Rightarrow> string" where
  "job_blob job = ''flash-jobs/v1/'' @ job @ ''.json''"

definition blob_name :: "string \<Rightarrow> string result" where
  "blob_name job = (if job = [] \<or> \<not> list_all job_char job
     then Inl (ValueError ''job_id must be an opaque path-safe identifier'') else Inr (job_blob job))"

definition index_blob :: "string \<Rightarrow> string" where
  "index_blob h = ''flash-claim-index/v1/'' @ h @ ''.json''"

definition cursor_blob :: string where
  "cursor_blob = ''flash-meta/v1/notification-cursor.json''"

section \<open>Reading and conditional writing\<close>

text \<open>A started time that is not finite was stored as \<open>null\<close> and does not validate.\<close>

fun decode_job :: "blob_data \<Rightarrow> job_state result" where
  "decode_job (JobBlob s) = (if isfinite (js_started_at s) then Inr s else Inl (ValueError ''started_at: float_type''))"
| "decode_job _ = Inl (ValueError ''job state: validation error'')"

fun decode_index :: "blob_data \<Rightarrow> claim_index result" where
  "decode_index (IndexBlob i) = (if isfinite (ix_expires_at i) then Inr i else Inl (ValueError ''expires_at: float_type''))"
| "decode_index _ = Inl (ValueError ''claim index: validation error'')"

fun decode_cursor :: "blob_data \<Rightarrow> notification_cursor result" where
  "decode_cursor (CursorBlob c) = Inr c"
| "decode_cursor _ = Inl (ValueError ''cursor: validation error'')"

definition read_job :: "string \<Rightarrow> (job_state \<times> string) act" where
  "read_job job = act_bind (from_result (blob_name job)) (\<lambda>n.
     act_bind (download n) (\<lambda>(d, etag).
     act_bind (from_result (decode_job d)) (\<lambda>s.
     act_bind (require (js_version s = 1) (ValueError ''unsupported durable state version'')) (\<lambda>_.
     act_bind (require (js_job_id s = job) (ValueError ''job state identifier mismatch'')) (\<lambda>_.
     ret (s, etag))))))"

definition conditional_upload :: "string \<Rightarrow> blob_data \<Rightarrow> string \<Rightarrow> unit act" where
  "conditional_upload n d etag = try_catch (upload n d (Some etag))
     (\<lambda>x. if status_of x = Some 412 then throw (LeaseError ''durable state changed during conditional update'') else throw x)"

definition write_job :: "job_state \<Rightarrow> string \<Rightarrow> unit act" where
  "write_job s etag = act_bind (from_result (blob_name (js_job_id s))) (\<lambda>n.
     conditional_upload n (JobBlob (encode_job s)) etag)"

text \<open>
  \<open>WorkContract.model_validate(state.contract)\<close>: an infinite wall-clock budget was stored as \<open>null\<close> and
  does not validate.
\<close>

definition load_contract :: "job_state \<Rightarrow> work_contract result" where
  "load_contract s = (if isfinite (wall_seconds (budget (js_contract s))) then validate_contract (js_contract s)
     else Inl (ValueError ''wall_seconds: float_type''))"

definition with_lease :: "storage_cfg \<Rightarrow> pyfloat \<Rightarrow> pyfloat result" where
  "with_lease cfg now = ebind (float_of_int (opt_lease_seconds (options cfg))) (\<lambda>l. Inr (fadd now l))"

section \<open>Queue references\<close>

fun equals_one :: "pyval \<Rightarrow> bool" where
  "equals_one (PInt n) = (n = 1)"
| "equals_one (PBool b) = b"
| "equals_one (PFloat x) = feq x (Fin 1)"
| "equals_one _ = False"

definition job_reference :: "string \<Rightarrow> msg_text" where
  "job_reference job = JsonText (PDict [(''job_id'', PStr job), (''v'', PInt 1)])"

fun message_job :: "msg_text \<Rightarrow> string result" where
  "message_job NotText = Inl (TypeError ''queue message content is invalid'')"
| "message_job NotJson = Inl (ValueError ''not JSON'')"
| "message_job (JsonText (PDict kvs)) =
     ebind (guard (set (map fst kvs) = {''v'', ''job_id''} \<and> (case map_of kvs ''v'' of Some v \<Rightarrow> equals_one v | None \<Rightarrow> False))
       (ValueError ''queue message reference is invalid'')) (\<lambda>_.
     case map_of kvs ''job_id'' of
       Some (PStr job) \<Rightarrow> ebind (blob_name job) (\<lambda>_. Inr job)
     | _ \<Rightarrow> Inl (TypeError ''job_id is not a string''))"
| "message_job (JsonText _) = Inl (ValueError ''queue message reference is invalid'')"

definition given_receipt :: "string option \<Rightarrow> string option" where
  "given_receipt r = (case r of None \<Rightarrow> None | Some x \<Rightarrow> if x = [] then None else Some x)"

definition drop_message :: "message \<Rightarrow> unit act" where
  "drop_message m = (case given_receipt (msg_receipt m) of None \<Rightarrow> ret () | Some rc \<Rightarrow> delete_message m rc)"

section \<open>Producing\<close>

definition enqueue :: "string \<Rightarrow> work_contract \<Rightarrow> unit act" where
  "enqueue job c =
     act_bind read_time (\<lambda>now.
     let state = new_job job c now in
     act_bind (from_result (blob_name job)) (\<lambda>n.
     act_bind (try_catch (act_bind (upload n (JobBlob (encode_job state)) None) (\<lambda>_. ret False))
       (\<lambda>x. if \<not> status_in x [409, 412] then throw x
            else act_bind (read_job job) (\<lambda>(existing, _).
              act_bind (require (js_contract existing = c \<and> isfinite (wall_seconds (budget c)))
                (ValueError ''job_id already exists with a different contract'')) (\<lambda>_.
              ret (accepted_result_json existing \<noteq> None))))) (\<lambda>accepted.
     if accepted then ret () else send_message (job_reference job))))"

section \<open>Notifications\<close>

definition read_cursor :: "(notification_cursor \<times> string) act" where
  "read_cursor =
     act_bind (try_catch (download cursor_blob)
       (\<lambda>x. if status_of x \<noteq> Some 404 then throw x
            else act_bind (try_catch (upload cursor_blob (CursorBlob \<lparr>cu_version = 1, continuation_token = None\<rparr>) None)
                   (\<lambda>y. if \<not> status_in y [409, 412] then throw y else ret ()))
                 (\<lambda>_. download cursor_blob))) (\<lambda>(d, etag).
     act_bind (from_result (decode_cursor d)) (\<lambda>cursor.
     act_bind (require (cu_version cursor = 1) (ValueError ''unsupported notification cursor version'')) (\<lambda>_.
     ret (cursor, etag))))"

definition write_cursor :: "notification_cursor \<Rightarrow> string \<Rightarrow> unit act" where
  "write_cursor cursor etag = try_catch (conditional_upload cursor_blob (CursorBlob cursor) etag)
     (\<lambda>x. if is_lease_error x then ret () else throw x)"

text \<open>The job a listed name stands for: the last path segment without \<open>.json\<close>; others are skipped.\<close>

definition job_of_name :: "string \<Rightarrow> string option" where
  "job_of_name n = (if starts_with (rev n) (rev ''.json'')
     then let seg = last (split_on slash n) in Some (take (length seg - 5) seg) else None)"

definition mark_sent :: "job_state \<Rightarrow> string \<Rightarrow> unit act" where
  "mark_sent s etag = try_catch (write_job (s\<lparr>notification_pending := False, notification_sent := True\<rparr>) etag)
     (\<lambda>x. if is_lease_error x \<or> status_in x [409, 412] then ret () else throw x)"

definition recover_one :: "string \<Rightarrow> unit act" where
  "recover_one name = (case job_of_name name of None \<Rightarrow> ret ()
     | Some job \<Rightarrow> act_bind (read_job job) (\<lambda>(s, etag).
         if \<not> notification_pending s \<or> notification_sent s then ret ()
         else case (accepted_attempt_id s, accepted_result_json s) of
           (Some a, Some v) \<Rightarrow>
             act_bind (try_catch (act_bind (notify job a (json_loads v)) (\<lambda>_. ret True)) (\<lambda>x. ret False))
               (\<lambda>sent. if sent then mark_sent s etag else ret ())
         | _ \<Rightarrow> ret ()))"

fun recover_page :: "string list \<Rightarrow> unit act" where
  "recover_page [] = ret ()"
| "recover_page (n # ns) = act_bind (recover_one n) (\<lambda>_. recover_page ns)"

definition recover_notifications :: "unit act" where
  "recover_notifications =
     act_bind read_cursor (\<lambda>(cursor, cursor_etag).
     act_bind (list_page (continuation_token cursor)) (\<lambda>page.
     case page of
       None \<Rightarrow> write_cursor (cursor\<lparr>continuation_token := None\<rparr>) cursor_etag
     | Some (names, token') \<Rightarrow> act_bind (recover_page names) (\<lambda>_.
         write_cursor (cursor\<lparr>continuation_token := token'\<rparr>) cursor_etag)))"

section \<open>Claiming\<close>

definition unique_token :: "string act" where
  "unique_token = act_bind make_token (\<lambda>t. act_bind get_claims (\<lambda>cs.
     case t of Some tok \<Rightarrow> if length tok < 32 \<or> map_of cs tok \<noteq> None
         then throw (RuntimeError ''claim token factory must return unique opaque tokens'') else ret tok
     | None \<Rightarrow> throw (RuntimeError ''claim token factory must return unique opaque tokens'')))"

datatype claim_outcome = Settled | NoWork | Claimed delivery string

text \<open>A conditional write whose conflict means that another worker was faster.\<close>

definition write_unless_beaten :: "job_state \<Rightarrow> string \<Rightarrow> bool act" where
  "write_unless_beaten s etag = try_catch (act_bind (write_job s etag) (\<lambda>_. ret True))
     (\<lambda>x. if is_lease_error x then ret False else throw x)"

definition exhaust_job :: "message \<Rightarrow> job_state \<Rightarrow> string \<Rightarrow> work_contract \<Rightarrow> claim_outcome act" where
  "exhaust_job m s etag c =
     act_bind (write_unless_beaten (s\<lparr>terminal_reason := Some (if js_attempt_number s \<ge> max_attempts (budget c)
         then ''attempt_budget_exhausted'' else ''wall_budget_expired'')\<rparr>) etag) (\<lambda>written.
     if written then act_bind (drop_message m) (\<lambda>_. ret NoWork) else ret NoWork)"

definition grant_lease :: "storage_cfg \<Rightarrow> message \<Rightarrow> job_state \<Rightarrow> string \<Rightarrow> work_contract \<Rightarrow> pyfloat \<Rightarrow> claim_outcome act" where
  "grant_lease cfg m s etag c now =
     (let job = js_job_id s; deadline = fadd (js_started_at s) (wall_seconds (budget c));
          generation = js_generation s + 1; attempt = js_attempt_number s + 1 in
     act_bind unique_token (\<lambda>token.
     act_bind (from_result (with_lease cfg now)) (\<lambda>until.
     let expires = fmin until deadline in
     act_bind (write_unless_beaten (s\<lparr>js_generation := generation, js_attempt_number := attempt,
         js_lease_id := Some (token_hash cfg token), js_lease_expires_at := Some expires\<rparr>) etag) (\<lambda>written.
     if \<not> written then ret NoWork
     else let d = \<lparr>d_job_id = job, d_contract_id = contract_id c, d_attempt_id = attempt_name job attempt,
            d_lease_id = token, d_expires_at = expires\<rparr> in
       case given_receipt (msg_receipt m) of
         None \<Rightarrow> throw (RuntimeError ''queue message omitted pop receipt'')
       | Some rc \<Rightarrow> act_bind get_claims (\<lambda>cs. act_bind (put_claims (AList.update token
            \<lparr>cx_token = token, cx_job_id = job, cx_attempt_id = attempt_name job attempt, cx_generation = generation,
             cx_message = m, cx_receipt = rc, cx_delivery = d\<rparr> cs)) (\<lambda>_. ret (Claimed d token)))))))"

definition claim_message :: "storage_cfg \<Rightarrow> message \<Rightarrow> claim_outcome act" where
  "claim_message cfg m =
     act_bind (from_result (message_job (msg_content m))) (\<lambda>job.
     act_bind (read_job job) (\<lambda>(s, etag).
     if accepted_result_json s \<noteq> None then act_bind (drop_message m) (\<lambda>_. ret Settled)
     else if terminal_reason s \<noteq> None then act_bind (drop_message m) (\<lambda>_. ret NoWork)
     else act_bind read_time (\<lambda>now.
       act_bind (from_result (load_contract s)) (\<lambda>c.
       let deadline = fadd (js_started_at s) (wall_seconds (budget c)) in
       if (case js_lease_expires_at s of None \<Rightarrow> False | Some x \<Rightarrow> flt now (fmin x deadline)) then ret NoWork
       else if js_attempt_number s \<ge> max_attempts (budget c) \<or> fle deadline now then exhaust_job m s etag c
       else grant_lease cfg m s etag c now))))"

definition prune_claims :: "unit act" where
  "prune_claims = act_bind read_time (\<lambda>now. act_bind get_claims (\<lambda>cs.
     put_claims (filter (\<lambda>(t, cx). \<not> fle (d_expires_at (cx_delivery cx)) now) cs)))"

fun drain :: "storage_cfg \<Rightarrow> nat \<Rightarrow> (delivery \<times> string) option act" where
  "drain cfg 0 = ret None"
| "drain cfg (Suc n) = act_bind (receive_message (opt_lease_seconds (options cfg))) (\<lambda>m. case m of
     None \<Rightarrow> ret None
   | Some msg \<Rightarrow> act_bind (claim_message cfg msg) (\<lambda>out. case out of
       Settled \<Rightarrow> drain cfg n
     | NoWork \<Rightarrow> ret None
     | Claimed d t \<Rightarrow> ret (Some (d, t))))"

definition durable_claim :: "storage_cfg \<Rightarrow> (delivery \<times> string) option act" where
  "durable_claim cfg =
     act_bind prune_claims (\<lambda>_. act_bind get_claims (\<lambda>cs.
     if int (length cs) \<ge> max_local_claims (options cfg) then ret None
     else act_bind recover_notifications (\<lambda>_. drain cfg (nat (accepted_trigger_drain_limit (options cfg))))))"

section \<open>Holding a claim\<close>

text \<open>\<open>_require_claim\<close>: the claim is the current generation of an open job, and its lease runs.\<close>

definition require_claim :: "storage_cfg \<Rightarrow> claim_context \<Rightarrow> job_state \<Rightarrow> unit act" where
  "require_claim cfg cx s =
     act_bind (require (\<not> (js_generation s \<noteq> cx_generation cx \<or> js_lease_id s \<noteq> Some (token_hash cfg (cx_token cx))
         \<or> accepted_result_json s \<noteq> None \<or> terminal_reason s \<noteq> None)) (LeaseError ''stale claim generation'')) (\<lambda>_.
     act_bind read_time (\<lambda>now.
     act_bind (from_result (load_contract s)) (\<lambda>c.
     let expires = (case js_lease_expires_at s of None \<Rightarrow> Fin 0 | Some x \<Rightarrow> x) in
     require (\<not> fle (fmin expires (fadd (js_started_at s) (wall_seconds (budget c)))) now) (LeaseError ''lease expired''))))"

definition claim_of :: "string \<Rightarrow> claim_context option act" where
  "claim_of token = act_bind get_claims (\<lambda>cs. ret (map_of cs token))"

definition current_claim :: "storage_cfg \<Rightarrow> string \<Rightarrow> (claim_context \<times> job_state \<times> string) act" where
  "current_claim cfg token = act_bind (claim_of token) (\<lambda>cx. case cx of
       None \<Rightarrow> throw (LeaseError ''stale or unknown claim'')
     | Some cx \<Rightarrow> act_bind (read_job (cx_job_id cx)) (\<lambda>(s, etag).
         act_bind (require_claim cfg cx s) (\<lambda>_. ret (cx, s, etag))))"

definition put_claim :: "string \<Rightarrow> claim_context \<Rightarrow> unit act" where
  "put_claim token cx = act_bind get_claims (\<lambda>cs. put_claims (AList.update token cx cs))"

definition pop_claim :: "string \<Rightarrow> unit act" where
  "pop_claim token = act_bind get_claims (\<lambda>cs. put_claims (AList.delete token cs))"

text \<open>\<open>int(x)\<close> of a float: truncation towards zero.\<close>

fun int_of_float :: "pyfloat \<Rightarrow> int result" where
  "int_of_float (Fin q) = Inr (if q < 0 then - \<lfloor>- q\<rfloor> else \<lfloor>q\<rfloor>)"
| "int_of_float NaN = Inl (ValueError ''cannot convert float NaN to integer'')"
| "int_of_float _ = Inl (OverflowError ''cannot convert float infinity to integer'')"

text \<open>The second half of a renewal, after the queue has rotated the receipt: re-read, check, write.\<close>

definition store_renewal :: "storage_cfg \<Rightarrow> string \<Rightarrow> claim_context \<Rightarrow> pyfloat \<Rightarrow> delivery act" where
  "store_renewal cfg token cx limit =
     act_bind read_time (\<lambda>renewed_at.
     act_bind (read_job (cx_job_id cx)) (\<lambda>(cur, etag).
     act_bind (require_claim cfg cx cur) (\<lambda>_.
     act_bind (from_result (with_lease cfg renewed_at)) (\<lambda>until.
     let expiry = fmin until limit in
     act_bind (require (\<not> fle expiry renewed_at) (LeaseError ''lease expired'')) (\<lambda>_.
     act_bind (write_job (cur\<lparr>js_lease_expires_at := Some expiry\<rparr>) etag) (\<lambda>_.
     let d = \<lparr>d_job_id = d_job_id (cx_delivery cx), d_contract_id = d_contract_id (cx_delivery cx),
         d_attempt_id = d_attempt_id (cx_delivery cx), d_lease_id = token, d_expires_at = expiry\<rparr> in
     act_bind (put_claim token (cx\<lparr>cx_delivery := d\<rparr>)) (\<lambda>_. ret d)))))))"

definition durable_renew :: "storage_cfg \<Rightarrow> string \<Rightarrow> delivery act" where
  "durable_renew cfg token =
     act_bind (current_claim cfg token) (\<lambda>(cx, s, etag).
     act_bind (from_result (load_contract s)) (\<lambda>c.
     let deadline = fadd (js_started_at s) (wall_seconds (budget c)) in
     act_bind read_time (\<lambda>t1.
     act_bind (from_result (with_lease cfg t1)) (\<lambda>until.
     let expiry = fmin until deadline in
     act_bind read_time (\<lambda>t2.
     act_bind (require (\<not> fle (d_expires_at (cx_delivery cx)) t2) (LeaseError ''lease expired'')) (\<lambda>_.
     act_bind read_time (\<lambda>t3.
     act_bind (require (\<not> fle expiry t3) (LeaseError ''lease expired'')) (\<lambda>_.
     act_bind read_time (\<lambda>t4.
     act_bind (from_result (int_of_float (fsub expiry t4))) (\<lambda>visible.
     act_bind (update_message (cx_message cx) (cx_receipt cx) (max 1 visible)) (\<lambda>updated.
     case given_receipt updated of
       None \<Rightarrow> throw (RuntimeError ''queue update omitted rotated pop receipt'')
     | Some rc \<Rightarrow> act_bind (put_claim token (cx\<lparr>cx_receipt := rc\<rparr>)) (\<lambda>_.
         store_renewal cfg token (cx\<lparr>cx_receipt := rc\<rparr>) deadline))))))))))))"

definition durable_abandon :: "storage_cfg \<Rightarrow> string \<Rightarrow> unit act" where
  "durable_abandon cfg token =
     act_bind (current_claim cfg token) (\<lambda>(cx, s, etag).
     act_bind (write_job (s\<lparr>js_lease_id := None, js_lease_expires_at := None\<rparr>) etag) (\<lambda>_.
     act_bind (update_message (cx_message cx) (cx_receipt cx) 0) (\<lambda>_.
     pop_claim token)))"

section \<open>Completing\<close>

definition canonical_result :: "pyval \<Rightarrow> pyval result" where
  "canonical_result v = (case json_dumps v of
     Inr t \<Rightarrow> Inr t | Inl _ \<Rightarrow> Inl (VerificationError ''result must be finite JSON data''))"

definition write_claim_index :: "claim_index \<Rightarrow> unit act" where
  "write_claim_index ix = try_catch (upload (index_blob (ix_claim_hash ix)) (IndexBlob ix) None)
     (\<lambda>x. if \<not> status_in x [409, 412] then throw x
          else act_bind (download (index_blob (ix_claim_hash ix))) (\<lambda>(d, _).
            act_bind (from_result (decode_index d)) (\<lambda>existing.
            require (existing = ix) (LeaseError ''claim token index conflicts with accepted generation''))))"

definition settle :: "claim_context \<Rightarrow> unit act" where
  "settle cx = act_bind (try_catch (delete_message (cx_message cx) (cx_receipt cx))
       (\<lambda>x. if \<not> status_in x [404, 400, 412] then throw x else ret ()))
     (\<lambda>_. pop_claim (cx_token cx))"

definition find_accepted_claim :: "storage_cfg \<Rightarrow> string \<Rightarrow> job_state option act" where
  "find_accepted_claim cfg token = (let h = token_hash cfg token in
     act_bind (try_catch (act_bind (download (index_blob h)) (\<lambda>(d, _). ret (Some d)))
       (\<lambda>x. if status_of x = Some 404 then ret None else throw x)) (\<lambda>found.
     case found of None \<Rightarrow> ret None
     | Some d \<Rightarrow> act_bind (from_result (decode_index d)) (\<lambda>ix.
         if ix_claim_hash ix \<noteq> h \<or> ix_version ix \<noteq> 1 then ret None
         else act_bind (read_job (ix_job_id ix)) (\<lambda>(s, _).
           if accepted_claim_hash s \<noteq> Some h \<or> accepted_generation s \<noteq> Some (ix_generation ix)
             \<or> accepted_attempt_id s \<noteq> Some (ix_attempt_id ix)
           then ret None else ret (Some s)))))"

definition complete_retry :: "storage_cfg \<Rightarrow> string \<Rightarrow> pyval \<Rightarrow> pyval act" where
  "complete_retry cfg token result_json =
     act_bind (find_accepted_claim cfg token) (\<lambda>accepted.
     case accepted of None \<Rightarrow> throw (LeaseError ''stale or unknown claim'')
     | Some s \<Rightarrow> if accepted_result_json s \<noteq> Some result_json then throw (LeaseError ''stale or unknown claim'')
         else act_bind recover_notifications (\<lambda>_. ret (json_loads result_json)))"

definition complete_accepted :: "storage_cfg \<Rightarrow> string \<Rightarrow> claim_context \<Rightarrow> job_state \<Rightarrow> pyval \<Rightarrow> pyval act" where
  "complete_accepted cfg token cx s result_json =
     (if accepted_generation s = Some (cx_generation cx) \<and> accepted_claim_hash s = Some (token_hash cfg token)
         \<and> accepted_result_json s = Some result_json
      then act_bind (settle cx) (\<lambda>_. act_bind recover_notifications (\<lambda>_. ret (json_loads result_json)))
      else throw (LeaseError ''job already accepted under another generation or result''))"

text \<open>The claim index, then a fresh read, and the write that is the commit point.\<close>

definition commit_result :: "storage_cfg \<Rightarrow> string \<Rightarrow> claim_context \<Rightarrow> work_contract \<Rightarrow> pyval \<Rightarrow> unit act" where
  "commit_result cfg token cx c result_json =
     act_bind (read_job (cx_job_id cx)) (\<lambda>(s, _).
     act_bind (require_claim cfg cx s) (\<lambda>_.
     act_bind (write_claim_index \<lparr>ix_version = 1, ix_job_id = cx_job_id cx, ix_generation = cx_generation cx,
         ix_attempt_id = cx_attempt_id cx, ix_claim_hash = token_hash cfg token,
         ix_expires_at = fadd (js_started_at s) (wall_seconds (budget c))\<rparr>) (\<lambda>_.
     act_bind (read_job (cx_job_id cx)) (\<lambda>(s, etag).
     act_bind (require_claim cfg cx s) (\<lambda>_.
     write_job (s\<lparr>accepted_generation := Some (cx_generation cx), accepted_attempt_id := Some (cx_attempt_id cx),
       accepted_claim_hash := Some (token_hash cfg token), accepted_result_json := Some result_json,
       notification_pending := True, notification_sent := False\<rparr>) etag)))))"

definition durable_complete :: "storage_cfg \<Rightarrow> string \<Rightarrow> pyval \<Rightarrow> pyval act" where
  "durable_complete cfg token result =
     act_bind (claim_of token) (\<lambda>cx.
     act_bind (from_result (canonical_result result)) (\<lambda>result_json.
     case cx of None \<Rightarrow> complete_retry cfg token result_json
     | Some cx \<Rightarrow> act_bind (read_job (cx_job_id cx)) (\<lambda>(s, _).
         if accepted_result_json s \<noteq> None then complete_accepted cfg token cx s result_json
         else act_bind (require_claim cfg cx s) (\<lambda>_.
           act_bind (from_result (load_contract s)) (\<lambda>c.
           act_bind (ask_verifier c (json_loads result_json)) (\<lambda>accepted.
           act_bind (require accepted (VerificationError ''trusted verifier rejected result'')) (\<lambda>_.
           act_bind (commit_result cfg token cx c result_json) (\<lambda>_.
           act_bind (settle cx) (\<lambda>_.
           act_bind recover_notifications (\<lambda>_. ret (json_loads result_json)))))))))))"

definition durable_completed_result :: "string \<Rightarrow> pyval option act" where
  "durable_completed_result job = act_bind (read_job job) (\<lambda>(s, _). ret (map_option json_loads (accepted_result_json s)))"

section \<open>The operations of a worker\<close>

datatype storage_op =
    OpEnqueue string work_contract
  | OpClaim
  | OpRenew string
  | OpAbandon string
  | OpComplete string pyval
  | OpRecover
  | OpResult string

datatype storage_value =
    Unit_Value
  | Claim_Value "(delivery \<times> string) option"
  | Renew_Value delivery
  | Complete_Value pyval
  | Result_Value "pyval option"

definition act_map :: "('a \<Rightarrow> 'b) \<Rightarrow> 'a act \<Rightarrow> 'b act" where
  "act_map f m = act_bind m (\<lambda>x. ret (f x))"

fun storage_exec :: "storage_cfg \<Rightarrow> storage_op \<Rightarrow> storage_value act" where
  "storage_exec cfg (OpEnqueue job c) = act_map (\<lambda>_. Unit_Value) (enqueue job c)"
| "storage_exec cfg OpClaim = act_map Claim_Value (durable_claim cfg)"
| "storage_exec cfg (OpRenew t) = act_map Renew_Value (durable_renew cfg t)"
| "storage_exec cfg (OpAbandon t) = act_map (\<lambda>_. Unit_Value) (durable_abandon cfg t)"
| "storage_exec cfg (OpComplete t v) = act_map Complete_Value (durable_complete cfg t v)"
| "storage_exec cfg OpRecover = act_map (\<lambda>_. Unit_Value) recover_notifications"
| "storage_exec cfg (OpResult job) = act_map Result_Value (durable_completed_result job)"

end
