(* ===== verification/Storage_Logic.thy ===== *)
theory Storage_Logic
  imports Flash_Storage
begin

text \<open>
  Reasoning about the workers' programs while other workers act.

  A \<open>history\<close> is the set of blob versions that ever existed, as (name, etag, content) triples; it only
  grows. \<open>wp rules p Q H\<close> says that program \<open>p\<close>, started when the history is \<open>H\<close>, makes only uploads
  the protocol permits and ends satisfying \<open>Q\<close>, whatever versions other workers add at each call and
  whatever the replies are, as long as these are truthful about the history. \<open>hoare\<close> is the triple for
  actions; its rules are named \<open>hoare_intros\<close>. The worker's table of claims is kept \<open>claims_ok\<close> also when
  an exception is raised.
\<close>

named_theorems hoare_intros "Hoare rules for actions"

section \<open>Histories and permitted uploads\<close>

type_synonym history = "(string \<times> string \<times> blob_data) set"

type_synonym approvals = "work_contract \<Rightarrow> pyval \<Rightarrow> bool"

text \<open>A well-formed version: the document sits under its own name and keeps the protocol's invariant.\<close>

definition good_version :: "approvals \<Rightarrow> string \<Rightarrow> blob_data \<Rightarrow> bool" where
  "good_version approves n d \<longleftrightarrow> (case d of
      JobBlob s \<Rightarrow> n = job_blob (js_job_id s) \<and> job_ok approves s
    | IndexBlob ix \<Rightarrow> n = index_blob (ix_claim_hash ix)
    | CursorBlob cu \<Rightarrow> n = cursor_blob
    | ForeignBlob k \<Rightarrow> False)"

text \<open>All versions are well formed, and a job's contract and start never change.\<close>

definition same_origin :: "history \<Rightarrow> bool" where
  "same_origin H \<longleftrightarrow> (\<forall>n e e' s s'. (n, e, JobBlob s) \<in> H \<longrightarrow> (n, e', JobBlob s') \<in> H \<longrightarrow>
     js_contract s' = js_contract s \<and> js_started_at s' = js_started_at s)"

definition sound :: "approvals \<Rightarrow> history \<Rightarrow> bool" where
  "sound approves H \<longleftrightarrow> (\<forall>n e d. (n, e, d) \<in> H \<longrightarrow> good_version approves n d) \<and> same_origin H"

text \<open>Replacing a version: a job record makes a protocol step, the other documents are free.\<close>

definition may_replace :: "approvals \<Rightarrow> blob_data \<Rightarrow> blob_data \<Rightarrow> bool" where
  "may_replace approves d0 d \<longleftrightarrow> (case (d0, d) of
      (JobBlob s, JobBlob t) \<Rightarrow> job_step approves s t
    | (CursorBlob _, CursorBlob _) \<Rightarrow> True
    | _ \<Rightarrow> False)"

definition may_create :: "blob_data \<Rightarrow> bool" where
  "may_create d \<longleftrightarrow> (case d of
      JobBlob s \<Rightarrow> (\<exists>job c now. s = encode_job (new_job job c now))
    | ForeignBlob k \<Rightarrow> False
    | _ \<Rightarrow> True)"

fun permitted :: "approvals \<Rightarrow> history \<Rightarrow> call \<Rightarrow> bool" where
  "permitted approves H (CUpload n d None) = (good_version approves n d \<and> may_create d)"
| "permitted approves H (CUpload n d (Some e)) =
     (good_version approves n d \<and> (\<exists>d0. (n, e, d0) \<in> H \<and> may_replace approves d0 d))"
| "permitted approves H _ = True"

text \<open>What a reply may be relied on for.\<close>

fun truthful :: "approvals \<Rightarrow> history \<Rightarrow> call \<Rightarrow> reply \<Rightarrow> bool" where
  "truthful approves H (CDownload n) (RBlob d e) = ((n, e, d) \<in> H)"
| "truthful approves H (CUpload n d cond) ROk = (\<exists>e. (n, e, d) \<in> H)"
| "truthful approves H (CVerify c v) (RVerdict b) = (b \<longrightarrow> approves c v)"
| "truthful approves H _ _ = True"

primrec wp :: "approvals \<Rightarrow> 'a io \<Rightarrow> ('a \<Rightarrow> history \<Rightarrow> bool) \<Rightarrow> history \<Rightarrow> bool" where
  "wp approves (Done x) Q H = Q x H"
| "wp approves (Do c k) Q H = (permitted approves H c
     \<and> (\<forall>H' r. H \<subseteq> H' \<longrightarrow> sound approves H' \<longrightarrow> truthful approves H' c r \<longrightarrow> wp approves (k r) Q H'))"

lemma wp_bind: "wp approves (io_bind p f) Q H = wp approves p (\<lambda>x. wp approves (f x) Q) H"
  by (induction p arbitrary: H) auto

lemma wp_conseq:
  "wp approves p Q H \<Longrightarrow> (\<And>x H'. H \<subseteq> H' \<Longrightarrow> Q x H' \<Longrightarrow> R x H') \<Longrightarrow> wp approves p R H"
proof (induction p arbitrary: H)
  case (Do c k)
  show ?case
  proof (simp, intro conjI allI impI)
    show "permitted approves H c" using Do.prems(1) by simp
    fix H' r assume H': "H \<subseteq> H'" "sound approves H'" "truthful approves H' c r"
    then have "wp approves (k r) Q H'" using Do.prems(1) by simp
    moreover have "Q x H'' \<Longrightarrow> R x H''" if "H' \<subseteq> H''" for x H'' using Do.prems(2) H'(1) that by blast
    ultimately show "wp approves (k r) R H'" by (intro Do.IH) auto
  qed
qed simp

lemma permitted_mono: "H \<subseteq> H' \<Longrightarrow> permitted approves H c \<Longrightarrow> permitted approves H' c"
  by (cases "(approves, H, c)" rule: permitted.cases) auto

lemma wp_mono_history:
  "wp approves p Q H \<Longrightarrow> H \<subseteq> H' \<Longrightarrow> (\<And>x K. H \<subseteq> K \<Longrightarrow> Q x H \<Longrightarrow> Q x K) \<Longrightarrow> wp approves p Q H'"
  by (cases p) (auto simp: permitted_mono)

section \<open>Triples for actions\<close>

text \<open>Each claim a worker holds names its own token and the attempt of its generation.\<close>

definition context_ok :: "string \<Rightarrow> claim_context \<Rightarrow> bool" where
  "context_ok token cx \<longleftrightarrow> cx_token cx = token \<and> cx_attempt_id cx = attempt_name (cx_job_id cx) (cx_generation cx)"

definition claims_ok :: "claims \<Rightarrow> bool" where
  "claims_ok cs \<longleftrightarrow> (\<forall>t cx. map_of cs t = Some cx \<longrightarrow> context_ok t cx) \<and> distinct (map fst cs)"

type_synonym assertion = "history \<Rightarrow> bool"

definition stable :: "assertion \<Rightarrow> bool" where
  "stable P \<longleftrightarrow> (\<forall>H H'. H \<subseteq> H' \<longrightarrow> P H \<longrightarrow> P H')"

definition post :: "approvals \<Rightarrow> assertion \<Rightarrow> ('a \<Rightarrow> assertion) \<Rightarrow> 'a result \<times> claims \<Rightarrow> assertion" where
  "post approves P Q y H \<longleftrightarrow> claims_ok (snd y) \<and> sound approves H \<and> P H \<and> (\<forall>x. fst y = Inr x \<longrightarrow> Q x H)"

definition hoare :: "approvals \<Rightarrow> assertion \<Rightarrow> 'a act \<Rightarrow> ('a \<Rightarrow> assertion) \<Rightarrow> bool" where
  "hoare approves P m Q \<longleftrightarrow> stable P \<longrightarrow> (\<forall>cs H. claims_ok cs \<longrightarrow> sound approves H \<longrightarrow> P H \<longrightarrow>
     wp approves (m cs) (post approves P Q) H)"

lemma hoareI:
  "(\<And>cs H. stable P \<Longrightarrow> claims_ok cs \<Longrightarrow> sound approves H \<Longrightarrow> P H \<Longrightarrow> wp approves (m cs) (post approves P Q) H) \<Longrightarrow> hoare approves P m Q"
  by (simp add: hoare_def)

lemma hoareD:
  "hoare approves P m Q \<Longrightarrow> stable P \<Longrightarrow> claims_ok cs \<Longrightarrow> sound approves H \<Longrightarrow> P H \<Longrightarrow> wp approves (m cs) (post approves P Q) H"
  by (simp add: hoare_def)

lemma hoare_bind [hoare_intros]:
  assumes m: "hoare approves P m R" and f: "\<And>x. hoare approves (\<lambda>H. P H \<and> R x H) (f x) Q" and st: "\<And>x. stable (R x)"
  shows "hoare approves P (act_bind m f) Q"
proof (rule hoareI)
  fix cs H
  assume P: "stable P" "claims_ok cs" "sound approves H" "P H"
  have "wp approves (case y of (r, cs') \<Rightarrow> (case r of Inl e \<Rightarrow> Done (Inl e, cs') | Inr x \<Rightarrow> f x cs')) (post approves P Q) H'"
    if y: "post approves P R y H'" for y H'
  proof (cases y)
    case (Pair r cs')
    show ?thesis
    proof (cases r)
      case (Inl e)
      with Pair y show ?thesis by (simp add: post_def)
    next
      case (Inr x)
      have "stable (\<lambda>H. P H \<and> R x H)" using P(1) st [of x] by (auto simp: stable_def)
      with hoareD [OF f [of x]] Pair y Inr
      have "wp approves (f x cs') (post approves (\<lambda>H. P H \<and> R x H) Q) H'" by (simp add: post_def)
      then show ?thesis using Pair Inr by (auto simp: post_def elim: wp_conseq)
    qed
  qed
  then show "wp approves (act_bind m f cs) (post approves P Q) H"
    unfolding act_bind_def wp_bind using hoareD [OF m P] by (rule wp_conseq [rotated])
qed

lemma hoare_conseq:
  "hoare approves P m R \<Longrightarrow> (\<And>x H. P H \<Longrightarrow> R x H \<Longrightarrow> sound approves H \<Longrightarrow> Q x H) \<Longrightarrow> hoare approves P m Q"
  unfolding hoare_def post_def by (fastforce elim!: wp_conseq)

lemma hoare_ret: "hoare approves P (ret x) (\<lambda>y H. y = x)"
  by (simp add: hoare_def post_def ret_def)

lemma hoare_throw [hoare_intros]: "hoare approves P (throw e) Q"
  by (simp add: hoare_def post_def throw_def)

lemma hoare_from_result: "hoare approves P (from_result r) (\<lambda>x H. r = Inr x)"
  by (simp add: hoare_def post_def from_result_def)

lemma hoare_require: "hoare approves P (require b e) (\<lambda>_ H. b)"
  by (simp add: hoare_def post_def from_result_def require_def)

lemma hoare_get: "hoare approves P get_claims (\<lambda>cs H. claims_ok cs)"
  by (simp add: hoare_def post_def get_claims_def)

lemma hoare_put [hoare_intros]: "claims_ok cs \<Longrightarrow> hoare approves P (put_claims cs) (\<lambda>_ H. True)"
  by (simp add: hoare_def post_def put_claims_def)

lemma hoare_catch:
  assumes m: "hoare approves P m Q" and h: "\<And>e. hoare approves P (h e) Q"
  shows "hoare approves P (try_catch m h) Q"
proof (rule hoareI)
  fix cs H
  assume P: "stable P" "claims_ok cs" "sound approves H" "P H"
  have "wp approves (case y of (r, cs') \<Rightarrow> (case r of Inl e \<Rightarrow> h e cs' | Inr x \<Rightarrow> Done (Inr x, cs'))) (post approves P Q) H'"
    if "post approves P Q y H'" for y H'
    using that hoareD [OF h P(1)] by (auto simp: post_def split: prod.splits sum.splits)
  then show "wp approves (try_catch m h cs) (post approves P Q) H"
    unfolding try_catch_def wp_bind using hoareD [OF m P] by (rule wp_conseq [rotated])
qed

lemma hoare_perform:
  assumes "\<And>H. P H \<Longrightarrow> sound approves H \<Longrightarrow> permitted approves H c"
  shows "hoare approves P (perform c) (\<lambda>r H. truthful approves H c r)"
  unfolding hoare_def perform_def post_def
  using assms by (auto simp: stable_def split: reply.splits)

lemma stable_const [simp, intro]: "stable (\<lambda>H. b)"
  by (simp add: stable_def)

lemma stable_mem [simp, intro]: "stable (\<lambda>H. x \<in> H)"
  by (auto simp: stable_def)

lemma stable_conj [intro]: "stable P \<Longrightarrow> stable Q \<Longrightarrow> stable (\<lambda>H. P H \<and> Q H)"
  by (auto simp: stable_def)

lemma stable_ex [intro]: "(\<And>x. stable (P x)) \<Longrightarrow> stable (\<lambda>H. \<exists>x. P x H)"
  unfolding stable_def by blast

lemma stable_imp [intro]: "stable P \<Longrightarrow> stable (\<lambda>H. b \<longrightarrow> P H)"
  by (auto simp: stable_def)

lemma stable_truthful [intro]: "stable (\<lambda>H. truthful approves H c r)"
  unfolding stable_def by (intro allI impI, cases "(approves, {} :: history, c, r)" rule: truthful.cases) auto

end
