(* ===== verification/Storage_Refinement.thy ===== *)
theory Storage_Refinement
  imports Storage_Logic
begin

text \<open>
  The methods of the storage adapter make only protocol transitions, whatever the other workers do
  between their calls: one Hoare triple per method of \<open>Flash_Storage\<close>. The \<open>bind_*\<close> rules step over
  the common calls and turn what they establish into facts.
\<close>

section \<open>Stepping rules\<close>

lemma hoare_fact:
  assumes "b \<Longrightarrow> hoare approves P m Q" shows "hoare approves (\<lambda>H. P H \<and> b) m Q"
proof (cases b)
  case False
  then show ?thesis by (simp add: hoare_def)
qed (use assms in \<open>simp add: hoare_def post_def\<close>)

lemma hoare_True: "hoare approves P m Q \<Longrightarrow> hoare approves P m (\<lambda>_ _. True)"
  by (rule hoare_conseq) auto

lemma bind_pure:
  assumes "hoare approves P m (\<lambda>x H. R x)" "\<And>x. R x \<Longrightarrow> hoare approves P (f x) Q"
  shows "hoare approves P (act_bind m f) Q"
  by (rule hoare_bind [OF assms(1)]) (auto intro: hoare_fact assms(2))

lemma bind_from_result [hoare_intros]: "(\<And>x. r = Inr x \<Longrightarrow> hoare approves P (f x) Q) \<Longrightarrow> hoare approves P (act_bind (from_result r) f) Q"
  by (rule bind_pure [OF hoare_from_result])

lemma bind_require [hoare_intros]: "(b \<Longrightarrow> hoare approves P (f ()) Q) \<Longrightarrow> hoare approves P (act_bind (require b e) f) Q"
  by (rule bind_pure [OF hoare_require]) simp

lemma bind_get [hoare_intros]: "(\<And>cs. claims_ok cs \<Longrightarrow> hoare approves P (f cs) Q) \<Longrightarrow> hoare approves P (act_bind get_claims f) Q"
  by (rule bind_pure [OF hoare_get])

lemma bind_any: "hoare approves P m (\<lambda>_ _. True) \<Longrightarrow> (\<And>x. hoare approves P (f x) Q) \<Longrightarrow> hoare approves P (act_bind m f) Q"
  by (rule bind_pure [where R = "\<lambda>_. True"]) auto

lemma hoare_ret_I [hoare_intros]: "(\<And>H. P H \<Longrightarrow> sound approves H \<Longrightarrow> Q x H) \<Longrightarrow> hoare approves P (ret x) Q"
  by (rule hoare_conseq [OF hoare_ret]) auto

lemma hoare_bad [hoare_intros]: "hoare approves P bad_reply Q"
  by (simp add: bad_reply_def hoare_throw)

lemma hoare_free:
  assumes "\<And>H. permitted approves H c" shows "hoare approves P (perform c) (\<lambda>_ _. True)"
  by (rule hoare_True [OF hoare_perform]) (rule assms)

lemma hoare_read_time: "hoare approves P read_time (\<lambda>_ _. True)"
  unfolding read_time_def by (intro bind_any hoare_free) (auto intro: hoare_ret_I hoare_bad split: reply.split)

lemma bind_time [hoare_intros]: "(\<And>t. hoare approves P (f t) Q) \<Longrightarrow> hoare approves P (act_bind read_time f) Q"
  by (rule bind_any [OF hoare_read_time])

lemma hoare_make_token: "hoare approves P make_token (\<lambda>_ _. True)"
  unfolding make_token_def by (intro bind_any hoare_free) (auto intro: hoare_ret_I hoare_bad split: reply.split)

lemma hoare_queue [hoare_intros]:
  "hoare approves P (send_message t) (\<lambda>_ _. True)" "hoare approves P (receive_message v) (\<lambda>_ _. True)"
  "hoare approves P (update_message m rc v) (\<lambda>_ _. True)" "hoare approves P (delete_message m rc) (\<lambda>_ _. True)"
  "hoare approves P (list_page p) (\<lambda>_ _. True)" "hoare approves P (notify j a w) (\<lambda>_ _. True)"
  unfolding send_message_def receive_message_def update_message_def delete_message_def list_page_def notify_def
  by (intro bind_any hoare_free; auto intro: hoare_ret_I hoare_bad split: reply.split)+

lemma hoare_verifier: "hoare approves P (ask_verifier c v) (\<lambda>b _. b \<longrightarrow> approves c v)"
  unfolding ask_verifier_def
  by (rule hoare_bind [OF hoare_perform]) (auto intro!: hoare_ret_I hoare_bad split: reply.split)

lemma hoare_drop_message [hoare_intros]: "hoare approves P (drop_message m) (\<lambda>_ _. True)"
  by (auto simp: drop_message_def intro: hoare_ret_I hoare_queue split: option.split)

section \<open>Blobs\<close>

lemma hoare_download: "hoare approves P (download n) (\<lambda>(d, e) H. (n, e, d) \<in> H)"
  unfolding download_def
  by (rule hoare_bind [OF hoare_perform]) (auto intro!: hoare_ret_I hoare_bad split: reply.split)

lemma hoare_upload:
  assumes "\<And>H. P H \<Longrightarrow> sound approves H \<Longrightarrow> permitted approves H (CUpload n d cond)"
  shows "hoare approves P (upload n d cond) (\<lambda>_ H. \<exists>e. (n, e, d) \<in> H)"
  unfolding upload_def
  by (rule hoare_bind [OF hoare_perform]) (auto intro!: hoare_ret_I hoare_bad assms split: reply.split)

lemma hoare_conditional_upload:
  assumes "\<And>H. P H \<Longrightarrow> sound approves H \<Longrightarrow> permitted approves H (CUpload n d (Some e))"
  shows "hoare approves P (conditional_upload n d e) (\<lambda>_ H. \<exists>e. (n, e, d) \<in> H)"
  unfolding conditional_upload_def
  by (intro hoare_catch hoare_upload assms) (auto intro: hoare_throw)

text \<open>What a read that returns tells: a version of that job, in a state the code can work with.\<close>

definition readable :: "string \<Rightarrow> job_state \<Rightarrow> bool" where
  "readable job s \<longleftrightarrow> isfinite (js_started_at s) \<and> js_job_id s = job \<and> blob_name job = Inr (job_blob job)"

definition seen :: "job_state \<Rightarrow> string \<Rightarrow> assertion" where
  "seen s e H \<longleftrightarrow> (job_blob (js_job_id s), e, JobBlob s) \<in> H"

lemma stable_seen [intro]: "stable (seen s e)"
  by (auto simp: stable_def seen_def)

lemma blob_name_Inr: "blob_name job = Inr n \<Longrightarrow> n = job_blob job"
  by (auto simp: blob_name_def split: if_splits)

lemma decode_job_Inr: "decode_job d = Inr s \<longleftrightarrow> d = JobBlob s \<and> isfinite (js_started_at s)"
  by (cases d) auto

lemma hoare_read_job: "hoare approves P (read_job job) (\<lambda>(s, e) H. readable job s \<and> seen s e H)"
  unfolding read_job_def
  by (intro hoare_intros hoare_bind [OF hoare_download])
    (auto intro!: hoare_intros simp: readable_def seen_def decode_job_Inr dest: blob_name_Inr)

lemma seen_ok: "seen s e H \<Longrightarrow> sound approves H \<Longrightarrow> job_ok approves s"
  unfolding seen_def sound_def good_version_def by (metis blob_data.simps(17))

lemma bind_read_job [hoare_intros]:
  fixes f :: "job_state \<times> string \<Rightarrow> 'a act"
  assumes "\<And>s e. readable job s \<Longrightarrow> hoare approves (\<lambda>H. P H \<and> seen s e H) (f (s, e)) Q"
  shows "hoare approves P (act_bind (read_job job) f) Q"
proof (rule hoare_bind [OF hoare_read_job])
  fix x :: "job_state \<times> string"
  obtain s e where x: "x = (s, e)" by (cases x)
  have "hoare approves (\<lambda>H. (P H \<and> seen s e H) \<and> readable job s) (f (s, e)) Q"
    by (rule hoare_fact) (rule assms)
  then show "hoare approves (\<lambda>H. P H \<and> (case x of (s, e) \<Rightarrow> \<lambda>H. readable job s \<and> seen s e H) H) (f x) Q"
    by (simp add: x conj_ac)
  show "stable (case x of (s, e) \<Rightarrow> \<lambda>H. readable job s \<and> seen s e H)" by (auto simp: x)
qed

text \<open>The one rule for writing a job record: the write is a protocol step from the version read.\<close>

lemma hoare_write_job:
  assumes "\<And>H. P H \<Longrightarrow> sound approves H \<Longrightarrow> \<exists>s0. seen s0 e H \<and> js_job_id s0 = js_job_id s
      \<and> job_step approves s0 (encode_job s) \<and> proper_deadline s0"
  shows "hoare approves P (write_job s e) (\<lambda>_ H. \<exists>e. seen (encode_job s) e H)"
  unfolding write_job_def
proof (intro bind_from_result, drule blob_name_Inr, simp)
  have "permitted approves H (CUpload (job_blob (js_job_id s)) (JobBlob (encode_job s)) (Some e))"
    if H: "P H" "sound approves H" for H
  proof -
    from assms [OF H] obtain s0 where s0: "seen s0 e H" "js_job_id s0 = js_job_id s"
      "job_step approves s0 (encode_job s)" "proper_deadline s0" by auto
    from s0(1) H(2) have "job_ok approves s0" by (rule seen_ok)
    with s0 have "job_ok approves (encode_job s)" by (blast intro: job_step_ok)
    with s0 show ?thesis by (auto simp: good_version_def may_replace_def seen_def intro!: exI [of _ "JobBlob s0"])
  qed
  from hoare_conditional_upload [OF this]
  show "hoare approves P (conditional_upload (job_blob (js_job_id s)) (JobBlob (encode_job s)) e) (\<lambda>_ H. \<exists>e. seen (encode_job s) e H)"
    by (simp add: seen_def)
qed


lemma load_contract_Inr:
  assumes "load_contract s = Inr c"
  shows "validate_contract (js_contract s) = Inr c" "budget c = budget (js_contract s)" "isfinite (wall_seconds (budget c))"
  using assms by (auto simp: load_contract_def validate_contract_def split: if_splits)

lemma loaded_deadline:
  assumes "load_contract s = Inr c" "readable job s"
  shows "fadd (js_started_at s) (wall_seconds (budget c)) = job_deadline s" "proper_deadline s"
  using load_contract_Inr [OF assms(1)] assms(2)
  by (auto simp: job_deadline_def proper_deadline_def readable_def)
    (cases "js_started_at s"; cases "wall_seconds (budget (js_contract s))"; simp)+

section \<open>The methods\<close>

lemma hoare_try_write:
  assumes "\<And>H. P H \<Longrightarrow> sound approves H \<Longrightarrow> \<exists>s0. seen s0 e H \<and> js_job_id s0 = js_job_id s
      \<and> job_step approves s0 (encode_job s) \<and> proper_deadline s0"
  shows "hoare approves P (write_unless_beaten s e) (\<lambda>w H. w \<longrightarrow> (\<exists>e. seen (encode_job s) e H))"
  unfolding write_unless_beaten_def
  by (intro hoare_catch hoare_bind [OF hoare_write_job [OF assms]]) (auto intro!: hoare_ret_I hoare_throw)

lemma require_claim_facts:
  "hoare approves P (require_claim cfg cx s) (\<lambda>_ H. js_generation s = cx_generation cx
     \<and> js_lease_id s = Some (token_hash cfg (cx_token cx)) \<and> open_job s \<and> (\<exists>c. load_contract s = Inr c))"
  unfolding require_claim_def Let_def
  by (intro hoare_intros hoare_conseq [OF hoare_require]) (auto simp: open_job_def)

lemma bind_require_claim [hoare_intros]:
  assumes "\<And>c. js_generation s = cx_generation cx \<Longrightarrow> js_lease_id s = Some (token_hash cfg (cx_token cx)) \<Longrightarrow> open_job s \<Longrightarrow>
    load_contract s = Inr c \<Longrightarrow> hoare approves P (f ()) Q"
  shows "hoare approves P (act_bind (require_claim cfg cx s) f) Q"
  by (rule bind_pure [OF require_claim_facts]) (use assms in auto)

lemma hoare_enqueue: "hoare approves P (enqueue job c) (\<lambda>_ _. True)"
proof -
  have create: "hoare approves P (upload (job_blob job) (JobBlob (encode_job (new_job job c now))) None) (\<lambda>_ _. True)" for now
    by (rule hoare_True [OF hoare_upload])
      (auto simp: good_version_def may_create_def new_job_def finite_or_null_def encode_job_def job_ok_new [unfolded new_job_def])
  show ?thesis
    unfolding enqueue_def Let_def
    by (intro bind_time bind_from_result bind_any hoare_catch)
      (auto intro!: hoare_intros create hoare_queue intro: bind_any dest: blob_name_Inr)
qed

lemma seen_same_contract:
  "seen s e H \<Longrightarrow> seen s' e' H \<Longrightarrow> js_job_id s' = js_job_id s \<Longrightarrow> sound approves H \<Longrightarrow> js_contract s' = js_contract s"
  unfolding seen_def sound_def same_origin_def by metis

lemma encode_kept:
  assumes "job_ok approves s"
  shows "encode_job (s\<lparr>terminal_reason := r\<rparr>) = s\<lparr>terminal_reason := r\<rparr>"
    and "encode_job (s\<lparr>notification_pending := p, notification_sent := q\<rparr>) = s\<lparr>notification_pending := p, notification_sent := q\<rparr>"
    and "encode_job (s\<lparr>js_lease_id := None, js_lease_expires_at := None\<rparr>) = s\<lparr>js_lease_id := None, js_lease_expires_at := None\<rparr>"
    and "encode_job (s\<lparr>accepted_generation := g, accepted_attempt_id := a, accepted_claim_hash := h, accepted_result_json := v,
        notification_pending := p, notification_sent := q\<rparr>)
      = s\<lparr>accepted_generation := g, accepted_attempt_id := a, accepted_claim_hash := h, accepted_result_json := v,
        notification_pending := p, notification_sent := q\<rparr>"
  using assms by (auto intro!: encode_job_finite simp: job_ok_def null_or_finite_def)

text \<open>Notifications.\<close>

lemma hoare_read_cursor: "hoare approves P read_cursor (\<lambda>(cu, e) H. (cursor_blob, e, CursorBlob cu) \<in> H)"
proof -
  have create: "hoare approves P (upload cursor_blob (CursorBlob cu) None) (\<lambda>_ _. True)" for cu
    by (rule hoare_True [OF hoare_upload]) (simp add: good_version_def may_create_def)
  have cur: "decode_cursor d = Inr cu \<longleftrightarrow> d = CursorBlob cu" for d cu by (cases d) auto
  have get: "hoare approves P (try_catch (download cursor_blob)
       (\<lambda>x. if status_of x \<noteq> Some 404 then throw x
            else act_bind (try_catch (upload cursor_blob (CursorBlob cu) None)
                   (\<lambda>y. if \<not> status_in y [409, 412] then throw y else ret ()))
                 (\<lambda>_. download cursor_blob))) (\<lambda>(d, e) H. (cursor_blob, e, d) \<in> H)" for cu
    by (intro hoare_catch hoare_download) (auto intro!: hoare_throw bind_any hoare_catch create hoare_download hoare_ret_I)
  show ?thesis
    unfolding read_cursor_def
    by (rule hoare_bind [OF get]) (auto intro!: hoare_intros simp: cur)
qed

lemma hoare_write_cursor:
  assumes "\<And>H. P H \<Longrightarrow> \<exists>cu0. (cursor_blob, e, CursorBlob cu0) \<in> H"
  shows "hoare approves P (write_cursor cu e) (\<lambda>_ _. True)"
proof -
  have "hoare approves P (conditional_upload cursor_blob (CursorBlob cu) e) (\<lambda>_ _. True)"
    by (rule hoare_True [OF hoare_conditional_upload])
      (use assms in \<open>force simp: good_version_def may_replace_def\<close>)
  then show ?thesis unfolding write_cursor_def by (intro hoare_catch) (auto intro: hoare_intros)
qed

lemma accepted_deadline:
  "job_ok approves s \<Longrightarrow> accepted_result_json s = Some v \<Longrightarrow> isfinite (js_started_at s) \<Longrightarrow> proper_deadline s"
  by (cases "js_started_at s"; cases "wall_seconds (budget (js_contract s))")
    (auto simp: job_ok_def validate_contract_def validate_budget_def proper_deadline_def job_deadline_def)

lemma hoare_mark_sent:
  assumes "\<And>H. P H \<Longrightarrow> seen s e H" "accepted_result_json s = Some v" "accepted_attempt_id s = Some a" "isfinite (js_started_at s)"
  shows "hoare approves P (mark_sent s e) (\<lambda>_ _. True)"
proof -
  have "hoare approves P (write_job (s\<lparr>notification_pending := False, notification_sent := True\<rparr>) e) (\<lambda>_ _. True)"
  proof (rule hoare_True [OF hoare_write_job])
    fix H assume H: "P H" "sound approves H"
    then have ok: "job_ok approves s" using assms(1) seen_ok by blast
    show "\<exists>s0. seen s0 e H \<and> js_job_id s0 = js_job_id (s\<lparr>notification_pending := False, notification_sent := True\<rparr>)
      \<and> job_step approves s0 (encode_job (s\<lparr>notification_pending := False, notification_sent := True\<rparr>)) \<and> proper_deadline s0"
      unfolding encode_kept(2) [OF ok]
      using assms H accepted_deadline [OF ok assms(2,4)] by (auto intro!: exI [of _ s] js_notified)
  qed
  then show ?thesis unfolding mark_sent_def by (intro hoare_catch) (auto intro: hoare_intros)
qed

lemma hoare_recover_one: "hoare approves P (recover_one n) (\<lambda>_ _. True)"
proof (cases "job_of_name n")
  case None
  then show ?thesis by (auto simp: recover_one_def intro: hoare_intros)
next
  case (Some job)
  have tell: "hoare approves P (try_catch (act_bind (notify j a v) (\<lambda>_. ret True)) (\<lambda>x. ret False)) (\<lambda>_ _. True)" for P j a v
    by (intro hoare_catch bind_any hoare_queue) (auto intro: hoare_intros)
  show ?thesis
    unfolding recover_one_def Some option.case
    by (intro hoare_intros)
      (auto simp: readable_def intro!: bind_any [OF tell] hoare_mark_sent hoare_intros split: option.split)
qed

lemma hoare_recover_page: "hoare approves P (recover_page ns) (\<lambda>_ _. True)"
  by (induction ns arbitrary: P) (auto intro!: hoare_intros bind_any [OF hoare_recover_one])

lemma hoare_recover: "hoare approves P recover_notifications (\<lambda>_ _. True)"
  unfolding recover_notifications_def
proof (rule hoare_bind [OF hoare_read_cursor])
  fix x :: "notification_cursor \<times> string"
  obtain cu e where x: "x = (cu, e)" by (cases x)
  show "stable (case x of (cu, e) \<Rightarrow> \<lambda>H. (cursor_blob, e, CursorBlob cu) \<in> H)" by (simp add: x)
  show "hoare approves (\<lambda>H. P H \<and> (case x of (cu, e) \<Rightarrow> \<lambda>H. (cursor_blob, e, CursorBlob cu) \<in> H) H)
     (case x of (cursor, cursor_etag) \<Rightarrow> act_bind (list_page (continuation_token cursor)) (\<lambda>page. case page of
         None \<Rightarrow> write_cursor (cursor\<lparr>continuation_token := None\<rparr>) cursor_etag
       | Some (names, token') \<Rightarrow> act_bind (recover_page names) (\<lambda>_. write_cursor (cursor\<lparr>continuation_token := token'\<rparr>) cursor_etag)))
     (\<lambda>_ _. True)"
    by (auto simp: x intro!: bind_any hoare_queue hoare_recover_page hoare_write_cursor split: option.split)
qed

text \<open>Claiming.\<close>

lemma hoare_unique_token: "hoare approves P unique_token (\<lambda>_ _. True)"
  unfolding unique_token_def
  by (intro bind_any [OF hoare_make_token] bind_get) (auto intro: hoare_intros split: option.split)

lemma hoare_exhaust_job:
  assumes "\<And>H. P H \<Longrightarrow> seen s e H" "readable job s" "open_job s" "load_contract s = Inr c"
    "js_attempt_number s \<ge> max_attempts (budget c) \<or> fle (job_deadline s) now"
  shows "hoare approves P (exhaust_job m s e c) (\<lambda>out _. out = NoWork)"
proof -
  have "hoare approves P (write_unless_beaten (s\<lparr>terminal_reason := Some why\<rparr>) e) (\<lambda>_ _. True)" for why
  proof (rule hoare_True [OF hoare_try_write])
    fix H assume H: "P H" "sound approves H"
    then have ok: "job_ok approves s" using assms(1) seen_ok by blast
    have "job_step approves s (s\<lparr>terminal_reason := Some why\<rparr>)"
      using assms(5) load_contract_Inr(2) [OF assms(4)] by (intro js_exhaust [of _ now] assms(3)) simp
    then show "\<exists>s0. seen s0 e H \<and> js_job_id s0 = js_job_id (s\<lparr>terminal_reason := Some why\<rparr>)
      \<and> job_step approves s0 (encode_job (s\<lparr>terminal_reason := Some why\<rparr>)) \<and> proper_deadline s0"
      unfolding encode_kept(1) [OF ok] using assms H loaded_deadline(2) by (auto intro!: exI [of _ s])
  qed
  then show ?thesis
    unfolding exhaust_job_def by (intro bind_any) (auto intro!: hoare_intros bind_any)
qed

text \<open>A granted lease is durable when the claim returns.\<close>

definition lease_recorded :: "storage_cfg \<Rightarrow> delivery \<Rightarrow> string \<Rightarrow> assertion" where
  "lease_recorded cfg d t H \<longleftrightarrow> (\<exists>s e. seen s e H \<and> js_job_id s = d_job_id d \<and> js_lease_id s = Some (token_hash cfg t)
     \<and> js_lease_expires_at s = finite_or_null (Some (d_expires_at d)) \<and> d_attempt_id d = attempt_name (js_job_id s) (js_generation s)
     \<and> d_lease_id d = t)"

lemma claims_ok_update: "claims_ok cs \<Longrightarrow> context_ok t cx \<Longrightarrow> claims_ok (AList.update t cx cs)"
  by (auto simp: claims_ok_def distinct_update)

lemma claims_ok_delete: "claims_ok cs \<Longrightarrow> claims_ok (AList.delete t cs)"
  by (auto simp: claims_ok_def distinct_delete split: if_splits)

lemma claims_ok_filter: "claims_ok cs \<Longrightarrow> claims_ok (filter P cs)"
proof -
  assume ok: "claims_ok cs"
  have "distinct (map fst (filter P cs))" using ok distinct_map_filter by (simp add: claims_ok_def distinct_map_filter)
  moreover have "map_of cs t = Some cx" if "map_of (filter P cs) t = Some cx" for t cx
    using ok map_of_SomeD [OF that] by (auto simp: claims_ok_def)
  ultimately show ?thesis using ok by (auto simp: claims_ok_def)
qed

lemma hoare_grant_lease:
  assumes "\<And>H. P H \<Longrightarrow> seen s e H" "readable job s" "open_job s" "load_contract s = Inr c"
    "js_attempt_number s < max_attempts (budget c)" "\<not> fle (job_deadline s) now"
    "case js_lease_expires_at s of None \<Rightarrow> True | Some x \<Rightarrow> \<not> flt now (fmin x (job_deadline s))"
  shows "hoare approves P (grant_lease cfg m s e c now) (\<lambda>out H. \<forall>d t. out = Claimed d t \<longrightarrow> lease_recorded cfg d t H)"
proof -
  let ?s = "\<lambda>h x. s\<lparr>js_generation := js_generation s + 1, js_attempt_number := js_attempt_number s + 1,
    js_lease_id := Some h, js_lease_expires_at := Some x\<rparr>"
  have deadline: "fadd (js_started_at s) (wall_seconds (budget c)) = job_deadline s"
    by (rule loaded_deadline(1) [OF assms(4,2)])
  have wr: "hoare approves P (write_unless_beaten (?s h (fmin u (job_deadline s))) e)
      (\<lambda>w H. w \<longrightarrow> (\<exists>e'. seen (encode_job (?s h (fmin u (job_deadline s)))) e' H))" if "with_lease cfg now = Inr u" for h u
  proof (rule hoare_try_write)
    fix H assume H: "P H" "sound approves H"
    from that obtain l where u: "u = fadd now l" by (auto simp: with_lease_def)
    have "job_step approves s (encode_job (?s h (fmin u (job_deadline s))))"
      unfolding u using assms(3-7) load_contract_Inr(2) [OF assms(4)] by (intro js_claim) auto
    then show "\<exists>s0. seen s0 e H \<and> js_job_id s0 = js_job_id (?s h (fmin u (job_deadline s)))
      \<and> job_step approves s0 (encode_job (?s h (fmin u (job_deadline s)))) \<and> proper_deadline s0"
      using assms H loaded_deadline(2) by (auto intro!: exI [of _ s])
  qed
  have same: "js_generation s = js_attempt_number s" if "P H" "sound approves H" for H
    using seen_ok [OF assms(1) [OF that(1)] that(2)] by (simp add: job_ok_def)
  have put: "context_ok t \<lparr>cx_token = t, cx_job_id = j, cx_attempt_id = attempt_name j n, cx_generation = n, cx_message = m,
      cx_receipt = rc, cx_delivery = d\<rparr>" for t j n rc d
    by (simp add: context_ok_def)
  show ?thesis
  proof (cases "js_generation s = js_attempt_number s")
    case True
    show ?thesis
      unfolding grant_lease_def Let_def deadline True
      by (intro bind_any [OF hoare_unique_token] bind_from_result hoare_bind [OF wr [unfolded True]])
        (auto intro!: hoare_intros claims_ok_update put bind_any stable_imp stable_ex stable_seen simp: lease_recorded_def True split: option.split)
  next
    case False
    then show ?thesis using same by (auto simp: hoare_def)
  qed
qed

lemma hoare_claim_message:
  "hoare approves P (claim_message cfg m) (\<lambda>out H. \<forall>d t. out = Claimed d t \<longrightarrow> lease_recorded cfg d t H)"
  unfolding claim_message_def Let_def
proof (intro bind_from_result bind_read_job, clarsimp, intro conjI impI)
  fix job s e
  assume "readable job s"
  show "hoare approves (\<lambda>H. P H \<and> seen s e H) (act_bind (drop_message m) (\<lambda>_. ret Settled))
      (\<lambda>out H. \<forall>d t. out = Claimed d t \<longrightarrow> lease_recorded cfg d t H)"
    by (auto intro!: bind_any hoare_intros)
  show "hoare approves (\<lambda>H. P H \<and> seen s e H) (act_bind (drop_message m) (\<lambda>_. ret NoWork))
      (\<lambda>out H. \<forall>d t. out = Claimed d t \<longrightarrow> lease_recorded cfg d t H)"
    by (auto intro!: bind_any hoare_intros)
next
  fix job s e
  assume s: "readable job s" "accepted_result_json s = None" "terminal_reason s = None"
  have "open_job s" using s by (simp add: open_job_def)
  then show "hoare approves (\<lambda>H. P H \<and> seen s e H)
     (act_bind read_time (\<lambda>now. act_bind (from_result (load_contract s)) (\<lambda>c.
       if case js_lease_expires_at s of None \<Rightarrow> False | Some x \<Rightarrow> flt now (fmin x (fadd (js_started_at s) (wall_seconds (budget c))))
       then ret NoWork
       else if max_attempts (budget c) \<le> js_attempt_number s \<or> fle (fadd (js_started_at s) (wall_seconds (budget c))) now
         then exhaust_job m s e c else grant_lease cfg m s e c now)))
     (\<lambda>out H. \<forall>d t. out = Claimed d t \<longrightarrow> lease_recorded cfg d t H)"
  proof (intro bind_time bind_from_result)
    fix now c
    assume c: "load_contract s = Inr c"
    note deadline = loaded_deadline(1) [OF c s(1)]
    have ex: "hoare approves (\<lambda>H. P H \<and> seen s e H) (exhaust_job m s e c) (\<lambda>out H. \<forall>d t. out = Claimed d t \<longrightarrow> lease_recorded cfg d t H)"
      if "max_attempts (budget c) \<le> js_attempt_number s \<or> fle (job_deadline s) now"
      by (rule hoare_conseq [OF hoare_exhaust_job]) (use that \<open>open_job s\<close> s(1) c in auto)
    show "hoare approves (\<lambda>H. P H \<and> seen s e H)
       (if case js_lease_expires_at s of None \<Rightarrow> False | Some x \<Rightarrow> flt now (fmin x (fadd (js_started_at s) (wall_seconds (budget c))))
        then ret NoWork
        else if max_attempts (budget c) \<le> js_attempt_number s \<or> fle (fadd (js_started_at s) (wall_seconds (budget c))) now
          then exhaust_job m s e c else grant_lease cfg m s e c now)
       (\<lambda>out H. \<forall>d t. out = Claimed d t \<longrightarrow> lease_recorded cfg d t H)"
      unfolding deadline
      using \<open>open_job s\<close> s(1) c by (auto intro!: hoare_ret_I ex hoare_grant_lease split: option.splits)
  qed
qed (auto intro!: bind_any hoare_intros)

lemma hoare_prune_claims: "hoare approves P prune_claims (\<lambda>_ _. True)"
  unfolding prune_claims_def by (intro hoare_intros claims_ok_filter)

lemma lease_recorded_stable [intro]: "stable (lease_recorded cfg d t)"
  unfolding lease_recorded_def [abs_def] by (intro stable_ex stable_conj stable_seen stable_const)

lemma hoare_drain: "hoare approves P (drain cfg n) (\<lambda>out H. \<forall>d t. out = Some (d, t) \<longrightarrow> lease_recorded cfg d t H)"
proof (induction n arbitrary: P)
  case 0
  show ?case by (auto intro: hoare_ret_I)
next
  case (Suc n)
  have st: "stable (\<lambda>H. \<forall>d t. out = Claimed d t \<longrightarrow> lease_recorded cfg d t H)" for out
    using lease_recorded_stable by (fastforce simp: stable_def)
  show ?case
    by (auto intro!: bind_any [OF hoare_queue(2)] hoare_bind [OF hoare_claim_message] hoare_ret_I Suc.IH st
        split: option.split claim_outcome.split)
qed

lemma hoare_durable_claim:
  "hoare approves P (durable_claim cfg) (\<lambda>out H. \<forall>d t. out = Some (d, t) \<longrightarrow> lease_recorded cfg d t H)"
  unfolding durable_claim_def
  by (intro bind_any [OF hoare_prune_claims] bind_get)
    (auto intro!: hoare_ret_I bind_any [OF hoare_recover] hoare_drain)

text \<open>Holding a claim.\<close>

lemma bind_claim_of [hoare_intros]:
  assumes "hoare approves P (f None) Q" "\<And>cx. context_ok t cx \<Longrightarrow> hoare approves P (f (Some cx)) Q"
  shows "hoare approves P (act_bind (claim_of t) f) Q"
proof (rule bind_pure [where R = "\<lambda>x. \<forall>cx. x = Some cx \<longrightarrow> context_ok t cx"])
  show "hoare approves P (claim_of t) (\<lambda>x H. \<forall>cx. x = Some cx \<longrightarrow> context_ok t cx)"
    unfolding claim_of_def by (intro bind_get hoare_ret_I) (auto simp: claims_ok_def)
  show "hoare approves P (f x) Q" if "\<forall>cx. x = Some cx \<longrightarrow> context_ok t cx" for x
    using assms that by (cases x) auto
qed

lemma hoare_put_claim: "context_ok t cx \<Longrightarrow> hoare approves P (put_claim t cx) (\<lambda>_ _. True)"
  unfolding put_claim_def by (intro hoare_intros claims_ok_update)

lemma hoare_pop_claim: "hoare approves P (pop_claim t) (\<lambda>_ _. True)"
  unfolding pop_claim_def by (intro hoare_intros claims_ok_delete)

text \<open>What a worker knows when its claim was found current: the version it read is open and its own.\<close>

definition holds_claim :: "storage_cfg \<Rightarrow> claim_context \<Rightarrow> job_state \<Rightarrow> bool" where
  "holds_claim cfg cx s \<longleftrightarrow> readable (cx_job_id cx) s \<and> js_generation s = cx_generation cx
     \<and> js_lease_id s = Some (token_hash cfg (cx_token cx)) \<and> open_job s \<and> (\<exists>c. load_contract s = Inr c)"

lemma bind_current_claim:
  assumes "\<And>cx s e. context_ok t cx \<Longrightarrow> holds_claim cfg cx s \<Longrightarrow> hoare approves (\<lambda>H. P H \<and> seen s e H) (f (cx, s, e)) Q"
  shows "hoare approves P (act_bind (current_claim cfg t) f) Q"
proof (rule hoare_bind [where R = "\<lambda>(cx, s, e) H. context_ok t cx \<and> holds_claim cfg cx s \<and> seen s e H"])
  show "hoare approves P (current_claim cfg t) (\<lambda>(cx, s, e) H. context_ok t cx \<and> holds_claim cfg cx s \<and> seen s e H)"
    unfolding current_claim_def
    by (intro bind_claim_of) (auto intro!: hoare_intros simp: holds_claim_def)
  fix x :: "claim_context \<times> job_state \<times> string"
  obtain cx s e where x: "x = (cx, s, e)" by (cases x)
  show "stable (case x of (cx, s, e) \<Rightarrow> \<lambda>H. context_ok t cx \<and> holds_claim cfg cx s \<and> seen s e H)"
    unfolding x prod.case by (intro stable_conj stable_const stable_seen)
  have "hoare approves (\<lambda>H. (P H \<and> seen s e H) \<and> (context_ok t cx \<and> holds_claim cfg cx s)) (f (cx, s, e)) Q"
    by (rule hoare_fact) (use assms in auto)
  then show "hoare approves (\<lambda>H. P H \<and> (case x of (cx, s, e) \<Rightarrow> \<lambda>H. context_ok t cx \<and> holds_claim cfg cx s \<and> seen s e H) H) (f x) Q"
    by (simp add: x conj_ac)
qed

lemma hoare_write_renewed:
  assumes "\<And>H. P H \<Longrightarrow> seen s e H" "holds_claim cfg cx s" "with_lease cfg now = Inr u"
  shows "hoare approves P (write_job (s\<lparr>js_lease_expires_at := Some (fmin u (job_deadline s))\<rparr>) e)
    (\<lambda>_ H. \<exists>e. seen (encode_job (s\<lparr>js_lease_expires_at := Some (fmin u (job_deadline s))\<rparr>)) e H)"
proof (rule hoare_write_job)
  fix H assume H: "P H" "sound approves H"
  from assms(3) obtain l where u: "u = fadd now l" by (auto simp: with_lease_def)
  from assms(2) obtain c where c: "load_contract s = Inr c" "readable (cx_job_id cx) s" by (auto simp: holds_claim_def)
  have "job_step approves s (encode_job (s\<lparr>js_lease_expires_at := Some (fmin u (job_deadline s))\<rparr>))"
    unfolding u using assms(2) by (intro js_renew) (auto simp: holds_claim_def)
  then show "\<exists>s0. seen s0 e H \<and> js_job_id s0 = js_job_id (s\<lparr>js_lease_expires_at := Some (fmin u (job_deadline s))\<rparr>)
      \<and> job_step approves s0 (encode_job (s\<lparr>js_lease_expires_at := Some (fmin u (job_deadline s))\<rparr>)) \<and> proper_deadline s0"
    using assms(1) H loaded_deadline(2) [OF c] by (auto intro!: exI [of _ s])
qed

lemma same_deadline:
  "seen s e H \<Longrightarrow> seen s' e' H \<Longrightarrow> js_job_id s' = js_job_id s \<Longrightarrow> sound approves H \<Longrightarrow> job_deadline s' = job_deadline s"
  unfolding job_deadline_def seen_def sound_def same_origin_def by metis

lemma hoare_pre:
  "(\<And>H. P H \<Longrightarrow> sound approves H \<Longrightarrow> b) \<Longrightarrow> (b \<Longrightarrow> hoare approves P m Q) \<Longrightarrow> hoare approves P m Q"
  by (cases b) (auto simp: hoare_def)

lemma hoare_durable_abandon: "hoare approves P (durable_abandon cfg t) (\<lambda>_ _. True)"
  unfolding durable_abandon_def
proof (intro bind_current_claim, unfold prod.case, rule bind_any)
  fix cx s e
  assume cx: "context_ok t cx" "holds_claim cfg cx s"
  then obtain c where c: "load_contract s = Inr c" "readable (cx_job_id cx) s" by (auto simp: holds_claim_def)
  show "hoare approves (\<lambda>H. P H \<and> seen s e H) (write_job (s\<lparr>js_lease_id := None, js_lease_expires_at := None\<rparr>) e) (\<lambda>_ _. True)"
  proof (rule hoare_True [OF hoare_write_job])
    fix H assume H: "P H \<and> seen s e H" "sound approves H"
    then have ok: "job_ok approves s" using seen_ok by blast
    have "job_step approves s (s\<lparr>js_lease_id := None, js_lease_expires_at := None\<rparr>)"
      using cx(2) by (intro js_abandon) (auto simp: holds_claim_def)
    then show "\<exists>s0. seen s0 e H \<and> js_job_id s0 = js_job_id (s\<lparr>js_lease_id := None, js_lease_expires_at := None\<rparr>)
        \<and> job_step approves s0 (encode_job (s\<lparr>js_lease_id := None, js_lease_expires_at := None\<rparr>)) \<and> proper_deadline s0"
      unfolding encode_kept(3) [OF ok] using H loaded_deadline(2) [OF c] by (auto intro!: exI [of _ s])
  qed
  show "hoare approves (\<lambda>H. P H \<and> seen s e H) (act_bind (update_message (cx_message cx) (cx_receipt cx) 0) (\<lambda>_. pop_claim t)) (\<lambda>_ _. True)"
    for x :: unit
    by (intro bind_any hoare_queue hoare_pop_claim)
qed

text \<open>A renewal that returns is durable: the version written carries the expiry it reports.\<close>

definition renewal_recorded :: "storage_cfg \<Rightarrow> delivery \<Rightarrow> string \<Rightarrow> assertion" where
  "renewal_recorded cfg d t H \<longleftrightarrow> (\<exists>s e. seen s e H \<and> js_lease_id s = Some (token_hash cfg t)
     \<and> js_lease_expires_at s = finite_or_null (Some (d_expires_at d)) \<and> d_lease_id d = t)"

lemma hoare_store_renewal:
  assumes "context_ok t cx" "holds_claim cfg cx s"
  shows "hoare approves (\<lambda>H. P H \<and> seen s e H) (store_renewal cfg t cx (job_deadline s)) (\<lambda>d H. renewal_recorded cfg d t H)"
  unfolding store_renewal_def Let_def
proof (intro bind_time bind_read_job, unfold prod.case, intro bind_require_claim bind_from_result bind_require)
  fix now cur e' c u
  assume "readable (cx_job_id cx) cur" "js_generation cur = cx_generation cx" "js_lease_id cur = Some (token_hash cfg (cx_token cx))"
    "open_job cur" "load_contract cur = Inr c" and u: "with_lease cfg now = Inr u"
  then have cur: "holds_claim cfg cx cur" by (simp add: holds_claim_def)
  have id: "js_lease_id cur = Some (token_hash cfg t)" using cur assms(1) by (simp add: holds_claim_def context_ok_def)
  let ?d = "\<lparr>d_job_id = d_job_id (cx_delivery cx), d_contract_id = d_contract_id (cx_delivery cx),
    d_attempt_id = d_attempt_id (cx_delivery cx), d_lease_id = t, d_expires_at = fmin u (job_deadline s)\<rparr>"
  have put: "context_ok t (cx\<lparr>cx_delivery := ?d\<rparr>)" using assms(1) by (simp add: context_ok_def)
  show "hoare approves (\<lambda>H. (P H \<and> seen s e H) \<and> seen cur e' H)
      (act_bind (write_job (cur\<lparr>js_lease_expires_at := Some (fmin u (job_deadline s))\<rparr>) e') (\<lambda>_.
        act_bind (put_claim t (cx\<lparr>cx_delivery := ?d\<rparr>)) (\<lambda>_. ret ?d))) (\<lambda>d H. renewal_recorded cfg d t H)"
  proof (rule hoare_pre [where b = "job_deadline s = job_deadline cur"])
    fix H assume H: "(P H \<and> seen s e H) \<and> seen cur e' H" "sound approves H"
    have "js_job_id s = js_job_id cur" using assms(2) cur by (auto simp: holds_claim_def readable_def)
    with same_deadline [of cur e' H s e] H show "job_deadline s = job_deadline cur" by simp
  next
    assume eq: "job_deadline s = job_deadline cur"
    show "hoare approves (\<lambda>H. (P H \<and> seen s e H) \<and> seen cur e' H)
      (act_bind (write_job (cur\<lparr>js_lease_expires_at := Some (fmin u (job_deadline s))\<rparr>) e') (\<lambda>_.
        act_bind (put_claim t (cx\<lparr>cx_delivery := ?d\<rparr>)) (\<lambda>_. ret ?d))) (\<lambda>d H. renewal_recorded cfg d t H)"
      unfolding eq using id
      by (intro hoare_bind [OF hoare_write_renewed [OF _ cur u]] bind_any [OF hoare_put_claim [OF put [unfolded eq]]] hoare_ret_I)
        (auto simp: renewal_recorded_def intro: stable_ex stable_seen)
  qed
qed

lemma hoare_durable_renew: "hoare approves P (durable_renew cfg t) (\<lambda>d H. renewal_recorded cfg d t H)"
  unfolding durable_renew_def Let_def
proof (intro bind_current_claim, unfold prod.case, intro bind_from_result bind_time bind_require, rule bind_any [OF hoare_queue(3)])
  fix cx s e c upd
  assume cx: "context_ok t cx" "holds_claim cfg cx s" and c: "load_contract s = Inr c"
  then have deadline: "fadd (js_started_at s) (wall_seconds (budget c)) = job_deadline s"
    by (intro loaded_deadline(1)) (auto simp: holds_claim_def)
  have "context_ok t (cx\<lparr>cx_receipt := rc\<rparr>)" "holds_claim cfg (cx\<lparr>cx_receipt := rc\<rparr>) s" for rc
    using cx by (simp_all add: context_ok_def holds_claim_def)
  then show "hoare approves (\<lambda>H. P H \<and> seen s e H)
     (case given_receipt upd of None \<Rightarrow> throw (RuntimeError ''queue update omitted rotated pop receipt'')
      | Some rc \<Rightarrow> act_bind (put_claim t (cx\<lparr>cx_receipt := rc\<rparr>)) (\<lambda>_.
          store_renewal cfg t (cx\<lparr>cx_receipt := rc\<rparr>) (fadd (js_started_at s) (wall_seconds (budget c)))))
     (\<lambda>d H. renewal_recorded cfg d t H)"
    unfolding deadline
    by (auto intro!: hoare_throw bind_any [OF hoare_put_claim] hoare_store_renewal split: option.split)
qed

text \<open>Completing.\<close>

lemma hoare_write_claim_index: "hoare approves P (write_claim_index ix) (\<lambda>_ _. True)"
proof -
  have "hoare approves P (upload (index_blob (ix_claim_hash ix)) (IndexBlob ix) None) (\<lambda>_ _. True)"
    by (rule hoare_True [OF hoare_upload]) (simp add: good_version_def may_create_def)
  then show ?thesis
    unfolding write_claim_index_def
    by (intro hoare_catch)
      (auto intro!: hoare_throw bind_any [OF hoare_True [OF hoare_download]] bind_from_result hoare_True [OF hoare_require])
qed

lemma hoare_settle: "hoare approves P (settle cx) (\<lambda>_ _. True)"
  unfolding settle_def by (intro bind_any hoare_catch hoare_queue hoare_pop_claim) (auto intro: hoare_throw hoare_ret_I)

definition accepted_version :: "storage_cfg \<Rightarrow> string \<Rightarrow> pyval \<Rightarrow> assertion" where
  "accepted_version cfg t v H \<longleftrightarrow> (\<exists>s e. seen s e H \<and> accepted_result_json s = Some v \<and> accepted_claim_hash s = Some (token_hash cfg t))"

lemma accepted_versionI:
  "seen s e H \<Longrightarrow> accepted_result_json s = Some v \<Longrightarrow> accepted_claim_hash s = Some (token_hash cfg t) \<Longrightarrow> accepted_version cfg t v H"
  by (auto simp: accepted_version_def)

lemma stable_accepted [intro]: "stable (accepted_version cfg t v)"
  unfolding accepted_version_def [abs_def] by (intro stable_ex stable_conj stable_seen stable_const)

lemma hoare_find_accepted_claim:
  "hoare approves P (find_accepted_claim cfg t) (\<lambda>x H. \<forall>s. x = Some s \<longrightarrow> accepted_claim_hash s = Some (token_hash cfg t) \<and> (\<exists>e. seen s e H))"
  unfolding find_accepted_claim_def Let_def
proof (rule bind_any)
  show "hoare approves P (try_catch (act_bind (download n) (\<lambda>(d, _). ret (Some d)))
      (\<lambda>x. if status_of x = Some 404 then ret None else throw x)) (\<lambda>_ _. True)" for n :: string
    by (intro hoare_catch bind_any [OF hoare_True [OF hoare_download]]) (auto intro!: hoare_intros)
  show "hoare approves P (case x of None \<Rightarrow> ret None
     | Some d \<Rightarrow> act_bind (from_result (decode_index d)) (\<lambda>ix.
         if ix_claim_hash ix \<noteq> token_hash cfg t \<or> ix_version ix \<noteq> 1 then ret None
         else act_bind (read_job (ix_job_id ix)) (\<lambda>(s, _).
           if accepted_claim_hash s \<noteq> Some (token_hash cfg t) \<or> accepted_generation s \<noteq> Some (ix_generation ix)
             \<or> accepted_attempt_id s \<noteq> Some (ix_attempt_id ix)
           then ret None else ret (Some s))))
     (\<lambda>x H. \<forall>s. x = Some s \<longrightarrow> accepted_claim_hash s = Some (token_hash cfg t) \<and> (\<exists>e. seen s e H))" for x
  proof (cases x)
    case None
    show ?thesis unfolding None option.case by (rule hoare_ret_I) simp
  next
    case (Some d)
    have yes: "hoare approves (\<lambda>H. P H \<and> seen s e H) (ret (Some s)) (\<lambda>x H. \<forall>s. x = Some s \<longrightarrow> accepted_claim_hash s = Some (token_hash cfg t) \<and> (\<exists>e. seen s e H))"
      if "accepted_claim_hash s = Some (token_hash cfg t)" for s e
      by (rule hoare_ret_I) (use that in blast)
    have no: "hoare approves R (ret None) (\<lambda>x H. \<forall>s. x = Some s \<longrightarrow> accepted_claim_hash s = Some (token_hash cfg t) \<and> (\<exists>e. seen s e H))" for R
      by (rule hoare_ret_I) simp
    show ?thesis
      unfolding Some option.case
      by (intro bind_from_result) (auto intro!: bind_read_job yes no simp del: de_Morgan_disj)
  qed
qed

lemma hoare_commit_result:
  assumes cx: "context_ok t cx" and c: "validate_contract (js_contract s0) = Inr c" "approves c (json_loads v)" "js_job_id s0 = cx_job_id cx"
    and P: "\<And>H. P H \<Longrightarrow> seen s0 e0 H"
  shows "hoare approves P (commit_result cfg t cx c v) (\<lambda>_. accepted_version cfg t v)"
  unfolding commit_result_def
proof (intro bind_read_job, unfold prod.case, intro bind_require_claim bind_any [OF hoare_write_claim_index] bind_read_job,
    unfold prod.case, intro bind_require_claim)
  fix s1 e1 c1 s e cc
  assume s: "readable (cx_job_id cx) s" "js_generation s = cx_generation cx"
    "js_lease_id s = Some (token_hash cfg (cx_token cx))" "open_job s" "load_contract s = Inr cc"
  let ?t = "s\<lparr>accepted_generation := Some (cx_generation cx), accepted_attempt_id := Some (cx_attempt_id cx),
       accepted_claim_hash := Some (token_hash cfg t), accepted_result_json := Some v,
       notification_pending := True, notification_sent := False\<rparr>"
  show "hoare approves (\<lambda>H. (P H \<and> seen s1 e1 H) \<and> seen s e H) (write_job ?t e) (\<lambda>_. accepted_version cfg t v)"
  proof (rule hoare_conseq [OF hoare_write_job])
    fix H assume H: "(P H \<and> seen s1 e1 H) \<and> seen s e H" "sound approves H"
    then have ok: "job_ok approves s" using seen_ok by blast
    have job: "js_job_id s = cx_job_id cx" using s(1) by (simp add: readable_def)
    have "js_contract s = js_contract s0"
      using seen_same_contract [of s0 e0 H s e] P H c(3) job by simp
    then have "job_step approves s ?t"
      using js_accept [of s "token_hash cfg t" c approves v] s c cx job by (simp add: context_ok_def json_loads_def)
    then show "\<exists>s0. seen s0 e H \<and> js_job_id s0 = js_job_id ?t \<and> job_step approves s0 (encode_job ?t) \<and> proper_deadline s0"
      unfolding encode_kept(4) [OF ok] using H loaded_deadline(2) [OF s(5,1)] by (auto intro!: exI [of _ s])
  next
    fix x H
    assume "\<exists>e. seen (encode_job ?t) e H"
    then show "accepted_version cfg t v H" by (force simp: accepted_version_def)
  qed
qed

lemma hoare_durable_complete:
  "hoare approves P (durable_complete cfg t result) (\<lambda>v H. json_dumps result = Inr v \<and> accepted_version cfg t v H)"
proof -
  have canon: "canonical_result result = Inr v \<Longrightarrow> json_dumps result = Inr v" for v
    by (auto simp: canonical_result_def split: sum.splits)
  have retry: "hoare approves P (complete_retry cfg t v) (\<lambda>w H. w = v \<and> accepted_version cfg t v H)" for v P
  proof -
    have st: "stable (\<lambda>H. \<forall>s. x = Some s \<longrightarrow> accepted_claim_hash s = Some (token_hash cfg t) \<and> (\<exists>e. seen s e H))" for x
      by (cases x, simp, simp, intro stable_conj stable_const stable_ex stable_seen)
    show ?thesis
      unfolding complete_retry_def
      by (rule hoare_bind [OF hoare_find_accepted_claim _ st])
        (auto intro!: hoare_throw bind_any [OF hoare_recover] hoare_ret_I simp: json_loads_def accepted_version_def split: option.split)
  qed
  have again: "hoare approves (\<lambda>H. P H \<and> seen s e H) (complete_accepted cfg t cx s v) (\<lambda>w H. w = v \<and> accepted_version cfg t v H)" for s e cx v P
    unfolding complete_accepted_def
    by (auto intro!: hoare_throw bind_any [OF hoare_settle] bind_any [OF hoare_recover] hoare_ret_I simp: json_loads_def intro: accepted_versionI)
  have fresh: "hoare approves (\<lambda>H. (P H \<and> seen s e H) \<and> (b \<longrightarrow> approves c (json_loads v)))
      (act_bind (require b (VerificationError m)) (\<lambda>_. act_bind (commit_result cfg t cx c v) (\<lambda>_. act_bind (settle cx) (\<lambda>_.
        act_bind recover_notifications (\<lambda>_. ret (json_loads v)))))) (\<lambda>w H. w = v \<and> accepted_version cfg t v H)"
    if "context_ok t cx" "readable (cx_job_id cx) s" "load_contract s = Inr c" for s e cx c v b m P
  proof (rule bind_require)
    note hyp = that
    assume b: b
    have job: "js_job_id s = cx_job_id cx" using that(2) by (simp add: readable_def)
    have "hoare approves (\<lambda>H. (P H \<and> seen s e H) \<and> (b \<longrightarrow> approves c (json_loads v)))
        (act_bind (commit_result cfg t cx c v) (\<lambda>_. act_bind (settle cx) (\<lambda>_. act_bind recover_notifications (\<lambda>_. ret (json_loads v)))))
        (\<lambda>w H. w = v \<and> accepted_version cfg t v H)" if ap: "approves c (json_loads v)"
    proof (rule hoare_bind)
      show "hoare approves (\<lambda>H. (P H \<and> seen s e H) \<and> (b \<longrightarrow> approves c (json_loads v))) (commit_result cfg t cx c v) (\<lambda>_. accepted_version cfg t v)"
        by (rule hoare_commit_result [where approves = approves and ?s0.0 = s and ?e0.0 = e])
          (use hyp load_contract_Inr(1) [OF hyp(3)] ap job in auto)
    qed (auto intro!: bind_any [OF hoare_settle] bind_any [OF hoare_recover] hoare_ret_I stable_accepted simp: json_loads_def)
    then show "hoare approves (\<lambda>H. (P H \<and> seen s e H) \<and> (b \<longrightarrow> approves c (json_loads v)))
        (act_bind (commit_result cfg t cx c v) (\<lambda>_. act_bind (settle cx) (\<lambda>_. act_bind recover_notifications (\<lambda>_. ret (json_loads v)))))
        (\<lambda>w H. w = v \<and> accepted_version cfg t v H)"
      by (rule hoare_pre [where b = "approves c (json_loads v)", rotated]) (use b in auto)
  qed
  have verified: "hoare approves (\<lambda>H. P H \<and> seen s e H)
      (act_bind (ask_verifier c (json_loads v)) (\<lambda>b. act_bind (require b (VerificationError m)) (\<lambda>_.
        act_bind (commit_result cfg t cx c v) (\<lambda>_. act_bind (settle cx) (\<lambda>_. act_bind recover_notifications (\<lambda>_. ret (json_loads v)))))))
      (\<lambda>w H. w = v \<and> accepted_version cfg t v H)"
    if "context_ok t cx" "readable (cx_job_id cx) s" "load_contract s = Inr c" for s e cx c v m P
    by (rule hoare_bind [OF hoare_verifier fresh [OF that]]) (rule stable_const)
  have main: "hoare approves P (act_bind (read_job (cx_job_id cx)) (\<lambda>(s, _).
          if accepted_result_json s \<noteq> None then complete_accepted cfg t cx s v
          else act_bind (require_claim cfg cx s) (\<lambda>_. act_bind (from_result (load_contract s)) (\<lambda>c.
            act_bind (ask_verifier c (json_loads v)) (\<lambda>b. act_bind (require b (VerificationError ''trusted verifier rejected result'')) (\<lambda>_.
              act_bind (commit_result cfg t cx c v) (\<lambda>_. act_bind (settle cx) (\<lambda>_. act_bind recover_notifications (\<lambda>_. ret (json_loads v))))))))))
      (\<lambda>w H. w = v \<and> accepted_version cfg t v H)" if "context_ok t cx" for cx v
    using that by (intro bind_read_job) (auto intro!: again bind_require_claim bind_from_result verified)
  have result: "hoare approves P m (\<lambda>v H. json_dumps result = Inr v \<and> accepted_version cfg t v H)"
    if "canonical_result result = Inr v" "hoare approves P m (\<lambda>w H. w = v \<and> accepted_version cfg t v H)" for m v
    by (rule hoare_conseq [OF that(2)]) (use canon [OF that(1)] in auto)
  show ?thesis
    unfolding durable_complete_def
    by (intro bind_claim_of bind_from_result, unfold option.case)
      (rule result, assumption, rule retry, rule result, assumption, rule main, assumption)
qed

end
