(* ===== verification/Storage_System.thy ===== *)
theory Storage_System
  imports Storage_Refinement
begin

text \<open>
  Any number of workers sharing one queue and one blob container.

  Each worker runs one method at a time; a step of the system is one call of one worker, the start or
  the return of a method, or a crash, after which the process has lost its table of claims. The
  storage services are parameters: \<open>content w n\<close> is the current document and etag of blob \<open>n\<close> in the
  outside world \<open>w\<close>, \<open>answer w c r w'\<close> says that call \<open>c\<close> may be answered \<open>r\<close>, leaving \<open>w'\<close>. \<open>cas_service\<close>
  is what the code relies on of them: a download returns the current version, an upload takes effect
  only if its condition holds and then under an etag never used before, and success is only reported
  for an upload that took effect. Everything else is free: any call may fail, with or without effect,
  queue messages may be lost, repeated, forged or reordered, and the clock may show anything.
\<close>

section \<open>The services\<close>

definition cas_service :: "('w \<Rightarrow> string \<Rightarrow> (blob_data \<times> string) option) \<Rightarrow> ('w \<Rightarrow> string \<Rightarrow> string set)
    \<Rightarrow> approvals \<Rightarrow> ('w \<Rightarrow> call \<Rightarrow> reply \<Rightarrow> 'w \<Rightarrow> bool) \<Rightarrow> bool" where
  "cas_service content used approves answer \<longleftrightarrow> (\<forall>w c r w'. answer w c r w' \<longrightarrow>
     (\<forall>n. used w n \<subseteq> used w' n) \<and> (\<forall>n d e. content w' n = Some (d, e) \<longrightarrow> e \<in> used w' n)
     \<and> (case c of
          CUpload n d cond \<Rightarrow>
            (content w' = content w \<and> r \<noteq> ROk)
            \<or> ((case cond of None \<Rightarrow> content w n = None | Some e \<Rightarrow> \<exists>d0. content w n = Some (d0, e))
               \<and> (\<exists>e. e \<notin> used w n \<and> content w' = (content w)(n \<mapsto> (d, e))))
        | CDownload n \<Rightarrow> content w' = content w \<and> (\<forall>d e. r = RBlob d e \<longrightarrow> content w n = Some (d, e))
        | CVerify ct v \<Rightarrow> content w' = content w \<and> (r = RVerdict True \<longrightarrow> approves ct v)
        | _ \<Rightarrow> content w' = content w))"

section \<open>The system\<close>

datatype worker = Idle claims "(storage_op \<times> storage_value result) option" | Running storage_op "(storage_value result \<times> claims) io"

inductive sys_step :: "(nat \<Rightarrow> storage_cfg) \<Rightarrow> ('w \<Rightarrow> call \<Rightarrow> reply \<Rightarrow> 'w \<Rightarrow> bool)
    \<Rightarrow> 'w \<times> (nat \<Rightarrow> worker) \<Rightarrow> 'w \<times> (nat \<Rightarrow> worker) \<Rightarrow> bool"
  for cfg answer where
  sys_start: "ws i = Idle cs l \<Longrightarrow> sys_step cfg answer (w, ws) (w, ws(i := Running p (storage_exec (cfg i) p cs)))"
| sys_call: "ws i = Running p (Do c k) \<Longrightarrow> answer w c r w' \<Longrightarrow> sys_step cfg answer (w, ws) (w', ws(i := Running p (k r)))"
| sys_return: "ws i = Running p (Done (x, cs)) \<Longrightarrow> sys_step cfg answer (w, ws) (w, ws(i := Idle cs (Some (p, x))))"
| sys_crash: "sys_step cfg answer (w, ws) (w, ws(i := Idle [] None))"

definition versions :: "('w \<Rightarrow> string \<Rightarrow> (blob_data \<times> string) option) \<Rightarrow> 'w \<Rightarrow> history" where
  "versions content w = {(n, e, d). content w n = Some (d, e)}"

text \<open>Reachable states, with the set of blob versions that existed on the way.\<close>

inductive sys_run :: "(nat \<Rightarrow> storage_cfg) \<Rightarrow> ('w \<Rightarrow> string \<Rightarrow> (blob_data \<times> string) option)
    \<Rightarrow> ('w \<Rightarrow> call \<Rightarrow> reply \<Rightarrow> 'w \<Rightarrow> bool) \<Rightarrow> 'w \<Rightarrow> (nat \<Rightarrow> worker) \<Rightarrow> history \<Rightarrow> bool"
  for cfg content answer where
  sys_init: "content w = (\<lambda>_. None) \<Longrightarrow> sys_run cfg content answer w (\<lambda>_. Idle [] None) {}"
| sys_next: "sys_run cfg content answer w ws H \<Longrightarrow> sys_step cfg answer (w, ws) (w', ws') \<Longrightarrow>
    sys_run cfg content answer w' ws' (H \<union> versions content w')"

section \<open>What a returned method promises\<close>

definition result_recorded :: "string \<Rightarrow> pyval option \<Rightarrow> assertion" where
  "result_recorded job out H \<longleftrightarrow> (\<exists>s e. seen s e H \<and> js_job_id s = job \<and> accepted_result_json s = out)"

fun promise :: "storage_cfg \<Rightarrow> storage_op \<Rightarrow> storage_value \<Rightarrow> assertion" where
  "promise cfg (OpComplete t v) (Complete_Value x) = (\<lambda>H. json_dumps v = Inr x \<and> accepted_version cfg t x H)"
| "promise cfg OpClaim (Claim_Value out) = (\<lambda>H. \<forall>d t. out = Some (d, t) \<longrightarrow> lease_recorded cfg d t H)"
| "promise cfg (OpRenew t) (Renew_Value d) = renewal_recorded cfg d t"
| "promise cfg (OpResult job) (Result_Value out) = result_recorded job out"
| "promise cfg (OpComplete t v) _ = (\<lambda>H. False)"
| "promise cfg OpClaim _ = (\<lambda>H. False)"
| "promise cfg (OpRenew t) _ = (\<lambda>H. False)"
| "promise cfg (OpResult job) _ = (\<lambda>H. False)"
| "promise cfg _ _ = (\<lambda>H. True)"

lemma stableD: "stable P \<Longrightarrow> P H \<Longrightarrow> H \<subseteq> H' \<Longrightarrow> P H'"
  by (auto simp: stable_def)

lemma stable_all: "(\<And>x. stable (P x)) \<Longrightarrow> stable (\<lambda>H. \<forall>x. P x H)"
  unfolding stable_def by blast

lemma stable_renewal: "stable (renewal_recorded cfg d t)"
  unfolding renewal_recorded_def [abs_def] by (intro stable_ex stable_conj stable_seen stable_const)

lemma stable_leases: "stable (\<lambda>H. \<forall>d t. out = Some (d, t) \<longrightarrow> lease_recorded cfg d t H)"
  by (intro stable_all stable_imp lease_recorded_stable)

lemma stable_stored: "stable (result_recorded job out)"
  unfolding result_recorded_def [abs_def] by (intro stable_ex stable_conj stable_seen stable_const)

lemma stable_promise: "stable (promise cfg p x)"
  by (cases "(cfg, p, x)" rule: promise.cases)
    (auto intro!: stable_conj stable_renewal stable_leases stable_stored stable_accepted)

lemma hoare_act_map:
  assumes "hoare approves P m Q" "\<And>x. stable (Q x)" "\<And>x H. Q x H \<Longrightarrow> R (f x) H"
  shows "hoare approves P (act_map f m) R"
  unfolding act_map_def by (intro hoare_bind [OF assms(1)] hoare_ret_I assms(2)) (use assms(3) in auto)

lemma hoare_completed_result:
  "hoare approves P (durable_completed_result job) (\<lambda>x. result_recorded job x)"
  unfolding durable_completed_result_def
proof (intro bind_read_job, unfold prod.case, rule hoare_ret_I)
  fix s e H
  assume "readable job s" "P H \<and> seen s e H"
  then show "result_recorded job (map_option json_loads (accepted_result_json s)) H"
    unfolding result_recorded_def by (intro exI [of _ s] exI [of _ e]) (auto simp: readable_def json_loads_def map_option_idI)
qed

lemma storage_exec_keeps_protocol: "hoare approves P (storage_exec cfg p) (\<lambda>x. promise cfg p x)"
proof (cases p)
  case (OpEnqueue job c)
  then show ?thesis by (auto intro: hoare_act_map [OF hoare_enqueue])
next
  case OpClaim
  show ?thesis unfolding OpClaim storage_exec.simps
    by (rule hoare_act_map [OF hoare_durable_claim stable_leases]) simp
next
  case (OpRenew t)
  show ?thesis unfolding OpRenew storage_exec.simps
    by (rule hoare_act_map [OF hoare_durable_renew stable_renewal]) simp
next
  case (OpAbandon t)
  then show ?thesis by (auto intro: hoare_act_map [OF hoare_durable_abandon])
next
  case (OpComplete t v)
  show ?thesis unfolding OpComplete storage_exec.simps
    by (rule hoare_act_map [OF hoare_durable_complete]) (auto intro: stable_accepted)
next
  case OpRecover
  then show ?thesis by (auto intro: hoare_act_map [OF hoare_recover])
next
  case (OpResult job)
  show ?thesis unfolding OpResult storage_exec.simps
    by (rule hoare_act_map [OF hoare_completed_result stable_stored]) simp
qed

section \<open>The invariant of the system\<close>

definition keeps_promise :: "storage_cfg \<Rightarrow> storage_op \<Rightarrow> storage_value result \<times> claims \<Rightarrow> assertion" where
  "keeps_promise cfg p y H \<longleftrightarrow> claims_ok (snd y) \<and> (\<forall>x. fst y = Inr x \<longrightarrow> promise cfg p x H)"

fun worker_ok :: "approvals \<Rightarrow> storage_cfg \<Rightarrow> history \<Rightarrow> worker \<Rightarrow> bool" where
  "worker_ok approves cfg H (Running p io) = wp approves io (keeps_promise cfg p) H"
| "worker_ok approves cfg H (Idle cs l) =
     (claims_ok cs \<and> (\<forall>p x. l = Some (p, Inr x) \<longrightarrow> promise cfg p x H))"

text \<open>Every version of a job was made by protocol steps from a new job, and leads to the current one.\<close>

definition on_the_way :: "approvals \<Rightarrow> (string \<Rightarrow> (blob_data \<times> string) option) \<Rightarrow> history \<Rightarrow> bool" where
  "on_the_way approves ct H \<longleftrightarrow> (\<forall>n e s. (n, e, JobBlob s) \<in> H \<longrightarrow>
     (\<exists>c now. (job_step approves)\<^sup>*\<^sup>* (encode_job (new_job (js_job_id s) c now)) s)
     \<and> (\<exists>t e'. ct n = Some (JobBlob t, e') \<and> (job_step approves)\<^sup>*\<^sup>* s t))"

text \<open>The versions of a job are totally ordered by the protocol.\<close>

definition linear_history :: "approvals \<Rightarrow> history \<Rightarrow> bool" where
  "linear_history approves H \<longleftrightarrow> (\<forall>n e e' s s'. (n, e, JobBlob s) \<in> H \<longrightarrow> (n, e', JobBlob s') \<in> H \<longrightarrow>
     (job_step approves)\<^sup>*\<^sup>* s s' \<or> (job_step approves)\<^sup>*\<^sup>* s' s)"

definition sys_inv :: "(nat \<Rightarrow> storage_cfg) \<Rightarrow> ('w \<Rightarrow> string \<Rightarrow> (blob_data \<times> string) option) \<Rightarrow> ('w \<Rightarrow> string \<Rightarrow> string set)
    \<Rightarrow> approvals \<Rightarrow> 'w \<Rightarrow> (nat \<Rightarrow> worker) \<Rightarrow> history \<Rightarrow> bool" where
  "sys_inv cfg content used approves w ws H \<longleftrightarrow>
     versions content w \<subseteq> H \<and> (\<forall>n e d. (n, e, d) \<in> H \<longrightarrow> e \<in> used w n \<and> content w n \<noteq> None)
     \<and> (\<forall>n e d d'. (n, e, d) \<in> H \<longrightarrow> (n, e, d') \<in> H \<longrightarrow> d' = d)
     \<and> sound approves H \<and> on_the_way approves (content w) H \<and> linear_history approves H \<and> (\<forall>i. worker_ok approves (cfg i) H (ws i))"

lemma worker_ok_mono: "worker_ok approves cfg H x \<Longrightarrow> H \<subseteq> H' \<Longrightarrow> worker_ok approves cfg H' x"
proof (cases x)
  case (Running p io)
  assume "worker_ok approves cfg H x" "H \<subseteq> H'"
  moreover have "keeps_promise cfg p y K" if "H \<subseteq> K" "keeps_promise cfg p y H" for y K
    using that stable_promise [of cfg p] by (auto simp: keeps_promise_def stable_def)
  ultimately show ?thesis using Running by (auto elim: wp_mono_history)
next
  case (Idle cs l)
  assume "worker_ok approves cfg H x" "H \<subseteq> H'"
  with Idle stable_promise show ?thesis by (fastforce simp: stable_def)
qed

section \<open>Preservation\<close>

lemma cas_serviceD:
  assumes "cas_service content used approves answer" "answer w c r w'"
  shows "used w n \<subseteq> used w' n" "content w' n = Some (d, e) \<Longrightarrow> e \<in> used w' n"
    and "case c of
          CUpload n d cond \<Rightarrow>
            (content w' = content w \<and> r \<noteq> ROk)
            \<or> ((case cond of None \<Rightarrow> content w n = None | Some e \<Rightarrow> \<exists>d0. content w n = Some (d0, e))
               \<and> (\<exists>e. e \<notin> used w n \<and> content w' = (content w)(n \<mapsto> (d, e))))
        | CDownload n \<Rightarrow> content w' = content w \<and> (\<forall>d e. r = RBlob d e \<longrightarrow> content w n = Some (d, e))
        | CVerify ct v \<Rightarrow> content w' = content w \<and> (r = RVerdict True \<longrightarrow> approves ct v)
        | _ \<Rightarrow> content w' = content w"
  using assms unfolding cas_service_def by blast+

lemma versionsI: "content w n = Some (d, e) \<Longrightarrow> (n, e, d) \<in> versions content w"
  by (simp add: versions_def)

lemma answer_versions:
  assumes "cas_service content used approves answer" "answer w c r w'"
  shows "content w' = content w \<or> (\<exists>n d cond e. c = CUpload n d cond \<and> e \<notin> used w n \<and> content w' = (content w)(n \<mapsto> (d, e))
      \<and> (case cond of None \<Rightarrow> content w n = None | Some e0 \<Rightarrow> \<exists>d0. content w n = Some (d0, e0)))"
  using cas_serviceD(3) [OF assms] by (cases c) auto

lemma answer_truthful:
  assumes "cas_service content used approves answer" "answer w c r w'" and H: "versions content w' \<subseteq> H'"
  shows "truthful approves H' c r"
proof -
  note D = cas_serviceD(3) [OF assms(1,2)]
  show ?thesis
  proof (cases c)
    case (CDownload n)
    with D H show ?thesis by (cases r) (auto simp: versions_def)
  next
    case (CUpload n d cond)
    show ?thesis
    proof (cases r)
      case ROk
      with D CUpload obtain e where "content w' = (content w)(n \<mapsto> (d, e))" by auto
      then have "(n, e, d) \<in> versions content w'" by (simp add: versions_def)
      with H CUpload ROk show ?thesis by auto
    qed (use CUpload in auto)
  next
    case (CVerify ct v)
    with D show ?thesis by (cases r) auto
  qed auto
qed

lemma versions_updated:
  assumes "versions content w \<subseteq> H" "content w' = (content w)(n \<mapsto> (d, e))"
  shows "H \<union> versions content w' = insert (n, e, d) H"
proof -
  have "versions content w' \<subseteq> insert (n, e, d) (versions content w)"
    unfolding versions_def assms(2) by (auto split: if_splits)
  moreover have "(n, e, d) \<in> versions content w'" by (rule versionsI) (simp add: assms(2))
  ultimately show ?thesis using assms(1) by blast
qed

text \<open>A new version, its place in the history and in the protocol.\<close>

lemma upload_keeps:
  assumes inv: "sys_inv cfg content used approves w ws H" and c: "permitted approves H (CUpload n d cond)"
    and fresh: "e \<notin> used w n" and pre: "case cond of None \<Rightarrow> content w n = None | Some e0 \<Rightarrow> \<exists>d0. content w n = Some (d0, e0)"
  shows "sound approves (insert (n, e, d) H) \<and> on_the_way approves ((content w)(n \<mapsto> (d, e))) (insert (n, e, d) H)"
proof -
  from inv have vers: "versions content w \<subseteq> H" and fn: "\<And>n e d d'. (n, e, d) \<in> H \<Longrightarrow> (n, e, d') \<in> H \<Longrightarrow> d' = d"
    and there: "\<And>n e d. (n, e, d) \<in> H \<Longrightarrow> content w n \<noteq> None" and snd: "sound approves H"
    and way: "\<And>n e s. (n, e, JobBlob s) \<in> H \<Longrightarrow>
     (\<exists>c now. (job_step approves)\<^sup>*\<^sup>* (encode_job (new_job (js_job_id s) c now)) s)
     \<and> (\<exists>t e'. content w n = Some (JobBlob t, e') \<and> (job_step approves)\<^sup>*\<^sup>* s t)"
    unfolding sys_inv_def on_the_way_def by blast+
  from snd have goods: "\<And>n e d. (n, e, d) \<in> H \<Longrightarrow> good_version approves n d"
    and origin: "\<And>n e e' s s'. (n, e, JobBlob s) \<in> H \<Longrightarrow> (n, e', JobBlob s') \<in> H \<Longrightarrow> js_contract s' = js_contract s \<and> js_started_at s' = js_started_at s"
    unfolding sound_def same_origin_def by blast+
  have good: "good_version approves n d" using c by (cases cond) auto
  have soundI: "sound approves (insert (n, e, d) H)"
    if "\<And>e' s s'. d = JobBlob s \<Longrightarrow> (n, e', JobBlob s') \<in> H \<Longrightarrow> js_contract s' = js_contract s \<and> js_started_at s' = js_started_at s"
    unfolding sound_def same_origin_def
  proof (intro conjI allI impI)
    show "good_version approves m x" if "(m, f, x) \<in> insert (n, e, d) H" for m f x using that good goods by blast
    fix m f f' s s' assume *: "(m, f, JobBlob s) \<in> insert (n, e, d) H" "(m, f', JobBlob s') \<in> insert (n, e, d) H"
    then show "js_contract s' = js_contract s" "js_started_at s' = js_started_at s"
      using that origin by (metis Pair_inject blob_data.inject(1) insert_iff)+
  qed
  have old: "content w n = None \<Longrightarrow> (n, e', d') \<notin> H" for e' d' using there by blast
  show ?thesis
  proof (cases cond)
    case None
    with pre c have new: "content w n = None" "may_create d" by auto
    have "sound approves (insert (n, e, d) H)"
      by (rule soundI) (use old [OF new(1)] in blast)
    moreover have "on_the_way approves ((content w)(n \<mapsto> (d, e))) (insert (n, e, d) H)"
      unfolding on_the_way_def
    proof (intro allI impI)
      fix m e' s assume m: "(m, e', JobBlob s) \<in> insert (n, e, d) H"
      show "(\<exists>c now. (job_step approves)\<^sup>*\<^sup>* (encode_job (new_job (js_job_id s) c now)) s)
          \<and> (\<exists>t e'. ((content w)(n \<mapsto> (d, e))) m = Some (JobBlob t, e') \<and> (job_step approves)\<^sup>*\<^sup>* s t)"
      proof (cases "(m, e', JobBlob s) \<in> H")
        case True
        moreover from True old [OF new(1)] have "m \<noteq> n" by blast
        ultimately show ?thesis using way [OF True] by simp
      next
        case False
        with m have s: "m = n" "d = JobBlob s" by auto
        with new(2) obtain job c now where "s = encode_job (new_job job c now)" by (auto simp: may_create_def)
        then have "s = encode_job (new_job (js_job_id s) c now)" by (simp add: new_job_def)
        with s show ?thesis by (metis fun_upd_same rtranclp.rtrancl_refl)
      qed
    qed
    ultimately show ?thesis by blast
  next
    case (Some e0)
    with pre c obtain d0 d1 where d0: "content w n = Some (d0, e0)" and d1: "(n, e0, d1) \<in> H" "may_replace approves d1 d" by auto
    have "(n, e0, d0) \<in> H" using vers versionsI [of content w, OF d0] by blast
    with fn d1(1) have "d1 = d0" by blast
    with d1 have step: "may_replace approves d0 d" "(n, e0, d0) \<in> H" by auto
    have jobs: "\<exists>s0. d0 = JobBlob s0 \<and> job_step approves s0 s" if "d = JobBlob s" for s
      using step(1) that by (auto simp: may_replace_def split: blob_data.splits)
    have "sound approves (insert (n, e, d) H)"
    proof (rule soundI)
      fix e' s s'
      assume d: "d = JobBlob s" and s': "(n, e', JobBlob s') \<in> H"
      from jobs [OF d] obtain s0 where s0: "d0 = JobBlob s0" "job_step approves s0 s" by blast
      with origin [of n e0 s0 e' s'] step(2) s' have "js_contract s' = js_contract s0 \<and> js_started_at s' = js_started_at s0"
        by blast
      with job_step_evolves [OF s0(2)] show "js_contract s' = js_contract s \<and> js_started_at s' = js_started_at s"
        by (simp add: evolves_def)
    qed
    moreover have "on_the_way approves ((content w)(n \<mapsto> (d, e))) (insert (n, e, d) H)"
      unfolding on_the_way_def
    proof (intro allI impI)
      fix m e' s assume m: "(m, e', JobBlob s) \<in> insert (n, e, d) H"
      show "(\<exists>c now. (job_step approves)\<^sup>*\<^sup>* (encode_job (new_job (js_job_id s) c now)) s)
          \<and> (\<exists>t e'. ((content w)(n \<mapsto> (d, e))) m = Some (JobBlob t, e') \<and> (job_step approves)\<^sup>*\<^sup>* s t)"
      proof (cases "(m, e', JobBlob s) \<in> H")
        case True
        with way obtain t e1 where t: "content w m = Some (JobBlob t, e1)" "(job_step approves)\<^sup>*\<^sup>* s t"
          "\<exists>c now. (job_step approves)\<^sup>*\<^sup>* (encode_job (new_job (js_job_id s) c now)) s"
          by blast
        show ?thesis
        proof (cases "m = n")
          case True
          with t(1) d0 have "d0 = JobBlob t" by simp
          with step(1) obtain t' where "d = JobBlob t'" "job_step approves t t'"
            by (auto simp: may_replace_def split: blob_data.splits)
          with t True show ?thesis by (auto intro: rtranclp.rtrancl_into_rtrancl)
        qed (use t in auto)
      next
        case False
        with m have s: "m = n" "d = JobBlob s" by auto
        from jobs [OF s(2)] obtain s0 where s0: "d0 = JobBlob s0" "job_step approves s0 s" by blast
        with way step(2) obtain c now where "(job_step approves)\<^sup>*\<^sup>* (encode_job (new_job (js_job_id s0) c now)) s0"
          by blast
        moreover have "js_job_id s = js_job_id s0" using job_step_evolves [OF s0(2)] by (simp add: evolves_def)
        ultimately show ?thesis using s s0(2) by (auto intro: rtranclp.rtrancl_into_rtrancl)
      qed
    qed
    ultimately show ?thesis by blast
  qed
qed

lemma upload_linear:
  assumes inv: "sys_inv cfg content used approves w ws H" and c: "permitted approves H (CUpload n d cond)"
    and pre: "case cond of None \<Rightarrow> content w n = None | Some e0 \<Rightarrow> \<exists>d0. content w n = Some (d0, e0)"
  shows "linear_history approves (insert (n, e, d) H)"
proof -
  from inv have vers: "versions content w \<subseteq> H" and fn: "\<And>n e d d'. (n, e, d) \<in> H \<Longrightarrow> (n, e, d') \<in> H \<Longrightarrow> d' = d"
    and there: "\<And>n e d. (n, e, d) \<in> H \<Longrightarrow> content w n \<noteq> None"
    and way: "\<And>n e s. (n, e, JobBlob s) \<in> H \<Longrightarrow> \<exists>t e'. content w n = Some (JobBlob t, e') \<and> (job_step approves)\<^sup>*\<^sup>* s t"
    and lin: "\<And>n e e' s s'. (n, e, JobBlob s) \<in> H \<Longrightarrow> (n, e', JobBlob s') \<in> H \<Longrightarrow>
      (job_step approves)\<^sup>*\<^sup>* s s' \<or> (job_step approves)\<^sup>*\<^sup>* s' s"
    unfolding sys_inv_def on_the_way_def linear_history_def by blast+
  have newer: "(job_step approves)\<^sup>*\<^sup>* s' s" if d: "d = JobBlob s" and s': "(n, e', JobBlob s') \<in> H" for s s' e'
  proof -
    from way [OF s'] obtain t e1 where t: "content w n = Some (JobBlob t, e1)" "(job_step approves)\<^sup>*\<^sup>* s' t" by blast
    with pre obtain e0 where e0: "cond = Some e0" "e1 = e0" by (cases cond) auto
    with c obtain d1 where d1: "(n, e0, d1) \<in> H" "may_replace approves d1 d" by auto
    have "(n, e0, JobBlob t) \<in> H" using vers versionsI [of content w, OF t(1)] e0 by blast
    with fn d1(1) have "d1 = JobBlob t" by blast
    with d1(2) d have "job_step approves t s" by (simp add: may_replace_def)
    with t(2) show ?thesis by simp
  qed
  show ?thesis
    unfolding linear_history_def
  proof (intro allI impI)
    fix m f f' s s'
    assume "(m, f, JobBlob s) \<in> insert (n, e, d) H" "(m, f', JobBlob s') \<in> insert (n, e, d) H"
    then consider "(m, f, JobBlob s) \<in> H" "(m, f', JobBlob s') \<in> H" | "m = n" "d = JobBlob s" "(n, f', JobBlob s') \<in> H"
      | "m = n" "d = JobBlob s'" "(n, f, JobBlob s) \<in> H" | "JobBlob s = d" "JobBlob s' = d"
      by blast
    then show "(job_step approves)\<^sup>*\<^sup>* s s' \<or> (job_step approves)\<^sup>*\<^sup>* s' s"
    proof cases
      case 1
      then show ?thesis by (rule lin)
    next
      case 2
      then show ?thesis using newer by blast
    next
      case 3
      then show ?thesis using newer by blast
    next
      case 4
      then show ?thesis by (metis blob_data.inject(1) rtranclp.rtrancl_refl)
    qed
  qed
qed

lemma sys_inv_call:
  assumes svc: "cas_service content used approves answer" and inv: "sys_inv cfg content used approves w ws H"
    and run: "ws i = Running p (Do c k)" and ans: "answer w c r w'"
  shows "sys_inv cfg content used approves w' (ws(i := Running p (k r))) (H \<union> versions content w')"
proof -
  note I = inv [unfolded sys_inv_def]
  let ?H = "H \<union> versions content w'"
  have wp: "wp approves (Do c k) (keeps_promise (cfg i) p) H" using I run by (metis worker_ok.simps(1))
  then have c: "permitted approves H c" by simp
  have mono: "\<forall>n. used w n \<subseteq> used w' n" "\<forall>n d e. content w' n = Some (d, e) \<longrightarrow> e \<in> used w' n"
    using cas_serviceD(1,2) [OF svc ans] by blast+
  have core: "sound approves ?H \<and> on_the_way approves (content w') ?H \<and> linear_history approves ?H \<and> (\<forall>n e d d'. (n, e, d) \<in> ?H \<longrightarrow> (n, e, d') \<in> ?H \<longrightarrow> d' = d)
      \<and> (\<forall>n e d. (n, e, d) \<in> ?H \<longrightarrow> e \<in> used w' n \<and> content w' n \<noteq> None)"
    using answer_versions [OF svc ans]
  proof
    assume same: "content w' = content w"
    then have "?H = H" using I by (simp add: versions_def Un_absorb2)
    with same I mono(1) show ?thesis by (metis subset_iff)
  next
    assume "\<exists>n d cond e. c = CUpload n d cond \<and> e \<notin> used w n \<and> content w' = (content w)(n \<mapsto> (d, e))
      \<and> (case cond of None \<Rightarrow> content w n = None | Some e0 \<Rightarrow> \<exists>d0. content w n = Some (d0, e0))"
    then obtain n d cond e where u: "c = CUpload n d cond" "e \<notin> used w n" "content w' = (content w)(n \<mapsto> (d, e))"
      "case cond of None \<Rightarrow> content w n = None | Some e0 \<Rightarrow> \<exists>d0. content w n = Some (d0, e0)" by blast
    have H': "?H = insert (n, e, d) H"
      using I u(3) by (intro versions_updated) auto
    have new: "(n, e, x) \<notin> H" for x using I u(2) by blast
    have "d2 = d1" if "(m, f, d1) \<in> insert (n, e, d) H" "(m, f, d2) \<in> insert (n, e, d) H" for m f d1 d2
      using that new I by blast
    moreover have "f \<in> used w' m \<and> content w' m \<noteq> None" if "(m, f, x) \<in> insert (n, e, d) H" for m f x
      using that I mono u(3) by (metis (no_types, lifting) Pair_inject fun_upd_apply insert_iff option.distinct(1) subset_iff)
    ultimately show ?thesis unfolding H' u(3) [symmetric]
      using upload_keeps [OF inv c [unfolded u(1)] u(2,4)] upload_linear [OF inv c [unfolded u(1)] u(4)] u(3) by auto
  qed
  have "wp approves (k r) (keeps_promise (cfg i) p) ?H"
    using wp core answer_truthful [OF svc ans, of ?H] by simp
  moreover have "worker_ok approves (cfg j) ?H (ws j)" for j
    using I worker_ok_mono [of approves "cfg j" H "ws j" ?H] by blast
  ultimately have "\<forall>j. worker_ok approves (cfg j) ?H ((ws(i := Running p (k r))) j)" by simp
  with core show ?thesis unfolding sys_inv_def by blast
qed

lemma sys_inv_local:
  assumes "sys_inv cfg content used approves w ws H" "worker_ok approves (cfg i) H x"
  shows "sys_inv cfg content used approves w (ws(i := x)) (H \<union> versions content w)"
proof -
  have "H \<union> versions content w = H" using assms(1) by (auto simp: sys_inv_def)
  with assms show ?thesis by (simp add: sys_inv_def)
qed

lemma started_ok:
  assumes "claims_ok cs" "sound approves H"
  shows "worker_ok approves cfg H (Running p (storage_exec cfg p cs))"
proof -
  have "wp approves (storage_exec cfg p cs) (post approves (\<lambda>_. True) (promise cfg p)) H"
    using hoareD [OF storage_exec_keeps_protocol [of approves "\<lambda>_. True" cfg p] _ assms] by simp
  then have "wp approves (storage_exec cfg p cs) (keeps_promise cfg p) H"
    by (rule wp_conseq) (auto simp: post_def keeps_promise_def)
  then show ?thesis by simp
qed

lemma claims_ok_Nil [simp]: "claims_ok []"
  by (simp add: claims_ok_def)

lemma sys_run_inv:
  assumes svc: "cas_service content used approves answer" and run: "sys_run cfg content answer w ws H"
  shows "sys_inv cfg content used approves w ws H"
  using run
proof (induction rule: sys_run.induct)
  case (sys_init w)
  then show ?case by (auto simp: sys_inv_def versions_def sound_def same_origin_def on_the_way_def linear_history_def)
next
  case (sys_next w ws H w' ws')
  from sys_next.hyps(2) show ?case
  proof cases
    case (sys_start i cs l p)
    have "claims_ok cs" "sound approves H" using sys_next.IH sys_start by (auto simp: sys_inv_def dest: spec [of _ i])
    with sys_start sys_inv_local [OF sys_next.IH started_ok] show ?thesis by blast
  next
    case (sys_call i p c k r)
    with sys_inv_call [OF svc sys_next.IH] show ?thesis by blast
  next
    case (sys_return i p x cs)
    have "worker_ok approves (cfg i) H (ws i)" using sys_next.IH by (simp add: sys_inv_def)
    then have "worker_ok approves (cfg i) H (Idle cs (Some (p, x)))"
      using sys_return by (auto simp: keeps_promise_def)
    with sys_return sys_inv_local [OF sys_next.IH] show ?thesis by blast
  next
    case (sys_crash i)
    have "worker_ok approves (cfg i) H (Idle [] None)" by simp
    with sys_crash sys_inv_local [OF sys_next.IH] show ?thesis by blast
  qed
qed

section \<open>Facts about reachable states\<close>

lemma version_facts:
  assumes "cas_service content used approves answer" "sys_run cfg content answer w ws H" "(n, e, JobBlob s) \<in> H"
  shows "n = job_blob (js_job_id s)" "job_ok approves s"
    and "\<exists>c now. (job_step approves)\<^sup>*\<^sup>* (encode_job (new_job (js_job_id s) c now)) s"
    and "\<exists>t e'. content w n = Some (JobBlob t, e') \<and> (job_step approves)\<^sup>*\<^sup>* s t"
proof -
  have inv: "sys_inv cfg content used approves w ws H" by (rule sys_run_inv [OF assms(1,2)])
  then have "good_version approves n (JobBlob s)" using assms(3) unfolding sys_inv_def sound_def by blast
  then show "n = job_blob (js_job_id s)" "job_ok approves s" by (simp_all add: good_version_def)
  show "\<exists>c now. (job_step approves)\<^sup>*\<^sup>* (encode_job (new_job (js_job_id s) c now)) s"
    "\<exists>t e'. content w n = Some (JobBlob t, e') \<and> (job_step approves)\<^sup>*\<^sup>* s t"
    using inv assms(3) unfolding sys_inv_def on_the_way_def by blast+
qed

lemma version_evolves:
  assumes "cas_service content used approves answer" "sys_run cfg content answer w ws H" "(n, e, JobBlob s) \<in> H"
  obtains t e' where "content w n = Some (JobBlob t, e')" "evolves s t" "job_ok approves s" "job_ok approves t"
proof -
  have inv: "sys_inv cfg content used approves w ws H" by (rule sys_run_inv [OF assms(1,2)])
  note ok = version_facts(2) [OF assms(1,2)]
  from version_facts(4) [OF assms] obtain t e' where t: "content w n = Some (JobBlob t, e')" "(job_step approves)\<^sup>*\<^sup>* s t"
    by blast
  have "(n, e', JobBlob t) \<in> H" using inv versionsI [of content w, OF t(1)] unfolding sys_inv_def by blast
  then show ?thesis by (rule that [OF t(1) job_run_evolves [OF t(2)] ok [OF assms(3)] ok])
qed

lemma evolves_accepted:
  "evolves s t \<Longrightarrow> accepted_result_json s = Some v \<Longrightarrow> accepted_result_json t = Some v
     \<and> accepted_attempt_id t = accepted_attempt_id s \<and> accepted_claim_hash t = accepted_claim_hash s"
proof -
  assume "evolves s t" "accepted_result_json s = Some v"
  then have "t = s \<or> t = s\<lparr>notification_pending := False, notification_sent := True\<rparr>" unfolding evolves_def by blast
  with \<open>accepted_result_json s = Some v\<close> show ?thesis by (elim disjE) simp_all
qed

lemma same_generation_same_lease:
  "evolves s t \<Longrightarrow> js_generation t = js_generation s \<Longrightarrow> js_lease_id t \<noteq> None \<Longrightarrow> js_lease_id t = js_lease_id s"
  by (simp add: evolves_def)

text \<open>Attempt names are told apart by their number.\<close>

definition digits_value :: "string \<Rightarrow> nat" where
  "digits_value s = foldl (\<lambda>a c. a * 10 + (of_char c - 48)) 0 s"

lemma digits_value_nat_str: "digits_value (nat_str n) = n"
proof (induction n rule: nat_str.induct)
  case (1 n)
  have digit: "of_char (char_of (48 + k) :: char) = 48 + k" if "k < 10" for k :: nat
    using that by (simp add: of_char_of)
  show ?case
  proof (cases "n < 10")
    case True
    then show ?thesis by (subst nat_str.simps) (simp add: digits_value_def digit)
  next
    case False
    with 1 have "foldl (\<lambda>a c. a * 10 + (of_char c - 48)) 0 (nat_str (n div 10)) = n div 10" by (simp add: digits_value_def)
    with False show ?thesis
      by (subst nat_str.simps) (simp add: digits_value_def digit del: of_char_of)
  qed
qed

lemma attempt_name_inject: "0 \<le> m \<Longrightarrow> 0 \<le> n \<Longrightarrow> attempt_name job m = attempt_name job n \<longleftrightarrow> m = n"
proof
  assume *: "0 \<le> m" "0 \<le> n" "attempt_name job m = attempt_name job n"
  then have "nat_str (nat m) = nat_str (nat n)" by (simp add: attempt_name_def)
  then have "nat m = nat n" by (metis digits_value_nat_str)
  with * show "m = n" by simp
qed simp

end
