(* ===== verification/Storage_Service.thy ===== *)
theory Storage_Service
  imports Storage_System Work_Acceptance
begin

text \<open>
  A concrete healthy storage service, after the fakes of \<open>tests/test_flash_storage.py\<close>: blobs with
  etags, a queue with receipts and visibility times, a clock that stands still during a method, and
  tokens and etags numbered by one counter. It is an instance of the services the workers rely on, and
  an interpreter: a method served by it is a run of the system.
\<close>

section \<open>The service\<close>

record service =
  rows :: "(string \<times> blob_data \<times> string) list"
  serial :: nat
  queued :: "(message \<times> pyfloat) list"
  time_now :: pyfloat
  notified :: "(string \<times> string \<times> pyval) list"

definition service_page :: "service \<Rightarrow> string list" where
  "service_page w = filter (\<lambda>n. starts_with n ''flash-jobs/v1/'') (map fst (rows w))"

definition next_name :: "service \<Rightarrow> string" where
  "next_name w = nat_str (serial w)"

definition put_row :: "string \<Rightarrow> blob_data \<Rightarrow> service \<Rightarrow> service" where
  "put_row n d w = w\<lparr>rows := AList.update n (d, next_name w) (rows w), serial := Suc (serial w)\<rparr>"

definition receive :: "pyfloat \<Rightarrow> service \<Rightarrow> message option \<times> service" where
  "receive until w = (case find (\<lambda>(m, t). fle t (time_now w)) (queued w) of
     None \<Rightarrow> (None, w)
   | Some (m, t) \<Rightarrow> let m' = m\<lparr>msg_receipt := Some (next_name w)\<rparr> in
       (Some m', w\<lparr>queued := map (\<lambda>(x, u). if msg_key x = msg_key m then (m', until) else (x, u)) (queued w),
          serial := Suc (serial w)\<rparr>))"

definition holds_receipt :: "message \<Rightarrow> string \<Rightarrow> service \<Rightarrow> bool" where
  "holds_receipt m rc w \<longleftrightarrow> list_ex (\<lambda>(x, u). msg_key x = msg_key m \<and> msg_receipt x = Some rc) (queued w)"

definition seconds_later :: "service \<Rightarrow> int \<Rightarrow> pyfloat" where
  "seconds_later w v = fadd (time_now w) (Fin (of_int v))"

fun serve_call :: "(work_contract \<Rightarrow> pyval \<Rightarrow> bool) \<Rightarrow> service \<Rightarrow> call \<Rightarrow> reply \<times> service" where
  "serve_call verdict w (CDownload n) = (case map_of (rows w) n of
     None \<Rightarrow> (RFail (StorageError (Some 404)), w) | Some (d, e) \<Rightarrow> (RBlob d e, w))"
| "serve_call verdict w (CUpload n d None) = (case map_of (rows w) n of
     None \<Rightarrow> (ROk, put_row n d w) | Some _ \<Rightarrow> (RFail (StorageError (Some 409)), w))"
| "serve_call verdict w (CUpload n d (Some e)) = (case map_of (rows w) n of
     None \<Rightarrow> (RFail (StorageError (Some 412)), w)
   | Some (d0, e0) \<Rightarrow> if e0 = e then (ROk, put_row n d w) else (RFail (StorageError (Some 412)), w))"
| "serve_call verdict w (CListPage t) = (RPage (Some (service_page w, None)), w)"
| "serve_call verdict w (CSend x) = (ROk, w\<lparr>queued := queued w @ [(\<lparr>msg_content = x, msg_key = serial w, msg_receipt = None\<rparr>,
     time_now w)], serial := Suc (serial w)\<rparr>)"
| "serve_call verdict w (CReceive v) = (case receive (seconds_later w v) w of (m, w') \<Rightarrow> (RMessage m, w'))"
| "serve_call verdict w (CUpdate m rc v) = (if holds_receipt m rc w
     then (RReceipt (Some (next_name w)), w\<lparr>queued := map (\<lambda>(x, u). if msg_key x = msg_key m
       then (x\<lparr>msg_receipt := Some (next_name w)\<rparr>, seconds_later w v) else (x, u)) (queued w), serial := Suc (serial w)\<rparr>)
     else (RFail (StorageError (Some 404)), w))"
| "serve_call verdict w (CDelete m rc) = (if holds_receipt m rc w
     then (ROk, w\<lparr>queued := filter (\<lambda>(x, u). msg_key x \<noteq> msg_key m) (queued w)\<rparr>) else (RFail (StorageError (Some 404)), w))"
| "serve_call verdict w CClock = (RTime (time_now w), w)"
| "serve_call verdict w CToken = (RToken (Some (replicate 32 (CHR ''t'') @ next_name w)), w\<lparr>serial := Suc (serial w)\<rparr>)"
| "serve_call verdict w (CVerify c v) = (RVerdict (verdict c v), w)"
| "serve_call verdict w (CNotify j a v) = (ROk, w\<lparr>notified := (j, a, v) # notified w\<rparr>)"

definition fresh_service :: "pyfloat \<Rightarrow> service" where
  "fresh_service now = \<lparr>rows = [], serial = 0, queued = [], time_now = now, notified = []\<rparr>"

section \<open>It is a compare-and-swap service\<close>

definition row_content :: "service \<Rightarrow> string \<Rightarrow> (blob_data \<times> string) option" where
  "row_content w n = map_of (rows w) n"

definition etags_used :: "service \<Rightarrow> string \<Rightarrow> string set" where
  "etags_used w n = nat_str ` {..<serial w}"

definition service_ok :: "service \<Rightarrow> bool" where
  "service_ok w \<longleftrightarrow> (\<forall>n d e. map_of (rows w) n = Some (d, e) \<longrightarrow> e \<in> etags_used w n)"

definition service_answer :: "(work_contract \<Rightarrow> pyval \<Rightarrow> bool) \<Rightarrow> service \<Rightarrow> call \<Rightarrow> reply \<Rightarrow> service \<Rightarrow> bool" where
  "service_answer verdict w c r w' \<longleftrightarrow> service_ok w \<and> serve_call verdict w c = (r, w')"

lemma nat_str_inject: "nat_str m = nat_str n \<longleftrightarrow> m = n"
  by (metis digits_value_nat_str)

lemma next_name_fresh: "next_name w \<notin> etags_used w n"
  by (auto simp: next_name_def etags_used_def nat_str_inject)

lemma etags_used_Suc: "serial w' = Suc (serial w) \<Longrightarrow> etags_used w' n = insert (next_name w) (etags_used w n)"
  by (simp add: etags_used_def next_name_def lessThan_Suc)

lemma put_row_ok: "service_ok w \<Longrightarrow> service_ok (put_row n d w)"
  by (auto simp: service_ok_def put_row_def etags_used_def next_name_def lessThan_Suc update_conv' split: if_splits)

lemma put_row_fresh: "\<exists>e. e \<notin> etags_used w n \<and> map_of (rows (put_row n d w)) = (map_of (rows w))(n \<mapsto> (d, e))"
  by (rule exI [of _ "next_name w"]) (simp add: next_name_fresh put_row_def update_conv')

lemma service_okI: "service_ok w \<Longrightarrow> rows w' = rows w \<Longrightarrow> serial w \<le> serial w' \<Longrightarrow> service_ok w'"
  by (fastforce simp: service_ok_def etags_used_def)

lemma receive_frame: "receive until w = (m, w') \<Longrightarrow> rows w' = rows w \<and> serial w \<le> serial w'"
  by (auto simp: receive_def Let_def split: option.splits prod.splits)

lemma serve_call_frame:
  assumes "serve_call verdict w c = (r, w')"
  shows "rows w' = rows w \<and> serial w \<le> serial w' \<or> (\<exists>n d. w' = put_row n d w)"
  using assms
  by (cases "(verdict, w, c)" rule: serve_call.cases) (auto split: option.splits prod.splits if_splits dest: receive_frame)

lemma serve_call_ok: "serve_call verdict w c = (r, w') \<Longrightarrow> service_ok w \<Longrightarrow> service_ok w'"
  using serve_call_frame [of verdict w c r w'] put_row_ok service_okI by blast

lemma serve_call_cas:
  assumes "serve_call verdict w c = (r, w')"
  shows "case c of
      CUpload n d cond \<Rightarrow>
        (row_content w' = row_content w \<and> r \<noteq> ROk)
        \<or> ((case cond of None \<Rightarrow> row_content w n = None | Some e \<Rightarrow> \<exists>d0. row_content w n = Some (d0, e))
           \<and> (\<exists>e. e \<notin> etags_used w n \<and> row_content w' = (row_content w)(n \<mapsto> (d, e))))
    | CDownload n \<Rightarrow> row_content w' = row_content w \<and> (\<forall>d e. r = RBlob d e \<longrightarrow> row_content w n = Some (d, e))
    | CVerify ct v \<Rightarrow> row_content w' = row_content w \<and> (r = RVerdict True \<longrightarrow> verdict ct v)
    | _ \<Rightarrow> row_content w' = row_content w"
  using assms put_row_fresh [of w]
  by (cases "(verdict, w, c)" rule: serve_call.cases)
    (auto simp: row_content_def [abs_def] dest: receive_frame split: option.splits prod.splits if_splits)

lemma service_cas:
  "cas_service row_content etags_used verdict (service_answer verdict)"
  unfolding cas_service_def
proof (intro allI impI conjI)
  fix w c r w' n d e
  assume "service_answer verdict w c r w'"
  then have ok: "service_ok w" and c: "serve_call verdict w c = (r, w')" by (simp_all add: service_answer_def)
  show "etags_used w n \<subseteq> etags_used w' n"
    using serve_call_frame [OF c] by (auto simp: put_row_def etags_used_def)
  show "row_content w' n = Some (d, e) \<Longrightarrow> e \<in> etags_used w' n"
    using serve_call_ok [OF c ok] by (simp add: service_ok_def row_content_def)
qed (rule serve_call_cas, simp add: service_answer_def)

section \<open>A served method is a run of the system\<close>

definition served :: "(work_contract \<Rightarrow> pyval \<Rightarrow> bool) \<Rightarrow> 'a act \<Rightarrow> claims \<Rightarrow> service \<Rightarrow> ('a result \<times> claims) \<times> service" where
  "served verdict m cs w = serve_io (serve_call verdict) (m cs) w"

abbreviation service_run :: "(nat \<Rightarrow> storage_cfg) \<Rightarrow> (work_contract \<Rightarrow> pyval \<Rightarrow> bool) \<Rightarrow> service \<Rightarrow> (nat \<Rightarrow> worker) \<Rightarrow> history \<Rightarrow> bool" where
  "service_run cfg verdict \<equiv> sys_run cfg row_content (service_answer verdict)"

lemma serve_io_run:
  assumes "service_run cfg verdict w ws H" "service_ok w" "ws i = Running p io" "serve_io (serve_call verdict) io w = ((x, cs), w')"
    and "versions row_content w \<subseteq> H"
  shows "\<exists>H'. service_run cfg verdict w' (ws(i := Idle cs (Some (p, x)))) H' \<and> service_ok w' \<and> H \<subseteq> H' \<and> versions row_content w' \<subseteq> H'"
  using assms
proof (induction io arbitrary: w ws H)
  case (Done y)
  then have "service_run cfg verdict w (ws(i := Idle cs (Some (p, x)))) (H \<union> versions row_content w)"
    by (auto intro: sys_next sys_return)
  moreover have "w' = w" using Done.prems(4) by simp
  ultimately show ?case using Done.prems(2,5) by blast
next
  case (Do c k)
  obtain r w1 where c: "serve_call verdict w c = (r, w1)" by (cases "serve_call verdict w c")
  have ok: "service_ok w1" by (rule serve_call_ok [OF c Do.prems(2)])
  have "service_answer verdict w c r w1" using Do.prems(2) c by (simp add: service_answer_def)
  with Do.prems(3) have "sys_step cfg (service_answer verdict) (w, ws) (w1, ws(i := Running p (k r)))" by (rule sys_call)
  from sys_next [OF Do.prems(1) this]
  have run: "service_run cfg verdict w1 (ws(i := Running p (k r))) (H \<union> versions row_content w1)" .
  have "serve_io (serve_call verdict) (k r) w1 = ((x, cs), w')" using Do.prems(4) c by simp
  from Do.IH [OF rangeI run ok fun_upd_same this Un_upper2] show ?case by (simp only: fun_upd_upd) blast
qed

text \<open>The same as steps of the system alone.\<close>

lemma serve_io_steps:
  assumes "service_ok w" "ws i = Running p io" "serve_io (serve_call verdict) io w = ((x, cs), w')"
  shows "(sys_step cfg (service_answer verdict))\<^sup>*\<^sup>* (w, ws) (w', ws(i := Idle cs (Some (p, x)))) \<and> service_ok w'"
  using assms
proof (induction io arbitrary: w ws)
  case (Done y)
  then have "sys_step cfg (service_answer verdict) (w, ws) (w, ws(i := Idle cs (Some (p, x))))" by (auto intro: sys_return)
  moreover have "w' = w" using Done.prems(3) by simp
  ultimately show ?case using Done.prems(1) r_into_rtranclp by metis
next
  case (Do c k)
  obtain r w1 where c: "serve_call verdict w c = (r, w1)" by (cases "serve_call verdict w c")
  have "service_answer verdict w c r w1" using Do.prems(1) c by (simp add: service_answer_def)
  with Do.prems(2) have step: "sys_step cfg (service_answer verdict) (w, ws) (w1, ws(i := Running p (k r)))" by (rule sys_call)
  have "serve_io (serve_call verdict) (k r) w1 = ((x, cs), w')" using Do.prems(3) c by simp
  moreover have "(ws(i := Running p (k r))) i = Running p (k r)" by simp
  ultimately have "(sys_step cfg (service_answer verdict))\<^sup>*\<^sup>* (w1, ws(i := Running p (k r)))
      (w', (ws(i := Running p (k r)))(i := Idle cs (Some (p, x)))) \<and> service_ok w'"
    using Do.IH [OF rangeI serve_call_ok [OF c Do.prems(1)]] by blast
  with converse_rtranclp_into_rtranclp [of "sys_step cfg (service_answer verdict)", OF step] show ?case
    unfolding fun_upd_upd by blast
qed

lemma served_steps:
  assumes "service_ok w" "ws i = Idle cs l" "served verdict (storage_exec (cfg i) p) cs w = ((x, cs'), w')"
  shows "(sys_step cfg (service_answer verdict))\<^sup>*\<^sup>* (w, ws) (w', ws(i := Idle cs' (Some (p, x)))) \<and> service_ok w'"
proof -
  have "sys_step cfg (service_answer verdict) (w, ws) (w, ws(i := Running p (storage_exec (cfg i) p cs)))"
    using assms(2) by (rule sys_start)
  with serve_io_steps [OF assms(1), of "ws(i := Running p (storage_exec (cfg i) p cs))" i p "storage_exec (cfg i) p cs" verdict x cs' w' cfg]
    assms(3) show ?thesis
    by (simp add: served_def) (metis converse_rtranclp_into_rtranclp)
qed

text \<open>States reached by whole methods of one healthy service, each worker idle.\<close>

definition service_state :: "(nat \<Rightarrow> storage_cfg) \<Rightarrow> (work_contract \<Rightarrow> pyval \<Rightarrow> bool) \<Rightarrow> service \<Rightarrow> (nat \<Rightarrow> worker) \<Rightarrow> history \<Rightarrow> bool" where
  "service_state cfg verdict w ws H \<longleftrightarrow> service_run cfg verdict w ws H \<and> service_ok w \<and> versions row_content w \<subseteq> H"

lemma service_state_init: "service_state cfg verdict (fresh_service now) (\<lambda>_. Idle [] None) {}"
proof -
  have "row_content (fresh_service now) = (\<lambda>_. None)" by (rule ext) (simp add: row_content_def fresh_service_def)
  then show ?thesis by (simp add: service_state_def sys_init versions_def) (simp add: service_ok_def fresh_service_def)
qed

lemma service_state_step:
  assumes "service_state cfg verdict w ws H" "ws i = Idle cs l" "served verdict (storage_exec (cfg i) p) cs w = ((x, cs'), w')"
  shows "\<exists>H'. service_state cfg verdict w' (ws(i := Idle cs' (Some (p, x)))) H' \<and> H \<subseteq> H'"
proof -
  have "service_run cfg verdict w (ws(i := Running p (storage_exec (cfg i) p cs))) (H \<union> versions row_content w)"
    using assms(1,2) by (auto simp: service_state_def intro: sys_next sys_start)
  from serve_io_run [OF this, of i p "storage_exec (cfg i) p cs" x cs' w'] assms show ?thesis
    by (auto simp: service_state_def served_def)
qed

lemma served_later:
  assumes "service_ok w" "served verdict (storage_exec (cfg i) p) cs w = ((x, cs'), w')"
  shows "(sys_step cfg (service_answer verdict))\<^sup>*\<^sup>* (w, (ws :: nat \<Rightarrow> worker)(i := Idle cs l)) (w', ws(i := Idle cs' (Some (p, x))))"
    and "service_ok w'"
proof -
  have "(sys_step cfg (service_answer verdict))\<^sup>*\<^sup>* (w, ws(i := Idle cs l)) (w', (ws(i := Idle cs l))(i := Idle cs' (Some (p, x)))) \<and> service_ok w'"
    by (rule served_steps [where l = l and cs = cs]) (use assms in simp_all)
  then show "(sys_step cfg (service_answer verdict))\<^sup>*\<^sup>* (w, ws(i := Idle cs l)) (w', ws(i := Idle cs' (Some (p, x))))" "service_ok w'"
    unfolding fun_upd_upd by blast+
qed

section \<open>Interpreting methods\<close>

named_theorems serve_simps "running a method against the service"

lemma serve_io_bind:
  "serve_io h (io_bind m f) w = (case serve_io h m w of (x, w') \<Rightarrow> serve_io h (f x) w')"
  by (induction m arbitrary: w) (auto split: prod.splits)

lemma serve_basic [serve_simps]:
  "served vd (ret x) cs w = ((Inr x, cs), w)"
  "served vd (throw e) cs w = ((Inl e, cs), w)"
  "served vd (from_result r) cs w = ((r, cs), w)"
  "served vd (require b e) cs w = ((guard b e, cs), w)"
  "served vd get_claims cs w = ((Inr cs, cs), w)"
  "served vd (put_claims cs') cs w = ((Inr (), cs'), w)"
  by (simp_all add: served_def ret_def throw_def from_result_def require_def get_claims_def put_claims_def)

lemma serve_bind [serve_simps]:
  "served vd (act_bind m f) cs w = (case served vd m cs w of ((Inl e, cs'), w') \<Rightarrow> ((Inl e, cs'), w')
     | ((Inr x, cs'), w') \<Rightarrow> served vd (f x) cs' w')"
  by (simp add: served_def act_bind_def serve_io_bind split: prod.splits sum.splits)

lemma serve_try [serve_simps]:
  "served vd (try_catch m f) cs w = (case served vd m cs w of ((Inl e, cs'), w') \<Rightarrow> served vd (f e) cs' w'
     | ((Inr x, cs'), w') \<Rightarrow> ((Inr x, cs'), w'))"
  by (simp add: served_def try_catch_def serve_io_bind split: prod.splits sum.splits)

lemma serve_perform [serve_simps]:
  "served vd (perform c) cs w = (case serve_call vd w c of (RFail e, w') \<Rightarrow> ((Inl e, cs), w') | (r, w') \<Rightarrow> ((Inr r, cs), w'))"
  by (simp add: served_def perform_def split: prod.splits reply.splits)

lemma serve_if [serve_simps]: "served vd (if b then m else m') cs w = (if b then served vd m cs w else served vd m' cs w)"
  by simp

lemmas serve_calls [serve_simps] = download_def upload_def list_page_def send_message_def receive_message_def update_message_def
  delete_message_def read_time_def make_token_def ask_verifier_def notify_def

end
