(* ===== verification/Storage_Healthy.thy ===== *)
theory Storage_Healthy
  imports Storage_Service
begin

text \<open>
  One job on a healthy service, run symbolically: what \<open>enqueue\<close>, the first \<open>claim\<close> and \<open>complete\<close> of it
  leave behind. \<open>serve_simps\<close> is the interpreter; the job, the contract, the clock and the options are
  arbitrary within the stated bounds.
\<close>


lemma serve_let [serve_simps]: "served vd (Let x f) cs w = served vd (f x) cs w"
  by simp

lemma service_start [serve_simps]: 
  "fresh_service now = \<lparr>rows = [], serial = 0, queued = [], time_now = now, notified = []\<rparr>"
  by (simp add: fresh_service_def)

lemma safe_blob_name: "job \<noteq> [] \<Longrightarrow> list_all job_char job \<Longrightarrow> blob_name job = Inr (job_blob job)"
  by (simp add: blob_name_def)

lemma encode_new_job [simp]: "encode_job (new_job job c now) = new_job job c now"
  by (simp add: encode_job_def new_job_def finite_or_null_def)

definition enqueued_service :: "string \<Rightarrow> work_contract \<Rightarrow> pyfloat \<Rightarrow> service" where
  "enqueued_service job c now = \<lparr>rows = [(job_blob job, JobBlob (new_job job c now), nat_str 0)], serial = 2,
     queued = [(\<lparr>msg_content = job_reference job, msg_key = 1, msg_receipt = None\<rparr>, now)], time_now = now, notified = []\<rparr>"

lemma healthy_enqueue:
  assumes "blob_name job = Inr (job_blob job)"
  shows "served vd (enqueue job c) cs (fresh_service now) = ((Inr (), cs), enqueued_service job c now)"
  using assms by (simp add: enqueued_service_def enqueue_def serve_simps put_row_def next_name_def)



lemma job_char_no_slash: "list_all job_char job \<Longrightarrow> slash \<notin> set job"
  by (auto simp: list_all_iff job_char_def)

lemma split_on_no_sep: "sep \<notin> set s \<Longrightarrow> split_on sep s = [s]"
  by (induction sep s rule: split_on.induct) auto

lemma job_of_job_blob:
  assumes "list_all job_char job"
  shows "job_of_name (job_blob job) = Some job"
proof -
  have "split_on slash (job @ ''.json'') = [job @ ''.json'']"
    using job_char_no_slash [OF assms] by (intro split_on_no_sep) simp
  moreover have "job_blob job = ''flash-jobs'' @ slash # (''v1'' @ slash # (job @ ''.json''))" by (simp add: job_blob_def)
  ultimately have "last (split_on slash (job_blob job)) = job @ ''.json''" by (simp add: split_append_sep)
  then show ?thesis by (simp add: job_of_name_def job_blob_def)
qed

lemma blob_names_differ [simp]: "job_blob job \<noteq> cursor_blob" "cursor_blob \<noteq> job_blob job"
  "job_blob job \<noteq> index_blob h" "index_blob h \<noteq> job_blob job" "cursor_blob \<noteq> index_blob h" "index_blob h \<noteq> cursor_blob"
  by (simp_all add: job_blob_def cursor_blob_def index_blob_def)

lemma listed_names [simp]: "starts_with (job_blob job) ''flash-jobs/v1/''" "\<not> starts_with cursor_blob ''flash-jobs/v1/''"
  "\<not> starts_with (index_blob h) ''flash-jobs/v1/''"
  by (simp_all add: job_blob_def cursor_blob_def index_blob_def)

lemma message_job_reference: "blob_name job = Inr (job_blob job) \<Longrightarrow> message_job (job_reference job) = Inr job"
  by (auto simp: job_reference_def)

lemma nat_str_not_Nil [simp]: "nat_str n \<noteq> []"
  by (subst nat_str.simps) simp

lemma fmin_twice [simp]: "fmin (fmin a d) d = fmin a d"
  by (simp add: fmin_def)

lemma feq_refl: "isfinite x \<Longrightarrow> fle x x"
  by (cases x) auto

section \<open>The first claim and its completion\<close>

definition leased_job :: "storage_cfg \<Rightarrow> string \<Rightarrow> work_contract \<Rightarrow> pyfloat \<Rightarrow> string \<Rightarrow> pyfloat \<Rightarrow> job_state" where
  "leased_job cfg job c now token expiry = (new_job job c now)\<lparr>js_attempt_number := 1, js_generation := 1,
     js_lease_id := Some (token_hash cfg token), js_lease_expires_at := Some expiry\<rparr>"

definition accepted_job :: "storage_cfg \<Rightarrow> string \<Rightarrow> work_contract \<Rightarrow> pyfloat \<Rightarrow> string \<Rightarrow> pyfloat \<Rightarrow> pyval \<Rightarrow> job_state" where
  "accepted_job cfg job c now token expiry x = (leased_job cfg job c now token expiry)\<lparr>accepted_generation := Some 1,
     accepted_attempt_id := Some (attempt_name job 1), accepted_claim_hash := Some (token_hash cfg token),
     accepted_result_json := Some x, notification_sent := True\<rparr>"

definition first_delivery :: "string \<Rightarrow> work_contract \<Rightarrow> string \<Rightarrow> pyfloat \<Rightarrow> delivery" where
  "first_delivery job c token expiry = \<lparr>d_job_id = job, d_contract_id = contract_id c, d_attempt_id = attempt_name job 1,
     d_lease_id = token, d_expires_at = expiry\<rparr>"

definition first_message :: "string \<Rightarrow> nat \<Rightarrow> message" where
  "first_message job r = \<lparr>msg_content = job_reference job, msg_key = 1, msg_receipt = Some (nat_str r)\<rparr>"

definition first_claim :: "string \<Rightarrow> work_contract \<Rightarrow> string \<Rightarrow> pyfloat \<Rightarrow> claim_context" where
  "first_claim job c token expiry = \<lparr>cx_token = token, cx_job_id = job, cx_attempt_id = attempt_name job 1, cx_generation = 1,
     cx_message = first_message job 4, cx_receipt = nat_str 4, cx_delivery = first_delivery job c token expiry\<rparr>"

definition first_token :: string where
  "first_token = replicate 32 (CHR ''t'') @ nat_str 5"

definition empty_cursor :: blob_data where
  "empty_cursor = CursorBlob \<lparr>cu_version = 1, continuation_token = None\<rparr>"

definition first_index :: "storage_cfg \<Rightarrow> string \<Rightarrow> work_contract \<Rightarrow> pyfloat \<Rightarrow> blob_data" where
  "first_index cfg job c now = IndexBlob \<lparr>ix_version = 1, ix_job_id = job, ix_generation = 1, ix_attempt_id = attempt_name job 1,
     ix_claim_hash = token_hash cfg first_token, ix_expires_at = fadd now (wall_seconds (budget c))\<rparr>"

definition claimed_service :: "storage_cfg \<Rightarrow> string \<Rightarrow> work_contract \<Rightarrow> pyfloat \<Rightarrow> pyfloat \<Rightarrow> service" where
  "claimed_service cfg job c now expiry =
     \<lparr>rows = [(job_blob job, JobBlob (leased_job cfg job c now first_token expiry), nat_str 6), (cursor_blob, empty_cursor, nat_str 3)],
       serial = 7, queued = [(first_message job 4, fadd now (Fin (of_int (opt_lease_seconds (options cfg)))))], time_now = now, notified = []\<rparr>"

definition completed_service :: "storage_cfg \<Rightarrow> string \<Rightarrow> work_contract \<Rightarrow> pyfloat \<Rightarrow> pyfloat \<Rightarrow> pyval \<Rightarrow> service" where
  "completed_service cfg job c now expiry x =
     \<lparr>rows = [(job_blob job, JobBlob (accepted_job cfg job c now first_token expiry x), nat_str 9), (cursor_blob, empty_cursor, nat_str 10),
         (index_blob (token_hash cfg first_token), first_index cfg job c now, nat_str 7)],
       serial = 11, queued = [], time_now = now, notified = [(job, attempt_name job 1, x)]\<rparr>"

lemma healthy_claim:
  assumes job: "blob_name job = Inr (job_blob job)" "list_all job_char job"
    and c: "validate_contract c = Inr c" "isfinite (wall_seconds (budget c))" "isfinite now"
    and opts: "1 \<le> max_local_claims (options cfg)" "1 \<le> accepted_trigger_drain_limit (options cfg)"
    and lease: "with_lease cfg now = Inr until" "isfinite (fmin until (fadd now (wall_seconds (budget c))))"
    and deadline: "\<not> fle (fadd now (wall_seconds (budget c))) now" "1 \<le> max_attempts (budget c)"
  defines "expiry \<equiv> fmin until (fadd now (wall_seconds (budget c)))"
  shows "served vd (durable_claim cfg) [] (enqueued_service job c now)
    = ((Inr (Some (first_delivery job c first_token expiry, first_token)), [(first_token, first_claim job c first_token expiry)]),
       claimed_service cfg job c now expiry)"
proof -
  note run = prune_claims_def recover_notifications_def read_cursor_def put_row_def next_name_def service_page_def recover_one_def
    job_of_job_blob read_job_def new_job_def write_cursor_def conditional_upload_def status_in_def receive_def seconds_later_def
    claim_message_def message_job_reference load_contract_def grant_lease_def unique_token_def write_unless_beaten_def write_job_def
    encode_job_def finite_or_null_def given_receipt_def leased_job_def first_delivery_def first_message_def first_claim_def
    first_token_def empty_cursor_def expiry_def enqueued_service_def claimed_service_def completed_service_def
  show ?thesis unfolding durable_claim_def
    using assms(1-11) Suc_nat_eq_nat_zadd1 [of "accepted_trigger_drain_limit (options cfg) - 1", symmetric] feq_refl [OF c(3)] by (simp add: serve_simps run Let_def)
qed


lemma healthy_complete:
  assumes job: "blob_name job = Inr (job_blob job)" "list_all job_char job"
    and c: "validate_contract c = Inr c" "isfinite (wall_seconds (budget c))" "isfinite now"
    and lease: "isfinite (fmin until (fadd now (wall_seconds (budget c))))" "\<not> fle (fmin until (fadd now (wall_seconds (budget c)))) now"
    and result: "json_dumps v = Inr x" "vd c x"
  defines "expiry \<equiv> fmin until (fadd now (wall_seconds (budget c)))"
  shows "served vd (durable_complete cfg first_token v) [(first_token, first_claim job c first_token expiry)]
      (claimed_service cfg job c now expiry) = ((Inr x, []), completed_service cfg job c now expiry x)"
proof -
  note run = recover_notifications_def read_cursor_def put_row_def next_name_def service_page_def recover_one_def
    job_of_job_blob read_job_def new_job_def write_cursor_def conditional_upload_def status_in_def Let_def mark_sent_def
    load_contract_def write_job_def claim_of_def pop_claim_def require_claim_def canonical_result_def commit_result_def
    encode_job_def finite_or_null_def given_receipt_def leased_job_def first_delivery_def first_message_def first_claim_def
    empty_cursor_def expiry_def enqueued_service_def claimed_service_def completed_service_def accepted_job_def first_index_def settle_def write_claim_index_def json_loads_def holds_receipt_def
  show ?thesis unfolding durable_complete_def
    using assms(1-9) feq_refl [OF c(3)] by (simp add: serve_simps run)
qed

end
