(* ===== verification/Storage_Workers.thy ===== *)
theory Storage_Workers
  imports Storage_Healthy
begin

text \<open>
  What holds of every interleaving of any number of workers over a compare-and-swap blob store, and what
  one worker achieves over a healthy one.
\<close>

section \<open>Properties of every interleaving\<close>

text \<open>What steps later than a reachable state reach is reachable, with the history grown.\<close>

lemma later_run:
  assumes "(sys_step cfg answer)\<^sup>*\<^sup>* (w, ws) (w', ws')" "sys_run cfg content answer w ws H"
  shows "\<exists>H'. sys_run cfg content answer w' ws' H' \<and> H \<subseteq> H'"
  using assms
proof (induction "(w', ws')" arbitrary: w' ws' rule: rtranclp_induct)
  case (step y)
  obtain v vs where y: "y = (v, vs)" by (cases y)
  from step.hyps(3) [OF y] step.prems obtain H1 where "sys_run cfg content answer v vs H1" "H \<subseteq> H1" by blast
  with sys_next [OF this(1)] step.hyps(2) y show ?case by blast
qed blast

section \<open>A sample run\<close>

definition sample_cfg :: storage_cfg where
  "sample_cfg = \<lparr>options = \<lparr>opt_lease_seconds = 10, recovery_scan_limit = 256, accepted_trigger_drain_limit = 8, max_local_claims = 128\<rparr>,
     token_hash = (\<lambda>t. CHR ''h'' # t)\<rparr>"

definition sample_verdict :: "work_contract \<Rightarrow> pyval \<Rightarrow> bool" where
  "sample_verdict c v \<longleftrightarrow> v = PInt 5"

abbreviation sample_done :: job_state where
  "sample_done \<equiv> accepted_job sample_cfg ''J'' sample_contract (Fin 0) first_token (Fin 10) (PInt 5)"

lemma sample_name: "blob_name ''J'' = Inr (job_blob ''J'')" "list_all job_char ''J''"
  by (simp_all add: blob_name_def job_char_def)

lemma sample_times: "with_lease sample_cfg (Fin 0) = Inr (Fin 10)" "wall_seconds (budget sample_contract) = Fin 60"
  "fl 60 = Fin 60" "max_local_claims (options sample_cfg) = 128" "accepted_trigger_drain_limit (options sample_cfg) = 8"
  "fadd (Fin 0) (Fin 60) = Fin 60" "fmin (Fin 10) (Fin 60) = Fin 10" "max_attempts (budget sample_contract) = 3"
  by (simp_all add: with_lease_def sample_cfg_def sample_contract_def fmin_def fl_numeral float_of_int_def)

lemma sample_options: "options sample_cfg = \<lparr>opt_lease_seconds = 10, recovery_scan_limit = 256, accepted_trigger_drain_limit = 8, max_local_claims = 128\<rparr>"
  by (simp add: sample_cfg_def)

lemma valid_contract_attempts: "validate_contract c = Inr c' \<Longrightarrow> 1 \<le> max_attempts (budget c')"
  by (auto simp: validate_contract_def validate_budget_def Let_def)

abbreviation completed_row :: "string \<Rightarrow> (blob_data \<times> string) option" where
  "completed_row \<equiv> row_content (completed_service sample_cfg ''J'' sample_contract (Fin 0) (Fin 10) (PInt 5))"

lemma service_stateD: "service_state cfg vd w ws H \<Longrightarrow> service_run cfg vd w ws H"
  by (simp add: service_state_def)

lemma sample_enqueue:
  "served sample_verdict (storage_exec sample_cfg (OpEnqueue ''J'' sample_contract)) [] (fresh_service (Fin 0))
    = ((Inr Unit_Value, []), enqueued_service ''J'' sample_contract (Fin 0))"
  by (simp add: act_map_def serve_bind serve_basic healthy_enqueue [OF sample_name(1)])

lemma sample_claim:
  "served sample_verdict (storage_exec sample_cfg OpClaim) [] (enqueued_service ''J'' sample_contract (Fin 0))
    = ((Inr (Claim_Value (Some (first_delivery ''J'' sample_contract first_token (Fin 10), first_token))),
        [(first_token, first_claim ''J'' sample_contract first_token (Fin 10))]), claimed_service sample_cfg ''J'' sample_contract (Fin 0) (Fin 10))"
  using healthy_claim [OF sample_name sample_contract_valid, of "Fin 0" sample_cfg "Fin 10" sample_verdict]
  by (simp add: act_map_def serve_bind serve_basic sample_times)

lemma sample_complete:
  "served sample_verdict (storage_exec sample_cfg (OpComplete first_token (PInt 5))) [(first_token, first_claim ''J'' sample_contract first_token (Fin 10))]
      (claimed_service sample_cfg ''J'' sample_contract (Fin 0) (Fin 10))
    = ((Inr (Complete_Value (PInt 5)), []), completed_service sample_cfg ''J'' sample_contract (Fin 0) (Fin 10) (PInt 5))"
  using healthy_complete [OF sample_name sample_contract_valid, of "Fin 0" "Fin 10" "PInt 5" "PInt 5" sample_verdict sample_cfg]
  by (simp add: act_map_def serve_bind serve_basic sample_times sample_verdict_def)

abbreviation sample_after_claim :: "history \<Rightarrow> bool" where
  "sample_after_claim \<equiv> service_state (\<lambda>_. sample_cfg) sample_verdict (claimed_service sample_cfg ''J'' sample_contract (Fin 0) (Fin 10))
       ((\<lambda>_. Idle [] None)(0 := Idle [(first_token, first_claim ''J'' sample_contract first_token (Fin 10))]
       (Some (OpClaim, Inr (Claim_Value (Some (first_delivery ''J'' sample_contract first_token (Fin 10), first_token)))))))"

abbreviation sample_after_complete :: "history \<Rightarrow> bool" where
  "sample_after_complete \<equiv> service_state (\<lambda>_. sample_cfg) sample_verdict (completed_service sample_cfg ''J'' sample_contract (Fin 0) (Fin 10) (PInt 5))
       ((\<lambda>_. Idle [] None)(0 := Idle [] (Some (OpComplete first_token (PInt 5), Inr (Complete_Value (PInt 5))))))"

lemma sample_runs:
  obtains H H' where
    "sample_after_claim H"
    "sample_after_complete H'"
    "(job_blob ''J'', nat_str 9, JobBlob sample_done) \<in> H'"
proof -
  let ?idle = "\<lambda>_::nat. Idle [] None"
  from service_state_step [OF service_state_init refl sample_enqueue]
  obtain H1 where "service_state (\<lambda>_. sample_cfg) sample_verdict (enqueued_service ''J'' sample_contract (Fin 0))
    (?idle(0 := Idle [] (Some (OpEnqueue ''J'' sample_contract, Inr Unit_Value)))) H1" by blast
  from service_state_step [OF this fun_upd_same sample_claim] obtain H2 where
    s2: "service_state (\<lambda>_. sample_cfg) sample_verdict (claimed_service sample_cfg ''J'' sample_contract (Fin 0) (Fin 10))
       (?idle(0 := Idle [(first_token, first_claim ''J'' sample_contract first_token (Fin 10))]
       (Some (OpClaim, Inr (Claim_Value (Some (first_delivery ''J'' sample_contract first_token (Fin 10), first_token))))))) H2"
    unfolding fun_upd_upd by blast
  from service_state_step [OF this fun_upd_same sample_complete] obtain H3 where
    s3: "service_state (\<lambda>_. sample_cfg) sample_verdict (completed_service sample_cfg ''J'' sample_contract (Fin 0) (Fin 10) (PInt 5))
       (?idle(0 := Idle [] (Some (OpComplete first_token (PInt 5), Inr (Complete_Value (PInt 5)))))) H3"
    unfolding fun_upd_upd by blast
  have "(job_blob ''J'', nat_str 9, JobBlob sample_done) \<in> versions row_content (completed_service sample_cfg ''J'' sample_contract (Fin 0) (Fin 10) (PInt 5))"
    by (simp add: versions_def row_content_def completed_service_def)
  with s3 have "(job_blob ''J'', nat_str 9, JobBlob sample_done) \<in> H3" by (auto simp: service_state_def)
  with s2 s3 show ?thesis by (rule that)
qed

text \<open>
  C3. However workers interleave, crash and lose replies, the durable record of a job follows the protocol.
  In every state the system can reach over a compare-and-swap blob store, each version a job's blob ever
  had is a well-formed record under the job's own name, was produced by protocol steps from a freshly
  enqueued job, and is followed by protocol steps up to the version stored now.
\<close>

theorem workers_follow_protocol:
  assumes "cas_service content used approves answer" "sys_run cfg content answer w ws H"
    and "(n, e, JobBlob s) \<in> H"
  shows "n = job_blob (js_job_id s) \<and> job_ok approves s
    \<and> (\<exists>c now. (job_step approves)\<^sup>*\<^sup>* (encode_job (new_job (js_job_id s) c now)) s)
    \<and> (\<exists>t e'. content w n = Some (JobBlob t, e') \<and> (job_step approves)\<^sup>*\<^sup>* s t)"
  using version_facts [OF assms] by blast

theorem workers_follow_protocol_witness:
  "\<exists>t e. completed_row (job_blob ''J'') = Some (JobBlob t, e) \<and> job_ok sample_verdict sample_done
    \<and> (job_step sample_verdict)\<^sup>*\<^sup>* sample_done t"
proof (rule sample_runs)
  fix H H'
  assume "sample_after_complete H'"
    and "(job_blob ''J'', nat_str 9, JobBlob sample_done) \<in> H'"
  then show ?thesis using workers_follow_protocol [OF service_cas service_stateD] by blast
qed

text \<open>
  C2. A job accepts at most one result. If two versions of the same job's blob, at any two moments of a
  run with any number of workers, both carry an accepted result, then it is the same result of the same
  attempt under the same claim; the trusted verifier approved it under the job's contract, and the blob
  carries it still.
\<close>

theorem at_most_one_acceptance:
  assumes "cas_service content used approves answer" "sys_run cfg content answer w ws H"
    and "(n, e1, JobBlob s1) \<in> H" "accepted_result_json s1 = Some v1"
    and "(n, e2, JobBlob s2) \<in> H" "accepted_result_json s2 = Some v2"
  shows "v1 = v2 \<and> accepted_attempt_id s1 = accepted_attempt_id s2 \<and> accepted_claim_hash s1 = accepted_claim_hash s2
    \<and> (\<exists>c. validate_contract (js_contract s1) = Inr c \<and> approves c v1)
    \<and> (\<exists>t e'. content w n = Some (JobBlob t, e') \<and> accepted_result_json t = Some v1)"
proof -
  from version_evolves [OF assms(1-3)] obtain t e' where t: "content w n = Some (JobBlob t, e')" "evolves s1 t" "job_ok approves s1" .
  from version_evolves [OF assms(1,2,5)] obtain t2 e2' where t2: "content w n = Some (JobBlob t2, e2')" "evolves s2 t2" .
  have "t2 = t" using t(1) t2(1) by simp
  with evolves_accepted [OF t(2) assms(4)] evolves_accepted [OF t2(2) assms(6)] t show ?thesis
    using assms(4) by (auto simp: job_ok_def)
qed

theorem at_most_one_acceptance_witness:
  "\<exists>t e. completed_row (job_blob ''J'') = Some (JobBlob t, e) \<and> accepted_result_json t = Some (PInt 5)"
proof (rule sample_runs)
  fix H H'
  assume "sample_after_complete H'"
    and stored: "(job_blob ''J'', nat_str 9, JobBlob sample_done) \<in> H'"
  from at_most_one_acceptance [OF service_cas service_stateD [OF this(1)] stored _ stored, of "PInt 5" "PInt 5"] show ?thesis
    by (simp add: accepted_job_def)
qed

text \<open>
  C15. The attempt budget and the deadline survive concurrency: in every version a job ever had, the number
  of attempts granted is at most \<open>max_attempts\<close> and the recorded lease ends by the work deadline; and
  between any version and the one stored now the contract and start are unchanged, no attempt was taken
  back, and within one attempt the lease belongs to one claim or to none.
\<close>

theorem budget_survives_concurrency:
  assumes "cas_service content used approves answer" "sys_run cfg content answer w ws H"
    and "(n, e, JobBlob s) \<in> H"
  shows "(js_attempt_number s = 0 \<or> js_attempt_number s \<le> max_attempts (budget (js_contract s)))
    \<and> (\<forall>x. js_lease_expires_at s = Some x \<longrightarrow> fle x (job_deadline s))
    \<and> (\<exists>t e'. content w n = Some (JobBlob t, e') \<and> js_contract t = js_contract s \<and> js_started_at t = js_started_at s
        \<and> js_attempt_number s \<le> js_attempt_number t
        \<and> (js_attempt_number t = js_attempt_number s \<longrightarrow> js_lease_id t = js_lease_id s \<or> js_lease_id t = None))"
proof -
  from version_evolves [OF assms] obtain t e' where t: "content w n = Some (JobBlob t, e')" "evolves s t" "job_ok approves s" "job_ok approves t" .
  then have "js_attempt_number s = js_generation s" "js_attempt_number t = js_generation t" by (simp_all add: job_ok_def)
  with t show ?thesis by (auto simp: job_ok_def null_or_finite_def evolves_def)
qed

theorem budget_survives_concurrency_witness:
  "\<exists>t e. completed_row (job_blob ''J'') = Some (JobBlob t, e) \<and> js_contract t = sample_contract \<and> 1 \<le> js_attempt_number t"
proof (rule sample_runs)
  fix H H'
  assume "sample_after_complete H'"
    and stored: "(job_blob ''J'', nat_str 9, JobBlob sample_done) \<in> H'"
  from budget_survives_concurrency [OF service_cas service_stateD [OF this(1)] stored] show ?thesis
    by (auto simp: accepted_job_def leased_job_def new_job_def)
qed

text \<open>
  C18. A completion that returns has been durably accepted. Whenever some worker's \<open>complete\<close> returned a
  value, that value is the canonical form of the submitted result, and from then on some job's blob
  holds it as its accepted result, accepted under exactly that claim token and approved by the verifier.
\<close>

theorem returned_completion_is_durable:
  assumes "cas_service content used approves answer" "sys_run cfg content answer w ws H"
    and "ws i = Idle cs (Some (OpComplete token v, Inr (Complete_Value x)))"
  shows "json_dumps v = Inr x \<and> (\<exists>n t e c. content w n = Some (JobBlob t, e) \<and> accepted_result_json t = Some x
    \<and> accepted_claim_hash t = Some (token_hash (cfg i) token) \<and> validate_contract (js_contract t) = Inr c \<and> approves c x)"
proof -
  have "worker_ok approves (cfg i) H (ws i)" using sys_run_inv [OF assms(1,2)] by (simp add: sys_inv_def)
  with assms(3) obtain s e where s: "json_dumps v = Inr x" "(job_blob (js_job_id s), e, JobBlob s) \<in> H"
    "accepted_result_json s = Some x" "accepted_claim_hash s = Some (token_hash (cfg i) token)"
    by (auto simp: accepted_version_def seen_def)
  from version_evolves [OF assms(1,2) s(2)] obtain t e' where t: "content w (job_blob (js_job_id s)) = Some (JobBlob t, e')"
    "evolves s t" "job_ok approves t" .
  with evolves_accepted [OF t(2) s(3)] s show ?thesis by (fastforce simp: job_ok_def)
qed

theorem returned_completion_is_durable_witness:
  "\<exists>n t e. completed_row n = Some (JobBlob t, e) \<and> accepted_result_json t = Some (PInt 5)
    \<and> accepted_claim_hash t = Some (CHR ''h'' # first_token)"
proof (rule sample_runs)
  fix H H'
  assume "sample_after_complete H'"
  from returned_completion_is_durable [OF service_cas service_stateD [OF this] fun_upd_same] show ?thesis
    by (auto simp: sample_cfg_def)
qed

text \<open>The sample job after its first lease was given back.\<close>

definition abandoned_service :: service where
  "abandoned_service =
     \<lparr>rows = [(job_blob ''J'', JobBlob ((new_job ''J'' sample_contract (Fin 0))\<lparr>js_attempt_number := 1, js_generation := 1\<rparr>), nat_str 7),
         (cursor_blob, empty_cursor, nat_str 3)],
       serial = 9, queued = [(first_message ''J'' 8, Fin 0)], time_now = Fin 0, notified = []\<rparr>"

lemma sample_abandon:
  "served sample_verdict (storage_exec sample_cfg (OpAbandon first_token)) [(first_token, first_claim ''J'' sample_contract first_token (Fin 10))]
      (claimed_service sample_cfg ''J'' sample_contract (Fin 0) (Fin 10)) = ((Inr Unit_Value, []), abandoned_service)"
  by (simp add: serve_simps durable_abandon_def current_claim_def put_row_def next_name_def seconds_later_def fl_numeral
    read_job_def new_job_def conditional_upload_def status_in_def Let_def write_job_def claim_of_def pop_claim_def require_claim_def
    encode_job_def finite_or_null_def given_receipt_def leased_job_def first_delivery_def first_message_def first_claim_def
    empty_cursor_def claimed_service_def abandoned_service_def holds_receipt_def act_map_def load_contract_def
    sample_times sample_name sample_contract_valid)

lemma sample_reclaimed:
  "\<exists>d t cs w. served sample_verdict (storage_exec sample_cfg OpClaim) [] abandoned_service = ((Inr (Claim_Value (Some (d, t))), cs), w)
    \<and> d_job_id d = ''J'' \<and> t = replicate 32 (CHR ''t'') @ nat_str 11"
proof -
  have drain: "drain sample_cfg 8 = drain sample_cfg (Suc (numeral num.One + 6))" by simp
  note drain = this [unfolded drain.simps]
  show ?thesis
  by (simp add: serve_simps durable_claim_def prune_claims_def recover_notifications_def read_cursor_def put_row_def next_name_def
    service_page_def recover_one_def job_of_job_blob [OF sample_name(2)]
    message_job_reference [OF sample_name(1)] read_job_def new_job_def write_cursor_def conditional_upload_def status_in_def
    receive_def seconds_later_def claim_message_def load_contract_def grant_lease_def unique_token_def
    write_unless_beaten_def write_job_def encode_job_def finite_or_null_def given_receipt_def first_message_def empty_cursor_def
    act_map_def abandoned_service_def sample_times sample_name sample_contract_valid drain fl_numeral Let_def)
qed

text \<open>
  C14. No two claims share an attempt. Take any two deliveries for the same job that \<open>claim\<close> returned at any two
  moments of a run, to the same or to different workers, whatever happened before, between or since: if their
  tokens have different hashes, their attempt ids differ. Each delivery was durable when it was returned, under
  the token it was handed out with, and belongs to one of the permitted attempts.
\<close>

theorem one_claim_per_attempt:
  assumes "cas_service content used approves answer" "sys_run cfg content answer w ws H"
    and "ws i = Idle cs (Some (OpClaim, Inr (Claim_Value (Some (d, t)))))"
    and "(sys_step cfg answer)\<^sup>*\<^sup>* (w, ws) (w', ws')"
    and "ws' j = Idle cs' (Some (OpClaim, Inr (Claim_Value (Some (d', t')))))"
    and "d_job_id d' = d_job_id d"
  shows "(token_hash (cfg j) t' \<noteq> token_hash (cfg i) t \<longrightarrow> d_attempt_id d' \<noteq> d_attempt_id d)
    \<and> (\<exists>s e. (job_blob (d_job_id d), e, JobBlob s) \<in> H \<and> js_lease_id s = Some (token_hash (cfg i) t)
        \<and> d_attempt_id d = attempt_name (d_job_id d) (js_attempt_number s)
        \<and> 1 \<le> js_attempt_number s \<and> js_attempt_number s \<le> max_attempts (budget (js_contract s)))"
proof -
  from later_run [OF assms(4,2)] obtain H' where run': "sys_run cfg content answer w' ws' H'" and sub: "H \<subseteq> H'" by blast
  have inv: "sys_inv cfg content used approves w ws H" by (rule sys_run_inv [OF assms(1,2)])
  have inv': "sys_inv cfg content used approves w' ws' H'" by (rule sys_run_inv [OF assms(1) run'])
  have ok: "worker_ok approves (cfg i) H (ws i)" "worker_ok approves (cfg j) H' (ws' j)"
    using inv inv' by (simp_all add: sys_inv_def)
  from ok(1) assms(3) obtain s e where s: "(job_blob (d_job_id d), e, JobBlob s) \<in> H" "js_job_id s = d_job_id d"
    "js_lease_id s = Some (token_hash (cfg i) t)" "d_attempt_id d = attempt_name (d_job_id d) (js_generation s)"
    by (auto simp: lease_recorded_def seen_def)
  from ok(2) assms(5,6) obtain s' e' where s': "(job_blob (d_job_id d), e', JobBlob s') \<in> H'"
    "js_lease_id s' = Some (token_hash (cfg j) t')" "d_attempt_id d' = attempt_name (d_job_id d) (js_generation s')"
    by (auto simp: lease_recorded_def seen_def)
  have later: "(job_blob (d_job_id d), e, JobBlob s) \<in> H'" using s(1) sub by blast
  have jok: "job_ok approves s" "job_ok approves s'"
    using version_facts(2) [OF assms(1) run'] later s'(1) by blast+
  then have gen: "0 \<le> js_generation s" "0 \<le> js_generation s'" by (simp_all add: job_ok_def)
  have "token_hash (cfg j) t' = token_hash (cfg i) t" if same: "d_attempt_id d' = d_attempt_id d"
  proof -
    have "attempt_name (d_job_id d) (js_generation s') = attempt_name (d_job_id d) (js_generation s)"
      by (rule trans [OF s'(3) [symmetric] trans [OF same s(4)]])
    then have "js_generation s' = js_generation s"
      by (rule attempt_name_inject [OF gen(2) gen(1), THEN iffD1])
    moreover from inv' have "linear_history approves H'" by (simp add: sys_inv_def)
    then have "(job_step approves)\<^sup>*\<^sup>* s s' \<or> (job_step approves)\<^sup>*\<^sup>* s' s"
      unfolding linear_history_def by (elim allE impE) (rule later, rule s'(1))
    then have "evolves s s' \<or> evolves s' s" by (auto dest: job_run_evolves)
    ultimately have "js_lease_id s' = js_lease_id s"
      using s(3) s'(2) same_generation_same_lease [of s s'] same_generation_same_lease [of s' s] by auto
    then show ?thesis using s(3) s'(2) by simp
  qed
  moreover have "1 \<le> js_attempt_number s" "js_attempt_number s \<le> max_attempts (budget (js_contract s))"
    "js_generation s = js_attempt_number s"
    using jok(1) s(3) by (auto simp: job_ok_def)
  ultimately show ?thesis using s by auto
qed

theorem one_claim_per_attempt_witness:
  "\<exists>d t cs w. served sample_verdict (storage_exec sample_cfg OpClaim) [] abandoned_service = ((Inr (Claim_Value (Some (d, t))), cs), w)
    \<and> d_job_id d = ''J'' \<and> d_attempt_id d \<noteq> d_attempt_id (first_delivery ''J'' sample_contract first_token (Fin 10))"
proof (rule sample_runs)
  fix H H'
  assume claimed: "sample_after_claim H"
  obtain d t cs w where claim: "served sample_verdict (storage_exec sample_cfg OpClaim) [] abandoned_service = ((Inr (Claim_Value (Some (d, t))), cs), w)"
    and d: "d_job_id d = ''J''" "t = replicate 32 (CHR ''t'') @ nat_str 11" using sample_reclaimed by blast
  have ok: "service_ok (claimed_service sample_cfg ''J'' sample_contract (Fin 0) (Fin 10))" using claimed by (simp add: service_state_def)
  note again = served_later(1) [where cfg = "\<lambda>_. sample_cfg" and i = "0::nat" and ws = "\<lambda>_. Idle [] None"]
  have "service_ok abandoned_service" by (rule served_later(2) [where cfg = "\<lambda>_. sample_cfg", OF ok sample_abandon])
  from rtranclp_trans [OF again [OF ok sample_abandon] again [OF this claim]]
  have later: "(sys_step (\<lambda>_. sample_cfg) (service_answer sample_verdict))\<^sup>*\<^sup>*
      (claimed_service sample_cfg ''J'' sample_contract (Fin 0) (Fin 10), (\<lambda>_. Idle [] None)(0 := Idle [(first_token, first_claim ''J'' sample_contract first_token (Fin 10))]
       (Some (OpClaim, Inr (Claim_Value (Some (first_delivery ''J'' sample_contract first_token (Fin 10), first_token)))))))
      (w, (\<lambda>_. Idle [] None)(0 := Idle cs (Some (OpClaim, Inr (Claim_Value (Some (d, t)))))))" .
  have "d_job_id d = d_job_id (first_delivery ''J'' sample_contract first_token (Fin 10))" by (simp add: d first_delivery_def)
  note distinct_claims = one_claim_per_attempt [OF service_cas service_stateD [OF claimed] fun_upd_same later fun_upd_same this]
  have "token_hash sample_cfg t \<noteq> token_hash sample_cfg first_token" by (simp add: sample_cfg_def d first_token_def nat_str_inject)
  with distinct_claims claim d(1) show ?thesis by blast
qed

text \<open>
  C35. A job on a healthy service is delivered and done. If the services answer, the job id is path-safe, the
  contract is valid with a finite wall-clock budget, the clock and the options are in range so that the
  lease ends in the future, and the verifier approves the result, then \<open>enqueue\<close>, one \<open>claim\<close> and one
  \<open>complete\<close> all return: the claim hands out the job's first attempt, the completion returns the canonical
  result, \<open>completed_result\<close> then reports it, the notifier was called exactly once, with it, and the
  queue is empty.
\<close>

theorem healthy_job_is_delivered:
  assumes "blob_name job = Inr n" "validate_contract c = Inr c" "isfinite (wall_seconds (budget c))" "isfinite now"
    and "validate_options (options cfg) = Inr opt" "with_lease cfg now = Inr until"
    and "isfinite (fmin until (fadd now (wall_seconds (budget c))))" "\<not> fle (fmin until (fadd now (wall_seconds (budget c)))) now"
    and "\<not> fle (fadd now (wall_seconds (budget c))) now" "json_dumps v = Inr x" "verdict c x"
  shows "\<exists>w1 w2 w3 d t cs. served verdict (enqueue job c) [] (fresh_service now) = ((Inr (), []), w1)
    \<and> served verdict (durable_claim cfg) [] w1 = ((Inr (Some (d, t)), cs), w2) \<and> d_job_id d = job \<and> d_attempt_id d = attempt_name job 1
    \<and> served verdict (durable_complete cfg t v) cs w2 = ((Inr x, []), w3)
    \<and> served verdict (durable_completed_result job) [] w3 = ((Inr (Some x), []), w3)
    \<and> notified w3 = [(job, d_attempt_id d, x)] \<and> queued w3 = []"
proof -
  from assms(1) have job: "blob_name job = Inr (job_blob job)" "list_all job_char job"
    by (auto simp: blob_name_def split: if_splits)
  from assms(5) have opts: "1 \<le> max_local_claims (options cfg)" "1 \<le> accepted_trigger_drain_limit (options cfg)"
    by (auto simp: validate_options_def)
  note attempts = valid_contract_attempts [OF assms(2)]
  have result: "served verdict (durable_completed_result job) [] (completed_service cfg job c now e x)
      = ((Inr (Some x), []), completed_service cfg job c now e x)" for e
    using job assms(4) by (simp add: durable_completed_result_def read_job_def serve_simps completed_service_def accepted_job_def
      leased_job_def new_job_def json_loads_def)
  show ?thesis
    by (intro exI conjI, rule healthy_enqueue [OF job(1)], rule healthy_claim [OF job assms(2-4) opts assms(6,7,9) attempts],
        simp add: first_delivery_def, simp add: first_delivery_def, rule healthy_complete [where vd = verdict, OF job assms(2-4,7,8,10,11)], rule result)
      (simp_all add: completed_service_def first_delivery_def)
qed

theorem healthy_job_is_delivered_witness:
  "\<exists>w1 w2 d t cs. served sample_verdict (enqueue ''J'' sample_contract) [] (fresh_service (Fin 0)) = ((Inr (), []), w1)
    \<and> served sample_verdict (durable_claim sample_cfg) [] w1 = ((Inr (Some (d, t)), cs), w2)"
  using healthy_job_is_delivered [OF sample_name(1) sample_contract_valid, of "Fin 0" sample_cfg "options sample_cfg" "Fin 10" "PInt 5" "PInt 5" sample_verdict]
    sample_times by (auto simp: sample_verdict_def validate_options_def sample_options)

text \<open>
  What a producer refers to is what a consumer opens. For a path-safe job id the queue reference
  written by \<open>enqueue\<close> parses back to that id, the blob's listed name leads back to it, and no other id
  shares the blob; and every reference that parses at all names a path-safe id.
\<close>

theorem job_reference_roundtrip:
  assumes "blob_name job = Inr n"
  shows "message_job (job_reference job) = Inr job \<and> job_of_name n = Some job
    \<and> (\<forall>job' n'. blob_name job' = Inr n' \<longrightarrow> n' = n \<longrightarrow> job' = job)
    \<and> (\<forall>v job'. message_job (JsonText v) = Inr job' \<longrightarrow> list_all job_char job' \<and> job' \<noteq> [])"
proof (intro conjI allI impI)
  from assms have n: "n = job_blob job" "list_all job_char job" by (auto simp: blob_name_def split: if_splits)
  with assms show "message_job (job_reference job) = Inr job" by (intro message_job_reference) simp
  show "job_of_name n = Some job" using job_of_job_blob [OF n(2)] n(1) by simp
  show "job' = job" if "blob_name job' = Inr n'" "n' = n" for job' n'
    using that n by (auto simp: blob_name_def job_blob_def split: if_splits)
  fix v job' assume parsed: "message_job (JsonText v) = Inr job'"
  then show "list_all job_char job'" "job' \<noteq> []"
    by (cases v; force simp: blob_name_def split: option.splits pyval.splits if_splits)+
qed

theorem job_reference_roundtrip_witness:
  "message_job (job_reference ''J'') = Inr ''J'' \<and> job_of_name (job_blob ''J'') = Some ''J''"
  using job_reference_roundtrip [OF sample_name(1)] by blast

end
