(* ===== verification/Pi_Rpc.thy ===== *)
theory Pi_Rpc
  imports Work_Progress Work_Checkpoints Work_Contracts
begin

text \<open>
  The translation between work contracts and the events of the Pi coding agent
  (\<open>adapters/pi_rpc.py\<close>), and what a progress monitor fed with that agent's events does.

  An event is a JSON object; \<open>str_of\<close> is \<open>str\<close> on values that are not strings.
\<close>

section \<open>Contracts to tools and prompts\<close>

definition pi_tools_for_contract :: "work_contract \<Rightarrow> string list" where
  "pi_tools_for_contract c = (let caps = set (wc_capabilities c) in
     (if ''read'' \<in> caps then [''read''] else [])
     @ (if ''test'' \<in> caps \<or> ''shell'' \<in> caps then [''bash''] else [])
     @ (if ''edit'' \<in> caps then [''edit'', ''write''] else []))"

fun join_paragraphs :: "utext list \<Rightarrow> utext" where
  "join_paragraphs [] = []"
| "join_paragraphs [l] = l"
| "join_paragraphs (l # ls) = l @ [10, 10] @ join_paragraphs ls"

definition pi_prompt :: "work_contract \<Rightarrow> task_digest option \<Rightarrow> utext result" where
  "pi_prompt c digest =
     (let parts = [codes (strip (objective c))] @ (if strip (wc_context c) \<noteq> [] then [codes (strip (wc_context c))] else []) in
      case digest of
        None \<Rightarrow> Inr (join_paragraphs parts)
      | Some d \<Rightarrow> ebind (guard (dg_contract_id d = contract_id c) (ValueError ''digest belongs to a different work contract''))
          (\<lambda>_. Inr (join_paragraphs (parts @ [dg_text d]))))"

section \<open>Events to steps\<close>

type_synonym pi_event = "(string \<times> pyval) list"

definition pi_action :: "(pyval \<Rightarrow> string) \<Rightarrow> pi_event \<Rightarrow> string" where
  "pi_action str_of e = (case map_of e ''toolName'' of None \<Rightarrow> ''unknown'' | Some v \<Rightarrow> str_value str_of v)"

definition pi_is_error :: "pi_event \<Rightarrow> bool" where
  "pi_is_error e = (case map_of e ''isError'' of None \<Rightarrow> False | Some v \<Rightarrow> truthy v)"

definition pi_progress :: "string \<Rightarrow> progress_kind" where
  "pi_progress action = (if action \<in> {''edit'', ''write''} then STATE_CHANGE
     else if action = ''bash'' then VERIFICATION else INFORMATION)"

definition pi_fingerprint :: "(pyval \<Rightarrow> string) \<Rightarrow> pi_event \<Rightarrow> string option" where
  "pi_fingerprint str_of e = (case map_of e ''result'' of
       Some (PDict r) \<Rightarrow> (case map_of r ''details'' of
           Some (PDict d) \<Rightarrow> (case map_of d ''fingerprint'' of
               None \<Rightarrow> None | Some PNone \<Rightarrow> None | Some v \<Rightarrow> Some (str_value str_of v))
         | _ \<Rightarrow> None)
     | _ \<Rightarrow> None)"

definition attempt_step_from_pi_event :: "(pyval \<Rightarrow> string) \<Rightarrow> pi_event \<Rightarrow> string \<Rightarrow> attempt_step option result" where
  "attempt_step_from_pi_event str_of e sid =
     (if map_of e ''type'' \<noteq> Some (PStr ''tool_execution_end'') then Inr None
      else ebind (validate_step \<lparr>step_id = sid, step_action = pi_action str_of e, step_arguments = [],
             step_outcome = (if pi_is_error e then S_FAILURE else S_SUCCESS),
             step_progress = pi_progress (pi_action str_of e), result_fingerprint = pi_fingerprint str_of e\<rparr>)
           (\<lambda>s. Inr (Some s)))"

section \<open>A monitored stream of events\<close>

text \<open>The steps of the events that translate to one, and the events they come from.\<close>

definition pi_steps :: "(pyval \<Rightarrow> string) \<Rightarrow> (pi_event \<times> string) list \<Rightarrow> attempt_step list" where
  "pi_steps str_of es = List.map_filter (\<lambda>(e, sid). case attempt_step_from_pi_event str_of e sid of Inr x \<Rightarrow> x | Inl _ \<Rightarrow> None) es"

definition tool_end :: "(pyval \<Rightarrow> string) \<Rightarrow> pi_event \<times> string \<Rightarrow> bool" where
  "tool_end str_of = (\<lambda>(e, sid). map_of e ''type'' = Some (PStr ''tool_execution_end'') \<and> sid \<noteq> [] \<and> pi_action str_of e \<noteq> [])"

definition productive :: "(pyval \<Rightarrow> string) \<Rightarrow> pi_event \<times> string \<Rightarrow> bool" where
  "productive str_of = (\<lambda>(e, sid). pi_action str_of e \<in> {''edit'', ''write''} \<or> pi_action str_of e = ''bash'' \<and> \<not> pi_is_error e)"

definition pi_step_of :: "(pyval \<Rightarrow> string) \<Rightarrow> pi_event \<times> string \<Rightarrow> attempt_step" where
  "pi_step_of str_of = (\<lambda>(e, sid). \<lparr>step_id = sid, step_action = pi_action str_of e, step_arguments = [],
     step_outcome = (if pi_is_error e then S_FAILURE else S_SUCCESS),
     step_progress = pi_progress (pi_action str_of e), result_fingerprint = pi_fingerprint str_of e\<rparr>)"

lemma pi_steps_tool_ends: "pi_steps str_of es = map (pi_step_of str_of) (filter (tool_end str_of) es)"
proof -
  have "(case attempt_step_from_pi_event str_of e sid of Inr x \<Rightarrow> x | Inl _ \<Rightarrow> None)
      = (if tool_end str_of (e, sid) then Some (pi_step_of str_of (e, sid)) else None)" for e sid
    by (cases "sid \<noteq> [] \<and> pi_action str_of e \<noteq> []")
      (auto simp: attempt_step_from_pi_event_def tool_end_def pi_step_of_def validate_step_def)
  then show ?thesis
    unfolding pi_steps_def List.map_filter_def by (simp add: split_def comp_def cong: map_cong filter_cong) 
qed

lemma pi_step_resets: "resets_budget (pi_step_of str_of x) \<longleftrightarrow> productive str_of x"
  by (cases x) (auto simp: resets_budget_def pi_step_of_def productive_def pi_progress_def)

lemma last_n_map_snoc: "last_n n (map f xs @ [f x]) = map f (last_n n (xs @ [x]))"
  using last_n_map [of n f "xs @ [x]"] by simp

text \<open>
  An agent observed through Pi is stopped exactly for lack of productive tool calls. After any stream
  of events, the tool completion now observed terminates the attempt if and only if the last
  \<open>max_no_progress_steps\<close> tool completions, this one included, contain neither an \<open>edit\<close> or \<open>write\<close> (failed
  ones count as progress) nor a successful \<open>bash\<close>; all other events, however many, change nothing.
\<close>

theorem pi_terminates_iff_unproductive:
  assumes "policy_ok p" and "tool_end str_of x"
  shows "(\<exists>iv. fst (observe digest sv p (pi_step_of str_of x) (monitor digest sv p (pi_steps str_of es))) = Some iv \<and> terminate_attempt iv)
    \<longleftrightarrow> max_no_progress_steps p \<le> int (length (filter (tool_end str_of) (es @ [x])))
      \<and> (\<forall>y \<in> set (last_n (nat (max_no_progress_steps p)) (filter (tool_end str_of) (es @ [x]))). \<not> productive str_of y)"
proof -
  have steps: "pi_steps str_of es @ [pi_step_of str_of x] = map (pi_step_of str_of) (filter (tool_end str_of) (es @ [x]))"
    using assms(2) by (simp add: pi_steps_tool_ends)
  show ?thesis
    unfolding terminates_iff_idle [OF assms(1)] steps using assms(2) by (simp add: last_n_map_snoc pi_step_resets)
qed

definition sample_pi_event :: "string \<Rightarrow> bool \<Rightarrow> pi_event" where
  "sample_pi_event tool err = [(''type'', PStr ''tool_execution_end''), (''toolName'', PStr tool), (''isError'', PBool err)]"

theorem pi_terminates_iff_unproductive_witness:
  "\<exists>iv. fst (observe (\<lambda>(a, v). a) (\<lambda>_. []) default_policy (pi_step_of (\<lambda>_. []) (sample_pi_event ''bash'' True, ''s''))
      (monitor (\<lambda>(a, v). a) (\<lambda>_. []) default_policy (pi_steps (\<lambda>_. []) (replicate 5 (sample_pi_event ''read'' False, ''r''))))) = Some iv
    \<and> terminate_attempt iv"
  by (rule pi_terminates_iff_unproductive [OF default_policy_ok, THEN iffD2])
    (simp_all add: tool_end_def sample_pi_event_def pi_action_def productive_def pi_is_error_def default_policy_def last_n_def
      numeral_eq_Suc)

text \<open>
  Only the tool's name tells two Pi calls apart, because the translation drops the arguments: once
  the last \<open>consecutive_limit\<close> tool completions name the same tool, the monitor reports a repeated action,
  whatever was read, run or edited and whatever came back.
\<close>

theorem pi_same_tool_is_repetition:
  assumes "policy_ok p" and "tool_end str_of x"
    and "consecutive_limit p \<le> int (length (filter (tool_end str_of) (es @ [x])))"
    and "\<forall>y \<in> set (last_n (nat (consecutive_limit p)) (filter (tool_end str_of) (es @ [x]))). pi_action str_of (fst y) = pi_action str_of (fst x)"
  shows "fst (observe digest sv p (pi_step_of str_of x) (monitor digest sv p (pi_steps str_of es))) \<noteq> None"
proof -
  let ?tools = "filter (tool_end str_of) (es @ [x])"
  have limit: "0 < nat (consecutive_limit p)" using assms(1) by (simp add: policy_ok_def)
  have steps: "pi_steps str_of es @ [pi_step_of str_of x] = map (pi_step_of str_of) ?tools"
    using assms(2) by (simp add: pi_steps_tool_ends)
  have same: "same_call digest sv (pi_step_of str_of x) (pi_step_of str_of y)"
    if "pi_action str_of (fst y) = pi_action str_of (fst x)" for y
    using that by (cases x; cases y) (simp add: same_call_def step_signature_def pi_step_of_def)
  have "nat (consecutive_limit p) \<le> trailing (same_call digest sv (pi_step_of str_of x)) (pi_steps str_of es @ [pi_step_of str_of x])"
    unfolding steps using assms(2-4) by (subst trailing_ge_iff [OF limit]) (auto simp: last_n_map_snoc nat_le_iff intro: same)
  then have "consecutive_limit p \<le> int (trailing (same_call digest sv (pi_step_of str_of x)) (pi_steps str_of es @ [pi_step_of str_of x]))"
    by linarith
  then show ?thesis
    unfolding observe_on_summary [OF assms(1) summarises_monitor [OF assms(1)]] by (auto simp: choose_reason_None)
qed

theorem pi_same_tool_is_repetition_witness:
  "fst (observe (\<lambda>(a, v). a) (\<lambda>_. []) default_policy (pi_step_of (\<lambda>_. []) (sample_pi_event ''read'' False, ''c''))
      (monitor (\<lambda>(a, v). a) (\<lambda>_. []) default_policy
        (pi_steps (\<lambda>_. []) [(sample_pi_event ''read'' False, ''a''), (sample_pi_event ''read'' True, ''b'')]))) \<noteq> None"
  by (rule pi_same_tool_is_repetition [OF default_policy_ok])
    (simp_all add: tool_end_def sample_pi_event_def pi_action_def default_policy_def last_n_def)

end
