(* ===== verification/Llama_Server.thy ===== *)
theory Llama_Server
  imports Runtime_Contracts Work_Contracts
begin

text \<open>
  The adapter for a llama-server process that somebody else owns (\<open>adapters/llama_server.py\<close>).

  A method is a function of the adapter's state \<open>exchange_log\<close>: how often the monotonic clock was read
  and which requests were sent. What the outside answers is a parameter \<open>peer\<close>: clock readings, whether
  a request could be sent, the reply, the raw JSON tree of a body (objects as lists of pairs, so that
  duplicate fields are visible), the size of an encoded request, and the owner's observer. A body is
  read in pieces of at most the size asked for, up to the byte limit plus one.
\<close>

section \<open>Exchanges and their effects\<close>

record http_reply =
  rp_status :: int
  rp_content_type :: string
  rp_body :: "nat \<Rightarrow> nat \<Rightarrow> string result"

record peer =
  monotonic :: "nat \<Rightarrow> pyfloat"
  send_request :: "nat \<Rightarrow> unit result"
  get_response :: "nat \<Rightarrow> http_reply result"
  parse_text :: "string \<Rightarrow> pyval result"
  encoded_size :: "pyval \<Rightarrow> nat"
  observer :: "nat \<Rightarrow> string \<Rightarrow> pyval \<Rightarrow> unit result"

record exchange_log =
  clock_reads :: nat
  sent_requests :: "(string \<times> pyval) list"

type_synonym 'a srv = "exchange_log \<Rightarrow> 'a result \<times> exchange_log"

definition srv_lift :: "'a result \<Rightarrow> 'a srv" where
  "srv_lift r s = (r, s)"

definition srv_bind :: "'a srv \<Rightarrow> ('a \<Rightarrow> 'b srv) \<Rightarrow> 'b srv" where
  "srv_bind m f s = (case m s of (Inl e, s') \<Rightarrow> (Inl e, s') | (Inr x, s') \<Rightarrow> f x s')"

definition srv_guard :: "bool \<Rightarrow> exn \<Rightarrow> unit srv" where
  "srv_guard b e = srv_lift (guard b e)"

definition read_monotonic :: "peer \<Rightarrow> pyfloat srv" where
  "read_monotonic pr s = (Inr (monotonic pr (clock_reads s)), s\<lparr>clock_reads := Suc (clock_reads s)\<rparr>)"

definition timeout_error :: exn where
  "timeout_error = OtherError ''TimeoutError''"

definition remaining :: "peer \<Rightarrow> pyfloat \<Rightarrow> pyfloat srv" where
  "remaining pr until = srv_bind (read_monotonic pr) (\<lambda>now.
     let left = fsub until now in
     srv_bind (srv_guard (\<not> fle left (Fin 0)) timeout_error) (\<lambda>_. srv_lift (Inr left)))"

section \<open>Reading a reply\<close>

fun integer_of :: "pyval option \<Rightarrow> int result" where
  "integer_of (Some (PInt n)) = (if n < 0 then Inl (ValueError ''invalid native token counter'') else Inr n)"
| "integer_of _ = Inl (ValueError ''invalid native token counter'')"

fun tokens_of :: "pyval option \<Rightarrow> int list result" where
  "tokens_of (Some (PList vs)) = emap (\<lambda>v. integer_of (Some v)) vs"
| "tokens_of _ = Inl (TypeError ''invalid native token vector'')"

text \<open>The hooks of \<open>json.loads\<close>: unique fields, no constants, only finite numbers.\<close>

fun checked_json :: "pyval \<Rightarrow> pyval result" where
  "checked_json (PDict kvs) =
     ebind (emap (\<lambda>(k, v). ebind (checked_json v) (\<lambda>w. Inr (k, w))) kvs) (\<lambda>kws.
     ebind (guard (distinct (map fst kws)) (ValueError ''duplicate native response field'')) (\<lambda>_. Inr (PDict kws)))"
| "checked_json (PList vs) = ebind (emap checked_json vs) (\<lambda>ws. Inr (PList ws))"
| "checked_json (PFloat x) = (if isfinite x then Inr (PFloat x) else Inl (ValueError ''nonfinite native response''))"
| "checked_json v = Inr v"

function read_chunks :: "peer \<Rightarrow> pyfloat \<Rightarrow> nat \<Rightarrow> (nat \<Rightarrow> nat \<Rightarrow> string result) \<Rightarrow> nat \<Rightarrow> string \<Rightarrow> string srv" where
  "read_chunks pr until limit body i data =
     srv_bind (remaining pr until) (\<lambda>_.
     srv_bind (srv_lift (body i (min 65536 (limit + 1 - length data)))) (\<lambda>chunk.
     if chunk = [] then srv_lift (Inr data)
     else if limit < length (data @ chunk) then srv_lift (Inl (ValueError ''local server response exceeds byte limit''))
     else read_chunks pr until limit body (Suc i) (data @ chunk)))"
  by pat_completeness auto

termination read_chunks
  by (relation "measure (\<lambda>(pr, until, limit, body, i, data). limit + 1 - length data)") (auto simp: neq_Nil_conv)

declare read_chunks.simps [simp del]

definition read_json :: "peer \<Rightarrow> pyfloat \<Rightarrow> nat \<Rightarrow> http_reply \<Rightarrow> (string \<times> pyval) list srv" where
  "read_json pr until limit rp =
     srv_bind (srv_guard (rp_status rp = 200) (ValueError ''local server HTTP status'')) (\<lambda>_.
     srv_bind (srv_guard (strip (hd (split_on (CHR '';'') (rp_content_type rp))) = ''application/json'')
       (ValueError ''local server did not return JSON'')) (\<lambda>_.
     srv_bind (read_chunks pr until limit (rp_body rp) 0 []) (\<lambda>data.
     srv_bind (remaining pr until) (\<lambda>_.
     srv_bind (srv_lift (ebind (parse_text pr data) checked_json)) (\<lambda>v.
     case v of
       PDict kvs \<Rightarrow> srv_bind (srv_guard (map_of kvs ''error'' = None) (ValueError ''invalid native response object''))
         (\<lambda>_. srv_lift (Inr kvs))
     | _ \<Rightarrow> srv_lift (Inl (ValueError ''invalid native response object'')))))))"

section \<open>Requests\<close>

definition prepared_context :: "execution_request \<Rightarrow> int result" where
  "prepared_context r = (case map_of (profile_options (req_profile r)) ''context_size'' of
       Some (PInt n) \<Rightarrow>
         if req_prompt_mode r \<noteq> Rendered \<or> n \<le> 0 \<or> context_tokens r \<noteq> Some n
         then Inl (ValueError ''prepared request must match the owned server context'')
         else if fgt (temperature r) (Fin 0) \<and> seed r = None
         then Inl (ValueError ''stochastic request requires an explicit seed'') else Inr n
     | _ \<Rightarrow> Inl (ValueError ''prepared request must match the owned server context''))"

definition seed_or_zero :: "execution_request \<Rightarrow> int" where
  "seed_or_zero r = (case seed r of None \<Rightarrow> 0 | Some n \<Rightarrow> n)"

definition completion_payload :: "execution_request \<Rightarrow> int list \<Rightarrow> pyval result" where
  "completion_payload r ids =
     (let base = [(''prompt'', PList (map PInt ids)), (''n_predict'', PInt (max_tokens r)),
        (''temperature'', PFloat (temperature r)), (''seed'', PInt (seed_or_zero r)), (''stream'', PBool False),
        (''return_tokens'', PBool True), (''cache_prompt'', PBool False), (''n_cache_reuse'', PInt 0), (''n_cmpl'', PInt 1),
        (''id_slot'', PInt 0), (''stop'', PList []), (''ignore_eos'', PBool False),
        (''samplers'', PList [PStr ''top_k'', PStr ''top_p'', PStr ''min_p'', PStr ''temperature'']),
        (''top_k'', PInt 40), (''top_p'', PFloat (fl (95 / 100))), (''min_p'', PFloat (fl (5 / 100)))] in
      case map_of (profile_options (req_profile r)) ''json_schema'' of
        None \<Rightarrow> Inr (PDict base)
      | Some PNone \<Rightarrow> Inr (PDict base)
      | Some (PDict schema) \<Rightarrow> Inr (PDict (base @ [(''json_schema'', PDict schema)]))
      | Some _ \<Rightarrow> Inl (ValueError ''profile json_schema must be an object''))"

section \<open>Accepting a completion\<close>

text \<open>\<open>math.isclose(a, b, rel_tol=1e-6, abs_tol=1e-7)\<close>; an integer is converted to a float first.\<close>

fun fabs :: "pyfloat \<Rightarrow> pyfloat" where
  "fabs (Fin q) = Fin \<bar>q\<bar>"
| "fabs NaN = NaN"
| "fabs _ = PInf"

definition is_close :: "pyfloat \<Rightarrow> pyfloat \<Rightarrow> bool" where
  "is_close a b = (if feq a b then True else if \<not> isfinite a \<or> \<not> isfinite b then False
     else let d = fabs (fsub b a) in
       fle d (fabs (fmul (fl (1 / 1000000)) b)) \<or> fle d (fabs (fmul (fl (1 / 1000000)) a)) \<or> fle d (fl (1 / 10000000)))"

fun float_of_number :: "pyval option \<Rightarrow> pyfloat option result" where
  "float_of_number (Some (PInt n)) = ebind (float_of_int n) (\<lambda>x. Inr (Some x))"
| "float_of_number (Some (PFloat x)) = Inr (Some x)"
| "float_of_number _ = Inr None"

definition effective_settings :: "(string \<times> pyval) list \<Rightarrow> execution_request \<Rightarrow> unit result" where
  "effective_settings reply r = (case map_of reply ''generation_settings'' of
       Some (PDict settings) \<Rightarrow>
         ebind (guard (map_of settings ''n_predict'' = Some (PInt (max_tokens r)) \<and> map_of settings ''seed'' = Some (PInt (seed_or_zero r)))
           (ValueError ''native server changed requested sampling settings'')) (\<lambda>_.
         ebind (float_of_number (map_of settings ''temperature'')) (\<lambda>t.
         guard (case t of None \<Rightarrow> False | Some x \<Rightarrow> is_close x (temperature r))
           (ValueError ''native server changed requested temperature'')))
     | None \<Rightarrow> Inl (ValueError ''native server changed requested sampling settings'')
     | Some _ \<Rightarrow> Inl (TypeError ''native generation settings missing''))"

definition completion_counts :: "(string \<times> pyval) list \<Rightarrow> execution_request \<Rightarrow> int list \<Rightarrow> unit result" where
  "completion_counts reply r inputs =
     ebind (integer_of (map_of reply ''tokens_predicted'')) (\<lambda>predicted.
     ebind (integer_of (map_of reply ''tokens_evaluated'')) (\<lambda>evaluated.
     ebind (guard (evaluated = int (length inputs)) (ValueError ''native prompt accounting differs from submitted token IDs'')) (\<lambda>_.
     ebind (if predicted > max_tokens r then Inr True
            else ebind (tokens_of (map_of reply ''tokens'')) (\<lambda>ts. Inr (int (length ts) > predicted))) (\<lambda>over.
     guard (\<not> over) (ValueError ''native output token accounting exceeds its allowance'')))))"

text \<open>\<open>reply.get('stop_type') not in {...}\<close> hashes the value: a list or an object raises \<open>TypeError\<close>.\<close>

fun hashable :: "pyval option \<Rightarrow> bool" where
  "hashable (Some (PList _)) = False"
| "hashable (Some (PDict _)) = False"
| "hashable _ = True"

definition validate_completion :: "(string \<times> pyval) list \<Rightarrow> execution_request \<Rightarrow> int list \<Rightarrow> string result" where
  "validate_completion reply r inputs =
     ebind (guard (map_of reply ''stop'' = Some (PBool True) \<and> map_of reply ''truncated'' = Some (PBool False))
       (ValueError ''incomplete or context-truncated native response'')) (\<lambda>_.
     ebind (guard (hashable (map_of reply ''stop_type'')) (TypeError ''unhashable type'')) (\<lambda>_.
     case map_of reply ''content'' of
       Some (PStr content) \<Rightarrow>
         ebind (guard (map_of reply ''stop_type'' \<in> {Some (PStr ''eos''), Some (PStr ''limit'')})
           (ValueError ''invalid native completion disposition'')) (\<lambda>_.
         ebind (completion_counts reply r inputs) (\<lambda>_.
         ebind (effective_settings reply r) (\<lambda>_. Inr content)))
     | _ \<Rightarrow> Inl (ValueError ''invalid native completion disposition'')))"

section \<open>The adapter\<close>

text \<open>\<open>value == n\<close> for a JSON value and an integer.\<close>

fun equals_int :: "int \<Rightarrow> pyval option \<Rightarrow> bool" where
  "equals_int n (Some (PInt m)) = (m = n)"
| "equals_int n (Some (PBool b)) = (n = (if b then 1 else 0))"
| "equals_int n (Some (PFloat (Fin q))) = (q = of_int n)"
| "equals_int n _ = False"

record llama_server =
  server_port :: int
  binding :: profile_validation
  max_json_bytes :: int

definition owner_binding :: "int \<Rightarrow> profile_validation \<Rightarrow> unit result" where
  "owner_binding port b =
     ebind (guard (runtime_id (val_runtime b) = ''llama.cpp'' \<and> rt_build_id (val_runtime b) \<notin> {None, Some []}
         \<and> map_of (val_options b) ''transport'' = Some (PStr ''llama-server'')
         \<and> equals_int port (map_of (val_options b) ''server_port''))
       (ValueError ''server-specific owner binding required'')) (\<lambda>_.
     guard (val_state b = SUPPORTED \<longrightarrow> val_depth b \<in> {EXECUTION, BENCHMARK} \<and> val_provenance b = VMeasured)
       (ValueError ''supported server binding requires measured execution evidence''))"

definition make_server :: "int \<Rightarrow> profile_validation \<Rightarrow> int \<Rightarrow> llama_server result" where
  "make_server port b limit =
     ebind (guard (0 < port \<and> port < 65536) (ValueError ''explicit loopback port required'')) (\<lambda>_.
     ebind (guard (0 < limit) (ValueError ''positive JSON byte limit required'')) (\<lambda>_.
     ebind (owner_binding port b) (\<lambda>_. Inr \<lparr>server_port = port, binding = b, max_json_bytes = limit\<rparr>)))"

definition server_validate :: "(pyval \<Rightarrow> string) \<Rightarrow> llama_server \<Rightarrow> inference_profile \<Rightarrow> profile_validation result" where
  "server_validate digest ad p = (let b = binding ad in
     ebind (if profile_runtime_id p = ''llama.cpp'' \<and> profile_id p = val_profile_id b then
         ebind (artifact_key digest (profile_artifact p)) (\<lambda>key.
         if key = val_artifact_key b \<and> participating_resources p = val_resources b \<and> strategy p = val_strategy b
         then ebind (json_dumps (PDict (profile_options p))) (\<lambda>o1. ebind (json_dumps (PDict (val_options b))) (\<lambda>o2. Inr (o1 = o2)))
         else Inr False)
       else Inr False) (\<lambda>matches.
     Inr (if matches then b else b\<lparr>val_state := UNSUPPORTED, val_rationale := ''request differs from owned server profile''\<rparr>)))"

definition admitted_by :: "profile_validation \<Rightarrow> execution_request \<Rightarrow> bool" where
  "admitted_by v r \<longleftrightarrow> val_state v = SUPPORTED \<or> (val_state v = UNKNOWN \<and> req_allow_unknown r)"

definition record_request :: "string \<Rightarrow> pyval \<Rightarrow> nat srv" where
  "record_request path payload s = (Inr (length (sent_requests s)), s\<lparr>sent_requests := sent_requests s @ [(path, payload)]\<rparr>)"

definition post :: "peer \<Rightarrow> llama_server \<Rightarrow> string \<Rightarrow> pyval \<Rightarrow> pyfloat \<Rightarrow> (string \<times> pyval) list srv" where
  "post pr ad path payload until =
     srv_bind (srv_lift (json_dumps payload)) (\<lambda>_.
     srv_bind (srv_guard (int (encoded_size pr payload) \<le> max_json_bytes ad)
       (ValueError ''local server request exceeds byte limit'')) (\<lambda>_.
     srv_bind (remaining pr until) (\<lambda>_.
     srv_bind (record_request path payload) (\<lambda>i.
     srv_bind (srv_lift (send_request pr i)) (\<lambda>_.
     srv_bind (remaining pr until) (\<lambda>_.
     srv_bind (srv_lift (get_response pr i)) (\<lambda>rp.
     srv_bind (read_json pr until (nat (max_json_bytes ad)) rp) (\<lambda>reply.
     srv_bind (srv_lift (observer pr i path (PDict reply))) (\<lambda>_. srv_lift (Inr reply))))))))))"

definition tokenize :: "peer \<Rightarrow> llama_server \<Rightarrow> string \<Rightarrow> pyfloat \<Rightarrow> int list srv" where
  "tokenize pr ad t until = srv_bind (post pr ad ''/tokenize''
       (PDict [(''content'', PStr t), (''add_special'', PBool False), (''parse_special'', PBool True), (''with_pieces'', PBool False)]) until)
     (\<lambda>reply. srv_lift (tokens_of (map_of reply ''tokens'')))"

definition apply_template :: "peer \<Rightarrow> llama_server \<Rightarrow> pyval list \<Rightarrow> pyfloat \<Rightarrow> string srv" where
  "apply_template pr ad messages until = srv_bind (post pr ad ''/apply-template'' (PDict [(''messages'', PList messages)]) until)
     (\<lambda>reply. case map_of reply ''prompt'' of
        Some (PStr p) \<Rightarrow> srv_bind (srv_guard (p \<noteq> []) (ValueError ''native template did not produce a prompt'')) (\<lambda>_. srv_lift (Inr p))
      | _ \<Rightarrow> srv_lift (Inl (ValueError ''native template did not produce a prompt'')))"

fun is_type_error :: "exn \<Rightarrow> bool" where
  "is_type_error (TypeError _) = True"
| "is_type_error _ = False"

text \<open>The \<open>except\<close> clauses of \<open>execute\<close>, in their order; any other exception escapes.\<close>

definition failure_of :: "exn \<Rightarrow> (failure_class \<times> string) option" where
  "failure_of e =
     (if e = timeout_error then Some (FAIL_TIMEOUT, ''local request timed out; owner must reconcile server work'')
      else if e \<in> {OtherError ''OSError'', OtherError ''HTTPException''}
        then Some (FAIL_RUNTIME, ''local server transport failed; owner must reconcile work'')
      else if is_value_error e \<or> is_type_error e \<or> e = OtherError ''RecursionError''
        then Some (FAIL_EXECUTION, ''native response or request contract failed'') else None)"

definition srv_try :: "'a srv \<Rightarrow> ((failure_class \<times> string) + 'a) srv" where
  "srv_try m s = (case m s of (Inr x, s') \<Rightarrow> (Inr (Inr x), s')
     | (Inl e, s') \<Rightarrow> (case failure_of e of Some f \<Rightarrow> (Inr (Inl f), s') | None \<Rightarrow> (Inl e, s')))"

definition attempt_completion :: "peer \<Rightarrow> llama_server \<Rightarrow> execution_request \<Rightarrow> pyfloat \<Rightarrow> (string \<times> int \<times> int) srv" where
  "attempt_completion pr ad r started =
     srv_bind (srv_lift (prepared_context r)) (\<lambda>ctx.
     let until = fadd started (timeout_seconds r) in
     srv_bind (tokenize pr ad (prompt r) until) (\<lambda>ids.
     srv_bind (srv_guard (ids \<noteq> [] \<and> int (length ids) + max_tokens r \<le> ctx)
       (ValueError ''native input plus output allowance exceeds context'')) (\<lambda>_.
     srv_bind (srv_lift (completion_payload r ids)) (\<lambda>payload.
     srv_bind (post pr ad ''/completion'' payload until) (\<lambda>reply.
     srv_bind (srv_lift (validate_completion reply r ids)) (\<lambda>content.
     srv_bind (remaining pr until) (\<lambda>_.
     srv_bind (srv_lift (integer_of (map_of reply ''tokens_evaluated''))) (\<lambda>evaluated.
     srv_bind (srv_lift (integer_of (map_of reply ''tokens_predicted''))) (\<lambda>predicted.
     srv_lift (Inr (content, evaluated, predicted)))))))))))"

definition server_execute :: "(pyval \<Rightarrow> string) \<Rightarrow> peer \<Rightarrow> llama_server \<Rightarrow> execution_request \<Rightarrow> execution_result srv" where
  "server_execute digest pr ad r =
     srv_bind (read_monotonic pr) (\<lambda>started.
     srv_bind (srv_lift (server_validate digest ad (req_profile r))) (\<lambda>v.
     let rt = val_runtime (binding ad) in
     if \<not> admitted_by v r then srv_lift (Inr (failed_result r rt FAIL_RUNTIME (val_rationale v) no_timing))
     else srv_bind (srv_try (attempt_completion pr ad r started)) (\<lambda>outcome.
       srv_bind (read_monotonic pr) (\<lambda>ended.
       let t = no_timing\<lparr>total_seconds := Some (fsub ended started)\<rparr> in
       srv_lift (Inr (case outcome of
           Inl (cls, detail) \<Rightarrow> failed_result r rt cls detail t
         | Inr (content, evaluated, predicted) \<Rightarrow> \<lparr>res_request_id = request_id r, res_runtime = rt, success = True,
             res_output = Some content, timings = t\<lparr>t_prompt_tokens := Some evaluated, generated_tokens := Some predicted\<rparr>,
             error_class = None, error_detail = None, raw_exit_code = None\<rparr>))))))"

end
