(* ===== verification/Llama_Server_Properties.thy ===== *)
theory Llama_Server_Properties
  imports Llama_Server
begin

text \<open>
  What a llama-server adapter guarantees whatever the server replies: what it sends, what a successful
  result accounts for, and which exceptions can leave \<open>execute\<close>.
\<close>

section \<open>Sequencing\<close>

lemma srv_bind_Inr: "srv_bind m f s = (Inr y, t) \<longleftrightarrow> (\<exists>x u. m s = (Inr x, u) \<and> f x u = (Inr y, t))"
  by (auto simp: srv_bind_def split: prod.splits sum.splits)

lemma srv_bind_Inl: "srv_bind m f s = (Inl e, t) \<longleftrightarrow> m s = (Inl e, t) \<or> (\<exists>x u. m s = (Inr x, u) \<and> f x u = (Inl e, t))"
  by (auto simp: srv_bind_def split: prod.splits sum.splits)

lemma srv_lift_eq [simp]: "srv_lift r s = (x, t) \<longleftrightarrow> r = x \<and> s = t"
  by (auto simp: srv_lift_def)

lemma srv_guard_eq [simp]: "srv_guard b e s = (x, t) \<longleftrightarrow> guard b e = x \<and> s = t"
  by (auto simp: srv_guard_def)

text \<open>Actions that send nothing.\<close>

definition quiet :: "'a srv \<Rightarrow> bool" where
  "quiet m \<longleftrightarrow> (\<forall>s r t. m s = (r, t) \<longrightarrow> sent_requests t = sent_requests s)"

named_theorems quiet_intros "actions that send nothing"

lemma quietD: "quiet m \<Longrightarrow> m s = (r, t) \<Longrightarrow> sent_requests t = sent_requests s"
  unfolding quiet_def by blast

lemma quiet_bind [quiet_intros]: "quiet m \<Longrightarrow> (\<And>x. quiet (f x)) \<Longrightarrow> quiet (srv_bind m f)"
  unfolding quiet_def srv_bind_def by (fastforce split: prod.splits sum.splits)

lemma quiet_lift [quiet_intros]: "quiet (srv_lift r)"
  by (simp add: quiet_def)

lemma quiet_guard [quiet_intros]: "quiet (srv_guard b e)"
  by (simp add: quiet_def)

lemma quiet_clock [quiet_intros]: "quiet (read_monotonic pr)"
  by (simp add: quiet_def read_monotonic_def)

lemma quiet_remaining [quiet_intros]: "quiet (remaining pr until)"
  unfolding remaining_def Let_def by (intro quiet_intros)

lemma quiet_read_chunks [quiet_intros]: "quiet (read_chunks pr until limit body i data)"
proof (induction pr until limit body i data rule: read_chunks.induct)
  case (1 pr until limit body i data)
  show ?case
    by (subst read_chunks.simps) (intro quiet_bind quiet_remaining quiet_lift, auto intro: quiet_lift 1)
qed

lemma quiet_read_json [quiet_intros]: "quiet (read_json pr until limit rp)"
  unfolding read_json_def by (intro quiet_intros) (auto intro!: quiet_intros split: pyval.split)

section \<open>What is sent\<close>

lemma post_sends:
  assumes "post pr ad path payload until s = (r, t)"
  shows "sent_requests t = sent_requests s @ [(path, payload)] \<or> (sent_requests t = sent_requests s \<and> (\<exists>e. r = Inl e))"
proof -
  define rest where "rest i = srv_bind (srv_lift (send_request pr i)) (\<lambda>_. srv_bind (remaining pr until) (\<lambda>_.
     srv_bind (srv_lift (get_response pr i)) (\<lambda>rp. srv_bind (read_json pr until (nat (max_json_bytes ad)) rp) (\<lambda>reply.
     srv_bind (srv_lift (observer pr i path (PDict reply))) (\<lambda>_. srv_lift (Inr reply))))))" for i
  have quiet: "quiet (rest i)" for i
    unfolding rest_def by (intro quiet_intros)
  have "post pr ad path payload until = srv_bind (srv_lift (json_dumps payload)) (\<lambda>_.
     srv_bind (srv_guard (int (encoded_size pr payload) \<le> max_json_bytes ad) (ValueError ''local server request exceeds byte limit'')) (\<lambda>_.
     srv_bind (remaining pr until) (\<lambda>_. srv_bind (record_request path payload) rest)))"
    by (simp add: post_def rest_def [abs_def])
  with assms obtain u where
    "(\<exists>e. r = Inl e) \<and> sent_requests t = sent_requests s
      \<or> sent_requests u = sent_requests s \<and> rest (length (sent_requests u)) (u\<lparr>sent_requests := sent_requests u @ [(path, payload)]\<rparr>) = (r, t)"
    by (cases r) (auto simp: srv_bind_Inl srv_bind_Inr record_request_def dest: quietD [OF quiet_remaining])
  then show ?thesis using quietD [OF quiet] by fastforce
qed

lemma post_Inr: "post pr ad path payload until s = (Inr x, t) \<Longrightarrow> sent_requests t = sent_requests s @ [(path, payload)]"
  using post_sends by fastforce

definition tokenize_request :: "execution_request \<Rightarrow> pyval" where
  "tokenize_request r = PDict [(''content'', PStr (prompt r)), (''add_special'', PBool False), (''parse_special'', PBool True),
     (''with_pieces'', PBool False)]"

lemma integer_of_Inr: "integer_of v = Inr n \<longleftrightarrow> v = Some (PInt n) \<and> 0 \<le> n"
  by (cases v rule: integer_of.cases) auto

lemma prepared_context_Inr: "prepared_context r = Inr n \<Longrightarrow>
    req_prompt_mode r = Rendered \<and> map_of (profile_options (req_profile r)) ''context_size'' = Some (PInt n)"
  by (auto simp: prepared_context_def split: option.splits pyval.splits if_splits)

lemma validate_completion_counts:
  assumes "validate_completion reply r ids = Inr content"
  shows "map_of reply ''tokens_evaluated'' = Some (PInt (int (length ids)))
    \<and> (\<exists>n. map_of reply ''tokens_predicted'' = Some (PInt n) \<and> 0 \<le> n \<and> n \<le> max_tokens r)"
  using assms by (auto simp: validate_completion_def completion_counts_def integer_of_Inr split: option.splits pyval.splits if_splits)

text \<open>
  What the peer gave in one exchange: a reply with status 200 whose body, read in nonempty pieces up to its end and
  within the byte limit, is the text of a checked JSON object.
\<close>

definition body_pieces :: "(nat \<Rightarrow> nat \<Rightarrow> string result) \<Rightarrow> nat \<Rightarrow> string list \<Rightarrow> bool" where
  "body_pieces body i cs \<longleftrightarrow> (\<forall>k < length cs. cs ! k \<noteq> [] \<and> (\<exists>n. body (i + k) n = Inr (cs ! k))) \<and> (\<exists>n. body (i + length cs) n = Inr [])"

definition received :: "peer \<Rightarrow> llama_server \<Rightarrow> nat \<Rightarrow> (string \<times> pyval) list \<Rightarrow> bool" where
  "received pr ad i reply \<longleftrightarrow> (\<exists>rp cs raw. send_request pr i = Inr () \<and> get_response pr i = Inr rp \<and> rp_status rp = 200
     \<and> body_pieces (rp_body rp) 0 cs \<and> length (concat cs) \<le> nat (max_json_bytes ad)
     \<and> parse_text pr (concat cs) = Inr raw \<and> checked_json raw = Inr (PDict reply))"

lemma body_pieces_Cons:
  assumes "c \<noteq> []" "body i n = Inr c" "body_pieces body (Suc i) cs"
  shows "body_pieces body i (c # cs)"
  unfolding body_pieces_def
proof (intro conjI allI impI)
  fix k assume k: "k < length (c # cs)"
  show "(c # cs) ! k \<noteq> []" "\<exists>n. body (i + k) n = Inr ((c # cs) ! k)"
    using k assms by (cases k; auto simp: body_pieces_def)+
next
  show "\<exists>n. body (i + length (c # cs)) n = Inr []" using assms(3) by (auto simp: body_pieces_def)
qed

lemma read_chunks_Inr:
  assumes "read_chunks pr until limit body i data s = (Inr out, t)" "length data \<le> limit"
  shows "\<exists>cs. out = data @ concat cs \<and> body_pieces body i cs \<and> length out \<le> limit"
  using assms
proof (induction pr until limit body i data arbitrary: s rule: read_chunks.induct)
  case (1 pr until limit body i data)
  from 1(2) obtain x u chunk where chunk: "remaining pr until s = (Inr x, u)" "body i (min 65536 (limit + 1 - length data)) = Inr chunk"
    and rest: "(if chunk = [] then srv_lift (Inr data)
     else if limit < length (data @ chunk) then srv_lift (Inl (ValueError ''local server response exceeds byte limit''))
     else read_chunks pr until limit body (Suc i) (data @ chunk)) u = (Inr out, t)"
    by (subst (asm) read_chunks.simps) (auto simp: srv_bind_Inr)
  show ?case
  proof (cases "chunk = []")
    case True
    then have "out = data @ concat []" "body_pieces body i []" using rest chunk by (auto simp: body_pieces_def)
    then show ?thesis using 1(3) by (intro exI [of _ "[]"]) simp
  next
    case False
    then have fits: "\<not> limit < length (data @ chunk)" using rest by (auto split: if_splits)
    then have "read_chunks pr until limit body (Suc i) (data @ chunk) u = (Inr out, t)" using rest False by simp
    then obtain cs where "out = (data @ chunk) @ concat cs" "body_pieces body (Suc i) cs" "length out \<le> limit"
      using 1(1) [OF False fits] fits by fastforce
    then show ?thesis using body_pieces_Cons [where body = body and i = i and c = chunk, OF False chunk(2)] by (intro exI [of _ "chunk # cs"]) simp
  qed
qed

lemma object_Inr:
  "(case v of PDict kvs \<Rightarrow> f kvs | _ \<Rightarrow> srv_lift (Inl e)) s = (Inr y, t) \<longleftrightarrow> (\<exists>kvs. v = PDict kvs \<and> f kvs s = (Inr y, t))"
  by (cases v) auto

lemma post_received:
  assumes "post pr ad path payload until s = (Inr reply, t)"
  shows "received pr ad (length (sent_requests s)) reply"
proof -
  from assms obtain x u v y rp w where quiet: "remaining pr until s = (Inr x, u)"
    and sent: "send_request pr (length (sent_requests u)) = Inr ()" "get_response pr (length (sent_requests u)) = Inr rp"
    and read: "read_json pr until (nat (max_json_bytes ad)) rp y = (Inr reply, v)"
    unfolding post_def by (clarsimp simp: srv_bind_Inr record_request_def)
  have same: "sent_requests u = sent_requests s" by (rule quietD [OF quiet_remaining quiet])
  from read obtain data z z' raw where status: "rp_status rp = 200"
    and data: "read_chunks pr until (nat (max_json_bytes ad)) (rp_body rp) 0 [] y = (Inr data, z)"
    and raw: "parse_text pr data = Inr raw" "checked_json raw = Inr (PDict reply)"
    unfolding read_json_def by (auto simp: srv_bind_Inr object_Inr ebind_Inr_iff guard_def split: if_splits)
  obtain cs where "data = concat cs" "body_pieces (rp_body rp) 0 cs" "length data \<le> nat (max_json_bytes ad)"
    using read_chunks_Inr [OF data] by auto
  then show ?thesis unfolding received_def using sent same status raw by auto
qed

lemma tokens_of_Inr: "tokens_of v = Inr ids \<Longrightarrow> v = Some (PList (map PInt ids))"
proof (cases v rule: tokens_of.cases)
  case (1 vs)
  assume "tokens_of v = Inr ids"
  then have "emap (\<lambda>v. integer_of (Some v)) vs = Inr ids" by (simp add: 1)
  then have "vs = map PInt ids" by (induction vs arbitrary: ids) (auto simp: integer_of_Inr ebind_Inr_iff)
  then show ?thesis by (simp add: 1)
qed auto

lemma completion_payload_Inr: "completion_payload r ids = Inr payload \<Longrightarrow> \<exists>kvs. payload = PDict kvs
    \<and> map_of kvs ''prompt'' = Some (PList (map PInt ids)) \<and> map_of kvs ''n_predict'' = Some (PInt (max_tokens r))"
  by (auto simp: completion_payload_def Let_def split: option.splits pyval.splits)

lemma validate_completion_whole:
  "validate_completion reply r ids = Inr content \<Longrightarrow> map_of reply ''stop'' = Some (PBool True) \<and> map_of reply ''truncated'' = Some (PBool False)
    \<and> map_of reply ''content'' = Some (PStr content)"
  by (auto simp: validate_completion_def guard_def split: option.splits pyval.splits if_splits)

text \<open>
  A completion run: the ids the tokenisation reply lists, all of them and in order, are the prompt of the request for
  completion, and the text and the counts are those of the reply to it.
\<close>

definition completed_run :: "peer \<Rightarrow> llama_server \<Rightarrow> execution_request \<Rightarrow> exchange_log \<Rightarrow> exchange_log \<Rightarrow> string \<Rightarrow> int \<Rightarrow> int \<Rightarrow> bool" where
  "completed_run pr ad r s t content evaluated predicted \<longleftrightarrow> (\<exists>tokenized ids kvs reply ctx.
     received pr ad (length (sent_requests s)) tokenized \<and> map_of tokenized ''tokens'' = Some (PList (map PInt ids))
   \<and> completion_payload r ids = Inr (PDict kvs) \<and> map_of kvs ''prompt'' = Some (PList (map PInt ids))
   \<and> map_of kvs ''n_predict'' = Some (PInt (max_tokens r))
   \<and> sent_requests t = sent_requests s @ [(''/tokenize'', tokenize_request r), (''/completion'', PDict kvs)]
   \<and> received pr ad (Suc (length (sent_requests s))) reply
   \<and> map_of reply ''stop'' = Some (PBool True) \<and> map_of reply ''truncated'' = Some (PBool False) \<and> map_of reply ''content'' = Some (PStr content)
   \<and> map_of reply ''tokens_evaluated'' = Some (PInt evaluated) \<and> map_of reply ''tokens_predicted'' = Some (PInt predicted)
   \<and> map_of (profile_options (req_profile r)) ''context_size'' = Some (PInt ctx) \<and> ids \<noteq> []
   \<and> int (length ids) + max_tokens r \<le> ctx \<and> evaluated = int (length ids) \<and> 0 \<le> predicted \<and> predicted \<le> max_tokens r)"

lemma attempt_completion_Inr:
  assumes "attempt_completion pr ad r started s = (Inr (content, evaluated, predicted), t)"
  shows "completed_run pr ad r s t content evaluated predicted"
proof -
  let ?until = "fadd started (timeout_seconds r)"
  from assms have "\<exists>ctx ids payload reply u v. prepared_context r = Inr ctx \<and> ids \<noteq> [] \<and> int (length ids) + max_tokens r \<le> ctx
    \<and> tokenize pr ad (prompt r) ?until s = (Inr ids, u) \<and> completion_payload r ids = Inr payload
    \<and> post pr ad ''/completion'' payload ?until u = (Inr reply, v) \<and> validate_completion reply r ids = Inr content
    \<and> (\<exists>x. remaining pr ?until v = (Inr x, t))
    \<and> integer_of (map_of reply ''tokens_evaluated'') = Inr evaluated \<and> integer_of (map_of reply ''tokens_predicted'') = Inr predicted"
    unfolding attempt_completion_def Let_def by (clarsimp simp: srv_bind_Inr)
  then obtain ctx ids payload reply u v where
    ctx: "prepared_context r = Inr ctx" and ids: "ids \<noteq> []" "int (length ids) + max_tokens r \<le> ctx"
    and tok: "tokenize pr ad (prompt r) ?until s = (Inr ids, u)"
    and pay: "completion_payload r ids = Inr payload" "post pr ad ''/completion'' payload ?until u = (Inr reply, v)"
    and val: "validate_completion reply r ids = Inr content"
    and left: "\<exists>x. remaining pr ?until v = (Inr x, t)"
    and counts: "integer_of (map_of reply ''tokens_evaluated'') = Inr evaluated" "integer_of (map_of reply ''tokens_predicted'') = Inr predicted"
    by blast
  from tok obtain tokenized where first: "post pr ad ''/tokenize'' (tokenize_request r) ?until s = (Inr tokenized, u)"
    and tokens: "map_of tokenized ''tokens'' = Some (PList (map PInt ids))"
    unfolding tokenize_def tokenize_request_def [symmetric] by (auto simp: srv_bind_Inr dest: tokens_of_Inr)
  have sent: "sent_requests u = sent_requests s @ [(''/tokenize'', tokenize_request r)]" by (rule post_Inr [OF first])
  moreover have "sent_requests t = sent_requests v" using left quietD [OF quiet_remaining] by blast
  ultimately have "sent_requests t = sent_requests s @ [(''/tokenize'', tokenize_request r), (''/completion'', payload)]"
    using post_Inr [OF pay(2)] by simp
  moreover obtain kvs where "payload = PDict kvs" "map_of kvs ''prompt'' = Some (PList (map PInt ids))"
    "map_of kvs ''n_predict'' = Some (PInt (max_tokens r))"
    using completion_payload_Inr [OF pay(1)] by blast
  moreover have "evaluated = int (length ids)" "0 \<le> predicted" "predicted \<le> max_tokens r"
    "map_of reply ''tokens_evaluated'' = Some (PInt evaluated)" "map_of reply ''tokens_predicted'' = Some (PInt predicted)"
    using validate_completion_counts [OF val] counts by (auto simp: integer_of_Inr)
  moreover have "received pr ad (Suc (length (sent_requests s))) reply" using post_received [OF pay(2)] sent by simp
  ultimately show ?thesis
    unfolding completed_run_def
    using post_received [OF first] tokens validate_completion_whole [OF val] prepared_context_Inr [OF ctx] ids pay(1) by blast
qed

text \<open>
  C40. A successful completion is accounted for. Whatever the server does, if \<open>execute\<close> reports success then
  the owner's validation admitted the request and exactly two requests were sent. The first asked to tokenise the
  prompt; the reply the server gave to it lists token ids. The second asked to complete exactly these ids, all of
  them in this order, with the requested settings. The ids and the output allowance together fit the owned context,
  the text returned is the content of the server's second reply, which says that it stopped and was not truncated,
  and the counts in the result are those of that reply: the number of submitted ids and a number of generated
  tokens within the allowance.
\<close>

theorem server_completion_accounted:
  assumes "server_execute digest pr ad r s = (Inr res, t)" "success res"
  shows "(\<exists>v. server_validate digest ad (req_profile r) = Inr v \<and> admitted_by v r)
    \<and> (\<exists>tokenized ids kvs reply ctx content n.
        received pr ad (length (sent_requests s)) tokenized \<and> map_of tokenized ''tokens'' = Some (PList (map PInt ids))
      \<and> completion_payload r ids = Inr (PDict kvs) \<and> map_of kvs ''prompt'' = Some (PList (map PInt ids))
      \<and> map_of kvs ''n_predict'' = Some (PInt (max_tokens r))
      \<and> sent_requests t = sent_requests s @ [(''/tokenize'', tokenize_request r), (''/completion'', PDict kvs)]
      \<and> received pr ad (Suc (length (sent_requests s))) reply
      \<and> map_of reply ''stop'' = Some (PBool True) \<and> map_of reply ''truncated'' = Some (PBool False)
      \<and> map_of reply ''content'' = Some (PStr content) \<and> res_output res = Some content
      \<and> map_of (profile_options (req_profile r)) ''context_size'' = Some (PInt ctx) \<and> int (length ids) + max_tokens r \<le> ctx
      \<and> map_of reply ''tokens_evaluated'' = Some (PInt (int (length ids))) \<and> t_prompt_tokens (timings res) = Some (int (length ids))
      \<and> map_of reply ''tokens_predicted'' = Some (PInt n) \<and> generated_tokens (timings res) = Some n \<and> 0 \<le> n \<and> n \<le> max_tokens r)"
proof -
  from assms obtain started s1 v content evaluated predicted s2 where start: "read_monotonic pr s = (Inr started, s1)"
    and v: "server_validate digest ad (req_profile r) = Inr v" "admitted_by v r"
    and attempt: "attempt_completion pr ad r started s1 = (Inr (content, evaluated, predicted), s2)"
    and res: "t_prompt_tokens (timings res) = Some evaluated" "generated_tokens (timings res) = Some predicted" "res_output res = Some content"
    and ended: "\<exists>ended. read_monotonic pr s2 = (Inr ended, t)"
    unfolding server_execute_def Let_def
    by (auto simp: srv_bind_Inr srv_try_def failed_result_def split: if_splits prod.splits sum.splits option.splits)
  have "sent_requests s1 = sent_requests s" "sent_requests t = sent_requests s2"
    using start ended quietD [OF quiet_clock] by blast+
  then have "completed_run pr ad r s t content evaluated predicted"
    using attempt_completion_Inr [OF attempt] unfolding completed_run_def by simp
  then show ?thesis unfolding completed_run_def using v res by blast
qed

section \<open>What can be raised\<close>

definition raises_only :: "(exn \<Rightarrow> bool) \<Rightarrow> 'a srv \<Rightarrow> bool" where
  "raises_only P m \<longleftrightarrow> (\<forall>s e t. m s = (Inl e, t) \<longrightarrow> P e)"

named_theorems raises_intros "which exceptions an action raises"

lemma raises_bind [raises_intros]: "raises_only P m \<Longrightarrow> (\<And>x. raises_only P (f x)) \<Longrightarrow> raises_only P (srv_bind m f)"
  by (fastforce simp: raises_only_def srv_bind_Inl)

lemma raises_bind_lift: "(\<And>e. r = Inl e \<Longrightarrow> P e) \<Longrightarrow> (\<And>x. r = Inr x \<Longrightarrow> raises_only P (f x)) \<Longrightarrow> raises_only P (srv_bind (srv_lift r) f)"
  unfolding raises_only_def srv_bind_Inl srv_lift_eq by blast

lemma raises_lift: "raises_only P (srv_lift r) \<longleftrightarrow> (\<forall>e. r = Inl e \<longrightarrow> P e)"
  by (auto simp: raises_only_def)

lemma raises_guard: "raises_only P (srv_guard b e) \<longleftrightarrow> b \<or> P e"
  by (auto simp: raises_only_def)

lemma raises_clock [raises_intros]: "raises_only P (read_monotonic pr)"
  by (simp add: raises_only_def read_monotonic_def)

text \<open>An exception the \<open>except\<close> clauses catch, or the one they miss.\<close>

definition expected :: "exn \<Rightarrow> bool" where
  "expected e \<longleftrightarrow> failure_of e \<noteq> None \<or> (\<exists>m. e = OverflowError m)"

lemma expected_simps [simp]: "expected (ValueError m)" "expected (TypeError m)" "expected timeout_error" "expected (OverflowError m)"
  by (simp_all add: expected_def failure_of_def timeout_error_def)

lemma raises_remaining [raises_intros]: "raises_only expected (remaining pr until)"
  unfolding remaining_def Let_def by (intro raises_intros) (simp_all add: raises_guard raises_lift)

definition value_or_type :: "exn \<Rightarrow> bool" where
  "value_or_type e \<longleftrightarrow> (\<exists>m. e = ValueError m \<or> e = TypeError m)"

lemma value_or_type_expected: "value_or_type e \<Longrightarrow> expected e"
  by (auto simp: value_or_type_def)

lemma emap_Inl: "emap f xs = Inl e \<Longrightarrow> \<exists>x \<in> set xs. f x = Inl e"
  by (induction xs) (auto simp: ebind_Inl_iff)

lemma json_dumps_raises: "json_dumps v = Inl e \<Longrightarrow> value_or_type e"
  by (induction v arbitrary: e rule: json_dumps.induct)
    (auto simp: value_or_type_def ebind_Inl_iff dest!: emap_Inl split: if_splits)

lemma checked_json_raises: "checked_json v = Inl e \<Longrightarrow> value_or_type e"
  by (induction v arbitrary: e rule: checked_json.induct)
    (auto simp: value_or_type_def ebind_Inl_iff dest!: emap_Inl split: if_splits)

lemma integer_of_raises: "integer_of v = Inl e \<Longrightarrow> value_or_type e"
  by (cases v rule: integer_of.cases) (auto simp: value_or_type_def split: if_splits)

lemma tokens_of_raises: "tokens_of v = Inl e \<Longrightarrow> value_or_type e"
  by (cases v rule: tokens_of.cases) (auto simp: value_or_type_def dest!: emap_Inl integer_of_raises)

lemma completion_counts_raises: "completion_counts reply r ids = Inl e \<Longrightarrow> value_or_type e"
  unfolding completion_counts_def
  by (auto simp: ebind_Inl_iff split: if_splits dest: integer_of_raises tokens_of_raises) (auto simp: value_or_type_def)

lemma effective_settings_raises: "effective_settings reply r = Inl e \<Longrightarrow> expected e"
  unfolding effective_settings_def
  by (auto simp: ebind_Inl_iff float_of_int_def split: option.splits pyval.splits pyfloat.splits elim!: float_of_number.elims)

lemma validate_completion_raises: "validate_completion reply r ids = Inl e \<Longrightarrow> expected e"
  unfolding validate_completion_def
  by (auto simp: ebind_Inl_iff split: option.splits pyval.splits dest: completion_counts_raises effective_settings_raises value_or_type_expected)

text \<open>Whatever the outside raises is of a kind the adapter expects of it.\<close>

definition caught :: "exn \<Rightarrow> bool" where
  "caught e \<longleftrightarrow> failure_of e \<noteq> None"

lemma caught_expected: "caught e \<Longrightarrow> expected e"
  by (simp add: caught_def expected_def)

definition polite :: "peer \<Rightarrow> bool" where
  "polite pr \<longleftrightarrow> (\<forall>i e. send_request pr i = Inl e \<longrightarrow> caught e) \<and> (\<forall>i e. get_response pr i = Inl e \<longrightarrow> caught e)
    \<and> (\<forall>i rp k n e. get_response pr i = Inr rp \<longrightarrow> rp_body rp k n = Inl e \<longrightarrow> caught e)
    \<and> (\<forall>data e. parse_text pr data = Inl e \<longrightarrow> caught e) \<and> (\<forall>i path v e. observer pr i path v = Inl e \<longrightarrow> caught e)"

lemma raises_read_chunks:
  "(\<And>k n e. body k n = Inl e \<Longrightarrow> expected e) \<Longrightarrow> raises_only expected (read_chunks pr until limit body i data)"
proof (induction pr until limit body i data rule: read_chunks.induct)
  case (1 pr until limit body i data)
  show ?case
    by (subst read_chunks.simps, intro raises_bind raises_remaining raises_bind_lift)
      (auto simp: raises_lift intro: 1)
qed

lemma raises_read_json:
  assumes "polite pr" "get_response pr i = Inr rp"
  shows "raises_only expected (read_json pr until limit rp)"
  unfolding read_json_def using assms
  by (intro raises_bind raises_remaining raises_read_chunks)
    (auto simp: raises_guard raises_lift polite_def ebind_Inl_iff intro!: raises_intros split: pyval.split
      dest!: checked_json_raises intro: value_or_type_expected caught_expected)

lemma raises_post: "polite pr \<Longrightarrow> raises_only expected (post pr ad path payload until)"
  unfolding post_def
  by (intro raises_bind_lift raises_bind raises_remaining raises_read_json)
    (auto simp: raises_guard raises_lift polite_def record_request_def raises_only_def dest!: json_dumps_raises intro: value_or_type_expected caught_expected)

lemma raises_attempt: "polite pr \<Longrightarrow> raises_only expected (attempt_completion pr ad r started)"
  unfolding attempt_completion_def Let_def tokenize_def
  by (intro raises_bind raises_post raises_remaining)
    (auto simp: raises_guard raises_lift prepared_context_def completion_payload_def Let_def split: option.splits pyval.splits if_splits
      dest!: validate_completion_raises integer_of_raises tokens_of_raises intro: value_or_type_expected)

text \<open>
  \<open>execute\<close> returns a result for everything that can go wrong, except one. If whatever the transport,
  the JSON decoder and the observer raise is of the kinds the \<open>except\<close> clauses name, and the profiles are
  finite JSON, then the call returns a result, successful or classified, or raises \<open>OverflowError\<close>.
\<close>

theorem server_execute_returns:
  assumes "polite pr" "json_dumps (PDict (profile_options (req_profile r))) = Inr o1"
    and "json_dumps (PDict (val_options (binding ad))) = Inr o2"
  shows "case fst (server_execute digest pr ad r s) of
      Inr res \<Rightarrow> success res = (error_class res = None) \<and> res_request_id res = request_id r
    | Inl e \<Rightarrow> (\<exists>m. e = OverflowError m)"
proof -
  obtain key where key: "artifact_key digest (profile_artifact (req_profile r)) = Inr key"
    by (auto simp: artifact_key_def json_dumps_artifact)
  have "\<exists>v. server_validate digest ad (req_profile r) = Inr v"
    using assms(2,3) key by (simp add: server_validate_def Let_def del: json_dumps.simps) blast
  then obtain v where v: "server_validate digest ad (req_profile r) = Inr v" ..
  have "\<exists>m. e = OverflowError m" if "srv_try (attempt_completion pr ad r started) u = (Inl e, w)" for started u e w
  proof -
    from that have "attempt_completion pr ad r started u = (Inl e, w)" "failure_of e = None"
      by (auto simp: srv_try_def split: prod.splits sum.splits option.splits)
    with raises_attempt [OF assms(1), of ad r started] show ?thesis
      unfolding raises_only_def expected_def by blast
  qed
  then show ?thesis
    using v by (auto simp: server_execute_def Let_def srv_bind_def srv_lift_def read_monotonic_def failed_result_def
      split: prod.splits sum.splits)
qed

section \<open>Sample servers\<close>

definition sample_server_profile :: inference_profile where
  "sample_server_profile = \<lparr>profile_id = ''p'', profile_runtime_id = ''llama.cpp'', strategy = ''resident'',
     profile_artifact = \<lparr>foundation = ''f'', revision = None, quantization = None, adapters = [], auxiliary_artifacts = []\<rparr>,
     participating_resources = [''r''], requirements = [],
     profile_options = [(''context_size'', PInt 8), (''server_port'', PInt 8080), (''transport'', PStr ''llama-server'')],
     profile_schema_version = 1\<rparr>"

definition sample_server_request :: execution_request where
  "sample_server_request = \<lparr>request_id = ''q'', req_profile = sample_server_profile, prompt = ''hi'', max_tokens = 4,
     temperature = Fin 0, timeout_seconds = Fin 5, req_allow_unknown = False, seed = None, context_tokens = Some 8,
     req_prompt_mode = Rendered\<rparr>"

definition sample_server :: llama_server where
  "sample_server = \<lparr>server_port = 8080, binding = \<lparr>
     val_runtime = \<lparr>runtime_id = ''llama.cpp'', rt_version = None, rt_build_id = Some ''b'', binary_path = None, backends = [], capabilities = []\<rparr>,
     val_profile_id = ''p'', val_artifact_key = ''artifact-v2:'', val_resources = [''r''], val_strategy = ''resident'',
     val_options = profile_options sample_server_profile, val_state = SUPPORTED, val_depth = EXECUTION, val_rationale = [],
     val_timestamp = Aware 0 0, val_provenance = VMeasured\<rparr>, max_json_bytes = 1024\<rparr>"

text \<open>A server that answers at once and reports \<open>temp\<close> as the temperature it used.\<close>

definition sample_body :: "string \<Rightarrow> nat \<Rightarrow> nat \<Rightarrow> string result" where
  "sample_body x k n = Inr (if k = 0 then x else [])"

definition sample_peer :: "pyval \<Rightarrow> peer" where
  "sample_peer temp = \<lparr>monotonic = (\<lambda>_. Fin 0), send_request = (\<lambda>_. Inr ()),
     get_response = (\<lambda>i. Inr \<lparr>rp_status = 200, rp_content_type = ''application/json'',
       rp_body = sample_body (if i = 0 then ''T'' else ''C'')\<rparr>),
     parse_text = (\<lambda>data. Inr (PDict (if data = ''T'' then [(''tokens'', PList [PInt 1, PInt 2])]
       else [(''stop'', PBool True), (''truncated'', PBool False), (''stop_type'', PStr ''eos''), (''content'', PStr ''ok''),
         (''tokens_predicted'', PInt 1), (''tokens_evaluated'', PInt 2), (''tokens'', PList [PInt 7]),
         (''generation_settings'', PDict [(''n_predict'', PInt 4), (''seed'', PInt 0), (''temperature'', temp)])]))),
     encoded_size = (\<lambda>_. 1), observer = (\<lambda>_ _ _. Inr ())\<rparr>"

definition idle_log :: exchange_log where
  "idle_log = \<lparr>clock_reads = 0, sent_requests = []\<rparr>"

lemma fl_fraction_finite: "0 \<le> q \<Longrightarrow> q \<le> 1 \<Longrightarrow> isfinite (fl q)"
  using fl_mono [of 0 q] fl_mono [of q 1] fl_int [of 1] by (cases "fl q") auto

lemma fl_5: "fl 5 = Fin 5"
  by (rule fl_numeral) simp

lemmas sample_run = server_execute_def attempt_completion_def post_def tokenize_def read_json_def remaining_def read_monotonic_def
  srv_bind_def srv_lift_def srv_guard_def srv_try_def record_request_def prepared_context_def completion_payload_def
  validate_completion_def completion_counts_def effective_settings_def server_validate_def admitted_by_def artifact_key_def
  artifact_dump_def opt_str_def seed_or_zero_def strip_def is_space_def is_close_def failed_result_def
  sample_server_profile_def sample_server_request_def sample_server_def idle_log_def

lemma sample_body_read: "read_chunks (sample_peer temp) (Fin 5) 1024 (sample_body [c]) 0 [] s = (Inr [c], s\<lparr>clock_reads := clock_reads s + 2\<rparr>)"
  by (subst read_chunks.simps, subst read_chunks.simps) (simp add: sample_peer_def sample_run sample_body_def fl_5 fsub_def)

lemma sample_peer_simps: "monotonic (sample_peer temp) i = Fin 0" "send_request (sample_peer temp) i = Inr ()"
  "get_response (sample_peer temp) i = Inr \<lparr>rp_status = 200, rp_content_type = ''application/json'',
       rp_body = sample_body (if i = 0 then ''T'' else ''C'')\<rparr>"
  "encoded_size (sample_peer temp) v = 1" "observer (sample_peer temp) i path v = Inr ()"
  "parse_text (sample_peer temp) ''T'' = Inr (PDict [(''tokens'', PList [PInt 1, PInt 2])])"
  "parse_text (sample_peer temp) ''C'' = Inr (PDict [(''stop'', PBool True), (''truncated'', PBool False), (''stop_type'', PStr ''eos''),
     (''content'', PStr ''ok''), (''tokens_predicted'', PInt 1), (''tokens_evaluated'', PInt 2), (''tokens'', PList [PInt 7]),
     (''generation_settings'', PDict [(''n_predict'', PInt 4), (''seed'', PInt 0), (''temperature'', temp)])])"
  by (simp_all add: sample_peer_def)

lemma fl_overflow: "fl (2 ^ 1024) = PInf"
proof -
  have "(2::rat) ^ 2098 = 2 ^ (1024 + 1074)" by simp
  then have scaled: "\<bar>2 ^ 1024\<bar> * unit_scale = of_int 1 * (2::rat) ^ 2098"
    unfolding unit_scale_def power_add by simp
  have "round_scaled (\<bar>2 ^ 1024\<bar> * unit_scale) = of_int 1 * 2 ^ 2098"
    unfolding scaled by (rule round_scaled_exact) simp_all
  then show ?thesis by (simp add: fl_def overflow_bound_def)
qed

lemma sample_completes:
  "\<exists>res log. server_execute (\<lambda>_. []) (sample_peer (PInt 0)) sample_server sample_server_request idle_log = (Inr res, log) \<and> success res"
  using fl_fraction_finite [of "19 / 20"] fl_fraction_finite [of "1 / 20"]
  by (simp add: sample_run sample_peer_simps sample_body_read fl_5 fsub_def float_of_int_def Let_def feq_def)

lemma sample_tokens:
  assumes "received (sample_peer temp) ad 0 tokenized"
  shows "map_of tokenized ''tokens'' = Some (PList [PInt 1, PInt 2])"
proof -
  from assms obtain cs raw where cs: "body_pieces (sample_body ''T'') 0 cs" and raw: "parse_text (sample_peer temp) (concat cs) = Inr raw"
    "checked_json raw = Inr (PDict tokenized)"
    by (auto simp: received_def sample_peer_simps)
  have "cs = [''T'']"
  proof (cases cs)
    case Nil
    then show ?thesis using cs by (simp add: body_pieces_def sample_body_def)
  next
    case (Cons c ds)
    then have "c = ''T''" using cs by (auto simp: body_pieces_def sample_body_def)
    moreover have "ds = []" using cs Cons by (cases ds) (auto simp: body_pieces_def sample_body_def dest: spec [of _ 1])
    ultimately show ?thesis using Cons by simp
  qed
  then show ?thesis using raw by (auto simp: sample_peer_simps)
qed

theorem server_completion_accounted_witness:
  "\<exists>(log :: exchange_log) kvs. map_of kvs ''prompt'' = Some (PList [PInt 1, PInt 2])
    \<and> sent_requests log = [(''/tokenize'', tokenize_request sample_server_request), (''/completion'', PDict kvs)]"
proof -
  obtain res log where run: "server_execute (\<lambda>_. []) (sample_peer (PInt 0)) sample_server sample_server_request idle_log = (Inr res, log)" "success res"
    using sample_completes by blast
  from server_completion_accounted [OF run] obtain tokenized ids kvs where
    got: "received (sample_peer (PInt 0)) sample_server 0 tokenized" "map_of tokenized ''tokens'' = Some (PList (map PInt ids))"
    and sent: "map_of kvs ''prompt'' = Some (PList (map PInt ids))"
      "sent_requests log = [(''/tokenize'', tokenize_request sample_server_request), (''/completion'', PDict kvs)]"
    by (auto simp: idle_log_def)
  have "map PInt ids = [PInt 1, PInt 2]" using sample_tokens [OF got(1)] got(2) by simp
  then show ?thesis using sent by metis
qed

lemma sample_peer_polite: "polite (sample_peer temp)"
  by (auto simp: polite_def sample_peer_simps sample_body_def) (simp add: sample_peer_def)

lemma sample_server_options: "\<exists>t. json_dumps (PDict (profile_options sample_server_profile)) = Inr t"
  by (simp add: sample_server_profile_def)

theorem server_execute_returns_witness:
  "case fst (server_execute (\<lambda>_. []) (sample_peer (PStr ''hot'')) sample_server sample_server_request idle_log) of
     Inr res \<Rightarrow> res_request_id res = ''q'' | Inl e \<Rightarrow> (\<exists>m. e = OverflowError m)"
proof -
  obtain t where "json_dumps (PDict (profile_options sample_server_profile)) = Inr t" using sample_server_options ..
  then show ?thesis
    using server_execute_returns [OF sample_peer_polite, of sample_server_request t sample_server t "\<lambda>_. []" "PStr ''hot''" idle_log]
    by (auto simp: sample_server_request_def sample_server_def split: sum.splits)
qed

text \<open>
  The one exception that escapes: a server that reports an integer temperature too large for a float
  makes \<open>execute\<close> raise \<open>OverflowError\<close>, where any other malformed reply is a failed result.
\<close>

theorem server_huge_temperature_escapes:
  "\<exists>m. fst (server_execute (\<lambda>_. []) (sample_peer (PInt (2 ^ 1024))) sample_server sample_server_request idle_log) = Inl (OverflowError m)"
  using fl_fraction_finite [of "19 / 20"] fl_fraction_finite [of "1 / 20"] fl_overflow
  by (simp add: sample_run sample_peer_simps sample_body_read fl_5 fsub_def float_of_int_def Let_def feq_def failure_of_def timeout_error_def
    del: of_int_power)

end
