(* ===== verification/Python_Text.thy ===== *)
theory Python_Text
  imports Work_Contracts
begin

text \<open>
  Operations of Python on Latin-1 text and on decoded JSON values that several components use: lines, case,
  \<open>int\<close> and \<open>str\<close>, \<open>repr\<close>, searching, and access to objects.
\<close>

section \<open>Lines and case\<close>

text \<open>\<open>str.splitlines\<close> on Latin-1 text.\<close>

definition is_line_break :: "char \<Rightarrow> bool" where
  "is_line_break c \<longleftrightarrow> of_char c \<in> {10, 11, 12, 13, 28, 29, 30, 133 :: nat}"

definition after_break :: "char \<Rightarrow> string \<Rightarrow> string" where
  "after_break c s = (if of_char c = (13 :: nat) \<and> starts_with s [char_of (10 :: nat)] then tl s else s)"

lemma length_after_break [simp]: "length (after_break c s) < Suc (length s)"
  by (simp add: after_break_def less_Suc_eq_le)

fun split_lines :: "string \<Rightarrow> string list" where
  "split_lines [] = []"
| "split_lines (c # s) = (if is_line_break c then [] # split_lines (after_break c s)
     else case split_lines s of [] \<Rightarrow> [[c]] | l # ls \<Rightarrow> (c # l) # ls)"

text \<open>\<open>str.lower\<close> on Latin-1 text.\<close>

definition lower :: "string \<Rightarrow> string" where
  "lower s = map lower_char s"

section \<open>Numbers\<close>

definition all_digits :: "string \<Rightarrow> bool" where
  "all_digits s \<longleftrightarrow> s \<noteq> [] \<and> (\<forall>c \<in> set s. is_digit c)"

text \<open>
  What \<open>int(text)\<close> accepts: white space around (without the separators 28 to 31, which \<open>strip\<close> removes), a
  sign, groups of digits separated by single underscores; at most 4300 digits.
\<close>

fun digit_groups :: "string \<Rightarrow> bool" where
  "digit_groups [] = False"
| "digit_groups [c] = is_digit c"
| "digit_groups (c # d # s) = (is_digit c \<and> (if d = CHR ''_'' then digit_groups s else digit_groups (d # s)))"

definition number_space :: "char \<Rightarrow> bool" where
  "number_space c \<longleftrightarrow> of_char c \<in> {9, 10, 11, 12, 13, 32, 133, 160 :: nat}"

definition number_body :: "string \<Rightarrow> string" where
  "number_body t = rev (dropWhile number_space (rev (dropWhile number_space t)))"

definition int_of_text :: "string \<Rightarrow> int option" where
  "int_of_text t = (let s = number_body t; sign = (if starts_with s ''-'' then -1 else 1);
       body = (if starts_with s ''-'' \<or> starts_with s ''+'' then tl s else s); ds = filter is_digit body in
     if digit_groups body \<and> length ds \<le> 4300 then Some (sign * decimal ds) else None)"

text \<open>\<open>int\<close> of text that consists of digits.\<close>

definition int_of_match :: "string \<Rightarrow> int result" where
  "int_of_match s = (if length s \<le> 4300 then Inr (decimal s)
     else Inl (ValueError ''Exceeds the limit for integer string conversion''))"

section \<open>\<open>str\<close> and \<open>repr\<close>\<close>

definition py_str :: "(pyval \<Rightarrow> string) \<Rightarrow> pyval \<Rightarrow> string" where
  "py_str str_of v = (case v of PInt n \<Rightarrow> int_str n | PBool b \<Rightarrow> bool_str b | _ \<Rightarrow> str_value str_of v)"

text \<open>\<open>repr\<close> of Latin-1 text.\<close>

definition hex_digit :: "nat \<Rightarrow> char" where
  "hex_digit n = char_of (if n < 10 then 48 + n else 87 + n)"

definition repr_char :: "char \<Rightarrow> char \<Rightarrow> string" where
  "repr_char quote c = (let n = of_char c :: nat in
     if c = quote \<or> n = 92 then [CHR 0x5C, c]
     else if n = 9 then [CHR 0x5C, CHR ''t''] else if n = 10 then [CHR 0x5C, CHR ''n'']
     else if n = 13 then [CHR 0x5C, CHR ''r'']
     else if n < 32 \<or> 127 \<le> n \<and> n \<le> 160 \<or> n = 173 then [CHR 0x5C, CHR ''x'', hex_digit (n div 16), hex_digit (n mod 16)]
     else [c])"

definition repr_text :: "string \<Rightarrow> string" where
  "repr_text s = (let quote = (if CHR 0x27 \<in> set s \<and> CHR 0x22 \<notin> set s then CHR 0x22 else CHR 0x27) in
     quote # concat (map (repr_char quote) s) @ [quote])"

section \<open>Searching\<close>

text \<open>The first position, from the left, at which a matcher finds something.\<close>

fun first_match :: "(string \<Rightarrow> string option) \<Rightarrow> string \<Rightarrow> string option" where
  "first_match m [] = m []"
| "first_match m (c # s) = (case m (c # s) of Some g \<Rightarrow> Some g | None \<Rightarrow> first_match m s)"

section \<open>Objects\<close>

definition subscript :: "pyval \<Rightarrow> string \<Rightarrow> pyval result" where
  "subscript v k = (case v of
       PDict kvs \<Rightarrow> (case map_of kvs k of None \<Rightarrow> Inl (KeyError k) | Some x \<Rightarrow> Inr x)
     | _ \<Rightarrow> Inl (TypeError ''not subscriptable by a string''))"

definition get_or :: "pyval \<Rightarrow> string \<Rightarrow> pyval \<Rightarrow> pyval result" where
  "get_or v k d = (case v of
       PDict kvs \<Rightarrow> Inr (case map_of kvs k of None \<Rightarrow> d | Some x \<Rightarrow> x)
     | _ \<Rightarrow> Inl (OtherError ''AttributeError''))"

text \<open>What iterating over a value yields; only objects among it matter below.\<close>

definition iterate :: "pyval \<Rightarrow> pyval list result" where
  "iterate v = (case v of PList vs \<Rightarrow> Inr vs | PTuple vs \<Rightarrow> Inr vs | PStr s \<Rightarrow> Inr (map (\<lambda>c. PStr [c]) s)
     | PDict kvs \<Rightarrow> Inr (map (PStr \<circ> fst) kvs) | _ \<Rightarrow> Inl (TypeError ''not iterable''))"

end
