(* ===== verification/Llama_Cpp.thy ===== *)
theory Llama_Cpp
  imports Runtime_Contracts Python_Text
begin

text \<open>
  The llama.cpp command line adapter (\<open>adapters/llama_cpp.py\<close>): what it says about the binary, how it
  validates a profile, the argument vector and environment it starts, and how it reads a finished run.

  The operating system is the parameter \<open>host\<close>: the two \<open>stat\<close> calls, the file's bytes, the outcome of
  the \<open>--version\<close> probe (\<open>_version_probe\<close>, whose process handling \<open>Version_Probe\<close> models), the environment, the
  monotonic clock, and the inference process itself. \<open>str_of\<close> is \<open>str\<close> on objects other than strings,
  integers and booleans.
\<close>

section \<open>The host\<close>

record file_stat =
  st_regular :: bool
  st_size :: int
  st_identity :: "int \<times> int \<times> int"

datatype process_outcome = Completed int string string | Expired | Bad_Encoding | Not_Started string

record host =
  stat_before :: "file_stat result"
  can_execute :: bool
  binary_content :: "string result"
  version_probe :: "(string \<times> string option) result"
  stat_after :: "file_stat result"
  is_file :: "string \<Rightarrow> bool"
  environ :: "(string \<times> string) list"
  run_process :: "string list \<Rightarrow> (string \<times> string) list \<Rightarrow> process_outcome"
  host_clock :: "nat \<Rightarrow> pyfloat"
  today :: datetime
  file_digest :: "string \<Rightarrow> string"

definition max_binary_bytes :: int where
  "max_binary_bytes = 512 * 1024 * 1024"

text \<open>The \<open>except\<close> clauses of \<open>identity\<close>, in their order.\<close>

definition os_status :: "exn \<Rightarrow> string option" where
  "os_status e = (if e = OtherError ''FileNotFoundError'' then Some ''missing''
     else if e = OtherError ''PermissionError'' then Some ''denied''
     else if e = OtherError ''OSError'' then Some ''unusable'' else None)"

section \<open>Identity\<close>

definition unavailable :: "string \<Rightarrow> string \<Rightarrow> runtime_identity" where
  "unavailable binary status = \<lparr>runtime_id = ''llama.cpp'', rt_version = None, rt_build_id = None, binary_path = Some binary,
     backends = [], capabilities = [(''identity_probe'', CapStr status), (''resident'', CapBool False)]\<rparr>"

definition probed_identity :: "host \<Rightarrow> string \<Rightarrow> runtime_identity result" where
  "probed_identity h binary =
     ebind (stat_before h) (\<lambda>before.
     if \<not> st_regular before then Inr (unavailable binary ''unusable'')
     else if \<not> can_execute h then Inr (unavailable binary ''denied'')
     else if st_size before > max_binary_bytes then Inr (unavailable binary ''binary-size-limit'')
     else ebind (binary_content h) (\<lambda>content.
       if int (length content) > max_binary_bytes then Inr (unavailable binary ''binary-size-limit'')
       else ebind (version_probe h) (\<lambda>(status, version).
         if status \<noteq> ''ready'' then Inr (unavailable binary status)
         else ebind (stat_after h) (\<lambda>after.
           if (st_size before, st_identity before) \<noteq> (st_size after, st_identity after) then Inr (unavailable binary ''binary-changed'')
           else Inr \<lparr>runtime_id = ''llama.cpp'', rt_version = version, rt_build_id = Some (take 16 (file_digest h content)),
             binary_path = Some binary, backends = [''cpu''],
             capabilities = [(''resident'', CapBool True), (''identity_probe'', CapStr ''ready'')]\<rparr>))))"

definition cpp_identity :: "host \<Rightarrow> string \<Rightarrow> runtime_identity result" where
  "cpp_identity h binary = (case probed_identity h binary of
       Inr r \<Rightarrow> Inr r
     | Inl e \<Rightarrow> (case os_status e of Some status \<Rightarrow> Inr (unavailable binary status) | None \<Rightarrow> Inl e))"

section \<open>Options\<close>

definition accelerated_strategies :: "string set" where
  "accelerated_strategies = {''gpu-offload'', ''gpu_offload'', ''cpu-gpu-split'', ''cpu_gpu_split'', ''multi-gpu'', ''multi_gpu''}"

definition accelerated :: "inference_profile \<Rightarrow> bool" where
  "accelerated p \<longleftrightarrow> strategy p \<in> accelerated_strategies"

text \<open>\<open>_gpu_layers\<close>: \<open>int(value)\<close>, or 0 where that raises \<open>TypeError\<close> or \<open>ValueError\<close>.\<close>

definition gpu_layers :: "inference_profile \<Rightarrow> int result" where
  "gpu_layers p = (case map_of (profile_options p) ''gpu_layers'' of
       Some (PInt n) \<Rightarrow> Inr n
     | Some (PFloat (Fin q)) \<Rightarrow> Inr (if q < 0 then - \<lfloor>- q\<rfloor> else \<lfloor>q\<rfloor>)
     | Some (PFloat PInf) \<Rightarrow> Inl (OverflowError ''cannot convert float infinity to integer'')
     | Some (PFloat NInf) \<Rightarrow> Inl (OverflowError ''cannot convert float infinity to integer'')
     | Some (PStr s) \<Rightarrow> Inr (case int_of_text s of None \<Rightarrow> 0 | Some n \<Rightarrow> n)
     | _ \<Rightarrow> Inr 0)"

definition positive_option :: "(string \<times> pyval) list \<Rightarrow> string \<Rightarrow> int option result" where
  "positive_option opts name = (case map_of opts name of
       None \<Rightarrow> Inr None
     | Some (PInt n) \<Rightarrow> if 0 < n \<and> n \<le> 2147483647 then Inr (Some n)
         else Inl (ValueError (name @ '' must be an explicit positive integer''))
     | Some _ \<Rightarrow> Inl (ValueError (name @ '' must be an explicit positive integer'')))"

section \<open>Validation\<close>

definition has_model_path :: "inference_profile \<Rightarrow> bool" where
  "has_model_path p \<longleftrightarrow> (case map_of (profile_options p) ''model_path'' of None \<Rightarrow> False | Some v \<Rightarrow> truthy v)"

definition model_path :: "(pyval \<Rightarrow> string) \<Rightarrow> inference_profile \<Rightarrow> string result" where
  "model_path str_of p = (case map_of (profile_options p) ''model_path'' of
     None \<Rightarrow> Inl (KeyError ''model_path'') | Some v \<Rightarrow> Inr (py_str str_of v))"

definition capability_text :: "capability option \<Rightarrow> string" where
  "capability_text c = (case c of None \<Rightarrow> ''unknown'' | Some (CapStr s) \<Rightarrow> s | Some (CapBool b) \<Rightarrow> bool_str b)"

definition verdict_of :: "(pyval \<Rightarrow> string) \<Rightarrow> host \<Rightarrow> runtime_identity \<Rightarrow> inference_profile \<Rightarrow> (validation_state \<times> string) result" where
  "verdict_of str_of h rt p =
     (if profile_runtime_id p \<noteq> ''llama.cpp'' then Inr (UNSUPPORTED, ''profile names a different runtime'')
      else if map_of (capabilities rt) ''identity_probe'' \<noteq> Some (CapStr ''ready'')
        then Inr (UNKNOWN, ''llama.cpp identity probe: '' @ capability_text (map_of (capabilities rt) ''identity_probe''))
      else if \<not> has_model_path p then Inr (UNKNOWN, ''profile has no adapter model_path option'')
      else ebind (model_path str_of p) (\<lambda>path.
        if \<not> is_file h path then Inr (UNSUPPORTED, ''GGUF model artifact is missing'')
        else if strategy p = ''resident''
          then Inr (SUPPORTED, ''CPU resident prerequisites available; model loading and execution remain unverified'')
        else if accelerated p then ebind (gpu_layers p) (\<lambda>n. Inr (if n \<le> 0
            then (UNSUPPORTED, ''accelerated profile requires a positive gpu_layers option'')
            else (UNKNOWN, ''accelerated profile requires measured execution qualification; '' @
              ''preflight does not infer CUDA support from GPU presence'')))
        else Inr (UNSUPPORTED, ''reference adapter does not implement the requested inference strategy'')))"

definition cpp_validate :: "(pyval \<Rightarrow> string) \<Rightarrow> (pyval \<Rightarrow> string) \<Rightarrow> host \<Rightarrow> string \<Rightarrow> inference_profile \<Rightarrow> profile_validation result" where
  "cpp_validate digest str_of h binary p =
     ebind (cpp_identity h binary) (\<lambda>rt.
     ebind (verdict_of str_of h rt p) (\<lambda>(state, rationale).
     ebind (artifact_key digest (profile_artifact p)) (\<lambda>key.
     Inr \<lparr>val_runtime = rt, val_profile_id = profile_id p, val_artifact_key = key, val_resources = participating_resources p,
       val_strategy = strategy p, val_options = profile_options p, val_state = state, val_depth = PREFLIGHT,
       val_rationale = rationale, val_timestamp = today h, val_provenance = VProbe\<rparr>)))"

section \<open>The command\<close>

definition context_arguments :: "execution_request \<Rightarrow> string list result" where
  "context_arguments r =
     ebind (positive_option (profile_options (req_profile r)) ''context_size'') (\<lambda>ctx.
     ebind (guard (context_tokens r = None \<or> context_tokens r = ctx)
       (ValueError ''request context must match the profile context_size'')) (\<lambda>_.
     ebind (if req_prompt_mode r \<noteq> Rendered then Inr ()
       else ebind (guard (context_tokens r \<noteq> None) (ValueError ''rendered prompts require an explicit matching context'')) (\<lambda>_.
         guard (case ctx of None \<Rightarrow> False | Some n \<Rightarrow> max_tokens r < n)
           (ValueError ''context must leave room for input and requested output''))) (\<lambda>_.
     Inr (case ctx of None \<Rightarrow> [] | Some n \<Rightarrow> [''--ctx-size'', int_str n]))))"

definition rendered_arguments :: "execution_request \<Rightarrow> int option \<Rightarrow> string list result" where
  "rendered_arguments r threads =
     ebind (guard (threads \<noteq> None) (ValueError ''rendered prompts require explicit profile threads'')) (\<lambda>_.
     ebind (guard (\<not> (fgt (temperature r) (Fin 0) \<and> seed r = None))
       (ValueError ''stochastic rendered requests require an explicit seed'')) (\<lambda>_.
     case (case map_of (profile_options (req_profile r)) ''gpu_layers'' of None \<Rightarrow> PInt 0 | Some v \<Rightarrow> v) of
       PInt layers \<Rightarrow>
         ebind (guard (0 \<le> layers) (ValueError ''rendered profile gpu_layers must be a nonnegative integer'')) (\<lambda>_.
         ebind (guard (\<not> (strategy (req_profile r) = ''resident'' \<and> layers \<noteq> 0))
           (ValueError ''CPU resident profile cannot request GPU layers'')) (\<lambda>_.
         Inr [''--no-conversation'', ''--no-display-prompt'', ''--no-escape'', ''--no-context-shift'', ''--fit'', ''off'']))
     | _ \<Rightarrow> Inl (ValueError ''rendered profile gpu_layers must be a nonnegative integer'')))"

definition int_flag :: "string \<Rightarrow> int option \<Rightarrow> string list" where
  "int_flag name v = (case v of None \<Rightarrow> [] | Some n \<Rightarrow> [name, int_str n])"

definition completion_arguments :: "execution_request \<Rightarrow> string list result" where
  "completion_arguments r = (let opts = profile_options (req_profile r) in
     ebind (context_arguments r) (\<lambda>ctx.
     ebind (positive_option opts ''threads'') (\<lambda>threads.
     ebind (positive_option opts ''threads_batch'') (\<lambda>batch.
     let flags = ctx @ int_flag ''--seed'' (seed r) @ int_flag ''--threads'' threads
           @ (if batch \<noteq> None then int_flag ''--threads-batch'' batch
              else if req_prompt_mode r = Rendered then int_flag ''--threads-batch'' threads else []) in
     if req_prompt_mode r = Rendered then ebind (rendered_arguments r threads) (\<lambda>extra. Inr (flags @ extra)) else Inr flags))))"

definition tensor_split_text :: "(pyval \<Rightarrow> string) \<Rightarrow> pyval \<Rightarrow> string" where
  "tensor_split_text str_of v = (case v of PList vs \<Rightarrow> join '','' (map (py_str str_of) vs)
     | PTuple vs \<Rightarrow> join '','' (map (py_str str_of) vs) | _ \<Rightarrow> py_str str_of v)"

definition truthy_flag :: "(pyval \<Rightarrow> string) \<Rightarrow> string \<Rightarrow> pyval option \<Rightarrow> string list" where
  "truthy_flag render name v = (case v of None \<Rightarrow> [] | Some x \<Rightarrow> if truthy x then [name, render x] else [])"

definition cpp_command :: "(pyval \<Rightarrow> string) \<Rightarrow> string \<Rightarrow> execution_request \<Rightarrow> string list result" where
  "cpp_command str_of binary r = (let opts = profile_options (req_profile r) in
     ebind (model_path str_of (req_profile r)) (\<lambda>path.
     ebind (completion_arguments r) (\<lambda>args.
     ebind (gpu_layers (req_profile r)) (\<lambda>layers.
     Inr ([binary, ''-m'', path, ''-p'', prompt r, ''-n'', int_str (max_tokens r), ''--temp'', py_str str_of (PFloat (temperature r))]
       @ args
       @ (if (case map_of opts ''no_warmup'' of None \<Rightarrow> True | Some v \<Rightarrow> truthy v) then [''--no-warmup''] else [])
       @ (if 0 < layers \<or> req_prompt_mode r = Rendered then [''-ngl'', int_str layers] else [])
       @ truthy_flag (py_str str_of) ''--split-mode'' (map_of opts ''split_mode'')
       @ truthy_flag (tensor_split_text str_of) ''--tensor-split'' (map_of opts ''tensor_split'')
       @ (case map_of opts ''main_gpu'' of None \<Rightarrow> [] | Some PNone \<Rightarrow> [] | Some (PBool b) \<Rightarrow> []
          | Some v \<Rightarrow> [''--main-gpu'', py_str str_of v]))))))"

text \<open>\<open>upper\<close> on the letters the prefix \<open>LLAMA_ARG_\<close> can be compared with.\<close>

definition upper_char :: "char \<Rightarrow> char" where
  "upper_char c = (let n = of_char c :: nat in if 97 \<le> n \<and> n \<le> 122 then char_of (n - 32) else c)"

definition inference_environment :: "(pyval \<Rightarrow> string) \<Rightarrow> host \<Rightarrow> execution_request \<Rightarrow> (string \<times> string) list" where
  "inference_environment str_of h r = (let
     env = (if req_prompt_mode r = Rendered
        then filter (\<lambda>(k, v). \<not> starts_with (map upper_char k) ''LLAMA_ARG_'') (environ h) else environ h) in
     case map_of (profile_options (req_profile r)) ''cuda_visible_devices'' of
       None \<Rightarrow> env | Some PNone \<Rightarrow> env | Some v \<Rightarrow> AList.update ''CUDA_VISIBLE_DEVICES'' (py_str str_of v) env)"

section \<open>Reading a finished run\<close>

text \<open>
  \<open>re.search\<close> tries a match at each position from the left. The four patterns match deterministically:
  after the longest run of digits no shorter one can be followed by the white space or unit required.
\<close>

definition literal :: "string \<Rightarrow> string \<Rightarrow> bool" where
  "literal p s \<longleftrightarrow> starts_with (map lower_char s) p"

definition mentions :: "string \<Rightarrow> string \<Rightarrow> bool" where
  "mentions p s \<longleftrightarrow> first_match (\<lambda>t. if literal p t then Some [] else None) s \<noteq> None"

definition skip_space :: "string \<Rightarrow> string" where
  "skip_space s = dropWhile is_space s"

definition number_char :: "char \<Rightarrow> bool" where
  "number_char c \<longleftrightarrow> is_digit c \<or> c = CHR ''.''"

definition spaced :: "string list \<Rightarrow> string \<Rightarrow> bool" where
  "spaced ps s \<longleftrightarrow> s \<noteq> [] \<and> is_space (hd s) \<and> (\<exists>p \<in> set ps. literal p (skip_space s))"

definition load_time_at :: "string \<Rightarrow> string option" where
  "load_time_at s = (if \<not> literal ''load time'' s then None
     else let a = skip_space (drop 9 s); b = skip_space (tl a); n = takeWhile number_char b in
       if starts_with a ''='' \<and> n \<noteq> [] \<and> literal ''ms'' (skip_space (dropWhile number_char b)) then Some n else None)"

definition count_at :: "string list \<Rightarrow> string \<Rightarrow> string option" where
  "count_at units s = (if \<not> starts_with s ''/'' then None
     else let b = skip_space (tl s); n = takeWhile is_digit b in
       if n \<noteq> [] \<and> spaced units (dropWhile is_digit b) then Some n else None)"

definition rate_at :: "string \<Rightarrow> string option" where
  "rate_at s = (let n = takeWhile number_char s in
     if n \<noteq> [] \<and> spaced [''tokens per second''] (dropWhile number_char s) then Some n else None)"

text \<open>\<open>float\<close> and \<open>int\<close> of what \<open>[0-9.]+\<close> and \<open>\d+\<close> matched.\<close>

definition float_of_match :: "string \<Rightarrow> pyfloat result" where
  "float_of_match s = (let whole = takeWhile is_digit s; rest = dropWhile is_digit s; fraction = tl rest in
     if (\<forall>c \<in> set fraction. is_digit c) \<and> whole @ fraction \<noteq> []
     then Inr (fl (of_int (decimal (whole @ fraction)) / 10 ^ length fraction))
     else Inl (ValueError ''could not convert string to float''))"

fun milliseconds :: "pyfloat \<Rightarrow> pyfloat" where
  "milliseconds (Fin q) = fl (q / 1000)"
| "milliseconds x = x"

definition with_match :: "string option \<Rightarrow> (string \<Rightarrow> 'a result) \<Rightarrow> ('a \<Rightarrow> timing \<Rightarrow> timing) \<Rightarrow> timing \<Rightarrow> timing result" where
  "with_match m convert set_field t = (case m of None \<Rightarrow> Inr t | Some s \<Rightarrow> ebind (convert s) (\<lambda>v. Inr (set_field v t)))"

definition timing_line :: "string \<Rightarrow> timing \<Rightarrow> timing result" where
  "timing_line l t =
     (if mentions ''load time'' l
      then with_match (first_match load_time_at l) float_of_match (\<lambda>v. load_seconds_update (\<lambda>_. Some (milliseconds v))) t
      else if mentions ''prompt eval time'' l
      then ebind (with_match (first_match (count_at [''token'']) l) int_of_match (\<lambda>v. t_prompt_tokens_update (\<lambda>_. Some v)) t)
        (with_match (first_match rate_at l) float_of_match (\<lambda>v. prefill_tps_update (\<lambda>_. Some v)))
      else if mentions ''eval time'' l
      then ebind (with_match (first_match (count_at [''run'', ''token'']) l) int_of_match (\<lambda>v. generated_tokens_update (\<lambda>_. Some v)) t)
        (with_match (first_match rate_at l) float_of_match (\<lambda>v. decode_tps_update (\<lambda>_. Some v)))
      else Inr t)"

fun timing_lines :: "string list \<Rightarrow> timing \<Rightarrow> timing result" where
  "timing_lines [] t = Inr t"
| "timing_lines (l # ls) t = ebind (timing_line l t) (timing_lines ls)"

definition parse_timings :: "string \<Rightarrow> pyfloat \<Rightarrow> timing result" where
  "parse_timings stderr seconds = timing_lines (split_lines stderr) (no_timing\<lparr>total_seconds := Some seconds\<rparr>)"

definition measured_runtime :: "runtime_identity \<Rightarrow> runtime_identity" where
  "measured_runtime rt = rt\<lparr>backends := sorted_set (''cuda'' # backends rt),
     capabilities := AList.update ''accelerated_execution'' (CapStr ''measured'') (capabilities rt)\<rparr>"

definition completion_result ::
  "execution_request \<Rightarrow> runtime_identity \<Rightarrow> int \<times> string \<times> string \<Rightarrow> pyfloat \<Rightarrow> execution_result result" where
  "completion_result r rt = (\<lambda>(code, stdout, stderr) elapsed.
     ebind (parse_timings stderr elapsed) (\<lambda>t.
     Inr (if code \<noteq> 0
       then (failed_result r rt FAIL_EXECUTION (last_n 1000 stderr) t)\<lparr>raw_exit_code := Some code\<rparr>
       else \<lparr>res_request_id = request_id r, res_runtime = (if accelerated (req_profile r) then measured_runtime rt else rt),
         success = True,
         res_output = Some (if req_prompt_mode r = Rendered then stdout
           else strip (if starts_with stdout (prompt r) then drop (length (prompt r)) stdout else stdout)),
         timings = t, error_class = None, error_detail = None, raw_exit_code = None\<rparr>)))"

section \<open>Executing a request\<close>

text \<open>
  \<open>execute\<close> reads the clock twice, before the command is built and when it reports. The value is the
  result together with the process it started, if any: argument vector and environment.
\<close>

type_synonym invocation = "string list \<times> (string \<times> string) list"

definition elapsed :: "host \<Rightarrow> pyfloat" where
  "elapsed h = fsub (host_clock h 1) (host_clock h 0)"

definition run_command :: "host \<Rightarrow> execution_request \<Rightarrow> runtime_identity \<Rightarrow> invocation \<Rightarrow> execution_result result" where
  "run_command h r rt call = (let t = no_timing\<lparr>total_seconds := Some (elapsed h)\<rparr> in
     case run_process h (fst call) (snd call) of
       Completed code stdout stderr \<Rightarrow> completion_result r rt (code, stdout, stderr) (elapsed h)
     | Expired \<Rightarrow> Inr (failed_result r rt FAIL_TIMEOUT ''llama.cpp timed out'' t)
     | Bad_Encoding \<Rightarrow> Inr (failed_result r rt FAIL_EXECUTION ''llama.cpp input/output encoding is invalid'' t)
     | Not_Started e \<Rightarrow> Inr (failed_result r rt FAIL_RESOURCE (''llama.cpp process could not start: '' @ e) t))"

definition cpp_execute ::
  "(pyval \<Rightarrow> string) \<Rightarrow> (pyval \<Rightarrow> string) \<Rightarrow> host \<Rightarrow> string \<Rightarrow> execution_request \<Rightarrow> execution_result result \<times> invocation option" where
  "cpp_execute digest str_of h binary r = (case cpp_validate digest str_of h binary (req_profile r) of
       Inl e \<Rightarrow> (Inl e, None)
     | Inr v \<Rightarrow>
         if val_state v = UNSUPPORTED \<or> (val_state v = UNKNOWN \<and> \<not> req_allow_unknown r)
         then (Inr (failed_result r (val_runtime v) FAIL_RUNTIME (val_rationale v) no_timing), None)
         else (case cpp_command str_of binary r of
             Inl (ValueError m) \<Rightarrow>
               (Inr (failed_result r (val_runtime v) FAIL_RUNTIME m (no_timing\<lparr>total_seconds := Some (elapsed h)\<rparr>)), None)
           | Inl e \<Rightarrow> (Inl e, None)
           | Inr command \<Rightarrow> (let call = (command, inference_environment str_of h r) in (run_command h r (val_runtime v) call, Some call))))"

section \<open>Construction and the version probe's reading\<close>

definition check_identity_timeout :: "pyval \<Rightarrow> unit result" where
  "check_identity_timeout v = (let refuse = ValueError ''identity timeout must be finite, positive and at most five seconds'' in
     case v of
       PInt n \<Rightarrow> ebind (float_of_int n) (\<lambda>_. guard (0 < n \<and> n \<le> 5) refuse)
     | PFloat x \<Rightarrow> guard (isfinite x \<and> flt (Fin 0) x \<and> fle x (Fin 5)) refuse
     | PBool _ \<Rightarrow> Inl refuse
     | _ \<Rightarrow> Inl (TypeError ''must be real number''))"

text \<open>\<open>_parse_version\<close>; \<open>decoded\<close> is the output decoded as UTF-8, if it can be.\<close>

definition parse_version :: "string option \<Rightarrow> string \<times> string option" where
  "parse_version decoded = (case decoded of
       None \<Rightarrow> (''unknown-version'', None)
     | Some text \<Rightarrow> (let version = strip text in
         if version = [] \<or> (\<exists>c \<in> set version. of_char c < (32 :: nat) \<and> of_char c \<notin> {10, 13, 9 :: nat})
         then (''unknown-version'', None) else (''ready'', Some version)))"

end
