(* ===== verification/Llama_Cpp_Properties.thy ===== *)
theory Llama_Cpp_Properties
  imports Llama_Cpp
begin

text \<open>
  What the llama.cpp command line adapter guarantees about the process it starts, and what its callers
  have to expect of it beyond results.
\<close>

section \<open>Which executions start a process\<close>

lemma started_iff:
  "snd (cpp_execute digest str_of h binary r) = Some (cmd, env) \<longleftrightarrow>
     (\<exists>v. cpp_validate digest str_of h binary (req_profile r) = Inr v
       \<and> (val_state v = SUPPORTED \<or> val_state v = UNKNOWN \<and> req_allow_unknown r)
       \<and> cpp_command str_of binary r = Inr cmd \<and> env = inference_environment str_of h r)"
  by (auto simp: cpp_execute_def Let_def split: sum.splits exn.splits if_splits; metis validation_state.exhaust)

lemma started_result:
  "snd (cpp_execute digest str_of h binary r) = Some call \<Longrightarrow>
     \<exists>rt. fst (cpp_execute digest str_of h binary r) = run_command h r rt call"
  by (auto simp: cpp_execute_def Let_def split: sum.splits exn.splits if_splits)

lemma not_started_fails:
  "snd (cpp_execute digest str_of h binary r) = None \<Longrightarrow> fst (cpp_execute digest str_of h binary r) = Inr res \<Longrightarrow> \<not> success res"
  by (auto simp: cpp_execute_def Let_def failed_result_def split: sum.splits exn.splits if_splits)

lemma validate_state:
  "cpp_validate digest str_of h binary p = Inr v \<longleftrightarrow>
     (\<exists>rt state rationale key. cpp_identity h binary = Inr rt \<and> verdict_of str_of h rt p = Inr (state, rationale)
       \<and> artifact_key digest (profile_artifact p) = Inr key
       \<and> v = \<lparr>val_runtime = rt, val_profile_id = profile_id p, val_artifact_key = key, val_resources = participating_resources p,
           val_strategy = strategy p, val_options = profile_options p, val_state = state, val_depth = PREFLIGHT,
           val_rationale = rationale, val_timestamp = today h, val_provenance = VProbe\<rparr>)"
  by (auto simp: cpp_validate_def split: prod.splits)

lemma supported_verdict:
  "verdict_of str_of h rt p = Inr (SUPPORTED, why) \<Longrightarrow>
     profile_runtime_id p = ''llama.cpp'' \<and> map_of (capabilities rt) ''identity_probe'' = Some (CapStr ''ready'')
     \<and> strategy p = ''resident'' \<and> (\<exists>path. model_path str_of p = Inr path \<and> is_file h path)"
  by (auto simp: verdict_of_def split: if_splits)

lemma unavailable_probe [simp]: "map_of (capabilities (unavailable binary status)) ''identity_probe'' = Some (CapStr status)"
  by (simp add: unavailable_def)

lemma ready_identity:
  assumes "cpp_identity h binary = Inr rt" and "map_of (capabilities rt) ''identity_probe'' = Some (CapStr ''ready'')"
  shows "\<exists>before after. stat_before h = Inr before \<and> stat_after h = Inr after \<and> st_regular before \<and> can_execute h
    \<and> st_size after = st_size before \<and> st_identity after = st_identity before \<and> (\<exists>version. version_probe h = Inr (''ready'', version))"
proof -
  have "probed_identity h binary = Inr rt"
    using assms by (auto simp: cpp_identity_def os_status_def split: sum.splits if_splits)
  moreover have "unavailable binary status \<noteq> rt" if "status \<noteq> ''ready''" for status
    using assms(2) that by (auto dest: arg_cong [of _ _ "\<lambda>x. map_of (capabilities x) ''identity_probe''"])
  ultimately show ?thesis
    by (auto simp: probed_identity_def split: if_split_asm prod.splits)
qed

lemma command_starts: "cpp_command str_of binary r = Inr cmd \<Longrightarrow> hd cmd = binary"
  by (auto simp: cpp_command_def Let_def)

text \<open>
  C38. Unless the caller opts in to an unknown runtime, the adapter starts only what it has just measured:
  the process is the configured binary, a regular executable file whose size and identity were the same
  before and after a successful version probe, serving an existing model file of a \<open>resident\<close> profile of
  this runtime.
\<close>

theorem cpp_starts_what_it_measured:
  assumes "snd (cpp_execute digest str_of h binary r) = Some (cmd, env)" and "\<not> req_allow_unknown r"
  shows "hd cmd = binary \<and> profile_runtime_id (req_profile r) = ''llama.cpp'' \<and> strategy (req_profile r) = ''resident''
    \<and> (\<exists>path. model_path str_of (req_profile r) = Inr path \<and> is_file h path)
    \<and> (\<exists>before after. stat_before h = Inr before \<and> stat_after h = Inr after \<and> st_regular before \<and> can_execute h
        \<and> st_size after = st_size before \<and> st_identity after = st_identity before \<and> (\<exists>version. version_probe h = Inr (''ready'', version)))"
proof -
  obtain rt why where "cpp_identity h binary = Inr rt" "verdict_of str_of h rt (req_profile r) = Inr (SUPPORTED, why)"
    using assms by (auto simp: started_iff validate_state)
  then show ?thesis
    using assms(1) supported_verdict ready_identity command_starts unfolding started_iff by metis
qed

section \<open>Rendered runs\<close>

lemma rendered_context:
  "req_prompt_mode r = Rendered \<Longrightarrow> context_arguments r = Inr args \<longleftrightarrow>
     (\<exists>ctx. context_tokens r = Some ctx \<and> positive_option (profile_options (req_profile r)) ''context_size'' = Inr (Some ctx)
       \<and> max_tokens r < ctx \<and> args = [''--ctx-size'', int_str ctx])"
  by (auto simp: context_arguments_def guard_def split: if_splits option.splits)

lemma rendered_arguments_Inr:
  "rendered_arguments r threads = Inr args \<longleftrightarrow>
     threads \<noteq> None \<and> \<not> (fgt (temperature r) (Fin 0) \<and> seed r = None)
     \<and> (\<exists>layers. (case map_of (profile_options (req_profile r)) ''gpu_layers'' of None \<Rightarrow> PInt 0 | Some v \<Rightarrow> v) = PInt layers
         \<and> 0 \<le> layers \<and> (strategy (req_profile r) = ''resident'' \<longrightarrow> layers = 0))
     \<and> args = [''--no-conversation'', ''--no-display-prompt'', ''--no-escape'', ''--no-context-shift'', ''--fit'', ''off'']"
  by (cases "case map_of (profile_options (req_profile r)) ''gpu_layers'' of None \<Rightarrow> PInt 0 | Some v \<Rightarrow> v")
    (auto simp: rendered_arguments_def guard_def split: if_splits)

lemma gpu_layers_int:
  "(case map_of (profile_options p) ''gpu_layers'' of None \<Rightarrow> PInt 0 | Some v \<Rightarrow> v) = PInt n \<Longrightarrow> gpu_layers p = Inr n"
  by (auto simp: gpu_layers_def split: option.splits)

lemma positive_option_Some:
  "positive_option opts name = Inr (Some n) \<Longrightarrow> map_of opts name = Some (PInt n) \<and> 0 < n \<and> n \<le> 2147483647"
  by (auto simp: positive_option_def split: option.splits pyval.splits if_splits)

definition rendered_flags :: "execution_request \<Rightarrow> int \<Rightarrow> int \<Rightarrow> int \<Rightarrow> string list" where
  "rendered_flags r ctx threads batch = [''--ctx-size'', int_str ctx] @ int_flag ''--seed'' (seed r)
     @ [''--threads'', int_str threads, ''--threads-batch'', int_str batch]
     @ [''--no-conversation'', ''--no-display-prompt'', ''--no-escape'', ''--no-context-shift'', ''--fit'', ''off'']"

definition agreed_flags :: "execution_request \<Rightarrow> int \<Rightarrow> int \<Rightarrow> int \<Rightarrow> int \<Rightarrow> bool" where
  "agreed_flags r ctx threads batch layers \<longleftrightarrow>
     context_tokens r = Some ctx \<and> max_tokens r < ctx \<and> (seed r \<noteq> None \<or> \<not> fgt (temperature r) (Fin 0))
     \<and> map_of (profile_options (req_profile r)) ''threads'' = Some (PInt threads) \<and> 0 < batch
     \<and> (strategy (req_profile r) = ''resident'' \<longrightarrow> layers = 0)"

lemma rendered_completion:
  assumes "req_prompt_mode r = Rendered" and "completion_arguments r = Inr args"
  shows "\<exists>ctx threads batch layers. agreed_flags r ctx threads batch layers
    \<and> gpu_layers (req_profile r) = Inr layers \<and> args = rendered_flags r ctx threads batch"
proof -
  let ?opts = "profile_options (req_profile r)"
  from assms obtain ctx threads batch extra where
    ctx: "context_tokens r = Some ctx" "max_tokens r < ctx" and threads: "positive_option ?opts ''threads'' = Inr (Some threads)"
    and batch: "positive_option ?opts ''threads_batch'' = Inr batch" and extra: "rendered_arguments r (Some threads) = Inr extra"
    and args: "args = [''--ctx-size'', int_str ctx] @ int_flag ''--seed'' (seed r) @ int_flag ''--threads'' (Some threads)
      @ (if batch \<noteq> None then int_flag ''--threads-batch'' batch else int_flag ''--threads-batch'' (Some threads)) @ extra"
    by (auto simp: completion_arguments_def Let_def rendered_context rendered_arguments_Inr)
  let ?batch = "case batch of None \<Rightarrow> threads | Some b \<Rightarrow> b"
  from extra obtain layers where layers: "gpu_layers (req_profile r) = Inr layers" "strategy (req_profile r) = ''resident'' \<longrightarrow> layers = 0"
    by (auto simp: rendered_arguments_Inr dest: gpu_layers_int)
  have "args = rendered_flags r ctx threads ?batch"
    using args extra by (auto simp: rendered_flags_def int_flag_def rendered_arguments_Inr split: option.splits)
  moreover have "agreed_flags r ctx threads ?batch layers"
    using ctx layers(2) extra positive_option_Some [OF threads] batch
    by (auto simp: agreed_flags_def rendered_arguments_Inr split: option.splits dest: positive_option_Some)
  ultimately show ?thesis using layers(1) by blast
qed

lemma update_keys: "(k, v) \<in> set (AList.update a b xs) \<Longrightarrow> k = a \<or> (k, v) \<in> set xs"
  by (induction xs) (auto split: if_splits)

lemma rendered_environment:
  assumes "req_prompt_mode r = Rendered" and "(k, v) \<in> set (inference_environment str_of h r)"
  shows "\<not> starts_with (map upper_char k) ''LLAMA_ARG_''"
proof -
  have "\<not> starts_with (map upper_char ''CUDA_VISIBLE_DEVICES'') ''LLAMA_ARG_''"
    by (simp add: upper_char_def)
  then show ?thesis
    using assms by (auto simp: inference_environment_def Let_def dest!: update_keys split: option.splits pyval.splits)
qed

definition command_head :: "(pyval \<Rightarrow> string) \<Rightarrow> string \<Rightarrow> execution_request \<Rightarrow> string \<Rightarrow> string list" where
  "command_head str_of binary r path = [binary, ''-m'', path, ''-p'', prompt r, ''-n'', int_str (max_tokens r),
     ''--temp'', py_str str_of (PFloat (temperature r))]"

lemma rendered_command:
  assumes "req_prompt_mode r = Rendered" and "cpp_command str_of binary r = Inr cmd"
  shows "\<exists>path args n warmup rest. completion_arguments r = Inr args \<and> gpu_layers (req_profile r) = Inr n
    \<and> (warmup = [] \<or> warmup = [''--no-warmup''])
    \<and> cmd = command_head str_of binary r path @ args @ warmup @ [''-ngl'', int_str n] @ rest"
proof -
  let ?opts = "profile_options (req_profile r)"
  let ?warmup = "if (case map_of ?opts ''no_warmup'' of None \<Rightarrow> True | Some v \<Rightarrow> truthy v) then [''--no-warmup''] else []"
  let ?rest = "truthy_flag (py_str str_of) ''--split-mode'' (map_of ?opts ''split_mode'')
    @ truthy_flag (tensor_split_text str_of) ''--tensor-split'' (map_of ?opts ''tensor_split'')
    @ (case map_of ?opts ''main_gpu'' of None \<Rightarrow> [] | Some PNone \<Rightarrow> [] | Some (PBool b) \<Rightarrow> [] | Some v \<Rightarrow> [''--main-gpu'', py_str str_of v])"
  from assms(2) obtain path args n where "completion_arguments r = Inr args" "gpu_layers (req_profile r) = Inr n"
    and cmd: "cmd = command_head str_of binary r path @ args @ ?warmup
      @ (if 0 < n \<or> req_prompt_mode r = Rendered then [''-ngl'', int_str n] else []) @ ?rest"
    unfolding cpp_command_def Let_def command_head_def ebind_Inr_iff append.assoc by blast
  moreover have "cmd = command_head str_of binary r path @ args @ ?warmup @ [''-ngl'', int_str n] @ ?rest"
    using assms(1) unfolding cmd by (simp only: simp_thms if_True)
  moreover have "?warmup = [] \<or> ?warmup = [''--no-warmup'']" by (simp only: split: if_split) blast
  ultimately show ?thesis by blast
qed

text \<open>
  A prepared (\<open>rendered\<close>) prompt runs under exactly the configuration of its profile. Whatever the
  options and the ambient environment, a process started for one has on its command line the context size
  that request and profile agree on, with room for the requested output, a seed or no sampling, the
  profile's explicit thread counts, the flags that forbid wrapping, echoing, escaping and context shifts,
  and an explicit number of GPU layers (0 if resident); no environment variable it sees overrides an argument.
\<close>

theorem rendered_run_is_explicit:
  assumes "snd (cpp_execute digest str_of h binary r) = Some (cmd, env)" and "req_prompt_mode r = Rendered"
  shows "(\<exists>path ctx threads batch warmup layers rest.
      cmd = command_head str_of binary r path
        @ rendered_flags r ctx threads batch @ warmup @ [''-ngl'', int_str layers] @ rest
      \<and> context_tokens r = Some ctx \<and> max_tokens r < ctx \<and> (seed r \<noteq> None \<or> \<not> fgt (temperature r) (Fin 0))
      \<and> map_of (profile_options (req_profile r)) ''threads'' = Some (PInt threads) \<and> 0 < batch
      \<and> (warmup = [] \<or> warmup = [''--no-warmup'']) \<and> (strategy (req_profile r) = ''resident'' \<longrightarrow> layers = 0))
    \<and> (\<forall>(k, v) \<in> set env. \<not> starts_with (map upper_char k) ''LLAMA_ARG_'')"
proof -
  from assms(1) have command: "cpp_command str_of binary r = Inr cmd" and env: "env = inference_environment str_of h r"
    by (auto simp: started_iff)
  obtain path args n warmup rest where parts: "completion_arguments r = Inr args" "gpu_layers (req_profile r) = Inr n"
    "warmup = [] \<or> warmup = [''--no-warmup'']"
    "cmd = command_head str_of binary r path @ args @ warmup @ [''-ngl'', int_str n] @ rest"
    using rendered_command [OF assms(2) command] by blast
  obtain ctx threads batch layers where flags: "agreed_flags r ctx threads batch layers"
    "gpu_layers (req_profile r) = Inr layers" "args = rendered_flags r ctx threads batch"
    using rendered_completion [OF assms(2) parts(1)] by blast
  have "cmd = command_head str_of binary r path @ rendered_flags r ctx threads batch @ warmup @ [''-ngl'', int_str layers] @ rest"
    using parts(2,4) flags(2,3) by simp
  moreover have "\<forall>(k, v) \<in> set env. \<not> starts_with (map upper_char k) ''LLAMA_ARG_''"
    unfolding env using rendered_environment [OF assms(2)] by blast
  ultimately show ?thesis using parts(3) flags(1) unfolding agreed_flags_def by blast
qed

section \<open>What success means\<close>

lemma completion_failed: "completion_result r rt (code, stdout, stderr) t = Inr res \<Longrightarrow> success res \<Longrightarrow> code = 0 \<and> completion_result r rt (0, stdout, stderr) t = Inr res"
  by (auto simp: completion_result_def failed_result_def split: if_splits)

text \<open>
  Success is never reported without a completed process: a successful result means that the one process
  started exited with code 0, its output is that process's standard output (for a default prompt, stripped
  of white space and of an echo of the prompt), and its total time is the difference of the two clock readings.
\<close>

theorem cpp_success_needs_clean_exit:
  assumes "fst (cpp_execute digest str_of h binary r) = Inr res" and "success res"
  shows "\<exists>cmd env stdout stderr t. snd (cpp_execute digest str_of h binary r) = Some (cmd, env)
    \<and> run_process h cmd env = Completed 0 stdout stderr \<and> res_request_id res = request_id r
    \<and> res_output res = Some (if req_prompt_mode r = Rendered then stdout
        else strip (if starts_with stdout (prompt r) then drop (length (prompt r)) stdout else stdout))
    \<and> parse_timings stderr (elapsed h) = Inr t \<and> timings res = t \<and> error_class res = None"
proof -
  obtain cmd env where call: "snd (cpp_execute digest str_of h binary r) = Some (cmd, env)"
    using not_started_fails [OF _ assms(1)] assms(2) by (metis not_Some_eq surj_pair)
  obtain rt where "run_command h r rt (cmd, env) = Inr res" using started_result [OF call] assms(1) by auto
  then have run: "\<exists>stdout stderr. run_process h cmd env = Completed 0 stdout stderr \<and> completion_result r rt (0, stdout, stderr) (elapsed h) = Inr res"
    using assms(2) by (cases "run_process h cmd env") (auto simp: run_command_def Let_def failed_result_def dest: completion_failed)
  then show ?thesis using call by (auto simp: completion_result_def)
qed

section \<open>Witnesses and what escapes\<close>

definition sample_cpp_request :: "(string \<times> pyval) list \<Rightarrow> bool \<Rightarrow> execution_request" where
  "sample_cpp_request opts allow = \<lparr>request_id = ''q'', req_profile = \<lparr>profile_id = ''p'', profile_runtime_id = ''llama.cpp'',
       strategy = ''resident'',
       profile_artifact = \<lparr>foundation = ''f'', revision = None, quantization = None, adapters = [], auxiliary_artifacts = []\<rparr>,
       participating_resources = [''r''], requirements = [], profile_options = opts, profile_schema_version = 1\<rparr>,
     prompt = ''hi'', max_tokens = 4, temperature = Fin 0, timeout_seconds = Fin 5, req_allow_unknown = allow, seed = None,
     context_tokens = Some 8, req_prompt_mode = Rendered\<rparr>"

definition sample_cpp_options :: "(string \<times> pyval) list" where
  "sample_cpp_options = [(''model_path'', PStr ''m''), (''context_size'', PInt 8), (''threads'', PInt 2)]"

definition sample_host :: "string \<Rightarrow> host" where
  "sample_host stderr = (let st = \<lparr>st_regular = True, st_size = 10, st_identity = (1, 2, 3)\<rparr> in
     \<lparr>stat_before = Inr st, can_execute = True, binary_content = Inr ''elf'', version_probe = Inr (''ready'', Some ''1''),
       stat_after = Inr st, is_file = (\<lambda>_. True), environ = [(''LLAMA_ARG_TEMP'', ''2''), (''PATH'', ''p'')],
       run_process = (\<lambda>_ _. Completed 0 ''ok'' stderr), host_clock = (\<lambda>_. Fin 0), today = Aware 0 0, file_digest = (\<lambda>_. [])\<rparr>)"

lemmas sample_cpp_run = cpp_execute_def cpp_validate_def cpp_identity_def probed_identity_def verdict_of_def has_model_path_def
  model_path_def artifact_key_def artifact_dump_def opt_str_def cpp_command_def gpu_layers_def completion_arguments_def context_arguments_def
  positive_option_def rendered_arguments_def guard_def int_flag_def truthy_flag_def inference_environment_def run_command_def
  completion_result_def accelerated_def accelerated_strategies_def max_binary_bytes_def sample_cpp_request_def sample_cpp_options_def sample_host_def

lemma sample_cpp_starts:
  "\<exists>cmd env. snd (cpp_execute (\<lambda>_. []) (\<lambda>_. []) (sample_host []) ''cli'' (sample_cpp_request sample_cpp_options False)) = Some (cmd, env)"
  by (simp add: sample_cpp_run Let_def del: int_str.simps)

theorem cpp_starts_what_it_measured_witness:
  "\<exists>cmd (env :: (string \<times> string) list). hd cmd = ''cli'' \<and> strategy (req_profile (sample_cpp_request sample_cpp_options False)) = ''resident''
    \<and> snd (cpp_execute (\<lambda>_. []) (\<lambda>_. []) (sample_host []) ''cli'' (sample_cpp_request sample_cpp_options False)) = Some (cmd, env)"
proof -
  obtain cmd env where run: "snd (cpp_execute (\<lambda>_. []) (\<lambda>_. []) (sample_host []) ''cli'' (sample_cpp_request sample_cpp_options False)) = Some (cmd, env)"
    using sample_cpp_starts by blast
  then show ?thesis using cpp_starts_what_it_measured [OF run] by (auto simp: sample_cpp_request_def)
qed

theorem rendered_run_is_explicit_witness:
  "\<exists>cmd (env :: (string \<times> string) list). (''LLAMA_ARG_TEMP'', ''2'') \<notin> set env
    \<and> snd (cpp_execute (\<lambda>_. []) (\<lambda>_. []) (sample_host []) ''cli'' (sample_cpp_request sample_cpp_options False)) = Some (cmd, env)"
proof -
  obtain cmd env where run: "snd (cpp_execute (\<lambda>_. []) (\<lambda>_. []) (sample_host []) ''cli'' (sample_cpp_request sample_cpp_options False)) = Some (cmd, env)"
    using sample_cpp_starts by blast
  have "(''LLAMA_ARG_TEMP'', ''2'') \<notin> set env"
    using rendered_run_is_explicit [OF run] by (auto simp: sample_cpp_request_def upper_char_def)
  then show ?thesis using run by blast
qed

lemma sample_cpp_succeeds:
  "\<exists>res. fst (cpp_execute (\<lambda>_. []) (\<lambda>_. []) (sample_host []) ''cli'' (sample_cpp_request sample_cpp_options False)) = Inr res \<and> success res"
  by (simp add: sample_cpp_run parse_timings_def Let_def del: int_str.simps)

theorem cpp_success_needs_clean_exit_witness:
  "\<exists>res :: execution_result. res_output res = Some ''ok'' \<and> error_class res = None"
proof -
  obtain res where run: "fst (cpp_execute (\<lambda>_. []) (\<lambda>_. []) (sample_host []) ''cli'' (sample_cpp_request sample_cpp_options False)) = Inr res" "success res"
    using sample_cpp_succeeds by blast
  show ?thesis using cpp_success_needs_clean_exit [OF run] by (auto simp: sample_host_def sample_cpp_request_def Let_def)
qed

lemma garbled_timings: "parse_timings ''load time = 1.2.3 ms'' t = Inl (ValueError ''could not convert string to float'')"
proof -
  have "split_lines ''load time = 1.2.3 ms'' = [''load time = 1.2.3 ms'']" by (simp add: is_line_break_def)
  moreover have "mentions ''load time'' ''load time = 1.2.3 ms''" by (simp add: mentions_def literal_def lower_char_def)
  moreover have "first_match load_time_at ''load time = 1.2.3 ms'' = Some ''1.2.3''"
    by (simp add: load_time_at_def literal_def lower_char_def skip_space_def is_space_def number_char_def is_digit_def)
  moreover have "float_of_match ''1.2.3'' = Inl (ValueError ''could not convert string to float'')"
    by (simp add: float_of_match_def is_digit_def)
  ultimately show ?thesis by (simp add: parse_timings_def timing_line_def with_match_def)
qed

text \<open>
  A completed run can be lost to its own statistics: when the process exits with code 0 and complete
  output but prints a duration such as \<open>1.2.3 ms\<close>, \<open>execute\<close> raises \<open>ValueError\<close> instead of returning a result.
\<close>

theorem cpp_garbled_timing_loses_run:
  "fst (cpp_execute (\<lambda>_. []) (\<lambda>_. []) (sample_host ''load time = 1.2.3 ms'') ''cli'' (sample_cpp_request sample_cpp_options False))
     = Inl (ValueError ''could not convert string to float'')"
  by (simp add: sample_cpp_run garbled_timings Let_def del: int_str.simps)

text \<open>
  Opting in to an unknown runtime without a model path makes \<open>execute\<close> raise \<open>KeyError\<close>; it starts no process.
\<close>

theorem cpp_missing_model_raises:
  "cpp_execute (\<lambda>_. []) (\<lambda>_. []) (sample_host []) ''cli'' (sample_cpp_request [] True) = (Inl (KeyError ''model_path''), None)"
  by (simp add: sample_cpp_run Let_def)

end
