(* ===== verification/Runtime_Adapters.thy ===== *)
theory Runtime_Adapters
  imports Scheduler_Safety Llama_Server_Properties Llama_Cpp_Properties
begin

text \<open>
  The interface \<open>RuntimeAdapter\<close> of \<open>runtime.py\<close> as its callers use it (the reference run, the benchmark matrix, the
  scheduler's evidence), and that both adapters of the repository, the llama.cpp command line and the llama.cpp
  server, honour it.
\<close>

section \<open>The contract\<close>

text \<open>
  \<open>may_return r res\<close>: executing \<open>r\<close> may return \<open>res\<close>. A result names its request and either succeeded, with output
  and without an error class, or failed with one. Only an admitted profile is executed, and a refusal says why. A
  validation that does not say \<open>UNSUPPORTED\<close> is about the profile it was asked for, in the scheduler's sense.
\<close>

locale runtime_adapter =
  fixes digest :: "pyval \<Rightarrow> string"
    and validate :: "inference_profile \<Rightarrow> profile_validation result"
    and may_return :: "execution_request \<Rightarrow> execution_result \<Rightarrow> bool"
  assumes answers_request: "may_return r res \<Longrightarrow> res_request_id res = request_id r"
    and succeeds_or_fails: "may_return r res \<Longrightarrow>
      (if success res then res_output res \<noteq> None \<and> error_class res = None else res_output res = None \<and> error_class res \<noteq> None)"
    and admits: "may_return r res \<Longrightarrow> \<exists>v. validate (req_profile r) = Inr v \<and>
      (\<not> admitted_by v r \<longrightarrow> error_class res = Some FAIL_RUNTIME \<and> error_detail res = Some (val_rationale v))"
    and about_profile: "validate p = Inr v \<Longrightarrow> profile_ok p \<Longrightarrow> val_state v \<noteq> UNSUPPORTED \<Longrightarrow>
      dumpable (val_options v) \<and> validation_matches digest p (val_runtime v) v = Inr True"
begin

lemma success_admitted: "may_return r res \<Longrightarrow> success res \<Longrightarrow> \<exists>v. validate (req_profile r) = Inr v \<and> admitted_by v r"
  using admits [of r res] succeeds_or_fails [of r res] by auto

lemma unsupported_fails: "may_return r res \<Longrightarrow> validate (req_profile r) = Inr v \<Longrightarrow> val_state v = UNSUPPORTED \<Longrightarrow> \<not> success res"
  using success_admitted [of r res] by (auto simp: admitted_by_def)

text \<open>The scheduler that is given the adapter's validation and current identity finds exactly this validation.\<close>

lemma scheduler_finds:
  assumes "validate p = Inr v" and "profile_ok p" and "val_state v \<noteq> UNSUPPORTED"
    and "profile_runtime_id p = runtime_id (val_runtime v)" and "named (rt_version (val_runtime v)) \<or> named (rt_build_id (val_runtime v))"
    and sch: "make_scheduler vs ls bs [v] [val_runtime v] now reading = Inr sch"
  shows "find_validation digest sch p = Inr (Some v)"
proof -
  have fields: "validations sch = [v]" "current_runtimes sch = [(runtime_id (val_runtime v), val_runtime v)]"
    using sch by (auto simp: make_scheduler_def Let_def agreed_runtimes_def group_runtimes_def runtime_eq_def)
  have about: "dumpable (val_options v)" "validation_matches digest p (val_runtime v) v = Inr True"
    using about_profile [OF assms(1-3)] by blast+
  obtain d where "json_dumps (validation_dump v) = Inr d"
    using dumps_ok_validation [OF about(1)] by (auto simp: dumps_ok_def)
  then show ?thesis
    using fields about(2) assms(4,5) by (auto simp: find_validation_def unique_by_def dict_of_def)
qed

end

section \<open>The command line adapter\<close>

lemma cpp_returns:
  assumes "fst (cpp_execute digest str_of h binary r) = Inr res"
  shows "res_request_id res = request_id r"
    "if success res then res_output res \<noteq> None \<and> error_class res = None else res_output res = None \<and> error_class res \<noteq> None"
    "\<exists>v. cpp_validate digest str_of h binary (req_profile r) = Inr v \<and>
      (\<not> admitted_by v r \<longrightarrow> error_class res = Some FAIL_RUNTIME \<and> error_detail res = Some (val_rationale v))"
proof -
  have ran: "res_request_id res = request_id r \<and>
      (if success res then res_output res \<noteq> None \<and> error_class res = None else res_output res = None \<and> error_class res \<noteq> None)"
    if "run_command h r rt call = Inr res" for rt call
    using that by (cases "run_process h (fst call) (snd call)")
      (auto simp: run_command_def completion_result_def failed_result_def Let_def split: if_splits)
  obtain v where v: "cpp_validate digest str_of h binary (req_profile r) = Inr v"
    using assms by (auto simp: cpp_execute_def split: sum.splits)
  have "res_request_id res = request_id r \<and>
      (if success res then res_output res \<noteq> None \<and> error_class res = None else res_output res = None \<and> error_class res \<noteq> None)
      \<and> (\<not> admitted_by v r \<longrightarrow> error_class res = Some FAIL_RUNTIME \<and> error_detail res = Some (val_rationale v))"
  proof (cases "admitted_by v r")
    case False
    then have "val_state v = UNSUPPORTED \<or> (val_state v = UNKNOWN \<and> \<not> req_allow_unknown r)"
      by (cases "val_state v") (auto simp: admitted_by_def)
    then have "res = failed_result r (val_runtime v) FAIL_RUNTIME (val_rationale v) no_timing"
      using assms v by (simp add: cpp_execute_def)
    then show ?thesis by (simp add: failed_result_def)
  next
    case True
    then have "\<not> (val_state v = UNSUPPORTED \<or> (val_state v = UNKNOWN \<and> \<not> req_allow_unknown r))" by (auto simp: admitted_by_def)
    then show ?thesis
      using assms v True ran by (auto simp: cpp_execute_def failed_result_def Let_def split: sum.splits exn.splits)
  qed
  then show "res_request_id res = request_id r"
    "if success res then res_output res \<noteq> None \<and> error_class res = None else res_output res = None \<and> error_class res \<noteq> None"
    "\<exists>v. cpp_validate digest str_of h binary (req_profile r) = Inr v \<and>
      (\<not> admitted_by v r \<longrightarrow> error_class res = Some FAIL_RUNTIME \<and> error_detail res = Some (val_rationale v))"
    using v by blast+
qed

lemma profile_options_dumped: "profile_ok p \<Longrightarrow> \<exists>t. json_dumps (PDict (profile_options p)) = Inr t"
  by (auto simp: profile_ok_def validate_profile_def simp del: json_dumps.simps)

lemma matches_itself:
  assumes "val_profile_id v = profile_id p" and "artifact_key digest (profile_artifact p) = Inr (val_artifact_key v)"
    and "val_resources v = participating_resources p" and "val_strategy v = strategy p"
    and "json_dumps (PDict (val_options v)) = Inr t" and "json_dumps (PDict (profile_options p)) = Inr t"
  shows "validation_matches digest p (val_runtime v) v = Inr True"
  using assms by (simp add: validation_matches_def eand_def runtime_eq_def del: json_dumps.simps)

lemma cpp_about_profile:
  assumes "cpp_validate digest str_of h binary p = Inr v" and "profile_ok p"
  shows "dumpable (val_options v) \<and> validation_matches digest p (val_runtime v) v = Inr True"
proof -
  obtain t where t: "json_dumps (PDict (profile_options p)) = Inr t" using profile_options_dumped [OF assms(2)] by blast
  from assms(1) have v: "val_profile_id v = profile_id p" "artifact_key digest (profile_artifact p) = Inr (val_artifact_key v)"
    "val_resources v = participating_resources p" "val_strategy v = strategy p" "val_options v = profile_options p"
    by (auto simp: validate_state)
  have "dumpable (profile_options p)" unfolding dumpable_def using t by blast
  moreover have "validation_matches digest p (val_runtime v) v = Inr True"
    by (rule matches_itself [OF v(1-4)]) (use v(5) t in \<open>simp_all del: json_dumps.simps\<close>)
  ultimately show ?thesis using v(5) by simp
qed

interpretation cpp: runtime_adapter digest "cpp_validate digest str_of h binary"
    "\<lambda>r res. fst (cpp_execute digest str_of h binary r) = Inr res" for digest str_of h binary
proof unfold_locales
  show "fst (cpp_execute digest str_of h binary r) = Inr res \<Longrightarrow> res_request_id res = request_id r" for r res by (rule cpp_returns)
  show "fst (cpp_execute digest str_of h binary r) = Inr res \<Longrightarrow>
      if success res then res_output res \<noteq> None \<and> error_class res = None else res_output res = None \<and> error_class res \<noteq> None" for r res
    by (rule cpp_returns)
  show "fst (cpp_execute digest str_of h binary r) = Inr res \<Longrightarrow> \<exists>v. cpp_validate digest str_of h binary (req_profile r) = Inr v \<and>
      (\<not> admitted_by v r \<longrightarrow> error_class res = Some FAIL_RUNTIME \<and> error_detail res = Some (val_rationale v))" for r res
    by (rule cpp_returns)
  show "cpp_validate digest str_of h binary p = Inr v \<Longrightarrow> profile_ok p \<Longrightarrow> val_state v \<noteq> UNSUPPORTED \<Longrightarrow>
      dumpable (val_options v) \<and> validation_matches digest p (val_runtime v) v = Inr True" for p v
    by (rule cpp_about_profile)
qed

section \<open>The server adapter\<close>

lemma server_returns:
  assumes "server_execute digest pr ad r s = (Inr res, s')"
  shows "res_request_id res = request_id r"
    "if success res then res_output res \<noteq> None \<and> error_class res = None else res_output res = None \<and> error_class res \<noteq> None"
    "\<exists>v. server_validate digest ad (req_profile r) = Inr v \<and>
      (\<not> admitted_by v r \<longrightarrow> error_class res = Some FAIL_RUNTIME \<and> error_detail res = Some (val_rationale v))"
proof -
  obtain started u v where v: "server_validate digest ad (req_profile r) = Inr v"
    and ran: "(if \<not> admitted_by v r then srv_lift (Inr (failed_result r (val_runtime (binding ad)) FAIL_RUNTIME (val_rationale v) no_timing))
     else srv_bind (srv_try (attempt_completion pr ad r started)) (\<lambda>outcome.
       srv_bind (read_monotonic pr) (\<lambda>ended.
       srv_lift (Inr (case outcome of
           Inl (cls, detail) \<Rightarrow> failed_result r (val_runtime (binding ad)) cls detail (no_timing\<lparr>total_seconds := Some (fsub ended started)\<rparr>)
         | Inr (content, n_in, n_out) \<Rightarrow> \<lparr>res_request_id = request_id r, res_runtime = val_runtime (binding ad), success = True,
             res_output = Some content, timings = (no_timing\<lparr>total_seconds := Some (fsub ended started)\<rparr>)\<lparr>t_prompt_tokens := Some n_in, generated_tokens := Some n_out\<rparr>,
             error_class = None, error_detail = None, raw_exit_code = None\<rparr>))))) u = (Inr res, s')"
    using assms unfolding server_execute_def srv_bind_Inr srv_lift_eq Let_def by (elim exE conjE) (rule that, assumption, assumption)
  have "res_request_id res = request_id r \<and>
      (if success res then res_output res \<noteq> None \<and> error_class res = None else res_output res = None \<and> error_class res \<noteq> None)
      \<and> (\<not> admitted_by v r \<longrightarrow> error_class res = Some FAIL_RUNTIME \<and> error_detail res = Some (val_rationale v))"
  proof (cases "admitted_by v r")
    case True
    then obtain outcome t where "res = (case outcome of
           Inl (cls, detail) \<Rightarrow> failed_result r (val_runtime (binding ad)) cls detail t
         | Inr (content, n_in, n_out) \<Rightarrow> \<lparr>res_request_id = request_id r, res_runtime = val_runtime (binding ad), success = True,
             res_output = Some content, timings = t\<lparr>t_prompt_tokens := Some n_in, generated_tokens := Some n_out\<rparr>,
             error_class = None, error_detail = None, raw_exit_code = None\<rparr>)"
      using ran by (simp add: srv_bind_Inr Let_def) blast
    then show ?thesis using True by (cases outcome) (auto simp: failed_result_def)
  qed (use ran in \<open>auto simp: failed_result_def\<close>)
  then show "res_request_id res = request_id r"
    "if success res then res_output res \<noteq> None \<and> error_class res = None else res_output res = None \<and> error_class res \<noteq> None"
    "\<exists>v. server_validate digest ad (req_profile r) = Inr v \<and>
      (\<not> admitted_by v r \<longrightarrow> error_class res = Some FAIL_RUNTIME \<and> error_detail res = Some (val_rationale v))"
    using v by blast+
qed

lemma server_about_profile:
  assumes "server_validate digest ad p = Inr v" and "val_state v \<noteq> UNSUPPORTED"
  shows "v = binding ad \<and> dumpable (val_options v) \<and> validation_matches digest p (val_runtime v) v = Inr True"
proof -
  let ?b = "binding ad"
  let ?matches = "if profile_runtime_id p = ''llama.cpp'' \<and> profile_id p = val_profile_id ?b then
         ebind (artifact_key digest (profile_artifact p)) (\<lambda>key.
         if key = val_artifact_key ?b \<and> participating_resources p = val_resources ?b \<and> strategy p = val_strategy ?b
         then ebind (json_dumps (PDict (profile_options p))) (\<lambda>o1. ebind (json_dumps (PDict (val_options ?b))) (\<lambda>o2. Inr (o1 = o2)))
         else Inr False)
       else Inr False"
  obtain m where m: "?matches = Inr m"
    and v: "v = (if m then ?b else ?b\<lparr>val_state := UNSUPPORTED, val_rationale := ''request differs from owned server profile''\<rparr>)"
    using assms(1) unfolding server_validate_def Let_def by (cases ?matches) (simp_all del: json_dumps.simps)
  have same: "m" "v = ?b" using v assms(2) by (auto split: if_splits)
  have "profile_id p = val_profile_id ?b" using m same(1) by (simp del: json_dumps.simps split: if_splits)
  moreover obtain key where "artifact_key digest (profile_artifact p) = Inr key" "key = val_artifact_key ?b"
      "participating_resources p = val_resources ?b" "strategy p = val_strategy ?b"
    and t: "\<exists>t. json_dumps (PDict (profile_options p)) = Inr t \<and> json_dumps (PDict (val_options ?b)) = Inr t"
    using m same(1) by (auto simp del: json_dumps.simps split: if_splits)
  ultimately have fields: "val_profile_id v = profile_id p" "artifact_key digest (profile_artifact p) = Inr (val_artifact_key v)"
    "val_resources v = participating_resources p" "val_strategy v = strategy p" and "v = binding ad" using same by simp_all
  from t obtain t where t: "json_dumps (PDict (val_options v)) = Inr t" "json_dumps (PDict (profile_options p)) = Inr t"
    unfolding same(2) by blast
  then have "dumpable (val_options v)" unfolding dumpable_def by blast
  with matches_itself [OF fields t] \<open>v = binding ad\<close> show ?thesis by blast
qed

interpretation server: runtime_adapter digest "server_validate digest ad"
    "\<lambda>r res. \<exists>s s'. server_execute digest pr ad r s = (Inr res, s')" for digest pr ad
proof unfold_locales
  show "\<exists>s s'. server_execute digest pr ad r s = (Inr res, s') \<Longrightarrow> res_request_id res = request_id r" for r res
    using server_returns(1) by blast
  show "\<exists>s s'. server_execute digest pr ad r s = (Inr res, s') \<Longrightarrow>
      if success res then res_output res \<noteq> None \<and> error_class res = None else res_output res = None \<and> error_class res \<noteq> None" for r res
    using server_returns(2) by blast
  show "\<exists>s s'. server_execute digest pr ad r s = (Inr res, s') \<Longrightarrow> \<exists>v. server_validate digest ad (req_profile r) = Inr v \<and>
      (\<not> admitted_by v r \<longrightarrow> error_class res = Some FAIL_RUNTIME \<and> error_detail res = Some (val_rationale v))" for r res
    using server_returns(3) by blast
  show "server_validate digest ad p = Inr v \<Longrightarrow> profile_ok p \<Longrightarrow> val_state v \<noteq> UNSUPPORTED \<Longrightarrow>
      dumpable (val_options v) \<and> validation_matches digest p (val_runtime v) v = Inr True" for p v
    using server_about_profile by blast
qed

section \<open>What the scheduler makes of them\<close>

lemma cpp_runtime_id: "cpp_identity h binary = Inr rt \<Longrightarrow> runtime_id rt = ''llama.cpp''"
  by (auto simp: cpp_identity_def probed_identity_def unavailable_def split: sum.splits if_split_asm option.splits prod.splits)

lemma cpp_names_llama:
  assumes "cpp_validate digest str_of h binary p = Inr v" and "val_state v \<noteq> UNSUPPORTED"
  shows "profile_runtime_id p = runtime_id (val_runtime v)"
  using assms cpp_runtime_id by (auto simp: validate_state verdict_of_def split: if_split_asm)

lemma server_names_llama:
  assumes made: "make_server port b limit = Inr ad" and "server_validate digest ad p = Inr v" and "val_state v \<noteq> UNSUPPORTED"
  shows "profile_runtime_id p = runtime_id (val_runtime v)"
proof -
  have "runtime_id (val_runtime (binding ad)) = ''llama.cpp''"
    using made by (auto simp: make_server_def owner_binding_def guard_def split: if_split_asm)
  moreover have "profile_runtime_id p = ''llama.cpp''"
    using assms(2,3) by (auto simp: server_validate_def Let_def split: if_split_asm)
  moreover have "v = binding ad" using server_about_profile [OF assms(2,3)] by blast
  ultimately show ?thesis by simp
qed

text \<open>
  C33. What an adapter certifies, the scheduler uses. Take a valid profile and the validation that either adapter, the
  llama.cpp command line or a llama.cpp server with an accepted owner binding, returned for it. Unless it says
  \<open>UNSUPPORTED\<close>, a scheduler that is given it and the runtime it measured, one with a version or a build id, finds exactly
  this validation for the profile: the runtime identity, artifact key, resources, strategy and options the adapter records are
  the ones the scheduler looks for.
\<close>

theorem adapter_validation_scheduled:
  assumes "cpp_validate digest str_of h binary p = Inr v
      \<or> (\<exists>port b limit ad. make_server port b limit = Inr ad \<and> server_validate digest ad p = Inr v)"
    and "profile_ok p" and "val_state v \<noteq> UNSUPPORTED" and "named (rt_version (val_runtime v)) \<or> named (rt_build_id (val_runtime v))"
    and "make_scheduler vs ls bs [v] [val_runtime v] now reading = Inr sch"
  shows "find_validation digest sch p = Inr (Some v)"
  using assms(1)
proof (elim disjE exE conjE)
  assume v: "cpp_validate digest str_of h binary p = Inr v"
  show ?thesis by (rule cpp.scheduler_finds [OF v assms(2,3) cpp_names_llama [OF v assms(3)] assms(4,5)])
next
  fix port b limit ad assume made: "make_server port b limit = Inr ad" and v: "server_validate digest ad p = Inr v"
  show ?thesis by (rule server.scheduler_finds [OF v assms(2,3) server_names_llama [OF made v assms(3)] assms(4,5)])
qed

text \<open>
  Whatever an adapter's \<open>execute\<close> returns, of either adapter, is a result for the request it was given: it either succeeded
  with an output and no error class, or failed with an error class and no output. A profile that the adapter's own validation
  finds \<open>UNSUPPORTED\<close>, or \<open>UNKNOWN\<close> without the caller's opt-in, fails as a runtime failure with the validation's reason.
\<close>

theorem adapter_results_honest:
  assumes "fst (cpp_execute digest str_of h binary r) = Inr res \<and> validated = cpp_validate digest str_of h binary (req_profile r)
      \<or> (\<exists>pr ad s s'. server_execute digest pr ad r s = (Inr res, s') \<and> validated = server_validate digest ad (req_profile r))"
  shows "res_request_id res = request_id r \<and> success res = (res_output res \<noteq> None) \<and> success res = (error_class res = None)
    \<and> (case validated of Inl e \<Rightarrow> False | Inr v \<Rightarrow> admitted_by v r \<or>
      (\<not> success res \<and> error_class res = Some FAIL_RUNTIME \<and> error_detail res = Some (val_rationale v)))"
  using assms
proof (elim disjE exE conjE)
  assume run: "fst (cpp_execute digest str_of h binary r) = Inr res" and "validated = cpp_validate digest str_of h binary (req_profile r)"
  then show ?thesis
    using cpp.answers_request [OF run] cpp.succeeds_or_fails [OF run] cpp.admits [OF run] by (cases "success res") auto
next
  fix pr ad s s' assume "server_execute digest pr ad r s = (Inr res, s')" and v: "validated = server_validate digest ad (req_profile r)"
    then have run: "\<exists>s s'. server_execute digest pr ad r s = (Inr res, s')" by blast
  show ?thesis
    using server.answers_request [OF run] server.succeeds_or_fails [OF run] server.admits [OF run] v by (cases "success res") auto
qed

theorem adapter_results_honest_witness:
  "\<exists>res :: execution_result. res_request_id res = ''q'' \<and> res_output res \<noteq> None \<and> error_class res = None"
proof -
  let ?run = "cpp_execute (\<lambda>_. []) (\<lambda>_. []) (sample_host []) ''cli'' (sample_cpp_request sample_cpp_options False)"
  obtain res where run: "fst ?run = Inr res" "success res" using sample_cpp_succeeds by blast
  let ?v = "cpp_validate (\<lambda>_. []) (\<lambda>_. []) (sample_host []) ''cli'' (req_profile (sample_cpp_request sample_cpp_options False))"
  have "fst ?run = Inr res \<and> ?v = ?v
      \<or> (\<exists>pr ad s s'. server_execute (\<lambda>_. []) pr ad (sample_cpp_request sample_cpp_options False) s = (Inr res, s')
          \<and> ?v = server_validate (\<lambda>_. []) ad (req_profile (sample_cpp_request sample_cpp_options False)))"
    using run(1) by blast
  from adapter_results_honest [OF this] show ?thesis using run(2) by (auto simp: sample_cpp_request_def)
qed

lemma sample_server_facts:
  "make_server 8080 (binding sample_server) 1024 = Inr sample_server"
  "server_validate (\<lambda>_. []) sample_server sample_server_profile = Inr (binding sample_server)"
  "profile_ok sample_server_profile"
proof -
  obtain t where "json_dumps (PDict (profile_options sample_server_profile)) = Inr t" using sample_server_options ..
  moreover have "artifact_key (\<lambda>_. []) (profile_artifact sample_server_profile) = Inr ''artifact-v2:''"
    by (simp add: artifact_key_def artifact_dump_def opt_str_def sample_server_profile_def del: int_str.simps)
  ultimately show "server_validate (\<lambda>_. []) sample_server sample_server_profile = Inr (binding sample_server)"
    by (auto simp: server_validate_def sample_server_def Let_def sample_server_profile_def simp del: json_dumps.simps)
qed (simp_all add: make_server_def owner_binding_def guard_def sample_server_def sample_server_profile_def
  profile_ok_def validate_profile_def del: int_str.simps)

theorem adapter_validation_scheduled_witness:
  "\<exists>sch :: scheduler. sch_vessels sch = []
    \<and> find_validation (\<lambda>_. []) sch sample_server_profile = Inr (Some (binding sample_server))"
proof -
  let ?v = "binding sample_server"
  obtain sch where made: "make_scheduler [] [] [] [?v] [val_runtime ?v] (Some (Aware 0 0)) (Aware 0 0) = Inr sch"
    and empty: "sch_vessels sch = []" by (simp add: make_scheduler_def guard_def Let_def)
  have adapter: "cpp_validate (\<lambda>_. []) (\<lambda>_. []) (sample_host []) ''cli'' sample_server_profile = Inr ?v
      \<or> (\<exists>port b limit ad. make_server port b limit = Inr ad \<and> server_validate (\<lambda>_. []) ad sample_server_profile = Inr ?v)"
    using sample_server_facts by blast
  have "val_state ?v \<noteq> UNSUPPORTED" "named (rt_version (val_runtime ?v)) \<or> named (rt_build_id (val_runtime ?v))"
    by (simp_all add: sample_server_def named_def)
  from adapter_validation_scheduled [OF adapter sample_server_facts(3) this made] empty show ?thesis by blast
qed

end
