(* ===== verification/Stateful.thy ===== *)
theory Stateful
  imports LH_Prelude
begin

text \<open>
  Statements that read and change a state and may raise. The state keeps what happened before an exception.
\<close>

type_synonym ('s, 'a) stateful = "'s \<Rightarrow> 'a result \<times> 's"

definition yield_step :: "'a result \<Rightarrow> ('s, 'a) stateful" where
  "yield_step r s = (r, s)"

definition then_step :: "('s, 'a) stateful \<Rightarrow> ('a \<Rightarrow> ('s, 'b) stateful) \<Rightarrow> ('s, 'b) stateful" where
  "then_step m f s = (case m s of (Inl e, s') \<Rightarrow> (Inl e, s') | (Inr x, s') \<Rightarrow> f x s')"

definition change :: "('s \<Rightarrow> 's) \<Rightarrow> ('s, unit) stateful" where
  "change f s = (Inr (), f s)"

definition look :: "('s \<Rightarrow> 'a) \<Rightarrow> ('s, 'a) stateful" where
  "look f s = (Inr (f s), s)"

text \<open>An attribute an earlier statement set; reading an attribute of \<open>None\<close> raises.\<close>

definition need :: "('s \<Rightarrow> 'a option) \<Rightarrow> ('s, 'a) stateful" where
  "need f s = (case f s of None \<Rightarrow> (Inl (OtherError ''AttributeError''), s) | Some x \<Rightarrow> (Inr x, s))"

definition catch_step :: "(exn \<Rightarrow> bool) \<Rightarrow> ('s, 'a) stateful \<Rightarrow> ('s, 'a result) stateful" where
  "catch_step handled m s = (case m s of
       (Inr x, s') \<Rightarrow> (Inr (Inr x), s')
     | (Inl e, s') \<Rightarrow> (if handled e then (Inr (Inl e), s') else (Inl e, s')))"

lemma then_step_Inr: "then_step m f s = (Inr y, s'') \<longleftrightarrow> (\<exists>x s'. m s = (Inr x, s') \<and> f x s' = (Inr y, s''))"
  by (auto simp: then_step_def split: prod.splits sum.splits)

lemma then_step_Inl: "then_step m f s = (Inl e, s'') \<longleftrightarrow> m s = (Inl e, s'') \<or> (\<exists>x s'. m s = (Inr x, s') \<and> f x s' = (Inl e, s''))"
  by (auto simp: then_step_def split: prod.splits sum.splits)

lemma yield_step_eq [simp]: "yield_step r s = (r', s') \<longleftrightarrow> r = r' \<and> s' = s"
  by (auto simp: yield_step_def)

lemma change_eq [simp]: "change f s = (r, s') \<longleftrightarrow> r = Inr () \<and> s' = f s"
  by (auto simp: change_def)

lemma look_eq [simp]: "look f s = (r, s') \<longleftrightarrow> r = Inr (f s) \<and> s' = s"
  by (auto simp: look_def)

end
