(* ===== verification/Jsonl_Store.thy ===== *)
theory Jsonl_Store
  imports Fleet_Events Runtime_Contracts Python_Text
begin

text \<open>
  The JSON-lines files behind the event store (\<open>EventStore\<close> in \<open>events/store.py\<close>) and the benchmark store
  (\<open>BenchmarkStore\<close> in \<open>benchmarks/store.py\<close>), and that they implement the lists of records the other theories
  use. A file is its text, or nothing while it does not exist; \<open>dump\<close> and \<open>parse\<close> are \<open>model_dump_json\<close> and
  \<open>model_validate_json\<close>. Text is read with universal newlines and split with \<open>str.splitlines\<close>.
\<close>

type_synonym text_file = "string option"

definition newline :: char where "newline = char_of (10 :: nat)"

definition carriage_return :: char where "carriage_return = char_of (13 :: nat)"

fun universal_newlines :: "string \<Rightarrow> string" where
  "universal_newlines [] = []"
| "universal_newlines (c # s) =
     (if c = carriage_return then newline # universal_newlines (if starts_with s [newline] then tl s else s)
      else c # universal_newlines s)"

section \<open>The stores\<close>

definition append_line :: "('a \<Rightarrow> string) \<Rightarrow> text_file \<Rightarrow> 'a \<Rightarrow> text_file" where
  "append_line dump f x = Some ((case f of None \<Rightarrow> [] | Some t \<Rightarrow> t) @ dump x @ [newline])"

definition file_records :: "(string \<Rightarrow> bool) \<Rightarrow> (string \<Rightarrow> 'a result) \<Rightarrow> text_file \<Rightarrow> 'a list result" where
  "file_records keep parse f = (case f of None \<Rightarrow> Inr []
     | Some t \<Rightarrow> emap parse (filter keep (split_lines (universal_newlines t))))"

definition event_file_append :: "(event \<Rightarrow> string) \<Rightarrow> text_file \<Rightarrow> event \<Rightarrow> text_file" where
  "event_file_append dump f e = append_line dump f e"

definition event_file_events :: "(string \<Rightarrow> event result) \<Rightarrow> text_file \<Rightarrow> event list result" where
  "event_file_events parse f = file_records (\<lambda>line. strip line \<noteq> []) parse f"

definition export_jsonl :: "(event \<Rightarrow> string) \<Rightarrow> (string \<Rightarrow> event result) \<Rightarrow> text_file \<Rightarrow> string result" where
  "export_jsonl dump parse f = ebind (event_file_events parse f) (\<lambda>es. Inr (concat (map (\<lambda>e. dump e @ [newline]) es)))"

definition bench_file_append :: "(observation \<Rightarrow> string) \<Rightarrow> text_file \<Rightarrow> observation \<Rightarrow> text_file" where
  "bench_file_append dump f b = append_line dump f b"

definition bench_file_query ::
  "(string \<Rightarrow> observation result) \<Rightarrow> string option \<Rightarrow> execution_mode option \<Rightarrow> string set option \<Rightarrow> text_file
     \<Rightarrow> observation list result" where
  "bench_file_query parse pid mode resources f =
     ebind (file_records (\<lambda>line. line \<noteq> []) parse f) (\<lambda>values. Inr (bench_query pid mode resources (Some values)))"

section \<open>Lines of a file\<close>

definition unbroken :: "string \<Rightarrow> bool" where
  "unbroken s \<longleftrightarrow> (\<forall>c \<in> set s. \<not> is_line_break c)"

lemma newline_facts [simp]: "is_line_break newline" "is_line_break carriage_return" "newline \<noteq> carriage_return"
  "carriage_return \<noteq> newline" "(of_char newline :: nat) = 10"
  by (simp_all add: is_line_break_def newline_def carriage_return_def)

lemma unbroken_newlines: "unbroken s \<Longrightarrow> universal_newlines (s @ t) = s @ universal_newlines t"
  by (induction s) (auto simp: unbroken_def)

lemma split_lines_unbroken: "unbroken s \<Longrightarrow> s \<noteq> [] \<Longrightarrow> split_lines s = [s]"
proof (induction s)
  case (Cons c s)
  then show ?case by (cases s) (auto simp: unbroken_def)
qed simp

lemma split_lines_line: "unbroken s \<Longrightarrow> is_line_break c \<Longrightarrow> (c = carriage_return \<Longrightarrow> \<not> starts_with t [newline]) \<Longrightarrow>
  split_lines (s @ c # t) = s # split_lines t"
proof (induction s)
  case Nil
  have "(of_char c :: nat) = 13 \<Longrightarrow> c = carriage_return" by (metis carriage_return_def char_of_char)
  then have "after_break c t = t" using Nil by (auto simp: after_break_def newline_def)
  then show ?case using Nil by simp
qed (auto simp: unbroken_def)

text \<open>\<open>complete\<close>: nothing follows the last newline.\<close>

definition complete_text :: "string \<Rightarrow> bool" where
  "complete_text t \<longleftrightarrow> t = [] \<or> last t = newline"

definition complete_file :: "text_file \<Rightarrow> bool" where
  "complete_file f \<longleftrightarrow> (case f of None \<Rightarrow> True | Some t \<Rightarrow> complete_text t)"

lemma complete_text_Cons: "complete_text (c # s) \<Longrightarrow> s \<noteq> [] \<Longrightarrow> complete_text s"
  by (simp add: complete_text_def)

lemma complete_text_tl: "complete_text s \<Longrightarrow> complete_text (tl s)"
  by (cases s; cases "tl s") (auto simp: complete_text_def)

lemma universal_newlines_append: "complete_text t \<Longrightarrow> universal_newlines (t @ u) = universal_newlines t @ universal_newlines u"
proof (induction t rule: universal_newlines.induct)
  case (2 c s)
  show ?case
  proof (cases "s = []")
    case True
    then show ?thesis using 2 by (simp add: complete_text_def)
  next
    case False
    then have s: "complete_text s" using 2 complete_text_Cons by blast
    have "starts_with (s @ u) [newline] = starts_with s [newline]" using False by (cases s) simp_all
    moreover have "complete_text (tl s)" using s by (rule complete_text_tl)
    ultimately show ?thesis using 2 s False by (auto split: if_splits)
  qed
qed simp

lemma universal_newlines_no_return: "carriage_return \<notin> set (universal_newlines t)"
  by (induction t rule: universal_newlines.induct) auto

lemma universal_newlines_complete: "complete_text t \<Longrightarrow> complete_text (universal_newlines t)"
proof (induction t rule: universal_newlines.induct)
  case (2 c s)
  have empty: "universal_newlines x = [] \<longleftrightarrow> x = []" for x by (cases x) auto
  show ?case
  proof (cases "s = []")
    case False
    then have "complete_text s" using 2 complete_text_Cons by blast
    moreover have "complete_text (tl s)" using \<open>complete_text s\<close> by (rule complete_text_tl)
    ultimately show ?thesis using 2 False by (auto simp: complete_text_def empty split: if_splits)
  qed (use 2 in \<open>auto simp: complete_text_def\<close>)
qed simp

lemma split_lines_append:
  "complete_text t \<Longrightarrow> carriage_return \<notin> set t \<Longrightarrow> split_lines (t @ u) = split_lines t @ split_lines u"
proof (induction t)
  case (Cons c s)
  have not_return: "(of_char c :: nat) \<noteq> 13" using Cons.prems(2) by (metis carriage_return_def char_of_char list.set_intros(1))
  then have after: "after_break c x = x" for x by (simp add: after_break_def)
  show ?case
  proof (cases "s = []")
    case True
    then have "c = newline" using Cons.prems by (simp add: complete_text_def)
    then show ?thesis using True after by simp
  next
    case False
    then have IH: "split_lines (s @ u) = split_lines s @ split_lines u" using Cons complete_text_Cons by fastforce
    have "split_lines s \<noteq> []" using False by (cases s) (auto split: list.splits)
    then show ?thesis using IH after by (auto split: list.splits)
  qed
qed simp

text \<open>What appending a line adds to what is read.\<close>

lemma file_records_append:
  assumes "complete_file f"
  shows "complete_file (append_line dump f x) \<and> file_records keep parse (append_line dump f x) =
    ebind (file_records keep parse f) (\<lambda>xs. ebind (file_records keep parse (append_line dump None x)) (\<lambda>ys. Inr (xs @ ys)))"
proof -
  have emap_append: "emap parse (as @ bs) = ebind (emap parse as) (\<lambda>xs. ebind (emap parse bs) (\<lambda>ys. Inr (xs @ ys)))" for as bs
  proof (induction as)
    case (Cons a as)
    then show ?case by (cases "parse a"; cases "emap parse as"; cases "emap parse bs") auto
  qed (cases "emap parse bs"; simp)
  have complete: "complete_file (append_line dump f x)" by (simp add: complete_file_def append_line_def complete_text_def)
  show ?thesis
  proof (cases f)
    case None
    then show ?thesis using complete by (cases "file_records keep parse (append_line dump None x)") (simp_all add: file_records_def)
  next
    case (Some t)
    then have "complete_text t" using assms by (simp add: complete_file_def)
    then have "split_lines (universal_newlines (t @ dump x @ [newline]))
        = split_lines (universal_newlines t) @ split_lines (universal_newlines (dump x @ [newline]))"
      by (simp add: universal_newlines_append split_lines_append universal_newlines_complete universal_newlines_no_return)
    then show ?thesis using complete by (simp add: Some append_line_def file_records_def emap_append)
  qed
qed

lemma file_records_line:
  "unbroken (dump x) \<Longrightarrow> keep (dump x) \<Longrightarrow> file_records keep parse (append_line dump None x) = ebind (parse (dump x)) (\<lambda>y. Inr [y])"
  using split_lines_line [of "dump x" newline "[]"]
  by (simp add: file_records_def append_line_def unbroken_newlines)

text \<open>\<open>faithful\<close>: the line of a record is one line that is kept and reads back as the record.\<close>

definition faithful :: "(string \<Rightarrow> bool) \<Rightarrow> ('a \<Rightarrow> string) \<Rightarrow> (string \<Rightarrow> 'a result) \<Rightarrow> 'a \<Rightarrow> bool" where
  "faithful keep dump parse x \<longleftrightarrow> unbroken (dump x) \<and> keep (dump x) \<and> parse (dump x) = Inr x"

lemma file_records_appended:
  assumes "complete_file f" and "file_records keep parse f = Inr old" and "list_all (faithful keep dump parse) xs"
  shows "complete_file (foldl (append_line dump) f xs)
    \<and> file_records keep parse (foldl (append_line dump) f xs) = Inr (old @ xs)"
  using assms
proof (induction xs arbitrary: f old)
  case (Cons x xs)
  then have "file_records keep parse (append_line dump None x) = Inr [x]"
    by (simp add: faithful_def file_records_line)
  then have "complete_file (append_line dump f x)" "file_records keep parse (append_line dump f x) = Inr (old @ [x])"
    using file_records_append [OF Cons.prems(1), of dump x keep parse] Cons.prems(2) by simp_all
  from Cons.IH [OF this] Cons.prems(3) show ?case by simp
qed simp

lemma file_records_poisoned:
  assumes "complete_file f" and "file_records keep parse f = Inl err"
  shows "file_records keep parse (foldl (append_line dump) f xs) = Inl err"
  using assms
proof (induction xs arbitrary: f)
  case (Cons x xs)
  then have "complete_file (append_line dump f x) \<and> file_records keep parse (append_line dump f x) = Inl err"
    using file_records_append [OF Cons.prems(1), of dump x keep parse] by simp
  then show ?case using Cons.IH by simp
qed simp

section \<open>Properties\<close>

lemma event_file_append_fold: "event_file_append dump = append_line dump"
  by (simp add: event_file_append_def fun_eq_iff)

lemma bench_file_append_fold: "bench_file_append dump = append_line dump"
  by (simp add: bench_file_append_def fun_eq_iff)

lemma store_events_appended: "store_events (foldl store_append s es) = store_events s @ es"
  by (induction es arbitrary: s) (auto simp: store_events_def store_append_def split: option.splits)

lemma bench_query_appended:
  "bench_query pid mode resources (foldl bench_append s bs) = bench_query pid mode resources s @ bench_query pid mode resources (Some bs)"
  by (induction bs arbitrary: s) (auto simp: bench_query_def bench_append_def split: option.splits)

lemma appended_text: "foldl (append_line dump) (Some t) xs = Some (t @ concat (map (\<lambda>x. dump x @ [newline]) xs))"
  by (induction xs arbitrary: t) (simp_all add: append_line_def)

text \<open>
  The event file implements the list of events the fleet is replayed from: as long as every event's line has no
  line break in it, is not blank and parses back to the event, appending events to a file that reads back as a
  list leaves a file that reads back as that list with the events at its end, in order; the export lists
  the same events, and for a new file it is the file's own text.
\<close>

theorem event_file_implements_store:
  assumes "complete_file f" and "event_file_events parse f = Inr (store_events s)"
    and "list_all (faithful (\<lambda>line. strip line \<noteq> []) dump parse) es"
  shows "complete_file (foldl (event_file_append dump) f es)
    \<and> event_file_events parse (foldl (event_file_append dump) f es) = Inr (store_events (foldl store_append s es))
    \<and> export_jsonl dump parse (foldl (event_file_append dump) f es)
        = Inr (concat (map (\<lambda>e. dump e @ [newline]) (store_events s @ es)))
    \<and> foldl (event_file_append dump) (Some []) es = Some (concat (map (\<lambda>e. dump e @ [newline]) es))"
  using file_records_appended [OF assms(1) assms(2) [unfolded event_file_events_def] assms(3)]
  by (simp add: event_file_append_fold event_file_events_def export_jsonl_def store_events_appended appended_text)

text \<open>
  The benchmark file implements the benchmark store the scheduler's evidence is read from: a query over the file
  that appending observations produces answers what the query over the appended list answers, provided the line
  of each observation is one nonempty line that parses back to it.
\<close>

theorem bench_file_implements_query:
  assumes "list_all (faithful (\<lambda>line. line \<noteq> []) dump parse) bs"
  shows "bench_file_query parse pid mode resources (foldl (bench_file_append dump) None bs)
    = Inr (bench_query pid mode resources (foldl bench_append None bs))"
proof -
  have "file_records (\<lambda>line. line \<noteq> []) parse (foldl (append_line dump) None bs) = Inr ([] @ bs)"
    by (rule file_records_appended [OF _ _ assms, THEN conjunct2]) (simp_all add: complete_file_def file_records_def)
  moreover have "bench_query pid mode resources None = []" by (simp add: bench_query_def)
  ultimately show ?thesis by (simp add: bench_file_query_def bench_file_append_fold bench_query_appended)
qed

text \<open>
  One event can make a log unreadable for good. When the line of an event contains a character at which
  \<open>str.splitlines\<close> splits (JSON leaves U+0085 unescaped), and what precedes it is not an event by itself,
  appending the event succeeds, but reading the log raises then and after any further appends, although
  everything before it was readable: every operation that replays the log raises from then on.
\<close>

theorem split_event_poisons_log:
  assumes "complete_file f" and "event_file_events parse f = Inr old"
    and "dump e = a @ c # rest" and "unbroken a" and "is_line_break c" and "c \<noteq> carriage_return"
    and "strip a \<noteq> []" and "parse a = Inl err"
  shows "event_file_events parse (foldl (event_file_append dump) (event_file_append dump f e) es) = Inl err"
proof -
  have "split_lines (universal_newlines (dump e @ [newline])) = a # split_lines (universal_newlines (rest @ [newline]))"
    using assms(3-6) by (simp add: unbroken_newlines split_lines_line)
  then have "file_records (\<lambda>line. strip line \<noteq> []) parse (append_line dump None e) = Inl err"
    using assms(7,8) by (simp add: file_records_def append_line_def)
  then have "complete_file (append_line dump f e) \<and> file_records (\<lambda>line. strip line \<noteq> []) parse (append_line dump f e) = Inl err"
    using file_records_append [OF assms(1), of dump e "\<lambda>line. strip line \<noteq> []" parse] assms(2) by (simp add: event_file_events_def)
  then have "file_records (\<lambda>line. strip line \<noteq> []) parse (foldl (append_line dump) (append_line dump f e) es) = Inl err"
    by (elim conjE) (rule file_records_poisoned)
  then show ?thesis by (simp add: event_file_append_fold event_file_events_def)
qed

text \<open>A concrete event and a codec that only looks at the closing brace, for the witnesses.\<close>

definition sample_logged :: "string \<Rightarrow> event" where
  "sample_logged i = \<lparr>ev_id = i, ev_timestamp = Aware 0 0, ev_type = E_request, ev_actor = None, ev_source = None, ev_payload = []\<rparr>"

definition sample_line :: "event \<Rightarrow> string" where
  "sample_line e = ''{'' @ ev_id e @ ''}''"

definition sample_reader :: "string \<Rightarrow> event result" where
  "sample_reader t = (if starts_with t ''{'' \<and> last t = CHR ''}'' then Inr (sample_logged (butlast (tl t))) else Inl (ValueError ''invalid JSON''))"

definition next_line :: char where "next_line = char_of (133 :: nat)"

lemma event_file_implements_store_witness:
  "event_file_events sample_reader (foldl (event_file_append sample_line) None [sample_logged ''a'', sample_logged ''b''])
    = Inr [sample_logged ''a'', sample_logged ''b'']"
proof -
  have none: "complete_file None" "event_file_events sample_reader None = Inr (store_events None)"
    by (simp_all add: complete_file_def event_file_events_def file_records_def store_events_def)
  have lines: "list_all (faithful (\<lambda>line. strip line \<noteq> []) sample_line sample_reader) [sample_logged ''a'', sample_logged ''b'']"
    by code_simp
  have "store_events (foldl store_append None [sample_logged ''a'', sample_logged ''b'']) = [sample_logged ''a'', sample_logged ''b'']"
    unfolding store_events_appended by (simp add: store_events_def)
  with event_file_implements_store [OF none lines] show ?thesis by metis
qed

definition sample_observed :: "string \<Rightarrow> observation" where
  "sample_observed i = \<lparr>obs_id = i, obs_timestamp = Aware 0 0,
     obs_profile = \<lparr>profile_id = ''P'', profile_runtime_id = ''rt'', strategy = ''cpu'',
       profile_artifact = \<lparr>foundation = ''m'', revision = None, quantization = None, adapters = [], auxiliary_artifacts = []\<rparr>,
       participating_resources = [], requirements = [], profile_options = [], profile_schema_version = 1\<rparr>, obs_plan_mode = LOCAL, obs_resources = [],
     obs_workload = \<lparr>workload_name = ''w'', prompt_tokens = 1, output_tokens = 1, cold = False\<rparr>, obs_provenance = Measured,
     obs_load_seconds = None, obs_ttft_seconds = None, obs_prefill_tps = None, obs_decode_tps = None, residency_mib = [],
     utilization = [], network = [], power_watts = None, obs_error = None, obs_schema_version = 1, obs_runtime = None\<rparr>"

lemma bench_file_implements_query_witness:
  "bench_file_query (\<lambda>line. Inr (sample_observed line)) None None None
      (foldl (bench_file_append obs_id) None [sample_observed ''a''])
    = Inr (bench_query None None None (foldl bench_append None [sample_observed ''a'']))"
proof -
  have "unbroken ''a''" by code_simp
  then have "list_all (faithful (\<lambda>line. line \<noteq> []) obs_id (\<lambda>line. Inr (sample_observed line))) [sample_observed ''a'']"
    by (simp add: faithful_def sample_observed_def)
  then show ?thesis by (rule bench_file_implements_query)
qed

lemma split_event_poisons_log_witness:
  "event_file_events sample_reader (foldl (event_file_append sample_line)
      (event_file_append sample_line None (sample_logged [next_line])) [sample_logged ''a'']) = Inl (ValueError ''invalid JSON'')"
proof (rule split_event_poisons_log [where a = "''{''" and c = next_line and rest = "''}''" and old = "[]"])
  show "complete_file None" "event_file_events sample_reader None = Inr []"
    by (simp_all add: complete_file_def event_file_events_def file_records_def)
  show "sample_line (sample_logged [next_line]) = ''{'' @ next_line # ''}''" by (simp add: sample_line_def sample_logged_def)
  show "unbroken ''{''" "is_line_break next_line" "next_line \<noteq> carriage_return" "strip ''{'' \<noteq> []"
    "sample_reader ''{'' = Inl (ValueError ''invalid JSON'')"
    by code_simp+
qed

end
