(* ===== verification/Reference_Run.thy ===== *)
theory Reference_Run
  imports Stateful Llama_Cpp Scheduler_Core Jsonl_Store
begin

text \<open>
  The reference run (\<open>reference.py\<close>) and its report (\<open>validation.py\<close>): discovery, validation, a direct
  inference, a benchmark, a scheduled inference and the replay of the log, recorded as layers 0 to 10.

  The state of the run holds the report in memory and every version of it that was saved. The world is the
  parameter \<open>site\<close>: the discovered vessel, the host at each call of the llama.cpp adapter (the preflight, the
  two executions and the identity check are calls 0 to 3), ids, clocks, which writes and reads fail, and how an
  event and an observation are written as a JSON line and read back. Both logs are files, read as theory
  Jsonl_Store says.
\<close>

section \<open>Reports\<close>

datatype layer_state =
  L_PASS | L_UNSUPPORTED | L_UNKNOWN | L_FAIL_SYSTEM | L_FAIL_RUNTIME | L_FAIL_ARTIFACT | L_FAIL_RESOURCE

record layer_result =
  layer :: int
  layer_verdict :: layer_state
  layer_detail :: string

text \<open>What \<open>report.artifact\<close> holds, before it is dumped.\<close>

datatype artifact_entry =
  A_Vessel vessel | A_Validation profile_validation | A_Plan execution_plan | A_Result execution_result

record report =
  layers :: "layer_result list"
  report_artifact :: "(string, artifact_entry) dict"

definition record_layer :: "int \<Rightarrow> layer_state \<Rightarrow> string \<Rightarrow> report \<Rightarrow> report" where
  "record_layer n st detail rep = rep\<lparr>layers := layers rep @ [\<lparr>layer = n, layer_verdict = st, layer_detail = detail\<rparr>]\<rparr>"

fun replace_layer :: "layer_result \<Rightarrow> layer_result list \<Rightarrow> layer_result list" where
  "replace_layer r [] = [r]"
| "replace_layer r (l # ls) = (if layer l = layer r then r # ls else l # replace_layer r ls)"

definition set_layer :: "int \<Rightarrow> layer_state \<Rightarrow> string \<Rightarrow> report \<Rightarrow> report" where
  "set_layer n st detail rep =
     rep\<lparr>layers := replace_layer \<lparr>layer = n, layer_verdict = st, layer_detail = detail\<rparr> (layers rep)\<rparr>"

definition put_artifact :: "string \<Rightarrow> artifact_entry \<Rightarrow> report \<Rightarrow> report" where
  "put_artifact k a rep = rep\<lparr>report_artifact := AList.update k a (report_artifact rep)\<rparr>"

section \<open>The run and its world\<close>

record site =
  discovered :: "vessel result"
  hosts :: "nat \<Rightarrow> host"
  binary_file :: string
  model_file :: string
  host_vessel_id :: string
  run_timeout :: pyfloat
  new_id :: "nat \<Rightarrow> string"
  wall_time :: "nat \<Rightarrow> datetime"
  scheduler_time :: datetime
  error_text :: "exn \<Rightarrow> string"
  evidence_clock :: "nat \<Rightarrow> nat \<Rightarrow> datetime"
  save_outcome :: "nat \<Rightarrow> unit result"
  append_outcome :: "nat \<Rightarrow> unit result"
  benchmark_outcome :: "nat \<Rightarrow> unit result"
  event_line :: "event \<Rightarrow> string"
  read_event :: "string \<Rightarrow> event result"
  observation_line :: "observation \<Rightarrow> string"
  read_observation :: "string \<Rightarrow> observation result"

record run =
  current_report :: report
  saved_reports :: "report list"
  event_log :: text_file
  benchmark_log :: text_file
  run_vessel :: "vessel option"
  run_profile :: "inference_profile option"
  run_validation :: "profile_validation option"
  direct_result :: "execution_result option"
  executions :: "(execution_request \<times> execution_result result) list"
  writes_tried :: nat
  ids_used :: nat

type_synonym 'a step = "(run, 'a) stateful"

definition on_report :: "(report \<Rightarrow> report) \<Rightarrow> unit step" where
  "on_report f = change (\<lambda>s. s\<lparr>current_report := f (current_report s)\<rparr>)"

definition save_report :: "site \<Rightarrow> unit step" where
  "save_report w s = (case save_outcome w (length (saved_reports s)) of
     Inl e \<Rightarrow> (Inl e, s) | Inr _ \<Rightarrow> (Inr (), s\<lparr>saved_reports := saved_reports s @ [current_report s]\<rparr>))"

definition fresh_id :: "site \<Rightarrow> string step" where
  "fresh_id w s = (Inr (new_id w (ids_used s)), s\<lparr>ids_used := Suc (ids_used s)\<rparr>)"

definition log_event :: "site \<Rightarrow> event_type \<Rightarrow> string \<Rightarrow> payload \<Rightarrow> unit step" where
  "log_event w kind source payload = then_step (fresh_id w) (\<lambda>i s.
     case append_outcome w (writes_tried s) of
       Inl e \<Rightarrow> (Inl e, s\<lparr>writes_tried := Suc (writes_tried s)\<rparr>)
     | Inr _ \<Rightarrow> (Inr (), s\<lparr>writes_tried := Suc (writes_tried s), event_log := event_file_append (event_line w) (event_log s)
         \<lparr>ev_id = i, ev_timestamp = wall_time w (ids_used s), ev_type = kind, ev_actor = None, ev_source = Some source, ev_payload = payload\<rparr>\<rparr>))"

definition execute_request :: "(pyval \<Rightarrow> string) \<Rightarrow> (pyval \<Rightarrow> string) \<Rightarrow> site \<Rightarrow> nat \<Rightarrow> execution_request \<Rightarrow> execution_result step" where
  "execute_request digest str_of w call r s = (let res = fst (cpp_execute digest str_of (hosts w call) (binary_file w) r) in
     (res, s\<lparr>executions := executions s @ [(r, res)]\<rparr>))"

section \<open>Stages\<close>

definition layer_of_failure :: "execution_result \<Rightarrow> layer_state" where
  "layer_of_failure res = (if error_class res = Some FAIL_RESOURCE then L_FAIL_RESOURCE else L_FAIL_RUNTIME)"

definition detail_or :: "string \<Rightarrow> string option \<Rightarrow> string" where
  "detail_or d x = (case x of None \<Rightarrow> d | Some t \<Rightarrow> if t = [] then d else t)"

definition reference_profile :: "site \<Rightarrow> string \<Rightarrow> inference_profile" where
  "reference_profile w cpu = \<lparr>profile_id = host_vessel_id w @ ''-cpu-resident'', profile_runtime_id = ''llama.cpp'', strategy = ''resident'',
     profile_artifact = \<lparr>foundation = ''SmolLM2-135M-Instruct-GGUF'', revision = None, quantization = Some ''Q4_K_M'',
       adapters = [], auxiliary_artifacts = []\<rparr>,
     participating_resources = [cpu], requirements = [], profile_options = [(''model_path'', PStr (model_file w))], profile_schema_version = 1\<rparr>"

definition prepare :: "(pyval \<Rightarrow> string) \<Rightarrow> (pyval \<Rightarrow> string) \<Rightarrow> site \<Rightarrow> bool step" where
  "prepare digest str_of w =
     then_step (on_report (record_layer 0 L_PASS ''imports and schemas loaded'')) (\<lambda>_.
     then_step (on_report (record_layer 1 L_PASS ''append-only event store available'')) (\<lambda>_.
     then_step (yield_step (discovered w)) (\<lambda>v.
     then_step (change (\<lambda>s. s\<lparr>run_vessel := Some v\<rparr>)) (\<lambda>_.
     then_step (on_report (put_artifact ''vessel'' (A_Vessel v))) (\<lambda>_.
     then_step (on_report (record_layer 2 L_PASS ''platform discovery completed'')) (\<lambda>_.
     case filter (\<lambda>r. res_kind r = CPU) (vessel_resources v) of
       [] \<Rightarrow> then_step (on_report (record_layer 3 L_FAIL_RESOURCE ''discovery returned no CPU resource'')) (\<lambda>_.
         then_step (save_report w) (\<lambda>_. yield_step (Inr False)))
     | cpu # _ \<Rightarrow>
         then_step (yield_step (validate_profile (reference_profile w (res_id cpu)))) (\<lambda>p.
         then_step (change (\<lambda>s. s\<lparr>run_profile := Some p\<rparr>)) (\<lambda>_.
         then_step (yield_step (cpp_validate digest str_of (hosts w 0) (binary_file w) p)) (\<lambda>val.
         then_step (change (\<lambda>s. s\<lparr>run_validation := Some val\<rparr>)) (\<lambda>_.
         then_step (on_report (put_artifact ''validation'' (A_Validation val))) (\<lambda>_.
         if val_state val = SUPPORTED then
           then_step (on_report (record_layer 3 L_PASS (val_rationale val))) (\<lambda>_.
           then_step (on_report (record_layer 4 L_PASS ''GGUF artifact present'')) (\<lambda>_. yield_step (Inr True)))
         else
           then_step (on_report (record_layer 3 (if val_state val = UNSUPPORTED then L_UNSUPPORTED else L_UNKNOWN) (val_rationale val))) (\<lambda>_.
           then_step (save_report w) (\<lambda>_. yield_step (Inr False))))))))))))))"

definition reference_request :: "site \<Rightarrow> string \<Rightarrow> inference_profile \<Rightarrow> string \<Rightarrow> int \<Rightarrow> execution_request" where
  "reference_request w i p text tokens = \<lparr>request_id = i, req_profile = p, prompt = text, max_tokens = tokens, temperature = Fin 0,
     timeout_seconds = run_timeout w, req_allow_unknown = False, seed = None, context_tokens = None, req_prompt_mode = RuntimeDefault\<rparr>"

definition new_request :: "site \<Rightarrow> inference_profile \<Rightarrow> string \<Rightarrow> int \<Rightarrow> execution_request step" where
  "new_request w p text tokens = then_step (fresh_id w) (\<lambda>i. yield_step (validate_request (reference_request w i p text tokens)))"

definition log_started :: "site \<Rightarrow> execution_request \<Rightarrow> unit step" where
  "log_started w r = log_event w E_request ''reference'' [(''request_id'', VStr (request_id r)), (''state'', VStr ''started'')]"

definition direct :: "(pyval \<Rightarrow> string) \<Rightarrow> (pyval \<Rightarrow> string) \<Rightarrow> site \<Rightarrow> bool step" where
  "direct digest str_of w =
     then_step (need run_profile) (\<lambda>p.
     then_step (new_request w p ''Return exactly: LONG_HAUL_OK'' 12) (\<lambda>r.
     then_step (log_started w r) (\<lambda>_.
     then_step (on_report (record_layer 5 L_UNKNOWN ''inference is in progress'')) (\<lambda>_.
     then_step (save_report w) (\<lambda>_.
     then_step (execute_request digest str_of w 1 r) (\<lambda>res.
     if \<not> success res then
       then_step (on_report (set_layer 5 (layer_of_failure res) (detail_or ''inference failed'' (error_detail res)))) (\<lambda>_.
       then_step (save_report w) (\<lambda>_. yield_step (Inr False)))
     else
       then_step (need run_validation) (\<lambda>v.
       let v' = v\<lparr>val_depth := EXECUTION, val_provenance := VMeasured\<rparr> in
       then_step (change (\<lambda>s. s\<lparr>run_validation := Some v'\<rparr>)) (\<lambda>_.
       then_step (on_report (put_artifact ''validation'' (A_Validation v'))) (\<lambda>_.
       then_step (on_report (set_layer 5 L_PASS ''normalized inference and model load succeeded'')) (\<lambda>_.
       then_step (change (\<lambda>s. s\<lparr>direct_result := Some res\<rparr>)) (\<lambda>_. yield_step (Inr True))))))))))))"

definition observation_of :: "datetime \<Rightarrow> string \<Rightarrow> inference_profile \<Rightarrow> execution_result \<Rightarrow> observation" where
  "observation_of at_time i p res = \<lparr>obs_id = i, obs_timestamp = at_time, obs_profile = p, obs_plan_mode = LOCAL,
     obs_resources = participating_resources p,
     obs_workload = \<lparr>workload_name = ''exact-string'', prompt_tokens = 0, output_tokens = 0, cold = True\<rparr>, obs_provenance = Measured,
     obs_load_seconds = load_seconds (timings res), obs_ttft_seconds = ttft_seconds (timings res),
     obs_prefill_tps = prefill_tps (timings res), obs_decode_tps = decode_tps (timings res),
     residency_mib = [], utilization = [], network = [], power_watts = None, obs_error = None, obs_schema_version = 1,
     obs_runtime = Some (res_runtime res)\<rparr>"

text \<open>
  \<open>store.append\<close> then \<open>store.query\<close>, inside \<open>try: ... except (OSError, ValueError)\<close>; the log of an
  existing output directory may hold records the query cannot read.
\<close>

definition os_error :: "exn \<Rightarrow> bool" where
  "os_error e \<longleftrightarrow> e \<in> {OtherError ''OSError'', OtherError ''FileNotFoundError'', OtherError ''PermissionError''}"

definition query_benchmarks :: "site \<Rightarrow> string \<Rightarrow> observation list step" where
  "query_benchmarks w pid =
     then_step (look (\<lambda>s. bench_file_query (read_observation w) (Some pid) None None (benchmark_log s))) yield_step"

definition store_and_query :: "site \<Rightarrow> observation \<Rightarrow> observation list step" where
  "store_and_query w b =
     then_step (yield_step (benchmark_outcome w 0)) (\<lambda>_.
     then_step (change (\<lambda>s. s\<lparr>benchmark_log := bench_file_append (observation_line w) (benchmark_log s) b\<rparr>)) (\<lambda>_.
     then_step (yield_step (benchmark_outcome w 1)) (\<lambda>_.
     query_benchmarks w (profile_id (obs_profile b)))))"

definition give_up_benchmark :: "site \<Rightarrow> string \<Rightarrow> bool step" where
  "give_up_benchmark w why = then_step (on_report (record_layer 6 L_FAIL_SYSTEM why)) (\<lambda>_.
     then_step (save_report w) (\<lambda>_. yield_step (Inr False)))"

definition benchmark :: "site \<Rightarrow> bool step" where
  "benchmark w =
     then_step (need direct_result) (\<lambda>res.
     then_step (need run_profile) (\<lambda>p.
     then_step (fresh_id w) (\<lambda>i.
     then_step (look (\<lambda>s. wall_time w (ids_used s))) (\<lambda>t.
     then_step (catch_step (\<lambda>e. os_error e \<or> is_value_error e) (store_and_query w (observation_of t i p res))) (\<lambda>found.
     case found of
       Inl e \<Rightarrow> give_up_benchmark w (''benchmark persistence/query failed: '' @ error_text w e)
     | Inr [] \<Rightarrow> give_up_benchmark w ''benchmark persistence/query returned no observation''
     | Inr _ \<Rightarrow>
         then_step (need run_validation) (\<lambda>v.
         let v' = v\<lparr>val_depth := BENCHMARK\<rparr> in
         then_step (change (\<lambda>s. s\<lparr>run_validation := Some v'\<rparr>)) (\<lambda>_.
         then_step (on_report (put_artifact ''validation'' (A_Validation v'))) (\<lambda>_.
         then_step (on_report (record_layer 6 L_PASS ''measured benchmark persisted and queried'')) (\<lambda>_. yield_step (Inr True))))))))))"

definition reference_mission :: mission_requirements where
  "reference_mission = \<lparr>mission_id = ''reference'', required_resources = {}, requires_sync_cross_node = False, allow_modes = {LOCAL},
     mission_workload = None, evidence_not_before = None, safety_ok = True, cooperation_ok = True, minimum_memory_mib = Fin 0,
     allow_unknown_runtime = False, restartable = False, preemption = AllowPreemptible\<rparr>"

definition choose_plan :: "(pyval \<Rightarrow> string) \<Rightarrow> site \<Rightarrow> candidate step" where
  "choose_plan digest w =
     then_step (need run_profile) (\<lambda>p.
     then_step (need run_vessel) (\<lambda>v.
     then_step (yield_step (benchmark_outcome w 2)) (\<lambda>_.
     then_step (query_benchmarks w (profile_id p)) (\<lambda>bs.
     then_step (need run_validation) (\<lambda>val.
     then_step (yield_step (cpp_identity (hosts w 2) (binary_file w))) (\<lambda>rt.
     then_step (yield_step (make_scheduler [v] [] bs [val] [rt] None (scheduler_time w))) (\<lambda>sch.
     yield_step (ebind (validate_mission reference_mission) (\<lambda>m. select digest (evidence_clock w) sch m [p])))))))))"

definition scheduled :: "(pyval \<Rightarrow> string) \<Rightarrow> (pyval \<Rightarrow> string) \<Rightarrow> site \<Rightarrow> bool step" where
  "scheduled digest str_of w =
     then_step (choose_plan digest w) (\<lambda>selected.
     then_step (on_report (put_artifact ''selected_plan'' (A_Plan (cand_plan selected)))) (\<lambda>_.
     then_step (on_report (record_layer 7 L_PASS ''scheduler selected validated LOCAL resident plan'')) (\<lambda>_.
     then_step (need run_profile) (\<lambda>p.
     then_step (new_request w p ''Say hello.'' 8) (\<lambda>r.
     then_step (log_event w E_decision ''scheduler'' [(''plan_id'', VStr (plan_id (cand_plan selected)))]) (\<lambda>_.
     then_step (log_started w r) (\<lambda>_.
     then_step (on_report (record_layer 8 L_UNKNOWN ''scheduled execution is in progress'')) (\<lambda>_.
     then_step (save_report w) (\<lambda>_.
     then_step (execute_request digest str_of w 3 r) (\<lambda>res.
     if \<not> success res then
       then_step (on_report (set_layer 8 (layer_of_failure res) (detail_or ''scheduled execution failed'' (error_detail res)))) (\<lambda>_.
       then_step (on_report (put_artifact ''execution_result'' (A_Result res))) (\<lambda>_.
       then_step (save_report w) (\<lambda>_. yield_step (Inr False))))
     else
       then_step (on_report (set_layer 8 L_PASS ''scheduler-selected plan executed'')) (\<lambda>_.
       then_step (on_report (put_artifact ''execution_result'' (A_Result res))) (\<lambda>_. yield_step (Inr True)))))))))))))"

definition result_output :: "report \<Rightarrow> pvalue result" where
  "result_output rep = (case map_of (report_artifact rep) ''execution_result'' of
       Some (A_Result res) \<Rightarrow> Inr (case res_output res of None \<Rightarrow> VOther PNone | Some t \<Rightarrow> VStr t)
     | _ \<Rightarrow> Inl (KeyError ''execution_result''))"

definition finish :: "site \<Rightarrow> unit step" where
  "finish w =
     then_step (look (\<lambda>s. result_output (current_report s))) (\<lambda>text.
     then_step (yield_step text) (\<lambda>text_value.
     then_step (log_event w E_observation ''runtime'' [(''success'', VBool True), (''output'', text_value)]) (\<lambda>_.
     then_step (on_report (record_layer 9 L_PASS ''execution events persisted'')) (\<lambda>_.
     then_step (look (\<lambda>s. event_file_events (read_event w) (event_log s))) (\<lambda>read.
     then_step (yield_step read) (\<lambda>events.
     then_step (yield_step (materialize events [] [])) (\<lambda>_.
     then_step (on_report (record_layer 10 L_PASS ''fresh event-log replay completed'')) (\<lambda>_.
     save_report w))))))))"

definition run_reference :: "(pyval \<Rightarrow> string) \<Rightarrow> (pyval \<Rightarrow> string) \<Rightarrow> site \<Rightarrow> unit step" where
  "run_reference digest str_of w =
     then_step (prepare digest str_of w) (\<lambda>prepared.
     if \<not> prepared then yield_step (Inr ()) else
     then_step (direct digest str_of w) (\<lambda>inferred.
     if \<not> inferred then yield_step (Inr ()) else
     then_step (benchmark w) (\<lambda>measured.
     if \<not> measured then yield_step (Inr ()) else
     then_step (scheduled digest str_of w) (\<lambda>executed.
     if \<not> executed then yield_step (Inr ()) else finish w))))"

definition new_run :: "text_file \<Rightarrow> text_file \<Rightarrow> run" where
  "new_run events bench = \<lparr>current_report = \<lparr>layers = [], report_artifact = []\<rparr>, saved_reports = [], event_log = events, benchmark_log = bench,
     run_vessel = None, run_profile = None, run_validation = None, direct_result = None, executions = [], writes_tried = 0, ids_used = 0\<rparr>"

end
