(* ===== verification/Reference_Properties.thy ===== *)
theory Reference_Properties
  imports Reference_Run Llama_Cpp_Properties
begin

text \<open>
  What the report of a reference run says. The proofs are Hoare triples over the part of the state the
  claims are about: the layers in memory, the layers of every saved report, and the outcomes of executions.
\<close>

section \<open>Reports a run can have\<close>

type_synonym progress_view = "layer_result list \<times> layer_result list list \<times> execution_result result list"

definition view :: "run \<Rightarrow> progress_view" where
  "view s = (layers (current_report s), map layers (saved_reports s), map snd (executions s))"

text \<open>Consecutive layers from 0, each but the last passed.\<close>

definition in_order :: "layer_result list \<Rightarrow> bool" where
  "in_order ls \<longleftrightarrow> map layer ls = map int [0..<length ls] \<and> (\<forall>l \<in> set (butlast ls). layer_verdict l = L_PASS)"

definition all_passed :: "layer_result list \<Rightarrow> bool" where
  "all_passed ls \<longleftrightarrow> (\<forall>l \<in> set ls. layer_verdict l = L_PASS)"

definition executed :: "nat \<Rightarrow> execution_result result list \<Rightarrow> bool" where
  "executed k outs \<longleftrightarrow> length outs = k \<and> (\<forall>out \<in> set outs. \<exists>res. out = Inr res \<and> success res)"

definition says_unknown :: "layer_result list list \<Rightarrow> bool" where
  "says_unknown saved \<longleftrightarrow> saved \<noteq> [] \<and> last saved \<noteq> [] \<and> layer_verdict (last (last saved)) = L_UNKNOWN"

definition executions_due :: "nat \<Rightarrow> nat" where
  "executions_due n = (if 9 \<le> n then 2 else if 6 \<le> n then 1 else 0)"

definition truthful :: "progress_view \<Rightarrow> bool" where
  "truthful = (\<lambda>(ls, saved, outs). in_order ls \<and> (\<forall>old \<in> set saved. in_order old)
     \<and> (all_passed ls \<longrightarrow> executed (executions_due (length ls)) outs))"

definition stage :: "nat \<Rightarrow> progress_view \<Rightarrow> bool" where
  "stage n = (\<lambda>(ls, saved, outs). truthful (ls, saved, outs) \<and> all_passed ls \<and> length ls = n \<and> (6 \<le> n \<longrightarrow> says_unknown saved))"

definition waiting :: "nat \<Rightarrow> nat \<Rightarrow> progress_view \<Rightarrow> bool" where
  "waiting n k = (\<lambda>(ls, saved, outs). truthful (ls, saved, outs) \<and> length ls = n \<and> 0 < n \<and> layer_verdict (last ls) = L_UNKNOWN \<and> executed k outs)"

text \<open>A run that raises leaves a saved report that, if layer 5 was reached and all passed, still says unknown.\<close>

definition broken_off :: "progress_view \<Rightarrow> bool" where
  "broken_off = (\<lambda>(ls, saved, outs). truthful (ls, saved, outs) \<and> (all_passed ls \<and> 6 \<le> length ls \<longrightarrow> says_unknown saved))"

lemma stage_broken_off: "stage n v \<Longrightarrow> broken_off v"
  by (auto simp: stage_def broken_off_def)

lemma unknown_not_passed: "length ls = n \<Longrightarrow> 0 < n \<Longrightarrow> layer_verdict (last ls) \<noteq> L_PASS \<Longrightarrow> \<not> all_passed ls"
  by (auto simp: all_passed_def)

lemma waiting_broken_off: "waiting n k v \<Longrightarrow> broken_off v"
  using unknown_not_passed by (auto simp: waiting_def broken_off_def)

lemma broken_off_truthful: "broken_off v \<Longrightarrow> truthful v"
  by (auto simp: broken_off_def)

section \<open>Triples\<close>

definition triple :: "(progress_view \<Rightarrow> bool) \<Rightarrow> 'a step \<Rightarrow> ('a \<Rightarrow> progress_view \<Rightarrow> bool) \<Rightarrow> bool" where
  "triple P m Q \<longleftrightarrow> (\<forall>s. P (view s) \<longrightarrow>
     (case m s of (Inr x, s') \<Rightarrow> Q x (view s') | (Inl e, s') \<Rightarrow> broken_off (view s')))"

definition silent :: "'a step \<Rightarrow> bool" where
  "silent m \<longleftrightarrow> (\<forall>s. view (snd (m s)) = view s)"

named_theorems silent_intros "steps that leave layers, saved reports and executions alone"

lemma triple_returns: "triple P m Q \<Longrightarrow> P (view s) \<Longrightarrow> m s = (Inr x, s') \<Longrightarrow> Q x (view s')"
  unfolding triple_def by fastforce

lemma triple_raises: "triple P m Q \<Longrightarrow> P (view s) \<Longrightarrow> m s = (Inl e, s') \<Longrightarrow> broken_off (view s')"
  unfolding triple_def by fastforce

lemma tripleI:
  "(\<And>s x s'. P (view s) \<Longrightarrow> m s = (Inr x, s') \<Longrightarrow> Q x (view s')) \<Longrightarrow>
   (\<And>s e s'. P (view s) \<Longrightarrow> m s = (Inl e, s') \<Longrightarrow> broken_off (view s')) \<Longrightarrow> triple P m Q"
  unfolding triple_def by (simp split: prod.split sum.split)

lemma triple_then:
  assumes "triple P m Q" and "\<And>x. triple (Q x) (f x) R"
  shows "triple P (then_step m f) R"
proof (rule tripleI)
  fix s y s'' assume "P (view s)" "then_step m f s = (Inr y, s'')"
  then show "R y (view s'')"
    unfolding then_step_Inr using triple_returns [OF assms(1)] triple_returns [OF assms(2)] by blast
next
  fix s e s'' assume "P (view s)" "then_step m f s = (Inl e, s'')"
  then show "broken_off (view s'')"
    unfolding then_step_Inl using triple_returns [OF assms(1)] triple_raises [OF assms(1)] triple_raises [OF assms(2)] by blast
qed

lemma silent_view: "silent m \<Longrightarrow> m s = (r, s') \<Longrightarrow> view s' = view s"
  unfolding silent_def by (drule spec [of _ s]) simp

lemma silentI: "(\<And>s r s'. m s = (r, s') \<Longrightarrow> view s' = view s) \<Longrightarrow> silent m"
  unfolding silent_def by (metis prod.exhaust_sel)

lemma triple_silent: "silent m \<Longrightarrow> (\<And>v. P v \<Longrightarrow> broken_off v) \<Longrightarrow> triple P m (\<lambda>_. P)"
  by (rule tripleI) (simp_all only: silent_view)

lemma triple_weaken: "triple P m Q \<Longrightarrow> (\<And>x v. Q x v \<Longrightarrow> R x v) \<Longrightarrow> triple P m R"
  by (rule tripleI) (meson triple_returns, meson triple_raises)

lemma triple_then_silent:
  "silent m \<Longrightarrow> (\<And>v. P v \<Longrightarrow> broken_off v) \<Longrightarrow> (\<And>x. triple P (f x) R) \<Longrightarrow> triple P (then_step m f) R"
  by (rule triple_then [OF triple_silent])

lemma triple_yield: "(\<And>v. P v \<Longrightarrow> Q x v) \<Longrightarrow> triple P (yield_step (Inr x)) Q"
  by (simp add: triple_def yield_step_def)

lemma silent_then [silent_intros]:
  assumes "silent m" and "\<And>x. silent (f x)"
  shows "silent (then_step m f)"
proof (rule silentI)
  fix s r s'' assume run: "then_step m f s = (r, s'')"
  obtain r' s' where first: "m s = (r', s')" by fastforce
  then show "view s'' = view s"
    using run silent_view [OF assms(1) first] silent_view [OF assms(2)] by (cases r') (auto simp: then_step_def)
qed

lemma silent_basic [silent_intros]:
  "silent (yield_step r)" "silent (look f)" "silent (need g)" "silent (fresh_id w)" "silent (log_event w kind source payload)"
proof -
  show "silent (yield_step r)" "silent (look f)" "silent (need g)" and fresh: "silent (fresh_id w)"
    by (auto simp: silent_def yield_step_def look_def need_def fresh_id_def view_def split: option.splits)
  show "silent (log_event w kind source payload)"
    unfolding log_event_def by (rule silent_then [OF fresh]) (auto simp: silent_def view_def split: sum.splits)
qed

lemma silent_change [silent_intros]: "(\<And>s. view (f s) = view s) \<Longrightarrow> silent (change f)"
  by (simp add: silent_def change_def)

lemma silent_artifact [silent_intros]: "silent (on_report (put_artifact k a))"
  unfolding on_report_def by (intro silent_intros) (simp add: view_def put_artifact_def)

lemma silent_catch [silent_intros]: "silent m \<Longrightarrow> silent (catch_step handled m)"
  by (rule silentI) (auto simp: catch_step_def dest: silent_view split: prod.splits sum.splits if_splits)

lemma silent_request [silent_intros]: "silent (new_request w p text n)" "silent (log_started w r)"
  unfolding new_request_def log_started_def by (intro silent_intros)+

lemma silent_query [silent_intros]: "silent (query_benchmarks w pid)" "silent (store_and_query w b)"
  unfolding store_and_query_def query_benchmarks_def by (intro silent_intros; simp add: view_def)+

lemma silent_choose [silent_intros]: "silent (choose_plan digest w)"
  unfolding choose_plan_def by (intro silent_intros)

section \<open>The effects on the report\<close>

lemma triple_report: "(\<And>ls saved outs rep. layers rep = ls \<Longrightarrow> P (ls, saved, outs) \<Longrightarrow> Q () (layers (f rep), saved, outs)) \<Longrightarrow> triple P (on_report f) Q"
  by (rule tripleI) (auto simp: on_report_def change_def view_def)

lemma in_order_snoc: "all_passed ls \<Longrightarrow> in_order ls \<Longrightarrow> layer l = int (length ls) \<Longrightarrow> in_order (ls @ [l])"
  by (simp add: in_order_def all_passed_def)

lemma record_pass:
  assumes "i = int n" and "m = Suc n" and "executions_due m = executions_due n" and "m \<noteq> 6"
  shows "triple (stage n) (on_report (record_layer i L_PASS detail)) (\<lambda>_. stage m)"
  unfolding assms(1,2)
proof (rule triple_report)
  fix ls saved outs and rep :: report assume "layers rep = ls" and "stage n (ls, saved, outs)"
  moreover have "6 \<le> Suc n \<Longrightarrow> 6 \<le> n" using assms(2,4) by simp
  ultimately show "stage (Suc n) (layers (record_layer (int n) L_PASS detail rep), saved, outs)"
    using assms(2,3) in_order_snoc [of ls] by (auto simp: stage_def truthful_def record_layer_def all_passed_def)
qed

lemma record_open:
  "verdict \<noteq> L_PASS \<Longrightarrow> triple (stage n) (on_report (record_layer (int n) verdict detail)) (\<lambda>_ (ls, saved, outs).
     truthful (ls, saved, outs) \<and> length ls = Suc n \<and> layer_verdict (last ls) = verdict \<and> executed (executions_due n) outs)"
  by (rule triple_report) (auto simp: stage_def truthful_def record_layer_def in_order_snoc all_passed_def)

lemma record_waiting:
  "i = int n \<Longrightarrow> m = Suc n \<Longrightarrow> k = executions_due n \<Longrightarrow> triple (stage n) (on_report (record_layer i L_UNKNOWN detail)) (\<lambda>_. waiting m k)"
  by (simp, rule triple_weaken [OF record_open]) (auto simp: waiting_def)

lemma replace_last:
  "map layer ls = map int [0..<Suc n] \<Longrightarrow> replace_layer \<lparr>layer = int n, layer_verdict = st, layer_detail = d\<rparr> ls
     = butlast ls @ [\<lparr>layer = int n, layer_verdict = st, layer_detail = d\<rparr>]"
proof -
  assume "map layer ls = map int [0..<Suc n]"
  then obtain l ks where ls: "ls = ks @ [l]" and l: "layer l = int n" and ks: "map layer ks = map int [0..<n]"
    by (cases ls rule: rev_cases) auto
  have "int n \<notin> layer ` set ks"
  proof
    assume "int n \<in> layer ` set ks"
    then have "int n \<in> set (map int [0..<n])" by (simp flip: ks)
    then show False by auto
  qed
  then show ?thesis unfolding ls using l by (induction ks) auto
qed

lemma save_triple:
  assumes "\<And>ls saved outs. P (ls, saved, outs) \<Longrightarrow> in_order ls \<and> broken_off (ls, saved, outs) \<and> Q () (ls, saved @ [ls], outs)"
  shows "triple P (save_report w) Q"
  using assms by (intro tripleI) (auto simp: save_report_def view_def split: sum.splits)

definition due :: "nat \<Rightarrow> nat \<Rightarrow> execution_result result \<Rightarrow> progress_view \<Rightarrow> bool" where
  "due n k out = (\<lambda>(ls, saved, outs). truthful (ls, saved, outs) \<and> length ls = n \<and> 0 < n \<and> layer_verdict (last ls) = L_UNKNOWN
     \<and> says_unknown saved \<and> (\<exists>before. outs = before @ [out] \<and> executed k before))"

lemma due_broken_off: "due n k out v \<Longrightarrow> broken_off v"
  using unknown_not_passed by (auto simp: due_def broken_off_def)

definition saved_waiting :: "nat \<Rightarrow> nat \<Rightarrow> progress_view \<Rightarrow> bool" where
  "saved_waiting n k = (\<lambda>(ls, saved, outs). waiting n k (ls, saved, outs) \<and> says_unknown saved)"

lemma save_waiting: "triple (waiting n k) (save_report w) (\<lambda>_. saved_waiting n k)"
  using waiting_broken_off by (intro save_triple) (auto simp: saved_waiting_def waiting_def truthful_def says_unknown_def)

lemma execute_triple: "triple (saved_waiting n k) (execute_request digest str_of w call r) (\<lambda>res. due n k (Inr res))"
  using unknown_not_passed
  by (intro tripleI) (auto simp: execute_request_def view_def Let_def saved_waiting_def waiting_def due_def truthful_def broken_off_def)

lemma settle:
  assumes "due (Suc n) k (Inr res) (ls, saved, outs)" and "layers rep = ls"
  shows "in_order (layers (set_layer (int n) st d rep)) \<and> length (layers (set_layer (int n) st d rep)) = Suc n
    \<and> layer_verdict (last (layers (set_layer (int n) st d rep))) = st \<and> (all_passed (layers (set_layer (int n) st d rep)) \<longleftrightarrow> st = L_PASS)"
proof -
  have ls: "map layer ls = map int [0..<Suc n]" "\<forall>l \<in> set (butlast ls). layer_verdict l = L_PASS" "length ls = Suc n"
    using assms(1) by (auto simp: due_def truthful_def in_order_def)
  moreover have "map layer (butlast ls) = map int [0..<n]" using ls(1) by (simp add: map_butlast)
  ultimately show ?thesis
    using replace_last [OF ls(1)] assms(2) by (auto simp: set_layer_def in_order_def all_passed_def)
qed

lemma settle_pass:
  assumes "i = int n" and "m = Suc n" and "success res" and "executions_due m = Suc k"
  shows "triple (due m k (Inr res)) (on_report (set_layer i L_PASS d)) (\<lambda>_. stage m)"
  unfolding assms(1,2)
proof (rule triple_report)
  fix ls saved outs and rep :: report assume "layers rep = ls" and due: "due (Suc n) k (Inr res) (ls, saved, outs)"
  then show "stage (Suc n) (layers (set_layer (int n) L_PASS d rep), saved, outs)"
    using settle [OF due] assms by (auto simp: stage_def truthful_def due_def executed_def)
qed

definition stopped :: "progress_view \<Rightarrow> bool" where
  "stopped = (\<lambda>(ls, saved, outs). truthful (ls, saved, outs) \<and> ls \<noteq> [] \<and> layer_verdict (last ls) \<noteq> L_PASS)"

lemma stopped_broken_off: "stopped v \<Longrightarrow> broken_off v"
  by (auto simp: stopped_def broken_off_def all_passed_def)

lemma settle_failed:
  assumes "i = int n" and "m = Suc n" and "st \<noteq> L_PASS"
  shows "triple (due m k (Inr res)) (on_report (set_layer i st d)) (\<lambda>_. stopped)"
  unfolding assms(1,2)
proof (rule triple_report)
  fix ls saved outs and rep :: report assume "layers rep = ls" and due: "due (Suc n) k (Inr res) (ls, saved, outs)"
  then show "stopped (layers (set_layer (int n) st d rep), saved, outs)"
    using settle [OF due, of rep st d] assms
    by (cases "layers (set_layer (int n) st d rep)") (auto simp: stopped_def truthful_def due_def)
qed

lemma save_stopped: "triple stopped (save_report w) (\<lambda>_. stopped)"
  using stopped_broken_off by (intro save_triple) (auto simp: stopped_def truthful_def)

lemma record_stopped: "i = int n \<Longrightarrow> verdict \<noteq> L_PASS \<Longrightarrow> triple (stage n) (on_report (record_layer i verdict detail)) (\<lambda>_. stopped)"
  by (simp, rule triple_weaken [OF record_open]) (auto simp: stopped_def)

section \<open>The stages\<close>

text \<open>A stage answers \<open>True\<close> with all of its layers passed, and \<open>False\<close> with its last layer not passed.\<close>

definition outcome :: "nat \<Rightarrow> bool \<Rightarrow> progress_view \<Rightarrow> bool" where
  "outcome n ok = (if ok then stage n else stopped)"

lemma silent_step:
  "silent m \<Longrightarrow> (\<And>x. triple (stage n) (f x) R) \<Longrightarrow> triple (stage n) (then_step m f) R"
  "silent m \<Longrightarrow> (\<And>x. triple (due n k out) (f x) R) \<Longrightarrow> triple (due n k out) (then_step m f) R"
  "silent m \<Longrightarrow> (\<And>x. triple stopped (f x) R) \<Longrightarrow> triple stopped (then_step m f) R"
  using triple_then_silent stage_broken_off due_broken_off stopped_broken_off by metis+

lemma record_passes:
  "triple (stage 0) (on_report (record_layer 0 L_PASS d)) (\<lambda>_. stage 1)"
  "triple (stage 1) (on_report (record_layer 1 L_PASS d)) (\<lambda>_. stage 2)"
  "triple (stage 2) (on_report (record_layer 2 L_PASS d)) (\<lambda>_. stage 3)"
  "triple (stage 3) (on_report (record_layer 3 L_PASS d)) (\<lambda>_. stage 4)"
  "triple (stage 4) (on_report (record_layer 4 L_PASS d)) (\<lambda>_. stage 5)"
  "triple (stage 6) (on_report (record_layer 6 L_PASS d)) (\<lambda>_. stage 7)"
  "triple (stage 7) (on_report (record_layer 7 L_PASS d)) (\<lambda>_. stage 8)"
  "triple (stage 9) (on_report (record_layer 9 L_PASS d)) (\<lambda>_. stage 10)"
  "triple (stage 10) (on_report (record_layer 10 L_PASS d)) (\<lambda>_. stage 11)"
  by (rule record_pass; simp add: executions_due_def)+

lemma record_opens:
  "triple (stage 5) (on_report (record_layer 5 L_UNKNOWN d)) (\<lambda>_. waiting 6 0)"
  "triple (stage 8) (on_report (record_layer 8 L_UNKNOWN d)) (\<lambda>_. waiting 9 1)"
  by (rule record_waiting; simp add: executions_due_def)+

lemma record_stops:
  "verdict \<noteq> L_PASS \<Longrightarrow> triple (stage 3) (on_report (record_layer 3 verdict d)) (\<lambda>_. stopped)"
  "verdict \<noteq> L_PASS \<Longrightarrow> triple (stage 6) (on_report (record_layer 6 verdict d)) (\<lambda>_. stopped)"
  by (rule record_stopped; simp)+

lemma settles:
  "success res \<Longrightarrow> triple (due 6 0 (Inr res)) (on_report (set_layer 5 L_PASS d)) (\<lambda>_. stage 6)"
  "success res \<Longrightarrow> triple (due 9 1 (Inr res)) (on_report (set_layer 8 L_PASS d)) (\<lambda>_. stage 9)"
  "st \<noteq> L_PASS \<Longrightarrow> triple (due 6 0 (Inr res)) (on_report (set_layer 5 st d)) (\<lambda>_. stopped)"
  "st \<noteq> L_PASS \<Longrightarrow> triple (due 9 1 (Inr res)) (on_report (set_layer 8 st d)) (\<lambda>_. stopped)"
  by (rule settle_pass settle_failed; simp add: executions_due_def)+

lemmas report_step = record_passes [THEN triple_then] record_opens [THEN triple_then] record_stops [THEN triple_then]
  settles [THEN triple_then] save_waiting [THEN triple_then] execute_triple [THEN triple_then]

lemma layer_of_failure_not_pass [simp]: "layer_of_failure res \<noteq> L_PASS"
  by (simp add: layer_of_failure_def)

lemma answer_stopped: "triple stopped (yield_step (Inr False)) (outcome n)"
  by (rule triple_yield) (simp add: outcome_def)

lemma answer_passed: "triple (stage n) (yield_step (Inr True)) (outcome n)"
  by (rule triple_yield) (simp add: outcome_def)

lemma stop_saved: "triple stopped (then_step (save_report w) (\<lambda>_. yield_step (Inr False))) (outcome n)"
  by (rule triple_then [OF save_stopped answer_stopped])

lemma view_updates [simp]:
  "view (s\<lparr>run_vessel := a\<rparr>) = view s" "view (s\<lparr>run_profile := b\<rparr>) = view s" "view (s\<lparr>run_validation := c\<rparr>) = view s"
  "view (s\<lparr>direct_result := d\<rparr>) = view s" "view (s\<lparr>benchmark_log := f\<rparr>) = view s"
  by (simp_all add: view_def)

lemmas silent_simps = silent_basic silent_change silent_artifact silent_catch silent_request silent_query silent_choose

lemma triple_if: "(c \<Longrightarrow> triple P m Q) \<Longrightarrow> (\<not> c \<Longrightarrow> triple P m' Q) \<Longrightarrow> triple P (if c then m else m') Q"
  by simp

lemma triple_list: "(xs = [] \<Longrightarrow> triple P m Q) \<Longrightarrow> (\<And>y ys. xs = y # ys \<Longrightarrow> triple P (f y ys) Q) \<Longrightarrow>
    triple P (case xs of [] \<Rightarrow> m | y # ys \<Rightarrow> f y ys) Q"
  by (cases xs) simp_all

lemma prepare_triple: "triple (stage 0) (prepare digest str_of w) (outcome 5)"
  unfolding prepare_def
  by (rule triple_if triple_list report_step stop_saved answer_passed
      | (rule silent_step, (simp add: silent_simps; fail)) | (simp; fail))+

lemma direct_triple: "triple (stage 5) (direct digest str_of w) (outcome 6)"
  unfolding direct_def Let_def
  by (rule triple_if report_step stop_saved answer_passed
      | (rule silent_step, (simp add: silent_simps; fail)) | (simp; fail))+

lemma triple_sum: "(\<And>e. triple P (f e) Q) \<Longrightarrow> (\<And>x. triple P (g x) Q) \<Longrightarrow> triple P (case r of Inl e \<Rightarrow> f e | Inr x \<Rightarrow> g x) Q"
  by (cases r) simp_all

lemma give_up_triple: "triple (stage 6) (give_up_benchmark w why) (outcome 7)"
  unfolding give_up_benchmark_def by (rule report_step, simp, rule stop_saved)

lemma benchmark_triple: "triple (stage 6) (benchmark w) (outcome 7)"
  unfolding benchmark_def Let_def
  by (rule triple_if triple_sum triple_list give_up_triple report_step answer_passed
      | (rule silent_step, (simp add: silent_simps; fail)) | (simp; fail))+

lemma scheduled_triple: "triple (stage 7) (scheduled digest str_of w) (outcome 9)"
  unfolding scheduled_def
  by (rule triple_if report_step stop_saved answer_passed
      | (rule silent_step, (simp add: silent_simps; fail)) | (simp; fail))+

text \<open>A run that returns stopped at a layer that did not pass, or passed and saved all eleven.\<close>

definition concluded :: "progress_view \<Rightarrow> bool" where
  "concluded = (\<lambda>(ls, saved, outs). truthful (ls, saved, outs) \<and> (if all_passed ls then length ls = 11 \<and> saved \<noteq> [] \<and> last saved = ls else ls \<noteq> []))"

lemma stopped_concluded: "stopped v \<Longrightarrow> concluded v"
  by (auto simp: stopped_def concluded_def all_passed_def)

lemma concluded_truthful: "concluded v \<Longrightarrow> truthful v"
  by (auto simp: concluded_def)

lemma finish_triple: "triple (stage 9) (finish w) (\<lambda>_. concluded)"
proof -
  have "triple (stage 11) (save_report w) (\<lambda>_. concluded)"
    using stage_broken_off by (intro save_triple) (auto simp: stage_def concluded_def truthful_def)
  then show ?thesis
    unfolding finish_def
    by - (rule report_step | assumption | (rule silent_step, (simp add: silent_simps; fail)) | (simp; fail))+
qed

lemma triple_outcome:
  assumes "triple P m (outcome n)" and "triple (stage n) m' (\<lambda>_. concluded)"
  shows "triple P (then_step m (\<lambda>ok. if \<not> ok then yield_step (Inr ()) else m')) (\<lambda>_. concluded)"
proof (rule triple_then [OF assms(1)])
  show "triple (outcome n ok) (if \<not> ok then yield_step (Inr ()) else m') (\<lambda>_. concluded)" for ok
    using assms(2) triple_yield [of stopped "\<lambda>_. concluded" "()"] stopped_concluded by (cases ok) (simp_all add: outcome_def)
qed

lemma run_triple: "triple (stage 0) (run_reference digest str_of w) (\<lambda>_. concluded)"
  unfolding run_reference_def
  by (intro triple_outcome [OF prepare_triple] triple_outcome [OF direct_triple] triple_outcome [OF benchmark_triple]
      triple_outcome [OF scheduled_triple] finish_triple)

lemma new_run_stage: "stage 0 (view (new_run events bench))"
  by (simp add: view_def new_run_def stage_def truthful_def in_order_def all_passed_def executed_def executions_due_def)

lemma run_truthful: "truthful (view (snd (run_reference digest str_of w (new_run events bench))))"
proof (cases "run_reference digest str_of w (new_run events bench)")
  case (Pair r s)
  then show ?thesis
    using concluded_truthful [OF triple_returns [OF run_triple new_run_stage]]
      broken_off_truthful [OF triple_raises [OF run_triple new_run_stage]]
    by (cases r) auto
qed

section \<open>What a report says\<close>

text \<open>
  C4. A reference report never overstates. Whatever the machine, the stores and the adapter do, and also
  when the run raises: the report in memory and every report ever saved list consecutive layers from 0, and
  all layers but the last are passed; when every layer of the report passed, exactly the inferences those
  layers stand for were executed (one from layer 5, two from layer 8), and each succeeded.
\<close>

theorem reference_report_truthful:
  assumes "run_reference digest str_of w (new_run events bench) = (r, s)"
  shows "in_order (layers (current_report s)) \<and> (\<forall>old \<in> set (saved_reports s). in_order (layers old))
    \<and> (all_passed (layers (current_report s)) \<longrightarrow> length (executions s) = executions_due (length (layers (current_report s)))
        \<and> (\<forall>(req, out) \<in> set (executions s). \<exists>res. out = Inr res \<and> success res))"
  using run_truthful [of digest str_of w events bench] unfolding assms
  by (auto simp: truthful_def view_def executed_def)

text \<open>
  A run that returns has an answer: its report ends in a layer that did not pass, or it has exactly the
  eleven layers, all passed, and was saved in that form.
\<close>

theorem reference_run_concludes:
  assumes "run_reference digest str_of w (new_run events bench) = (Inr (), s)"
  shows "layers (current_report s) \<noteq> [] \<and>
    (all_passed (layers (current_report s)) \<longrightarrow>
       map layer (layers (current_report s)) = map int [0..<11] \<and> layers (last (saved_reports s)) = layers (current_report s))"
proof -
  have "concluded (view s)" using triple_returns [OF run_triple new_run_stage assms] .
  then show ?thesis
    by (auto simp: concluded_def view_def truthful_def in_order_def last_map all_passed_def split: if_splits)
qed

text \<open>
  A run that raises leaves a stale report on disk. If it had passed layer 5 and every layer recorded so
  far, the last saved report still ends in \<open>UNKNOWN\<close>: \<open>inference is in progress\<close>, although that
  inference, and even the benchmark after it, is recorded as passed in the report that is lost.
\<close>

theorem reference_crash_leaves_unknown:
  assumes "run_reference digest str_of w (new_run events bench) = (Inl e, s)"
    and "all_passed (layers (current_report s))" and "6 \<le> length (layers (current_report s))"
  shows "saved_reports s \<noteq> [] \<and> layer_verdict (last (layers (last (saved_reports s)))) = L_UNKNOWN"
  using triple_raises [OF run_triple new_run_stage assms(1)] assms(2,3)
  by (auto simp: broken_off_def view_def says_unknown_def last_map)

section \<open>Witnesses\<close>

text \<open>A machine on which inference works; \<open>kinds\<close> are its resources, \<open>bench\<close> the outcomes of the benchmark store.\<close>

definition sample_machine :: "resource_kind list \<Rightarrow> vessel" where
  "sample_machine kinds = \<lparr>vessel_id = ''v'', vessel_name = ''V'', class_name = Station, tailscale_name = None,
     vessel_resources = map (\<lambda>k. \<lparr>res_id = ''c'', res_kind = k, res_model = None, res_architecture = None, res_capacities = [],
       res_memory_mb = None, res_notes = None, res_metadata = []\<rparr>) kinds,
     vessel_links = [], lifecycle = PERSISTENT, vessel_lease = None\<rparr>"

definition sample_site :: "resource_kind list \<Rightarrow> (nat \<Rightarrow> unit result) \<Rightarrow> site" where
  "sample_site kinds bench = \<lparr>discovered = Inr (sample_machine kinds), hosts = (\<lambda>_. sample_host []), binary_file = ''cli'', model_file = ''m'',
     host_vessel_id = ''v'', run_timeout = Fin 5, new_id = (\<lambda>_. ''i''), wall_time = (\<lambda>_. Aware 0 0), scheduler_time = Aware 0 0,
     error_text = (\<lambda>_. []), evidence_clock = (\<lambda>_ _. Aware 0 0), save_outcome = (\<lambda>_. Inr ()), append_outcome = (\<lambda>_. Inr ()),
     benchmark_outcome = bench, event_line = sample_line, read_event = sample_reader,
     observation_line = obs_id, read_observation = (\<lambda>i. Inr (sample_observed i))\<rparr>"

lemmas run_step_simps = then_step_def yield_step_def change_def look_def need_def on_report_def record_layer_def set_layer_def
  put_artifact_def save_report_def fresh_id_def sample_site_def sample_machine_def new_run_def

lemma sample_without_cpu:
  "\<exists>s. run_reference (\<lambda>_. []) (\<lambda>_. []) (sample_site [] (\<lambda>_. Inr ())) (new_run None None) = (Inr (), s)
     \<and> map layer_verdict (layers (current_report s)) = [L_PASS, L_PASS, L_PASS, L_FAIL_RESOURCE]"
  by (simp add: run_reference_def prepare_def run_step_simps)

theorem reference_report_truthful_witness:
  "\<exists>s :: run. in_order (layers (current_report s)) \<and> map layer_verdict (layers (current_report s)) = [L_PASS, L_PASS, L_PASS, L_FAIL_RESOURCE]"
proof -
  obtain s where run: "run_reference (\<lambda>_. []) (\<lambda>_. []) (sample_site [] (\<lambda>_. Inr ())) (new_run None None) = (Inr (), s)"
    and verdicts: "map layer_verdict (layers (current_report s)) = [L_PASS, L_PASS, L_PASS, L_FAIL_RESOURCE]"
    using sample_without_cpu by (elim exE conjE)
  from reference_report_truthful [OF run] have "in_order (layers (current_report s))" by (rule conjunct1)
  with verdicts show ?thesis by (intro exI [of _ s] conjI)
qed

theorem reference_run_concludes_witness:
  "\<exists>s :: run. layers (current_report s) \<noteq> [] \<and> \<not> all_passed (layers (current_report s))"
proof -
  obtain s where run: "run_reference (\<lambda>_. []) (\<lambda>_. []) (sample_site [] (\<lambda>_. Inr ())) (new_run None None) = (Inr (), s)"
    and verdicts: "map layer_verdict (layers (current_report s)) = [L_PASS, L_PASS, L_PASS, L_FAIL_RESOURCE]"
    using sample_without_cpu by (elim exE conjE)
  from verdicts have "L_FAIL_RESOURCE \<in> set (map layer_verdict (layers (current_report s)))" by simp
  then have "\<not> all_passed (layers (current_report s))" by (force simp: all_passed_def)
  moreover have "layers (current_report s) \<noteq> []" using reference_run_concludes [OF run] by (rule conjunct1)
  ultimately show ?thesis by (intro exI [of _ s] conjI)
qed

definition failing_query :: "nat \<Rightarrow> unit result" where
  "failing_query k = (if k = 1 then Inl (OtherError ''MemoryError'') else Inr ())"

abbreviation sample_reference_profile :: inference_profile where
  "sample_reference_profile \<equiv> reference_profile (sample_site [CPU] failing_query) ''c''"

abbreviation sample_reference_request :: execution_request where
  "sample_reference_request \<equiv> reference_request (sample_site [CPU] failing_query) ''i'' sample_reference_profile ''Return exactly: LONG_HAUL_OK'' 12"

lemma sample_reference_supported:
  "\<exists>v. cpp_validate (\<lambda>_. []) (\<lambda>_. []) (sample_host []) ''cli'' sample_reference_profile = Inr v \<and> val_state v = SUPPORTED"
  by (simp add: sample_cpp_run reference_profile_def sample_site_def Let_def del: int_str.simps)

lemma sample_reference_succeeds:
  "\<exists>res. fst (cpp_execute (\<lambda>_. []) (\<lambda>_. []) (sample_host []) ''cli'' sample_reference_request) = Inr res \<and> success res"
  by (simp add: sample_cpp_run reference_profile_def reference_request_def sample_site_def parse_timings_def Let_def del: int_str.simps)

lemma sample_reference_valid:
  "validate_profile sample_reference_profile = Inr sample_reference_profile"
  "validate_request sample_reference_request = Inr sample_reference_request"
  by (simp_all add: validate_profile_def validate_request_def reference_profile_def reference_request_def sample_site_def opt_range_def)

lemma sample_site_simps [simp]:
  "discovered (sample_site k b) = Inr (sample_machine k)" "hosts (sample_site k b) i = sample_host []" "binary_file (sample_site k b) = ''cli''"
  "new_id (sample_site k b) n = ''i''" "save_outcome (sample_site k b) n = Inr ()" "append_outcome (sample_site k b) n = Inr ()"
  "benchmark_outcome (sample_site k b) = b"
  by (simp_all add: sample_site_def)

lemma sample_crash:
  "\<exists>e s. run_reference (\<lambda>_. []) (\<lambda>_. []) (sample_site [CPU] failing_query) (new_run None None) = (Inl e, s)
     \<and> map layer_verdict (layers (current_report s)) = replicate 6 L_PASS"
proof -
  obtain v res where "cpp_validate (\<lambda>_. []) (\<lambda>_. []) (sample_host []) ''cli'' sample_reference_profile = Inr v" "val_state v = SUPPORTED"
    "fst (cpp_execute (\<lambda>_. []) (\<lambda>_. []) (sample_host []) ''cli'' sample_reference_request) = Inr res" "success res"
    using sample_reference_supported sample_reference_succeeds by blast
  then show ?thesis
    using sample_reference_valid
    by (simp add: run_reference_def prepare_def direct_def benchmark_def run_step_simps(1-11) new_run_def sample_machine_def
        new_request_def log_started_def log_event_def execute_request_def catch_step_def store_and_query_def
        failing_query_def os_error_def Let_def numeral_eq_Suc)
qed

theorem reference_crash_leaves_unknown_witness:
  "\<exists>s :: run. map layer_verdict (layers (current_report s)) = replicate 6 L_PASS
     \<and> layer_verdict (last (layers (last (saved_reports s)))) = L_UNKNOWN"
proof -
  obtain e s where run: "run_reference (\<lambda>_. []) (\<lambda>_. []) (sample_site [CPU] failing_query) (new_run None None) = (Inl e, s)"
    and verdicts: "map layer_verdict (layers (current_report s)) = replicate 6 L_PASS"
    using sample_crash by blast
  have "layer_verdict l = L_PASS" if "l \<in> set (layers (current_report s))" for l
    using that verdicts by (metis image_eqI image_set in_set_replicate)
  moreover have "length (layers (current_report s)) = 6" using arg_cong [OF verdicts, of length] by simp
  ultimately show ?thesis
    using reference_crash_leaves_unknown [OF run] verdicts by (auto simp: all_passed_def)
qed

end
