(* ===== verification/Benchmark_Matrix.thy ===== *)
theory Benchmark_Matrix
  imports Stateful Llama_Cpp Domain_Models
begin

text \<open>
  The benchmark matrix (\<open>benchmark_matrix.py\<close>): every profile of a manifest is validated and, where that
  allows it, executed on every workload; each execution is appended to the benchmark store and recorded.

  The parameter \<open>rig\<close> is the world: the host at each execution and each preflight, ids, time, and which
  appends fail. The state counts what was drawn from it and holds the store.
\<close>

section \<open>Manifests\<close>

record matrix_profile =
  mp_id :: string
  mp_strategy :: string
  mp_resources :: "string list"
  mp_options :: "(string \<times> pyval) list"
  explore_unknown :: bool

record matrix_workload =
  mw_name :: string
  mw_prompt :: string
  mw_max_tokens :: int
  mw_temperature :: pyfloat
  repetitions :: int

record matrix_manifest =
  mf_artifact :: model_artifact
  mf_profiles :: "matrix_profile list"
  mf_workloads :: "matrix_workload list"

definition validate_workload :: "matrix_workload \<Rightarrow> matrix_workload result" where
  "validate_workload wl =
     ebind (guard (1 \<le> mw_max_tokens wl \<and> mw_max_tokens wl \<le> 4096) (ValueError ''max_tokens'')) (\<lambda>_.
     ebind (guard (fge (mw_temperature wl) (Fin 0)) (ValueError ''temperature'')) (\<lambda>_.
     ebind (guard (1 \<le> repetitions wl \<and> repetitions wl \<le> 100) (ValueError ''repetitions'')) (\<lambda>_. Inr wl)))"

definition validate_manifest :: "matrix_manifest \<Rightarrow> matrix_manifest result" where
  "validate_manifest mf =
     ebind (emap (\<lambda>p. guard (mp_resources p \<noteq> []) (ValueError ''resources'')) (mf_profiles mf)) (\<lambda>_.
     ebind (guard (mf_profiles mf \<noteq> []) (ValueError ''profiles'')) (\<lambda>_.
     ebind (emap validate_workload (mf_workloads mf)) (\<lambda>_.
     ebind (guard (mf_workloads mf \<noteq> []) (ValueError ''workloads'')) (\<lambda>_. Inr mf))))"

section \<open>Records of a run\<close>

record run_record =
  rr_workload :: string
  rr_repetition :: nat
  rr_observation_id :: string
  rr_result :: execution_result

record profile_record =
  pr_profile :: inference_profile
  pr_preflight :: profile_validation
  pr_runs :: "run_record list"
  measured_validation :: "profile_validation option"

definition inference_profile_of :: "matrix_profile \<Rightarrow> model_artifact \<Rightarrow> string \<Rightarrow> inference_profile result" where
  "inference_profile_of sp artifact model = validate_profile \<lparr>profile_id = mp_id sp, profile_runtime_id = ''llama.cpp'',
     strategy = mp_strategy sp, profile_artifact = artifact, participating_resources = mp_resources sp, requirements = [],
     profile_options = AList.update ''model_path'' (PStr model) (mp_options sp), profile_schema_version = 1\<rparr>"

definition or_zero :: "int option \<Rightarrow> int" where
  "or_zero n = (case n of None \<Rightarrow> 0 | Some k \<Rightarrow> k)"

fun failure_class_value :: "failure_class \<Rightarrow> string" where
  "failure_class_value FAIL_SYSTEM = ''FAIL_SYSTEM''"
| "failure_class_value FAIL_RUNTIME = ''FAIL_RUNTIME''"
| "failure_class_value FAIL_ARTIFACT = ''FAIL_ARTIFACT''"
| "failure_class_value FAIL_RESOURCE = ''FAIL_RESOURCE''"
| "failure_class_value FAIL_EXECUTION = ''FAIL_EXECUTION''"
| "failure_class_value FAIL_TIMEOUT = ''FAIL_TIMEOUT''"
| "failure_class_value FAIL_INTERRUPTION = ''FAIL_INTERRUPTION''"

definition run_error :: "execution_result \<Rightarrow> string option" where
  "run_error res = (if success res then None
     else Some ((case error_class res of None \<Rightarrow> ''FAIL'' | Some c \<Rightarrow> failure_class_value c) @ '': ''
       @ (case error_detail res of None \<Rightarrow> ''execution failed'' | Some d \<Rightarrow> if d = [] then ''execution failed'' else d)))"

definition matrix_observation :: "string \<Rightarrow> datetime \<Rightarrow> inference_profile \<Rightarrow> matrix_workload \<Rightarrow> execution_result \<Rightarrow> observation" where
  "matrix_observation i t p wl res = \<lparr>obs_id = i, obs_timestamp = t, obs_profile = p, obs_plan_mode = LOCAL,
     obs_resources = participating_resources p,
     obs_workload = \<lparr>workload_name = mw_name wl, prompt_tokens = or_zero (t_prompt_tokens (timings res)),
       output_tokens = or_zero (generated_tokens (timings res)), cold = True\<rparr>,
     obs_provenance = Measured, obs_load_seconds = load_seconds (timings res), obs_ttft_seconds = ttft_seconds (timings res),
     obs_prefill_tps = prefill_tps (timings res), obs_decode_tps = decode_tps (timings res),
     residency_mib = [], utilization = [], network = [], power_watts = None, obs_error = run_error res, obs_schema_version = 1,
     obs_runtime = Some (res_runtime res)\<rparr>"

definition certify :: "(pyval \<Rightarrow> string) \<Rightarrow> datetime \<Rightarrow> inference_profile \<Rightarrow> execution_result \<Rightarrow> profile_validation result" where
  "certify digest t p res = ebind (artifact_key digest (profile_artifact p)) (\<lambda>key. Inr \<lparr>val_runtime = res_runtime res,
     val_profile_id = profile_id p, val_artifact_key = key, val_resources = participating_resources p, val_strategy = strategy p,
     val_options = profile_options p, val_state = SUPPORTED, val_depth = EXECUTION,
     val_rationale = ''profile completed measured benchmark execution'', val_timestamp = t, val_provenance = VMeasured\<rparr>)"

section \<open>Running a manifest\<close>

record rig =
  rig_host :: "nat \<Rightarrow> host"
  rig_binary :: string
  rig_model :: string
  rig_timeout :: pyfloat
  rig_id :: "nat \<Rightarrow> string"
  rig_time :: "nat \<Rightarrow> datetime"
  rig_append :: "nat \<Rightarrow> unit result"

record bench_state =
  adapter_calls :: nat
  ids_drawn :: nat
  bench_store :: benchmark_store
  matrix_requests :: "(execution_request \<times> execution_result) list"

definition draw_host :: "rig \<Rightarrow> (bench_state, host) stateful" where
  "draw_host g s = (Inr (rig_host g (adapter_calls s)), s\<lparr>adapter_calls := Suc (adapter_calls s)\<rparr>)"

definition draw_id :: "rig \<Rightarrow> (bench_state, string \<times> datetime) stateful" where
  "draw_id g s = (Inr (rig_id g (ids_drawn s), rig_time g (ids_drawn s)), s\<lparr>ids_drawn := Suc (ids_drawn s)\<rparr>)"

definition append_observation :: "rig \<Rightarrow> observation \<Rightarrow> (bench_state, unit) stateful" where
  "append_observation g b = then_step (look bench_store) (\<lambda>store.
     then_step (yield_step (rig_append g (length (case store of None \<Rightarrow> [] | Some bs \<Rightarrow> bs)))) (\<lambda>_.
     change (\<lambda>s. s\<lparr>bench_store := bench_append (bench_store s) b\<rparr>)))"

definition matrix_request :: "rig \<Rightarrow> matrix_profile \<Rightarrow> inference_profile \<Rightarrow> matrix_workload \<Rightarrow> string \<Rightarrow> execution_request result" where
  "matrix_request g sp p wl i = validate_request \<lparr>request_id = i, req_profile = p, prompt = mw_prompt wl, max_tokens = mw_max_tokens wl,
     temperature = mw_temperature wl, timeout_seconds = rig_timeout g, req_allow_unknown = explore_unknown sp, seed = None,
     context_tokens = None, req_prompt_mode = RuntimeDefault\<rparr>"

text \<open>One execution: its record, and the certificate of a success.\<close>

definition conclude_run ::
  "(pyval \<Rightarrow> string) \<Rightarrow> rig \<Rightarrow> inference_profile \<Rightarrow> run_record \<Rightarrow> (bench_state, run_record \<times> profile_validation option) stateful" where
  "conclude_run digest g p rec = (if success (rr_result rec)
     then then_step (draw_id g) (\<lambda>(_, t). then_step (yield_step (certify digest t p (rr_result rec))) (\<lambda>v. yield_step (Inr (rec, Some v))))
     else yield_step (Inr (rec, None)))"

definition run_once ::
  "(pyval \<Rightarrow> string) \<Rightarrow> (pyval \<Rightarrow> string) \<Rightarrow> rig \<Rightarrow> matrix_profile \<Rightarrow> inference_profile \<Rightarrow> matrix_workload \<Rightarrow> nat
     \<Rightarrow> (bench_state, run_record \<times> profile_validation option) stateful" where
  "run_once digest str_of g sp p wl k =
     then_step (draw_id g) (\<lambda>(i, _).
     then_step (yield_step (matrix_request g sp p wl i)) (\<lambda>r.
     then_step (draw_host g) (\<lambda>h.
     then_step (yield_step (fst (cpp_execute digest str_of h (rig_binary g) r))) (\<lambda>res.
     then_step (change (\<lambda>s. s\<lparr>matrix_requests := matrix_requests s @ [(r, res)]\<rparr>)) (\<lambda>_.
     then_step (draw_id g) (\<lambda>(oid, t).
     then_step (append_observation g (matrix_observation oid t p wl res)) (\<lambda>_.
     conclude_run digest g p \<lparr>rr_workload = mw_name wl, rr_repetition = k + 1, rr_observation_id = oid, rr_result = res\<rparr>)))))))"

text \<open>The inner loop over repetitions \<open>k, k + 1, \<dots>\<close>: a failure of an unknown profile breaks it.\<close>

type_synonym progress = "run_record list \<times> profile_validation option"

fun run_repetitions ::
  "(pyval \<Rightarrow> string) \<Rightarrow> (pyval \<Rightarrow> string) \<Rightarrow> rig \<Rightarrow> matrix_profile \<Rightarrow> inference_profile \<Rightarrow> validation_state \<Rightarrow> matrix_workload
     \<Rightarrow> nat \<Rightarrow> nat \<Rightarrow> progress \<Rightarrow> (bench_state, progress) stateful" where
  "run_repetitions digest str_of g sp p st wl 0 k acc = yield_step (Inr acc)"
| "run_repetitions digest str_of g sp p st wl (Suc n) k acc =
     then_step (run_once digest str_of g sp p wl k) (\<lambda>(rec, cert).
     let acc' = (fst acc @ [rec], if cert = None then snd acc else cert) in
     if cert = None \<and> st = UNKNOWN then yield_step (Inr acc')
     else run_repetitions digest str_of g sp p st wl n (Suc k) acc')"

fun run_workloads ::
  "(pyval \<Rightarrow> string) \<Rightarrow> (pyval \<Rightarrow> string) \<Rightarrow> rig \<Rightarrow> matrix_profile \<Rightarrow> inference_profile \<Rightarrow> validation_state \<Rightarrow> matrix_workload list
     \<Rightarrow> progress \<Rightarrow> (bench_state, progress) stateful" where
  "run_workloads digest str_of g sp p st [] acc = yield_step (Inr acc)"
| "run_workloads digest str_of g sp p st (wl # wls) acc =
     then_step (run_repetitions digest str_of g sp p st wl (nat (repetitions wl)) 0 acc) (run_workloads digest str_of g sp p st wls)"

definition runnable :: "profile_validation \<Rightarrow> matrix_profile \<Rightarrow> bool" where
  "runnable v sp \<longleftrightarrow> val_state v = SUPPORTED \<or> (val_state v = UNKNOWN \<and> explore_unknown sp)"

definition run_profile_spec ::
  "(pyval \<Rightarrow> string) \<Rightarrow> (pyval \<Rightarrow> string) \<Rightarrow> rig \<Rightarrow> matrix_manifest \<Rightarrow> matrix_profile \<Rightarrow> (bench_state, profile_record) stateful" where
  "run_profile_spec digest str_of g mf sp =
     then_step (yield_step (inference_profile_of sp (mf_artifact mf) (rig_model g))) (\<lambda>p.
     then_step (draw_host g) (\<lambda>h.
     then_step (yield_step (cpp_validate digest str_of h (rig_binary g) p)) (\<lambda>v.
     if \<not> runnable v sp then yield_step (Inr \<lparr>pr_profile = p, pr_preflight = v, pr_runs = [], measured_validation = None\<rparr>)
     else then_step (run_workloads digest str_of g sp p (val_state v) (mf_workloads mf) ([], None)) (\<lambda>(runs, measured).
       yield_step (Inr \<lparr>pr_profile = p, pr_preflight = v, pr_runs = runs, measured_validation = measured\<rparr>)))))"

fun run_specs ::
  "(pyval \<Rightarrow> string) \<Rightarrow> (pyval \<Rightarrow> string) \<Rightarrow> rig \<Rightarrow> matrix_manifest \<Rightarrow> matrix_profile list \<Rightarrow> (bench_state, profile_record list) stateful" where
  "run_specs digest str_of g mf [] = yield_step (Inr [])"
| "run_specs digest str_of g mf (sp # sps) = then_step (run_profile_spec digest str_of g mf sp) (\<lambda>rec.
     then_step (run_specs digest str_of g mf sps) (\<lambda>recs. yield_step (Inr (rec # recs))))"

definition run_matrix :: "(pyval \<Rightarrow> string) \<Rightarrow> (pyval \<Rightarrow> string) \<Rightarrow> rig \<Rightarrow> matrix_manifest \<Rightarrow> (bench_state, profile_record list) stateful" where
  "run_matrix digest str_of g mf = then_step (yield_step (validate_manifest mf)) (\<lambda>m. run_specs digest str_of g m (mf_profiles m))"

text \<open>The report as written; \<open>dump_result\<close> is \<open>model_dump\<close> of a result, \<open>manifest\<close> that of the manifest.\<close>

definition run_dump :: "(execution_result \<Rightarrow> pyval) \<Rightarrow> run_record \<Rightarrow> pyval" where
  "run_dump dump_result r = PDict [(''workload'', PStr (rr_workload r)), (''repetition'', PInt (int (rr_repetition r))),
     (''observation_id'', PStr (rr_observation_id r)), (''result'', dump_result (rr_result r))]"

definition record_dump :: "(execution_result \<Rightarrow> pyval) \<Rightarrow> profile_record \<Rightarrow> pyval" where
  "record_dump dump_result rec = PDict ([(''profile'', profile_dump (pr_profile rec)), (''preflight'', validation_dump (pr_preflight rec)),
     (''runs'', PList (map (run_dump dump_result) (pr_runs rec)))]
     @ (case measured_validation rec of None \<Rightarrow> [] | Some v \<Rightarrow> [(''measured_validation'', validation_dump v)]))"

definition matrix_schema :: string where
  "matrix_schema = ''long-haul-benchmark-matrix/v1''"

definition matrix_report :: "(execution_result \<Rightarrow> pyval) \<Rightarrow> pyval \<Rightarrow> string \<Rightarrow> rig \<Rightarrow> profile_record list \<Rightarrow> (string \<times> pyval) list" where
  "matrix_report dump_result manifest store_path g recs = [(''schema'', PStr matrix_schema), (''binary'', PStr (rig_binary g)),
     (''model'', PStr (rig_model g)), (''manifest'', manifest), (''profiles'', PList (map (record_dump dump_result) recs)),
     (''benchmark_store'', PStr store_path)]"

end
