(* ===== verification/Benchmark_Replay.thy ===== *)
theory Benchmark_Replay
  imports Benchmark_Matrix Scheduler_Core
begin

text \<open>
  Replaying a benchmark matrix through the scheduler (\<open>benchmark_scheduler.py\<close>), and loading a measured
  runtime-profile contract.

  JSON is a decoded value. The parameter \<open>decoder\<close> is the model library: what \<open>model_validate\<close> and the
  constructors make of a value or of keyword arguments.
\<close>

record decoder =
  decode_profile :: "pyval \<Rightarrow> inference_profile result"
  decode_validation :: "pyval \<Rightarrow> profile_validation result"
  build_runtime :: "(string \<times> pyval) list \<Rightarrow> runtime_identity result"
  build_profile :: "(string \<times> pyval) list \<Rightarrow> model_artifact \<Rightarrow> inference_profile result"
  build_artifact :: "(string \<times> pyval) list \<Rightarrow> model_artifact result"
  parse_state :: "pyval \<Rightarrow> validation_state result"
  parse_depth :: "pyval \<Rightarrow> validation_depth result"
  parse_provenance :: "pyval \<Rightarrow> validation_provenance result"

section \<open>Reading a matrix report\<close>

fun read_records :: "decoder \<Rightarrow> pyval list \<Rightarrow> (inference_profile list \<times> profile_validation list) result" where
  "read_records dec [] = Inr ([], [])"
| "read_records dec (PDict kvs # items) =
     ebind (ebind (subscript (PDict kvs) ''profile'') (decode_profile dec)) (\<lambda>p.
     ebind (case map_of kvs ''measured_validation'' of None \<Rightarrow> Inr [] | Some PNone \<Rightarrow> Inr []
       | Some m \<Rightarrow> ebind (decode_validation dec m) (\<lambda>v. Inr [v])) (\<lambda>measured.
     ebind (read_records dec items) (\<lambda>(ps, vs). Inr (p # ps, measured @ vs))))"
| "read_records dec (_ # items) = read_records dec items"

definition profiles_and_validations :: "decoder \<Rightarrow> pyval \<Rightarrow> (inference_profile list \<times> profile_validation list) result" where
  "profiles_and_validations dec matrix =
     ebind (ebind (get_or matrix ''profiles'' (PList [])) iterate) (read_records dec)"

definition load_observations :: "observation list result \<Rightarrow> string option \<Rightarrow> observation list result" where
  "load_observations file wl = ebind file (\<lambda>bs. Inr (case wl of None \<Rightarrow> bs
     | Some name \<Rightarrow> filter (\<lambda>b. workload_name (obs_workload b) = name) bs))"

section \<open>The replay\<close>

definition local_candidates ::
  "(pyval \<Rightarrow> string) \<Rightarrow> (nat \<Rightarrow> nat \<Rightarrow> datetime) \<Rightarrow> scheduler \<Rightarrow> mission_requirements \<Rightarrow> inference_profile list \<Rightarrow> candidate list result" where
  "local_candidates digest clock s m ps =
     evaluate_all digest clock 0 s m (profiles_by_id ps) (filter (\<lambda>plan. plan_mode plan = LOCAL) (generate s ps))"

record candidate_record =
  cr_plan :: execution_plan
  cr_eligible :: bool
  cr_reasons :: "string list"
  cr_rank :: "rank_tuple option"
  cr_evidence_id :: "string option"
  cr_decode_tps :: "pyfloat option"
  cr_prefill_tps :: "pyfloat option"
  cr_explanation :: string

definition candidate_record_of :: "candidate \<Rightarrow> candidate_record" where
  "candidate_record_of c = (case evidence c of
       None \<Rightarrow> \<lparr>cr_plan = cand_plan c, cr_eligible = eligible c, cr_reasons = reasons c, cr_rank = cand_rank c,
         cr_evidence_id = None, cr_decode_tps = None, cr_prefill_tps = None, cr_explanation = ''no comparable measurement''\<rparr>
     | Some b \<Rightarrow> \<lparr>cr_plan = cand_plan c, cr_eligible = eligible c, cr_reasons = reasons c, cr_rank = cand_rank c,
         cr_evidence_id = Some (obs_id b), cr_decode_tps = obs_decode_tps b, cr_prefill_tps = obs_prefill_tps b,
         cr_explanation = ''comparable measured evidence '' @ obs_id b @ ''; ranked by ''
           @ (if prompt_tokens (obs_workload b) \<noteq> 0 \<and> output_tokens (obs_workload b) = 0 then ''prefill'' else ''decode'')
           @ '' throughput after eligibility constraints''\<rparr>)"

record selection =
  sel_plan :: execution_plan
  sel_reasons :: "string list"
  sel_rank :: "rank_tuple option"
  sel_evidence_id :: "string option"

definition selection_of :: "candidate \<Rightarrow> selection" where
  "selection_of c = \<lparr>sel_plan = cand_plan c, sel_reasons = reasons c, sel_rank = cand_rank c,
     sel_evidence_id = map_option obs_id (evidence c)\<rparr>"

definition replay_mission :: "string option \<Rightarrow> workload option \<Rightarrow> datetime option \<Rightarrow> mission_requirements" where
  "replay_mission wl spec cutoff = \<lparr>mission_id = ''benchmark-replay:'' @ (case wl of None \<Rightarrow> ''all'' | Some n \<Rightarrow> if n = [] then ''all'' else n),
     required_resources = {}, requires_sync_cross_node = False, allow_modes = {LOCAL}, mission_workload = spec,
     evidence_not_before = cutoff, safety_ok = True, cooperation_ok = True, minimum_memory_mib = Fin 0,
     allow_unknown_runtime = False, restartable = False, preemption = AllowPreemptible\<rparr>"

record replay_report =
  rp_vessel :: string
  rp_workload :: "string option"
  observation_count :: nat
  validation_count :: nat
  rp_candidates :: "candidate_record list"
  rp_selected :: "selection option"

definition first_eligible :: "candidate list \<Rightarrow> candidate option" where
  "first_eligible ranked = find eligible ranked"

definition replay_benchmarks ::
  "(pyval \<Rightarrow> string) \<Rightarrow> (nat \<Rightarrow> nat \<Rightarrow> datetime) \<Rightarrow> datetime \<Rightarrow> decoder \<Rightarrow> vessel result \<Rightarrow> pyval result \<Rightarrow> observation list result
     \<Rightarrow> string option \<Rightarrow> runtime_identity list \<Rightarrow> workload option \<Rightarrow> datetime option \<Rightarrow> replay_report result" where
  "replay_benchmarks digest clock reading dec vessel_file matrix_file bench_file wl rts spec cutoff =
     ebind vessel_file (\<lambda>v.
     ebind matrix_file (\<lambda>matrix.
     ebind (get_or matrix ''schema'' PNone) (\<lambda>schema.
     ebind (guard (schema = PStr matrix_schema) (ValueError ''unsupported benchmark matrix report'')) (\<lambda>_.
     ebind (profiles_and_validations dec matrix) (\<lambda>(ps, vals).
     ebind (load_observations bench_file wl) (\<lambda>bs.
     ebind (make_scheduler [v] [] bs vals rts None reading) (\<lambda>s.
     ebind (validate_mission (replay_mission wl spec cutoff)) (\<lambda>m.
     ebind (local_candidates digest clock s m ps) (\<lambda>cs.
     let ranked = rank_candidates cs in
     Inr \<lparr>rp_vessel = vessel_id v, rp_workload = wl, observation_count = length bs, validation_count = length vals,
       rp_candidates = map candidate_record_of ranked, rp_selected = map_option selection_of (first_eligible ranked)\<rparr>)))))))))"

section \<open>Runtime-profile contracts\<close>

definition validate_profile_contract :: "pyval \<Rightarrow> unit result" where
  "validate_profile_contract c =
     ebind (get_or c ''schema'' PNone) (\<lambda>schema.
     ebind (guard (schema = PStr ''long-haul-runtime-profile/v1'') (ValueError ''unsupported runtime profile contract'')) (\<lambda>_.
     ebind (get_or c ''qualification'' (PDict [])) (\<lambda>q.
     ebind (get_or q ''hardware_qualified'' PNone) (\<lambda>hw.
     ebind (guard (hw = PBool False) (ValueError ''runtime profile contract must preserve hardware_qualified=false'')) (\<lambda>_.
     ebind (get_or q ''authorization'' PNone) (\<lambda>auth.
     guard (auth = PStr ''operator-risk-accepted-unqualified'') (ValueError ''runtime profile contract authorization is not accepted'')))))))"

definition contract_runtime :: "decoder \<Rightarrow> pyval \<Rightarrow> runtime_identity result" where
  "contract_runtime dec r =
     ebind (subscript r ''runtime_id'') (\<lambda>rid. ebind (get_or r ''version'' PNone) (\<lambda>version.
     ebind (get_or r ''build_id'' PNone) (\<lambda>build. ebind (get_or r ''backends'' (PList [])) (\<lambda>bs.
     ebind (get_or r ''source_commit'' (PStr [])) (\<lambda>source. ebind (get_or r ''binary_sha256'' (PStr [])) (\<lambda>sha.
     ebind (get_or r ''cuda_architectures'' (PStr [])) (\<lambda>cuda.
     build_runtime dec [(''runtime_id'', rid), (''version'', version), (''build_id'', build), (''backends'', bs),
       (''capabilities'', PDict [(''source_commit'', source), (''binary_sha256'', sha), (''cuda_architectures'', cuda)])])))))))"

definition contract_artifact :: "decoder \<Rightarrow> pyval \<Rightarrow> model_artifact result" where
  "contract_artifact dec r =
     ebind (subscript r ''foundation'') (\<lambda>f. ebind (get_or r ''revision'' PNone) (\<lambda>rev. ebind (get_or r ''quantization'' PNone) (\<lambda>q.
     build_artifact dec [(''foundation'', f), (''revision'', rev), (''quantization'', q)])))"

definition contract_profile :: "decoder \<Rightarrow> model_artifact \<Rightarrow> pyval \<Rightarrow> inference_profile result" where
  "contract_profile dec a r =
     ebind (subscript r ''id'') (\<lambda>i. ebind (subscript r ''runtime_id'') (\<lambda>rid. ebind (subscript r ''strategy'') (\<lambda>st.
     ebind (subscript r ''resources'') (\<lambda>rs. ebind (get_or r ''options'' (PDict [])) (\<lambda>opts. ebind (get_or r ''schema_version'' (PInt 1)) (\<lambda>ver.
     build_profile dec [(''id'', i), (''runtime_id'', rid), (''strategy'', st), (''participating_resources'', rs), (''options'', opts),
       (''schema_version'', ver)] a))))))"

definition contract_validation ::
  "(pyval \<Rightarrow> string) \<Rightarrow> (pyval \<Rightarrow> string) \<Rightarrow> datetime \<Rightarrow> decoder \<Rightarrow> runtime_identity \<Rightarrow> pyval \<Rightarrow> inference_profile \<Rightarrow> profile_validation result" where
  "contract_validation digest str_of now dec rt r p =
     ebind (get_or r ''validation'' (PDict [])) (\<lambda>details.
     ebind (artifact_key digest (profile_artifact p)) (\<lambda>key.
     ebind (ebind (subscript details ''state'') (parse_state dec)) (\<lambda>st.
     ebind (ebind (get_or details ''depth'' (PStr ''BENCHMARK'')) (parse_depth dec)) (\<lambda>depth.
     ebind (get_or details ''measured_runs'' (PInt 0)) (\<lambda>runs.
     ebind (ebind (get_or details ''provenance'' (PStr ''measured'')) (parse_provenance dec)) (\<lambda>prov.
     Inr \<lparr>val_runtime = rt, val_profile_id = profile_id p, val_artifact_key = key, val_resources = participating_resources p,
       val_strategy = strategy p, val_options = profile_options p, val_state = st, val_depth = depth,
       val_rationale = ''measured runtime-profile contract; '' @ py_str str_of runs @ '' runs'', val_timestamp = now, val_provenance = prov\<rparr>))))))"

definition contract_entries ::
  "(pyval \<Rightarrow> string) \<Rightarrow> (pyval \<Rightarrow> string) \<Rightarrow> datetime \<Rightarrow> decoder \<Rightarrow> pyval list \<Rightarrow> model_artifact \<Rightarrow> runtime_identity
     \<Rightarrow> (inference_profile list \<times> profile_validation list) result" where
  "contract_entries digest str_of now dec records a rt =
     ebind (emap (contract_profile dec a) records) (\<lambda>ps.
     ebind (emap (\<lambda>(r, p). contract_validation digest str_of now dec rt r p) (zip records ps)) (\<lambda>vs. Inr (ps, vs)))"

definition load_profile_contract ::
  "(pyval \<Rightarrow> string) \<Rightarrow> (pyval \<Rightarrow> string) \<Rightarrow> datetime \<Rightarrow> decoder \<Rightarrow> pyval result \<Rightarrow> (inference_profile list \<times> profile_validation list) result" where
  "load_profile_contract digest str_of now dec file =
     ebind file (\<lambda>c.
     ebind (validate_profile_contract c) (\<lambda>_.
     ebind (ebind (subscript c ''runtime'') (contract_runtime dec)) (\<lambda>rt.
     ebind (ebind (subscript c ''model'') (contract_artifact dec)) (\<lambda>a.
     ebind (ebind (get_or c ''profiles'' (PList [])) iterate) (\<lambda>records.
     contract_entries digest str_of now dec records a rt)))))"

end
