(* ===== verification/Benchmark_Import.thy ===== *)
theory Benchmark_Import
  imports Benchmark_Matrix
begin

text \<open>
  Importing the output of llama-bench (\<open>llama_bench_import.py\<close>): its rows become observations of a profile
  the manifest declares, and the profile's record in the matrix report is replaced.

  The JSON of the raw file is given as decoded rows; \<open>int_or_str\<close> build numbers are kept as their text.
\<close>

section \<open>Rows\<close>

record bench_row =
  build_commit :: string
  build_number :: string
  row_backends :: string
  model_filename :: string
  n_gpu_layers :: int
  row_split_mode :: string
  row_main_gpu :: int
  row_tensor_split :: string
  n_prompt :: int
  n_gen :: int
  n_depth :: int
  avg_ts :: pyfloat
  stddev_ts :: "pyfloat option"

definition validate_row :: "bench_row \<Rightarrow> bench_row result" where
  "validate_row r = ebind (guard (isfinite (avg_ts r) \<and> fgt (avg_ts r) (Fin 0)) (ValueError ''avg_ts'')) (\<lambda>_. Inr r)"

definition row_workload :: "bench_row \<Rightarrow> workload" where
  "row_workload r = (let suffix = (if n_depth r \<noteq> 0 then ''@d'' @ int_str (n_depth r) else []) in
     \<lparr>workload_name = (if n_prompt r \<noteq> 0 \<and> n_gen r \<noteq> 0 then ''pg'' @ int_str (n_prompt r) @ '','' @ int_str (n_gen r) @ suffix
        else if n_prompt r \<noteq> 0 then ''pp'' @ int_str (n_prompt r) @ suffix else ''tg'' @ int_str (n_gen r) @ suffix),
      prompt_tokens = n_prompt r, output_tokens = n_gen r, cold = False\<rparr>)"

definition row_runtime :: "bench_row \<Rightarrow> runtime_identity" where
  "row_runtime r = \<lparr>runtime_id = ''llama.cpp'', rt_version = Some (build_number r), rt_build_id = Some (build_commit r), binary_path = None,
     backends = map (\<lambda>part. map lower_char (strip part)) (filter (\<lambda>part. strip part \<noteq> []) (split_on (CHR '','') (row_backends r))),
     capabilities = [(''llama_bench'', CapBool True)]\<rparr>"

definition load_rows :: "bench_row list result \<Rightarrow> bench_row list result" where
  "load_rows raw = ebind raw (\<lambda>items.
     ebind (guard (items \<noteq> []) (ValueError ''llama-bench output must be a non-empty JSON array'')) (\<lambda>_.
     ebind (emap validate_row items) (\<lambda>rows.
     ebind (guard (\<forall>r \<in> set rows. model_filename r = model_filename (hd rows))
       (ValueError ''one import may contain only one model artifact path'')) (\<lambda>_. Inr rows))))"

section \<open>Observations and the validation\<close>

definition row_observation ::
  "string \<Rightarrow> datetime \<Rightarrow> inference_profile \<Rightarrow> runtime_identity option \<Rightarrow> datetime option \<Rightarrow> bench_row \<Rightarrow> observation" where
  "row_observation i reading p rt measured_at r = \<lparr>obs_id = i, obs_timestamp = (case measured_at of None \<Rightarrow> reading | Some t \<Rightarrow> t),
     obs_profile = p, obs_plan_mode = LOCAL, obs_resources = participating_resources p, obs_workload = row_workload r,
     obs_provenance = Measured, obs_load_seconds = None, obs_ttft_seconds = None,
     obs_prefill_tps = (if n_prompt r \<noteq> 0 \<and> n_gen r = 0 then Some (avg_ts r) else None),
     obs_decode_tps = (if n_gen r \<noteq> 0 then Some (avg_ts r) else None), residency_mib = [],
     utilization = [(''llama_bench_stddev_tps'', case stddev_ts r of None \<Rightarrow> Fin 0 | Some x \<Rightarrow> x)], network = [], power_watts = None,
     obs_error = None, obs_schema_version = 1, obs_runtime = Some (case rt of None \<Rightarrow> row_runtime r | Some x \<Rightarrow> x)\<rparr>"

fun append_rows ::
  "rig \<Rightarrow> inference_profile \<Rightarrow> runtime_identity option \<Rightarrow> datetime option \<Rightarrow> bench_row list \<Rightarrow> (bench_state, string list) stateful" where
  "append_rows g p rt measured_at [] = yield_step (Inr [])"
| "append_rows g p rt measured_at (r # rs) =
     then_step (draw_id g) (\<lambda>(i, reading).
     then_step (append_observation g (row_observation i reading p rt measured_at r)) (\<lambda>_.
     then_step (append_rows g p rt measured_at rs) (\<lambda>ids. yield_step (Inr (i # ids)))))"

definition import_validation ::
  "(pyval \<Rightarrow> string) \<Rightarrow> datetime \<Rightarrow> inference_profile \<Rightarrow> runtime_identity option \<Rightarrow> datetime option \<Rightarrow> bench_row \<Rightarrow> profile_validation result" where
  "import_validation digest reading p rt measured_at r = ebind (artifact_key digest (profile_artifact p)) (\<lambda>key. Inr
     \<lparr>val_runtime = (case rt of None \<Rightarrow> row_runtime r | Some x \<Rightarrow> x), val_profile_id = profile_id p, val_artifact_key = key,
      val_resources = participating_resources p, val_strategy = strategy p, val_options = profile_options p, val_state = SUPPORTED,
      val_depth = BENCHMARK, val_rationale = ''native llama-bench completed for the declared execution profile'',
      val_timestamp = (case measured_at of None \<Rightarrow> reading | Some t \<Rightarrow> t), val_provenance = VMeasured\<rparr>)"

section \<open>The report\<close>

definition import_record :: "inference_profile \<Rightarrow> profile_validation \<Rightarrow> string list \<Rightarrow> pyval" where
  "import_record p v ids = PDict [(''profile'', profile_dump p), (''preflight'', validation_dump v),
     (''runs'', PList (map (\<lambda>i. PDict [(''observation_id'', PStr i)]) ids)), (''measured_validation'', validation_dump v)]"

text \<open>\<open>_report\<close>: the existing report, if there is one, else a new one.\<close>

definition base_report :: "pyval option result \<Rightarrow> pyval \<Rightarrow> string \<Rightarrow> string \<Rightarrow> (string \<times> pyval) list result" where
  "base_report existing manifest model store_path = ebind existing (\<lambda>found. case found of
       None \<Rightarrow> Inr [(''schema'', PStr matrix_schema), (''binary'', PStr ''native-llama-bench''), (''model'', PStr model),
         (''manifest'', manifest), (''profiles'', PList []), (''benchmark_store'', PStr store_path)]
     | Some (PDict kvs) \<Rightarrow> ebind (guard (map_of kvs ''schema'' = Some (PStr matrix_schema))
         (ValueError ''existing matrix report has an unsupported schema'')) (\<lambda>_. Inr kvs)
     | Some _ \<Rightarrow> Inl (OtherError ''AttributeError''))"

text \<open>\<open>item.get("profile", {}).get("id")\<close>.\<close>

definition record_profile_id :: "pyval \<Rightarrow> pyval option result" where
  "record_profile_id item = (case item of
       PDict kvs \<Rightarrow> (case map_of kvs ''profile'' of
           None \<Rightarrow> Inr None | Some (PDict entries) \<Rightarrow> Inr (map_of entries ''id'') | Some _ \<Rightarrow> Inl (OtherError ''AttributeError''))
     | _ \<Rightarrow> Inl (OtherError ''AttributeError''))"

fun other_records :: "string \<Rightarrow> pyval list \<Rightarrow> pyval list result" where
  "other_records pid [] = Inr []"
| "other_records pid (item # items) = ebind (record_profile_id item) (\<lambda>i.
     ebind (other_records pid items) (\<lambda>rest. Inr (if i = Some (PStr pid) then rest else item # rest)))"

definition replace_record :: "string \<Rightarrow> pyval \<Rightarrow> (string \<times> pyval) list \<Rightarrow> (string \<times> pyval) list result" where
  "replace_record pid rec report = (case map_of report ''profiles'' of
       None \<Rightarrow> Inr (AList.update ''profiles'' (PList [rec]) report)
     | Some (PList items) \<Rightarrow> ebind (other_records pid items) (\<lambda>rest. Inr (AList.update ''profiles'' (PList (rest @ [rec])) report))
     | Some _ \<Rightarrow> Inl (TypeError ''profiles''))"

text \<open>The answer is the record and the report written over the existing one.\<close>

definition import_profile ::
  "(pyval \<Rightarrow> string) \<Rightarrow> rig \<Rightarrow> matrix_manifest \<Rightarrow> pyval \<Rightarrow> string \<Rightarrow> bench_row list result \<Rightarrow> runtime_identity option \<Rightarrow> datetime option
     \<Rightarrow> pyval option result \<Rightarrow> string \<Rightarrow> (bench_state, pyval \<times> (string \<times> pyval) list) stateful" where
  "import_profile digest g mf manifest pid raw rt measured_at existing store_path =
     then_step (yield_step (guard (case measured_at of None \<Rightarrow> True | Some t \<Rightarrow> has_tzinfo t)
       (ValueError ''measured_at must be timezone-aware''))) (\<lambda>_.
     then_step (yield_step (validate_manifest mf)) (\<lambda>m.
     then_step (yield_step (case find (\<lambda>sp. mp_id sp = pid) (mf_profiles m) of
       None \<Rightarrow> Inl (ValueError (''profile is not declared in matrix: '' @ pid)) | Some sp \<Rightarrow> Inr sp)) (\<lambda>sp.
     then_step (yield_step (load_rows raw)) (\<lambda>rows.
     then_step (yield_step (inference_profile_of sp (mf_artifact m) (model_filename (hd rows)))) (\<lambda>p.
     then_step (append_rows g p rt measured_at rows) (\<lambda>ids.
     then_step (draw_id g) (\<lambda>(_, reading).
     then_step (yield_step (import_validation digest reading p rt measured_at (hd rows))) (\<lambda>v.
     then_step (yield_step (base_report existing manifest (model_filename (hd rows)) store_path)) (\<lambda>report.
     then_step (yield_step (replace_record pid (import_record p v ids) report)) (\<lambda>report'.
     yield_step (Inr (import_record p v ids, report'))))))))))))"

end
