(* ===== verification/Benchmark_Properties.thy ===== *)
theory Benchmark_Properties
  imports Benchmark_Replay Benchmark_Import Scheduler_Properties Llama_Cpp_Properties
begin

text \<open>
  What the benchmark tools guarantee: the replay selects what the scheduler selects, the matrix accounts for
  every execution, an import replaces one profile's record, a contract is loaded only unqualified.
\<close>

section \<open>The replay and the scheduler\<close>

context stable_order
begin

lemma filter_insert_by_test:
  "wf x \<Longrightarrow> \<forall>y \<in> set ys. wf y \<Longrightarrow> sorted_by ys \<Longrightarrow>
     filter P (insert_by lt x ys) = (if P x then insert_by lt x (filter P ys) else filter P ys)"
proof (induction ys)
  case Nil
  then show ?case by simp
next
  case (Cons y ys)
  show ?case
  proof (cases "lt x y")
    case True
    have "lt x z" if "z \<in> set ys" for z
      using le_trans [of y z x] that True Cons.prems by auto
    then have "insert_by lt x (filter P ys) = x # filter P ys"
      by (cases "filter P ys") (auto simp: filter_eq_Cons_iff)
    with True show ?thesis by auto
  next
    case False
    with Cons show ?thesis by auto
  qed
qed

lemma filter_sort_by_test: "\<forall>x \<in> set xs. wf x \<Longrightarrow> filter P (sort_by lt xs) = sort_by lt (filter P xs)"
proof -
  have "\<forall>x \<in> set xs. wf x \<Longrightarrow> \<forall>y \<in> set ys. wf y \<Longrightarrow> sorted_by ys \<Longrightarrow>
      filter P (fold (insert_by lt) xs ys) = fold (insert_by lt) (filter P xs) (filter P ys)" for ys
    by (induction xs arbitrary: ys) (auto simp: filter_insert_by_test sorted_insert_by)
  then show "\<forall>x \<in> set xs. wf x \<Longrightarrow> filter P (sort_by lt xs) = sort_by lt (filter P xs)"
    by (simp add: sort_by_def)
qed

end

lemma evaluate_all_plans:
  "evaluate_all digest clock i s m d plans = Inr cs \<Longrightarrow> map cand_plan cs = plans"
  by (induction plans arbitrary: i cs) (auto split: option.splits elim: evaluate_Inr)

lemma evaluate_all_local:
  "evaluate_all digest clock (4 * i) s m d (generate s ps) = Inr cs \<Longrightarrow>
     evaluate_all digest (\<lambda>j. clock (4 * j)) i s m d (filter (\<lambda>plan. plan_mode plan = LOCAL) (generate s ps))
       = Inr (filter (\<lambda>c. plan_mode (cand_plan c) = LOCAL) cs)"
proof (induction ps arbitrary: i cs)
  case Nil
  then show ?case by (simp add: generate_def)
next
  case (Cons p ps)
  have gen: "generate s (p # ps) = plan_for s p LOCAL # plan_for s p POOL # plan_for s p PIPELINE # plan_for s p COMPOSE # generate s ps"
    by (simp add: generate_def all_modes_def)
  have modes: "plan_mode (plan_for s p mode) = mode" for mode by (simp add: plan_for_def)
  from Cons.prems obtain q c1 c2 c3 c4 cs' where q: "map_of d (profile_id p) = Some q"
    and c: "evaluate digest (clock (4 * i)) s m (plan_for s p LOCAL) q = Inr c1"
      "evaluate digest (clock (Suc (4 * i))) s m (plan_for s p POOL) q = Inr c2"
      "evaluate digest (clock (Suc (Suc (4 * i)))) s m (plan_for s p PIPELINE) q = Inr c3"
      "evaluate digest (clock (Suc (Suc (Suc (4 * i))))) s m (plan_for s p COMPOSE) q = Inr c4"
    and "evaluate_all digest clock (Suc (Suc (Suc (Suc (4 * i))))) s m d (generate s ps) = Inr cs'" and cs: "cs = c1 # c2 # c3 # c4 # cs'"
    unfolding gen by (auto split: option.splits)
  moreover have "Suc (Suc (Suc (Suc (4 * i)))) = 4 * Suc i" by simp
  ultimately have rest: "evaluate_all digest clock (4 * Suc i) s m d (generate s ps) = Inr cs'" by simp
  have "cand_plan c1 = plan_for s p LOCAL" "cand_plan c2 = plan_for s p POOL" "cand_plan c3 = plan_for s p PIPELINE"
    "cand_plan c4 = plan_for s p COMPOSE"
    using c by (auto elim: evaluate_Inr)
  then show ?case
    using Cons.IH [OF rest] q c(1) by (simp add: gen cs modes)
qed

lemma dict_of_distinct: "distinct (map fst kvs) \<Longrightarrow> dict_of kvs = kvs"
proof (induction kvs rule: rev_induct)
  case Nil
  then show ?case by (simp add: dict_of_def)
next
  case (snoc kv kvs)
  have "AList.update k v xs = xs @ [(k, v)]" if "k \<notin> fst ` set xs" for k v and xs :: "('a \<times> 'b) list"
    using that by (induction xs) auto
  with snoc show ?case by (cases kv) (simp add: dict_of_def)
qed

lemma profiles_by_id_distinct: "distinct (map profile_id ps) \<Longrightarrow> map snd (profiles_by_id ps) = ps"
  by (simp add: profiles_by_id_def dict_of_distinct comp_def)

lemma placement_mode:
  "placement_reasons s m plan p = Inr rs \<Longrightarrow> plan_mode plan \<notin> allow_modes m \<Longrightarrow> ''mode is outside mission constraints'' \<in> set rs"
  unfolding placement_reasons_def ebind_Inr_iff sum.inject
  by (elim exE conjE) (hypsubst, simp only: set_append list.set if_P not_not Un_iff insert_iff simp_thms)

lemma eligible_mode:
  assumes "evaluate digest clock s m plan p = Inr c" and "eligible c"
  shows "plan_mode (cand_plan c) \<in> allow_modes m"
  using assms(1)
proof (rule evaluate_Inr)
  fix v rs found
  assume rs: "placement_reasons s m plan p = Inr rs"
    and e: "reasons c = validation_reasons m v @ rs @ (if found = None then [no_evidence_reason] else [])"
      "eligible c \<longleftrightarrow> reasons c = [] \<or> reasons c = [no_evidence_reason]" and plan: "cand_plan c = plan"
  have "''mode is outside mission constraints'' \<notin> set (reasons c)"
    using assms(2) e(2) by (auto simp: no_evidence_reason_def)
  moreover have "set rs \<subseteq> set (reasons c)" unfolding e(1) by auto
  ultimately show ?thesis unfolding plan using placement_mode [OF rs] by blast
qed

lemma evaluate_all_eligible:
  "evaluate_all digest clock i s m d plans = Inr cs \<Longrightarrow> c \<in> set cs \<Longrightarrow> eligible c \<Longrightarrow> plan_mode (cand_plan c) \<in> allow_modes m"
  by (induction plans arbitrary: i cs) (auto split: option.splits dest: eligible_mode)

lemma find_filter: "find P xs = (case filter P xs of [] \<Rightarrow> None | x # _ \<Rightarrow> Some x)"
  by (induction xs) auto

lemma rank_restricted:
  assumes "\<forall>c \<in> set cs. ranked_ok (assign_rank c)" and "\<And>c. c \<in> set cs \<Longrightarrow> eligible c \<Longrightarrow> P c"
  shows "filter eligible (rank_candidates (filter P cs)) = filter eligible (rank_candidates cs)"
proof -
  have "filter eligible (map assign_rank (filter P cs)) = filter eligible (map assign_rank cs)"
    using assms(2) by (induction cs) auto
  then show ?thesis
    using assms(1) by (simp add: rank_candidates_def candidates.filter_sort_by_test)
qed

text \<open>
  C27. Replaying a matrix selects what the live scheduler would. For valid inputs, a mission restricted to
  \<open>LOCAL\<close> plans and profiles with distinct ids, ranking only the \<open>LOCAL\<close> candidates and taking the first
  eligible one gives exactly the candidate \<open>Scheduler.select\<close> returns when it evaluates the plans of every
  mode under the same clock readings, and gives none exactly when \<open>select\<close> raises \<open>ValueError\<close>.
\<close>

theorem replay_selects_like_scheduler:
  assumes "scheduler_ok s" "mission_ready m" "\<forall>p \<in> set ps. profile_ok p" "\<forall>i j. tz_aware (clock i j)"
    and "allow_modes m = {LOCAL}" "distinct (map profile_id ps)"
  shows "\<exists>cs. local_candidates digest (\<lambda>i. clock (4 * i)) s m ps = Inr cs
    \<and> (case first_eligible (rank_candidates cs) of
         Some c \<Rightarrow> select digest clock s m ps = Inr c
       | None \<Rightarrow> \<exists>msg. select digest clock s m ps = Inl (ValueError msg))"
proof -
  let ?local = "\<lambda>c. plan_mode (cand_plan c) = LOCAL"
  obtain cs where cs: "evaluate_all digest clock 0 s m (profiles_by_id ps) (generate s (map snd (profiles_by_id ps))) = Inr cs"
    and sound: "\<And>c. c \<in> set cs \<Longrightarrow> \<exists>p mode. map_of (profiles_by_id ps) (profile_id p) = Some p
       \<and> evaluated digest clock s m (plan_for s p mode) p c"
    using select_candidates [OF assms(1-4)] by metis
  note plans = cs [unfolded profiles_by_id_distinct [OF assms(6)]]
  have local: "local_candidates digest (\<lambda>i. clock (4 * i)) s m ps = Inr (filter ?local cs)"
    unfolding local_candidates_def using evaluate_all_local [of digest clock 0] plans by simp
  have "\<forall>c \<in> set cs. ranked_ok (assign_rank c)" using sound by (auto simp: evaluated_def dest!: evaluated_ranked_ok)
  moreover have "\<And>c. c \<in> set cs \<Longrightarrow> eligible c \<Longrightarrow> ?local c" using evaluate_all_eligible [OF cs] assms(5) by auto
  ultimately have same: "filter eligible (rank_candidates (filter ?local cs)) = filter eligible (rank_candidates cs)"
    by (rule rank_restricted)
  have "case first_eligible (rank_candidates (filter ?local cs)) of
         Some c \<Rightarrow> select digest clock s m ps = Inr c
       | None \<Rightarrow> \<exists>msg. select digest clock s m ps = Inl (ValueError msg)"
    unfolding first_eligible_def find_filter same
    by (cases "filter eligible (rank_candidates cs)") (auto simp: select_def cs Let_def filter_empty_conv filter_eq_Cons_iff)
  with local show ?thesis by blast
qed

section \<open>The matrix accounts for its executions\<close>

definition stored :: "bench_state \<Rightarrow> observation list" where
  "stored s = (case bench_store s of None \<Rightarrow> [] | Some bs \<Rightarrow> bs)"

definition accounts :: "inference_profile \<Rightarrow> observation \<Rightarrow> run_record \<Rightarrow> bool" where
  "accounts p b r \<longleftrightarrow> obs_id b = rr_observation_id r \<and> obs_profile b = p \<and> obs_runtime b = Some (res_runtime (rr_result r))
     \<and> workload_name (obs_workload b) = rr_workload r \<and> (obs_error b = None \<longleftrightarrow> success (rr_result r))"

definition certifies :: "inference_profile \<Rightarrow> profile_validation \<Rightarrow> run_record \<Rightarrow> bool" where
  "certifies p v r \<longleftrightarrow> success (rr_result r) \<and> val_runtime v = res_runtime (rr_result r) \<and> val_state v = SUPPORTED
     \<and> val_depth v = EXECUTION \<and> val_provenance v = VMeasured \<and> val_profile_id v = profile_id p \<and> val_strategy v = strategy p
     \<and> val_resources v = participating_resources p \<and> val_options v = profile_options p"

text \<open>The certificate is that of the last successful run.\<close>

definition settled :: "inference_profile \<Rightarrow> progress \<Rightarrow> bool" where
  "settled p acc \<longleftrightarrow> (case snd acc of
       None \<Rightarrow> \<forall>r \<in> set (fst acc). \<not> success (rr_result r)
     | Some v \<Rightarrow> \<exists>before r after. fst acc = before @ r # after \<and> certifies p v r \<and> (\<forall>r' \<in> set after. \<not> success (rr_result r')))"

definition grown :: "inference_profile \<Rightarrow> bench_state \<Rightarrow> run_record list \<Rightarrow> bench_state \<Rightarrow> bool" where
  "grown p s runs s' \<longleftrightarrow> (\<exists>new. stored s' = stored s @ new \<and> list_all2 (accounts p) new runs)
     \<and> map snd (matrix_requests s') = map snd (matrix_requests s) @ map rr_result runs"

lemma grown_none: "stored s' = stored s \<Longrightarrow> matrix_requests s' = matrix_requests s \<Longrightarrow> grown p s [] s'"
  by (simp add: grown_def)

lemma grown_append: "grown p s runs s' \<Longrightarrow> grown p s' runs' s'' \<Longrightarrow> grown p s (runs @ runs') s''"
  unfolding grown_def by (metis append.assoc list_all2_appendI map_append)

lemma run_error_None: "run_error res = None \<longleftrightarrow> success res"
  by (simp add: run_error_def)

lemma draw_id_Inr: "draw_id g s = (Inr x, s') \<longleftrightarrow> x = (rig_id g (ids_drawn s), rig_time g (ids_drawn s)) \<and> s' = s\<lparr>ids_drawn := Suc (ids_drawn s)\<rparr>"
  by (auto simp: draw_id_def)

lemma draw_host_Inr: "draw_host g s = (Inr h, s') \<longleftrightarrow> h = rig_host g (adapter_calls s) \<and> s' = s\<lparr>adapter_calls := Suc (adapter_calls s)\<rparr>"
  by (auto simp: draw_host_def)

lemma append_observation_Inr:
  "append_observation g b s = (Inr u, s') \<longleftrightarrow> rig_append g (length (stored s)) = Inr () \<and> s' = s\<lparr>bench_store := bench_append (bench_store s) b\<rparr>"
  by (auto simp: append_observation_def then_step_Inr stored_def)

lemma draw_id_frame: "draw_id g s = (Inr x, s') \<Longrightarrow> bench_store s' = bench_store s \<and> matrix_requests s' = matrix_requests s"
  by (simp add: draw_id_Inr)

lemma draw_host_frame: "draw_host g s = (Inr x, s') \<Longrightarrow> bench_store s' = bench_store s \<and> matrix_requests s' = matrix_requests s"
  by (simp add: draw_host_Inr)

lemma append_observation_frame:
  "append_observation g b s = (Inr u, s') \<Longrightarrow> bench_store s' = bench_append (bench_store s) b \<and> matrix_requests s' = matrix_requests s"
  by (simp add: append_observation_Inr)

lemma stored_append: "bench_store s' = bench_append (bench_store s) b \<Longrightarrow> stored s' = stored s @ [b]"
  by (simp add: stored_def bench_append_def)

lemma conclude_run_Inr:
  "conclude_run digest g p rec s = (Inr (rec', cert), s') \<Longrightarrow> rec' = rec \<and> bench_store s' = bench_store s \<and> matrix_requests s' = matrix_requests s
     \<and> (case cert of None \<Rightarrow> \<not> success (rr_result rec) | Some v \<Rightarrow> success (rr_result rec) \<and> (\<exists>t. certify digest t p (rr_result rec) = Inr v))"
  by (auto simp: conclude_run_def then_step_Inr draw_id_Inr split: if_splits)

lemma run_once_Inr:
  assumes "run_once digest str_of g sp p wl k s = (Inr (rec', cert), s')"
  shows "\<exists>r res oid t s6.
    conclude_run digest g p \<lparr>rr_workload = mw_name wl, rr_repetition = k + 1, rr_observation_id = oid, rr_result = res\<rparr> s6 = (Inr (rec', cert), s')
    \<and> bench_store s6 = bench_append (bench_store s) (matrix_observation oid t p wl res) \<and> matrix_requests s6 = matrix_requests s @ [(r, res)]"
  using assms unfolding run_once_def then_step_Inr yield_step_eq change_eq split_beta
  by - (elim exE conjE, intro exI conjI, assumption, ((drule draw_id_frame draw_host_frame append_observation_frame)+, simp)+)

lemma run_once_grows:
  assumes "run_once digest str_of g sp p wl k s = (Inr (rec, cert), s')"
  shows "grown p s [rec] s' \<and> (case cert of None \<Rightarrow> \<not> success (rr_result rec) | Some v \<Rightarrow> certifies p v rec)"
proof -
  obtain r res oid t s6 where
    last: "conclude_run digest g p \<lparr>rr_workload = mw_name wl, rr_repetition = k + 1, rr_observation_id = oid, rr_result = res\<rparr> s6 = (Inr (rec, cert), s')"
    and s6: "bench_store s6 = bench_append (bench_store s) (matrix_observation oid t p wl res)" "matrix_requests s6 = matrix_requests s @ [(r, res)]"
    using run_once_Inr [OF assms] by blast
  note rec = conclude_run_Inr [OF last]
  have "accounts p (matrix_observation oid t p wl res) rec"
    using rec by (simp add: accounts_def matrix_observation_def run_error_None)
  moreover have "stored s' = stored s @ [matrix_observation oid t p wl res]"
    using rec s6(1) by (intro stored_append) simp
  ultimately have "grown p s [rec] s'"
    using rec s6(2) unfolding grown_def by auto
  moreover have "case cert of None \<Rightarrow> \<not> success (rr_result rec) | Some v \<Rightarrow> certifies p v rec"
    using rec by (auto simp: certifies_def certify_def split: option.splits)
  ultimately show ?thesis ..
qed

lemma settled_step:
  assumes "settled p acc" and "case cert of None \<Rightarrow> \<not> success (rr_result rec) | Some v \<Rightarrow> certifies p v rec"
  shows "settled p (fst acc @ [rec], if cert = None then snd acc else cert)"
proof (cases cert)
  case None
  then show ?thesis
    using assms by (cases "snd acc") (auto simp: settled_def, metis (no_types, lifting) Un_iff append.assoc append_Cons empty_iff empty_set set_ConsD set_append)
next
  case (Some v)
  then show ?thesis
    using assms(2) by (simp add: settled_def) (intro exI [of _ "fst acc"] exI [of _ rec] exI [of _ "[]"], simp)
qed

lemma run_repetitions_grows:
  assumes "run_repetitions digest str_of g sp p st wl n k acc s = (Inr acc', s')" and "settled p acc"
  shows "settled p acc' \<and> (\<exists>runs. fst acc' = fst acc @ runs \<and> grown p s runs s' \<and> length runs \<le> n \<and> (st \<noteq> UNKNOWN \<longrightarrow> length runs = n))"
  using assms
proof (induction n arbitrary: k acc s)
  case 0
  then show ?case by (auto simp: grown_none)
next
  case (Suc n)
  from Suc.prems(1) obtain rec cert s1 where once: "run_once digest str_of g sp p wl k s = (Inr (rec, cert), s1)"
    and rest: "(let acc' = (fst acc @ [rec], if cert = None then snd acc else cert) in
      if cert = None \<and> st = UNKNOWN then yield_step (Inr acc') else run_repetitions digest str_of g sp p st wl n (Suc k) acc') s1 = (Inr acc', s')"
    by (auto simp: then_step_Inr)
  let ?acc = "(fst acc @ [rec], if cert = None then snd acc else cert)"
  note grows = run_once_grows [OF once]
  have settled: "settled p ?acc" using settled_step [OF Suc.prems(2)] grows by blast
  show ?case
  proof (cases "cert = None \<and> st = UNKNOWN")
    case True
    then show ?thesis using rest settled grows by (auto simp: Let_def)
  next
    case False
    then have "run_repetitions digest str_of g sp p st wl n (Suc k) ?acc s1 = (Inr acc', s')"
      using rest by (simp only: Let_def if_False)
    from Suc.IH [OF this settled] obtain runs where "settled p acc'" "fst acc' = (fst acc @ [rec]) @ runs" "grown p s1 runs s'"
      "length runs \<le> n" "st \<noteq> UNKNOWN \<longrightarrow> length runs = n" by auto
    then show ?thesis using grows grown_append [of p s "[rec]" s1 runs s'] by (intro conjI exI [of _ "rec # runs"]) auto
  qed
qed

lemma run_workloads_grows:
  assumes "run_workloads digest str_of g sp p st wls acc s = (Inr acc', s')" and "settled p acc"
  shows "settled p acc' \<and> (\<exists>runs. fst acc' = fst acc @ runs \<and> grown p s runs s'
    \<and> length runs \<le> sum_list (map (\<lambda>wl. nat (repetitions wl)) wls)
    \<and> (st \<noteq> UNKNOWN \<longrightarrow> length runs = sum_list (map (\<lambda>wl. nat (repetitions wl)) wls)))"
  using assms
proof (induction wls arbitrary: acc s)
  case Nil
  then show ?case by (auto simp: grown_none)
next
  case (Cons wl wls)
  from Cons.prems(1) obtain acc1 s1 where first: "run_repetitions digest str_of g sp p st wl (nat (repetitions wl)) 0 acc s = (Inr acc1, s1)"
    and rest: "run_workloads digest str_of g sp p st wls acc1 s1 = (Inr acc', s')"
    by (auto simp: then_step_Inr)
  obtain runs1 where r1: "settled p acc1" "fst acc1 = fst acc @ runs1" "grown p s runs1 s1" "length runs1 \<le> nat (repetitions wl)"
    "st \<noteq> UNKNOWN \<longrightarrow> length runs1 = nat (repetitions wl)"
    using run_repetitions_grows [OF first Cons.prems(2)] by blast
  obtain runs2 where "settled p acc'" "fst acc' = fst acc1 @ runs2" "grown p s1 runs2 s'"
    "length runs2 \<le> sum_list (map (\<lambda>wl. nat (repetitions wl)) wls)"
    "st \<noteq> UNKNOWN \<longrightarrow> length runs2 = sum_list (map (\<lambda>wl. nat (repetitions wl)) wls)"
    using Cons.IH [OF rest r1(1)] by blast
  then show ?case using r1 grown_append [OF r1(3)] by (intro conjI exI [of _ "runs1 @ runs2"]) auto
qed

definition total_runs :: "matrix_manifest \<Rightarrow> nat" where
  "total_runs mf = sum_list (map (\<lambda>wl. nat (repetitions wl)) (mf_workloads mf))"

definition record_ok :: "matrix_manifest \<Rightarrow> matrix_profile \<Rightarrow> profile_record \<Rightarrow> bool" where
  "record_ok mf sp rec \<longleftrightarrow> profile_id (pr_profile rec) = mp_id sp
     \<and> settled (pr_profile rec) (pr_runs rec, measured_validation rec)
     \<and> (if runnable (pr_preflight rec) sp then length (pr_runs rec) \<le> total_runs mf else pr_runs rec = [])
     \<and> (val_state (pr_preflight rec) = SUPPORTED \<longrightarrow> length (pr_runs rec) = total_runs mf)"

lemma inference_profile_of_id: "inference_profile_of sp a model = Inr p \<Longrightarrow> profile_id p = mp_id sp"
  by (auto simp: inference_profile_of_def validate_profile_def)

lemma run_profile_spec_ok:
  assumes "run_profile_spec digest str_of g mf sp s = (Inr rec, s')"
  shows "record_ok mf sp rec \<and> grown (pr_profile rec) s (pr_runs rec) s'"
proof -
  from assms obtain p v h s1 where p: "inference_profile_of sp (mf_artifact mf) (rig_model g) = Inr p"
    and h: "draw_host g s = (Inr h, s1)"
    and rest: "(if \<not> runnable v sp then yield_step (Inr \<lparr>pr_profile = p, pr_preflight = v, pr_runs = [], measured_validation = None\<rparr>)
     else then_step (run_workloads digest str_of g sp p (val_state v) (mf_workloads mf) ([], None)) (\<lambda>(runs, measured).
       yield_step (Inr \<lparr>pr_profile = p, pr_preflight = v, pr_runs = runs, measured_validation = measured\<rparr>))) s1 = (Inr rec, s')"
    by (auto simp: run_profile_spec_def then_step_Inr)
  have same: "stored s1 = stored s" "matrix_requests s1 = matrix_requests s"
    using draw_host_frame [OF h] by (simp_all add: stored_def)
  show ?thesis
  proof (cases "runnable v sp")
    case False
    then have "rec = \<lparr>pr_profile = p, pr_preflight = v, pr_runs = [], measured_validation = None\<rparr>" "s' = s1" using rest by simp_all
    then show ?thesis
      using False same inference_profile_of_id [OF p] by (auto simp: record_ok_def settled_def runnable_def intro: grown_none)
  next
    case True
    then obtain acc where run: "run_workloads digest str_of g sp p (val_state v) (mf_workloads mf) ([], None) s1 = (Inr acc, s')"
      and rec: "rec = \<lparr>pr_profile = p, pr_preflight = v, pr_runs = fst acc, measured_validation = snd acc\<rparr>"
      using rest by (auto simp: then_step_Inr)
    have "settled p ([], None)" by (simp add: settled_def)
    from run_workloads_grows [OF run this]
    have "settled p acc" "grown p s1 (fst acc) s'" "length (fst acc) \<le> total_runs mf"
      "val_state v \<noteq> UNKNOWN \<longrightarrow> length (fst acc) = total_runs mf"
      by (auto simp: total_runs_def)
    moreover from this(2) have "grown p s (fst acc) s'" using same by (simp add: grown_def)
    ultimately show ?thesis
      using True inference_profile_of_id [OF p] by (auto simp: rec record_ok_def runnable_def)
  qed
qed

definition accounted_runs :: "profile_record list \<Rightarrow> (inference_profile \<times> run_record) list" where
  "accounted_runs recs = concat (map (\<lambda>rec. map (Pair (pr_profile rec)) (pr_runs rec)) recs)"

lemma run_specs_ok:
  "run_specs digest str_of g mf sps s = (Inr recs, s') \<Longrightarrow> list_all2 (record_ok mf) sps recs
     \<and> (\<exists>new. stored s' = stored s @ new \<and> list_all2 (\<lambda>b (p, r). accounts p b r) new (accounted_runs recs))
     \<and> map snd (matrix_requests s') = map snd (matrix_requests s) @ map (rr_result \<circ> snd) (accounted_runs recs)"
proof (induction sps arbitrary: s recs)
  case Nil
  then show ?case by (simp add: accounted_runs_def)
next
  case (Cons sp sps)
  from Cons.prems obtain rec s1 recs' where first: "run_profile_spec digest str_of g mf sp s = (Inr rec, s1)"
    and rest: "run_specs digest str_of g mf sps s1 = (Inr recs', s')" and recs: "recs = rec # recs'"
    by (auto simp: then_step_Inr)
  have cons: "accounted_runs (rec # recs') = map (Pair (pr_profile rec)) (pr_runs rec) @ accounted_runs recs'"
    by (simp add: accounted_runs_def)
  from run_profile_spec_ok [OF first] obtain new where "stored s1 = stored s @ new"
    "list_all2 (\<lambda>b (p, r). accounts p b r) new (map (Pair (pr_profile rec)) (pr_runs rec))"
    "map snd (matrix_requests s1) = map snd (matrix_requests s) @ map rr_result (pr_runs rec)" "record_ok mf sp rec"
    by (auto simp: grown_def list.rel_map)
  then show ?case
    using Cons.IH [OF rest] unfolding recs cons by (auto simp: comp_def intro: list_all2_appendI)
qed

text \<open>
  C11. The matrix accounts for every execution. When a matrix run returns, the benchmark store has grown by
  exactly one observation per execution, in order, each with the id, profile, workload, runtime and success
  of the run the report lists; and the adapter was asked for exactly the executions the report lists.
\<close>

theorem matrix_accounts_for_executions:
  assumes "run_matrix digest str_of g mf s = (Inr recs, s')"
  shows "(\<exists>new. stored s' = stored s @ new \<and> list_all2 (\<lambda>b (p, r). accounts p b r) new (accounted_runs recs))
    \<and> map snd (matrix_requests s') = map snd (matrix_requests s) @ map (rr_result \<circ> snd) (accounted_runs recs)"
proof -
  from assms obtain m where "run_specs digest str_of g m (mf_profiles m) s = (Inr recs, s')"
    by (auto simp: run_matrix_def then_step_Inr)
  then show ?thesis using run_specs_ok by blast
qed

lemma validate_manifest_same: "validate_manifest mf = Inr m \<Longrightarrow> m = mf"
  by (auto simp: validate_manifest_def)

text \<open>
  C12. What a matrix report certifies. It has one record per declared profile. A profile that its preflight
  does not admit is never executed; a supported one is executed on every workload as often as asked. A
  measured validation is present exactly if some run succeeded, and then it certifies the runtime of the
  last successful run, for exactly the profile's resources, strategy and options.
\<close>

theorem matrix_certifies_last_success:
  assumes "run_matrix digest str_of g mf s = (Inr recs, s')"
  shows "list_all2 (record_ok mf) (mf_profiles mf) recs"
proof -
  from assms obtain m where "validate_manifest mf = Inr m" "run_specs digest str_of g m (mf_profiles m) s = (Inr recs, s')"
    by (auto simp: run_matrix_def then_step_Inr)
  then show ?thesis using run_specs_ok validate_manifest_same by blast
qed

section \<open>From the matrix to the scheduler\<close>

definition decodes :: "decoder \<Rightarrow> profile_record list \<Rightarrow> bool" where
  "decodes dec recs \<longleftrightarrow> (\<forall>rec \<in> set recs. decode_profile dec (profile_dump (pr_profile rec)) = Inr (pr_profile rec)
     \<and> (\<forall>v. measured_validation rec = Some v \<longrightarrow> decode_validation dec (validation_dump v) = Inr v))"

lemma subscript_dict: "subscript (PDict kvs) k = (case map_of kvs k of None \<Rightarrow> Inl (KeyError k) | Some x \<Rightarrow> Inr x)"
  by (simp add: subscript_def)

lemma read_record_dump:
  assumes "decodes dec [rec]"
  shows "read_records dec (record_dump dump rec # items) = ebind (read_records dec items)
    (\<lambda>(ps, vs). Inr (pr_profile rec # ps, (case measured_validation rec of None \<Rightarrow> [] | Some v \<Rightarrow> [v]) @ vs))"
proof (cases "measured_validation rec")
  case None
  then show ?thesis using assms by (simp add: decodes_def record_dump_def subscript_dict)
next
  case (Some v)
  moreover obtain kvs where "validation_dump v = PDict kvs" by (simp add: validation_dump_def)
  ultimately show ?thesis using assms by (simp add: decodes_def record_dump_def subscript_dict)
qed

lemma read_records_dumps:
  "decodes dec recs \<Longrightarrow> read_records dec (map (record_dump dump) recs) = Inr (map pr_profile recs, List.map_filter measured_validation recs)"
proof (induction recs)
  case Nil
  then show ?case by simp
next
  case (Cons rec recs)
  then have "decodes dec [rec]" "decodes dec recs" by (simp_all add: decodes_def)
  with Cons.IH show ?case
    by (cases "measured_validation rec") (simp_all add: read_record_dump)
qed

lemma settled_certificate: "settled p acc \<Longrightarrow> snd acc = Some v \<Longrightarrow> \<exists>r \<in> set (fst acc). certifies p v r"
  by (fastforce simp: settled_def)

text \<open>
  The scheduler is given only what was executed. Reading back the report of a matrix run, the replay
  obtains the declared profiles in order, and each validation it obtains certifies a successful execution of
  that run: same runtime, same profile, resources, strategy and options, measured by execution.
\<close>

theorem replay_reads_only_executions:
  assumes "run_matrix digest str_of g mf s = (Inr recs, s')" and "decodes dec recs"
  shows "\<exists>vs. profiles_and_validations dec (PDict (matrix_report dump manifest path g recs)) = Inr (map pr_profile recs, vs)
    \<and> (\<forall>v \<in> set vs. \<exists>(p, r) \<in> set (accounted_runs recs). certifies p v r)"
proof -
  have "profiles_and_validations dec (PDict (matrix_report dump manifest path g recs)) = Inr (map pr_profile recs, List.map_filter measured_validation recs)"
    using read_records_dumps [OF assms(2)] by (simp add: profiles_and_validations_def matrix_report_def get_or_def iterate_def)
  moreover have "\<exists>(p, r) \<in> set (accounted_runs recs). certifies p v r" if v: "v \<in> set (List.map_filter measured_validation recs)" for v
  proof -
    from v obtain rec where rec: "rec \<in> set recs" "measured_validation rec = Some v"
      by (auto simp: List.map_filter_def)
    from assms(1) obtain m where "run_specs digest str_of g m (mf_profiles m) s = (Inr recs, s')"
      by (auto simp: run_matrix_def then_step_Inr)
    then have "list_all2 (record_ok m) (mf_profiles m) recs" using run_specs_ok by blast
    then obtain sp where "record_ok m sp rec" using rec(1) by (auto simp: list_all2_conv_all_nth in_set_conv_nth)
    then obtain r where "r \<in> set (pr_runs rec)" "certifies (pr_profile rec) v r"
      using settled_certificate [of "pr_profile rec" "(pr_runs rec, measured_validation rec)" v] rec(2) by (auto simp: record_ok_def)
    then show ?thesis using rec(1) by (auto simp: accounted_runs_def)
  qed
  ultimately show ?thesis by blast
qed

section \<open>Imports\<close>

lemma other_records_filter: "other_records pid items = Inr rest \<Longrightarrow> rest = filter (\<lambda>item. record_profile_id item \<noteq> Inr (Some (PStr pid))) items"
  by (induction items arbitrary: rest) auto

lemma find_SomeD: "find P xs = Some x \<Longrightarrow> P x"
  by (induction xs) (auto split: if_splits)

lemma load_rows_same: "load_rows (Inr items) = Inr rows \<Longrightarrow> rows = items"
proof -
  have "emap validate_row xs = Inr ys \<Longrightarrow> ys = xs" for xs ys
    by (induction xs arbitrary: ys) (auto simp: validate_row_def)
  then show "load_rows (Inr items) = Inr rows \<Longrightarrow> rows = items" by (auto simp: load_rows_def)
qed

lemma replace_record_effect:
  assumes "replace_record pid rec kvs = Inr report" and "map_of kvs ''profiles'' = Some (PList items)"
  shows "map_of report ''profiles'' = Some (PList (filter (\<lambda>item. record_profile_id item \<noteq> Inr (Some (PStr pid))) items @ [rec]))"
    and "\<forall>k. k \<noteq> ''profiles'' \<longrightarrow> map_of report k = map_of kvs k"
  using assms other_records_filter by (auto simp: replace_record_def update_conv')

lemma append_rows_grows:
  "append_rows g p rt measured_at rows s = (Inr ids, s') \<Longrightarrow> \<exists>new. stored s' = stored s @ new \<and> map obs_id new = ids
     \<and> list_all2 (\<lambda>b r. obs_profile b = p \<and> obs_workload b = row_workload r \<and> obs_error b = None) new rows"
proof (induction rows arbitrary: s ids)
  case Nil
  then show ?case by simp
next
  case (Cons r rows)
  from Cons.prems obtain i t s1 s2 ids' where draw: "draw_id g s = (Inr (i, t), s1)"
    and app: "append_observation g (row_observation i t p rt measured_at r) s1 = (Inr (), s2)"
    and rest: "append_rows g p rt measured_at rows s2 = (Inr ids', s')" and ids: "ids = i # ids'"
    by (auto simp: then_step_Inr)
  have "stored s2 = stored s @ [row_observation i t p rt measured_at r]"
    using draw_id_frame [OF draw] append_observation_frame [OF app] stored_append [of s2 s1] by (simp add: stored_def)
  then show ?case
    using Cons.IH [OF rest] by (auto simp: ids row_observation_def)
qed

text \<open>
  The offload settings of a row are read but not compared with the profile: rows measured with any number of
  GPU layers and any split become the same evidence for it.
\<close>

lemma import_ignores_offload:
  "row_observation i t p rt measured_at (r\<lparr>n_gpu_layers := layers, row_split_mode := mode, row_main_gpu := gpu, row_tensor_split := split\<rparr>)
     = row_observation i t p rt measured_at r"
  "import_validation digest t p rt measured_at (r\<lparr>n_gpu_layers := layers, row_split_mode := mode, row_main_gpu := gpu, row_tensor_split := split\<rparr>)
     = import_validation digest t p rt measured_at r"
  by (cases rt; simp add: row_observation_def row_workload_def row_runtime_def import_validation_def)+

text \<open>
  An import replaces one profile's record and nothing else. When an import into an existing matrix
  report returns, the new report has the same other entries, and its profiles are those of the old one
  without the records of that profile id, in order, followed by the new record; the record names exactly the
  observations appended to the store, one per row of the raw file, for the declared profile.
\<close>

theorem import_replaces_one_record:
  assumes "import_profile digest g mf manifest pid (Inr rows) rt measured_at (Inr (Some (PDict kvs))) path s = (Inr (rec, report), s')"
    and "map_of kvs ''profiles'' = Some (PList items)"
  shows "map_of report ''profiles'' = Some (PList (filter (\<lambda>item. record_profile_id item \<noteq> Inr (Some (PStr pid))) items @ [rec]))
    \<and> (\<forall>k. k \<noteq> ''profiles'' \<longrightarrow> map_of report k = map_of kvs k) \<and> record_profile_id rec = Inr (Some (PStr pid))
    \<and> (\<exists>new p v. stored s' = stored s @ new \<and> profile_id p = pid \<and> rec = import_record p v (map obs_id new)
        \<and> list_all2 (\<lambda>b r. obs_profile b = p \<and> obs_workload b = row_workload r \<and> obs_error b = None) new rows)"
proof -
  from assms(1) obtain m :: matrix_manifest and sp p ids s1 t s2 v where sp: "find (\<lambda>sp. mp_id sp = pid) (mf_profiles m) = Some sp"
      "inference_profile_of sp (mf_artifact m) (model_filename (hd rows)) = Inr p"
    and rows: "append_rows g p rt measured_at rows s = (Inr ids, s1)" and draw: "draw_id g s1 = (Inr t, s2)"
    and rec: "rec = import_record p v ids" and s': "s' = s2" and report: "replace_record pid (import_record p v ids) kvs = Inr report"
    by (auto simp: import_profile_def then_step_Inr base_report_def dest!: load_rows_same split: option.splits)
  have pid: "profile_id p = pid" using find_SomeD [OF sp(1)] inference_profile_of_id [OF sp(2)] by simp
  obtain new where new: "stored s1 = stored s @ new" "map obs_id new = ids"
    "list_all2 (\<lambda>b r. obs_profile b = p \<and> obs_workload b = row_workload r \<and> obs_error b = None) new rows"
    using append_rows_grows [OF rows] by blast
  have "stored s' = stored s @ new" using new(1) draw_id_frame [OF draw] by (simp add: s' stored_def)
  moreover have "record_profile_id rec = Inr (Some (PStr pid))"
    by (simp add: rec import_record_def record_profile_id_def profile_dump_def pid)
  ultimately show ?thesis
    using replace_record_effect [OF report assms(2)] new(2,3) rec pid by auto
qed

section \<open>Contracts\<close>

lemma emap_nth: "emap f xs = Inr ys \<Longrightarrow> i < length xs \<Longrightarrow> f (xs ! i) = Inr (ys ! i)"
  by (simp add: emap_Inr_list_all2 list_all2_conv_all_nth)

lemma get_or_subscript: "get_or v k d = Inr x \<Longrightarrow> x \<noteq> d \<Longrightarrow> subscript v k = Inr x"
  by (auto simp: get_or_def subscript_def split: pyval.splits option.splits)

lemma contract_validation_Inr:
  "contract_validation digest str_of now dec rt r p = Inr v \<Longrightarrow> val_profile_id v = profile_id p
     \<and> val_resources v = participating_resources p \<and> val_strategy v = strategy p \<and> val_options v = profile_options p
     \<and> artifact_key digest (profile_artifact p) = Inr (val_artifact_key v)"
  by (auto simp: contract_validation_def)

text \<open>
  A runtime-profile contract is loaded only as what it is. When loading returns, the contract declares the
  supported schema, \<open>hardware_qualified\<close> is the literal \<open>false\<close> and the authorization is the operator's
  acceptance of an unqualified runtime; each validation belongs to the profile at its position: its id,
  artifact key, resources, strategy and options.
\<close>

theorem contract_stays_unqualified:
  assumes "load_profile_contract digest str_of now dec (Inr c) = Inr (ps, vs)"
  shows "(\<exists>q. subscript c ''schema'' = Inr (PStr ''long-haul-runtime-profile/v1'') \<and> subscript c ''qualification'' = Inr q
      \<and> subscript q ''hardware_qualified'' = Inr (PBool False)
      \<and> subscript q ''authorization'' = Inr (PStr ''operator-risk-accepted-unqualified''))
    \<and> length vs = length ps
    \<and> (\<forall>i < length ps. val_profile_id (vs ! i) = profile_id (ps ! i) \<and> val_resources (vs ! i) = participating_resources (ps ! i)
        \<and> val_strategy (vs ! i) = strategy (ps ! i) \<and> val_options (vs ! i) = profile_options (ps ! i)
        \<and> artifact_key digest (profile_artifact (ps ! i)) = Inr (val_artifact_key (vs ! i)))"
proof -
  from assms obtain records a rt where valid: "validate_profile_contract c = Inr ()"
    and entries: "contract_entries digest str_of now dec records a rt = Inr (ps, vs)"
    by (auto simp: load_profile_contract_def)
  from entries have ps: "emap (contract_profile dec a) records = Inr ps"
    and vs: "emap (\<lambda>(r, p). contract_validation digest str_of now dec rt r p) (zip records ps) = Inr vs"
    by (auto simp: contract_entries_def)
  have len: "length ps = length records" "length vs = length ps" using emap_length [OF ps] emap_length [OF vs] by auto
  have "val_profile_id (vs ! i) = profile_id (ps ! i) \<and> val_resources (vs ! i) = participating_resources (ps ! i)
        \<and> val_strategy (vs ! i) = strategy (ps ! i) \<and> val_options (vs ! i) = profile_options (ps ! i)
        \<and> artifact_key digest (profile_artifact (ps ! i)) = Inr (val_artifact_key (vs ! i))" if "i < length ps" for i
    using emap_nth [OF vs, of i] that len by (intro contract_validation_Inr) simp
  moreover have "\<exists>q. subscript c ''schema'' = Inr (PStr ''long-haul-runtime-profile/v1'') \<and> subscript c ''qualification'' = Inr q
      \<and> subscript q ''hardware_qualified'' = Inr (PBool False)
      \<and> subscript q ''authorization'' = Inr (PStr ''operator-risk-accepted-unqualified'')"
  proof -
    from valid obtain q where q: "get_or c ''schema'' PNone = Inr (PStr ''long-haul-runtime-profile/v1'')" "get_or c ''qualification'' (PDict []) = Inr q"
      "get_or q ''hardware_qualified'' PNone = Inr (PBool False)" "get_or q ''authorization'' PNone = Inr (PStr ''operator-risk-accepted-unqualified'')"
      by (auto simp: validate_profile_contract_def)
    have "q \<noteq> PDict []" using q(3) by (auto simp: get_or_def)
    then show ?thesis using q [THEN get_or_subscript] by blast
  qed
  ultimately show ?thesis using len(2) by blast
qed

section \<open>Witnesses\<close>

theorem replay_selects_like_scheduler_witness:
  "\<exists>cs. local_candidates sample_digest (\<lambda>_. sample_clock) (sample_scheduler [sample_validation SUPPORTED])
     (replay_mission None None None) [sample_profile] = Inr cs"
proof -
  have s: "scheduler_ok (sample_scheduler [sample_validation SUPPORTED])"
    by (rule sample_scheduler_ok) (simp add: sample_validation_def)
  have m: "mission_ready (replay_mission None None None)" "allow_modes (replay_mission None None None) = {LOCAL}"
    by (simp_all add: mission_ready_def validate_mission_def replay_mission_def)
  show ?thesis
    using replay_selects_like_scheduler [OF s m(1), of "[sample_profile]" "\<lambda>_. sample_clock" sample_digest] m(2) sample_profile_ok
    by (auto simp: sample_clock_def)
qed

definition sample_spec :: matrix_profile where
  "sample_spec = \<lparr>mp_id = ''p'', mp_strategy = ''resident'', mp_resources = [''c''], mp_options = [], explore_unknown = False\<rparr>"

definition sample_bench_workload :: matrix_workload where
  "sample_bench_workload = \<lparr>mw_name = ''w'', mw_prompt = ''hi'', mw_max_tokens = 4, mw_temperature = Fin 0, repetitions = 1\<rparr>"

definition sample_manifest :: matrix_manifest where
  "sample_manifest = \<lparr>mf_artifact = \<lparr>foundation = ''f'', revision = None, quantization = None, adapters = [], auxiliary_artifacts = []\<rparr>,
     mf_profiles = [sample_spec], mf_workloads = [sample_bench_workload]\<rparr>"

definition sample_rig :: rig where
  "sample_rig = \<lparr>rig_host = (\<lambda>_. sample_host []), rig_binary = ''cli'', rig_model = ''m'', rig_timeout = Fin 5, rig_id = (\<lambda>_. ''i''),
     rig_time = (\<lambda>_. Aware 0 0), rig_append = (\<lambda>_. Inr ())\<rparr>"

definition new_bench :: bench_state where
  "new_bench = \<lparr>adapter_calls = 0, ids_drawn = 0, bench_store = None, matrix_requests = []\<rparr>"

definition sample_matrix_profile :: inference_profile where
  "sample_matrix_profile = \<lparr>profile_id = ''p'', profile_runtime_id = ''llama.cpp'', strategy = ''resident'',
     profile_artifact = mf_artifact sample_manifest, participating_resources = [''c''], requirements = [],
     profile_options = [(''model_path'', PStr ''m'')], profile_schema_version = 1\<rparr>"

definition sample_matrix_request :: execution_request where
  "sample_matrix_request = \<lparr>request_id = ''i'', req_profile = sample_matrix_profile, prompt = ''hi'', max_tokens = 4, temperature = Fin 0,
     timeout_seconds = Fin 5, req_allow_unknown = False, seed = None, context_tokens = None, req_prompt_mode = RuntimeDefault\<rparr>"

lemma sample_matrix_supported:
  "\<exists>v. cpp_validate (\<lambda>_. []) (\<lambda>_. []) (sample_host []) ''cli'' sample_matrix_profile = Inr v \<and> val_state v = SUPPORTED"
  by (simp add: sample_cpp_run sample_matrix_profile_def sample_manifest_def Let_def del: int_str.simps)

lemma sample_matrix_succeeds:
  "\<exists>res. fst (cpp_execute (\<lambda>_. []) (\<lambda>_. []) (sample_host []) ''cli'' sample_matrix_request) = Inr res \<and> success res"
  by (simp add: sample_cpp_run sample_matrix_request_def sample_matrix_profile_def sample_manifest_def parse_timings_def Let_def del: int_str.simps)

lemma sample_matrix_certified: "\<exists>v. certify (\<lambda>_. []) t sample_matrix_profile res = Inr v"
  by (simp add: certify_def artifact_key_def artifact_dump_def opt_str_def sample_matrix_profile_def sample_manifest_def)

lemma sample_matrix_parts:
  "validate_manifest sample_manifest = Inr sample_manifest"
  "inference_profile_of sample_spec (mf_artifact sample_manifest) ''m'' = Inr sample_matrix_profile"
  "matrix_request sample_rig sample_spec sample_matrix_profile sample_bench_workload ''i'' = Inr sample_matrix_request"
  "mf_profiles sample_manifest = [sample_spec]" "mf_workloads sample_manifest = [sample_bench_workload]"
  "nat (repetitions sample_bench_workload) = Suc 0"
  by (simp_all add: validate_manifest_def validate_workload_def inference_profile_of_def validate_profile_def matrix_request_def
      validate_request_def opt_range_def sample_matrix_profile_def sample_matrix_request_def sample_manifest_def sample_rig_def
      sample_spec_def sample_bench_workload_def)

lemma sample_rig_simps:
  "rig_host sample_rig i = sample_host []" "rig_binary sample_rig = ''cli''" "rig_model sample_rig = ''m''" "rig_id sample_rig i = ''i''"
  "rig_time sample_rig i = Aware 0 0" "rig_append sample_rig i = Inr ()"
  by (simp_all add: sample_rig_def)

lemmas stateful_defs = then_step_def yield_step_def draw_id_def draw_host_def append_observation_def look_def change_def

lemma sample_matrix_once:
  "\<exists>rec c s'. run_once (\<lambda>_. []) (\<lambda>_. []) sample_rig sample_spec sample_matrix_profile sample_bench_workload 0 s = (Inr (rec, Some c), s')"
proof -
  obtain res where res: "fst (cpp_execute (\<lambda>_. []) (\<lambda>_. []) (sample_host []) ''cli'' sample_matrix_request) = Inr res" "success res"
    using sample_matrix_succeeds by blast
  moreover obtain c where "certify (\<lambda>_. []) (Aware 0 0) sample_matrix_profile res = Inr c" using sample_matrix_certified by blast
  ultimately show ?thesis
    using sample_matrix_parts(3) by (simp add: run_once_def conclude_run_def stateful_defs sample_rig_simps)
qed

lemma sample_matrix_run:
  "\<exists>rec s' r v. run_matrix (\<lambda>_. []) (\<lambda>_. []) sample_rig sample_manifest new_bench = (Inr [rec], s')
     \<and> pr_profile rec = sample_matrix_profile \<and> pr_runs rec = [r] \<and> measured_validation rec = Some v"
proof -
  obtain v where v: "cpp_validate (\<lambda>_. []) (\<lambda>_. []) (sample_host []) ''cli'' sample_matrix_profile = Inr v" "val_state v = SUPPORTED"
    using sample_matrix_supported by blast
  obtain r c s' where "run_once (\<lambda>_. []) (\<lambda>_. []) sample_rig sample_spec sample_matrix_profile sample_bench_workload 0
      (new_bench\<lparr>adapter_calls := Suc (adapter_calls new_bench)\<rparr>) = (Inr (r, Some c), s')"
    using sample_matrix_once by blast
  then show ?thesis
    using v sample_matrix_parts
    by (simp add: run_matrix_def run_profile_spec_def runnable_def then_step_def yield_step_def draw_host_def sample_rig_simps)
qed

theorem matrix_accounts_for_executions_witness:
  "\<exists>recs (s' :: bench_state). length (accounted_runs recs) = 1 \<and> length (stored s') = 1"
proof -
  obtain rec s' r v where run: "run_matrix (\<lambda>_. []) (\<lambda>_. []) sample_rig sample_manifest new_bench = (Inr [rec], s')" and "pr_runs rec = [r]"
    using sample_matrix_run by (elim exE conjE)
  then have one: "length (accounted_runs [rec]) = 1" by (simp add: accounted_runs_def)
  moreover have "length (stored s') = 1"
    using matrix_accounts_for_executions [OF run] one by (auto simp: stored_def new_bench_def dest: list_all2_lengthD)
  ultimately show ?thesis by (intro exI conjI)
qed

theorem matrix_certifies_last_success_witness:
  "\<exists>rec :: profile_record. record_ok sample_manifest sample_spec rec \<and> measured_validation rec \<noteq> None"
proof -
  obtain rec s' r v where run: "run_matrix (\<lambda>_. []) (\<lambda>_. []) sample_rig sample_manifest new_bench = (Inr [rec], s')"
    and "measured_validation rec = Some v"
    using sample_matrix_run by (elim exE conjE)
  then have "record_ok sample_manifest sample_spec rec \<and> measured_validation rec \<noteq> None"
    using matrix_certifies_last_success [OF run] by (simp add: sample_matrix_parts)
  then show ?thesis ..
qed

definition sample_decoder :: "inference_profile \<Rightarrow> profile_validation \<Rightarrow> decoder" where
  "sample_decoder p v = \<lparr>decode_profile = (\<lambda>_. Inr p), decode_validation = (\<lambda>_. Inr v), build_runtime = (\<lambda>_. Inr sample_runtime),
     build_profile = (\<lambda>_ _. Inr p), build_artifact = (\<lambda>_. Inr (profile_artifact p)), parse_state = (\<lambda>_. Inr SUPPORTED),
     parse_depth = (\<lambda>_. Inr BENCHMARK), parse_provenance = (\<lambda>_. Inr VMeasured)\<rparr>"

theorem replay_reads_only_executions_witness:
  "\<exists>dec report vs. profiles_and_validations dec (PDict report) = Inr ([sample_matrix_profile], vs)"
proof -
  obtain rec s' r v where run: "run_matrix (\<lambda>_. []) (\<lambda>_. []) sample_rig sample_manifest new_bench = (Inr [rec], s')"
    and rec: "pr_profile rec = sample_matrix_profile" "measured_validation rec = Some v"
    using sample_matrix_run by (elim exE conjE)
  have "decodes (sample_decoder sample_matrix_profile v) [rec]" by (simp add: decodes_def sample_decoder_def rec)
  from replay_reads_only_executions [OF run this, of "\<lambda>_. PNone" PNone "[]"] rec show ?thesis by auto
qed

definition sample_row :: bench_row where
  "sample_row = \<lparr>build_commit = ''c'', build_number = ''1'', row_backends = ''CPU'', model_filename = ''m'', n_gpu_layers = 0,
     row_split_mode = ''layer'', row_main_gpu = 0, row_tensor_split = ''0.00'', n_prompt = 0, n_gen = 8, n_depth = 0, avg_ts = Fin 3,
     stddev_ts = None\<rparr>"

lemma sample_import:
  "\<exists>rec report s'. import_profile (\<lambda>_. []) sample_rig sample_manifest PNone ''p'' (Inr [sample_row]) None None
     (Inr (Some (PDict [(''schema'', PStr matrix_schema), (''profiles'', PList [])]))) [] new_bench = (Inr (rec, report), s')"
  using sample_matrix_parts(1,2,4)
  by (simp add: import_profile_def load_rows_def validate_row_def sample_row_def stateful_defs sample_rig_simps import_validation_def
      artifact_key_def artifact_dump_def opt_str_def sample_matrix_profile_def sample_manifest_def base_report_def replace_record_def
      sample_spec_def)

theorem import_replaces_one_record_witness:
  "\<exists>rec (report :: (string \<times> pyval) list) (s' :: bench_state). map_of report ''profiles'' = Some (PList [rec]) \<and> length (stored s') = 1"
proof -
  obtain rec report s' where run: "import_profile (\<lambda>_. []) sample_rig sample_manifest PNone ''p'' (Inr [sample_row]) None None
     (Inr (Some (PDict [(''schema'', PStr matrix_schema), (''profiles'', PList [])]))) [] new_bench = (Inr (rec, report), s')"
    using sample_import by (elim exE)
  from import_replaces_one_record [OF run, of "[]"]
  have "map_of report ''profiles'' = Some (PList [rec])" "length (stored s') = 1"
    by (auto simp: stored_def new_bench_def dest: list_all2_lengthD)
  then show ?thesis by (intro exI conjI)
qed

definition sample_profile_contract :: pyval where
  "sample_profile_contract = PDict [(''schema'', PStr ''long-haul-runtime-profile/v1''),
     (''qualification'', PDict [(''hardware_qualified'', PBool False), (''authorization'', PStr ''operator-risk-accepted-unqualified'')]),
     (''runtime'', PDict [(''runtime_id'', PStr ''r'')]), (''model'', PDict [(''foundation'', PStr ''f'')]),
     (''profiles'', PList [PDict [(''id'', PStr ''P''), (''runtime_id'', PStr ''r''), (''strategy'', PStr ''s''), (''resources'', PList []),
       (''validation'', PDict [(''state'', PStr ''SUPPORTED'')])]])]"

lemma sample_contract_loads:
  "\<exists>v. load_profile_contract (\<lambda>_. []) (\<lambda>_. []) (Aware 0 0) (sample_decoder sample_matrix_profile undefined) (Inr sample_profile_contract)
     = Inr ([sample_matrix_profile], [v])"
  by (simp add: load_profile_contract_def sample_profile_contract_def validate_profile_contract_def get_or_def subscript_def contract_runtime_def
      contract_artifact_def iterate_def contract_entries_def contract_profile_def contract_validation_def sample_decoder_def artifact_key_def
      artifact_dump_def opt_str_def sample_matrix_profile_def sample_manifest_def)

theorem contract_stays_unqualified_witness:
  "\<exists>v :: profile_validation. val_profile_id v = ''p'' \<and> val_options v = [(''model_path'', PStr ''m'')]"
proof -
  obtain v where run: "load_profile_contract (\<lambda>_. []) (\<lambda>_. []) (Aware 0 0) (sample_decoder sample_matrix_profile undefined) (Inr sample_profile_contract)
     = Inr ([sample_matrix_profile], [v])"
    using sample_contract_loads by (elim exE)
  from contract_stays_unqualified [OF run] show ?thesis by (auto simp: sample_matrix_profile_def)
qed

end
