(* ===== verification/Posix_Paths.thy ===== *)
theory Posix_Paths
  imports Work_Acceptance Python_Text
begin

text \<open>
  Pure POSIX paths, as \<open>pathlib\<close> parses them: a root and the components that are left when empty and \<open>.\<close>
  segments are dropped. No component is resolved: \<open>..\<close> stays where it is.
\<close>

record posix_path =
  path_root :: string
  path_names :: "string list"

definition root_of :: "string \<Rightarrow> string" where
  "root_of s = (if \<not> starts_with s ''/'' then [] else if starts_with s ''//'' \<and> \<not> starts_with s ''///'' then ''//'' else ''/'')"

definition pure_path :: "string \<Rightarrow> posix_path" where
  "pure_path s = \<lparr>path_root = root_of s, path_names = posix_parts s\<rparr>"

definition is_absolute :: "posix_path \<Rightarrow> bool" where
  "is_absolute p \<longleftrightarrow> path_root p \<noteq> []"

definition parts :: "posix_path \<Rightarrow> string list" where
  "parts p = (if is_absolute p then [path_root p] else []) @ path_names p"

definition path_text :: "posix_path \<Rightarrow> string" where
  "path_text p = (if \<not> is_absolute p \<and> path_names p = [] then ''.'' else path_root p @ join_on slash (path_names p))"

definition name_of :: "posix_path \<Rightarrow> string" where
  "name_of p = (if path_names p = [] then [] else last (path_names p))"

text \<open>The text before and from the last dot, where the dot is neither the first nor the last character.\<close>

definition extension :: "string \<Rightarrow> string \<times> string" where
  "extension n = (let after = takeWhile (\<lambda>c. c \<noteq> CHR ''.'') (rev n); before = drop (length after) (rev n) in
     if after \<noteq> [] \<and> 1 < length before then (rev (tl before), CHR ''.'' # rev after) else (n, []))"

definition stem_of :: "posix_path \<Rightarrow> string" where
  "stem_of p = fst (extension (name_of p))"

definition suffix_of :: "posix_path \<Rightarrow> string" where
  "suffix_of p = snd (extension (name_of p))"

section \<open>Components\<close>

lemma split_on_no_sep_segments: "w \<in> set (split_on sep s) \<Longrightarrow> sep \<notin> set w"
  by (induction s arbitrary: w) (auto split: list.splits if_splits)

lemma split_on_single: "sep \<notin> set s \<Longrightarrow> split_on sep s = [s]"
  by (induction s) auto

lemma split_on_join: "ws \<noteq> [] \<Longrightarrow> (\<And>w. w \<in> set ws \<Longrightarrow> sep \<notin> set w) \<Longrightarrow> split_on sep (join_on sep ws) = ws"
  by (induction ws rule: join_on.induct) (auto simp: split_on_single split_append_sep)

lemma posix_parts_names: "w \<in> set (posix_parts s) \<Longrightarrow> slash \<notin> set w \<and> w \<noteq> [] \<and> w \<noteq> ''.''"
  by (auto simp: posix_parts_def dest: split_on_no_sep_segments)

lemma posix_parts_join:
  assumes "\<And>w. w \<in> set ws \<Longrightarrow> slash \<notin> set w \<and> w \<noteq> [] \<and> w \<noteq> ''.''"
  shows "posix_parts (join_on slash ws) = ws"
proof (cases "ws = []")
  case True
  then show ?thesis by (simp add: posix_parts_def)
next
  case False
  then have "split_on slash (join_on slash ws) = ws" by (intro split_on_join) (use assms in auto)
  then show ?thesis using assms by (simp add: posix_parts_def)
qed

lemma extension_text: "fst (extension n) @ snd (extension n) = n"
proof -
  define r where "r = rev n"
  define after where "after = takeWhile (\<lambda>c. c \<noteq> CHR ''.'') r"
  define before where "before = dropWhile (\<lambda>c. c \<noteq> CHR ''.'') r"
  have drop: "drop (length after) r = before" by (simp add: after_def before_def dropWhile_eq_drop)
  have r: "r = after @ before" by (simp add: after_def before_def)
  have dot: "before = CHR ''.'' # tl before" if "before \<noteq> []"
    using hd_dropWhile [of "\<lambda>c. c \<noteq> CHR ''.''" r] that unfolding before_def by (cases "dropWhile (\<lambda>c. c \<noteq> CHR ''.'') r") auto
  have "rev (tl before) @ CHR ''.'' # rev after = n" if "before \<noteq> []"
  proof -
    have "rev (tl before) @ CHR ''.'' # rev after = rev (after @ CHR ''.'' # tl before)" by simp
    also have "\<dots> = rev (after @ before)" using dot [OF that] by simp
    also have "\<dots> = n" unfolding r [symmetric] r_def by simp
    finally show ?thesis .
  qed
  then show ?thesis
    unfolding extension_def Let_def by (fold r_def, fold after_def, unfold drop) (cases "before = []"; auto)
qed

end
