(* ===== verification/Artifact_Guard.thy ===== *)
theory Artifact_Guard
  imports Posix_Paths
begin

text \<open>
  The guard on changed files (\<open>scripts/check_documentation_artifacts.py\<close>): the records of
  \<open>git diff --name-status -z\<close>, and the names that new documents and artifacts may have.

  The output of git is decoded text; \<open>resolve\<close>, a parameter, is what \<open>_relative\<close> makes of an absolute path
  (\<open>Path.resolve\<close> reads the file system, and \<open>relative_to\<close> may raise).
\<close>

section \<open>Names\<close>

definition exception_names :: "string set" where
  "exception_names = {''README.md'', ''AGENTS.md'', ''CONTRIBUTING.md'', ''SECURITY.md'', ''LICENSING.md''}"

definition living_roots :: "string list" where
  "living_roots = [''docs/'', ''infra/'']"

definition historical_roots :: "string list" where
  "historical_roots = [''artifacts/'', ''evidence/'', ''qualification/'', ''research/'', ''results/'',
     ''docs/archive/'', ''docs/history/'']"

definition forbidden_parts :: "string set" where
  "forbidden_parts = {''.cache'', ''.pytest_cache'', ''.venv'', ''__pycache__'', ''build'', ''cache'', ''dist'',
     ''node_modules'', ''temp'', ''tmp''}"

definition forbidden_suffixes :: "string set" where
  "forbidden_suffixes = {''.bak'', ''.pyc'', ''.pyo'', ''.swp'', ''.tmp''}"

definition incidental_names :: "string set" where
  "incidental_names = {''cache.md'', ''scratch.md'', ''temp.md'', ''tmp.md'', ''untitled.md''}"

text \<open>The automaton of \<open>[a-z0-9]+(?:-[a-z0-9]+)*\<close>: \<open>begun\<close> is set inside a word.\<close>

definition slug_char :: "char \<Rightarrow> bool" where
  "slug_char c \<longleftrightarrow> is_digit c \<or> 97 \<le> (of_char c :: nat) \<and> (of_char c :: nat) \<le> 122"

fun slug_from :: "bool \<Rightarrow> string \<Rightarrow> bool" where
  "slug_from begun [] = begun"
| "slug_from begun (c # s) = (if slug_char c then slug_from True s else begun \<and> c = CHR ''-'' \<and> slug_from False s)"

definition descriptive_slug :: "string \<Rightarrow> bool" where
  "descriptive_slug s = slug_from False s"

text \<open>\<open>(?:issue[-_]?)?\d+\<close>, ignoring case.\<close>

definition issue_only :: "string \<Rightarrow> bool" where
  "issue_only s \<longleftrightarrow> all_digits s \<or> (starts_with (lower s) ''issue'' \<and>
     (let t = drop 5 s in all_digits t \<or> (t \<noteq> [] \<and> hd t \<in> {CHR ''-'', CHR ''_''} \<and> all_digits (tl t))))"

section \<open>Documents and artifacts\<close>

definition is_historical_doc :: "posix_path \<Rightarrow> bool" where
  "is_historical_doc p \<longleftrightarrow> (\<exists>root \<in> set historical_roots. starts_with (path_text p) root)"

definition is_living_doc :: "posix_path \<Rightarrow> bool" where
  "is_living_doc p \<longleftrightarrow> \<not> (lower (suffix_of p) \<notin> {''.md'', ''.markdown''} \<or> is_historical_doc p)
     \<and> (name_of p \<in> exception_names \<or> (\<exists>root \<in> set living_roots. starts_with (path_text p) root))"

definition check_doc_name :: "posix_path \<Rightarrow> bool \<Rightarrow> string list" where
  "check_doc_name p new_path =
     (if \<not> new_path \<or> \<not> is_living_doc p \<or> name_of p \<in> exception_names then []
      else if lower (name_of p) \<in> incidental_names \<or> issue_only (stem_of p)
        then [path_text p @ '': new living Markdown needs a descriptive name'']
      else if \<not> descriptive_slug (stem_of p)
        then [path_text p @ '': new living Markdown needs a lowercase descriptive name'']
      else [])"

definition unapproved :: string where
  "unapproved = '': added, renamed, or copied path is an unapproved temporary/build artifact''"

definition check_artifact :: "posix_path \<Rightarrow> bool \<Rightarrow> string list" where
  "check_artifact p new_path =
     (if \<not> new_path then []
      else if (\<exists>part \<in> set (parts p). lower part \<in> forbidden_parts) \<or> lower (suffix_of p) \<in> forbidden_suffixes
        then [path_text p @ unapproved]
      else if name_of p \<in> {''.DS_Store'', ''Thumbs.db''} then [path_text p @ unapproved]
      else [])"

section \<open>The records of git\<close>

text \<open>
  The loop of \<open>changed_files\<close> over the fields: it ends before the last one, and reads past the end raise
  \<open>IndexError\<close>. A rename or copy carries the old name first.
\<close>

abbreviation index_error :: "'a result" where
  "index_error \<equiv> Inl (OtherError ''IndexError'')"

definition is_move :: "string \<Rightarrow> bool" where
  "is_move status \<longleftrightarrow> starts_with status ''R'' \<or> starts_with status ''C''"

fun git_records :: "string list \<Rightarrow> (char \<times> string) list result" where
  "git_records (status # first # rest) =
     (if is_move status then (case rest of
         [] \<Rightarrow> index_error
       | moved # later \<Rightarrow> ebind (git_records later) (\<lambda>rs. Inr ((hd status, moved) # rs)))
      else if status = [] then index_error
      else ebind (git_records rest) (\<lambda>rs. Inr ((hd status, first) # rs)))"
| "git_records _ = Inr []"

definition changed_files :: "string \<Rightarrow> (char \<times> string) list result" where
  "changed_files git_output = git_records (split_on (CHR 0x00) git_output)"

definition changed_living_markdown :: "string \<Rightarrow> string list result" where
  "changed_living_markdown git_output = ebind (changed_files git_output) (\<lambda>records.
     Inr (filter (\<lambda>path. is_living_doc (pure_path path)) (map snd records)))"

section \<open>The check\<close>

definition relative :: "(posix_path \<Rightarrow> posix_path result) \<Rightarrow> string \<Rightarrow> posix_path result" where
  "relative resolve path = (let candidate = pure_path path in
     if \<not> is_absolute candidate then Inr candidate else resolve candidate)"

definition has_control :: "string \<Rightarrow> bool" where
  "has_control path \<longleftrightarrow> CHR 0x0A \<in> set path \<or> CHR 0x09 \<in> set path"

definition guard_record :: "(posix_path \<Rightarrow> posix_path result) \<Rightarrow> char \<times> string \<Rightarrow> string list result" where
  "guard_record resolve entry = (case entry of (status, raw_path) \<Rightarrow>
     ebind (relative resolve raw_path) (\<lambda>p.
     if has_control raw_path then Inr [repr_text raw_path @ '': path contains a control character'']
     else let new_path = (status \<in> {CHR ''A'', CHR ''C'', CHR ''R''}) in
       Inr (check_artifact p new_path @ check_doc_name p new_path)))"

definition check_paths :: "(posix_path \<Rightarrow> posix_path result) \<Rightarrow> (char \<times> string) list \<Rightarrow> string list result" where
  "check_paths resolve records = ebind (emap (guard_record resolve) records) (\<lambda>errors. Inr (concat errors))"

text \<open>\<open>main\<close>: the exit code and the lines printed. git runs again for \<open>--print-living-markdown\<close>.\<close>

definition guard_main :: "(posix_path \<Rightarrow> posix_path result) \<Rightarrow> string \<Rightarrow> string \<Rightarrow> bool \<Rightarrow> (int \<times> string list) result" where
  "guard_main resolve git_output git_again print_living = ebind (changed_files git_output) (\<lambda>records.
     if print_living then ebind (changed_living_markdown git_again) (\<lambda>selected. Inr (0, selected))
     else ebind (check_paths resolve records) (\<lambda>errors.
       if errors \<noteq> [] then Inr (1, ''Documentation/artifact guard failed:'' # map (\<lambda>e. ''- '' @ e) errors)
       else Inr (0, [''Documentation/artifact guard passed for '' @ nat_str (length records) @ '' changed path(s).''])))"

section \<open>Reading what git printed\<close>

type_synonym git_change = "string \<times> string option \<times> string"

definition change_ok :: "git_change \<Rightarrow> bool" where
  "change_ok c \<longleftrightarrow> (case c of (status, old, path) \<Rightarrow> status \<noteq> [] \<and> (old \<noteq> None \<longleftrightarrow> is_move status)
     \<and> CHR 0x00 \<notin> set status \<and> CHR 0x00 \<notin> set path \<and> CHR 0x00 \<notin> set (case old of None \<Rightarrow> [] | Some n \<Rightarrow> n))"

definition change_fields :: "git_change \<Rightarrow> string list" where
  "change_fields c = (case c of (status, old, path) \<Rightarrow> [status] @ (case old of None \<Rightarrow> [] | Some n \<Rightarrow> [n]) @ [path])"

definition git_print :: "git_change list \<Rightarrow> string" where
  "git_print cs = concat (map (\<lambda>field. field @ [CHR 0x00]) (concat (map change_fields cs)))"

definition change_record :: "git_change \<Rightarrow> char \<times> string" where
  "change_record c = (case c of (status, old, path) \<Rightarrow> (hd status, path))"

lemma change_fields_triple: "change_fields (status, old, path) = [status] @ (case old of None \<Rightarrow> [] | Some n \<Rightarrow> [n]) @ [path]"
  by (simp add: change_fields_def)

lemma change_record_triple: "change_record (status, old, path) = (hd status, path)"
  by (simp add: change_record_def)

lemma split_terminated:
  "(\<And>f. f \<in> set fs \<Longrightarrow> sep \<notin> set f) \<Longrightarrow> split_on sep (concat (map (\<lambda>f. f @ [sep]) fs)) = fs @ [[]]"
  by (induction fs) (auto simp: split_append_sep split_on_single)

lemma change_fields_plain: "change_ok c \<Longrightarrow> f \<in> set (change_fields c) \<Longrightarrow> CHR 0x00 \<notin> set f"
  by (auto simp: change_ok_def change_fields_def split: prod.splits option.splits)

lemma read_printed_fields:
  "(\<And>c. c \<in> set cs \<Longrightarrow> change_ok c) \<Longrightarrow> git_records (concat (map change_fields cs) @ [[]]) = Inr (map change_record cs)"
proof (induction cs)
  case (Cons c cs)
  obtain status old path where c: "c = (status, old, path)" by (cases c)
  have ok: "change_ok c" and IH: "git_records (concat (map change_fields cs) @ [[]]) = Inr (map change_record cs)"
    using Cons by simp_all
  show ?case
    using ok IH by (cases old) (auto simp: c change_ok_def change_fields_triple change_record_triple)
qed simp

text \<open>
  The git records are read back. Whatever changes git prints, each a status, the old name of a rename or
  copy, and a name, all without NUL characters, the guard obtains the first letter of every status with the
  name after the change, in order, and nothing else.
\<close>

theorem changed_files_roundtrip:
  assumes "\<And>c. c \<in> set cs \<Longrightarrow> change_ok c"
  shows "changed_files (git_print cs) = Inr (map change_record cs)"
proof -
  have "split_on (CHR 0x00) (git_print cs) = concat (map change_fields cs) @ [[]]"
    unfolding git_print_def
  proof (rule split_terminated)
    fix f assume "f \<in> set (concat (map change_fields cs))"
    then obtain c where "c \<in> set cs" "f \<in> set (change_fields c)" by auto
    then show "CHR 0x00 \<notin> set f" using assms change_fields_plain by metis
  qed
  then show ?thesis by (simp add: changed_files_def read_printed_fields [OF assms])
qed

section \<open>What passes\<close>

text \<open>Words of lowercase letters and digits, joined by single hyphens.\<close>

definition hyphenated_words :: "string \<Rightarrow> bool" where
  "hyphenated_words s \<longleftrightarrow> (\<forall>w \<in> set (split_on (CHR ''-'') s). w \<noteq> [] \<and> (\<forall>c \<in> set w. slug_char c))"

definition issue_number :: "string \<Rightarrow> bool" where
  "issue_number s \<longleftrightarrow> (\<exists>ds. all_digits ds \<and> (s = ds \<or> s = ''issue'' @ ds \<or> s = ''issue-'' @ ds))"

definition approved :: "posix_path \<Rightarrow> bool" where
  "approved p \<longleftrightarrow> (\<forall>part \<in> set (parts p). lower part \<notin> forbidden_parts) \<and> lower (suffix_of p) \<notin> forbidden_suffixes
     \<and> name_of p \<notin> {''.DS_Store'', ''Thumbs.db''}
     \<and> (is_living_doc p \<and> name_of p \<notin> exception_names \<longrightarrow>
          lower (name_of p) \<notin> incidental_names \<and> hyphenated_words (stem_of p) \<and> \<not> issue_number (stem_of p))"

definition change_passes :: "char \<times> string \<Rightarrow> bool" where
  "change_passes r \<longleftrightarrow> (case r of (status, raw) \<Rightarrow>
     \<not> has_control raw \<and> (status \<in> {CHR ''A'', CHR ''C'', CHR ''R''} \<longrightarrow> approved (pure_path raw)))"

lemma slug_char_facts: "slug_char c \<Longrightarrow> c \<noteq> CHR ''-'' \<and> c \<noteq> CHR ''_'' \<and> lower_char c = c"
  by (auto simp: slug_char_def is_digit_def lower_char_def)

lemma slug_from_words:
  "split_on (CHR ''-'') s = w # ws \<Longrightarrow> slug_from begun s \<longleftrightarrow> (begun \<or> w \<noteq> []) \<and> (\<forall>c \<in> set w. slug_char c)
     \<and> (\<forall>w \<in> set ws. w \<noteq> [] \<and> (\<forall>c \<in> set w. slug_char c))"
proof (induction s arbitrary: begun w ws)
  case (Cons c s)
  obtain v vs where split: "split_on (CHR ''-'') s = v # vs" by (cases "split_on (CHR ''-'') s") auto
  note IH = Cons.IH [OF split]
  show ?case
  proof (cases "c = CHR ''-''")
    case True
    with Cons.prems split have "w = []" "ws = v # vs" by simp_all
    then show ?thesis using True IH [of False] slug_char_facts [of c] by auto
  next
    case False
    with Cons.prems split have "w = c # v" "ws = vs" by simp_all
    then show ?thesis using False IH [of True] by auto
  qed
qed simp

lemma descriptive_slug_words: "descriptive_slug s \<longleftrightarrow> hyphenated_words s"
proof -
  obtain w ws where "split_on (CHR ''-'') s = w # ws" by (cases "split_on (CHR ''-'') s") auto
  then show ?thesis using slug_from_words [of s w ws False] by (auto simp: descriptive_slug_def hyphenated_words_def)
qed

lemma set_split_on: "c \<in> set s \<Longrightarrow> c = sep \<or> (\<exists>w \<in> set (split_on sep s). c \<in> set w)"
proof (induction s)
  case (Cons d s)
  obtain v vs where "split_on sep s = v # vs" by (cases "split_on sep s") auto
  with Cons show ?case by auto
qed simp

lemma hyphenated_chars: "hyphenated_words s \<Longrightarrow> c \<in> set s \<Longrightarrow> slug_char c \<or> c = CHR ''-''"
  using set_split_on [of c s "CHR ''-''"] by (auto simp: hyphenated_words_def)

text \<open>On hyphenated words the case-insensitive pattern of issue numbers says: digits, maybe after \<open>issue\<close>.\<close>

lemma starts_with_append_iff: "starts_with s p \<longleftrightarrow> (\<exists>t. s = p @ t)"
  by (simp add: starts_with_prefix prefix_def)

lemma issue_only_words:
  assumes "hyphenated_words s"
  shows "issue_only s \<longleftrightarrow> issue_number s"
proof -
  have chars: "slug_char c \<or> c = CHR ''-''" if "c \<in> set s" for c using hyphenated_chars [OF assms that] .
  have "lower s = s"
    unfolding lower_def by (rule map_idI) (use chars slug_char_facts in \<open>force simp: lower_char_def\<close>)
  then have "issue_only s \<longleftrightarrow> all_digits s \<or> (\<exists>t. s = ''issue'' @ t \<and>
      (all_digits t \<or> (t \<noteq> [] \<and> hd t \<in> {CHR ''-'', CHR ''_''} \<and> all_digits (tl t))))"
    unfolding issue_only_def Let_def starts_with_append_iff by auto
  also have "\<dots> \<longleftrightarrow> issue_number s"
  proof -
    have "t \<noteq> [] \<and> hd t \<in> {CHR ''-'', CHR ''_''} \<and> all_digits (tl t) \<longleftrightarrow> (\<exists>ds. t = CHR ''-'' # ds \<and> all_digits ds)"
      if "s = ''issue'' @ t" for t
      using that chars [of "hd t"] slug_char_facts [of "CHR ''_''"] by (cases t) auto
    then show ?thesis by (auto simp: issue_number_def)
  qed
  finally show ?thesis .
qed

lemma check_doc_name_passes:
  "check_doc_name p True = [] \<longleftrightarrow> (is_living_doc p \<and> name_of p \<notin> exception_names \<longrightarrow>
     lower (name_of p) \<notin> incidental_names \<and> hyphenated_words (stem_of p) \<and> \<not> issue_number (stem_of p))"
  using issue_only_words [of "stem_of p"]
  by (cases "hyphenated_words (stem_of p)") (auto simp: check_doc_name_def descriptive_slug_words)

lemma check_artifact_passes:
  "check_artifact p True = [] \<longleftrightarrow> (\<forall>part \<in> set (parts p). lower part \<notin> forbidden_parts) \<and> lower (suffix_of p) \<notin> forbidden_suffixes
     \<and> name_of p \<notin> {''.DS_Store'', ''Thumbs.db''}"
  by (auto simp: check_artifact_def)

lemma guard_record_passes:
  assumes "\<not> is_absolute (pure_path (snd r))"
  shows "\<exists>errors. guard_record resolve r = Inr errors \<and> (errors = [] \<longleftrightarrow> change_passes r)"
proof -
  obtain status raw where r: "r = (status, raw)" by (cases r)
  have old: "check_artifact q False = []" "check_doc_name q False = []" for q
    by (simp_all add: check_artifact_def check_doc_name_def)
  show ?thesis
    using assms old check_doc_name_passes [of "pure_path raw"] check_artifact_passes [of "pure_path raw"]
    by (cases "has_control raw"; cases "status \<in> {CHR ''A'', CHR ''C'', CHR ''R''}")
      (auto simp: r guard_record_def relative_def Let_def approved_def change_passes_def)
qed

lemma check_paths_passes:
  "\<forall>r \<in> set rs. \<not> is_absolute (pure_path (snd r)) \<Longrightarrow>
    \<exists>errors. check_paths resolve rs = Inr errors \<and> (errors = [] \<longleftrightarrow> (\<forall>r \<in> set rs. change_passes r))"
proof (induction rs)
  case (Cons r rs)
  from Cons.prems have "\<not> is_absolute (pure_path (snd r))" by simp
  from guard_record_passes [OF this] obtain e where "guard_record resolve r = Inr e" "e = [] \<longleftrightarrow> change_passes r" by blast
  moreover from Cons obtain es where "check_paths resolve rs = Inr es" "es = [] \<longleftrightarrow> (\<forall>r \<in> set rs. change_passes r)" by auto
  ultimately show ?case by (auto simp: check_paths_def)
qed (simp add: check_paths_def)

text \<open>
  The guard's verdict, exactly. For relative paths the exit code is 0 or 1, and it is 0 exactly if no path
  has a newline or a tab and each added, copied or renamed path is approved: no temporary or build part, suffix
  or name, and, for a living document that is not one of the exceptions, a name made of lowercase words with
  single hyphens that is neither incidental nor an issue number.
\<close>

theorem guard_passes_iff:
  assumes "changed_files git_output = Inr rs" and "\<forall>r \<in> set rs. \<not> is_absolute (pure_path (snd r))"
  shows "\<exists>printed. guard_main resolve git_output git_again False = Inr (if \<forall>r \<in> set rs. change_passes r then 0 else 1, printed)"
proof -
  from check_paths_passes [OF assms(2)] obtain errors where
    "check_paths resolve rs = Inr errors" "errors = [] \<longleftrightarrow> (\<forall>r \<in> set rs. change_passes r)" by blast
  then show ?thesis using assms(1) by (auto simp: guard_main_def)
qed

section \<open>Witnesses\<close>

definition sample_changes :: "git_change list" where
  "sample_changes = [(''A'', None, ''docs/design-notes.md''), (''R100'', Some ''docs/a.md'', ''docs/issue-12.md'')]"

theorem changed_files_roundtrip_witness:
  "changed_files (git_print sample_changes) = Inr [(CHR ''A'', ''docs/design-notes.md''), (CHR ''R'', ''docs/issue-12.md'')]"
proof -
  have "change_ok c" if "c \<in> set sample_changes" for c
    using that by (auto simp: sample_changes_def change_ok_def is_move_def)
  from changed_files_roundtrip [of sample_changes, OF this] show ?thesis
    unfolding sample_changes_def by (simp add: change_record_def)
qed

theorem guard_passes_iff_witness:
  "\<exists>printed. guard_main (\<lambda>p. Inr p) (git_print sample_changes) [] False = Inr (1, printed)"
proof -
  have records: "changed_files (git_print sample_changes) = Inr [(CHR ''A'', ''docs/design-notes.md''), (CHR ''R'', ''docs/issue-12.md'')]"
    by (simp add: changed_files_def git_print_def sample_changes_def change_fields_def is_move_def)
  have "issue_number ''issue-12''"
    unfolding issue_number_def by (rule exI [of _ "''12''"]) (simp add: all_digits_def is_digit_def)
  then have "\<not> change_passes (CHR ''R'', ''docs/issue-12.md'')"
    by (simp add: change_passes_def approved_def pure_path_def posix_parts_def name_of_def stem_of_def suffix_of_def extension_def
      is_living_doc_def is_historical_doc_def historical_roots_def living_roots_def exception_names_def path_text_def
      is_absolute_def root_of_def lower_def lower_char_def)
  then show ?thesis using guard_passes_iff [OF records, of "\<lambda>p. Inr p" "[]"]
    by (simp add: pure_path_def is_absolute_def root_of_def)
qed

end
