(* ===== verification/Offline_Package.thy ===== *)
theory Offline_Package
  imports Posix_Paths Stateful Runtime_Contracts
begin

text \<open>
  The offline package builder (\<open>scripts/build_offline_package.py\<close>): who may build, how the tracked source is
  extracted, what is checked about wheels, and the bundle with its receipt. \<open>build\<close> itself, which runs the
  commands, is in \<open>Offline_Build\<close>.

  Files are byte strings. \<open>hash\<close> is SHA-256 in hexadecimal, \<open>layout\<close> the text of a canonical JSON value with
  two spaces of indentation, \<open>packed\<close> the tar and gzip encoding of archive members: libraries, and parameters.
\<close>

text \<open>\<open>PackageError\<close> subclasses \<open>ValueError\<close>.\<close>

definition package_error :: "string \<Rightarrow> exn" where
  "package_error msg = ValueError (''PackageError: '' @ msg)"

definition repository :: string where "repository = ''pH34r-pH/long-haul''"

definition workflow_path :: string where "workflow_path = ''.github/workflows/ci.yml''"

definition package_target :: string where "package_target = ''longhaul-reference''"

definition package_schema_version :: int where "package_schema_version = 2"

definition max_source_bytes :: int where "max_source_bytes = 150 * 1024 * 1024"

definition max_wheel_bytes :: int where "max_wheel_bytes = 100 * 1024 * 1024"

definition max_bundle_bytes :: int where "max_bundle_bytes = 350 * 1024 * 1024"

definition max_wheels :: nat where "max_wheels = 64"

section \<open>The source\<close>

definition is_sha :: "string \<Rightarrow> bool" where
  "is_sha s \<longleftrightarrow> length s = 40 \<and> (\<forall>c \<in> set s. is_digit c \<or> 97 \<le> (of_char c :: nat) \<and> (of_char c :: nat) \<le> 102)"

record source_id =
  src_sha :: string
  src_run_id :: int
  src_run_attempt :: int
  src_artifact_name :: string

text \<open>\<open>head\<close> and \<open>status\<close> are what \<open>git rev-parse HEAD\<close> and \<open>git status --porcelain\<close> print, or raise.\<close>

definition source_identity :: "string result \<Rightarrow> string result \<Rightarrow> (string \<times> string) list \<Rightarrow> source_id result" where
  "source_identity head status env =
     ebind head (\<lambda>printed. let sha = strip printed in
     ebind (guard (\<not> (\<not> is_sha sha \<or> map_of env ''GITHUB_SHA'' \<noteq> Some sha))
       (package_error ''Checkout does not match the exact GitHub source SHA'')) (\<lambda>_.
     ebind (guard (\<not> map_of env ''GITHUB_REPOSITORY'' \<noteq> Some repository)
       (package_error ''Package producer is not the public Long Haul repository'')) (\<lambda>_.
     ebind (guard (\<not> (map_of env ''GITHUB_EVENT_NAME'' \<noteq> Some ''push'' \<or> map_of env ''GITHUB_REF'' \<noteq> Some ''refs/heads/main''))
       (package_error ''Only a trusted main push may publish a package'')) (\<lambda>_.
     ebind status (\<lambda>changes.
     ebind (guard (strip changes = []) (package_error ''Package checkout must be clean before archiving'')) (\<lambda>_.
     let run_id = (case map_of env ''GITHUB_RUN_ID'' of None \<Rightarrow> [] | Some s \<Rightarrow> s);
         run_attempt = (case map_of env ''GITHUB_RUN_ATTEMPT'' of None \<Rightarrow> [] | Some s \<Rightarrow> s);
         refused = Inl (package_error ''GitHub run ID and attempt must be positive integers'') in
     if \<not> all_digits run_id \<or> \<not> all_digits run_attempt then refused
     else ebind (int_of_match run_id) (\<lambda>n.
       if n < 1 then refused
       else ebind (int_of_match run_attempt) (\<lambda>k.
         if k < 1 then refused
         else Inr \<lparr>src_sha = sha, src_run_id = n, src_run_attempt = k,
           src_artifact_name = ''longhaul-offline-package-'' @ sha @ ''-'' @ run_id @ ''-'' @ run_attempt\<rparr>))))))))"

definition source_dump :: "source_id \<Rightarrow> pyval" where
  "source_dump s = PDict [(''repository'', PStr repository), (''sha'', PStr (src_sha s)), (''ref'', PStr ''refs/heads/main''),
     (''event'', PStr ''push''), (''workflowPath'', PStr workflow_path), (''job'', PStr ''package''),
     (''runId'', PInt (src_run_id s)), (''runAttempt'', PInt (src_run_attempt s)),
     (''artifactName'', PStr (src_artifact_name s))]"

section \<open>Extracting the source\<close>

text \<open>
  A tar member; \<open>it_data\<close> is what \<open>extractfile\<close> gives: no reader, or the bytes copied and the exception that
  ends the copy, if any. An archive is a list of members and the exception that ends the iteration, if any.
\<close>

datatype tar_kind = Tar_File | Tar_Dir | Tar_Special

record tar_item =
  it_name :: string
  it_kind :: tar_kind
  it_size :: int
  it_data :: "(string \<times> exn option) option"

type_synonym archive = "tar_item list \<times> exn option"

text \<open>The tree under \<open>destination\<close>: paths are the components below it, \<open>[]\<close> is \<open>destination\<close> itself.\<close>

datatype node = Folder | Regular string

record extraction =
  seen_names :: "string list"
  expanded_bytes :: int
  disk :: "(string list \<times> node) list"

definition add_node :: "string list \<Rightarrow> node \<Rightarrow> (extraction, unit) stateful" where
  "add_node path n = change (\<lambda>x. x\<lparr>disk := AList.update path n (disk x)\<rparr>)"

text \<open>\<open>mkdir(parents=True, exist_ok=True)\<close>: missing folders are made from the outside in.\<close>

fun make_folders :: "string list list \<Rightarrow> (extraction, unit) stateful" where
  "make_folders [] = yield_step (Inr ())"
| "make_folders (p # ps) = then_step (look (\<lambda>x. map_of (disk x) p)) (\<lambda>found. case found of
       None \<Rightarrow> then_step (add_node p Folder) (\<lambda>_. make_folders ps)
     | Some Folder \<Rightarrow> make_folders ps
     | Some (Regular data) \<Rightarrow> yield_step (Inl (OtherError (if ps = [] then ''FileExistsError'' else ''NotADirectoryError''))))"

definition lineage :: "string list \<Rightarrow> string list list" where
  "lineage path = map (\<lambda>n. take n path) [0..<Suc (length path)]"

definition mkdir :: "string list \<Rightarrow> (extraction, unit) stateful" where
  "mkdir path = make_folders (lineage path)"

text \<open>\<open>open('xb')\<close> and the copy.\<close>

definition create_file :: "string list \<Rightarrow> string \<times> exn option \<Rightarrow> (extraction, unit) stateful" where
  "create_file path copied = then_step (look (\<lambda>x. map_of (disk x) path)) (\<lambda>found.
     if found \<noteq> None then yield_step (Inl (OtherError ''FileExistsError''))
     else then_step (add_node path (Regular (fst copied))) (\<lambda>_.
       yield_step (case snd copied of None \<Rightarrow> Inr () | Some e \<Rightarrow> Inl e)))"

definition unsafe_member :: "string \<Rightarrow> string list \<Rightarrow> tar_item \<Rightarrow> bool" where
  "unsafe_member root_name seen item = (let ps = parts (pure_path (it_name item)); name = join_on slash ps in
     ps = [] \<or> hd ps \<noteq> root_name \<or> ''..'' \<in> set ps \<or> starts_with (it_name item) ''/'' \<or> CHR 0x5C \<in> set (it_name item)
     \<or> name \<in> set seen \<or> \<not> (it_kind item = Tar_File \<or> it_kind item = Tar_Dir))"

definition extract_item :: "string \<Rightarrow> tar_item \<Rightarrow> (extraction, unit) stateful" where
  "extract_item root_name item = (let ps = parts (pure_path (it_name item)) in
     then_step (look seen_names) (\<lambda>seen.
     if unsafe_member root_name seen item
     then yield_step (Inl (package_error ''Source archive has an unsafe path, duplicate or link''))
     else then_step (change (\<lambda>x. x\<lparr>seen_names := join_on slash ps # seen_names x\<rparr>)) (\<lambda>_.
       if it_kind item = Tar_Dir then mkdir ps
       else then_step (change (\<lambda>x. x\<lparr>expanded_bytes := expanded_bytes x + it_size item\<rparr>)) (\<lambda>_.
         then_step (look expanded_bytes) (\<lambda>expanded.
         if expanded > max_source_bytes
         then yield_step (Inl (package_error ''Expanded source exceeds its size limit''))
         else then_step (mkdir (butlast ps)) (\<lambda>_.
           case it_data item of
             None \<Rightarrow> yield_step (Inl (package_error ''Source archive member is unreadable''))
           | Some copied \<Rightarrow> create_file ps copied))))))"

fun extract_items :: "string \<Rightarrow> tar_item list \<Rightarrow> (extraction, unit) stateful" where
  "extract_items root_name [] = yield_step (Inr ())"
| "extract_items root_name (item # items) = then_step (extract_item root_name item) (\<lambda>_. extract_items root_name items)"

definition root_name_of :: "string \<Rightarrow> string" where
  "root_name_of sha = ''long-haul-'' @ sha"

definition required_files :: "string list" where
  "required_files = [''pyproject.toml'', ''src/long_haul/__init__.py'']"

definition is_regular :: "string list \<Rightarrow> extraction \<Rightarrow> bool" where
  "is_regular path x \<longleftrightarrow> (case map_of (disk x) path of Some (Regular _) \<Rightarrow> True | _ \<Rightarrow> False)"

fun require_files :: "string \<Rightarrow> string list \<Rightarrow> (extraction, unit) stateful" where
  "require_files root_name [] = yield_step (Inr ())"
| "require_files root_name (f # fs) = then_step (look (is_regular (root_name # posix_parts f))) (\<lambda>present.
     if \<not> present then yield_step (Inl (package_error (''Tracked source lacks '' @ f)))
     else require_files root_name fs)"

definition extract_source :: "archive \<Rightarrow> string \<Rightarrow> (extraction, string list) stateful" where
  "extract_source archive sha = (let root_name = root_name_of sha in
     then_step (extract_items root_name (fst archive)) (\<lambda>_.
     then_step (yield_step (case snd archive of None \<Rightarrow> Inr () | Some e \<Rightarrow> Inl e)) (\<lambda>_.
     then_step (require_files root_name required_files) (\<lambda>_. yield_step (Inr [root_name])))))"

definition nothing_extracted :: extraction where
  "nothing_extracted = \<lparr>seen_names = [], expanded_bytes = 0, disk = []\<rparr>"

section \<open>Files of the package\<close>

record wheel_file =
  wf_name :: string
  wf_regular :: bool
  wf_link :: bool
  wf_bytes :: string

record file_entry =
  fe_path :: string
  fe_sha256 :: string
  fe_size :: int

definition file_record :: "(string \<Rightarrow> string) \<Rightarrow> wheel_file \<Rightarrow> string \<Rightarrow> file_entry result" where
  "file_record hash f rel = (let parsed = pure_path rel; size = int (length (wf_bytes f)) in
     ebind (guard (\<not> (is_absolute parsed \<or> ''..'' \<in> set (parts parsed) \<or> CHR 0x5C \<in> set rel \<or> path_text parsed \<noteq> rel))
       (package_error ''Package member path is not canonical'')) (\<lambda>_.
     ebind (guard (\<not> (\<not> wf_regular f \<or> wf_link f))
       (package_error (''Package member is missing, linked or not regular: '' @ rel))) (\<lambda>_.
     ebind (guard (0 < size \<and> size \<le> max_wheel_bytes)
       (package_error (''Package member exceeds its size limit: '' @ rel))) (\<lambda>_.
     Inr \<lparr>fe_path = rel, fe_sha256 = hash (wf_bytes f), fe_size = size\<rparr>))))"

definition entry_dump :: "file_entry \<Rightarrow> pyval" where
  "entry_dump e = PDict [(''path'', PStr (fe_path e)), (''sha256'', PStr (fe_sha256 e)), (''sizeBytes'', PInt (fe_size e))]"

definition json_bytes :: "(pyval \<Rightarrow> string) \<Rightarrow> pyval \<Rightarrow> string result" where
  "json_bytes layout v = ebind (json_dumps v) (\<lambda>t. Inr (layout t @ [CHR 0x0A]))"

text \<open>
  A member of the bundle with normalised metadata. The USTAR format keeps a name of at most 100 bytes, or 100
  bytes after a directory prefix of at most 155.
\<close>

record tar_entry =
  te_name :: string
  te_data :: string
  te_mode :: int
  te_mtime :: int
  te_owner :: "(int \<times> string) \<times> (int \<times> string)"

definition utf8_length :: "string \<Rightarrow> nat" where
  "utf8_length s = sum_list (map (\<lambda>c. if (of_char c :: nat) < 128 then 1 else 2) s)"

definition splits_of :: "string \<Rightarrow> (string \<times> string) list" where
  "splits_of name = (let cs = split_on slash name in
     map (\<lambda>i. (join_on slash (take i cs), join_on slash (drop i cs))) [1..<length cs])"

definition ustar_name_fits :: "string \<Rightarrow> bool" where
  "ustar_name_fits name \<longleftrightarrow> utf8_length name \<le> 100
     \<or> (\<exists>(prefix, rest) \<in> set (splits_of name). utf8_length prefix \<le> 155 \<and> utf8_length rest \<le> 100)"

definition tar_member :: "string \<Rightarrow> string \<Rightarrow> tar_entry result" where
  "tar_member name data = ebind (guard (ustar_name_fits name) (ValueError ''name is too long'')) (\<lambda>_.
     Inr \<lparr>te_name = name, te_data = data, te_mode = 420, te_mtime = 0, te_owner = ((0, []), (0, []))\<rparr>)"

section \<open>The project's wheel and the runtime\<close>

text \<open>The ZIP library: the member names and the headers the e-mail parser finds in a member; a file or member it cannot read raises \<open>BadZipFile\<close>.\<close>

record wheel_zip =
  zip_valid :: bool
  zip_members :: "string list"
  zip_headers :: "string \<Rightarrow> (string \<Rightarrow> string option) option"

definition ends_with :: "string \<Rightarrow> string \<Rightarrow> bool" where
  "ends_with s t \<longleftrightarrow> starts_with (rev s) (rev t)"

definition verify_project_wheel :: "wheel_zip \<Rightarrow> string \<Rightarrow> pyval \<Rightarrow> unit result" where
  "verify_project_wheel z name version =
     ebind (guard (zip_valid z) (package_error ''Project wheel is not a valid ZIP'')) (\<lambda>_.
     ebind (guard (distinct (zip_members z)) (package_error ''Project wheel contains duplicate member paths'')) (\<lambda>_.
     ebind (guard (\<not> (\<exists>n \<in> set (zip_members z). starts_with n ''/'' \<or> CHR 0x5C \<in> set n \<or> ''..'' \<in> set (parts (pure_path n))))
       (package_error ''Project wheel contains an unsafe member path'')) (\<lambda>_.
     (case filter (\<lambda>n. ends_with n ''.dist-info/METADATA'') (zip_members z) of
       [m] \<Rightarrow> (case zip_headers z m of
           None \<Rightarrow> Inl (package_error ''Project wheel is not a valid ZIP'')
         | Some get \<Rightarrow> guard (\<not> (replace_char (CHR ''_'') (CHR ''-'') (lower (case get ''Name'' of None \<Rightarrow> [] | Some s \<Rightarrow> s)) \<noteq> name
               \<or> map_option PStr (get ''Version'') \<noteq> Some version))
             (package_error ''Project wheel metadata differs from checked pyproject.toml''))
     | _ \<Rightarrow> Inl (package_error ''Project wheel has no unique METADATA'')))))"

text \<open>\<open>3\.12\.[0-9]+\<close>.\<close>

definition python_312 :: "string \<Rightarrow> bool" where
  "python_312 s \<longleftrightarrow> starts_with s ''3.12.'' \<and> all_digits (drop 5 s)"

definition validate_runtime :: "(string \<times> pyval) list \<Rightarrow> unit result" where
  "validate_runtime runtime = guard (\<not> (set (map fst runtime) \<noteq> {''pythonVersion'', ''pythonMajorMinor'', ''platform'', ''machine''}
       \<or> map_of runtime ''pythonMajorMinor'' \<noteq> Some (PStr ''3.12'')
       \<or> map_of runtime ''platform'' \<noteq> Some (PStr ''linux'') \<or> map_of runtime ''machine'' \<noteq> Some (PStr ''x86_64'')
       \<or> (case map_of runtime ''pythonVersion'' of Some (PStr s) \<Rightarrow> \<not> python_312 s | _ \<Rightarrow> True)))
     (package_error ''Package schema v2 requires Python 3.12 on Linux x86_64'')"

section \<open>The bundle\<close>

record package_info =
  pkg_name :: string
  pkg_version :: pyval
  pkg_wheel_path :: string

definition package_dump :: "package_info \<Rightarrow> pyval" where
  "package_dump p = PDict [(''name'', PStr (pkg_name p)), (''version'', pkg_version p), (''wheelPath'', PStr (pkg_wheel_path p))]"

text \<open>\<open>sorted(wheels.glob('*.whl'))\<close>.\<close>

definition wheel_files :: "wheel_file list \<Rightarrow> wheel_file list" where
  "wheel_files listing = sort_key wf_name (filter (\<lambda>f. ends_with (wf_name f) ''.whl'') listing)"

definition wheel_path :: "wheel_file \<Rightarrow> string" where
  "wheel_path f = ''wheelhouse/'' @ wf_name f"

definition common_fields :: "source_id \<Rightarrow> (string \<times> pyval) list \<Rightarrow> pyval \<Rightarrow> package_info \<Rightarrow> (string \<times> pyval) list" where
  "common_fields src runtime tools package = [(''schemaVersion'', PInt package_schema_version),
     (''kind'', PStr ''long-haul.offline-package''), (''state'', PStr ''built-on-public-runner-no-deployment''),
     (''target'', PStr package_target), (''source'', source_dump src), (''runtime'', PDict runtime), (''build'', tools),
     (''package'', package_dump package)]"

record receipt =
  rc_common :: "(string \<times> pyval) list"
  rc_files :: "file_entry list"
  rc_bundle_name :: string
  rc_bundle_sha256 :: string
  rc_bundle_size :: int

definition receipt_dump :: "receipt \<Rightarrow> pyval" where
  "receipt_dump r = PDict (rc_common r @ [(''files'', PList (map entry_dump (rc_files r))),
     (''bundle'', PDict [(''filename'', PStr (rc_bundle_name r)), (''sha256'', PStr (rc_bundle_sha256 r)),
        (''sizeBytes'', PInt (rc_bundle_size r))])])"

text \<open>\<open>wheel_records\<close>, with every check on the wheelhouse.\<close>

definition checked_wheels :: "(string \<Rightarrow> string) \<Rightarrow> package_info \<Rightarrow> wheel_file list \<Rightarrow> file_entry list result" where
  "checked_wheels hash package files =
     ebind (guard (\<not> (files = [] \<or> length files > max_wheels)) (package_error ''Offline wheelhouse is empty or too large'')) (\<lambda>_.
     ebind (guard (\<not> (\<exists>f \<in> set files. wf_link f)) (package_error ''Offline wheelhouse contains a linked wheel'')) (\<lambda>_.
     ebind (emap (\<lambda>f. file_record hash f (wheel_path f)) files) (\<lambda>records.
     ebind (guard (map fe_path records = sorted_set (map fe_path records))
       (package_error ''Offline wheelhouse paths are duplicated or unordered'')) (\<lambda>_.
     ebind (guard (pkg_wheel_path package \<in> set (map fe_path records))
       (package_error ''Project wheel is absent from offline wheelhouse'')) (\<lambda>_.
     Inr records)))))"

text \<open>
  Writing the members into the open archive. The state is the output directory; a name that does not fit
  raises and leaves the bundle incomplete. \<open>packed\<close> gives the bytes of the finished and of a broken archive.
\<close>

type_synonym folder = "(string \<times> string) list"

definition put_file :: "string \<Rightarrow> string \<Rightarrow> (folder, unit) stateful" where
  "put_file name content = change (AList.update name content)"

fun write_members :: "(bool \<Rightarrow> tar_entry list \<Rightarrow> string) \<Rightarrow> string \<Rightarrow> tar_entry list \<Rightarrow> (string \<times> string) list
    \<Rightarrow> (folder, tar_entry list) stateful" where
  "write_members packed bundle finished [] = then_step (put_file bundle (packed True finished)) (\<lambda>_. yield_step (Inr finished))"
| "write_members packed bundle finished ((name, data) # others) = (case tar_member name data of
     Inl e \<Rightarrow> then_step (put_file bundle (packed False finished)) (\<lambda>_. yield_step (Inl e))
   | Inr member \<Rightarrow> write_members packed bundle (finished @ [member]) others)"

definition write_bundle :: "(bool \<Rightarrow> tar_entry list \<Rightarrow> string) \<Rightarrow> string \<Rightarrow> (string \<times> string) list \<Rightarrow> (folder, tar_entry list) stateful" where
  "write_bundle packed bundle members = then_step (look (\<lambda>out. map_of out bundle)) (\<lambda>found.
     if found \<noteq> None then yield_step (Inl (OtherError ''FileExistsError''))
     else write_members packed bundle [] members)"

definition make_bundle :: "(string \<Rightarrow> string) \<Rightarrow> (pyval \<Rightarrow> string) \<Rightarrow> (bool \<Rightarrow> tar_entry list \<Rightarrow> string)
    \<Rightarrow> source_id \<Rightarrow> (string \<times> pyval) list \<Rightarrow> pyval \<Rightarrow> package_info \<Rightarrow> wheel_file list \<Rightarrow> (folder, receipt) stateful" where
  "make_bundle hash layout packed src runtime tools package listing =
     then_step (yield_step (validate_runtime runtime)) (\<lambda>_.
     let files = wheel_files listing; common = common_fields src runtime tools package;
         bundle = ''longhaul-'' @ src_sha src @ ''-offline.tar.gz'' in
     then_step (yield_step (checked_wheels hash package files)) (\<lambda>records.
     then_step (yield_step (json_bytes layout (PDict (common @ [(''files'', PList (map entry_dump records))])))) (\<lambda>manifest.
     let manifest_record = \<lparr>fe_path = ''manifest.json'', fe_sha256 = hash manifest, fe_size = int (length manifest)\<rparr> in
     then_step (write_bundle packed bundle ((''manifest.json'', manifest) # map (\<lambda>f. (wheel_path f, wf_bytes f)) files)) (\<lambda>members.
     let content = packed True members in
     if int (length content) > max_bundle_bytes
     then then_step (change (AList.delete bundle)) (\<lambda>_. yield_step (Inl (package_error ''Offline bundle exceeds its size limit'')))
     else let r = \<lparr>rc_common = common, rc_files = sort_key fe_path (manifest_record # records), rc_bundle_name = bundle,
         rc_bundle_sha256 = hash content, rc_bundle_size = int (length content)\<rparr> in
       then_step (yield_step (json_bytes layout (receipt_dump r))) (\<lambda>text.
       then_step (put_file ''package-receipt.json'' text) (\<lambda>_. yield_step (Inr r)))))))"

end
