(* ===== verification/Offline_Build.thy ===== *)
theory Offline_Build
  imports Offline_Package
begin

text \<open>
  \<open>build\<close> of \<open>scripts/build_offline_package.py\<close>: the commands that turn the extracted source into a bundle.

  The runner is the parameter \<open>runner\<close>: what git prints, the interpreter, the tracked source as an archive, the
  outcome of each command, the directory the wheels are in, and the libraries that read TOML, ZIP and glob
  patterns. The state keeps the commands run so far, the extracted tree and the output directory.
\<close>

record runner =
  git_head :: "string result"
  git_status :: "string result"
  sys_version :: "int \<times> int"
  sys_platform :: string
  sys_machine :: string
  python_version :: string
  sys_executable :: string
  temp_dir :: string
  tracked_source :: archive
  command_fails :: "string list \<Rightarrow> exn option"
  parse_toml :: "string \<Rightarrow> pyval result"
  wheelhouse :: "wheel_file list"
  glob_matches :: "string \<Rightarrow> string \<Rightarrow> bool"
  open_zip :: "wheel_file \<Rightarrow> wheel_zip"
  tool_report :: "pyval result"

record build_state =
  commands :: "string list list"
  unpacked :: extraction
  output_dir :: folder

definition build_tools :: "string list" where
  "build_tools = [''pip==24.3.1'', ''setuptools==75.8.2'', ''wheel==0.45.1'']"

definition run_build_command :: "runner \<Rightarrow> string list \<Rightarrow> (build_state, unit) stateful" where
  "run_build_command w cmd = then_step (change (\<lambda>s. s\<lparr>commands := commands s @ [cmd]\<rparr>)) (\<lambda>_.
     yield_step (case command_fails w cmd of None \<Rightarrow> Inr () | Some e \<Rightarrow> Inl e))"

fun run_build_commands :: "runner \<Rightarrow> string list list \<Rightarrow> (build_state, unit) stateful" where
  "run_build_commands w [] = yield_step (Inr ())"
| "run_build_commands w (cmd # cmds) = then_step (run_build_command w cmd) (\<lambda>_. run_build_commands w cmds)"

definition archive_command :: "string \<Rightarrow> string \<Rightarrow> string list" where
  "archive_command repo sha = [''git'', ''-C'', repo, ''archive'', ''--format=tar'', ''--prefix=long-haul-'' @ sha @ ''/'', sha]"

definition build_python :: "runner \<Rightarrow> string" where
  "build_python w = temp_dir w @ ''/build-venv/bin/python''"

definition verify_python :: "runner \<Rightarrow> string" where
  "verify_python w = temp_dir w @ ''/verify-venv/bin/python''"

definition wheel_commands :: "runner \<Rightarrow> string list \<Rightarrow> string list list" where
  "wheel_commands w source_root = [
     [sys_executable w, ''-m'', ''venv'', temp_dir w @ ''/build-venv''],
     [build_python w, ''-m'', ''pip'', ''install'', ''--disable-pip-version-check'', ''--no-cache-dir''] @ build_tools,
     [build_python w, ''-m'', ''pip'', ''wheel'', ''--disable-pip-version-check'', ''--no-cache-dir'', ''--no-build-isolation'',
      ''--only-binary=:all:'', ''--wheel-dir'', temp_dir w @ ''/wheels'', temp_dir w @ ''/source/'' @ join_on slash source_root]]"

definition verify_commands :: "runner \<Rightarrow> string \<Rightarrow> string list list" where
  "verify_commands w version = [
     [sys_executable w, ''-m'', ''venv'', temp_dir w @ ''/verify-venv''],
     [verify_python w, ''-m'', ''pip'', ''install'', ''--disable-pip-version-check'', ''--no-index'', ''--find-links'',
      temp_dir w @ ''/wheels'', ''--force-reinstall'', ''long-haul=='' @ version],
     [verify_python w, ''-m'', ''pip'', ''check''],
     [verify_python w, ''-c'', ''import long_haul; assert long_haul.Vessel'']]"

definition quoted :: "string \<Rightarrow> string" where
  "quoted s = CHR 0x27 # s @ [CHR 0x27]"

definition report_command :: "runner \<Rightarrow> string list" where
  "report_command w = [build_python w, ''-c'',
     ''import importlib.metadata as m, json; print(json.dumps({n:m.version(n) for n in ('' @ quoted ''pip'' @ '',''
       @ quoted ''setuptools'' @ '','' @ quoted ''wheel'' @ '')}))'']"

text \<open>The value of an object with exactly these entries, in any order.\<close>

definition equals_object :: "(string \<times> pyval) list \<Rightarrow> pyval \<Rightarrow> bool" where
  "equals_object kvs v = (case v of PDict kws \<Rightarrow> length kws = length kvs \<and> set kws = set kvs | _ \<Rightarrow> False)"

definition pinned_tools :: "(string \<times> pyval) list" where
  "pinned_tools = [(''pip'', PStr ''24.3.1''), (''setuptools'', PStr ''75.8.2''), (''wheel'', PStr ''0.45.1'')]"

text \<open>A statement on a part of the state.\<close>

definition on_part :: "('s \<Rightarrow> 't) \<Rightarrow> ('t \<Rightarrow> 's \<Rightarrow> 's) \<Rightarrow> ('t, 'a) stateful \<Rightarrow> ('s, 'a) stateful" where
  "on_part get_part put_part m s = (case m (get_part s) of (r, t) \<Rightarrow> (r, put_part t s))"

definition read_source :: "string list \<Rightarrow> (build_state, string) stateful" where
  "read_source path s = (case map_of (disk (unpacked s)) path of
       Some (Regular content) \<Rightarrow> (Inr content, s)
     | _ \<Rightarrow> (Inl (OtherError ''FileNotFoundError''), s))"

definition runtime_fields :: "runner \<Rightarrow> (string \<times> pyval) list" where
  "runtime_fields w = [(''pythonVersion'', PStr (python_version w)), (''pythonMajorMinor'', PStr ''3.12''),
     (''platform'', PStr ''linux''), (''machine'', PStr ''x86_64'')]"

text \<open>From the source identity to the name and version of the tracked project.\<close>

definition tracked_project :: "runner \<Rightarrow> string \<Rightarrow> source_id \<Rightarrow> (build_state, string list \<times> pyval) stateful" where
  "tracked_project w repo src =
     then_step (run_build_command w (archive_command repo (src_sha src))) (\<lambda>_.
     then_step (on_part unpacked (\<lambda>x s. s\<lparr>unpacked := x\<rparr>) (extract_source (tracked_source w) (src_sha src))) (\<lambda>source_root.
     then_step (read_source (source_root @ [''pyproject.toml''])) (\<lambda>content.
     then_step (yield_step (ebind (parse_toml w content) (\<lambda>v. subscript v ''project''))) (\<lambda>project.
     then_step (yield_step (subscript project ''name'')) (\<lambda>name.
     if name \<noteq> PStr ''long-haul'' then yield_step (Inl (package_error ''Tracked pyproject.toml is not the Long Haul package''))
     else then_step (yield_step (subscript project ''version'')) (\<lambda>version. yield_step (Inr (source_root, version))))))))"

definition built_wheel :: "(pyval \<Rightarrow> string) \<Rightarrow> runner \<Rightarrow> pyval \<Rightarrow> wheel_file result" where
  "built_wheel str_of w version =
     (case filter (\<lambda>f. glob_matches w (''long_haul-'' @ py_str str_of version @ ''-*.whl'') (wf_name f)) (wheelhouse w) of
       [f] \<Rightarrow> ebind (verify_project_wheel (open_zip w f) ''long-haul'' version) (\<lambda>_. Inr f)
     | _ \<Rightarrow> Inl (package_error ''Expected exactly one Long Haul project wheel''))"

definition build :: "(string \<Rightarrow> string) \<Rightarrow> (pyval \<Rightarrow> string) \<Rightarrow> (bool \<Rightarrow> tar_entry list \<Rightarrow> string) \<Rightarrow> (pyval \<Rightarrow> string)
    \<Rightarrow> runner \<Rightarrow> string \<Rightarrow> (string \<times> string) list \<Rightarrow> (build_state, receipt) stateful" where
  "build hash layout packed str_of w repo env =
     then_step (yield_step (source_identity (git_head w) (git_status w) env)) (\<lambda>src.
     if sys_version w \<noteq> (3, 12) \<or> sys_platform w \<noteq> ''linux'' \<or> sys_machine w \<noteq> ''x86_64''
     then yield_step (Inl (package_error ''Long Haul offline package schema v2 requires Python 3.12 on Linux x86_64''))
     else then_step (tracked_project w repo src) (\<lambda>(source_root, version).
       then_step (run_build_commands w (wheel_commands w source_root)) (\<lambda>_.
       then_step (yield_step (built_wheel str_of w version)) (\<lambda>wheel.
       then_step (run_build_commands w (verify_commands w (py_str str_of version))) (\<lambda>_.
       then_step (change (\<lambda>s. s\<lparr>commands := commands s @ [report_command w]\<rparr>)) (\<lambda>_.
       then_step (yield_step (tool_report w)) (\<lambda>tools.
       if \<not> equals_object pinned_tools tools
       then yield_step (Inl (package_error ''Build tools differ from the pinned producer versions''))
       else on_part output_dir (\<lambda>d s. s\<lparr>output_dir := d\<rparr>)
         (make_bundle hash layout packed src (runtime_fields w) tools
           \<lparr>pkg_name = ''long-haul'', pkg_version = version, pkg_wheel_path = wheel_path wheel\<rparr> (wheelhouse w)))))))))"

end
