(* ===== verification/Offline_Properties.thy ===== *)
theory Offline_Properties
  imports Offline_Build
begin

text \<open>
  What the package builder guarantees: the source stays under its root and within its size, exactly the archived
  files are written, a bundle is made exactly from a sound wheelhouse and its receipt describes it, and a
  receipt is written only by a build that ran all its checks.
\<close>

section \<open>Extraction\<close>

lemma step_look: "then_step (look g) f s = f (g s) s"
  by (simp add: then_step_def look_def)

lemma step_change: "then_step (change g) f s = f () (g s)"
  by (simp add: then_step_def change_def)

lemma step_yield: "then_step (yield_step r) f s = (case r of Inl e \<Rightarrow> (Inl e, s) | Inr x \<Rightarrow> f x s)"
  by (cases r) (simp_all add: then_step_def yield_step_def)

lemmas steps = step_look step_change step_yield

lemma update_new: "map_of d k = None \<Longrightarrow> AList.update k v d = d @ [(k, v)]"
  by (induction d) auto

text \<open>\<open>grown\<close>: what was on the disk stays, what is new has new paths.\<close>

definition added :: "extraction \<Rightarrow> extraction \<Rightarrow> (string list \<times> node) list \<Rightarrow> bool" where
  "added x x' new \<longleftrightarrow> disk x' = disk x @ new \<and> distinct (map fst new) \<and> fst ` set new \<inter> fst ` set (disk x) = {}"

lemma added_refl: "disk x' = disk x \<Longrightarrow> added x x' []"
  by (simp add: added_def)

lemma added_trans: "added x y a \<Longrightarrow> added y z b \<Longrightarrow> added x z (a @ b)"
  by (auto simp: added_def)

lemma added_one: "map_of (disk x) p = None \<Longrightarrow> added x (x\<lparr>disk := AList.update p n (disk x)\<rparr>) [(p, n)]"
  by (auto simp: added_def update_new map_of_eq_None_iff)

lemma make_folders_effect:
  assumes "make_folders ps x = (r, x')"
  shows "\<exists>new. added x x' (map (\<lambda>p. (p, Folder)) new) \<and> set new \<subseteq> set ps \<and> expanded_bytes x' = expanded_bytes x
    \<and> seen_names x' = seen_names x \<and> (r = Inr () \<longrightarrow> (\<forall>p \<in> set ps. map_of (disk x') p = Some Folder))"
  using assms
proof (induction ps arbitrary: x)
  case Nil
  then show ?case by (auto intro!: exI [of _ "[]"] simp: added_def)
next
  case (Cons p ps)
  consider (fresh) "map_of (disk x) p = None" | (folder) "map_of (disk x) p = Some Folder"
    | (regular) c where "map_of (disk x) p = Some (Regular c)"
    by (metis node.exhaust option.exhaust)
  then show ?case
  proof cases
    case fresh
    let ?x = "x\<lparr>disk := AList.update p Folder (disk x)\<rparr>"
    have "make_folders ps ?x = (r, x')" using Cons.prems fresh by (simp add: then_step_def look_def add_node_def change_def)
    from Cons.IH [OF this] obtain more_new where more_new: "added ?x x' (map (\<lambda>p. (p, Folder)) more_new)" "set more_new \<subseteq> set ps"
      "expanded_bytes x' = expanded_bytes x" "seen_names x' = seen_names x"
      "r = Inr () \<longrightarrow> (\<forall>p \<in> set ps. map_of (disk x') p = Some Folder)" by auto
    have "added x x' (map (\<lambda>p. (p, Folder)) (p # more_new))"
      using added_trans [OF added_one [OF fresh] more_new(1)] by simp
    moreover have "map_of (disk x') p = Some Folder" using more_new(1) by (simp add: added_def map_of_append map_add_def split: option.split)
    ultimately show ?thesis using more_new by (intro exI [of _ "p # more_new"]) auto
  next
    case folder
    then have "make_folders ps x = (r, x')" using Cons.prems by (simp add: then_step_def look_def)
    from Cons.IH [OF this] obtain new where new: "added x x' (map (\<lambda>p. (p, Folder)) new)" "set new \<subseteq> set ps"
      "expanded_bytes x' = expanded_bytes x" "seen_names x' = seen_names x"
      "r = Inr () \<longrightarrow> (\<forall>p \<in> set ps. map_of (disk x') p = Some Folder)" by auto
    moreover have "map_of (disk x') p = Some Folder" using new(1) folder by (simp add: added_def map_add_def split: option.split)
    ultimately show ?thesis by (intro exI [of _ new]) auto
  next
    case regular
    then show ?thesis using Cons.prems by (auto simp: then_step_def look_def added_def intro!: exI [of _ "[]"])
  qed
qed

text \<open>The components of the paths written, and the bytes of the files.\<close>

definition confined :: "string \<Rightarrow> string list \<Rightarrow> bool" where
  "confined root_name p \<longleftrightarrow> p \<noteq> [] \<and> hd p = root_name
     \<and> (\<forall>w \<in> set p. w \<noteq> [] \<and> w \<noteq> ''.'' \<and> w \<noteq> ''..'' \<and> slash \<notin> set w \<and> CHR 0x5C \<notin> set w)"

definition node_bytes :: "string list \<times> node \<Rightarrow> int" where
  "node_bytes e = (case snd e of Folder \<Rightarrow> 0 | Regular c \<Rightarrow> int (length c))"

definition disk_bytes :: "extraction \<Rightarrow> int" where
  "disk_bytes x = sum_list (map node_bytes (disk x))"

lemma disk_bytes_added: "added x x' new \<Longrightarrow> disk_bytes x' = disk_bytes x + sum_list (map node_bytes new)"
  by (simp add: added_def disk_bytes_def)

lemma folder_bytes: "sum_list (map node_bytes (map (\<lambda>p. (p, Folder)) ps)) = 0"
  by (induction ps) (auto simp: node_bytes_def)

lemma not_starts_with_slash: "\<not> starts_with s ''/'' \<Longrightarrow> parts (pure_path s) = posix_parts s"
  by (simp add: parts_def pure_path_def is_absolute_def root_of_def)

lemma split_on_subset: "w \<in> set (split_on sep s) \<Longrightarrow> set w \<subseteq> set s"
proof (induction s arbitrary: w)
  case (Cons c s)
  obtain v vs where "split_on sep s = v # vs" by (cases "split_on sep s") auto
  with Cons show ?case by (fastforce split: if_splits)
qed simp

lemma lineage_prefix: "p \<in> set (lineage path) \<longleftrightarrow> prefix p path"
proof
  assume "prefix p path"
  then obtain q where "path = p @ q" by (auto simp: prefix_def)
  then show "p \<in> set (lineage path)"
    unfolding lineage_def set_map by (intro image_eqI [of _ _ "length p"]) auto
qed (auto simp: lineage_def take_is_prefix)

lemma confined_prefix: "confined root_name path \<Longrightarrow> prefix p path \<Longrightarrow> p = [] \<or> confined root_name p"
proof -
  assume path: "confined root_name path" and "prefix p path"
  then obtain q where q: "path = p @ q" by (auto simp: prefix_def)
  show ?thesis
  proof (cases "p = []")
    case False
    then have "hd p = hd path" "set p \<subseteq> set path" using q by simp_all
    with path False show ?thesis unfolding confined_def by blast
  qed simp
qed

lemma safe_member_confined:
  assumes "\<not> unsafe_member root_name seen item"
  shows "confined root_name (parts (pure_path (it_name item)))"
proof -
  have posix: "parts (pure_path (it_name item)) = posix_parts (it_name item)"
    using assms by (intro not_starts_with_slash) (auto simp: unsafe_member_def Let_def)
  have facts: "posix_parts (it_name item) \<noteq> []" "hd (posix_parts (it_name item)) = root_name"
    "''..'' \<notin> set (posix_parts (it_name item))" "CHR 0x5C \<notin> set (it_name item)"
    using assms unfolding unsafe_member_def Let_def posix by blast+
  have "w \<noteq> [] \<and> w \<noteq> ''.'' \<and> w \<noteq> ''..'' \<and> slash \<notin> set w \<and> CHR 0x5C \<notin> set w" if "w \<in> set (posix_parts (it_name item))" for w
  proof -
    from that have "w \<in> set (split_on slash (it_name item))" by (simp add: posix_parts_def)
    with facts(4) have "CHR 0x5C \<notin> set w" using split_on_subset by blast
    with posix_parts_names [OF that] facts(3) that show ?thesis by blast
  qed
  with facts show ?thesis unfolding confined_def posix by blast
qed

text \<open>
  What \<open>tarfile\<close> promises of a member: reading it gives at most the bytes its header declares, and none for a
  negative size, which \<open>tarfile\<close> does not refuse. \<open>negative_bytes\<close> is how far such sizes lower the running total.
\<close>

definition delivers_declared :: "tar_item \<Rightarrow> bool" where
  "delivers_declared item \<longleftrightarrow> (case it_data item of None \<Rightarrow> True | Some (c, e) \<Rightarrow> int (length c) \<le> max 0 (it_size item))"

definition negative_bytes :: "tar_item list \<Rightarrow> int" where
  "negative_bytes items = sum_list (map (\<lambda>item. max 0 (- it_size item)) items)"

lemma negative_bytes_simps [simp]:
  "negative_bytes [] = 0" "negative_bytes (item # items) = max 0 (- it_size item) + negative_bytes items"
  by (simp_all add: negative_bytes_def)

text \<open>
  \<open>extraction_ok\<close> is kept by every member, also by the one that raises; \<open>debt\<close> is \<open>negative_bytes\<close> of the
  members so far.
\<close>

definition extraction_ok :: "string \<Rightarrow> int \<Rightarrow> extraction \<Rightarrow> bool" where
  "extraction_ok root_name debt x \<longleftrightarrow> distinct (map fst (disk x)) \<and> (\<forall>(p, n) \<in> set (disk x). p = [] \<and> n = Folder \<or> confined root_name p)
     \<and> disk_bytes x \<le> expanded_bytes x + debt \<and> disk_bytes x \<le> max_source_bytes + debt"

lemma extraction_ok_added:
  assumes "extraction_ok root_name debt x" "added x x' new"
    and "\<And>p n. (p, n) \<in> set new \<Longrightarrow> p = [] \<and> n = Folder \<or> confined root_name p"
    and "disk_bytes x' \<le> expanded_bytes x' + debt" "disk_bytes x' \<le> max_source_bytes + debt"
  shows "extraction_ok root_name debt x'"
  using assms unfolding extraction_ok_def added_def by (auto simp: distinct_append)

lemma mkdir_ok:
  assumes "extraction_ok root_name debt x" "mkdir path x = (r, x')" "path = [] \<or> confined root_name path"
  shows "extraction_ok root_name debt x' \<and> disk_bytes x' = disk_bytes x \<and> expanded_bytes x' = expanded_bytes x"
proof -
  from make_folders_effect [OF assms(2) [unfolded mkdir_def]] obtain new where new: "added x x' (map (\<lambda>p. (p, Folder)) new)"
    "set new \<subseteq> set (lineage path)" "expanded_bytes x' = expanded_bytes x" by auto
  have bytes: "disk_bytes x' = disk_bytes x" using disk_bytes_added [OF new(1)] folder_bytes by simp
  have "extraction_ok root_name debt x'"
  proof (rule extraction_ok_added [OF assms(1) new(1)])
    fix p n assume "(p, n) \<in> set (map (\<lambda>p. (p, Folder)) new)"
    then have "n = Folder" "prefix p path" using new(2) by (auto simp: lineage_prefix subset_iff)
    then show "p = [] \<and> n = Folder \<or> confined root_name p" using assms(3) confined_prefix by auto
  qed (use assms(1) bytes new(3) in \<open>auto simp: extraction_ok_def\<close>)
  then show ?thesis using bytes new(3) by simp
qed

lemma create_file_ok:
  assumes "extraction_ok root_name debt x" "create_file path copied x = (r, x')" "confined root_name path"
    and "disk_bytes x + int (length (fst copied)) \<le> expanded_bytes x + debt" "expanded_bytes x \<le> max_source_bytes"
  shows "extraction_ok root_name debt x'"
proof (cases "map_of (disk x) path")
  case (Some n)
  then show ?thesis using assms(1,2) by (simp add: create_file_def then_step_def look_def)
next
  case None
  let ?x = "x\<lparr>disk := AList.update path (Regular (fst copied)) (disk x)\<rparr>"
  have "x' = ?x" using assms(2) None by (auto simp: create_file_def then_step_def look_def add_node_def change_def)
  with added_one [OF None] have new: "added x x' [(path, Regular (fst copied))]" by simp
  show ?thesis
    by (rule extraction_ok_added [OF assms(1) new])
      (use assms disk_bytes_added [OF new] \<open>x' = ?x\<close> in \<open>auto simp: node_bytes_def\<close>)
qed

lemma extraction_ok_counted:
  "extraction_ok root_name debt x \<Longrightarrow> extraction_ok root_name (debt + max 0 (- n)) (x\<lparr>expanded_bytes := expanded_bytes x + n\<rparr>)"
  by (auto simp: extraction_ok_def disk_bytes_def)

lemma extraction_ok_seen: "extraction_ok root_name debt (x\<lparr>seen_names := s\<rparr>) \<longleftrightarrow> extraction_ok root_name debt x"
  by (simp add: extraction_ok_def disk_bytes_def)

lemma extraction_ok_more: "extraction_ok root_name debt x \<Longrightarrow> extraction_ok root_name (debt + max 0 n) x"
  by (auto simp: extraction_ok_def)

lemma extract_item_ok:
  assumes ok: "extraction_ok root_name debt x" and sane: "delivers_declared item" and run: "extract_item root_name item x = (r, x')"
  shows "extraction_ok root_name (debt + max 0 (- it_size item)) x'"
proof (cases "unsafe_member root_name (seen_names x) item")
  case True
  then have "x' = x" using run by (simp add: extract_item_def Let_def then_step_def look_def)
  then show ?thesis using extraction_ok_more [OF ok] by simp
next
  case False
  let ?ps = "parts (pure_path (it_name item))" and ?debt = "debt + max 0 (- it_size item)"
  have confined: "confined root_name ?ps" by (rule safe_member_confined [OF False])
  let ?x = "x\<lparr>seen_names := join_on slash ?ps # seen_names x\<rparr>"
  let ?y = "?x\<lparr>expanded_bytes := expanded_bytes ?x + it_size item\<rparr>"
  have x: "extraction_ok root_name debt ?x" using ok by (simp add: extraction_ok_seen)
  have y: "extraction_ok root_name ?debt ?y" by (rule extraction_ok_counted [OF x])
  show ?thesis
  proof (cases "it_kind item = Tar_Dir")
    case True
    then have "mkdir ?ps ?x = (r, x')" using run False by (simp add: extract_item_def Let_def then_step_def look_def change_def)
    from mkdir_ok [OF x this] confined extraction_ok_more show ?thesis by blast
  next
    case regular: False
    show ?thesis
    proof (cases "expanded_bytes ?y > max_source_bytes")
      case True
      then show ?thesis using run False regular y by (simp add: extract_item_def Let_def then_step_def look_def change_def)
    next
      case small: False
      obtain r1 z where z: "mkdir (butlast ?ps) ?y = (r1, z)" by (cases "mkdir (butlast ?ps) ?y")
      have "butlast ?ps = [] \<or> confined root_name (butlast ?ps)" using confined_prefix [OF confined] by (simp add: prefixeq_butlast)
      from mkdir_ok [OF y z this] have z_ok: "extraction_ok root_name ?debt z" "disk_bytes z = disk_bytes ?y" "expanded_bytes z = expanded_bytes ?y"
        by auto
      show ?thesis
      proof (cases "r1 = Inr () \<and> it_data item \<noteq> None")
        case True
        then obtain copied where copied: "it_data item = Some copied" by auto
        then have "create_file ?ps copied z = (r, x')"
          using run False regular small z True by (simp add: extract_item_def Let_def then_step_def look_def change_def)
        moreover have "disk_bytes z + int (length (fst copied)) \<le> expanded_bytes z + ?debt"
          using ok sane copied z_ok(2,3) by (auto simp: extraction_ok_def delivers_declared_def disk_bytes_def)
        ultimately show ?thesis using create_file_ok [OF z_ok(1)] confined small z_ok(3) by simp
      next
        case stopped: False
        then show ?thesis
          using run False regular small z z_ok(1)
          by (cases r1; cases "it_data item") (auto simp: extract_item_def Let_def then_step_def look_def change_def)
      qed
    qed
  qed
qed

lemma extract_items_ok:
  "extraction_ok root_name debt x \<Longrightarrow> \<forall>item \<in> set items. delivers_declared item \<Longrightarrow> extract_items root_name items x = (r, x') \<Longrightarrow>
    extraction_ok root_name (debt + negative_bytes items) x'"
proof (induction items arbitrary: debt x)
  case (Cons item items)
  obtain r1 y where y: "extract_item root_name item x = (r1, y)" by (cases "extract_item root_name item x")
  with Cons.prems have ok: "extraction_ok root_name (debt + max 0 (- it_size item)) y" by (auto intro: extract_item_ok)
  show ?case
  proof (cases r1)
    case (Inl e)
    then have "x' = y" using Cons.prems(3) y by (simp add: then_step_def)
    moreover have "0 \<le> negative_bytes items" by (induction items) simp_all
    ultimately show ?thesis using extraction_ok_more [OF ok, of "negative_bytes items"] by (simp add: add.assoc)
  next
    case (Inr u)
    with Cons.IH [OF ok] Cons.prems(2,3) y show ?thesis by (simp add: then_step_def add.assoc)
  qed
qed simp

text \<open>Members only add to what is there.\<close>

lemma extract_item_adds:
  assumes "extract_item root_name item x = (r, x')"
  shows "\<exists>new. added x x' new"
proof (cases "unsafe_member root_name (seen_names x) item")
  case True
  then show ?thesis using assms by (auto simp: extract_item_def Let_def then_step_def look_def intro: added_refl)
next
  case False
  let ?ps = "parts (pure_path (it_name item))"
  let ?x = "x\<lparr>seen_names := join_on slash ?ps # seen_names x\<rparr>"
  let ?y = "?x\<lparr>expanded_bytes := expanded_bytes ?x + it_size item\<rparr>"
  have same: "added ?x z new = added x z new" "added ?y z new = added x z new" for z new by (simp_all add: added_def)
  have folders: "\<exists>new. added z z' new" if "mkdir path z = (q, z')" for path z q z'
    using make_folders_effect [OF that [unfolded mkdir_def]] by blast
  show ?thesis
  proof (cases "it_kind item = Tar_Dir")
    case True
    then have "mkdir ?ps ?x = (r, x')" using assms False by (simp add: extract_item_def Let_def then_step_def look_def change_def)
    from folders [OF this] show ?thesis by (simp add: same)
  next
    case regular: False
    show ?thesis
    proof (cases "expanded_bytes ?y > max_source_bytes")
      case True
      then have "disk x' = disk x" using assms False regular by (auto simp: extract_item_def Let_def then_step_def look_def change_def)
      then show ?thesis by (blast intro: added_refl)
    next
      case small: False
      obtain r1 z where z: "mkdir (butlast ?ps) ?y = (r1, z)" by (cases "mkdir (butlast ?ps) ?y")
      from folders [OF z] obtain a where a: "added x z a" unfolding same by blast
      show ?thesis
      proof (cases "r1 = Inr () \<and> it_data item \<noteq> None \<and> map_of (disk z) ?ps = None")
        case True
        then obtain c where "it_data item = Some c" by blast
        then have "x' = z\<lparr>disk := AList.update ?ps (Regular (fst c)) (disk z)\<rparr>"
          using assms False regular small z True
          by (auto simp: extract_item_def Let_def then_step_def look_def change_def create_file_def add_node_def)
        with added_trans [OF a added_one] True show ?thesis by blast
      next
        case stopped: False
        then have "x' = z"
          using assms False regular small z
          by (cases r1; cases "it_data item")
            (auto simp: extract_item_def Let_def then_step_def look_def change_def create_file_def)
        with a show ?thesis by blast
      qed
    qed
  qed
qed

lemma extract_items_adds: "extract_items root_name items x = (r, x') \<Longrightarrow> \<exists>new. added x x' new"
proof (induction items arbitrary: x)
  case (Cons item items)
  obtain r1 y where y: "extract_item root_name item x = (r1, y)" by (cases "extract_item root_name item x")
  from extract_item_adds [OF y] obtain a where a: "added x y a" by blast
  show ?case
  proof (cases r1)
    case (Inl e)
    then show ?thesis using Cons.prems y a by (auto simp: then_step_def)
  next
    case (Inr u)
    then have "extract_items root_name items y = (r, x')" using Cons.prems y by (simp add: then_step_def)
    from Cons.IH [OF this] a show ?thesis using added_trans by blast
  qed
qed (auto intro: added_refl)

lemma extract_items_append:
  "extract_items root_name (xs @ ys) x = (case extract_items root_name xs x of
     (Inl e, x') \<Rightarrow> (Inl e, x') | (Inr u, x') \<Rightarrow> extract_items root_name ys x')"
proof (induction xs arbitrary: x)
  case (Cons item items)
  show ?case by (cases "extract_item root_name item x" rule: prod.exhaust; cases "fst (extract_item root_name item x)")
    (simp_all add: then_step_def Cons.IH)
qed (simp add: yield_step_def)

lemma added_map_of: "added x x' new \<Longrightarrow> map_of (disk x') p = (case map_of (disk x) p of Some n \<Rightarrow> Some n | None \<Rightarrow> map_of new p)"
  by (auto simp: added_def map_add_def map_of_eq_None_iff split: option.splits)

lemma added_keeps: "added x x' new \<Longrightarrow> map_of (disk x) \<subseteq>\<^sub>m map_of (disk x')"
  by (auto simp: map_le_def added_map_of)

lemma extract_items_keep:
  assumes "extract_items root_name (xs @ ys) x = (r, x')" "extract_items root_name xs x = (r1, x1)"
  shows "map_of (disk x1) \<subseteq>\<^sub>m map_of (disk x')"
  using assms extract_items_adds [of root_name ys x1 r x'] added_keeps
  by (cases r1) (auto simp: extract_items_append)

lemma require_files_frame: "require_files root_name fs x = (r, x') \<Longrightarrow> x' = x"
  by (induction fs) (auto simp: then_step_def look_def split: if_splits)

lemma extract_source_cases:
  assumes "extract_source arch sha x = (r, x')"
  obtains r1 where "extract_items (root_name_of sha) (fst arch) x = (r1, x')"
    and "\<And>path. r = Inr path \<Longrightarrow> r1 = Inr () \<and> snd arch = None \<and> path = [root_name_of sha]
          \<and> require_files (root_name_of sha) required_files x' = (Inr (), x')"
proof -
  obtain r1 y where y: "extract_items (root_name_of sha) (fst arch) x = (r1, y)"
    by (cases "extract_items (root_name_of sha) (fst arch) x")
  obtain r2 z where z: "require_files (root_name_of sha) required_files y = (r2, z)"
    by (cases "require_files (root_name_of sha) required_files y")
  have "z = y" by (rule require_files_frame [OF z])
  with y z assms that show thesis
    by (cases r1; cases "snd arch"; cases r2) (auto simp: extract_source_def Let_def then_step_def yield_step_def)
qed

text \<open>
  C16. Extraction stays inside. Let reading a member give at most the bytes its header declares, and none when that
  size is negative. Then whatever the archive holds, and also when extraction raises: everything written lies
  under the directory named after the commit, by components that are neither empty nor \<open>.\<close> nor \<open>..\<close> and contain
  no separator; what the members up to some point have written, no later member replaces, removes or writes
  again; and the files together exceed 150 MiB at most by the total of the negative sizes declared, so not at
  all when no member declares one.
\<close>

theorem extraction_confined:
  assumes "extract_source arch sha nothing_extracted = (r, x)" and "\<forall>item \<in> set (fst arch). delivers_declared item"
  shows "(\<forall>(p, n) \<in> set (disk x). p = [] \<and> n = Folder \<or> confined (root_name_of sha) p)
    \<and> distinct (map fst (disk x))
    \<and> (\<forall>xs ys. fst arch = xs @ ys \<longrightarrow>
        map_of (disk (snd (extract_items (root_name_of sha) xs nothing_extracted))) \<subseteq>\<^sub>m map_of (disk x))
    \<and> disk_bytes x \<le> max_source_bytes + negative_bytes (fst arch)
    \<and> ((\<forall>item \<in> set (fst arch). 0 \<le> it_size item) \<longrightarrow> disk_bytes x \<le> max_source_bytes)"
proof -
  from extract_source_cases [OF assms(1)] obtain r1
    where items: "extract_items (root_name_of sha) (fst arch) nothing_extracted = (r1, x)" by metis
  have "extraction_ok (root_name_of sha) 0 nothing_extracted"
    by (simp add: extraction_ok_def nothing_extracted_def disk_bytes_def max_source_bytes_def)
  from extract_items_ok [OF this assms(2) items] have ok: "extraction_ok (root_name_of sha) (negative_bytes (fst arch)) x" by simp
  have "map_of (disk (snd (extract_items (root_name_of sha) xs nothing_extracted))) \<subseteq>\<^sub>m map_of (disk x)"
    if "fst arch = xs @ ys" for xs ys
    using extract_items_keep [OF items [unfolded that]] by (metis prod.collapse)
  moreover have "negative_bytes items = 0" if "\<forall>item \<in> set items. 0 \<le> it_size item" for items
    using that by (induction items) auto
  ultimately show ?thesis using ok unfolding extraction_ok_def by auto
qed

text \<open>
  The limit does not hold without the last condition: after a member that declares a negative size, a file larger
  than the limit is written and extraction of that member is not refused.
\<close>

theorem negative_size_defeats_limit:
  "\<exists>items x. (\<forall>item \<in> set items. delivers_declared item)
    \<and> extract_items (root_name_of ''c'') items nothing_extracted = (Inr (), x) \<and> max_source_bytes < disk_bytes x"
proof -
  define big where "big = replicate (nat (max_source_bytes + 1)) (CHR ''x'')"
  have big: "int (length big) = max_source_bytes + 1" by (simp add: big_def max_source_bytes_def)
  define a where "a = \<lparr>it_name = ''long-haul-c/a'', it_kind = Tar_File, it_size = - 1, it_data = Some ([], None)\<rparr>"
  define b where "b = \<lparr>it_name = ''long-haul-c/b'', it_kind = Tar_File, it_size = max_source_bytes + 1, it_data = Some (big, None)\<rparr>"
  have parts: "parts (pure_path (it_name a)) = [''long-haul-c'', ''a'']" "parts (pure_path (it_name b)) = [''long-haul-c'', ''b'']"
    unfolding a_def b_def tar_item.simps by code_simp+
  let ?x = "\<lparr>seen_names = [''long-haul-c/b'', ''long-haul-c/a''], expanded_bytes = max_source_bytes,
    disk = [([], Folder), ([''long-haul-c''], Folder), ([''long-haul-c'', ''a''], Regular []), ([''long-haul-c'', ''b''], Regular big)]\<rparr>"
  have fields: "it_kind a = Tar_File" "it_size a = - 1" "it_data a = Some ([], None)"
    "it_kind b = Tar_File" "it_size b = max_source_bytes + 1" "it_data b = Some (big, None)"
    "\<not> starts_with (it_name a) ''/''" "\<not> starts_with (it_name b) ''/''" "CHR 0x5C \<notin> set (it_name a)" "CHR 0x5C \<notin> set (it_name b)"
    by (simp_all add: a_def b_def)
  have "extract_items (root_name_of ''c'') [a, b] nothing_extracted = (Inr (), ?x)"
    by (simp add: extract_item_def Let_def parts fields unsafe_member_def root_name_of_def steps change_def look_def yield_step_def
      mkdir_def lineage_def create_file_def add_node_def then_step_def nothing_extracted_def)
      (simp add: max_source_bytes_def)
  moreover have "max_source_bytes < disk_bytes ?x" using big by (simp add: disk_bytes_def node_bytes_def)
  moreover have "\<forall>item \<in> set [a, b]. delivers_declared item" using big by (simp add: delivers_declared_def a_def b_def)
  ultimately show ?thesis by (intro exI [of _ "[a, b]"] exI [of _ ?x] conjI)
qed

subsection \<open>What is written\<close>

definition item_path :: "tar_item \<Rightarrow> string list" where
  "item_path item = parts (pure_path (it_name item))"

definition file_of :: "tar_item \<Rightarrow> string list \<Rightarrow> string \<Rightarrow> bool" where
  "file_of item p c \<longleftrightarrow> it_kind item = Tar_File \<and> item_path item = p \<and> it_data item = Some (c, None)"

definition holds_file :: "extraction \<Rightarrow> string list \<Rightarrow> string \<Rightarrow> bool" where
  "holds_file x p c \<longleftrightarrow> map_of (disk x) p = Some (Regular c)"

lemma folders_hold_no_file: "added x x' (map (\<lambda>p. (p, Folder)) new) \<Longrightarrow> holds_file x' p c \<longleftrightarrow> holds_file x p c"
  by (auto simp: holds_file_def added_map_of split: option.splits dest: map_of_SomeD)

lemma mkdir_files:
  assumes "mkdir path x = (Inr (), x')"
  shows "holds_file x' p c \<longleftrightarrow> holds_file x p c" "map_of (disk x) p = Some Folder \<Longrightarrow> map_of (disk x') p = Some Folder"
    "map_of (disk x') path = Some Folder"
proof -
  from make_folders_effect [OF assms [unfolded mkdir_def]] obtain new where new: "added x x' (map (\<lambda>p. (p, Folder)) new)"
    "\<forall>p \<in> set (lineage path). map_of (disk x') p = Some Folder" by auto
  show "holds_file x' p c \<longleftrightarrow> holds_file x p c" by (rule folders_hold_no_file [OF new(1)])
  show "map_of (disk x') p = Some Folder" if "map_of (disk x) p = Some Folder" using that by (simp add: added_map_of [OF new(1)])
  show "map_of (disk x') path = Some Folder" using new(2) by (simp add: lineage_prefix)
qed

lemma extract_item_files:
  assumes "extract_item root_name item x = (Inr (), x')"
  shows "holds_file x' p c \<longleftrightarrow> holds_file x p c \<or> file_of item p c"
    and "map_of (disk x) p = Some Folder \<Longrightarrow> map_of (disk x') p = Some Folder"
    and "it_kind item = Tar_Dir \<Longrightarrow> map_of (disk x') (item_path item) = Some Folder"
proof -
  let ?ps = "item_path item"
  let ?x = "x\<lparr>seen_names := join_on slash ?ps # seen_names x\<rparr>"
  let ?y = "?x\<lparr>expanded_bytes := expanded_bytes ?x + it_size item\<rparr>"
  have run: "(if it_kind item = Tar_Dir then mkdir ?ps ?x
      else if expanded_bytes ?y > max_source_bytes then (Inl (package_error ''Expanded source exceeds its size limit''), ?y)
      else then_step (mkdir (butlast ?ps)) (\<lambda>_. case it_data item of
             None \<Rightarrow> yield_step (Inl (package_error ''Source archive member is unreadable''))
           | Some copied \<Rightarrow> create_file ?ps copied) ?y) = (Inr (), x')"
    and kind: "it_kind item = Tar_File \<or> it_kind item = Tar_Dir"
    using assms unfolding extract_item_def Let_def item_path_def [symmetric]
    by (auto simp: steps unsafe_member_def Let_def split: if_splits)
  have same: "holds_file ?y q d \<longleftrightarrow> holds_file x q d" "holds_file ?x q d \<longleftrightarrow> holds_file x q d" for q d
    by (simp_all add: holds_file_def)
  show "holds_file x' p c \<longleftrightarrow> holds_file x p c \<or> file_of item p c"
    and "map_of (disk x) p = Some Folder \<Longrightarrow> map_of (disk x') p = Some Folder"
    and "it_kind item = Tar_Dir \<Longrightarrow> map_of (disk x') ?ps = Some Folder"
  proof (atomize (full), cases "it_kind item = Tar_Dir", goal_cases)
    case 1
    then have "mkdir ?ps ?x = (Inr (), x')" using run by simp
    from mkdir_files [OF this] show ?case using 1 same by (auto simp: file_of_def)
  next
    case 2
    then obtain z copied where z: "mkdir (butlast ?ps) ?y = (Inr (), z)" and copied: "it_data item = Some copied"
      and create: "create_file ?ps copied z = (Inr (), x')"
      using run by (auto simp: then_step_Inr split: if_splits option.splits)
    have fresh: "map_of (disk z) ?ps = None" and whole: "snd copied = None"
      and x': "x' = z\<lparr>disk := AList.update ?ps (Regular (fst copied)) (disk z)\<rparr>"
      using create by (auto simp: create_file_def then_step_Inr look_def add_node_def split: if_splits option.splits)
    have "file_of item p c \<longleftrightarrow> p = ?ps \<and> c = fst copied"
      using copied whole kind 2 by (cases copied) (auto simp: file_of_def)
    moreover have "holds_file x' p c \<longleftrightarrow> (if p = ?ps then c = fst copied else holds_file x p c)"
      using mkdir_files(1) [OF z] same by (auto simp: holds_file_def x')
    moreover have "\<not> holds_file x ?ps c" using fresh mkdir_files(1) [OF z, of ?ps c] same by (auto simp: holds_file_def)
    moreover have "map_of (disk x') p = Some Folder" if "map_of (disk x) p = Some Folder"
    proof -
      have "map_of (disk z) p = Some Folder" using mkdir_files(2) [OF z, of p] that by simp
      then show ?thesis using fresh by (auto simp: x')
    qed
    ultimately show ?case using 2 by auto
  qed
qed

lemma extract_items_files:
  assumes "extract_items root_name items x = (Inr (), x')"
  shows "(holds_file x' p c \<longleftrightarrow> holds_file x p c \<or> (\<exists>item \<in> set items. file_of item p c))
    \<and> (map_of (disk x) p = Some Folder \<longrightarrow> map_of (disk x') p = Some Folder)
    \<and> (\<forall>item \<in> set items. it_kind item = Tar_Dir \<longrightarrow> map_of (disk x') (item_path item) = Some Folder)"
  using assms
proof (induction items arbitrary: x p c)
  case (Cons item items)
  from Cons.prems obtain y where y: "extract_item root_name item x = (Inr (), y)" "extract_items root_name items y = (Inr (), x')"
    by (auto simp: then_step_Inr)
  note first = extract_item_files [OF y(1)] and rest = Cons.IH [OF y(2)]
  have "it_kind item = Tar_Dir \<Longrightarrow> map_of (disk x') (item_path item) = Some Folder"
    using first(3) rest [of "item_path item"] by blast
  moreover have "holds_file x' p c \<longleftrightarrow> holds_file x p c \<or> (\<exists>i \<in> set (item # items). file_of i p c)"
    using first(1) [of p c] rest [of p c] by auto
  ultimately show ?case using first(2) [of p] rest [of p] by auto
qed simp

lemma is_regular_holds: "is_regular p x \<longleftrightarrow> (\<exists>c. holds_file x p c)"
  by (auto simp: is_regular_def holds_file_def split: option.splits node.splits)

lemma require_files_present:
  "require_files root_name fs x = (Inr (), x') \<Longrightarrow> \<forall>f \<in> set fs. is_regular (root_name # posix_parts f) x"
  by (induction fs) (auto simp: steps split: if_splits)

text \<open>
  What is extracted is the archive. When extraction returns, the archive was read to its end, a path holds
  a file with some content exactly if the archive has that file with that content, every archived directory
  exists, and the two required files are among the files.
\<close>

theorem extraction_exact:
  assumes "extract_source arch sha nothing_extracted = (Inr path, x)"
  shows "path = [root_name_of sha] \<and> snd arch = None
    \<and> (\<forall>p c. holds_file x p c \<longleftrightarrow> (\<exists>item \<in> set (fst arch). file_of item p c))
    \<and> (\<forall>item \<in> set (fst arch). it_kind item = Tar_Dir \<longrightarrow> map_of (disk x) (item_path item) = Some Folder)
    \<and> (\<forall>f \<in> set required_files. \<exists>c. holds_file x (root_name_of sha # posix_parts f) c)"
proof -
  from extract_source_cases [OF assms] have facts: "extract_items (root_name_of sha) (fst arch) nothing_extracted = (Inr (), x)"
    "snd arch = None" "path = [root_name_of sha]" "require_files (root_name_of sha) required_files x = (Inr (), x)" by metis+
  from extract_items_files [OF facts(1)]
  have "holds_file x p c \<longleftrightarrow> (\<exists>item \<in> set (fst arch). file_of item p c)" for p c
    by (simp add: holds_file_def nothing_extracted_def)
  moreover from require_files_present [OF facts(4)]
  have "\<forall>f \<in> set required_files. \<exists>c. holds_file x (root_name_of sha # posix_parts f) c"
    by (simp add: is_regular_holds)
  ultimately show ?thesis using facts(2,3) extract_items_files [OF facts(1)] by blast
qed

section \<open>The bundle\<close>

lemma ends_with_iff: "ends_with s t \<longleftrightarrow> (\<exists>u. s = u @ t)"
  by (auto simp: ends_with_def starts_with_prefix prefix_def) (metis rev_append rev_rev_ident)

lemma join_two: "a \<noteq> [] \<Longrightarrow> join_on slash [a, b] = a @ slash # b"
  by simp

text \<open>The path of a directory entry with the suffix \<open>.whl\<close> is canonical, whatever the entry's name is.\<close>

definition wheel_name :: "string \<Rightarrow> bool" where
  "wheel_name n \<longleftrightarrow> ends_with n ''.whl'' \<and> slash \<notin> set n"

lemma wheel_name_facts: "wheel_name n \<Longrightarrow> n \<noteq> [] \<and> n \<noteq> ''.'' \<and> n \<noteq> ''..''"
  by (auto simp: wheel_name_def ends_with_iff append_eq_Cons_conv)

lemma wheel_path_parts:
  assumes "wheel_name (wf_name f)"
  shows "pure_path (wheel_path f) = \<lparr>path_root = [], path_names = [''wheelhouse'', wf_name f]\<rparr>"
proof -
  have "wheel_path f = join_on slash [''wheelhouse'', wf_name f]" by (simp add: wheel_path_def)
  moreover have "posix_parts (join_on slash [''wheelhouse'', wf_name f]) = [''wheelhouse'', wf_name f]"
    by (rule posix_parts_join) (use assms wheel_name_facts [OF assms] in \<open>auto simp: wheel_name_def\<close>)
  ultimately have "posix_parts (wheel_path f) = [''wheelhouse'', wf_name f]" by simp
  then show ?thesis by (simp add: pure_path_def root_of_def wheel_path_def)
qed

definition sound_wheel :: "wheel_file \<Rightarrow> bool" where
  "sound_wheel f \<longleftrightarrow> wf_regular f \<and> \<not> wf_link f \<and> CHR 0x5C \<notin> set (wf_name f) \<and> wf_bytes f \<noteq> []
     \<and> int (length (wf_bytes f)) \<le> max_wheel_bytes"

definition wheel_entry :: "(string \<Rightarrow> string) \<Rightarrow> wheel_file \<Rightarrow> file_entry" where
  "wheel_entry hash f = \<lparr>fe_path = wheel_path f, fe_sha256 = hash (wf_bytes f), fe_size = int (length (wf_bytes f))\<rparr>"

lemma wheel_entry_path [simp]: "fe_path (wheel_entry hash f) = wheel_path f"
  by (simp add: wheel_entry_def)

lemma file_record_wheel:
  assumes "wheel_name (wf_name f)"
  shows "file_record hash f (wheel_path f) = Inr e \<longleftrightarrow> sound_wheel f \<and> e = wheel_entry hash f"
proof -
  have "path_text (pure_path (wheel_path f)) = wheel_path f" "\<not> is_absolute (pure_path (wheel_path f))"
    "''..'' \<notin> set (parts (pure_path (wheel_path f)))"
    unfolding wheel_path_parts [OF assms]
    using wheel_name_facts [OF assms] by (auto simp: path_text_def is_absolute_def parts_def wheel_path_def)
  moreover have "CHR 0x5C \<in> set (wheel_path f) \<longleftrightarrow> CHR 0x5C \<in> set (wf_name f)" by (simp add: wheel_path_def)
  ultimately show ?thesis unfolding file_record_def Let_def by (auto simp: sound_wheel_def wheel_entry_def)
qed

text \<open>A directory: its entries have different names without slashes.\<close>

definition directory :: "wheel_file list \<Rightarrow> bool" where
  "directory listing \<longleftrightarrow> distinct (map wf_name listing) \<and> (\<forall>f \<in> set listing. slash \<notin> set (wf_name f))"

lemma set_wheel_files: "set (wheel_files listing) = {f \<in> set listing. ends_with (wf_name f) ''.whl''}"
  by (auto simp: wheel_files_def)

lemma wheel_files_names: "directory listing \<Longrightarrow> f \<in> set (wheel_files listing) \<Longrightarrow> wheel_name (wf_name f)"
  by (auto simp: set_wheel_files directory_def wheel_name_def)

lemma append_le_iff: "a @ x \<le> a @ y \<longleftrightarrow> (x :: string) \<le> y"
  by (induction a) auto

lemma distinct_wheel_names: "directory listing \<Longrightarrow> distinct (map wf_name (wheel_files listing))"
  by (simp add: directory_def wheel_files_def distinct_map inj_on_def)

lemma wheel_paths_ordered:
  assumes "directory listing"
  shows "sorted_set (map wheel_path (wheel_files listing)) = map wheel_path (wheel_files listing)"
proof -
  have "sorted (map wf_name (wheel_files listing))" by (simp add: wheel_files_def)
  then have "sorted (map wheel_path (wheel_files listing))"
    by (simp only: sorted_map wheel_path_def append_le_iff)
  moreover have "distinct (map wheel_path (wheel_files listing))"
    using distinct_wheel_names [OF assms] by (auto simp: distinct_map inj_on_def wheel_path_def)
  ultimately show ?thesis by (simp add: sorted_set_def distinct_remdups_id sorted_sort_id)
qed

lemma emap_Inr_map:
  "(\<And>x y. x \<in> set xs \<Longrightarrow> f x = Inr y \<longleftrightarrow> P x \<and> y = g x) \<Longrightarrow> emap f xs = Inr ys \<longleftrightarrow> (\<forall>x \<in> set xs. P x) \<and> ys = map g xs"
proof (induction xs arbitrary: ys)
  case (Cons x xs)
  have "emap f xs = Inr zs \<longleftrightarrow> (\<forall>x \<in> set xs. P x) \<and> zs = map g xs" for zs by (rule Cons.IH) (use Cons.prems in auto)
  with Cons.prems [of x] show ?case by auto
qed auto

definition sound_wheelhouse :: "package_info \<Rightarrow> wheel_file list \<Rightarrow> bool" where
  "sound_wheelhouse package listing \<longleftrightarrow> wheel_files listing \<noteq> [] \<and> length (wheel_files listing) \<le> max_wheels
     \<and> (\<forall>f \<in> set (wheel_files listing). sound_wheel f) \<and> pkg_wheel_path package \<in> wheel_path ` set (wheel_files listing)"

lemma checked_wheels_iff:
  assumes "directory listing"
  shows "checked_wheels hash package (wheel_files listing) = Inr records \<longleftrightarrow>
    sound_wheelhouse package listing \<and> records = map (wheel_entry hash) (wheel_files listing)"
proof -
  let ?files = "wheel_files listing"
  have records: "emap (\<lambda>f. file_record hash f (wheel_path f)) ?files = Inr rs \<longleftrightarrow> (\<forall>f \<in> set ?files. sound_wheel f) \<and> rs = map (wheel_entry hash) ?files" for rs
    by (rule emap_Inr_map) (use file_record_wheel wheel_files_names [OF assms] in blast)
  have paths: "map fe_path (map (wheel_entry hash) ?files) = map wheel_path ?files" by simp
  have linked: "(\<forall>f \<in> set ?files. sound_wheel f) \<Longrightarrow> \<not> (\<exists>f \<in> set ?files. wf_link f)" by (auto simp: sound_wheel_def)
  show ?thesis
    unfolding checked_wheels_def sound_wheelhouse_def
    using wheel_paths_ordered [OF assms] linked by (auto simp: records paths image_image simp del: map_map)
qed

subsection \<open>Names in the archive\<close>

lemma utf8_length_append: "utf8_length (a @ b) = utf8_length a + utf8_length b"
  by (simp add: utf8_length_def)

lemma wheel_name_fits:
  assumes "slash \<notin> set n"
  shows "ustar_name_fits (''wheelhouse/'' @ n) \<longleftrightarrow> utf8_length n \<le> 100"
proof -
  have "split_on slash (''wheelhouse'' @ slash # n) = [''wheelhouse'', n]"
    using assms by (simp add: split_append_sep split_on_single)
  then have "splits_of (''wheelhouse/'' @ n) = [(''wheelhouse'', n)]" by (simp add: splits_of_def)
  moreover have "utf8_length (''wheelhouse/'' @ n) = 11 + utf8_length n" "utf8_length ''wheelhouse'' = 10"
    by (simp_all add: utf8_length_def)
  ultimately show ?thesis by (auto simp: ustar_name_fits_def)
qed

lemma manifest_name_fits: "ustar_name_fits ''manifest.json''"
  by (simp add: ustar_name_fits_def utf8_length_def)

definition plain_entry :: "string \<times> string \<Rightarrow> tar_entry" where
  "plain_entry m = \<lparr>te_name = fst m, te_data = snd m, te_mode = 420, te_mtime = 0, te_owner = ((0, []), (0, []))\<rparr>"

lemma write_members_fit:
  "(\<forall>m \<in> set ms. ustar_name_fits (fst m)) \<Longrightarrow> write_members packed b finished ms out =
    (Inr (finished @ map plain_entry ms), AList.update b (packed True (finished @ map plain_entry ms)) out)"
  by (induction ms arbitrary: finished)
    (auto simp: put_file_def steps yield_step_def tar_member_def plain_entry_def)

lemma write_members_raises:
  "\<not> (\<forall>m \<in> set ms. ustar_name_fits (fst m)) \<Longrightarrow> \<exists>content. write_members packed b finished ms out =
    (Inl (ValueError ''name is too long''), AList.update b content out)"
proof (induction ms arbitrary: finished)
  case (Cons m ms)
  obtain name data where m: "m = (name, data)" by (cases m)
  show ?case
  proof (cases "ustar_name_fits name")
    case True
    then have "\<not> (\<forall>m \<in> set ms. ustar_name_fits (fst m))" using Cons.prems by (simp add: m)
    from Cons.IH [OF this] True show ?thesis by (simp add: m tar_member_def)
  next
    case False
    then show ?thesis by (auto simp: m put_file_def steps yield_step_def tar_member_def)
  qed
qed simp

subsection \<open>The receipt\<close>

definition bundle_name :: "source_id \<Rightarrow> string" where
  "bundle_name src = ''longhaul-'' @ src_sha src @ ''-offline.tar.gz''"

definition members_of :: "string \<Rightarrow> wheel_file list \<Rightarrow> tar_entry list" where
  "members_of manifest listing = map plain_entry ((''manifest.json'', manifest) # map (\<lambda>f. (wheel_path f, wf_bytes f)) (wheel_files listing))"

definition receipt_for :: "(string \<Rightarrow> string) \<Rightarrow> (bool \<Rightarrow> tar_entry list \<Rightarrow> string) \<Rightarrow> (string \<times> pyval) list \<Rightarrow> string
    \<Rightarrow> string \<Rightarrow> wheel_file list \<Rightarrow> receipt" where
  "receipt_for hash packed common bundle manifest listing = (let content = packed True (members_of manifest listing) in
     \<lparr>rc_common = common,
      rc_files = \<lparr>fe_path = ''manifest.json'', fe_sha256 = hash manifest, fe_size = int (length manifest)\<rparr> # map (wheel_entry hash) (wheel_files listing),
      rc_bundle_name = bundle, rc_bundle_sha256 = hash content, rc_bundle_size = int (length content)\<rparr>)"

lemma receipt_order:
  assumes "directory listing" "fe_path e = ''manifest.json''"
  shows "sort_key fe_path (e # map (wheel_entry hash) (wheel_files listing)) = e # map (wheel_entry hash) (wheel_files listing)"
    and "distinct (''manifest.json'' # map wheel_path (wheel_files listing))" "sorted (''manifest.json'' # map wheel_path (wheel_files listing))"
proof -
  have ordered: "sorted (map wheel_path (wheel_files listing))" "distinct (map wheel_path (wheel_files listing))"
    using sorted_sorted_set [of "map wheel_path (wheel_files listing)"] distinct_sorted_set [of "map wheel_path (wheel_files listing)"]
    unfolding wheel_paths_ordered [OF assms(1)] .
  have "''manifest.json'' < wheel_path f" for f by (simp add: wheel_path_def less_char_def)
  then have first: "''manifest.json'' \<le> wheel_path f" "''manifest.json'' \<noteq> wheel_path f" for f by (auto simp: less_le)
  from ordered first show all: "sorted (''manifest.json'' # map wheel_path (wheel_files listing))"
    "distinct (''manifest.json'' # map wheel_path (wheel_files listing))" by auto
  show "sort_key fe_path (e # map (wheel_entry hash) (wheel_files listing)) = e # map (wheel_entry hash) (wheel_files listing)"
    by (rule sort_key_id_if_sorted) (use all(1) assms(2) in \<open>simp add: comp_def\<close>)
qed

definition manifest_of :: "(string \<Rightarrow> string) \<Rightarrow> (string \<times> pyval) list \<Rightarrow> wheel_file list \<Rightarrow> pyval" where
  "manifest_of hash common listing = PDict (common @ [(''files'', PList (map entry_dump (map (wheel_entry hash) (wheel_files listing))))])"

lemma names_fit_iff:
  assumes "directory listing"
  shows "(\<forall>m \<in> set ((''manifest.json'', manifest) # map (\<lambda>f. (wheel_path f, wf_bytes f)) (wheel_files listing)). ustar_name_fits (fst m))
    \<longleftrightarrow> (\<forall>f \<in> set (wheel_files listing). utf8_length (wf_name f) \<le> 100)"
proof -
  have "ustar_name_fits (wheel_path f) \<longleftrightarrow> utf8_length (wf_name f) \<le> 100" if "f \<in> set (wheel_files listing)" for f
    unfolding wheel_path_def
    by (rule wheel_name_fits) (use assms that in \<open>auto simp: directory_def set_wheel_files\<close>)
  then show ?thesis using manifest_name_fits by auto
qed

lemma make_bundle_Inr:
  assumes "directory listing" and common: "common = common_fields src runtime tools package"
  shows "make_bundle hash layout packed src runtime tools package listing out = (Inr r, out') \<longleftrightarrow>
    validate_runtime runtime = Inr () \<and> sound_wheelhouse package listing \<and> map_of out (bundle_name src) = None
    \<and> (\<forall>f \<in> set (wheel_files listing). utf8_length (wf_name f) \<le> 100)
    \<and> (\<exists>manifest text. json_bytes layout (manifest_of hash common listing) = Inr manifest
        \<and> r = receipt_for hash packed common (bundle_name src) manifest listing
        \<and> rc_bundle_size r \<le> max_bundle_bytes \<and> json_bytes layout (receipt_dump r) = Inr text
        \<and> out' = AList.update ''package-receipt.json'' text
            (AList.update (bundle_name src) (packed True (members_of manifest listing)) out))"
proof -
  let ?files = "wheel_files listing"
  let ?ms = "\<lambda>manifest. (''manifest.json'', manifest) # map (\<lambda>f. (wheel_path f, wf_bytes f)) ?files"
  have written: "write_bundle packed b (?ms manifest) out = (Inr members, out1) \<longleftrightarrow> map_of out b = None
      \<and> (\<forall>f \<in> set ?files. utf8_length (wf_name f) \<le> 100) \<and> members = members_of manifest listing
      \<and> out1 = AList.update b (packed True members) out" for b manifest members out1
    using write_members_fit [of "?ms manifest" packed b "[]" out] write_members_raises [of "?ms manifest" packed b "[]" out]
    unfolding names_fit_iff [OF assms(1)] write_bundle_def step_look members_of_def
    by (cases "\<forall>f \<in> set ?files. utf8_length (wf_name f) \<le> 100") auto
  have sort: "sort_key fe_path (\<lparr>fe_path = ''manifest.json'', fe_sha256 = hash m, fe_size = int (length m)\<rparr> # map (wheel_entry hash) ?files)
      = \<lparr>fe_path = ''manifest.json'', fe_sha256 = hash m, fe_size = int (length m)\<rparr> # map (wheel_entry hash) ?files" for m
    by (rule receipt_order(1) [OF assms(1)]) simp
  show ?thesis
    unfolding make_bundle_def Let_def bundle_name_def [symmetric] common [symmetric]
    apply (auto simp: then_step_Inr checked_wheels_iff [OF assms(1)] manifest_of_def written sort receipt_for_def Let_def put_file_def
      simp del: sort_key_simps map_map split: if_splits)
    subgoal for manifest t by (rule exI [of _ manifest]) simp
    done
qed

definition describes :: "(string \<Rightarrow> string) \<Rightarrow> file_entry \<Rightarrow> tar_entry \<Rightarrow> bool" where
  "describes hash e m \<longleftrightarrow> fe_path e = te_name m \<and> fe_sha256 e = hash (te_data m) \<and> fe_size e = int (length (te_data m))"

text \<open>
  A receipt describes its bundle. When \<open>make_bundle\<close> returns, the output directory holds the bundle under
  the name, digest and size the receipt gives, within 350 MiB; the archive's members are the manifest and the
  wheels, and the receipt's files are exactly these members in this order, each with its digest and size; the
  paths are sorted and distinct and include the project's wheel; the receipt itself was written.
\<close>

theorem receipt_describes_bundle:
  assumes "make_bundle hash layout packed src runtime tools package listing out = (Inr r, out')" and "directory listing"
  shows "\<exists>members receipt_text. map_of out' (rc_bundle_name r) = Some (packed True members)
    \<and> rc_bundle_sha256 r = hash (packed True members) \<and> rc_bundle_size r = int (length (packed True members))
    \<and> rc_bundle_size r \<le> max_bundle_bytes
    \<and> list_all2 (describes hash) (rc_files r) members
    \<and> map te_name members = ''manifest.json'' # map wheel_path (wheel_files listing)
    \<and> sorted (map fe_path (rc_files r)) \<and> distinct (map fe_path (rc_files r)) \<and> pkg_wheel_path package \<in> set (map fe_path (rc_files r))
    \<and> json_bytes layout (receipt_dump r) = Inr receipt_text \<and> map_of out' ''package-receipt.json'' = Some receipt_text"
proof -
  let ?common = "common_fields src runtime tools package"
  from assms(1) [unfolded make_bundle_Inr [OF assms(2) refl]] obtain manifest receipt_text where
    sound: "sound_wheelhouse package listing" and r: "r = receipt_for hash packed ?common (bundle_name src) manifest listing"
    and size: "rc_bundle_size r \<le> max_bundle_bytes" and rendered: "json_bytes layout (receipt_dump r) = Inr receipt_text"
    and out': "out' = AList.update ''package-receipt.json'' receipt_text
      (AList.update (bundle_name src) (packed True (members_of manifest listing)) out)" by blast
  let ?members = "members_of manifest listing"
  have paths: "map fe_path (rc_files r) = ''manifest.json'' # map wheel_path (wheel_files listing)"
    by (simp add: r receipt_for_def Let_def comp_def)
  have "list_all2 (describes hash) (rc_files r) ?members"
    by (simp add: r receipt_for_def Let_def members_of_def describes_def plain_entry_def wheel_entry_def list.rel_map list_all2_same)
  moreover have "map te_name ?members = ''manifest.json'' # map wheel_path (wheel_files listing)"
    by (simp add: members_of_def plain_entry_def comp_def)
  moreover have "pkg_wheel_path package \<in> set (map fe_path (rc_files r))"
    using sound unfolding paths by (auto simp: sound_wheelhouse_def)
  moreover have "map_of out' (rc_bundle_name r) = Some (packed True ?members)" "map_of out' ''package-receipt.json'' = Some receipt_text"
    by (simp_all add: out' r receipt_for_def Let_def bundle_name_def)
  moreover have "rc_bundle_sha256 r = hash (packed True ?members)" "rc_bundle_size r = int (length (packed True ?members))"
    by (simp_all add: r receipt_for_def Let_def)
  ultimately show ?thesis
    using receipt_order(2,3) [OF assms(2), of "\<lparr>fe_path = ''manifest.json'', fe_sha256 = [], fe_size = 0\<rparr>"] size rendered paths
    by (intro exI [of _ ?members] exI [of _ receipt_text]) simp
qed

lemma json_common_files:
  assumes "json_dumps (PDict common) = Inr t"
  shows "\<exists>t'. json_dumps (manifest_of hash common listing) = Inr t'"
    and "rc_common r = common \<Longrightarrow> \<exists>t'. json_dumps (receipt_dump r) = Inr t'"
proof -
  have entries: "emap json_dumps (map entry_dump es) = Inr (map (\<lambda>e. PDict [(''path'', PStr (fe_path e)), (''sha256'', PStr (fe_sha256 e)),
      (''sizeBytes'', PInt (fe_size e))]) es)" for es
    by (induction es) (auto simp: entry_dump_def less_char_def)
  have append: "emap f (xs @ ys) = ebind (emap f xs) (\<lambda>as. ebind (emap f ys) (\<lambda>bs. Inr (as @ bs)))" for f :: "string \<times> pyval \<Rightarrow> (string \<times> pyval) result" and xs ys
  proof (induction xs)
    case (Cons x xs)
    then show ?case by (cases "f x"; cases "emap f xs"; cases "emap f ys") auto
  qed (cases "emap f ys"; simp)
  from assms obtain kws where kws: "emap (\<lambda>(k, v). ebind (json_dumps v) (\<lambda>w. Inr (k, w))) common = Inr kws" by auto
  show "\<exists>t'. json_dumps (manifest_of hash common listing) = Inr t'"
    by (simp add: manifest_of_def append kws entries del: map_map)
  show "\<exists>t'. json_dumps (receipt_dump r) = Inr t'" if "rc_common r = common"
    by (simp add: receipt_dump_def that append kws entries)
qed

text \<open>
  When a bundle is made, exactly. Given a directory listing, values JSON can express, an output directory
  without that bundle, and archives within the size limit: \<open>make_bundle\<close> returns exactly if the runtime is
  Python 3.12 on Linux, there are 1 to 64 wheels, each a nonempty regular file of at most 100 MiB whose name
  has no backslash and at most 100 bytes, and the project's wheel is one of them.
\<close>

theorem bundle_made_iff:
  assumes "directory listing" and "json_dumps (PDict (common_fields src runtime tools package)) = Inr t"
    and "map_of out (bundle_name src) = None" and "\<And>ms. int (length (packed True ms)) \<le> max_bundle_bytes"
  shows "(\<exists>r out'. make_bundle hash layout packed src runtime tools package listing out = (Inr r, out')) \<longleftrightarrow>
    validate_runtime runtime = Inr () \<and> sound_wheelhouse package listing
    \<and> (\<forall>f \<in> set (wheel_files listing). utf8_length (wf_name f) \<le> 100)"
proof -
  let ?common = "common_fields src runtime tools package"
  from json_common_files(1) [OF assms(2), of hash listing]
  obtain manifest where manifest: "json_bytes layout (manifest_of hash ?common listing) = Inr manifest"
    by (auto simp: json_bytes_def)
  let ?r = "receipt_for hash packed ?common (bundle_name src) manifest listing"
  have "rc_common ?r = ?common" by (simp add: receipt_for_def Let_def)
  from json_common_files(2) [OF assms(2) this] obtain receipt_text where "json_bytes layout (receipt_dump ?r) = Inr receipt_text"
    by (auto simp: json_bytes_def)
  moreover have "rc_bundle_size ?r \<le> max_bundle_bytes" using assms(4) by (simp add: receipt_for_def Let_def)
  ultimately show ?thesis
    unfolding make_bundle_Inr [OF assms(1) refl] using manifest assms(3) by auto
qed

section \<open>The build\<close>

lemma run_build_command_Inr: "run_build_command w cmd s = (Inr u, s') \<longleftrightarrow> command_fails w cmd = None \<and> s' = s\<lparr>commands := commands s @ [cmd]\<rparr>"
  by (auto simp: run_build_command_def steps split: option.splits)

lemma run_build_commands_Inr: "run_build_commands w cmds s = (Inr u, s') \<longleftrightarrow>
    (\<forall>cmd \<in> set cmds. command_fails w cmd = None) \<and> s' = s\<lparr>commands := commands s @ cmds\<rparr>"
  by (induction cmds arbitrary: s) (auto simp: then_step_Inr run_build_command_Inr)

lemma on_part_Inr: "on_part g p m s = (Inr x, s') \<longleftrightarrow> (\<exists>t. m (g s) = (Inr x, t) \<and> s' = p t s)"
  by (auto simp: on_part_def split: prod.splits)

lemma on_part_Inl: "on_part g p m s = (Inl e, s') \<longleftrightarrow> (\<exists>t. m (g s) = (Inl e, t) \<and> s' = p t s)"
  by (auto simp: on_part_def split: prod.splits)

lemma read_source_Inr: "read_source path s = (Inr c, s') \<longleftrightarrow> holds_file (unpacked s) path c \<and> s' = s"
  by (auto simp: read_source_def holds_file_def split: option.splits node.splits)

lemma extract_source_root: "extract_source arch sha x = (Inr path, x') \<Longrightarrow> path = [root_name_of sha]"
  by (auto simp: extract_source_def Let_def then_step_Inr)

lemma tracked_project_Inr:
  assumes "tracked_project w repo src s = (Inr (source_root, version), s')"
  shows "command_fails w (archive_command repo (src_sha src)) = None \<and> commands s' = commands s @ [archive_command repo (src_sha src)]
    \<and> source_root = [root_name_of (src_sha src)] \<and> output_dir s' = output_dir s"
  using assms extract_source_root
  by (auto simp: tracked_project_def then_step_Inr run_build_command_Inr on_part_Inr read_source_Inr split: if_splits)

definition package_of :: "wheel_file \<Rightarrow> pyval \<Rightarrow> package_info" where
  "package_of wheel version = \<lparr>pkg_name = ''long-haul'', pkg_version = version, pkg_wheel_path = wheel_path wheel\<rparr>"

lemma build_Inr:
  assumes "build hash layout packed str_of w repo env s = (Inr r, s')"
  obtains src version wheel tools where "source_identity (git_head w) (git_status w) env = Inr src"
    and "built_wheel str_of w version = Inr wheel" and "equals_object pinned_tools tools"
    and "\<forall>cmd \<in> set (archive_command repo (src_sha src) # wheel_commands w [root_name_of (src_sha src)] @ verify_commands w (py_str str_of version)).
      command_fails w cmd = None"
    and "commands s' = commands s @ [archive_command repo (src_sha src)] @ wheel_commands w [root_name_of (src_sha src)]
      @ verify_commands w (py_str str_of version) @ [report_command w]"
    and "make_bundle hash layout packed src (runtime_fields w) tools (package_of wheel version) (wheelhouse w) (output_dir s) = (Inr r, output_dir s')"
proof -
  from assms obtain src source_root version s1 wheel tools where
    src: "source_identity (git_head w) (git_status w) env = Inr src"
    and project: "tracked_project w repo src s = (Inr (source_root, version), s1)"
    and run: "\<forall>cmd \<in> set (wheel_commands w source_root). command_fails w cmd = None"
      "\<forall>cmd \<in> set (verify_commands w (py_str str_of version)). command_fails w cmd = None"
    and wheel: "built_wheel str_of w version = Inr wheel" and tools: "equals_object pinned_tools tools"
    and bundle_of: "make_bundle hash layout packed src (runtime_fields w) tools (package_of wheel version) (wheelhouse w) (output_dir s1) = (Inr r, output_dir s')"
    and log: "commands s' = commands s1 @ wheel_commands w source_root @ verify_commands w (py_str str_of version) @ [report_command w]"
    unfolding build_def package_of_def
    by (auto simp: then_step_Inr run_build_commands_Inr on_part_Inr split: if_splits prod.splits)
  from tracked_project_Inr [OF project] have root: "source_root = [root_name_of (src_sha src)]"
    and first: "command_fails w (archive_command repo (src_sha src)) = None"
    and s1: "commands s1 = commands s @ [archive_command repo (src_sha src)]" "output_dir s1 = output_dir s" by auto
  show thesis
    by (rule that [OF src wheel tools]) (use run first log s1 bundle_of in \<open>auto simp: root\<close>)
qed

lemma source_identity_Inr:
  assumes "source_identity head status env = Inr src"
  shows "(\<exists>printed. head = Inr printed \<and> src_sha src = strip printed) \<and> is_sha (src_sha src)
    \<and> map_of env ''GITHUB_SHA'' = Some (src_sha src) \<and> map_of env ''GITHUB_REPOSITORY'' = Some repository
    \<and> map_of env ''GITHUB_EVENT_NAME'' = Some ''push'' \<and> map_of env ''GITHUB_REF'' = Some ''refs/heads/main''
    \<and> (\<exists>changes. status = Inr changes \<and> strip changes = [])
    \<and> (\<exists>run attempt. map_of env ''GITHUB_RUN_ID'' = Some run \<and> map_of env ''GITHUB_RUN_ATTEMPT'' = Some attempt
        \<and> int_of_match run = Inr (src_run_id src) \<and> int_of_match attempt = Inr (src_run_attempt src)
        \<and> 1 \<le> src_run_id src \<and> 1 \<le> src_run_attempt src
        \<and> src_artifact_name src = ''longhaul-offline-package-'' @ src_sha src @ ''-'' @ run @ ''-'' @ attempt)"
  using assms by (auto simp: source_identity_def Let_def all_digits_def split: if_split_asm option.split_asm)

text \<open>
  C13. Where a receipt comes from. When a build returns, \<open>git\<close> had printed the commit GitHub named as the
  checkout's head and no change against it, and the run was a push to main of the public repository with a
  positive run id and attempt, from which the artifact is named. Exactly these commands were run, in this order
  and without a failure: archiving that commit, a fresh environment with the pinned tools, the wheels built in
  it, an offline installation of exactly the project's version with its checks; the tools reported the pinned
  versions; and the receipt names this source, runtime and package and lists the one wheel the project's version
  matches.
\<close>

theorem build_provenance:
  assumes "build hash layout packed str_of w repo env s = (Inr r, s')" and "directory (wheelhouse w)"
  shows "\<exists>src version wheel tools head status run attempt.
    git_head w = Inr head \<and> src_sha src = strip head \<and> is_sha (src_sha src) \<and> git_status w = Inr status \<and> strip status = []
    \<and> map_of env ''GITHUB_SHA'' = Some (src_sha src) \<and> map_of env ''GITHUB_REPOSITORY'' = Some repository
    \<and> map_of env ''GITHUB_EVENT_NAME'' = Some ''push'' \<and> map_of env ''GITHUB_REF'' = Some ''refs/heads/main''
    \<and> map_of env ''GITHUB_RUN_ID'' = Some run \<and> int_of_match run = Inr (src_run_id src) \<and> 1 \<le> src_run_id src
    \<and> map_of env ''GITHUB_RUN_ATTEMPT'' = Some attempt \<and> int_of_match attempt = Inr (src_run_attempt src) \<and> 1 \<le> src_run_attempt src
    \<and> src_artifact_name src = ''longhaul-offline-package-'' @ src_sha src @ ''-'' @ run @ ''-'' @ attempt
    \<and> commands s' = commands s @ [archive_command repo (src_sha src)] @ wheel_commands w [root_name_of (src_sha src)]
        @ verify_commands w (py_str str_of version) @ [report_command w]
    \<and> (\<forall>cmd \<in> set (butlast (drop (length (commands s)) (commands s'))). command_fails w cmd = None)
    \<and> built_wheel str_of w version = Inr wheel \<and> equals_object pinned_tools tools
    \<and> rc_common r = common_fields src (runtime_fields w) tools (package_of wheel version)
    \<and> wheel_path wheel \<in> set (map fe_path (rc_files r))"
  using assms(1)
proof (rule build_Inr)
  fix src version wheel tools
  assume src: "source_identity (git_head w) (git_status w) env = Inr src"
    and wheel: "built_wheel str_of w version = Inr wheel" "equals_object pinned_tools tools"
    and fails: "\<forall>cmd \<in> set (archive_command repo (src_sha src) # wheel_commands w [root_name_of (src_sha src)]
      @ verify_commands w (py_str str_of version)). command_fails w cmd = None"
    and log: "commands s' = commands s @ [archive_command repo (src_sha src)] @ wheel_commands w [root_name_of (src_sha src)]
      @ verify_commands w (py_str str_of version) @ [report_command w]"
    and make: "make_bundle hash layout packed src (runtime_fields w) tools (package_of wheel version) (wheelhouse w) (output_dir s) = (Inr r, output_dir s')"
  have "\<forall>cmd \<in> set (butlast (drop (length (commands s)) (commands s'))). command_fails w cmd = None"
    using fails unfolding log by (simp add: butlast_append)
  moreover from make [unfolded make_bundle_Inr [OF assms(2) refl]]
  have "rc_common r = common_fields src (runtime_fields w) tools (package_of wheel version)"
    "wheel_path wheel \<in> set (map fe_path (rc_files r))"
    by (auto simp: receipt_for_def Let_def sound_wheelhouse_def package_of_def image_image)
  ultimately show ?thesis using source_identity_Inr [OF src] wheel log by blast
qed

lemma write_members_frame: "write_members packed b finished ms out = (r, out') \<Longrightarrow> k \<noteq> b \<Longrightarrow> map_of out' k = map_of out k"
proof (cases "\<forall>m \<in> set ms. ustar_name_fits (fst m)")
  case False
  from write_members_raises [OF this, of packed b finished out]
  show "write_members packed b finished ms out = (r, out') \<Longrightarrow> k \<noteq> b \<Longrightarrow> map_of out' k = map_of out k" by auto
qed (auto simp: write_members_fit)

lemma make_bundle_raises:
  assumes "make_bundle hash layout packed src runtime tools package listing out = (Inl e, out')" "k \<noteq> bundle_name src"
  shows "map_of out' k = map_of out k"
proof -
  have "map_of out1 k = map_of out k" if "write_bundle packed (bundle_name src) ms out = (r, out1)" for r out1 ms
    using that assms(2) by (auto simp: write_bundle_def steps split: if_splits dest: write_members_frame)
  then show ?thesis
    using assms unfolding make_bundle_def Let_def bundle_name_def [symmetric]
    by (auto simp: then_step_Inl put_file_def split: if_splits)
qed

lemma run_build_commands_frame: "run_build_commands w cmds s = (r, s') \<Longrightarrow> output_dir s' = output_dir s"
  by (induction cmds arbitrary: s) (auto simp: then_step_def run_build_command_def change_def yield_step_def split: sum.splits prod.splits)

lemma tracked_project_frame: "tracked_project w repo src s = (r, s') \<Longrightarrow> output_dir s' = output_dir s"
  by (auto simp: tracked_project_def run_build_command_def on_part_def read_source_def then_step_def change_def yield_step_def
    split: sum.splits prod.splits if_splits option.splits node.splits)

lemma failed_build_frame:
  assumes "build hash layout packed str_of w repo env s = (Inl e, s')"
  shows "map_of (output_dir s') ''package-receipt.json'' = map_of (output_dir s) ''package-receipt.json''
    \<and> (\<exists>bundle_file. \<forall>k. k \<noteq> bundle_file \<longrightarrow> map_of (output_dir s') k = map_of (output_dir s) k)"
proof -
  have "output_dir s' = output_dir s \<or> (\<exists>src tools package. make_bundle hash layout packed src (runtime_fields w) tools package
      (wheelhouse w) (output_dir s) = (Inl e, output_dir s'))"
    using assms unfolding build_def
    by (auto simp: then_step_Inl run_build_commands_Inr on_part_Inl split: if_splits prod.splits
      dest!: run_build_commands_frame tracked_project_frame)
  then have "\<exists>src. \<forall>k. k \<noteq> bundle_name src \<longrightarrow> map_of (output_dir s') k = map_of (output_dir s) k"
    using make_bundle_raises by metis
  then obtain src where frame: "\<forall>k. k \<noteq> bundle_name src \<longrightarrow> map_of (output_dir s') k = map_of (output_dir s) k" ..
  moreover have "''package-receipt.json'' \<noteq> bundle_name src" by (simp add: bundle_name_def)
  ultimately show ?thesis by blast
qed

text \<open>
  No receipt without a complete build. When a build raises, at any step, every file of the output directory
  other than the bundle it was writing is as before; in particular no receipt was written or replaced.
\<close>

theorem failed_build_leaves_no_receipt:
  assumes "build hash layout packed str_of w repo env s = (Inl e, s')"
  shows "map_of (output_dir s') ''package-receipt.json'' = map_of (output_dir s) ''package-receipt.json''
    \<and> (\<exists>bundle_file. \<forall>k. k \<noteq> bundle_file \<longrightarrow> map_of (output_dir s') k = map_of (output_dir s) k)"
  using assms by (rule failed_build_frame)

section \<open>Witnesses\<close>

definition sample_sha :: string where
  "sample_sha = replicate 40 (CHR ''a'')"

definition sample_archive :: archive where
  "sample_archive = ([\<lparr>it_name = root_name_of sample_sha, it_kind = Tar_Dir, it_size = 0, it_data = None\<rparr>,
     \<lparr>it_name = root_name_of sample_sha @ ''/pyproject.toml'', it_kind = Tar_File, it_size = 3, it_data = Some (''abc'', None)\<rparr>,
     \<lparr>it_name = root_name_of sample_sha @ ''/src/long_haul/__init__.py'', it_kind = Tar_File, it_size = 0, it_data = Some ([], None)\<rparr>], None)"

definition sample_wheel :: wheel_file where
  "sample_wheel = \<lparr>wf_name = ''long_haul-1.0-py3-none-any.whl'', wf_regular = True, wf_link = False, wf_bytes = ''wheel''\<rparr>"

definition sample_wheel_zip :: wheel_zip where
  "sample_wheel_zip = \<lparr>zip_valid = True, zip_members = [''long_haul/__init__.py'', ''long_haul-1.0.dist-info/METADATA''],
     zip_headers = (\<lambda>m. Some (\<lambda>h. if h = ''Name'' then Some ''Long_Haul'' else if h = ''Version'' then Some ''1.0'' else None))\<rparr>"

definition sample_runner :: runner where
  "sample_runner = \<lparr>git_head = Inr (sample_sha @ [CHR 0x0A]), git_status = Inr [], sys_version = (3, 12), sys_platform = ''linux'',
     sys_machine = ''x86_64'', python_version = ''3.12.4'', sys_executable = ''python'', temp_dir = ''/tmp/build'',
     tracked_source = sample_archive, command_fails = (\<lambda>cmd. None),
     parse_toml = (\<lambda>t. Inr (PDict [(''project'', PDict [(''name'', PStr ''long-haul''), (''version'', PStr ''1.0'')])])),
     wheelhouse = [sample_wheel], glob_matches = (\<lambda>pattern n. starts_with n (takeWhile (\<lambda>c. c \<noteq> CHR ''*'') pattern)),
     open_zip = (\<lambda>f. sample_wheel_zip), tool_report = Inr (PDict (rev pinned_tools))\<rparr>"

definition sample_build_env :: "(string \<times> string) list" where
  "sample_build_env = [(''GITHUB_SHA'', sample_sha), (''GITHUB_REPOSITORY'', repository), (''GITHUB_EVENT_NAME'', ''push''),
     (''GITHUB_REF'', ''refs/heads/main''), (''GITHUB_RUN_ID'', ''7''), (''GITHUB_RUN_ATTEMPT'', ''1'')]"

definition new_build :: build_state where
  "new_build = \<lparr>commands = [], unpacked = nothing_extracted, output_dir = []\<rparr>"

definition sample_layout :: "pyval \<Rightarrow> string" where "sample_layout v = ''{}''"

definition sample_packed :: "bool \<Rightarrow> tar_entry list \<Rightarrow> string" where "sample_packed whole ms = ''tar''"

lemma sample_extracts: "fst (extract_source sample_archive sample_sha nothing_extracted) = Inr [root_name_of sample_sha]"
  by code_simp

lemma sample_builds:
  "(case build id sample_layout sample_packed (\<lambda>v. []) sample_runner ''.'' sample_build_env new_build of (Inr r, s) \<Rightarrow> True | _ \<Rightarrow> False)"
  by code_simp

lemma sample_items: "item \<in> set (fst sample_archive) \<Longrightarrow> delivers_declared item"
  by (auto simp: sample_archive_def delivers_declared_def)

theorem extraction_confined_witness:
  "disk_bytes (snd (extract_source sample_archive sample_sha nothing_extracted)) \<le> max_source_bytes
    \<and> distinct (map fst (disk (snd (extract_source sample_archive sample_sha nothing_extracted))))"
proof -
  obtain r x where run: "extract_source sample_archive sample_sha nothing_extracted = (r, x)" by fastforce
  have "\<forall>item \<in> set (fst sample_archive). delivers_declared item" using sample_items by blast
  note result = extraction_confined [OF run this]
  have "\<forall>item \<in> set (fst sample_archive). 0 \<le> it_size item" by (simp add: sample_archive_def)
  with result show ?thesis unfolding run snd_conv by blast
qed

theorem extraction_exact_witness:
  "holds_file (snd (extract_source sample_archive sample_sha nothing_extracted)) [root_name_of sample_sha, ''pyproject.toml''] ''abc''"
proof -
  let ?x = "snd (extract_source sample_archive sample_sha nothing_extracted)"
  have "extract_source sample_archive sample_sha nothing_extracted = (Inr [root_name_of sample_sha], ?x)"
    using sample_extracts by (simp add: prod_eq_iff)
  from extraction_exact [OF this] have "holds_file ?x p c \<longleftrightarrow> (\<exists>item \<in> set (fst sample_archive). file_of item p c)" for p c by blast
  moreover have "file_of \<lparr>it_name = root_name_of sample_sha @ ''/pyproject.toml'', it_kind = Tar_File, it_size = 3, it_data = Some (''abc'', None)\<rparr>
      [root_name_of sample_sha, ''pyproject.toml''] ''abc''"
    by code_simp
  ultimately show ?thesis by (auto simp: sample_archive_def)
qed

definition sample_source :: source_id where
  "sample_source = \<lparr>src_sha = sample_sha, src_run_id = 7, src_run_attempt = 1, src_artifact_name = ''package''\<rparr>"

definition sample_package :: package_info where
  "sample_package = package_of sample_wheel (PStr ''1.0'')"

lemma sample_directory: "directory [sample_wheel]"
  by (simp add: directory_def sample_wheel_def)

lemma sample_bundle:
  "(case make_bundle id sample_layout sample_packed sample_source (runtime_fields sample_runner) (PDict pinned_tools) sample_package [sample_wheel] []
     of (Inr r, out) \<Rightarrow> True | _ \<Rightarrow> False)"
  by code_simp

lemma returned: "(case m of (Inr x, s) \<Rightarrow> True | _ \<Rightarrow> False) \<Longrightarrow> \<exists>x s. m = (Inr x, s)"
  by (cases m; cases "fst m") auto

theorem receipt_describes_bundle_witness:
  "\<exists>(r :: receipt) out'. make_bundle id sample_layout sample_packed sample_source (runtime_fields sample_runner) (PDict pinned_tools)
      sample_package [sample_wheel] [] = (Inr r, out') \<and> sorted (map fe_path (rc_files r))"
proof -
  from returned [OF sample_bundle] obtain r :: receipt and out' where run: "make_bundle id sample_layout sample_packed sample_source
    (runtime_fields sample_runner) (PDict pinned_tools) sample_package [sample_wheel] [] = (Inr r, out')" by (elim exE)
  from receipt_describes_bundle [OF run sample_directory] have "sorted (map fe_path (rc_files r))" by (elim exE conjE)
  with run show ?thesis by (intro exI conjI)
qed

theorem bundle_made_iff_witness:
  "sound_wheelhouse sample_package [sample_wheel]"
proof -
  let ?common = "common_fields sample_source (runtime_fields sample_runner) (PDict pinned_tools) sample_package"
  have "(case json_dumps (PDict ?common) of Inr t \<Rightarrow> True | Inl e \<Rightarrow> False)" by code_simp
  then obtain t where json: "json_dumps (PDict ?common) = Inr t" by (auto split: sum.splits)
  have small: "int (length (sample_packed True ms)) \<le> max_bundle_bytes" for ms
    by (simp add: max_bundle_bytes_def sample_packed_def)
  from returned [OF sample_bundle] have "\<exists>(r :: receipt) out'. make_bundle id sample_layout sample_packed sample_source
    (runtime_fields sample_runner) (PDict pinned_tools) sample_package [sample_wheel] [] = (Inr r, out')" .
  then show ?thesis
    using bundle_made_iff [where out = "[]" and hash = id and layout = sample_layout and packed = sample_packed, OF sample_directory json _ small] by simp
qed

theorem build_provenance_witness:
  "\<exists>(r :: receipt) s'. build id sample_layout sample_packed (\<lambda>v. []) sample_runner ''.'' sample_build_env new_build = (Inr r, s')
    \<and> map_of sample_build_env ''GITHUB_REPOSITORY'' = Some repository"
proof -
  from returned [OF sample_builds] obtain r :: receipt and s' where
    run: "build id sample_layout sample_packed (\<lambda>v. []) sample_runner ''.'' sample_build_env new_build = (Inr r, s')" by (elim exE)
  have "directory (wheelhouse sample_runner)" using sample_directory by (simp add: sample_runner_def)
  from build_provenance [OF run this] have "map_of sample_build_env ''GITHUB_REPOSITORY'' = Some repository" by (elim exE conjE)
  with run show ?thesis by (intro exI conjI)
qed

theorem failed_build_leaves_no_receipt_witness:
  "map_of (output_dir (snd (build id sample_layout sample_packed (\<lambda>v. []) sample_runner ''.'' [] new_build))) ''package-receipt.json'' = None"
proof -
  have "(case build id sample_layout sample_packed (\<lambda>v. []) sample_runner ''.'' [] new_build of (Inl e, s) \<Rightarrow> True | _ \<Rightarrow> False)" by code_simp
  then obtain e s' where run: "build id sample_layout sample_packed (\<lambda>v. []) sample_runner ''.'' [] new_build = (Inl e, s')"
    by (auto split: prod.splits sum.splits)
  from failed_build_leaves_no_receipt [OF run] show ?thesis unfolding run by (simp add: new_build_def)
qed

end
