(* ===== verification/Discovery.thy ===== *)
theory Discovery
  imports Domain_Models Python_Text
begin

text \<open>
  Discovery of a vessel's resources (\<open>discovery/parsers.py\<close>, \<open>discovery/linux.py\<close>, \<open>discovery/windows.py\<close>).

  The machine is the parameter \<open>shell\<close>: the outcome of each command. \<open>loads\<close> is \<open>json.loads\<close>, \<open>str_of\<close> is
  \<open>str\<close> on objects other than strings, integers and booleans, \<open>upper\<close> is \<open>str.upper\<close>, which leaves Latin-1.
\<close>

text \<open>A command prints text, fails (any exception the probes catch), or prints bytes that are not text.\<close>

datatype ran = Prints string | Command_Fails | Undecodable

datatype json_read = Parsed pyval | Not_Json | Json_Raises exn

definition run_probe :: "(string list \<Rightarrow> ran) \<Rightarrow> string list \<Rightarrow> string option result" where
  "run_probe shell cmd = (case shell cmd of
       Prints s \<Rightarrow> Inr (Some s)
     | Command_Fails \<Rightarrow> Inr None
     | Undecodable \<Rightarrow> Inl (ValueError ''UnicodeDecodeError''))"

section \<open>Numbers in text\<close>

text \<open>
  \<open>float(text)\<close>: white space around, a sign, an infinity or NaN by name, or a decimal numeral with digits
  grouped by single underscores, correctly rounded.
\<close>

definition digits_or_none :: "string \<Rightarrow> bool" where
  "digits_or_none s \<longleftrightarrow> s = [] \<or> digit_groups s"

definition scaled :: "int \<Rightarrow> int \<Rightarrow> rat" where
  "scaled n e = (if 0 \<le> e then of_int n * 10 ^ nat e else of_int n / 10 ^ nat (- e))"

definition decimal_value :: "string \<Rightarrow> rat option" where
  "decimal_value b = (let m = takeWhile (\<lambda>c. c \<noteq> CHR ''e'') b; x = drop (length m) b;
       whole = takeWhile (\<lambda>c. c \<noteq> CHR ''.'') m; fraction = tl (drop (length whole) m);
       negative = starts_with (tl x) ''-''; power = (if negative \<or> starts_with (tl x) ''+'' then tl (tl x) else tl x);
       e = (if x = [] then 0 else (if negative then -1 else 1) * decimal (filter is_digit power)) in
     if digits_or_none whole \<and> digits_or_none fraction \<and> \<not> (whole = [] \<and> fraction = []) \<and> (x = [] \<or> digit_groups power)
     then Some (scaled (decimal (filter is_digit (whole @ fraction))) (e - int (length (filter is_digit fraction))))
     else None)"

definition float_of_text :: "string \<Rightarrow> pyfloat option" where
  "float_of_text t = (let s = number_body t; negative = starts_with s ''-'';
       b = lower (if negative \<or> starts_with s ''+'' then tl s else s) in
     if b = ''inf'' \<or> b = ''infinity'' then Some (if negative then NInf else PInf)
     else if b = ''nan'' then Some NaN
     else case decimal_value b of None \<Rightarrow> None | Some q \<Rightarrow> Some (fl (if negative then - q else q)))"

text \<open>\<open>int(value)\<close>.\<close>

definition py_int :: "pyval \<Rightarrow> int result" where
  "py_int v = (case v of
       PInt n \<Rightarrow> Inr n
     | PBool b \<Rightarrow> Inr (if b then 1 else 0)
     | PFloat (Fin q) \<Rightarrow> Inr (if q < 0 then - \<lfloor>- q\<rfloor> else \<lfloor>q\<rfloor>)
     | PFloat NaN \<Rightarrow> Inl (ValueError ''cannot convert float NaN to integer'')
     | PFloat _ \<Rightarrow> Inl (OverflowError ''cannot convert float infinity to integer'')
     | PStr s \<Rightarrow> (case int_of_text s of None \<Rightarrow> Inl (ValueError ''invalid literal for int()'') | Some n \<Rightarrow> Inr n)
     | _ \<Rightarrow> Inl (TypeError ''int() argument''))"

text \<open>\<open>n / d\<close> on integers, correctly rounded.\<close>

definition int_quotient :: "int \<Rightarrow> int \<Rightarrow> pyfloat result" where
  "int_quotient n d = (let x = fl (of_int n / of_int d) in
     if isfinite x then Inr x else Inl (OverflowError ''integer division result too large for a float''))"

section \<open>Parsers\<close>

definition memory_capacity :: "pyfloat \<Rightarrow> capacity_unit \<Rightarrow> capacity result" where
  "memory_capacity amount unit = validate_capacity \<lparr>cap_kind = KMemory, cap_amount = amount, cap_unit = unit\<rparr>"

definition found_resource :: "string \<Rightarrow> resource_kind \<Rightarrow> string option \<Rightarrow> capacity list \<Rightarrow> (string \<times> pyval) list \<Rightarrow> resource" where
  "found_resource rid kind model caps meta = \<lparr>res_id = rid, res_kind = kind, res_model = model, res_architecture = None,
     res_capacities = caps, res_memory_mb = None, res_notes = None, res_metadata = meta\<rparr>"

text \<open>\<open>str.isdigit\<close> on Latin-1 also holds of the superscripts 1, 2 and 3.\<close>

definition is_digit_char :: "char \<Rightarrow> bool" where
  "is_digit_char c \<longleftrightarrow> is_digit c \<or> of_char c \<in> {178, 179, 185 :: nat}"

definition first_word :: "string \<Rightarrow> string result" where
  "first_word s = (let w = takeWhile (\<lambda>c. \<not> is_space c) (dropWhile is_space s) in
     if w = [] then Inl (OtherError ''IndexError'') else Inr w)"

definition fields_of :: "string \<Rightarrow> string list" where
  "fields_of line = map strip (split_on (CHR '','') line)"

definition smi_line :: "string \<Rightarrow> nat \<Rightarrow> string \<Rightarrow> resource list result" where
  "smi_line label index line = (let bits = fields_of line in
     if length bits < 2 then Inr []
     else ebind (first_word (bits ! 1)) (\<lambda>w.
       if \<not> (\<forall>c \<in> set w. is_digit_char c) then Inr []
       else case float_of_text w of
           None \<Rightarrow> Inl (ValueError ''could not convert string to float'')
         | Some x \<Rightarrow> ebind (memory_capacity x MiB) (\<lambda>cap.
             ebind (validate_resource (found_resource (label @ ''-'' @ nat_str index) GPU (Some (bits ! 0)) [cap]
               [(''discovery'', PStr ''probe'')])) (\<lambda>r. Inr [r]))))"

definition parse_nvidia_smi_csv :: "string \<Rightarrow> string \<Rightarrow> resource list result" where
  "parse_nvidia_smi_csv csv label =
     ebind (emap (\<lambda>(i, line). smi_line label i line) (enumerate 0 (split_lines csv))) (\<lambda>rs. Inr (concat rs))"

text \<open>\<open>MemTotal:\s+(\d+) kB\<close> at a position.\<close>

definition mem_total_at :: "string \<Rightarrow> string option" where
  "mem_total_at s = (if \<not> starts_with s ''MemTotal:'' then None
     else let t = drop 9 s; u = dropWhile is_space t; n = takeWhile is_digit u in
       if u \<noteq> t \<and> n \<noteq> [] \<and> starts_with (dropWhile is_digit u) '' kB'' then Some n else None)"

definition parse_meminfo :: "string \<Rightarrow> string \<Rightarrow> resource result" where
  "parse_meminfo meminfo rid = (case first_match mem_total_at meminfo of
       None \<Rightarrow> Inl (ValueError ''MemTotal not found'')
     | Some digits \<Rightarrow> ebind (int_of_match digits) (\<lambda>n.
         ebind (int_quotient n 1024) (\<lambda>x.
         ebind (memory_capacity x MiB) (\<lambda>cap.
         validate_resource (found_resource rid MEMORY (Some ''system RAM'') [cap] [])))))"

section \<open>Linux\<close>

definition nonempty_text :: "string option \<Rightarrow> string option" where
  "nonempty_text s = (case s of None \<Rightarrow> None | Some t \<Rightarrow> if t = [] then None else Some t)"

definition found_vessel :: "string \<Rightarrow> string \<Rightarrow> vessel_class \<Rightarrow> resource list \<Rightarrow> link list \<Rightarrow> vessel" where
  "found_vessel vid name cls rs ls = \<lparr>vessel_id = vid, vessel_name = name, class_name = cls, tailscale_name = None,
     vessel_resources = rs, vessel_links = ls, lifecycle = PERSISTENT, vessel_lease = None\<rparr>"

record capability_probe =
  probe_name :: string
  probe_supported :: bool
  probe_detail :: "string option"

definition linux_capabilities :: "(string list \<Rightarrow> ran) \<Rightarrow> capability_probe list result" where
  "linux_capabilities shell =
     ebind (run_probe shell [''nvidia-smi'', ''--help'']) (\<lambda>smi.
     ebind (run_probe shell [''tailscale'', ''version'']) (\<lambda>tailscale.
     Inr [\<lparr>probe_name = ''proc_meminfo'', probe_supported = True, probe_detail = None\<rparr>,
       \<lparr>probe_name = ''nvidia_smi'', probe_supported = (smi \<noteq> None), probe_detail = None\<rparr>,
       \<lparr>probe_name = ''tailscale'', probe_supported = (tailscale \<noteq> None), probe_detail = None\<rparr>]))"

definition linux_memory :: "(string list \<Rightarrow> ran) \<Rightarrow> string \<Rightarrow> resource list result" where
  "linux_memory shell vid = ebind (run_probe shell [''cat'', ''/proc/meminfo'']) (\<lambda>meminfo.
     case nonempty_text meminfo of None \<Rightarrow> Inr [] | Some t \<Rightarrow> ebind (parse_meminfo t (vid @ ''-MEM'')) (\<lambda>r. Inr [r]))"

definition linux_gpus :: "(string list \<Rightarrow> ran) \<Rightarrow> string \<Rightarrow> resource list result" where
  "linux_gpus shell vid =
     ebind (run_probe shell [''nvidia-smi'', ''--query-gpu=name,memory.total'', ''--format=csv,noheader,nounits'']) (\<lambda>smi.
     case nonempty_text smi of None \<Rightarrow> Inr [] | Some t \<Rightarrow> parse_nvidia_smi_csv t (vid @ ''-GPU''))"

text \<open>\<open>processor\<close> and \<open>machine\<close> are what the module \<open>platform\<close> reports.\<close>

definition linux_discover :: "(string list \<Rightarrow> ran) \<Rightarrow> string \<Rightarrow> string \<Rightarrow> string \<Rightarrow> string \<Rightarrow> vessel_class \<Rightarrow> vessel result" where
  "linux_discover shell processor machine vid name cls =
     ebind (validate_resource (found_resource (vid @ ''-CPU'') CPU (Some (if processor \<noteq> [] then processor else machine)) [] [])) (\<lambda>cpu.
     ebind (linux_memory shell vid) (\<lambda>memory.
     ebind (linux_gpus shell vid) (\<lambda>gpus.
     validate_vessel (found_vessel vid name cls (cpu # memory @ gpus) []))))"

section \<open>Windows\<close>

definition records_of :: "pyval \<Rightarrow> (string \<times> pyval) list list" where
  "records_of v = (case v of
       PDict kvs \<Rightarrow> [kvs]
     | PList items \<Rightarrow> List.map_filter (\<lambda>item. case item of PDict kvs \<Rightarrow> Some kvs | _ \<Rightarrow> None) items
     | _ \<Rightarrow> [])"

definition get_field :: "(string \<times> pyval) list \<Rightarrow> string \<Rightarrow> pyval" where
  "get_field kvs k = (case map_of kvs k of None \<Rightarrow> PNone | Some v \<Rightarrow> v)"

definition default_prefix :: "(string \<Rightarrow> string) \<Rightarrow> string option \<Rightarrow> string \<Rightarrow> string" where
  "default_prefix upper resource_prefix vid = (case nonempty_text resource_prefix of Some p \<Rightarrow> p | None \<Rightarrow> upper (take 3 vid))"

definition powershell_json :: "(string \<Rightarrow> json_read) \<Rightarrow> (string list \<Rightarrow> ran) \<Rightarrow> string \<Rightarrow> pyval result" where
  "powershell_json loads shell expression =
     ebind (run_probe shell [''powershell.exe'', ''-NoLogo'', ''-NoProfile'', ''-NonInteractive'', ''-Command'',
       expression @ '' | ConvertTo-Json -Compress -Depth 6'']) (\<lambda>printed.
     case nonempty_text printed of
       None \<Rightarrow> Inr PNone
     | Some t \<Rightarrow> (case loads t of Parsed v \<Rightarrow> Inr v | Not_Json \<Rightarrow> Inr PNone | Json_Raises e \<Rightarrow> Inl e))"

text \<open>\<open>str(value or "").strip() or None\<close>, and \<open>int(value or 0)\<close>.\<close>

definition text_field :: "(pyval \<Rightarrow> string) \<Rightarrow> (string \<times> pyval) list \<Rightarrow> string \<Rightarrow> string option" where
  "text_field str_of kvs k = (let v = get_field kvs k; t = strip (if truthy v then py_str str_of v else []) in
     if t = [] then None else Some t)"

definition size_field :: "(string \<times> pyval) list \<Rightarrow> string \<Rightarrow> int result" where
  "size_field kvs k = (let v = get_field kvs k in if truthy v then py_int v else Inr 0)"

definition windows_cpu :: "(pyval \<Rightarrow> string) \<Rightarrow> (string \<Rightarrow> json_read) \<Rightarrow> (string list \<Rightarrow> ran) \<Rightarrow> string \<Rightarrow> resource result" where
  "windows_cpu str_of loads shell label =
     ebind (powershell_json loads shell ''Get-CimInstance Win32_Processor | Select-Object Name,NumberOfCores,NumberOfLogicalProcessors'') (\<lambda>v.
     let observed = (case records_of v of [] \<Rightarrow> [] | kvs # rest \<Rightarrow> kvs);
         meta = (''provenance'', PStr ''observed'') # (if observed = [] then []
           else [(''cores'', get_field observed ''NumberOfCores''), (''logical_processors'', get_field observed ''NumberOfLogicalProcessors'')]) in
     validate_resource ((found_resource (label @ ''-C0'') CPU (text_field str_of observed ''Name'') [] meta)\<lparr>res_architecture := Some ''x86_64''\<rparr>))"

definition memory_module :: "(string \<times> pyval) list \<Rightarrow> pyval result" where
  "memory_module kvs = ebind (size_field kvs ''Capacity'') (\<lambda>n. Inr (PDict
     [(''device_locator'', get_field kvs ''DeviceLocator''), (''bank_label'', get_field kvs ''BankLabel''),
      (''capacity_bytes'', PInt n), (''configured_clock_mhz'', get_field kvs ''ConfiguredClockSpeed'')]))"

definition windows_memory :: "(string \<Rightarrow> json_read) \<Rightarrow> (string list \<Rightarrow> ran) \<Rightarrow> string \<Rightarrow> resource option result" where
  "windows_memory loads shell label =
     ebind (powershell_json loads shell
       ''Get-CimInstance Win32_PhysicalMemory | Select-Object DeviceLocator,BankLabel,Capacity,ConfiguredClockSpeed'') (\<lambda>v.
     let dimms = records_of v in
     if dimms = [] then Inr None
     else ebind (emap (\<lambda>kvs. size_field kvs ''Capacity'') dimms) (\<lambda>sizes.
       ebind (emap memory_module dimms) (\<lambda>modules.
       ebind (float_of_int (sum_list sizes)) (\<lambda>total_bytes.
       ebind (memory_capacity total_bytes Bytes) (\<lambda>cap.
       ebind (validate_resource (found_resource (label @ ''-M0'') MEMORY (Some ''system RAM'') [cap]
         [(''provenance'', PStr ''observed''), (''modules'', PList modules)])) (\<lambda>r. Inr (Some r)))))))"

definition storage_link :: "string \<Rightarrow> string \<Rightarrow> link" where
  "storage_link storage_id memory_id = \<lparr>link_source = storage_id, link_target = memory_id, link_kind_of = StorageBus,
     link_direct = None, latency_ms = None, read_gbps = None, write_gbps = None, throughput_mbps = None, link_path = None,
     link_measured = False, link_notes = Some ''Observed local storage; practical throughput remains unmeasured.''\<rparr>"

definition storage_id :: "string \<Rightarrow> nat \<Rightarrow> string" where
  "storage_id label index = label @ ''-S'' @ nat_str index"

definition storage_disk :: "(pyval \<Rightarrow> string) \<Rightarrow> string \<Rightarrow> nat \<Rightarrow> (string \<times> pyval) list \<Rightarrow> resource result" where
  "storage_disk str_of label index disk =
     ebind (size_field disk ''Size'') (\<lambda>size.
     ebind (if size = 0 then Inr [] else ebind (float_of_int size) (\<lambda>x.
         ebind (validate_capacity \<lparr>cap_kind = KStorage, cap_amount = x, cap_unit = Bytes\<rparr>) (\<lambda>cap. Inr [cap]))) (\<lambda>caps.
     validate_resource (found_resource (storage_id label index) STORAGE (text_field str_of disk ''Model'') caps
       [(''provenance'', PStr ''observed''), (''firmware_revision'', get_field disk ''FirmwareRevision''),
        (''interface_type'', get_field disk ''InterfaceType'')])))"

definition storage_entry :: "(pyval \<Rightarrow> string) \<Rightarrow> string \<Rightarrow> string option \<Rightarrow> nat \<times> (string \<times> pyval) list
    \<Rightarrow> (resource \<times> link list) result" where
  "storage_entry str_of label memory_id entry = (case entry of (index, disk) \<Rightarrow>
     ebind (storage_disk str_of label index disk) (\<lambda>r.
     case nonempty_text memory_id of
       None \<Rightarrow> Inr (r, [])
     | Some m \<Rightarrow> ebind (validate_link (storage_link (storage_id label index) m)) (\<lambda>l. Inr (r, [l]))))"

definition windows_storage :: "(pyval \<Rightarrow> string) \<Rightarrow> (string \<Rightarrow> json_read) \<Rightarrow> (string list \<Rightarrow> ran) \<Rightarrow> string \<Rightarrow> string option
    \<Rightarrow> (resource list \<times> link list) result" where
  "windows_storage str_of loads shell label memory_id =
     ebind (powershell_json loads shell ''Get-CimInstance Win32_DiskDrive | Select-Object Model,FirmwareRevision,Size,InterfaceType'') (\<lambda>v.
     ebind (emap (storage_entry str_of label memory_id) (enumerate 0 (records_of v))) (\<lambda>found.
     Inr (map fst found, concat (map snd found))))"

definition gpu_link :: "string \<Rightarrow> string \<Rightarrow> string \<Rightarrow> link" where
  "gpu_link cpu_id gpu_id bus = \<lparr>link_source = cpu_id, link_target = gpu_id, link_kind_of = Pcie,
     link_direct = None, latency_ms = None, read_gbps = None, write_gbps = None, throughput_mbps = None, link_path = Some bus,
     link_measured = True,
     link_notes = Some ''PCI bus identity observed from nvidia-smi; link width and throughput remain unmeasured.''\<rparr>"

text \<open>A line of nvidia-smi that the probe uses: its index and memory are numbers.\<close>

definition gpu_fields :: "string \<Rightarrow> (int \<times> pyfloat \<times> string list) option" where
  "gpu_fields line = (let fs = fields_of line in
     if length fs < 5 then None
     else case (int_of_text (fs ! 0), float_of_text (fs ! 2)) of
         (Some i, Some m) \<Rightarrow> Some (i, m, fs)
       | _ \<Rightarrow> None)"

definition gpu_id :: "string \<Rightarrow> int \<Rightarrow> string" where
  "gpu_id label i = label @ ''-G'' @ int_str i"

definition gpu_resource :: "string \<Rightarrow> string \<Rightarrow> int \<times> pyfloat \<times> string list \<Rightarrow> (resource \<times> link) result" where
  "gpu_resource label cpu_id gpu = (case gpu of (i, m, fs) \<Rightarrow>
     ebind (memory_capacity m MiB) (\<lambda>cap.
     ebind (validate_resource (found_resource (gpu_id label i) GPU (Some (fs ! 1)) [cap]
       [(''provenance'', PStr ''observed''), (''nvidia_index'', PInt i), (''pci_bus_id'', PStr (fs ! 3)),
        (''driver_version'', PStr (fs ! 4))])) (\<lambda>r.
     ebind (validate_link (gpu_link cpu_id (gpu_id label i) (fs ! 3))) (\<lambda>l. Inr (r, l)))))"

definition windows_gpus :: "(string list \<Rightarrow> ran) \<Rightarrow> string \<Rightarrow> string \<Rightarrow> (resource list \<times> link list) result" where
  "windows_gpus shell label cpu_id =
     ebind (run_probe shell [''nvidia-smi'', ''--query-gpu=index,name,memory.total,pci.bus_id,driver_version'',
       ''--format=csv,noheader,nounits'']) (\<lambda>smi.
     case nonempty_text smi of
       None \<Rightarrow> Inr ([], [])
     | Some t \<Rightarrow> ebind (emap (gpu_resource label cpu_id) (List.map_filter gpu_fields (split_lines t))) (\<lambda>found.
         Inr (map fst found, map snd found)))"

definition windows_discover :: "(pyval \<Rightarrow> string) \<Rightarrow> (string \<Rightarrow> json_read) \<Rightarrow> (string list \<Rightarrow> ran) \<Rightarrow> string
    \<Rightarrow> string \<Rightarrow> string \<Rightarrow> vessel_class \<Rightarrow> vessel result" where
  "windows_discover str_of loads shell label vid name cls =
     ebind (windows_cpu str_of loads shell label) (\<lambda>cpu.
     ebind (windows_memory loads shell label) (\<lambda>memory.
     ebind (windows_storage str_of loads shell label (map_option res_id memory)) (\<lambda>(storage, storage_links).
     ebind (windows_gpus shell label (res_id cpu)) (\<lambda>(gpus, gpu_links).
     validate_vessel (found_vessel vid name cls
       (cpu # (case memory of None \<Rightarrow> [] | Some m \<Rightarrow> [m]) @ storage @ gpus) (storage_links @ gpu_links))))))"

end
