(* ===== verification/Discovery_Properties.thy ===== *)
theory Discovery_Properties
  imports Discovery
begin

text \<open>
  What discovery reports: a valid vessel whose links join resources it found, refused only when the GPU probe
  repeats an index; nothing where no probe works; the memory the kernel printed, to the bit.
\<close>

section \<open>Numerals\<close>

lemma decimal_snoc: "decimal (s @ [c]) = 10 * decimal s + (of_char c - 48)"
  by (simp add: decimal_def)

lemma of_char_digit_aux: "(of_char (char_of (n :: nat)) :: int) = int (n mod 256)"
proof -
  have "(of_char (char_of n) :: int) = of_nat (of_char (char_of n))" by (rule of_nat_of_char [symmetric])
  also have "\<dots> = int (n mod 256)" by (simp only: of_char_of)
  finally show ?thesis .
qed

lemma of_char_digit: "k < 10 \<Longrightarrow> (of_char (char_of (48 + k :: nat)) :: int) = 48 + int k"
  by (simp add: of_char_digit_aux)

lemma nat_str_digits: "c \<in> set (nat_str n) \<Longrightarrow> is_digit c"
proof (induction n rule: nat_str.induct)
  case (1 n)
  show ?case
  proof (cases "n < 10")
    case True
    with 1(2) show ?thesis by (simp add: nat_str.simps [of n] is_digit_def)
  next
    case False
    have "is_digit (char_of (48 + n mod 10))" by (simp add: is_digit_def)
    with False 1 show ?thesis by (auto simp: nat_str.simps [of n])
  qed
qed

lemma decimal_nat_str: "decimal (nat_str n) = int n"
proof (induction n rule: nat_str.induct)
  case (1 n)
  show ?case
  proof (cases "n < 10")
    case True
    then have "nat_str n = [] @ [char_of (48 + n)]" by (simp add: nat_str.simps [of n])
    then show ?thesis using of_char_digit [OF True] decimal_snoc [of "[]"] by (simp add: decimal_def)
  next
    case False
    then have "nat_str n = nat_str (n div 10) @ [char_of (48 + n mod 10)]" by (simp add: nat_str.simps [of n])
    then have "decimal (nat_str n) = 10 * int (n div 10) + int (n mod 10)"
      using 1 False of_char_digit [of "n mod 10"] by (simp add: decimal_snoc)
    then show ?thesis by presburger
  qed
qed

lemma nat_str_eq: "nat_str m = nat_str n \<longleftrightarrow> m = n"
  by (metis decimal_nat_str of_nat_eq_iff)

lemma nat_str_nonempty: "nat_str n \<noteq> []"
  by (subst nat_str.simps) simp

lemma int_str_eq: "int_str m = int_str n \<longleftrightarrow> m = n"
proof -
  have "nat_str a \<noteq> CHR ''-'' # s" for a s using nat_str_digits [of "CHR ''-''" a] by (auto simp: is_digit_def)
  then show ?thesis by (auto simp: nat_str_eq split: if_splits) (metis)+
qed

section \<open>Resources found\<close>

lemma validate_resource_keeps:
  assumes "validate_resource r = Inr r'"
  shows "resource_ok r'" "res_id r' = res_id r" "res_kind r' = res_kind r"
  using assms validate_resource_ok(1) [OF assms] by (auto simp: validate_resource_def)

lemma validate_link_found [simp]: "validate_link (storage_link a b) = Inr (storage_link a b)" "validate_link (gpu_link a b c) = Inr (gpu_link a b c)"
  by (simp_all add: validate_link_def nonneg_field_def storage_link_def gpu_link_def)

lemma nonempty_text_label [simp]: "nonempty_text (Some (label @ c # s)) = Some (label @ c # s)"
  by (simp add: nonempty_text_def)

lemma found_id [simp]: "res_id (found_resource rid kind model caps meta) = rid" "res_kind (found_resource rid kind model caps meta) = kind"
  by (simp_all add: found_resource_def)

lemma windows_cpu_found: "windows_cpu str_of loads shell label = Inr r \<Longrightarrow> resource_ok r \<and> res_id r = label @ ''-C0'' \<and> res_kind r = CPU"
  by (auto simp: windows_cpu_def Let_def dest: validate_resource_keeps)

lemma windows_memory_found:
  "windows_memory loads shell label = Inr (Some r) \<Longrightarrow> resource_ok r \<and> res_id r = label @ ''-M0'' \<and> res_kind r = MEMORY"
  by (auto simp: windows_memory_def Let_def dest: validate_resource_keeps split: if_splits)

lemma storage_disk_found:
  "storage_disk str_of label i disk = Inr r \<Longrightarrow> resource_ok r \<and> res_id r = storage_id label i \<and> res_kind r = STORAGE"
  by (auto simp: storage_disk_def dest: validate_resource_keeps)

lemma storage_entry_found:
  assumes "storage_entry str_of label memory_id (i, disk) = Inr (r, ls)"
  shows "resource_ok r" "res_id r = storage_id label i" "res_kind r = STORAGE"
    "\<forall>l \<in> set ls. \<exists>m. nonempty_text memory_id = Some m \<and> l = storage_link (res_id r) m"
proof -
  from assms have r: "storage_disk str_of label i disk = Inr r"
    and ls: "ls = (case nonempty_text memory_id of None \<Rightarrow> [] | Some m \<Rightarrow> [storage_link (storage_id label i) m])"
    by (auto simp: storage_entry_def split: option.splits)
  from storage_disk_found [OF r] show "resource_ok r" "res_id r = storage_id label i" "res_kind r = STORAGE" by simp_all
  with ls show "\<forall>l \<in> set ls. \<exists>m. nonempty_text memory_id = Some m \<and> l = storage_link (res_id r) m"
    by (auto split: option.splits)
qed

definition storage_entry_ok :: "string option \<Rightarrow> resource \<times> link list \<Rightarrow> bool" where
  "storage_entry_ok memory_id e \<longleftrightarrow> resource_ok (fst e) \<and> res_kind (fst e) = STORAGE
     \<and> (\<forall>l \<in> set (snd e). \<exists>m. nonempty_text memory_id = Some m \<and> l = storage_link (res_id (fst e)) m)"

lemma storage_found:
  "emap (storage_entry str_of label memory_id) (enumerate n disks) = Inr found \<Longrightarrow>
    map (\<lambda>e. res_id (fst e)) found = map (storage_id label) [n..<n + length disks] \<and> (\<forall>e \<in> set found. storage_entry_ok memory_id e)"
proof (induction disks arbitrary: n found)
  case (Cons disk disks)
  from Cons.prems obtain r ls others where found: "found = (r, ls) # others"
    and first: "storage_entry str_of label memory_id (n, disk) = Inr (r, ls)"
    and rest: "emap (storage_entry str_of label memory_id) (enumerate (Suc n) disks) = Inr others"
    by auto
  have "[n..<n + length (disk # disks)] = n # [Suc n..<Suc n + length disks]" by (simp add: upt_rec)
  with storage_entry_found [OF first] Cons.IH [OF rest] show ?case by (simp add: found storage_entry_ok_def)
qed simp

definition gpu_entry_ok :: "string \<Rightarrow> resource \<times> link \<Rightarrow> bool" where
  "gpu_entry_ok cpu_id e \<longleftrightarrow> resource_ok (fst e) \<and> res_kind (fst e) = GPU \<and> (\<exists>bus. snd e = gpu_link cpu_id (res_id (fst e)) bus)"

lemma gpu_resource_found:
  "gpu_resource label cpu_id (i, m, fs) = Inr e \<Longrightarrow> res_id (fst e) = gpu_id label i \<and> gpu_entry_ok cpu_id e"
proof -
  assume "gpu_resource label cpu_id (i, m, fs) = Inr e"
  then obtain cap r where r: "validate_resource (found_resource (gpu_id label i) GPU (Some (fs ! 1)) [cap]
      [(''provenance'', PStr ''observed''), (''nvidia_index'', PInt i), (''pci_bus_id'', PStr (fs ! 3)),
       (''driver_version'', PStr (fs ! 4))]) = Inr r" and e: "e = (r, gpu_link cpu_id (gpu_id label i) (fs ! 3))"
    by (auto simp: gpu_resource_def)
  from validate_resource_keeps [OF r] show ?thesis by (auto simp: e gpu_entry_ok_def)
qed

lemma gpus_found:
  "emap (gpu_resource label cpu_id) gpus = Inr found \<Longrightarrow>
    map (\<lambda>e. res_id (fst e)) found = map (gpu_id label) (map fst gpus) \<and> (\<forall>e \<in> set found. gpu_entry_ok cpu_id e)"
proof (induction gpus arbitrary: found)
  case (Cons gpu gpus)
  obtain i m fs where gpu: "gpu = (i, m, fs)" by (cases gpu)
  from Cons.prems obtain e others where "found = e # others" "gpu_resource label cpu_id (i, m, fs) = Inr e"
    "emap (gpu_resource label cpu_id) gpus = Inr others" by (auto simp: gpu)
  with Cons.IH gpu_resource_found show ?case by (simp add: gpu)
qed simp

text \<open>The GPU lines the probe uses.\<close>

definition gpu_indices :: "(string list \<Rightarrow> ran) \<Rightarrow> int list" where
  "gpu_indices shell = (case shell [''nvidia-smi'', ''--query-gpu=index,name,memory.total,pci.bus_id,driver_version'',
       ''--format=csv,noheader,nounits''] of
     Prints s \<Rightarrow> map fst (List.map_filter gpu_fields (split_lines s)) | _ \<Rightarrow> [])"

lemma windows_storage_found:
  assumes "windows_storage str_of loads shell label memory_id = Inr (ss, sl)"
  shows "\<exists>n. map res_id ss = map (storage_id label) [0..<n]" "\<forall>r \<in> set ss. resource_ok r \<and> res_kind r = STORAGE"
    "\<forall>l \<in> set sl. \<exists>r \<in> set ss. \<exists>m. nonempty_text memory_id = Some m \<and> l = storage_link (res_id r) m"
proof -
  from assms obtain disks found where found: "emap (storage_entry str_of label memory_id) (enumerate 0 disks) = Inr found"
    and ss: "ss = map fst found" "sl = concat (map snd found)" by (auto simp: windows_storage_def)
  note facts = storage_found [OF found]
  show "\<exists>n. map res_id ss = map (storage_id label) [0..<n]"
    using facts by (intro exI [of _ "length disks"]) (simp add: ss comp_def)
  show "\<forall>r \<in> set ss. resource_ok r \<and> res_kind r = STORAGE" using facts by (auto simp: ss storage_entry_ok_def)
  show "\<forall>l \<in> set sl. \<exists>r \<in> set ss. \<exists>m. nonempty_text memory_id = Some m \<and> l = storage_link (res_id r) m"
  proof
    fix l assume "l \<in> set sl"
    then obtain e where "e \<in> set found" "l \<in> set (snd e)" by (auto simp: ss)
    with facts show "\<exists>r \<in> set ss. \<exists>m. nonempty_text memory_id = Some m \<and> l = storage_link (res_id r) m"
      unfolding ss storage_entry_ok_def by (intro bexI [of _ "fst e"]) auto
  qed
qed

lemma windows_gpus_found:
  assumes "windows_gpus shell label cpu_id = Inr (gs, gl)"
  obtains found where "gs = map fst found" "gl = map snd found" "map res_id gs = map (gpu_id label) (gpu_indices shell)"
    "\<forall>e \<in> set found. gpu_entry_ok cpu_id e"
proof (cases "run_probe shell [''nvidia-smi'', ''--query-gpu=index,name,memory.total,pci.bus_id,driver_version'', ''--format=csv,noheader,nounits'']")
  case (Inr smi)
  show thesis
  proof (cases "nonempty_text smi")
    case None
    with Inr have "gpu_indices shell = []"
      by (auto simp: run_probe_def gpu_indices_def nonempty_text_def List.map_filter_def split: ran.splits option.splits if_splits)
    with Inr None assms that [of "[]"] show thesis by (simp add: windows_gpus_def)
  next
    case (Some s)
    with Inr have indices: "gpu_indices shell = map fst (List.map_filter gpu_fields (split_lines s))"
      by (auto simp: run_probe_def gpu_indices_def nonempty_text_def split: ran.splits option.splits if_splits)
    from Inr Some assms obtain found where found: "emap (gpu_resource label cpu_id) (List.map_filter gpu_fields (split_lines s)) = Inr found"
      and gs: "gs = map fst found" "gl = map snd found"
      by (auto simp: windows_gpus_def)
    from gpus_found [OF found] show thesis by (intro that [of found]) (simp_all add: gs indices comp_def)
  qed
qed (use assms in \<open>simp add: windows_gpus_def\<close>)

section \<open>The vessel\<close>

lemma ids_distinct:
  assumes "ms \<in> {[], [label @ ''-M0'']}"
  shows "distinct ((label @ ''-C0'') # ms @ map (storage_id label) [0..<n] @ map (gpu_id label) is) \<longleftrightarrow> distinct is"
proof -
  have "distinct (map (storage_id label) [0..<n])" by (simp add: distinct_map inj_on_def storage_id_def nat_str_eq)
  moreover have "distinct (map (gpu_id label) is) \<longleftrightarrow> distinct is"
    by (simp add: distinct_map inj_on_def gpu_id_def int_str_eq del: int_str.simps)
  ultimately show ?thesis using assms by (auto simp: storage_id_def gpu_id_def simp del: int_str.simps)
qed

definition memory_list :: "resource option \<Rightarrow> resource list" where
  "memory_list m = (case m of None \<Rightarrow> [] | Some r \<Rightarrow> [r])"

lemma emap_keeps: "(\<And>x. x \<in> set xs \<Longrightarrow> f x = Inr x) \<Longrightarrow> emap f xs = Inr xs"
  by (induction xs) auto

lemma validate_found_vessel:
  assumes "\<forall>r \<in> set rs. resource_ok r" and "\<forall>l \<in> set ls. validate_link l = Inr l"
    and "\<forall>l \<in> set ls. link_source l \<in> res_id ` set rs \<and> link_target l \<in> res_id ` set rs"
  shows "validate_vessel (found_vessel vid name cls rs ls) = (if distinct (map res_id rs) then Inr (found_vessel vid name cls rs ls)
    else Inl (ValueError ''resource ids must be unique within a vessel''))"
proof -
  have "emap validate_resource rs = Inr rs" "emap validate_link ls = Inr ls"
    by (rule emap_keeps; use assms in \<open>simp add: resource_ok_def\<close>)+
  then show ?thesis
    using assms(3) by (auto simp: validate_vessel_def found_vessel_def validate_lease_option_def resource_references_exist_def Let_def guard_def)
qed

text \<open>Every link joins what was found: a disk to the memory, the CPU to a GPU.\<close>

definition observed_link :: "resource list \<Rightarrow> link \<Rightarrow> bool" where
  "observed_link rs l \<longleftrightarrow> (\<exists>a \<in> set rs. \<exists>b \<in> set rs.
     l = storage_link (res_id a) (res_id b) \<and> res_kind a = STORAGE \<and> res_kind b = MEMORY
     \<or> (\<exists>bus. l = gpu_link (res_id a) (res_id b) bus \<and> res_kind a = CPU \<and> res_kind b = GPU))"

lemma observed_link_ok: "observed_link rs l \<Longrightarrow> validate_link l = Inr l \<and> link_source l \<in> res_id ` set rs \<and> link_target l \<in> res_id ` set rs"
  by (auto simp: observed_link_def) (auto simp: storage_link_def gpu_link_def)

lemma windows_parts:
  assumes "windows_cpu str_of loads shell label = Inr c" and "windows_memory loads shell label = Inr m"
    and "windows_storage str_of loads shell label (map_option res_id m) = Inr (ss, sl)"
    and "windows_gpus shell label (res_id c) = Inr (gs, gl)"
  defines "rs \<equiv> c # memory_list m @ ss @ gs"
  shows "\<forall>r \<in> set rs. resource_ok r" and "\<forall>l \<in> set (sl @ gl). observed_link rs l"
    and "distinct (map res_id rs) \<longleftrightarrow> distinct (gpu_indices shell)"
    and "filter (\<lambda>r. res_kind r = CPU) rs = [c]" "filter (\<lambda>r. res_kind r = MEMORY) rs = memory_list m"
proof -
  note cpu = windows_cpu_found [OF assms(1)]
  have memory: "resource_ok r \<and> res_id r = label @ ''-M0'' \<and> res_kind r = MEMORY" if "m = Some r" for r
    using windows_memory_found assms(2) that by blast
  note disks = windows_storage_found [OF assms(3)]
  from assms(4) obtain found where gs: "gs = map fst found" "gl = map snd found"
    and ids: "map res_id gs = map (gpu_id label) (gpu_indices shell)" and gpus: "\<forall>e \<in> set found. gpu_entry_ok (res_id c) e"
    by (rule windows_gpus_found)
  have gpu_kinds: "\<forall>r \<in> set gs. resource_ok r \<and> res_kind r = GPU" using gpus by (auto simp: gs gpu_entry_ok_def)
  show "\<forall>r \<in> set rs. resource_ok r"
    using cpu memory disks(2) gpu_kinds by (auto simp: rs_def memory_list_def split: option.splits)
  show "filter (\<lambda>r. res_kind r = CPU) rs = [c]" "filter (\<lambda>r. res_kind r = MEMORY) rs = memory_list m"
    using cpu memory disks(2) gpu_kinds by (auto simp: rs_def memory_list_def filter_empty_conv split: option.splits)
  show "\<forall>l \<in> set (sl @ gl). observed_link rs l"
  proof
    fix l assume "l \<in> set (sl @ gl)"
    then consider (disk) "l \<in> set sl" | (gpu) e where "e \<in> set found" "l = snd e" by (auto simp: gs)
    then show "observed_link rs l"
    proof cases
      case disk
      with disks(3) obtain r i where r: "r \<in> set ss" "nonempty_text (map_option res_id m) = Some i" "l = storage_link (res_id r) i" by blast
      then obtain d where "m = Some d" "i = res_id d" by (cases m) (auto simp: nonempty_text_def split: if_splits)
      with r disks(2) memory show ?thesis
        unfolding observed_link_def rs_def by (intro bexI [of _ r] bexI [of _ d]) (auto simp: memory_list_def)
    next
      case gpu
      with gpus obtain bus where "l = gpu_link (res_id c) (res_id (fst e)) bus" "res_kind (fst e) = GPU"
        by (auto simp: gpu_entry_ok_def)
      with gpu cpu show ?thesis
        unfolding observed_link_def rs_def gs
        by (intro bexI [of _ c] bexI [of _ "fst e"] disjI2 exI [of _ bus]) auto
    qed
  qed
  obtain n where "map res_id ss = map (storage_id label) [0..<n]" using disks(1) by blast
  then have "map res_id rs = (label @ ''-C0'') # map res_id (memory_list m) @ map (storage_id label) [0..<n] @ map (gpu_id label) (gpu_indices shell)"
    using cpu ids by (simp add: rs_def)
  moreover have "map res_id (memory_list m) \<in> {[], [label @ ''-M0'']}" using memory by (auto simp: memory_list_def split: option.splits)
  ultimately show "distinct (map res_id rs) \<longleftrightarrow> distinct (gpu_indices shell)" by (simp only: ids_distinct)
qed

text \<open>
  Discovery on Windows, decided. When the four probes return, discovery returns the vessel with exactly
  the resources and links they found, CPU, memory, disks, GPUs in this order, unless nvidia-smi lists a GPU
  index twice; then, and only then, it raises.
\<close>

theorem windows_discovery_decided:
  assumes "windows_cpu str_of loads shell label = Inr c" and "windows_memory loads shell label = Inr m"
    and "windows_storage str_of loads shell label (map_option res_id m) = Inr (ss, sl)"
    and "windows_gpus shell label (res_id c) = Inr (gs, gl)"
  shows "windows_discover str_of loads shell label vid name cls =
    (if distinct (gpu_indices shell) then Inr (found_vessel vid name cls (c # memory_list m @ ss @ gs) (sl @ gl))
     else Inl (ValueError ''resource ids must be unique within a vessel''))"
proof -
  note parts = windows_parts [OF assms]
  have "windows_discover str_of loads shell label vid name cls = validate_vessel (found_vessel vid name cls (c # memory_list m @ ss @ gs) (sl @ gl))"
    by (simp add: windows_discover_def assms memory_list_def)
  also have "\<dots> = (if distinct (gpu_indices shell) then Inr (found_vessel vid name cls (c # memory_list m @ ss @ gs) (sl @ gl))
     else Inl (ValueError ''resource ids must be unique within a vessel''))"
    unfolding parts(3) [symmetric] by (rule validate_found_vessel) (use parts(1,2) observed_link_ok in blast)+
  finally show ?thesis .
qed

text \<open>
  C34. What discovery on Windows returns is a valid vessel. It is persistent and without a lease, has exactly one
  CPU and at most one memory resource, and every link goes from a disk to the memory or from the CPU to a GPU
  it lists, without any latency or throughput, which nothing measured.
\<close>

theorem discovered_vessel_valid:
  assumes "windows_discover str_of loads shell label vid name cls = Inr v"
  shows "vessel_ok v \<and> lifecycle v = PERSISTENT \<and> vessel_lease v = None \<and> vessel_id v = vid
    \<and> length (filter (\<lambda>r. res_kind r = CPU) (vessel_resources v)) = 1
    \<and> length (filter (\<lambda>r. res_kind r = MEMORY) (vessel_resources v)) \<le> 1
    \<and> (\<forall>l \<in> set (vessel_links v). observed_link (vessel_resources v) l
        \<and> latency_ms l = None \<and> read_gbps l = None \<and> write_gbps l = None \<and> throughput_mbps l = None)"
proof -
  from assms obtain c m ss sl gs gl where probes: "windows_cpu str_of loads shell label = Inr c" "windows_memory loads shell label = Inr m"
    "windows_storage str_of loads shell label (map_option res_id m) = Inr (ss, sl)" "windows_gpus shell label (res_id c) = Inr (gs, gl)"
    and valid: "validate_vessel (found_vessel vid name cls (c # memory_list m @ ss @ gs) (sl @ gl)) = Inr v"
    by (auto simp: windows_discover_def memory_list_def)
  note parts = windows_parts [OF probes]
  have same: "validate_vessel (found_vessel vid name cls (c # memory_list m @ ss @ gs) (sl @ gl)) =
      (if distinct (map res_id (c # memory_list m @ ss @ gs)) then Inr (found_vessel vid name cls (c # memory_list m @ ss @ gs) (sl @ gl))
       else Inl (ValueError ''resource ids must be unique within a vessel''))"
    by (rule validate_found_vessel) (use parts(1,2) observed_link_ok in blast)+
  then have v: "v = found_vessel vid name cls (c # memory_list m @ ss @ gs) (sl @ gl)" using valid by (simp split: if_splits)
  have quiet: "latency_ms l = None \<and> read_gbps l = None \<and> write_gbps l = None \<and> throughput_mbps l = None"
    if "observed_link rs l" for rs l
    using that by (auto simp: observed_link_def) (auto simp: storage_link_def gpu_link_def)
  have "vessel_resources v = c # memory_list m @ ss @ gs" "vessel_links v = sl @ gl" "lifecycle v = PERSISTENT" "vessel_lease v = None"
    "vessel_id v = vid" by (simp_all add: v found_vessel_def)
  moreover have "length (memory_list m) \<le> 1" by (simp add: memory_list_def split: option.splits)
  moreover have "vessel_ok v" using valid by (simp add: vessel_ok_def v)
  ultimately show ?thesis using parts(2,4,5) quiet by auto
qed

text \<open>
  Nothing is inferred. On a machine where no probe command works, both discoveries succeed and report the
  CPU alone: no memory, no disk, no GPU, no link; on Windows without any model or count of cores.
\<close>

theorem failed_probes_claim_nothing:
  assumes "\<And>cmd. shell cmd = Command_Fails"
  shows "windows_discover str_of loads shell label vid name cls = Inr (found_vessel vid name cls
      [(found_resource (label @ ''-C0'') CPU None [] [(''provenance'', PStr ''observed'')])\<lparr>res_architecture := Some ''x86_64''\<rparr>] [])
    \<and> linux_discover shell processor machine vid name cls = Inr (found_vessel vid name cls
      [found_resource (vid @ ''-CPU'') CPU (Some (if processor \<noteq> [] then processor else machine)) [] []] [])"
proof -
  have probe: "run_probe shell cmd = Inr None" for cmd by (simp add: run_probe_def assms)
  have windows: "powershell_json loads shell e = Inr PNone" for e by (simp add: powershell_json_def probe nonempty_text_def)
  have strip: "strip [] = []" by (simp add: strip_def)
  have resources: "validate_resource (found_resource rid kind model [] meta) = Inr (found_resource rid kind model [] meta)"
    "validate_resource ((found_resource rid kind model [] meta)\<lparr>res_architecture := a\<rparr>) = Inr ((found_resource rid kind model [] meta)\<lparr>res_architecture := a\<rparr>)"
    for rid kind model meta a
    by (simp_all add: validate_resource_def found_resource_def migrate_memory_mb_def)
  have one: "validate_vessel (found_vessel vid name cls [r] []) = Inr (found_vessel vid name cls [r] [])" if "validate_resource r = Inr r" for r
    using validate_found_vessel [of "[r]" "[]"] that by (simp add: resource_ok_def)
  show ?thesis
    by (simp add: windows_discover_def windows_cpu_def windows_memory_def windows_storage_def windows_gpus_def windows records_of_def
      text_field_def get_field_def strip probe nonempty_text_def linux_discover_def linux_memory_def linux_gpus_def resources one Let_def)
qed

section \<open>The kernel's memory size\<close>

lemma length_nat_str: "n < 10 ^ k \<Longrightarrow> 0 < k \<Longrightarrow> length (nat_str n) \<le> k"
proof (induction k arbitrary: n)
  case (Suc k)
  show ?case
  proof (cases "n < 10")
    case True
    then show ?thesis by (simp add: nat_str.simps [of n])
  next
    case False
    then have "0 < k" using Suc.prems(1) by (cases k) auto
    have "n div 10 < 10 ^ k" using Suc.prems(1) by (simp add: less_mult_imp_div_less)
    from Suc.IH [OF this \<open>0 < k\<close>] False show ?thesis by (simp add: nat_str.simps [of n])
  qed
qed simp

lemma fl_kib:
  assumes "n < 2 ^ 53"
  shows "fl (of_nat n / 1024) = Fin (of_nat n / 1024)"
proof -
  have scaled: "(of_nat n / 1024) * unit_scale = of_int (int n) * 2 ^ 1064"
  proof -
    have "unit_scale = 1024 * 2 ^ 1064" unfolding unit_scale_def by (simp flip: power_add [of 2 10, simplified])
    then show ?thesis by simp
  qed
  have round: "round_scaled (of_int (int n) * 2 ^ 1064) = of_int (int n) * 2 ^ 1064"
  proof (rule round_scaled_exact)
    have "int n < int (2 ^ 53)" using assms by (simp only: of_nat_less_iff)
    then show "int n \<le> 2 ^ 53" by (simp only: of_nat_power of_nat_numeral less_imp_le)
  qed (rule of_nat_0_le_iff)
  have "of_nat n < (2 :: rat) ^ 53" using assms by (metis of_nat_less_iff of_nat_numeral of_nat_power)
  then have "of_int (int n) * 2 ^ 1064 < (2 :: rat) ^ 53 * 2 ^ 1064" by (intro mult_strict_right_mono) simp_all
  also have "\<dots> = 2 ^ 1117" by (simp flip: power_add)
  also have "\<dots> < overflow_bound" unfolding overflow_bound_def by (rule power_strict_increasing) auto
  finally have small: "\<not> overflow_bound \<le> of_int (int n) * 2 ^ 1064" by simp
  have "\<bar>of_nat n / 1024\<bar> * unit_scale = (of_int (int n) * 2 ^ 1064 :: rat)" using scaled by simp
  then have "fl (of_nat n / 1024) = Fin (sgn (of_nat n / 1024) * (of_int (int n) * 2 ^ 1064) / unit_scale)"
    unfolding fl_def Let_def by (simp only: round small if_False)
  also have "\<dots> = Fin (of_nat n / 1024)" unfolding scaled [symmetric] by (simp add: sgn_if)
  finally show ?thesis .
qed

lemma mem_total_later:
  "CHR ''M'' \<notin> set before \<Longrightarrow> first_match mem_total_at (before @ s) = first_match mem_total_at s"
proof (induction before)
  case (Cons c before)
  then have "mem_total_at (c # before @ s) = None" by (auto simp: mem_total_at_def)
  with Cons show ?case by simp
qed simp

lemma mem_total_here:
  assumes "spaces \<noteq> []" "\<forall>c \<in> set spaces. is_space c"
  shows "mem_total_at (''MemTotal:'' @ spaces @ nat_str n @ '' kB'' @ rest) = Some (nat_str n)"
proof -
  have digits: "\<forall>c \<in> set (nat_str n). is_digit c" using nat_str_digits by blast
  have hd: "nat_str n \<noteq> [] \<and> \<not> is_space (hd (nat_str n))"
    using digits nat_str_nonempty [of n] by (cases "nat_str n") (auto simp: is_digit_def is_space_def)
  define tail where "tail = nat_str n @ '' kB'' @ rest"
  have tail: "tail \<noteq> []" "\<not> is_space (hd tail)" using hd by (simp_all add: tail_def)
  have skip: "dropWhile is_space (spaces @ tail) = tail"
    using assms(2) tail by (cases tail) (simp_all add: dropWhile_append2)
  have differ: "tail \<noteq> spaces @ tail" using assms(1) by simp
  have number: "takeWhile is_digit tail = nat_str n" "dropWhile is_digit tail = '' kB'' @ rest"
    unfolding tail_def using digits by (simp_all add: takeWhile_append2 dropWhile_append2 is_digit_def)
  have start: "starts_with (''MemTotal:'' @ spaces @ tail) ''MemTotal:''" "drop 9 (''MemTotal:'' @ spaces @ tail) = spaces @ tail"
    by simp_all
  have "starts_with ('' kB'' @ rest) '' kB''" by simp
  then show ?thesis
    unfolding tail_def [symmetric] mem_total_at_def Let_def start skip number using start(1) differ hd by simp
qed

text \<open>
  The kernel's memory size is read exactly. For a line \<open>MemTotal:\<close>, white space, a count of KiB below
  \<open>2^53\<close> and \<open>kB\<close>, after any text without a capital M and before any text, the memory resource has
  exactly that count divided by 1024 in MiB, without any rounding.
\<close>

theorem meminfo_roundtrip:
  assumes "n < 2 ^ 53" and "spaces \<noteq> []" "\<forall>c \<in> set spaces. is_space c" and "CHR ''M'' \<notin> set before"
  shows "parse_meminfo (before @ ''MemTotal:'' @ spaces @ nat_str n @ '' kB'' @ rest) rid = Inr (found_resource rid MEMORY (Some ''system RAM'')
    [\<lparr>cap_kind = KMemory, cap_amount = Fin (of_nat n / 1024), cap_unit = MiB\<rparr>] [])"
proof -
  have "length (nat_str n) \<le> 16"
    by (rule length_nat_str) (use assms(1) in \<open>simp_all add: order_less_trans [of n "2 ^ 53"]\<close>)
  then have int: "int_of_match (nat_str n) = Inr (int n)" by (simp add: int_of_match_def decimal_nat_str)
  have quotient: "int_quotient (int n) 1024 = Inr (Fin (of_nat n / 1024))"
    using fl_kib [OF assms(1)] by (simp add: int_quotient_def)
  have cap: "validate_capacity \<lparr>cap_kind = KMemory, cap_amount = Fin (of_nat n / 1024), cap_unit = MiB\<rparr>
      = Inr \<lparr>cap_kind = KMemory, cap_amount = Fin (of_nat n / 1024), cap_unit = MiB\<rparr>"
    using fl_kib [OF assms(1)] by (simp add: validate_capacity_def as_mib_def)
  then have "validate_resource (found_resource rid MEMORY (Some ''system RAM'') [\<lparr>cap_kind = KMemory, cap_amount = Fin (of_nat n / 1024), cap_unit = MiB\<rparr>] [])
      = Inr (found_resource rid MEMORY (Some ''system RAM'') [\<lparr>cap_kind = KMemory, cap_amount = Fin (of_nat n / 1024), cap_unit = MiB\<rparr>] [])"
    by (simp add: validate_resource_def found_resource_def migrate_memory_mb_def)
  moreover have "first_match mem_total_at (before @ ''MemTotal:'' @ spaces @ nat_str n @ '' kB'' @ rest) = Some (nat_str n)"
    using mem_total_here [OF assms(2,3), of n rest] mem_total_later [OF assms(4)] by simp
  ultimately show ?thesis by (simp add: parse_meminfo_def int quotient memory_capacity_def cap)
qed

text \<open>A GPU line whose memory field is empty makes the Linux parser raise \<open>IndexError\<close>.\<close>

lemma empty_memory_field_raises: "parse_nvidia_smi_csv ''Card,'' label = Inl (OtherError ''IndexError'')"
  by (simp add: parse_nvidia_smi_csv_def smi_line_def fields_of_def first_word_def strip_def is_line_break_def is_space_def)

section \<open>Witnesses\<close>

text \<open>A machine on which only nvidia-smi works, and lists one GPU with no memory.\<close>

definition gpu_only :: "string list \<Rightarrow> ran" where
  "gpu_only cmd = (if hd cmd = ''nvidia-smi'' then Prints ''0,A,0,b,c'' else Command_Fails)"

abbreviation no_json :: "string \<Rightarrow> json_read" where
  "no_json \<equiv> \<lambda>t. Not_Json"

lemma gpu_only_line: "gpu_fields ''0,A,0,b,c'' = Some (0, Fin 0, [''0'', ''A'', ''0'', ''b'', ''c''])"
  by (simp add: gpu_fields_def fields_of_def strip_def is_space_def int_of_text_def float_of_text_def number_body_def number_space_def
    lower_def lower_char_def decimal_value_def digits_or_none_def is_digit_def decimal_def scaled_def Let_def)

lemma gpu_only_indices: "gpu_indices gpu_only = [0]"
  using gpu_only_line by (simp add: gpu_indices_def gpu_only_def is_line_break_def List.map_filter_def)

lemma gpu_only_probe: "\<exists>gs gl. windows_gpus gpu_only label cpu_id = Inr (gs, gl)"
  using gpu_only_line
  by (simp add: windows_gpus_def gpu_only_def run_probe_def nonempty_text_def is_line_break_def List.map_filter_def gpu_resource_def
    memory_capacity_def validate_capacity_def as_mib_def validate_resource_def found_resource_def migrate_memory_mb_def)

lemma gpu_only_rest:
  "windows_cpu str_of no_json gpu_only label = Inr ((found_resource (label @ ''-C0'') CPU None [] [(''provenance'', PStr ''observed'')])
    \<lparr>res_architecture := Some ''x86_64''\<rparr>)"
  "windows_memory no_json gpu_only label = Inr None" "windows_storage str_of no_json gpu_only label m = Inr ([], [])"
  by (simp_all add: windows_cpu_def windows_memory_def windows_storage_def powershell_json_def gpu_only_def run_probe_def nonempty_text_def
    records_of_def text_field_def get_field_def strip_def validate_resource_def found_resource_def migrate_memory_mb_def Let_def)

theorem windows_discovery_decided_witness:
  "\<exists>v :: vessel. windows_discover (\<lambda>v. []) no_json gpu_only ''L'' ''v'' ''n'' Station = Inr v"
proof -
  obtain gs gl where gpus: "windows_gpus gpu_only ''L'' (''L'' @ ''-C0'') = Inr (gs, gl)" using gpu_only_probe by blast
  have "windows_storage (\<lambda>v. []) no_json gpu_only ''L'' (map_option res_id None) = Inr ([], [])" by (simp add: gpu_only_rest)
  from windows_discovery_decided [OF gpu_only_rest(1,2) this, of gs gl "''v''" "''n''" Station] show ?thesis
    using gpus by (simp add: gpu_only_indices found_resource_def)
qed

lemma gpu_only_discovers: "\<exists>v :: vessel. windows_discover (\<lambda>v. []) no_json gpu_only ''L'' ''v'' ''n'' Station = Inr v"
proof -
  let ?c = "(found_resource (''L'' @ ''-C0'') CPU None [] [(''provenance'', PStr ''observed'')])\<lparr>res_architecture := Some ''x86_64''\<rparr>"
  obtain gs gl where "windows_gpus gpu_only ''L'' (''L'' @ ''-C0'') = Inr (gs, gl)" using gpu_only_probe by blast
  then have gpu: "windows_gpus gpu_only ''L'' (res_id ?c) = Inr (gs, gl)" by (simp add: found_resource_def)
  have storage: "windows_storage (\<lambda>v. []) no_json gpu_only ''L'' (map_option res_id None) = Inr ([], [])" by (simp add: gpu_only_rest)
  note parts = windows_parts [OF gpu_only_rest(1,2) storage gpu]
  have "windows_discover (\<lambda>v. []) no_json gpu_only ''L'' ''v'' ''n'' Station
    = validate_vessel (found_vessel ''v'' ''n'' Station (?c # memory_list None @ [] @ gs) ([] @ gl))"
    using gpu gpu_only_rest(1) [of "\<lambda>v. []" "''L''"] gpu_only_rest(2) [of "''L''"] storage
    by (simp add: windows_discover_def memory_list_def)
  also have "\<dots> = (if distinct (map res_id (?c # memory_list None @ [] @ gs)) then Inr (found_vessel ''v'' ''n'' Station (?c # memory_list None @ [] @ gs) ([] @ gl))
       else Inl (ValueError ''resource ids must be unique within a vessel''))"
    by (rule validate_found_vessel) (use parts(1,2) observed_link_ok in blast)+
  finally show ?thesis unfolding parts(3) gpu_only_indices by simp
qed

theorem discovered_vessel_valid_witness:
  "\<exists>v :: vessel. windows_discover (\<lambda>v. []) no_json gpu_only ''L'' ''v'' ''n'' Station = Inr v \<and> vessel_ok v"
proof -
  obtain v :: vessel where run: "windows_discover (\<lambda>v. []) no_json gpu_only ''L'' ''v'' ''n'' Station = Inr v" using gpu_only_discovers by blast
  from discovered_vessel_valid [OF run] run show ?thesis by blast
qed

theorem failed_probes_claim_nothing_witness:
  "linux_discover (\<lambda>cmd. Command_Fails) [] ''x86_64'' ''v'' ''n'' Station = Inr (found_vessel ''v'' ''n'' Station
      [found_resource (''v'' @ ''-CPU'') CPU (Some ''x86_64'') [] []] [])"
  using failed_probes_claim_nothing [of "\<lambda>cmd. Command_Fails" "\<lambda>v. []" no_json "''L''" "''v''" "''n''" Station "[]" "''x86_64''"] by simp

theorem meminfo_roundtrip_witness:
  "parse_meminfo ([] @ ''MemTotal:'' @ '' '' @ nat_str 2048 @ '' kB'' @ []) ''m'' = Inr (found_resource ''m'' MEMORY (Some ''system RAM'')
    [\<lparr>cap_kind = KMemory, cap_amount = Fin 2, cap_unit = MiB\<rparr>] [])"
  using meminfo_roundtrip [of 2048 "'' ''" "[]" "[]" "''m''"] by (simp add: is_space_def)

end
