(* ===== verification/Requirements_Check.thy ===== *)
theory Requirements_Check
  imports Posix_Paths
begin

text \<open>
  The check of declared prerequisites (\<open>tools/requirements.py\<close>): paths that stay inside the source tree,
  bounded reads, the record of each native manifest, profiles that refer to declared manifests, and the
  inventory.

  The source tree is the parameter \<open>tree\<close>: how paths resolve, which are files, and their bytes. Parsers,
  decoding, SHA-256 and CUE are libraries and programs, and parameters in \<open>toolbox\<close>; \<open>json_pairs\<close> yields the
  parsed value with the pairs of every object in order, duplicates included, before the hook sees them.
\<close>

record tree =
  resolve_path :: "string list \<Rightarrow> string list result"
  file_at :: "string list \<Rightarrow> bool"
  bytes_at :: "string list \<Rightarrow> string result"

record toolbox =
  sha256 :: "string \<Rightarrow> string"
  decode_utf8 :: "string \<Rightarrow> string result"
  read_toml :: "string \<Rightarrow> (string \<times> pyval) list result"
  json_pairs :: "string \<Rightarrow> pyval result"
  cue_program :: "string option"
  cue_vet :: "string list \<Rightarrow> int result"

definition max_declaration :: nat where "max_declaration = 256 * 1024"

definition max_manifest :: nat where "max_manifest = 16 * 1024 * 1024"

definition max_manifests :: nat where "max_manifests = 128"

definition max_total_bytes :: nat where "max_total_bytes = 64 * 1024 * 1024"

section \<open>Paths and reads\<close>

definition safe_path :: "tree \<Rightarrow> string list \<Rightarrow> pyval \<Rightarrow> string list result" where
  "safe_path tr source_dir name = (case name of
       PStr s \<Rightarrow>
         if s = [] \<or> CHR 0x5C \<in> set s then Inl (ValueError ''manifest path must be a nonempty POSIX relative path'')
         else let rel = pure_path s in
           if is_absolute rel \<or> (\<exists>part \<in> set (parts rel). part \<in> {''..'', ''.git''})
           then Inl (ValueError ''manifest path is outside the allowed source tree'')
           else ebind (resolve_path tr source_dir) (\<lambda>base.
             ebind (resolve_path tr (base @ path_names rel)) (\<lambda>target.
             if \<not> prefix base target \<or> \<not> file_at tr target
             then Inl (ValueError ''manifest must be a regular file inside the source tree'')
             else if ''.git'' \<in> set (drop (length base) target)
             then Inl (ValueError ''manifest must not resolve into Git metadata'')
             else Inr target))
     | _ \<Rightarrow> Inl (ValueError ''manifest path must be a nonempty POSIX relative path''))"

definition read_bounded :: "tree \<Rightarrow> string list \<Rightarrow> nat \<Rightarrow> string result" where
  "read_bounded tr path limit = ebind (bytes_at tr path) (\<lambda>stored. let content = take (limit + 1) stored in
     if length content > limit then Inl (ValueError ''source input exceeds size limit'') else Inr content)"

section \<open>JSON objects\<close>

text \<open>The hook keeps the first occurrence of every key, in order, and refuses a second one.\<close>

fun unique_from :: "(string \<times> pyval) list \<Rightarrow> (string \<times> pyval) list \<Rightarrow> (string \<times> pyval) list result" where
  "unique_from result [] = Inr result"
| "unique_from result ((k, v) # pairs) =
     (if k \<in> fst ` set result then Inl (ValueError ''duplicate JSON key'') else unique_from (result @ [(k, v)]) pairs)"

definition unique_object :: "(string \<times> pyval) list \<Rightarrow> (string \<times> pyval) list result" where
  "unique_object pairs = unique_from [] pairs"

fun hooked :: "pyval \<Rightarrow> pyval result" where
  "hooked (PDict kvs) = ebind (emap (\<lambda>(k, v). ebind (hooked v) (\<lambda>w. Inr (k, w))) kvs) (\<lambda>kws.
     ebind (unique_object kws) (\<lambda>r. Inr (PDict r)))"
| "hooked (PList vs) = ebind (emap hooked vs) (\<lambda>ws. Inr (PList ws))"
| "hooked v = Inr v"

definition loads_unique :: "toolbox \<Rightarrow> string \<Rightarrow> pyval result" where
  "loads_unique tb content = ebind (json_pairs tb content) hooked"

definition load_declaration :: "toolbox \<Rightarrow> tree \<Rightarrow> string list \<Rightarrow> (pyval \<times> string) result" where
  "load_declaration tb tr source_dir =
     ebind (safe_path tr source_dir (PStr ''.fleet/requirements.json'')) (\<lambda>path.
     ebind (read_bounded tr path max_declaration) (\<lambda>raw.
     ebind (loads_unique tb raw) (\<lambda>v. Inr (v, raw))))"

section \<open>Native manifests\<close>

text \<open>\<open>{key: native[key] for key in keys if key in native}\<close>, whatever \<open>native\<close> is.\<close>

fun substring :: "string \<Rightarrow> string \<Rightarrow> bool" where
  "substring p [] = (p = [])"
| "substring p (c # s) = (starts_with (c # s) p \<or> substring p s)"

definition select_keys :: "string list \<Rightarrow> pyval \<Rightarrow> pyval result" where
  "select_keys keys native = (case native of
       PDict kvs \<Rightarrow> Inr (PDict (List.map_filter (\<lambda>k. map_option (Pair k) (map_of kvs k)) keys))
     | PStr s \<Rightarrow> if \<exists>k \<in> set keys. substring k s then Inl (TypeError ''string indices must be integers'') else Inr (PDict [])
     | PList vs \<Rightarrow> if \<exists>k \<in> set keys. PStr k \<in> set vs then Inl (TypeError ''list indices must be integers'') else Inr (PDict [])
     | _ \<Rightarrow> Inl (TypeError ''argument is not iterable''))"

definition toml_section :: "toolbox \<Rightarrow> string \<Rightarrow> string \<Rightarrow> pyval result" where
  "toml_section tb part content = ebind (decode_utf8 tb content) (\<lambda>t. ebind (read_toml tb t) (\<lambda>kvs.
     Inr (case map_of kvs part of None \<Rightarrow> PDict [] | Some v \<Rightarrow> v)))"

definition python_native :: "toolbox \<Rightarrow> string \<Rightarrow> pyval result" where
  "python_native tb content = ebind (toml_section tb ''project'' content)
     (select_keys [''requires-python'', ''dependencies'', ''optional-dependencies''])"

definition node_native :: "toolbox \<Rightarrow> string \<Rightarrow> pyval result" where
  "node_native tb content = ebind (loads_unique tb content)
     (select_keys [''engines'', ''packageManager'', ''dependencies'', ''devDependencies''])"

definition rust_native :: "toolbox \<Rightarrow> string \<Rightarrow> pyval result" where
  "rust_native tb content = ebind (toml_section tb ''package'' content) (select_keys [''edition'', ''rust-version''])"

definition selection_lines :: "string \<Rightarrow> string list" where
  "selection_lines t = map strip (filter (\<lambda>line. strip line \<noteq> [] \<and> \<not> starts_with (dropWhile is_space line) ''#'') (split_lines t))"

definition toolchain_native :: "toolbox \<Rightarrow> string \<Rightarrow> pyval result" where
  "toolchain_native tb content = ebind (decode_utf8 tb content) (\<lambda>t. case selection_lines t of
       [line] \<Rightarrow> if length line > 512 then Inl (ValueError ''expected one bounded native toolchain selection'')
         else Inr (PDict [(''selection'', PStr line)])
     | _ \<Rightarrow> Inl (ValueError ''expected one bounded native toolchain selection''))"

definition toolchain_files :: "string set" where
  "toolchain_files = {''.nvmrc'', ''.node-version'', ''.python-version'', ''lean-toolchain'', ''rust-toolchain''}"

text \<open>An unhashable kind makes \<open>readers.get\<close> raise.\<close>

definition hashable_key :: "pyval \<Rightarrow> bool" where
  "hashable_key v \<longleftrightarrow> (case v of PList _ \<Rightarrow> False | PDict _ \<Rightarrow> False | _ \<Rightarrow> True)"

definition native_reader :: "toolbox \<Rightarrow> string list \<Rightarrow> pyval \<Rightarrow> (string \<Rightarrow> pyval result) option" where
  "native_reader tb path kind =
     (if kind = PStr ''python-project'' then Some (python_native tb)
      else if kind = PStr ''node-project'' then Some (node_native tb)
      else if kind = PStr ''rust-project'' then Some (rust_native tb)
      else if kind = PStr ''toolchain'' \<and> path \<noteq> [] \<and> last path \<in> toolchain_files then Some (toolchain_native tb)
      else None)"

definition native_manifest_record :: "toolbox \<Rightarrow> string list \<Rightarrow> pyval \<Rightarrow> string \<Rightarrow> (string \<times> pyval) list result" where
  "native_manifest_record tb path item content =
     ebind (subscript item ''kind'') (\<lambda>kind.
     let base = [(''kind'', kind), (''sha256'', PStr (sha256 tb content))] in
     ebind (guard (hashable_key kind) (TypeError ''unhashable type'')) (\<lambda>_.
     case native_reader tb path kind of
       None \<Rightarrow> Inr base
     | Some reader \<Rightarrow> ebind (reader content) (\<lambda>native. Inr (base @ [(''native'', native)]))))"

section \<open>The manifests\<close>

text \<open>One turn of the loop, with the manifests so far and their total size.\<close>

definition collect_one :: "toolbox \<Rightarrow> tree \<Rightarrow> string list \<Rightarrow> pyval \<Rightarrow> (string \<times> pyval) list \<times> nat \<Rightarrow> ((string \<times> pyval) list \<times> nat) result" where
  "collect_one tb tr source_dir item acc = (case acc of (manifests, used) \<Rightarrow>
     ebind (subscript item ''path'') (\<lambda>name.
     ebind (guard (hashable_key name) (TypeError ''unhashable type'')) (\<lambda>_.
     if \<exists>k \<in> fst ` set manifests. name = PStr k then Inl (ValueError ''duplicate manifest path'')
     else ebind (safe_path tr source_dir name) (\<lambda>path.
       ebind (read_bounded tr path max_manifest) (\<lambda>content.
       if used + length content > max_total_bytes then Inl (ValueError ''native manifest set exceeds total size limit'')
       else ebind (native_manifest_record tb path item content) (\<lambda>r.
         Inr (manifests @ [(case name of PStr k \<Rightarrow> k | _ \<Rightarrow> [], PDict r)], used + length content)))))))"

fun collect_from :: "toolbox \<Rightarrow> tree \<Rightarrow> string list \<Rightarrow> pyval list \<Rightarrow> (string \<times> pyval) list \<times> nat \<Rightarrow> ((string \<times> pyval) list \<times> nat) result" where
  "collect_from tb tr source_dir [] acc = Inr acc"
| "collect_from tb tr source_dir (item # items) acc = ebind (collect_one tb tr source_dir item acc) (collect_from tb tr source_dir items)"

definition collect_manifests :: "toolbox \<Rightarrow> tree \<Rightarrow> string list \<Rightarrow> pyval \<Rightarrow> (string \<times> pyval) list result" where
  "collect_manifests tb tr source_dir declarations =
     ebind (iterate declarations) (\<lambda>items.
     ebind (guard (\<not> length items > max_manifests) (ValueError ''too many manifests or profiles'')) (\<lambda>_.
     ebind (collect_from tb tr source_dir items ([], 0)) (\<lambda>acc. Inr (fst acc))))"

section \<open>Profiles\<close>

definition lower_letter :: "char \<Rightarrow> bool" where
  "lower_letter c \<longleftrightarrow> 97 \<le> (of_char c :: nat) \<and> (of_char c :: nat) \<le> 122"

definition stable_id :: "string \<Rightarrow> string \<Rightarrow> bool" where
  "stable_id extra s \<longleftrightarrow> s \<noteq> [] \<and> lower_letter (hd s) \<and> (\<forall>c \<in> set (tl s). lower_letter c \<or> is_digit c \<or> c \<in> set extra)"

text \<open>The pairs of an object; every other value has no \<open>items\<close>.\<close>

definition items_of :: "pyval \<Rightarrow> (string \<times> pyval) list result" where
  "items_of v = (case v of PDict kvs \<Rightarrow> Inr kvs | _ \<Rightarrow> Inl (OtherError ''AttributeError''))"

definition size_of :: "pyval \<Rightarrow> nat result" where
  "size_of v = (case v of PStr s \<Rightarrow> Inr (length s) | PList vs \<Rightarrow> Inr (length vs) | PTuple vs \<Rightarrow> Inr (length vs)
     | PDict kvs \<Rightarrow> Inr (length kvs) | _ \<Rightarrow> Inl (TypeError ''object has no len()''))"

text \<open>\<open>any(source not in manifests for source in sources)\<close>, which stops at the first one that is not.\<close>

fun any_undeclared :: "(string \<times> pyval) list \<Rightarrow> pyval list \<Rightarrow> bool result" where
  "any_undeclared manifests [] = Inr False"
| "any_undeclared manifests (s # ss) =
     (if \<not> hashable_key s then Inl (TypeError ''unhashable type'')
      else if \<not> (\<exists>k \<in> fst ` set manifests. s = PStr k) then Inr True
      else any_undeclared manifests ss)"

definition validate_tool :: "(string \<times> pyval) list \<Rightarrow> string \<times> pyval \<Rightarrow> unit result" where
  "validate_tool manifests entry = (case entry of (tool, need) \<Rightarrow>
     if \<not> stable_id ''-+.'' tool then Inl (ValueError ''invalid tool capability name'')
     else ebind (subscript need ''sources'') (\<lambda>sources.
       ebind (iterate sources) (\<lambda>ss.
       ebind (any_undeclared manifests ss) (\<lambda>missing.
       guard (\<not> missing) (ValueError ''tool source must reference a declared native manifest'')))))"

definition validate_profile_entry :: "(string \<times> pyval) list \<Rightarrow> string \<times> pyval \<Rightarrow> unit result" where
  "validate_profile_entry manifests entry = (case entry of (name, profile) \<Rightarrow>
     if \<not> stable_id ''-'' name then Inl (ValueError ''profile names must be stable IDs and tools nonempty'')
     else ebind (subscript profile ''tools'') (\<lambda>tools.
       if \<not> truthy tools then Inl (ValueError ''profile names must be stable IDs and tools nonempty'')
       else ebind (size_of tools) (\<lambda>n.
         if n > 256 then Inl (ValueError ''too many tool capabilities'')
         else ebind (items_of tools) (\<lambda>kvs.
           ebind (emap (validate_tool manifests) kvs) (\<lambda>_. Inr ())))))"

definition validate_profiles :: "pyval \<Rightarrow> (string \<times> pyval) list \<Rightarrow> unit result" where
  "validate_profiles profiles manifests =
     (if \<not> truthy profiles then Inl (ValueError ''at least one named profile is required'')
      else ebind (size_of profiles) (\<lambda>n.
        if n > 128 then Inl (ValueError ''too many manifests or profiles'')
        else ebind (items_of profiles) (\<lambda>kvs.
          ebind (emap (validate_profile_entry manifests) kvs) (\<lambda>_. Inr ()))))"

section \<open>The report\<close>

definition inventory :: "toolbox \<Rightarrow> tree \<Rightarrow> string list \<Rightarrow> pyval \<Rightarrow> string \<Rightarrow> pyval result" where
  "inventory tb tr source_dir data raw =
     ebind (subscript data ''manifests'') (\<lambda>declarations.
     ebind (collect_manifests tb tr source_dir declarations) (\<lambda>manifests.
     ebind (subscript data ''profiles'') (\<lambda>profiles.
     ebind (validate_profiles profiles manifests) (\<lambda>_.
     ebind (subscript data ''repository'') (\<lambda>repository.
     Inr (PDict [(''schemaVersion'', PInt 1), (''repository'', repository),
       (''requirementsSha256'', PStr (sha256 tb raw)), (''manifests'', PDict manifests),
       (''profiles'', profiles), (''installed'', PBool False)]))))))"

text \<open>\<open>schema\<close> is the path of the CUE schema.\<close>

definition requirements_report :: "toolbox \<Rightarrow> tree \<Rightarrow> string \<Rightarrow> string list \<Rightarrow> pyval result" where
  "requirements_report tb tr schema source_dir =
     ebind (load_declaration tb tr source_dir) (\<lambda>(data, raw).
     case cue_program tb of
       None \<Rightarrow> Inl (ValueError ''CUE is required; install the pinned tool before validation'')
     | Some cue \<Rightarrow> ebind (safe_path tr source_dir (PStr ''.fleet/requirements.json'')) (\<lambda>path.
         ebind (cue_vet tb [cue, ''vet'', ''-c'', schema, slash # join_on slash path, ''-d'', ''#Requirements'']) (\<lambda>code.
         if code \<noteq> 0 then Inl (ValueError ''CUE requirements validation failed; run cue vet locally for details'')
         else inventory tb tr source_dir data raw)))"

definition handled_error :: "exn \<Rightarrow> bool" where
  "handled_error e \<longleftrightarrow> is_value_error e \<or> (case e of KeyError _ \<Rightarrow> True | TypeError _ \<Rightarrow> True | RuntimeError _ \<Rightarrow> True
     | OtherError n \<Rightarrow> n \<in> {''OSError'', ''FileNotFoundError'', ''PermissionError'', ''NotADirectoryError'', ''TimeoutExpired''} | _ \<Rightarrow> False)"

text \<open>
  \<open>main\<close>: the exit code and the report that was printed, if any; \<open>output\<close> writes the report where \<open>--output\<close> says.
\<close>

definition write_output :: "(pyval \<Rightarrow> unit result) option \<Rightarrow> pyval \<Rightarrow> unit result" where
  "write_output output r = (case output of None \<Rightarrow> Inr () | Some w \<Rightarrow> w r)"

definition requirements_main ::
  "toolbox \<Rightarrow> tree \<Rightarrow> string \<Rightarrow> (pyval \<Rightarrow> unit result) option \<Rightarrow> string list \<Rightarrow> (int \<times> pyval option) result" where
  "requirements_main tb tr schema output source_dir =
     (case ebind (ebind (resolve_path tr source_dir) (requirements_report tb tr schema)) (\<lambda>r.
        ebind (json_dumps r) (\<lambda>_. ebind (write_output output r) (\<lambda>_. Inr r))) of
       Inr r \<Rightarrow> Inr (0, Some r)
     | Inl e \<Rightarrow> if handled_error e then Inr (1, None) else Inl e)"

end
