(* ===== verification/Requirements_Properties.thy ===== *)
theory Requirements_Properties
  imports Requirements_Check
begin

text \<open>
  What an accepted declaration guarantees: every recorded manifest is the digest of a regular file inside the
  source tree, within the size limits and under its own name; the profiles refer only to recorded manifests; and
  a report is printed only after CUE accepted the declaration it fingerprints.
\<close>

section \<open>Objects\<close>

lemma unique_from_decided:
  "unique_from result pairs =
     (if distinct (map fst pairs) \<and> fst ` set pairs \<inter> fst ` set result = {} then Inr (result @ pairs)
      else Inl (ValueError ''duplicate JSON key''))"
  by (induction result pairs rule: unique_from.induct) auto

text \<open>
  The hook of the JSON parser accepts an object exactly when its keys are distinct, and then keeps its pairs
  in the order of the source; a duplicate key is a \<open>ValueError\<close>, never a silent overwrite.
\<close>

theorem unique_object_decided:
  "unique_object pairs =
     (if distinct (map fst pairs) then Inr pairs else Inl (ValueError ''duplicate JSON key''))"
  by (simp add: unique_object_def unique_from_decided)

section \<open>Manifests\<close>

text \<open>\<open>inside tr source_dir name target\<close>: the name leads to this regular file of the source tree.\<close>

definition inside :: "tree \<Rightarrow> string list \<Rightarrow> string \<Rightarrow> string list \<Rightarrow> bool" where
  "inside tr source_dir name target \<longleftrightarrow> (\<exists>base. resolve_path tr source_dir = Inr base
     \<and> resolve_path tr (base @ posix_parts name) = Inr target \<and> prefix base target
     \<and> ''.git'' \<notin> set (drop (length base) target) \<and> file_at tr target)"

lemma safe_path_inside: "safe_path tr source_dir (PStr name) = Inr target \<Longrightarrow> inside tr source_dir name target"
  by (auto simp: safe_path_def inside_def Let_def pure_path_def split: if_splits)

lemma safe_path_text: "safe_path tr source_dir v = Inr target \<Longrightarrow> \<exists>name. v = PStr name"
  by (cases v) (simp_all add: safe_path_def)

lemma read_bounded_content:
  "read_bounded tr path limit = Inr content \<Longrightarrow> bytes_at tr path = Inr content \<and> length content \<le> limit"
  by (auto simp: read_bounded_def Let_def split: if_splits)

lemma native_manifest_record_digest:
  "native_manifest_record tb path item content = Inr r \<Longrightarrow> map_of r ''sha256'' = Some (PStr (sha256 tb content))"
  by (auto simp: native_manifest_record_def Let_def split: option.splits)

text \<open>\<open>recorded\<close>: an entry of the manifest table describes this content of the tree.\<close>

definition recorded :: "toolbox \<Rightarrow> tree \<Rightarrow> string list \<Rightarrow> string \<times> pyval \<Rightarrow> string \<Rightarrow> bool" where
  "recorded tb tr source_dir m content \<longleftrightarrow>
     (\<exists>target. inside tr source_dir (fst m) target \<and> bytes_at tr target = Inr content)
     \<and> length content \<le> max_manifest
     \<and> (\<exists>r. snd m = PDict r \<and> map_of r ''sha256'' = Some (PStr (sha256 tb content)))"

lemma collect_one_effect:
  assumes "collect_one tb tr source_dir item (ms, used) = Inr acc"
  shows "\<exists>m content. acc = (ms @ [m], used + length content) \<and> fst m \<notin> fst ` set ms
    \<and> subscript item ''path'' = Inr (PStr (fst m)) \<and> recorded tb tr source_dir m content
    \<and> used + length content \<le> max_total_bytes"
proof -
  from assms obtain name path content r where parts: "subscript item ''path'' = Inr name"
    "\<not> (\<exists>k \<in> fst ` set ms. name = PStr k)" "safe_path tr source_dir name = Inr path"
    "read_bounded tr path max_manifest = Inr content" "\<not> used + length content > max_total_bytes"
    "native_manifest_record tb path item content = Inr r"
    "acc = (ms @ [(case name of PStr k \<Rightarrow> k | _ \<Rightarrow> [], PDict r)], used + length content)"
    by (auto simp: collect_one_def split: if_splits)
  from safe_path_text [OF parts(3)] obtain k where name: "name = PStr k" by blast
  have "recorded tb tr source_dir (k, PDict r) content"
    using safe_path_inside [of tr source_dir k path] read_bounded_content [OF parts(4)]
      native_manifest_record_digest [OF parts(6)] parts(3) name
    by (auto simp: recorded_def)
  then show ?thesis using parts name by (intro exI [of _ "(k, PDict r)"] exI [of _ content]) auto
qed

lemma collect_from_effect:
  assumes "collect_from tb tr source_dir items (ms, used) = Inr (ms', used')"
    and "distinct (map fst ms)" and "used \<le> max_total_bytes"
  shows "\<exists>new contents. ms' = ms @ new \<and> used' = used + sum_list (map length contents) \<and> distinct (map fst ms')
    \<and> map (\<lambda>i. subscript i ''path'') items = map (\<lambda>m. Inr (PStr (fst m))) new
    \<and> list_all2 (recorded tb tr source_dir) new contents \<and> used' \<le> max_total_bytes"
  using assms
proof (induction items arbitrary: ms used)
  case Nil
  then show ?case by (intro exI [of _ "[]"]) auto
next
  case (Cons item items)
  from Cons.prems(1) obtain acc where acc: "collect_one tb tr source_dir item (ms, used) = Inr acc"
    "collect_from tb tr source_dir items acc = Inr (ms', used')" by auto
  from collect_one_effect [OF acc(1)] obtain m content where one: "acc = (ms @ [m], used + length content)"
    "fst m \<notin> fst ` set ms" "subscript item ''path'' = Inr (PStr (fst m))" "recorded tb tr source_dir m content"
    "used + length content \<le> max_total_bytes" by blast
  have "distinct (map fst (ms @ [m]))" using Cons.prems(2) one(2) by auto
  from Cons.IH [OF acc(2) [unfolded one(1)] this one(5)] obtain new contents where rest:
    "ms' = (ms @ [m]) @ new" "used' = used + length content + sum_list (map length contents)" "distinct (map fst ms')"
    "map (\<lambda>i. subscript i ''path'') items = map (\<lambda>m. Inr (PStr (fst m))) new"
    "list_all2 (recorded tb tr source_dir) new contents" "used' \<le> max_total_bytes" by blast
  show ?case
    by (intro exI [of _ "m # new"] exI [of _ "content # contents"]) (use one rest in auto)
qed

text \<open>
  C25. When the manifests of a declaration are collected, there are at most 128 of them, under distinct names, and
  they are exactly the declared paths in the declared order. Each entry carries the SHA-256 of the bytes of a
  regular file whose resolved path lies under the resolved source root and outside Git metadata; no file exceeds
  16 MiB and together they stay within 64 MiB.
\<close>

theorem collected_manifests_confined:
  assumes "collect_manifests tb tr source_dir declarations = Inr ms"
  shows "length ms \<le> 128 \<and> distinct (map fst ms)
    \<and> (\<exists>items. iterate declarations = Inr items
        \<and> map (\<lambda>i. subscript i ''path'') items = map (\<lambda>m. Inr (PStr (fst m))) ms)
    \<and> (\<exists>contents. list_all2 (recorded tb tr source_dir) ms contents
        \<and> sum_list (map length contents) \<le> 64 * 1024 * 1024)"
proof -
  from assms obtain items acc where run: "iterate declarations = Inr items" "length items \<le> max_manifests"
    "collect_from tb tr source_dir items ([], 0) = Inr acc" "ms = fst acc"
    by (auto simp: collect_manifests_def)
  obtain used where acc: "acc = (ms, used)" using run(4) by (cases acc) auto
  from collect_from_effect [OF run(3) [unfolded acc]] obtain contents where effect:
    "distinct (map fst ms)" "map (\<lambda>i. subscript i ''path'') items = map (\<lambda>m. Inr (PStr (fst m))) ms"
    "list_all2 (recorded tb tr source_dir) ms contents" "sum_list (map length contents) \<le> max_total_bytes"
    by auto
  have "length items = length ms" using arg_cong [OF effect(2), of length] by simp
  then show ?thesis using run effect by (auto simp: max_manifests_def max_total_bytes_def)
qed

text \<open>A source tree \<open>/repo\<close> with two native manifests, for the witnesses.\<close>

definition sample_tree :: tree where
  "sample_tree = \<lparr>resolve_path = Inr,
     file_at = (\<lambda>p. p \<in> {[''repo'', ''pyproject.toml''], [''repo'', ''.python-version''], [''repo'', ''.fleet'', ''requirements.json'']}),
     bytes_at = (\<lambda>p. if p = [''repo'', ''pyproject.toml''] then Inr ''[project]''
       else if p = [''repo'', ''.python-version''] then Inr ''3.12'' else Inr ''{}'')\<rparr>"

definition sample_declaration :: pyval where
  "sample_declaration = PDict [(''repository'', PStr ''demo''),
     (''manifests'', PList [PDict [(''path'', PStr ''pyproject.toml''), (''kind'', PStr ''python-project'')],
        PDict [(''path'', PStr ''.python-version''), (''kind'', PStr ''toolchain'')]]),
     (''profiles'', PDict [(''dev'', PDict [(''tools'', PDict [(''python3'',
        PDict [(''sources'', PList [PStr ''pyproject.toml''])])])])])]"

definition sample_toolbox :: toolbox where
  "sample_toolbox = \<lparr>sha256 = (\<lambda>s. ''h'' @ s), decode_utf8 = Inr,
     read_toml = (\<lambda>t. Inr [(''project'', PDict [(''requires-python'', PStr ''>=3.12''), (''name'', PStr ''demo'')])]),
     json_pairs = (\<lambda>s. Inr sample_declaration), cue_program = Some ''cue'', cue_vet = (\<lambda>args. Inr 0)\<rparr>"

definition sample_manifests :: "(string \<times> pyval) list" where
  "sample_manifests =
     [(''pyproject.toml'', PDict [(''kind'', PStr ''python-project''), (''sha256'', PStr ''h[project]''),
        (''native'', PDict [(''requires-python'', PStr ''>=3.12'')])]),
      (''.python-version'', PDict [(''kind'', PStr ''toolchain''), (''sha256'', PStr ''h3.12''),
        (''native'', PDict [(''selection'', PStr ''3.12'')])])]"

definition sample_declared :: pyval where
  "sample_declared = (case subscript sample_declaration ''manifests'' of Inr v \<Rightarrow> v | Inl _ \<Rightarrow> PNone)"

lemma read_bounded_short: "bytes_at tr path = Inr content \<Longrightarrow> length content \<le> limit \<Longrightarrow> read_bounded tr path limit = Inr content"
  by (simp add: read_bounded_def)

lemma collect_one_step:
  assumes "subscript item ''path'' = Inr (PStr name)" "name \<notin> fst ` set ms" "safe_path tr source_dir (PStr name) = Inr path"
    "read_bounded tr path max_manifest = Inr content" "used + length content \<le> max_total_bytes"
    "native_manifest_record tb path item content = Inr r"
  shows "collect_one tb tr source_dir item (ms, used) = Inr (ms @ [(name, PDict r)], used + length content)"
  using assms by (auto simp: collect_one_def hashable_key_def)

lemma sample_python: "collect_one sample_toolbox sample_tree [''repo'']
    (PDict [(''path'', PStr ''pyproject.toml''), (''kind'', PStr ''python-project'')]) ([], 0) = Inr (take 1 sample_manifests, 9)"
proof -
  have "safe_path sample_tree [''repo''] (PStr ''pyproject.toml'') = Inr [''repo'', ''pyproject.toml'']"
    and "native_manifest_record sample_toolbox [''repo'', ''pyproject.toml'']
      (PDict [(''path'', PStr ''pyproject.toml''), (''kind'', PStr ''python-project'')]) ''[project]''
      = Inr [(''kind'', PStr ''python-project''), (''sha256'', PStr ''h[project]''),
        (''native'', PDict [(''requires-python'', PStr ''>=3.12'')])]"
    by code_simp+
  moreover have "read_bounded sample_tree [''repo'', ''pyproject.toml''] max_manifest = Inr ''[project]''"
    by (rule read_bounded_short) (simp_all add: sample_tree_def max_manifest_def)
  ultimately have "collect_one sample_toolbox sample_tree [''repo'']
      (PDict [(''path'', PStr ''pyproject.toml''), (''kind'', PStr ''python-project'')]) ([], 0)
      = Inr ([] @ [(''pyproject.toml'', PDict [(''kind'', PStr ''python-project''), (''sha256'', PStr ''h[project]''),
        (''native'', PDict [(''requires-python'', PStr ''>=3.12'')])])], 0 + length ''[project]'')"
    by (intro collect_one_step) (simp_all add: subscript_def max_total_bytes_def sample_manifests_def)
  then show ?thesis by (simp add: sample_manifests_def)
qed

lemma sample_selection: "collect_one sample_toolbox sample_tree [''repo'']
    (PDict [(''path'', PStr ''.python-version''), (''kind'', PStr ''toolchain'')]) (take 1 sample_manifests, 9) = Inr (sample_manifests, 13)"
proof -
  have "safe_path sample_tree [''repo''] (PStr ''.python-version'') = Inr [''repo'', ''.python-version'']"
    and "native_manifest_record sample_toolbox [''repo'', ''.python-version'']
      (PDict [(''path'', PStr ''.python-version''), (''kind'', PStr ''toolchain'')]) ''3.12''
      = Inr [(''kind'', PStr ''toolchain''), (''sha256'', PStr ''h3.12''), (''native'', PDict [(''selection'', PStr ''3.12'')])]"
    by code_simp+
  moreover have "read_bounded sample_tree [''repo'', ''.python-version''] max_manifest = Inr ''3.12''"
    by (rule read_bounded_short) (simp_all add: sample_tree_def max_manifest_def)
  ultimately have "collect_one sample_toolbox sample_tree [''repo'']
      (PDict [(''path'', PStr ''.python-version''), (''kind'', PStr ''toolchain'')]) (take 1 sample_manifests, 9)
      = Inr (take 1 sample_manifests @ [(''.python-version'', PDict [(''kind'', PStr ''toolchain''), (''sha256'', PStr ''h3.12''),
        (''native'', PDict [(''selection'', PStr ''3.12'')])])], 9 + length ''3.12'')"
    by (intro collect_one_step) (simp_all add: subscript_def max_total_bytes_def sample_manifests_def)
  then show ?thesis by (simp add: sample_manifests_def)
qed

lemma sample_collected: "collect_manifests sample_toolbox sample_tree [''repo''] sample_declared = Inr sample_manifests"
proof -
  have "iterate sample_declared = Inr [PDict [(''path'', PStr ''pyproject.toml''), (''kind'', PStr ''python-project'')],
      PDict [(''path'', PStr ''.python-version''), (''kind'', PStr ''toolchain'')]]"
    by (simp add: sample_declared_def sample_declaration_def subscript_def iterate_def)
  then show ?thesis
    using sample_python sample_selection by (simp add: collect_manifests_def max_manifests_def guard_def)
qed

lemma collected_manifests_confined_witness:
  "length sample_manifests \<le> 128
    \<and> (\<exists>contents. list_all2 (recorded sample_toolbox sample_tree [''repo'']) sample_manifests contents
        \<and> sum_list (map length contents) \<le> 64 * 1024 * 1024)"
  using collected_manifests_confined [OF sample_collected] by simp

section \<open>Profiles\<close>

text \<open>\<open>sound_profiles\<close>: stable names, and only declared manifests as sources.\<close>

definition sound_tool :: "string set \<Rightarrow> string \<times> pyval \<Rightarrow> bool" where
  "sound_tool names t \<longleftrightarrow> stable_id ''-+.'' (fst t)
     \<and> (\<exists>sources ss. subscript (snd t) ''sources'' = Inr sources \<and> iterate sources = Inr ss \<and> set ss \<subseteq> PStr ` names)"

definition sound_profile :: "string set \<Rightarrow> string \<times> pyval \<Rightarrow> bool" where
  "sound_profile names p \<longleftrightarrow> stable_id ''-'' (fst p)
     \<and> (\<exists>tools. subscript (snd p) ''tools'' = Inr (PDict tools) \<and> tools \<noteq> [] \<and> length tools \<le> 256
        \<and> list_all (sound_tool names) tools)"

lemma any_undeclared_False: "any_undeclared ms ss = Inr False \<longleftrightarrow> set ss \<subseteq> PStr ` fst ` set ms"
  by (induction ss) (auto simp: hashable_key_def)

lemma emap_unit: "emap f xs = Inr ys \<Longrightarrow> (\<And>x u. f x = Inr u \<Longrightarrow> P x) \<Longrightarrow> list_all P xs"
  by (induction xs arbitrary: ys) auto

lemma validate_tool_sound: "validate_tool ms t = Inr u \<Longrightarrow> sound_tool (fst ` set ms) t"
  by (cases t) (fastforce simp: validate_tool_def sound_tool_def any_undeclared_False split: if_splits)

lemma items_of_Inr: "items_of v = Inr kvs \<longleftrightarrow> v = PDict kvs"
  by (cases v) (auto simp: items_of_def)

lemma validate_profile_entry_sound:
  assumes "validate_profile_entry ms p = Inr u"
  shows "sound_profile (fst ` set ms) p"
proof -
  obtain name profile where p: "p = (name, profile)" by (cases p)
  from assms obtain tools kvs us where run: "stable_id ''-'' name" "subscript profile ''tools'' = Inr tools" "truthy tools"
    "\<not> 256 < length kvs" "tools = PDict kvs" "emap (validate_tool ms) kvs = Inr us"
    by (auto simp: p validate_profile_entry_def items_of_Inr size_of_def split: if_splits)
  then have "kvs \<noteq> []" by auto
  moreover have "list_all (sound_tool (fst ` set ms)) kvs" using emap_unit [OF run(6)] validate_tool_sound by blast
  ultimately show ?thesis using run by (simp add: p sound_profile_def)
qed

lemma validate_profiles_sound:
  assumes "validate_profiles profiles ms = Inr u"
  shows "\<exists>kvs. profiles = PDict kvs \<and> kvs \<noteq> [] \<and> length kvs \<le> 128 \<and> list_all (sound_profile (fst ` set ms)) kvs"
proof -
  from assms obtain kvs us where run: "truthy profiles" "profiles = PDict kvs" "\<not> 128 < length kvs"
    "emap (validate_profile_entry ms) kvs = Inr us"
    by (auto simp: validate_profiles_def items_of_Inr size_of_def split: if_splits)
  then have "kvs \<noteq> []" by auto
  then show ?thesis using run emap_unit [OF run(4)] validate_profile_entry_sound by auto
qed

text \<open>
  An inventory is well referenced: it lists at least one and at most 128 profiles, every profile and every tool
  has a stable name, each profile has between one and 256 tools, and every source of a tool is the name of a
  manifest the same inventory records with its digest. It never claims that anything is installed.
\<close>

theorem inventory_well_referenced:
  assumes "inventory tb tr source_dir data raw = Inr report"
  shows "\<exists>ms profiles. subscript report ''manifests'' = Inr (PDict ms) \<and> subscript report ''profiles'' = Inr (PDict profiles)
    \<and> profiles \<noteq> [] \<and> length profiles \<le> 128 \<and> list_all (sound_profile (fst ` set ms)) profiles
    \<and> subscript report ''requirementsSha256'' = Inr (PStr (sha256 tb raw))
    \<and> subscript report ''installed'' = Inr (PBool False)"
proof -
  from assms obtain ms profiles repository where run: "validate_profiles profiles ms = Inr ()"
    "report = PDict [(''schemaVersion'', PInt 1), (''repository'', repository),
       (''requirementsSha256'', PStr (sha256 tb raw)), (''manifests'', PDict ms),
       (''profiles'', profiles), (''installed'', PBool False)]"
    by (auto simp: inventory_def)
  from validate_profiles_sound [OF run(1)] obtain kvs where "profiles = PDict kvs" "kvs \<noteq> []" "length kvs \<le> 128"
    "list_all (sound_profile (fst ` set ms)) kvs" by blast
  then show ?thesis by (simp add: run(2) subscript_def)
qed

definition sample_profile_table :: pyval where
  "sample_profile_table = PDict [(''dev'', PDict [(''tools'', PDict [(''python3'',
     PDict [(''sources'', PList [PStr ''pyproject.toml''])])])])]"

definition sample_report :: pyval where
  "sample_report = PDict [(''schemaVersion'', PInt 1), (''repository'', PStr ''demo''), (''requirementsSha256'', PStr ''h{}''),
     (''manifests'', PDict sample_manifests), (''profiles'', sample_profile_table), (''installed'', PBool False)]"

lemma sample_profiles: "validate_profiles sample_profile_table sample_manifests = Inr ()"
  by code_simp

lemma sample_fields: "subscript sample_declaration ''manifests'' = Inr sample_declared"
  "subscript sample_declaration ''profiles'' = Inr sample_profile_table"
  "subscript sample_declaration ''repository'' = Inr (PStr ''demo'')"
  by (simp_all add: sample_declared_def sample_declaration_def subscript_def sample_profile_table_def)

lemma sample_inventory: "inventory sample_toolbox sample_tree [''repo''] sample_declaration ''{}'' = Inr sample_report"
  using sample_profiles sample_collected sample_fields
  by (simp add: sample_report_def inventory_def) (simp add: sample_toolbox_def)

lemma inventory_well_referenced_witness:
  "\<exists>ms profiles. subscript sample_report ''manifests'' = Inr (PDict ms)
    \<and> subscript sample_report ''profiles'' = Inr (PDict profiles) \<and> list_all (sound_profile (fst ` set ms)) profiles"
  using inventory_well_referenced [OF sample_inventory] by blast

section \<open>The report\<close>

text \<open>
  C26. The tool exits 0 only with a printed report, and prints one only when all of it holds: the declaration lies
  inside the source tree and within 256 KiB, parses with unique keys, CUE is installed and exited 0 on exactly
  that path, and the report is the inventory of what was parsed, carrying the digest of the bytes read.
\<close>

theorem report_needs_accepted_declaration:
  assumes "requirements_main tb tr schema output source_dir = Inr (0, shown)"
  shows "\<exists>report top target raw data cue. shown = Some report \<and> resolve_path tr source_dir = Inr top
    \<and> inside tr top ''.fleet/requirements.json'' target
    \<and> bytes_at tr target = Inr raw \<and> length raw \<le> 256 * 1024 \<and> loads_unique tb raw = Inr data
    \<and> cue_program tb = Some cue
    \<and> cue_vet tb [cue, ''vet'', ''-c'', schema, slash # join_on slash target, ''-d'', ''#Requirements''] = Inr 0
    \<and> inventory tb tr top data raw = Inr report"
proof -
  let ?all = "ebind (ebind (resolve_path tr source_dir) (requirements_report tb tr schema)) (\<lambda>r.
        ebind (json_dumps r) (\<lambda>_. ebind (write_output output r) (\<lambda>_. Inr r)))"
  obtain report where all: "?all = Inr report" and shown: "shown = Some report"
    using assms by (cases ?all) (auto simp: requirements_main_def simp del: ebind_Inr_iff split: if_splits)
  from all obtain top where top: "resolve_path tr source_dir = Inr top" "requirements_report tb tr schema top = Inr report"
    by auto
  from top(2) obtain data raw where loaded: "load_declaration tb tr top = Inr (data, raw)" and
    rest: "(case cue_program tb of
       None \<Rightarrow> Inl (ValueError ''CUE is required; install the pinned tool before validation'')
     | Some cue \<Rightarrow> ebind (safe_path tr top (PStr ''.fleet/requirements.json'')) (\<lambda>path.
         ebind (cue_vet tb [cue, ''vet'', ''-c'', schema, slash # join_on slash path, ''-d'', ''#Requirements'']) (\<lambda>code.
         if code \<noteq> 0 then Inl (ValueError ''CUE requirements validation failed; run cue vet locally for details'')
         else inventory tb tr top data raw))) = Inr report"
    by (auto simp: requirements_report_def)
  from loaded obtain target where target: "safe_path tr top (PStr ''.fleet/requirements.json'') = Inr target"
    "read_bounded tr target max_declaration = Inr raw" "loads_unique tb raw = Inr data"
    by (auto simp: load_declaration_def)
  obtain cue where cue: "cue_program tb = Some cue"
    "cue_vet tb [cue, ''vet'', ''-c'', schema, slash # join_on slash target, ''-d'', ''#Requirements''] = Inr 0"
    "inventory tb tr top data raw = Inr report"
    using rest target(1) by (cases "cue_program tb") (auto split: if_splits)
  show ?thesis
    using shown top(1) safe_path_inside [OF target(1)] read_bounded_content [OF target(2)] target(3) cue
    unfolding max_declaration_def by metis
qed

lemma sample_cue: "cue_program sample_toolbox = Some ''cue''" "cue_vet sample_toolbox args = Inr 0"
  by (simp_all add: sample_toolbox_def)

lemma sample_resolve: "resolve_path sample_tree p = Inr p"
  by (simp add: sample_tree_def)

lemma sample_main: "requirements_main sample_toolbox sample_tree ''schema'' None [''repo''] = Inr (0, Some sample_report)"
proof -
  have path: "safe_path sample_tree [''repo''] (PStr ''.fleet/requirements.json'') = Inr [''repo'', ''.fleet'', ''requirements.json'']"
    and data: "loads_unique sample_toolbox ''{}'' = Inr sample_declaration"
    by code_simp+
  have "read_bounded sample_tree [''repo'', ''.fleet'', ''requirements.json''] max_declaration = Inr ''{}''"
    by (rule read_bounded_short) (simp_all add: sample_tree_def max_declaration_def)
  then have "load_declaration sample_toolbox sample_tree [''repo''] = Inr (sample_declaration, ''{}'')"
    by (simp add: load_declaration_def path data)
  then have "requirements_report sample_toolbox sample_tree ''schema'' [''repo''] = Inr sample_report"
    using path sample_inventory sample_cue by (simp add: requirements_report_def)
  moreover have "(case json_dumps sample_report of Inr t \<Rightarrow> True | Inl e \<Rightarrow> False)"
    by code_simp
  ultimately show ?thesis
    by (simp add: requirements_main_def write_output_def sample_resolve split: sum.splits)
qed

lemma report_needs_accepted_declaration_witness:
  "\<exists>target raw. inside sample_tree [''repo''] ''.fleet/requirements.json'' target
    \<and> bytes_at sample_tree target = Inr raw \<and> length raw \<le> 256 * 1024"
  using report_needs_accepted_declaration [OF sample_main] unfolding sample_resolve sum.inject by blast

end
