(* ===== verification/Version_Probe.thy ===== *)
theory Version_Probe
  imports Llama_Cpp_Properties
begin

text \<open>
  The version probe of the llama.cpp adapter (\<open>_start_version_probe\<close>, \<open>_read_version_output\<close>,
  \<open>_cleanup_probe\<close>, \<open>_windows_version_probe\<close> and \<open>_version_probe\<close> in \<open>adapters/llama_cpp.py\<close>): a child process
  whose output is read within a deadline and a size limit, and which is killed and reaped whatever happens.

  The child and the operating system are the parameter \<open>child\<close>: how starting it ends, the clock before turn \<open>k\<close>
  of the read loop, whether the \<open>k\<close>-th selection finds the pipe ready within its timeout, what the \<open>k\<close>-th read of
  at most \<open>n\<close> bytes returns (nothing at the end of the output), how waiting ends (\<open>None\<close> for \<open>TimeoutExpired\<close>),
  and whether the process group could be killed. Nothing bounds how often the loop turns, so it is a partial
  function whose value is \<open>None\<close> when it does not return.
\<close>

definition identity_output_bytes :: nat where "identity_output_bytes = 16 * 1024"

record child =
  start_process :: "unit result"
  monotonic_at_start :: pyfloat
  monotonic :: "nat \<Rightarrow> pyfloat"
  select_ready :: "nat \<Rightarrow> pyfloat \<Rightarrow> bool result"
  read_chunk :: "nat \<Rightarrow> nat \<Rightarrow> string result"
  wait_exit :: "pyfloat \<Rightarrow> int option result"
  kill_group :: "unit result"
  decoded :: "string \<Rightarrow> string option"

section \<open>Reading\<close>

definition expired :: "pyfloat \<Rightarrow> pyfloat \<Rightarrow> bool" where
  "expired deadline now \<longleftrightarrow> fle (fsub deadline now) (Fin 0)"

text \<open>The end of the output: what is left of the time is for the exit code.\<close>

definition read_exit :: "child \<Rightarrow> pyfloat \<Rightarrow> nat \<Rightarrow> string \<Rightarrow> (string \<times> string) result" where
  "read_exit c deadline k out =
     (if expired deadline (monotonic c (Suc k)) then Inr (''timeout'', out)
      else ebind (wait_exit c (fsub deadline (monotonic c (Suc k)))) (\<lambda>code. case code of
          None \<Rightarrow> Inr (''timeout'', out)
        | Some n \<Rightarrow> Inr (if n = 0 then ''complete'' else ''unusable'', out)))"

partial_function (option) read_version_output ::
  "child \<Rightarrow> pyfloat \<Rightarrow> nat \<Rightarrow> string \<Rightarrow> (string \<times> string) result option" where
  "read_version_output c deadline k out =
     (if expired deadline (monotonic c k) then Some (Inr (''timeout'', out))
      else case select_ready c k (fsub deadline (monotonic c k)) of
        Inl e \<Rightarrow> Some (Inl e)
      | Inr found \<Rightarrow> if \<not> found then read_version_output c deadline (Suc k) out
        else (case read_chunk c k (min 4096 (identity_output_bytes + 1 - length out)) of
          Inl e \<Rightarrow> Some (Inl e)
        | Inr chunk \<Rightarrow> if chunk = [] then Some (read_exit c deadline k out)
          else if length (out @ chunk) > identity_output_bytes then Some (Inr (''output-limit'', out @ chunk))
          else read_version_output c deadline (Suc k) (out @ chunk)))"

section \<open>The probe\<close>

datatype probe_act = Child_Started | Group_Killed | Pipe_Closed | Child_Reaped

text \<open>\<open>_cleanup_probe\<close>: a group that is gone is fine; any other failure to kill it escapes.\<close>

definition cleanup_probe :: "child \<Rightarrow> unit result \<times> probe_act list" where
  "cleanup_probe c = (case kill_group c of
       Inr _ \<Rightarrow> (Inr (), [Group_Killed, Pipe_Closed, Child_Reaped])
     | Inl e \<Rightarrow> if e = OtherError ''ProcessLookupError'' then (Inr (), [Pipe_Closed, Child_Reaped]) else (Inl e, []))"

definition probe_outcome :: "child \<Rightarrow> (string \<times> string) result \<Rightarrow> (string \<times> string option) result" where
  "probe_outcome c r = (case r of
       Inr (status, out) \<Rightarrow> Inr (if status = ''complete'' then parse_version (decoded c out) else (status, None))
     | Inl e \<Rightarrow> if os_status e \<noteq> None \<or> is_value_error e then Inr (''unusable'', None) else Inl e)"

definition posix_version_probe ::
  "child \<Rightarrow> pyfloat \<Rightarrow> ((string \<times> string option) result \<times> probe_act list) option" where
  "posix_version_probe c timeout = (case start_process c of
       Inl e \<Rightarrow> Some (case os_status e of Some status \<Rightarrow> Inr (status, None) | None \<Rightarrow> Inl e, [])
     | Inr _ \<Rightarrow> (case read_version_output c (fadd (monotonic_at_start c) timeout) 0 [] of
         None \<Rightarrow> None
       | Some r \<Rightarrow> (case cleanup_probe c of (cleaned, acts) \<Rightarrow>
           Some (ebind cleaned (\<lambda>_. probe_outcome c r), Child_Started # acts))))"

text \<open>
  On Windows \<open>communicate\<close> reads all output before its length is looked at. It ends with the output and the exit
  code, with a timeout (then the process is killed and read to its end, which may fail), or with an exception.
\<close>

datatype communicated = Output string int | Too_Slow "unit result" | Pipe_Fails exn

definition windows_version_probe ::
  "unit result \<Rightarrow> communicated \<Rightarrow> (string \<Rightarrow> string option) \<Rightarrow> (string \<times> string option) result" where
  "windows_version_probe start com decode = (case start of
       Inl e \<Rightarrow> (case os_status e of Some status \<Rightarrow> Inr (status, None) | None \<Rightarrow> Inl e)
     | Inr _ \<Rightarrow> (let caught = (\<lambda>e. if os_status e \<noteq> None then Inr (''unusable'', None) else Inl e) in case com of
         Output out code \<Rightarrow> Inr (if length out > identity_output_bytes then (''output-limit'', None)
           else if code \<noteq> 0 then (''unusable'', None) else parse_version (decode out))
       | Too_Slow (Inr _) \<Rightarrow> Inr (''timeout'', None)
       | Too_Slow (Inl e) \<Rightarrow> caught e
       | Pipe_Fails e \<Rightarrow> caught e))"

section \<open>Lemmas\<close>

declare read_version_output.simps [code]

lemma read_version_output_turn:
  "\<not> expired deadline (monotonic c k) \<Longrightarrow> select_ready c k (fsub deadline (monotonic c k)) = Inr True \<Longrightarrow>
   read_chunk c k (min 4096 (identity_output_bytes + 1 - length out)) = Inr chunk \<Longrightarrow> chunk \<noteq> [] \<Longrightarrow>
   length (out @ chunk) \<le> identity_output_bytes \<Longrightarrow>
   read_version_output c deadline k out = read_version_output c deadline (Suc k) (out @ chunk)"
  by (subst read_version_output.simps) simp

lemma read_version_output_idle:
  "\<not> expired deadline (monotonic c k) \<Longrightarrow> select_ready c k (fsub deadline (monotonic c k)) = Inr False \<Longrightarrow>
   read_version_output c deadline k out = read_version_output c deadline (Suc k) out"
  by (subst read_version_output.simps) simp

lemma read_version_output_expired:
  "expired deadline (monotonic c k) \<Longrightarrow> read_version_output c deadline k out = Some (Inr (''timeout'', out))"
  by (subst read_version_output.simps) simp

text \<open>
  \<open>prompt_select\<close>: a selection that finds nothing has used up its timeout. Every other turn reads at least one
  byte or is the last.
\<close>

definition prompt_select :: "child \<Rightarrow> pyfloat \<Rightarrow> bool" where
  "prompt_select c deadline \<longleftrightarrow> (\<forall>k remaining. select_ready c k remaining = Inr False \<longrightarrow> expired deadline (monotonic c (Suc k)))"

lemma read_version_output_returns:
  assumes "prompt_select c deadline"
  shows "length out \<le> identity_output_bytes \<Longrightarrow> \<exists>r. read_version_output c deadline k out = Some r"
proof (induction "identity_output_bytes - length out" arbitrary: k out rule: less_induct)
  case less
  let ?remaining = "fsub deadline (monotonic c k)"
  let ?chunk = "read_chunk c k (min 4096 (identity_output_bytes + 1 - length out))"
  consider (late) "expired deadline (monotonic c k)"
    | (raises) e where "\<not> expired deadline (monotonic c k)" "select_ready c k ?remaining = Inl e"
    | (idle) "\<not> expired deadline (monotonic c k)" "select_ready c k ?remaining = Inr False"
    | (ready) "\<not> expired deadline (monotonic c k)" "select_ready c k ?remaining = Inr True"
    by (cases "select_ready c k ?remaining") auto
  then show ?case
  proof cases
    case idle
    then have "expired deadline (monotonic c (Suc k))" using assms unfolding prompt_select_def by blast
    then show ?thesis using idle by (simp add: read_version_output_idle read_version_output_expired)
  next
    case ready
    consider (fails) e where "?chunk = Inl e" | (eof) "?chunk = Inr []"
      | (over) chunk where "?chunk = Inr chunk" "chunk \<noteq> []" "length (out @ chunk) > identity_output_bytes"
      | (more_out) chunk where "?chunk = Inr chunk" "chunk \<noteq> []" "length (out @ chunk) \<le> identity_output_bytes"
      by (cases ?chunk) force+
    then show ?thesis
    proof cases
      case more_out
      then have "identity_output_bytes - length (out @ chunk) < identity_output_bytes - length out" by (cases chunk) auto
      from less.hyps [OF this more_out(3)] show ?thesis using ready more_out by (simp add: read_version_output_turn)
    qed (use ready in \<open>(subst read_version_output.simps, simp)+\<close>)
  qed (subst read_version_output.simps, simp)+
qed

text \<open>
  \<open>child_output c deadline k out\<close>: up to turn \<open>k\<close>, each turn before the deadline, the child's pipe has given the
  pieces that put together make \<open>out\<close>. \<open>complete_output\<close>: the pipe then was at its end, and the child exited with
  code 0 before the deadline.
\<close>

inductive child_output :: "child \<Rightarrow> pyfloat \<Rightarrow> nat \<Rightarrow> string \<Rightarrow> bool" for c deadline where
  nothing_yet: "child_output c deadline 0 []"
| no_piece: "child_output c deadline k out \<Longrightarrow> \<not> expired deadline (monotonic c k) \<Longrightarrow>
    select_ready c k (fsub deadline (monotonic c k)) = Inr False \<Longrightarrow> child_output c deadline (Suc k) out"
| next_piece: "child_output c deadline k out \<Longrightarrow> \<not> expired deadline (monotonic c k) \<Longrightarrow>
    select_ready c k (fsub deadline (monotonic c k)) = Inr True \<Longrightarrow>
    read_chunk c k (min 4096 (identity_output_bytes + 1 - length out)) = Inr chunk \<Longrightarrow> chunk \<noteq> [] \<Longrightarrow>
    child_output c deadline (Suc k) (out @ chunk)"

definition complete_output :: "child \<Rightarrow> pyfloat \<Rightarrow> string \<Rightarrow> bool" where
  "complete_output c deadline out \<longleftrightarrow> length out \<le> identity_output_bytes \<and> (\<exists>k. child_output c deadline k out
     \<and> select_ready c k (fsub deadline (monotonic c k)) = Inr True
     \<and> read_chunk c k (min 4096 (identity_output_bytes + 1 - length out)) = Inr []
     \<and> \<not> expired deadline (monotonic c (Suc k))
     \<and> wait_exit c (fsub deadline (monotonic c (Suc k))) = Inr (Some 0))"

text \<open>\<open>finished\<close>: what a returned reading says of the output.\<close>

definition finished :: "child \<Rightarrow> pyfloat \<Rightarrow> (string \<times> string) result \<Rightarrow> bool" where
  "finished c deadline r \<longleftrightarrow> (case r of
       Inr (status, out) \<Rightarrow> status \<in> {''timeout'', ''output-limit'', ''complete'', ''unusable''}
         \<and> (status = ''complete'' \<longrightarrow> complete_output c deadline out)
         \<and> length out \<le> identity_output_bytes + 1
     | Inl e \<Rightarrow> True)"

definition bounded_reads :: "child \<Rightarrow> bool" where
  "bounded_reads c \<longleftrightarrow> (\<forall>k n chunk. read_chunk c k n = Inr chunk \<longrightarrow> length chunk \<le> n)"

lemma read_exit_finished:
  assumes "child_output c deadline k out" "length out \<le> identity_output_bytes"
    and "select_ready c k (fsub deadline (monotonic c k)) = Inr True"
    and "read_chunk c k (min 4096 (identity_output_bytes + 1 - length out)) = Inr []"
  shows "finished c deadline (read_exit c deadline k out)"
proof (cases "wait_exit c (fsub deadline (monotonic c (Suc k)))")
  case (Inr code)
  have "complete_output c deadline out" if "\<not> expired deadline (monotonic c (Suc k))" "code = Some 0"
    unfolding complete_output_def using assms that Inr by blast
  then show ?thesis using Inr assms(2) by (auto simp: read_exit_def finished_def split: option.split)
qed (use assms(2) in \<open>auto simp: read_exit_def finished_def\<close>)

lemma read_version_output_finished:
  assumes "bounded_reads c" and "read_version_output c deadline k out = Some r" and "length out \<le> identity_output_bytes"
    and "child_output c deadline k out"
  shows "finished c deadline r"
proof -
  let ?P = "\<lambda>c deadline k out r. bounded_reads c \<longrightarrow> length out \<le> identity_output_bytes \<longrightarrow> child_output c deadline k out
    \<longrightarrow> finished c deadline r"
  have "?P c deadline k out r"
  proof (rule read_version_output.raw_induct [where P = ?P, OF _ assms(2)])
    fix f c deadline k out r
    assume IH: "\<And>c deadline k out r. f c deadline k out = Some r \<Longrightarrow> ?P c deadline k out r"
      and eq: "(if expired deadline (monotonic c k) then Some (Inr (''timeout'', out))
        else case select_ready c k (fsub deadline (monotonic c k)) of
          Inl e \<Rightarrow> Some (Inl e)
        | Inr found \<Rightarrow> if \<not> found then f c deadline (Suc k) out
          else (case read_chunk c k (min 4096 (identity_output_bytes + 1 - length out)) of
            Inl e \<Rightarrow> Some (Inl e)
          | Inr chunk \<Rightarrow> if chunk = [] then Some (read_exit c deadline k out)
            else if length (out @ chunk) > identity_output_bytes then Some (Inr (''output-limit'', out @ chunk))
            else f c deadline (Suc k) (out @ chunk))) = Some r"
    show "?P c deadline k out r"
    proof (intro impI)
      assume bounded: "bounded_reads c" and short: "length out \<le> identity_output_bytes" and sofar: "child_output c deadline k out"
      let ?select = "select_ready c k (fsub deadline (monotonic c k))"
      let ?read = "read_chunk c k (min 4096 (identity_output_bytes + 1 - length out))"
      consider (late) "expired deadline (monotonic c k)" | (fails) e where "\<not> expired deadline (monotonic c k)" "?select = Inl e"
        | (idle) "\<not> expired deadline (monotonic c k)" "?select = Inr False"
        | (ready) "\<not> expired deadline (monotonic c k)" "?select = Inr True"
        by (cases ?select) auto
      then show "finished c deadline r"
      proof cases
        case idle
        then show ?thesis using eq IH bounded short no_piece [OF sofar] by auto
      next
        case ready
        show ?thesis
        proof (cases ?read)
          case (Inl e)
          then show ?thesis using eq ready by (auto simp: finished_def)
        next
          case chunk: (Inr chunk)
          have "length (out @ chunk) \<le> identity_output_bytes + 1"
            using bounded short chunk unfolding bounded_reads_def by fastforce
          moreover have "finished c deadline (read_exit c deadline k out)" if "chunk = []"
            using read_exit_finished [OF sofar short ready(2)] chunk that by simp
          moreover have "child_output c deadline (Suc k) (out @ chunk)" if "chunk \<noteq> []"
            using next_piece [OF sofar ready chunk that] .
          ultimately show ?thesis using eq ready chunk IH bounded by (auto simp: finished_def split: if_splits)
        qed
      qed (use eq short in \<open>auto simp: finished_def\<close>)
    qed
  qed
  then show ?thesis using assms by blast
qed

section \<open>Properties\<close>

text \<open>A child that prints a version in two pieces and exits 0, and one that never prints anything.\<close>

definition sample_child :: child where
  "sample_child = \<lparr>start_process = Inr (), monotonic_at_start = Fin 0, monotonic = (\<lambda>k. Fin 0),
     select_ready = (\<lambda>k remaining. Inr True),
     read_chunk = (\<lambda>k n. Inr (take n (if k = 0 then ''version 1'' else if k = 1 then ''23'' else []))),
     wait_exit = (\<lambda>remaining. Inr (Some 0)), kill_group = Inl (OtherError ''ProcessLookupError''), decoded = Some\<rparr>"

definition silent_child :: child where
  "silent_child = sample_child\<lparr>monotonic := (\<lambda>k. Fin (if k = 0 then 0 else 5)), select_ready := (\<lambda>k remaining. Inr False),
     kill_group := Inr ()\<rparr>"

text \<open>
  C23. The probe returns: as long as a selection that finds nothing has waited until the deadline, the read loop
  ends, however many pieces the child prints its output in, because every other turn adds a byte to at most
  16 KiB or is the last; the clock need not even advance while the child prints.
\<close>

theorem version_probe_returns:
  assumes "prompt_select c (fadd (monotonic_at_start c) timeout)"
  shows "\<exists>outcome acts. posix_version_probe c timeout = Some (outcome, acts)"
proof (cases "start_process c")
  case (Inr u)
  obtain r where "read_version_output c (fadd (monotonic_at_start c) timeout) 0 [] = Some r"
    using read_version_output_returns [OF assms, of "[]" 0] by auto
  with Inr show ?thesis by (auto simp: posix_version_probe_def split: prod.splits)
qed (simp add: posix_version_probe_def)

lemma version_probe_returns_witness:
  "\<exists>outcome acts. posix_version_probe silent_child (Fin 5) = Some (outcome, acts)"
proof -
  have "prompt_select silent_child (fadd (monotonic_at_start silent_child) (Fin 5))"
    by (simp add: prompt_select_def silent_child_def sample_child_def expired_def fsub_def fl_numeral)
  then show ?thesis by (rule version_probe_returns)
qed

lemma parse_version_ready: "parse_version d = (status, version) \<Longrightarrow>
    status = ''ready'' \<and> (\<exists>t. d = Some t \<and> version = Some (strip t) \<and> strip t \<noteq> []) \<or> status = ''unknown-version'' \<and> version = None"
  by (auto simp: parse_version_def Let_def split: option.splits if_splits)

lemma os_status_range: "os_status e = Some s \<Longrightarrow> s \<in> {''missing'', ''denied'', ''unusable''}"
  by (auto simp: os_status_def split: if_splits)

text \<open>\<open>read_version\<close>: the version is what the child printed within the limit before it exited with code 0.\<close>

definition read_version :: "child \<Rightarrow> pyfloat \<Rightarrow> string \<Rightarrow> bool" where
  "read_version c deadline version \<longleftrightarrow>
     (\<exists>out t. complete_output c deadline out \<and> decoded c out = Some t \<and> version = strip t \<and> version \<noteq> [])"

text \<open>\<open>accounted\<close>: the only statuses, and a version exactly with the status \<open>ready\<close>.\<close>

definition accounted :: "child \<Rightarrow> pyfloat \<Rightarrow> string \<times> string option \<Rightarrow> bool" where
  "accounted c deadline v \<longleftrightarrow>
     fst v \<in> {''ready'', ''missing'', ''denied'', ''unusable'', ''timeout'', ''output-limit'', ''unknown-version''}
     \<and> (fst v = ''ready'' \<longleftrightarrow> snd v \<noteq> None) \<and> (\<forall>version. snd v = Some version \<longrightarrow> read_version c deadline version)"

lemma probe_outcome_accounted:
  assumes "finished c deadline r" and "probe_outcome c r = Inr v"
  shows "accounted c deadline v"
proof (cases r)
  case (Inl e)
  then show ?thesis using assms(2) by (auto simp: probe_outcome_def accounted_def split: if_splits)
next
  case (Inr sout)
  obtain status out where sout: "sout = (status, out)" by (cases sout)
  show ?thesis
  proof (cases "status = ''complete''")
    case True
    have out: "complete_output c deadline out" using assms(1) True Inr sout by (simp add: finished_def)
    obtain st version where st: "parse_version (decoded c out) = (st, version)" by (cases "parse_version (decoded c out)")
    then have v: "v = (st, version)" using assms(2) True Inr sout by (simp add: probe_outcome_def)
    from parse_version_ready [OF st] consider
      (ready) t where "st = ''ready''" "decoded c out = Some t" "version = Some (strip t)" "strip t \<noteq> []"
      | (unknown) "st = ''unknown-version''" "version = None" by blast
    then show ?thesis
    proof cases
      case ready
      then have "read_version c deadline (strip t)" using out unfolding read_version_def by blast
      then show ?thesis using ready by (simp add: v accounted_def)
    next
      case unknown
      then show ?thesis by (simp add: v accounted_def)
    qed
  next
    case False
    then have "v = (status, None)" using assms(2) Inr sout by (simp add: probe_outcome_def)
    moreover have "status \<in> {''timeout'', ''output-limit'', ''unusable''}" using assms(1) False Inr sout by (simp add: finished_def)
    ultimately show ?thesis by (auto simp: accounted_def)
  qed
qed

lemma posix_version_probe_answer:
  assumes "posix_version_probe c timeout = Some (Inr v, acts)" and "bounded_reads c"
  shows "accounted c (fadd (monotonic_at_start c) timeout) v \<and> (case start_process c of
      Inl e \<Rightarrow> acts = [] \<and> snd v = None
    | Inr _ \<Rightarrow> acts = [Child_Started, Group_Killed, Pipe_Closed, Child_Reaped]
        \<or> kill_group c = Inl (OtherError ''ProcessLookupError'') \<and> acts = [Child_Started, Pipe_Closed, Child_Reaped])"
proof (cases "start_process c")
  case (Inl e)
  then obtain s where "os_status e = Some s" "v = (s, None)" "acts = []"
    using assms(1) by (auto simp: posix_version_probe_def split: option.splits)
  then show ?thesis using Inl os_status_range [of e s] by (auto simp: accounted_def)
next
  case (Inr u)
  from assms(1) Inr obtain r cleaned cacts where run: "read_version_output c (fadd (monotonic_at_start c) timeout) 0 [] = Some r"
    "cleanup_probe c = (cleaned, cacts)" "ebind cleaned (\<lambda>_. probe_outcome c r) = Inr v" "acts = Child_Started # cacts"
    by (auto simp: posix_version_probe_def split: option.splits prod.splits)
  have "finished c (fadd (monotonic_at_start c) timeout) r" by (rule read_version_output_finished [OF assms(2) run(1) _ nothing_yet]) simp
  then have "accounted c (fadd (monotonic_at_start c) timeout) v" using run(3) probe_outcome_accounted by auto
  moreover have "cacts = [Group_Killed, Pipe_Closed, Child_Reaped]
      \<or> kill_group c = Inl (OtherError ''ProcessLookupError'') \<and> cacts = [Pipe_Closed, Child_Reaped]"
    using run(2,3) by (auto simp: cleanup_probe_def split: sum.splits if_splits)
  ultimately show ?thesis using Inr run(4) by auto
qed

text \<open>
  Whatever the child does, a probe that answers has either not started it (and says it is missing, denied or
  unusable) or has ended it: its process group was killed or already gone, the pipe closed and the child reaped,
  in that order. A version is answered exactly with the status \<open>ready\<close>, and it is the stripped text of at most
  16 KiB of output of a child that exited with code 0.
\<close>

theorem version_probe_cleans_up:
  assumes "posix_version_probe c timeout = Some (Inr v, acts)" and "bounded_reads c"
  shows "accounted c (fadd (monotonic_at_start c) timeout) v \<and> (case start_process c of
      Inl e \<Rightarrow> acts = [] \<and> snd v = None
    | Inr _ \<Rightarrow> acts = [Child_Started, Group_Killed, Pipe_Closed, Child_Reaped]
        \<or> kill_group c = Inl (OtherError ''ProcessLookupError'') \<and> acts = [Child_Started, Pipe_Closed, Child_Reaped])"
  using assms by (rule posix_version_probe_answer)

lemma sample_probe: "posix_version_probe sample_child (Fin 5)
    = Some (Inr (''ready'', Some ''version 123''), [Child_Started, Pipe_Closed, Child_Reaped])"
proof -
  let ?run = "read_version_output sample_child (Fin 5)"
  have time: "\<not> expired (Fin 5) (monotonic sample_child k)" for k
    by (simp add: sample_child_def expired_def fsub_def fl_numeral)
  have ready: "select_ready sample_child k remaining = Inr True" for k remaining by (simp add: sample_child_def)
  have "?run 0 [] = ?run (Suc 0) ([] @ ''version 1'')"
    by (rule read_version_output_turn [OF time ready]) (simp_all add: sample_child_def identity_output_bytes_def)
  also have "\<dots> = ?run (Suc (Suc 0)) (([] @ ''version 1'') @ ''23'')"
    by (rule read_version_output_turn [OF time ready]) (simp_all add: sample_child_def identity_output_bytes_def)
  also have "\<dots> = Some (Inr (''complete'', ''version 123''))"
  proof -
    have "read_exit sample_child (Fin 5) (Suc (Suc 0)) ''version 123'' = Inr (''complete'', ''version 123'')"
      by (simp add: read_exit_def time) (simp add: sample_child_def)
    moreover have "read_chunk sample_child (Suc (Suc 0)) n = Inr []" for n by (simp add: sample_child_def)
    ultimately show ?thesis by (subst read_version_output.simps) (simp add: time ready)
  qed
  finally have run: "?run 0 [] = Some (Inr (''complete'', ''version 123''))" .
  have "parse_version (Some ''version 123'') = (''ready'', Some ''version 123'')" by code_simp
  then have "probe_outcome sample_child (Inr (''complete'', ''version 123'')) = Inr (''ready'', Some ''version 123'')"
    by (simp add: probe_outcome_def sample_child_def)
  moreover have "fadd (monotonic_at_start sample_child) (Fin 5) = Fin 5" "start_process sample_child = Inr ()"
    "cleanup_probe sample_child = (Inr (), [Pipe_Closed, Child_Reaped])"
    by (simp_all add: sample_child_def fl_numeral cleanup_probe_def)
  ultimately show ?thesis using run by (simp add: posix_version_probe_def)
qed

lemma sample_reads: "bounded_reads sample_child"
  by (simp add: bounded_reads_def sample_child_def)

lemma version_probe_cleans_up_witness: "accounted sample_child (fadd (monotonic_at_start sample_child) (Fin 5)) (''ready'', Some ''version 123'')"
  using version_probe_cleans_up [OF sample_probe sample_reads] by simp

text \<open>
  C22. The identity of a runtime names a version only if a probe read it. When the adapter's probe is the POSIX probe,
  whose reads return no more bytes than asked, and the identity it makes carries a version, then the probe started the
  child and ended and reaped it, and the version is the stripped text of the child's whole output: the pieces read
  from its pipe one after another, each before the deadline, up to the end of the pipe, together at most 16 KiB, of a
  child that then exited with code 0 before the deadline. The build id is the digest of a regular, executable file of
  at most 512 MiB whose size and identity did not change during the probe.
\<close>

theorem identified_version_was_read:
  assumes "posix_version_probe c timeout = Some (probed, acts)" and "bounded_reads c"
    and "cpp_identity (h\<lparr>version_probe := probed\<rparr>) binary = Inr r" and "rt_version r = Some version"
  shows "(\<exists>out t k. child_output c (fadd (monotonic_at_start c) timeout) k out
        \<and> read_chunk c k (min 4096 (identity_output_bytes + 1 - length out)) = Inr []
        \<and> length out \<le> identity_output_bytes \<and> decoded c out = Some t \<and> version = strip t \<and> version \<noteq> []
        \<and> \<not> expired (fadd (monotonic_at_start c) timeout) (monotonic c (Suc k))
        \<and> wait_exit c (fsub (fadd (monotonic_at_start c) timeout) (monotonic c (Suc k))) = Inr (Some 0))
    \<and> Child_Started \<in> set acts \<and> Child_Reaped \<in> set acts
    \<and> (\<exists>before after content. stat_before h = Inr before \<and> st_regular before \<and> can_execute h
        \<and> binary_content h = Inr content \<and> int (length content) \<le> max_binary_bytes
        \<and> rt_build_id r = Some (take 16 (file_digest h content))
        \<and> stat_after h = Inr after \<and> (st_size before, st_identity before) = (st_size after, st_identity after))"
proof -
  let ?h = "h\<lparr>version_probe := probed\<rparr>"
  from assms(3,4) have identity: "probed_identity ?h binary = Inr r"
    by (auto simp: cpp_identity_def unavailable_def split: sum.splits option.splits)
  from identity assms(4) obtain before after content where id: "stat_before h = Inr before" "st_regular before" "can_execute h"
    "binary_content h = Inr content" "int (length content) \<le> max_binary_bytes" "probed = Inr (''ready'', Some version)"
    "rt_build_id r = Some (take 16 (file_digest h content))" "stat_after h = Inr after"
    "(st_size before, st_identity before) = (st_size after, st_identity after)"
    by (auto simp: probed_identity_def unavailable_def split: if_split_asm)
  note answer = posix_version_probe_answer [OF assms(1) [unfolded id(6)] assms(2)]
  then have "read_version c (fadd (monotonic_at_start c) timeout) version" by (simp add: accounted_def)
  moreover have "Child_Started \<in> set acts \<and> Child_Reaped \<in> set acts"
    using answer by (auto split: sum.splits)
  ultimately show ?thesis using id(1-5,7-9) unfolding read_version_def complete_output_def by blast
qed

lemma sample_identified: "\<exists>r. cpp_identity ((sample_host [])\<lparr>version_probe := Inr (''ready'', Some ''version 123'')\<rparr>) ''cli'' = Inr r
    \<and> rt_version r = Some ''version 123''"
  by (simp add: cpp_identity_def probed_identity_def sample_host_def max_binary_bytes_def Let_def)

lemma identified_version_was_read_witness:
  "\<exists>out k. child_output sample_child (fadd (monotonic_at_start sample_child) (Fin 5)) k out \<and> strip out = ''version 123''"
proof -
  obtain r where "cpp_identity ((sample_host [])\<lparr>version_probe := Inr (''ready'', Some ''version 123'')\<rparr>) ''cli'' = Inr r"
    "rt_version r = Some ''version 123''" using sample_identified by blast
  from identified_version_was_read [OF sample_probe sample_reads this]
  obtain out t k where "child_output sample_child (fadd (monotonic_at_start sample_child) (Fin 5)) k out"
    "decoded sample_child out = Some t" "''version 123'' = strip t" by blast
  then show ?thesis by (auto simp: sample_child_def intro!: exI [of _ out] exI [of _ k])
qed

end
