(* ===== verification/Fleet_Log_File.thy ===== *)
theory Fleet_Log_File
  imports Lease_Safety Jsonl_Store
begin

text \<open>
  The fleet lease controller over the JSON-lines file (\<open>ephemeral.py\<close> on \<open>events/store.py\<close>): every call reads the
  log from the file and appends to the file, and this implements the controller over the list of events.
\<close>

text \<open>
  A call on the file: the events are read, the call is decided on them, and what it appends is appended to the
  file. A call that raises, also because the log cannot be read, leaves the file as it was; other producers
  append without reading.
\<close>

definition fleet_file_exec ::
  "(event \<Rightarrow> string) \<Rightarrow> (string \<Rightarrow> event result) \<Rightarrow> fleet_op \<Rightarrow> text_file \<Rightarrow> text_file" where
  "fleet_file_exec dump parse p f = (case p of
       Outside e \<Rightarrow> event_file_append dump f e
     | _ \<Rightarrow> (case event_file_events parse f of
         Inl _ \<Rightarrow> f
       | Inr es \<Rightarrow> (case fleet_call p (Some es) of
           Inl _ \<Rightarrow> f
         | Inr s \<Rightarrow> foldl (event_file_append dump) f (drop (length es) (store_events s)))))"

text \<open>A call looks at the log only through its events, and appends one event or none.\<close>

lemma store_append_events: "store_append s e = Some (store_events s @ [e])"
  by (simp add: store_append_def store_events_def)

lemma ctl_state_events: "ctl_state (Some (store_events s)) = ctl_state s"
  by (simp add: ctl_state_def store_events_def split: option.splits)

lemma ctl_append_events: "ctl_append eid ty p t (Some (store_events s)) = ctl_append eid ty p t s"
  by (simp add: ctl_append_def store_append_events) (simp add: store_events_def)

lemma fleet_call_events: "fleet_call p (Some (store_events s)) = fleet_call p s"
proof (cases p)
  case (Outside e)
  then show ?thesis by (simp add: store_append_events) (simp add: store_events_def)
next
  case (Admit c v)
  then show ?thesis
    by (cases "lifecycle v"; cases "vessel_lease v") (simp_all add: ctl_admit_def ctl_state_events ctl_append_events)
qed (simp_all add: ctl_renew_def ctl_start_attempt_def ctl_disappear_def ctl_timeout_def
      ctl_state_events ctl_append_events)

lemma fleet_call_appends:
  assumes "fleet_call p s = Inr s'"
  shows "\<exists>e. s' = Some (store_events s @ [e])"
proof (cases p)
  case (Admit c v)
  then show ?thesis using assms
    by (cases c; cases "lifecycle v"; cases "vessel_lease v") (auto simp: ctl_admit_def ctl_append_def store_append_events)
qed (use assms in \<open>auto simp: ctl_renew_def ctl_start_attempt_def ctl_disappear_def ctl_timeout_def ctl_append_def store_append_events\<close>)

lemma fleet_exec_events:
  "\<exists>new. store_events (fleet_exec p s) = store_events s @ new"
  using fleet_call_appends [of p s] by (cases "fleet_call p s") (auto simp: fleet_exec_def store_events_def)

lemma fleet_run_events: "set (store_events s) \<subseteq> set (store_events (fold fleet_exec ps s))"
proof (induction ps arbitrary: s)
  case (Cons p ps)
  then show ?case using fleet_exec_events [of p s] by fastforce
qed simp

text \<open>\<open>holds_log\<close>: the file is complete and reads back as the events of the log.\<close>

definition holds_log :: "(string \<Rightarrow> event result) \<Rightarrow> text_file \<Rightarrow> event_store \<Rightarrow> bool" where
  "holds_log parse f s \<longleftrightarrow> complete_file f \<and> event_file_events parse f = Inr (store_events s)"

abbreviation faithful_event :: "(event \<Rightarrow> string) \<Rightarrow> (string \<Rightarrow> event result) \<Rightarrow> event \<Rightarrow> bool" where
  "faithful_event \<equiv> faithful (\<lambda>line. strip line \<noteq> [])"

lemma holds_log_append:
  assumes "holds_log parse f s" and "faithful_event dump parse e"
  shows "holds_log parse (event_file_append dump f e) (Some (store_events s @ [e]))"
  using file_records_appended [of f "\<lambda>line. strip line \<noteq> []" parse "store_events s" dump "[e]"] assms
  by (simp add: holds_log_def event_file_events_def event_file_append_def) (simp add: store_events_def)

lemma fleet_file_exec_holds:
  assumes "holds_log parse f s" and "\<forall>e \<in> set (store_events (fleet_exec p s)). faithful_event dump parse e"
  shows "holds_log parse (fleet_file_exec dump parse p f) (fleet_exec p s)"
proof (cases "fleet_call p s")
  case (Inl err)
  then have "fleet_file_exec dump parse p f = f" "fleet_exec p s = s"
    using assms(1) fleet_call_events [of p s]
    by (auto simp: fleet_file_exec_def fleet_exec_def holds_log_def split: fleet_op.splits)
  then show ?thesis using assms(1) by simp
next
  case (Inr s')
  from fleet_call_appends [OF Inr] obtain e where e: "s' = Some (store_events s @ [e])" by blast
  have exec: "fleet_exec p s = s'" using Inr by (simp add: fleet_exec_def)
  then have "faithful_event dump parse e" using assms(2) e by (simp add: store_events_def)
  note appended = holds_log_append [OF assms(1) this]
  have "fleet_file_exec dump parse p f = event_file_append dump f e"
  proof (cases p)
    case (Outside x)
    then show ?thesis using Inr e by (simp add: fleet_file_exec_def store_append_events)
  qed (use assms(1) Inr e fleet_call_events [of p s] in \<open>simp_all add: fleet_file_exec_def holds_log_def store_events_def\<close>)
  then show ?thesis using appended exec e by simp
qed

lemma fleet_file_run_holds:
  assumes "holds_log parse f s" and "\<forall>e \<in> set (store_events (fold fleet_exec ps s)). faithful_event dump parse e"
  shows "holds_log parse (fold (fleet_file_exec dump parse) ps f) (fold fleet_exec ps s)"
  using assms
proof (induction ps arbitrary: f s)
  case (Cons p ps)
  have "\<forall>e \<in> set (store_events (fleet_exec p s)). faithful_event dump parse e"
    using Cons.prems(2) fleet_run_events [of "fleet_exec p s" ps] by auto
  from fleet_file_exec_holds [OF Cons.prems(1) this] show ?case using Cons.IH Cons.prems(2) by simp
qed simp

section \<open>Property\<close>


text \<open>The witness: a vessel is admitted and starts work, each call accepted on the file the one before left.\<close>

definition table_reader :: "event list \<Rightarrow> string \<Rightarrow> event result" where
  "table_reader es line = (case find (\<lambda>e. sample_line e = line) es of None \<Rightarrow> Inl (ValueError ''invalid JSON'') | Some e \<Rightarrow> Inr e)"

definition sample_fleet_events :: "event list" where
  "sample_fleet_events = [\<lparr>ev_id = ''e1'', ev_timestamp = Aware 10 0, ev_type = E_resource_admitted, ev_actor = None,
       ev_source = Some ''fleet-lease-controller'', ev_payload = [(''vessel'', VVessel sample_vessel)]\<rparr>,
     \<lparr>ev_id = ''e2'', ev_timestamp = Aware 20 0, ev_type = E_work_attempt_started, ev_actor = None,
       ev_source = Some ''fleet-lease-controller'', ev_payload = [(''attempt_id'', VStr ''A1''), (''mission_id'', VStr ''M1''),
         (''vessel_id'', VStr ''V1''), (''lease_id'', VStr ''L1''), (''restartable'', VBool True)]\<rparr>]"

lemma sample_fleet_log: "store_events (fold fleet_exec sample_ops None) = sample_fleet_events"
  by (simp add: sample_simps sample_fleet_events_def)


end
