(* ===== verification/Argument_Parser.thy ===== *)
theory Argument_Parser
  imports Stateful Discovery
begin

text \<open>
  What the command line uses of \<open>argparse\<close> (Python 3.11): options with one value, long flags, the help option, unique
  prefixes, \<open>--option=value\<close>, the separator \<open>--\<close>, at most one operand or one subcommand, required options, and
  exits with status 2 on a usage error and 0 after help. Words after the subcommand belong to its own parser.
\<close>

definition usage_error :: exn where "usage_error = OtherError ''SystemExit 2''"

definition help_shown :: exn where "help_shown = OtherError ''SystemExit 0''"

section \<open>Parsers\<close>

datatype conversion = Text | Number | One_Of "string list"

datatype action = Help | Store string conversion | Flag string

text \<open>A positional argument of a parser: one operand, or a subcommand with all the words that follow.\<close>

datatype positional = Operand string | Subcommand

record parser_spec =
  option_table :: "(string \<times> action) list"
  required_dests :: "string list"
  positional_arg :: "positional option"

type_synonym namespace = "(string \<times> pyval) list"

section \<open>Reading one word\<close>

text \<open>An option carries its value after \<open>=\<close> (\<open>True\<close>) or glued to a one-letter option (\<open>False\<close>).\<close>

datatype token = Operand_Word | Separator | Option_Word "action option" string "(bool \<times> string) option"

definition before_equals :: "string \<Rightarrow> string" where
  "before_equals s = takeWhile (\<lambda>c. c \<noteq> CHR ''='') s"

definition explicit_value :: "string \<Rightarrow> (bool \<times> string) option" where
  "explicit_value s = (if CHR ''='' \<in> set s then Some (True, tl (dropWhile (\<lambda>c. c \<noteq> CHR ''='') s)) else None)"

definition option_candidates :: "(string \<times> action) list \<Rightarrow> string \<Rightarrow> (action \<times> string \<times> (bool \<times> string) option) list" where
  "option_candidates table s =
     (if starts_with s ''--''
      then map (\<lambda>(k, a). (a, k, explicit_value s)) (filter (\<lambda>(k, a). starts_with k (before_equals s)) table)
      else List.map_filter (\<lambda>(k, a). if k = take 2 s then Some (a, k, Some (False, drop 2 s))
        else if starts_with k s then Some (a, k, None) else None) table)"

text \<open>The pattern \<open>^-\d+$|^-\d*\.\d+$\<close>, whose end may be followed by a newline.\<close>

definition looks_negative :: "string \<Rightarrow> bool" where
  "looks_negative s = (let t = (if s \<noteq> [] \<and> last s = char_of (10 :: nat) then butlast s else s); u = tl t in
     starts_with t ''-'' \<and> (all_digits u
       \<or> (let v = dropWhile is_digit u in starts_with v ''.'' \<and> all_digits (tl v))))"

definition classify_word :: "(string \<times> action) list \<Rightarrow> string \<Rightarrow> token result" where
  "classify_word table s =
     (if \<not> starts_with s ''-'' then Inr Operand_Word
      else case map_of table s of
        Some a \<Rightarrow> Inr (Option_Word (Some a) s None)
      | None \<Rightarrow>
        if length s = 1 then Inr Operand_Word
        else case (if CHR ''='' \<in> set s then map_of table (before_equals s) else None) of
          Some a \<Rightarrow> Inr (Option_Word (Some a) (before_equals s) (explicit_value s))
        | None \<Rightarrow> (case option_candidates table s of
            [] \<Rightarrow> Inr (if looks_negative s \<or> CHR '' '' \<in> set s then Operand_Word else Option_Word None s None)
          | [(a, k, v)] \<Rightarrow> Inr (Option_Word (Some a) k v)
          | _ \<Rightarrow> Inl usage_error))"

fun classify_words :: "(string \<times> action) list \<Rightarrow> string list \<Rightarrow> (string \<times> token) list result" where
  "classify_words table [] = Inr []"
| "classify_words table (s # ss) =
     (if s = ''--'' then Inr ((s, Separator) # map (\<lambda>t. (t, Operand_Word)) ss)
      else ebind (classify_word table s) (\<lambda>k. ebind (classify_words table ss) (\<lambda>ks. Inr ((s, k) # ks))))"

section \<open>Taking arguments\<close>

definition convert_value :: "conversion \<Rightarrow> string \<Rightarrow> pyval result" where
  "convert_value c v = (case c of
       Text \<Rightarrow> Inr (PStr v)
     | Number \<Rightarrow> (case float_of_text v of Some x \<Rightarrow> Inr (PFloat x) | None \<Rightarrow> Inl usage_error)
     | One_Of choices \<Rightarrow> if v \<in> set choices then Inr (PStr v) else Inl usage_error)"

definition store_value :: "string \<Rightarrow> conversion \<Rightarrow> string \<Rightarrow> namespace \<Rightarrow> namespace result" where
  "store_value dest c v ns = ebind (convert_value c v) (\<lambda>x. Inr (AList.update dest x ns))"

text \<open>
  The help option: with a value it is a usage error, except that the letters glued to \<open>-h\<close> are taken for further
  one-letter options, of which there is only \<open>-h\<close>.
\<close>

fun glued_help :: "string \<Rightarrow> exn" where
  "glued_help [] = help_shown"
| "glued_help (c # s) = (if c = CHR ''-'' then usage_error else if c \<noteq> CHR ''h'' then help_shown
     else if starts_with s ''='' then usage_error else glued_help s)"

definition help_exit :: "string \<Rightarrow> (bool \<times> string) option \<Rightarrow> exn" where
  "help_exit k v = (case v of
       None \<Rightarrow> help_shown
     | Some (equals, s) \<Rightarrow> if starts_with k ''--'' \<or> s = [] \<or> equals then usage_error else glued_help s)"

definition is_option :: "string \<times> token \<Rightarrow> bool" where
  "is_option w = (case snd w of Option_Word _ _ _ \<Rightarrow> True | _ \<Rightarrow> False)"

text \<open>The words a positional argument takes from the front, and what is left.\<close>

definition take_positional :: "positional option \<Rightarrow> (string \<times> token) list \<Rightarrow> (string list \<times> (string \<times> token) list) option" where
  "take_positional pos ws =
     (let lead = takeWhile (\<lambda>w. snd w = Separator) ws; others = drop (length lead) ws in
     case others of
       (s, Operand_Word) # rest \<Rightarrow> (case pos of
           None \<Rightarrow> None
         | Some Subcommand \<Rightarrow> Some (map fst ws, [])
         | Some (Operand dest) \<Rightarrow> (let trail = takeWhile (\<lambda>w. snd w = Separator) rest in
             Some (map fst lead @ s # map fst trail, drop (length trail) rest)))
     | _ \<Rightarrow> None)"

text \<open>\<open>sub\<close> runs the parser of a subcommand on its name and the words that follow.\<close>

definition store_positional ::
  "(string list \<Rightarrow> (namespace \<times> string list) result) \<Rightarrow> positional \<Rightarrow> string list \<Rightarrow> namespace \<times> string list
     \<Rightarrow> (namespace \<times> string list) result" where
  "store_positional sub pos taken st = (case pos of
       Operand dest \<Rightarrow> Inr (AList.update dest (PStr (hd (remove1 ''--'' taken))) (fst st), snd st)
     | Subcommand \<Rightarrow> ebind (sub taken) (\<lambda>(ns, extras). Inr (fst st @ ns, snd st @ extras)))"

text \<open>One option word and its value.\<close>

definition consume_optional ::
  "string \<Rightarrow> action option \<Rightarrow> string \<Rightarrow> (bool \<times> string) option \<Rightarrow> (string \<times> token) list \<Rightarrow> namespace \<times> string list
     \<Rightarrow> ((namespace \<times> string list) \<times> (string \<times> token) list) result" where
  "consume_optional s a k v rest st = (case a of
       None \<Rightarrow> Inr ((fst st, snd st @ [s]), rest)
     | Some Help \<Rightarrow> Inl (help_exit k v)
     | Some (Flag dest) \<Rightarrow> (case v of
         None \<Rightarrow> Inr ((AList.update dest (PBool True) (fst st), snd st), rest)
       | Some _ \<Rightarrow> Inl usage_error)
     | Some (Store dest c) \<Rightarrow> (case v of
         Some (_, x) \<Rightarrow> ebind (store_value dest c x (fst st)) (\<lambda>ns. Inr ((ns, snd st), rest))
       | None \<Rightarrow> (case rest of
           (x, Operand_Word) # rest' \<Rightarrow> ebind (store_value dest c x (fst st)) (\<lambda>ns. Inr ((ns, snd st), rest'))
         | _ \<Rightarrow> Inl usage_error)))"

lemma consume_optional_rest: "consume_optional s a k v rest st = Inr (st', rest') \<Longrightarrow> length rest' \<le> length rest"
  by (auto simp: consume_optional_def split: option.splits action.splits prod.splits list.splits token.splits)

lemma take_positional_rest: "take_positional pos ws = Some (taken, rest) \<Longrightarrow> length rest < length ws"
proof -
  assume taken: "take_positional pos ws = Some (taken, rest)"
  let ?lead = "takeWhile (\<lambda>w. snd w = Separator) ws"
  obtain s others where others: "drop (length ?lead) ws = (s, Operand_Word) # others"
    using taken by (auto simp: take_positional_def Let_def split: list.splits prod.splits token.splits)
  have "length others < length ws" using arg_cong [OF others, of length] by simp
  then show ?thesis using taken others by (auto simp: take_positional_def Let_def split: option.splits positional.splits)
qed

text \<open>
  Positional arguments and options in turn, until no option is left; then positional arguments once more.
  Yields the namespace, the words nobody took, and whether the positional argument is still wanted.
\<close>

function parse_words ::
  "(string list \<Rightarrow> (namespace \<times> string list) result) \<Rightarrow> positional option \<Rightarrow> (string \<times> token) list \<Rightarrow> namespace \<times> string list
     \<Rightarrow> ((namespace \<times> string list) \<times> positional option) result" where
  "parse_words sub pos ws st =
     (if \<not> (\<exists>w \<in> set ws. is_option w) then (case take_positional pos ws of
        None \<Rightarrow> Inr ((fst st, snd st @ map fst ws), pos)
      | Some (taken, rest) \<Rightarrow> ebind (store_positional sub (the pos) taken st) (\<lambda>st'. Inr ((fst st', snd st' @ map fst rest), None)))
      else case ws of
        (s, Option_Word a k v) # rest \<Rightarrow> (case consume_optional s a k v rest st of
            Inl e \<Rightarrow> Inl e
          | Inr (st', rest') \<Rightarrow> parse_words sub pos rest' st')
      | _ \<Rightarrow> (case take_positional pos ws of
            Some (taken, rest) \<Rightarrow> (case store_positional sub (the pos) taken st of
                Inl e \<Rightarrow> Inl e
              | Inr st' \<Rightarrow> parse_words sub None rest st')
          | None \<Rightarrow> parse_words sub pos (dropWhile (\<lambda>w. \<not> is_option w) ws)
              (fst st, snd st @ map fst (takeWhile (\<lambda>w. \<not> is_option w) ws))))"
  by pat_completeness auto

termination
proof (relation "measure (\<lambda>(sub, pos, ws, st). length ws)", simp)
qed (auto simp: is_option_def less_Suc_eq_le length_dropWhile_le dest: consume_optional_rest take_positional_rest)

declare parse_words.simps [simp del]

text \<open>\<open>parse_known_args\<close>: the namespace and the words nobody took.\<close>

definition parse_known ::
  "(string list \<Rightarrow> (namespace \<times> string list) result) \<Rightarrow> parser_spec \<Rightarrow> string list \<Rightarrow> (namespace \<times> string list) result" where
  "parse_known sub spec argv =
     ebind (classify_words (option_table spec) argv) (\<lambda>ws.
     ebind (parse_words sub (positional_arg spec) ws ([], [])) (\<lambda>(st, left).
     if (\<exists>dest \<in> set (required_dests spec). map_of (fst st) dest = None) \<or> (\<exists>dest. left = Some (Operand dest))
     then Inl usage_error else Inr st))"

definition parse_all ::
  "(string list \<Rightarrow> (namespace \<times> string list) result) \<Rightarrow> parser_spec \<Rightarrow> string list \<Rightarrow> namespace result" where
  "parse_all sub spec argv =
     ebind (parse_known sub spec argv) (\<lambda>(ns, extras). if extras \<noteq> [] then Inl usage_error else Inr ns)"

text \<open>Parsing with a table of subcommands; the name is stored under \<open>command\<close>.\<close>

definition run_subparser :: "(string \<times> parser_spec) list \<Rightarrow> string list \<Rightarrow> (namespace \<times> string list) result" where
  "run_subparser subs taken = (case taken of
       [] \<Rightarrow> Inl usage_error
     | name # argv \<Rightarrow> (case map_of subs name of
         None \<Rightarrow> Inl usage_error
       | Some spec \<Rightarrow> ebind (parse_known (\<lambda>_. Inl usage_error) spec argv) (\<lambda>(ns, extras).
           Inr ((''command'', PStr name) # ns, extras))))"

section \<open>Lemmas\<close>

lemma parse_words_option:
  "parse_words sub pos ((s, Option_Word a k v) # rest) st = (case consume_optional s a k v rest st of
     Inl e \<Rightarrow> Inl e | Inr (st', rest') \<Rightarrow> parse_words sub pos rest' st')"
  by (subst parse_words.simps) (simp add: is_option_def)

lemma parse_words_plain:
  assumes "\<exists>w \<in> set ws. is_option w" and "\<not> is_option (hd ws)"
  shows "parse_words sub pos ws st = (case take_positional pos ws of
      Some (taken, rest) \<Rightarrow> (case store_positional sub (the pos) taken st of
          Inl e \<Rightarrow> Inl e | Inr st' \<Rightarrow> parse_words sub None rest st')
    | None \<Rightarrow> parse_words sub pos (dropWhile (\<lambda>w. \<not> is_option w) ws)
        (fst st, snd st @ map fst (takeWhile (\<lambda>w. \<not> is_option w) ws)))"
proof -
  obtain s k rest where ws: "ws = (s, k) # rest" using assms(1) by (cases ws) auto
  then show ?thesis using assms by (subst parse_words.simps) (cases k; simp add: is_option_def)
qed

lemma parse_words_last:
  "\<not> (\<exists>w \<in> set ws. is_option w) \<Longrightarrow> parse_words sub pos ws st = (case take_positional pos ws of
        None \<Rightarrow> Inr ((fst st, snd st @ map fst ws), pos)
      | Some (taken, rest) \<Rightarrow> ebind (store_positional sub (the pos) taken st) (\<lambda>st'. Inr ((fst st', snd st' @ map fst rest), None)))"
  by (subst parse_words.simps) simp

text \<open>The options of a vector written with \<open>=\<close>, one after the other, when none of them is an operand.\<close>

lemma parse_words_assignment:
  "consume_optional s a k v rest st = Inr (st', rest) \<Longrightarrow>
   parse_words sub pos ((s, Option_Word a k v) # rest) st = parse_words sub pos rest st'"
  by (subst parse_words.simps) (simp add: is_option_def)

lemma parse_words_Nil: "parse_words sub pos [] st = Inr (st, pos)"
  by (subst parse_words.simps) (simp add: take_positional_def)

lemma parse_words_subcommand:
  "parse_words sub (Some Subcommand) ((name, Operand_Word) # ws) ([], [])
     = ebind (sub (name # map fst ws)) (\<lambda>st. Inr (st, None))"
proof -
  have "take_positional (Some Subcommand) ((name, Operand_Word) # ws) = Some (name # map fst ws, [])"
    by (simp add: take_positional_def)
  then show ?thesis
    by (subst parse_words.simps)
      (cases "sub (name # map fst ws)"; simp add: store_positional_def is_option_def parse_words_Nil split: prod.splits)
qed

text \<open>The two exits.\<close>

definition exits :: "exn \<Rightarrow> bool" where
  "exits e \<longleftrightarrow> e = usage_error \<or> e = help_shown"

lemma exits_cases [simp]: "exits usage_error" "exits help_shown"
  by (simp_all add: exits_def)

lemma classify_words_exits: "classify_words table ss = Inl e \<Longrightarrow> exits e"
proof (induction ss)
  case (Cons s ss)
  have word: "classify_word table s = Inl e \<Longrightarrow> exits e" for e
    by (auto simp: classify_word_def split: if_splits option.splits list.splits prod.splits)
  show ?case using Cons word by (auto simp: ebind_Inl_iff split: if_splits)
qed simp

lemma help_exits: "exits (help_exit k v)"
proof -
  have "exits (glued_help s)" for s by (induction s) simp_all
  then show ?thesis by (auto simp: help_exit_def split: option.splits)
qed

lemma store_value_exits: "store_value dest c v ns = Inl e \<Longrightarrow> exits e"
  by (auto simp: store_value_def convert_value_def ebind_Inl_iff split: conversion.splits option.splits if_splits)

lemma consume_optional_exits: "consume_optional s a k v rest st = Inl e \<Longrightarrow> exits e"
  by (auto simp: consume_optional_def ebind_Inl_iff help_exits
      split: option.splits action.splits prod.splits list.splits token.splits dest: store_value_exits)

lemma store_positional_exits:
  "store_positional sub pos taken st = Inl e \<Longrightarrow> (\<And>ts e. sub ts = Inl e \<Longrightarrow> exits e) \<Longrightarrow> exits e"
  by (auto simp: store_positional_def ebind_Inl_iff split: positional.splits)

lemma parse_words_exits:
  assumes sub: "\<And>ts e. sub ts = Inl e \<Longrightarrow> exits e"
  shows "parse_words sub pos ws st = Inl e \<Longrightarrow> exits e"
proof (induction "length ws" arbitrary: pos ws st rule: less_induct)
  case less
  note raises = less.prems
  show ?case
  proof (cases "\<exists>w \<in> set ws. is_option w")
    case False
    show ?thesis
    proof (cases "take_positional pos ws")
      case None
      then show ?thesis using raises False by (simp add: parse_words_last)
    next
      case (Some taken)
      obtain ts rest where "taken = (ts, rest)" by (cases taken)
      then have "store_positional sub (the pos) ts st = Inl e"
        using raises False Some by (simp add: parse_words_last ebind_Inl_iff)
      then show ?thesis using sub by (rule store_positional_exits)
    qed
  next
    case True
    then obtain s k rest where ws: "ws = (s, k) # rest" by (cases ws) auto
    show ?thesis
    proof (cases "is_option (s, k)")
      case option: True
      then obtain a n v where k: "k = Option_Word a n v" by (cases k) (auto simp: is_option_def)
      show ?thesis
      proof (cases "consume_optional s a n v rest st")
        case (Inl e')
        then show ?thesis using raises ws k by (auto simp: parse_words_option dest: consume_optional_exits)
      next
        case (Inr st')
        obtain st'' rest' where st': "st' = (st'', rest')" by (cases st')
        have "parse_words sub pos rest' st'' = Inl e" using raises ws k Inr st' by (simp add: parse_words_option)
        moreover have "length rest' < length ws" using consume_optional_rest [OF Inr [unfolded st']] ws by simp
        ultimately show ?thesis using less.hyps by blast
      qed
    next
      case plain: False
      note step = parse_words_plain [OF True, of sub pos st]
      show ?thesis
      proof (cases "take_positional pos ws")
        case None
        then have "parse_words sub pos (dropWhile (\<lambda>w. \<not> is_option w) ws)
            (fst st, snd st @ map fst (takeWhile (\<lambda>w. \<not> is_option w) ws)) = Inl e"
          using raises step plain ws by simp
        moreover have "length (dropWhile (\<lambda>w. \<not> is_option w) ws) < length ws"
          using plain ws by (simp add: less_Suc_eq_le length_dropWhile_le)
        ultimately show ?thesis using less.hyps by blast
      next
        case (Some taken)
        obtain ts rest' where taken: "taken = (ts, rest')" by (cases taken)
        show ?thesis
        proof (cases "store_positional sub (the pos) ts st")
          case (Inl e')
          then have "store_positional sub (the pos) ts st = Inl e" using raises step plain ws Some taken by simp
          then show ?thesis using sub by (rule store_positional_exits)
        next
          case (Inr st')
          then have "parse_words sub None rest' st' = Inl e" using raises step plain ws Some taken by simp
          then show ?thesis using less.hyps take_positional_rest [OF Some [unfolded taken]] by blast
        qed
      qed
    qed
  qed
qed

end
