(* ===== verification/Entry_Points.thy ===== *)
theory Entry_Points
  imports Argument_Parser
begin

text \<open>
  The entry points of the program: the capability gateway and the identities shown to it (\<open>mcp/gateway.py\<close>,
  \<open>mcp/identity.py\<close>), the two tools of the Azure function app, the registry (\<open>registry.py\<close>) and the command
  line (\<open>__main__.py\<close>).

  The gateway's adapter is the parameter \<open>adapter\<close>, a stateful operation per method name. The command line runs
  operations modelled elsewhere, which are the parameter \<open>command_set\<close> here: each yields the text to print;
  \<open>help_text\<close> is the help that \<open>argparse\<close> prints for an argument vector that asks for it.
  \<open>Command_Line\<close> parses the argument vector; rendering models as JSON is a library.
\<close>

section \<open>The capability gateway\<close>

record capability_result =
  cap_status :: string
  cap_name :: string
  cap_data :: "(string \<times> pyval) list"
  cap_reason :: "string option"

definition gateway_operations :: "(string \<times> string) list" where
  "gateway_operations = [(''vessel.status'', ''vessel_status''), (''execution.start'', ''execution_start''),
     (''execution.status'', ''execution_status''), (''execution.log'', ''execution_log''),
     (''execution.report'', ''execution_report''), (''execution.stop'', ''execution_stop'')]"

definition gateway_capabilities :: "string list" where
  "gateway_capabilities = map fst gateway_operations"

definition gateway_inspect :: "(string \<times> pyval) list list" where
  "gateway_inspect = map (\<lambda>c. [(''capability'', PStr c), (''discoverable'', PBool True), (''authorized'', PBool True),
     (''executable'', PBool True), (''authorization'', PStr ''bootstrap-operator'')]) gateway_capabilities"

definition gateway_invoke ::
  "(string \<Rightarrow> ('s, (string \<times> pyval) list) stateful) \<Rightarrow> string \<Rightarrow> ('s, capability_result) stateful" where
  "gateway_invoke adapter c = (case map_of gateway_operations c of
       None \<Rightarrow> yield_step (Inr \<lparr>cap_status = ''UNSUPPORTED'', cap_name = c, cap_data = [],
         cap_reason = Some ''Capability is not part of the first Long Haul MCP surface.''\<rparr>)
     | Some method \<Rightarrow> then_step (adapter method) (\<lambda>data.
         yield_step (Inr \<lparr>cap_status = ''OK'', cap_name = c, cap_data = data, cap_reason = None\<rparr>)))"

record principal =
  issuer :: string
  subject_id :: string
  tenant_id :: "string option"
  display_name :: "string option"
  client_id :: "string option"
  claims_held :: "(string \<times> string) list"

definition or_none :: "string option \<Rightarrow> pyval" where
  "or_none s = (case s of None \<Rightarrow> PNone | Some t \<Rightarrow> PStr t)"

definition public_view :: "principal \<Rightarrow> (string \<times> pyval) list" where
  "public_view p = [(''issuer'', PStr (issuer p)), (''subject'', PStr (subject_id p)), (''tenant_id'', or_none (tenant_id p)),
     (''name'', or_none (display_name p)), (''client_id'', or_none (client_id p))]"

text \<open>The tools of the function app; \<open>env\<close> is the environment.\<close>

definition identity_whoami :: "(string \<Rightarrow> string option) \<Rightarrow> pyval result" where
  "identity_whoami env = json_dumps (PDict [(''authenticated'', PBool True),
     (''provider'', PStr (case env ''LONG_HAUL_AUTH_PROVIDER'' of None \<Rightarrow> ''entra'' | Some p \<Rightarrow> p)),
     (''server_client_id'', or_none (env ''LONG_HAUL_MCP_SERVER_CLIENT_ID'')), (''phase'', PStr ''auth-spike'')])"

definition capabilities_inspect :: "pyval result" where
  "capabilities_inspect = json_dumps (PDict
     [(''capabilities'', PList [PStr ''identity.whoami'', PStr ''capabilities.inspect'']), (''reference_vessel_authority'', PBool False)])"

section \<open>The registry\<close>

text \<open>
  \<open>files\<close> reads a text file, \<open>yaml\<close> is \<open>yaml.safe_load\<close>, \<open>vessel_of\<close> and \<open>crew_of\<close> coerce its value to the fields
  of the model, whose validators run last.
\<close>

definition load_crew :: "(string \<Rightarrow> string result) \<Rightarrow> (string \<Rightarrow> pyval result) \<Rightarrow> (pyval \<Rightarrow> crew_member result) \<Rightarrow> string \<Rightarrow> crew_member result" where
  "load_crew files yaml crew_of path =
     ebind (files path) (\<lambda>t. ebind (yaml t) (\<lambda>v. ebind (crew_of v) (\<lambda>m. case crew_embodiment m of
         None \<Rightarrow> Inr m
       | Some e \<Rightarrow> ebind (validate_embodiment e) (\<lambda>e'. Inr (m\<lparr>crew_embodiment := Some e'\<rparr>)))))"

definition load_vessel :: "(string \<Rightarrow> string result) \<Rightarrow> (string \<Rightarrow> pyval result) \<Rightarrow> (pyval \<Rightarrow> vessel result) \<Rightarrow> string \<Rightarrow> vessel result" where
  "load_vessel files yaml vessel_of path =
     ebind (files path) (\<lambda>t. ebind (yaml t) (\<lambda>v. ebind (vessel_of v) validate_vessel))"

section \<open>The command line\<close>

record discover_args =
  arg_vessel_id :: string
  arg_name :: "string option"
  arg_class :: vessel_class
  arg_prefix :: "string option"
  arg_output :: "string option"

record reference_args =
  ref_binary :: string
  ref_model :: string
  ref_output :: string
  ref_timeout :: pyfloat
  ref_vessel_id :: "string option"
  ref_vessel_name :: "string option"
  ref_prefix :: "string option"

record matrix_args =
  mx_binary :: string
  mx_model :: string
  mx_manifest :: string
  mx_output :: string
  mx_timeout :: pyfloat

record replay_args =
  rp_vessel :: string
  rp_matrix_report :: string
  rp_benchmarks :: string
  rp_workload :: "string option"

record import_args =
  im_manifest :: string
  im_profile_id :: string
  im_raw :: string
  im_output :: string

text \<open>The parsed arguments of each command.\<close>

datatype command = Show_Manifest string | Discover_Vessel discover_args | Validate_Reference reference_args
  | Benchmark_Matrix_Run matrix_args | Benchmark_Scheduler_Run replay_args | Import_Llama_Bench import_args | No_Command

record command_set =
  load_manifest :: "string \<Rightarrow> vessel result"
  discover_linux :: "string \<Rightarrow> string \<Rightarrow> vessel_class \<Rightarrow> vessel result"
  discover_windows :: "string \<Rightarrow> string \<Rightarrow> vessel_class \<Rightarrow> string option \<Rightarrow> vessel result"
  on_windows :: bool
  render :: "vessel \<Rightarrow> string"
  reference_text :: "string \<Rightarrow> string \<Rightarrow> string \<Rightarrow> pyfloat \<Rightarrow> string option \<Rightarrow> string option \<Rightarrow> string option \<Rightarrow> string result"
  matrix_text :: "string \<Rightarrow> string \<Rightarrow> string \<Rightarrow> string \<Rightarrow> pyfloat \<Rightarrow> string result"
  replay_text :: "string \<Rightarrow> string \<Rightarrow> string \<Rightarrow> string option \<Rightarrow> string result"
  import_text :: "string \<Rightarrow> string \<Rightarrow> string \<Rightarrow> string \<Rightarrow> string result"
  write_failure :: "string \<Rightarrow> exn option"
  help_text :: "string list \<Rightarrow> string"

record console =
  printed :: "string list"
  files_written :: "(string \<times> string) list"

definition print_text :: "string \<Rightarrow> (console, unit) stateful" where
  "print_text t = change (\<lambda>s. s\<lparr>printed := printed s @ [t]\<rparr>)"

definition write_text :: "command_set \<Rightarrow> string \<Rightarrow> string \<Rightarrow> (console, unit) stateful" where
  "write_text cs path t = (case write_failure cs path of
       Some e \<Rightarrow> yield_step (Inl e)
     | None \<Rightarrow> change (\<lambda>s. s\<lparr>files_written := files_written s @ [(path, t)]\<rparr>))"

definition nonempty_or :: "string option \<Rightarrow> string \<Rightarrow> string" where
  "nonempty_or s d = (case nonempty_text s of None \<Rightarrow> d | Some t \<Rightarrow> t)"

definition found_by :: "command_set \<Rightarrow> discover_args \<Rightarrow> vessel result" where
  "found_by cs a = (let name = nonempty_or (arg_name a) (arg_vessel_id a) in
     if on_windows cs then discover_windows cs (arg_vessel_id a) name (arg_class a) (arg_prefix a)
     else discover_linux cs (arg_vessel_id a) name (arg_class a))"

definition discover_command :: "command_set \<Rightarrow> discover_args \<Rightarrow> (console, unit) stateful" where
  "discover_command cs a =
     then_step (yield_step (found_by cs a)) (\<lambda>v.
     then_step (case nonempty_text (arg_output a) of None \<Rightarrow> yield_step (Inr ())
         | Some path \<Rightarrow> write_text cs path (render cs v @ [char_of (10 :: nat)])) (\<lambda>_.
     print_text (render cs v)))"

text \<open>The other handlers pass their arguments to an operation and print its rendered result.\<close>

definition print_result :: "string result \<Rightarrow> (console, unit) stateful" where
  "print_result r = then_step (yield_step r) print_text"

definition show_command :: "command_set \<Rightarrow> string \<Rightarrow> (console, unit) stateful" where
  "show_command cs path = then_step (yield_step (load_manifest cs path)) (\<lambda>v. print_text (render cs v))"

definition reference_command :: "command_set \<Rightarrow> reference_args \<Rightarrow> (console, unit) stateful" where
  "reference_command cs a = print_result (reference_text cs (ref_binary a) (ref_model a) (ref_output a) (ref_timeout a)
     (ref_vessel_id a) (ref_vessel_name a) (ref_prefix a))"

definition matrix_command :: "command_set \<Rightarrow> matrix_args \<Rightarrow> (console, unit) stateful" where
  "matrix_command cs a = print_result (matrix_text cs (mx_binary a) (mx_model a) (mx_manifest a) (mx_output a) (mx_timeout a))"

definition replay_command :: "command_set \<Rightarrow> replay_args \<Rightarrow> (console, unit) stateful" where
  "replay_command cs a = print_result (replay_text cs (rp_vessel a) (rp_matrix_report a) (rp_benchmarks a) (rp_workload a))"

definition import_command :: "command_set \<Rightarrow> import_args \<Rightarrow> (console, unit) stateful" where
  "import_command cs a = print_result (import_text cs (im_manifest a) (im_profile_id a) (im_raw a) (im_output a))"

definition run_main :: "command_set \<Rightarrow> command \<Rightarrow> (console, unit) stateful" where
  "run_main cs c = (case c of
       Show_Manifest path \<Rightarrow> show_command cs path
     | Discover_Vessel a \<Rightarrow> discover_command cs a
     | Validate_Reference a \<Rightarrow> reference_command cs a
     | Benchmark_Matrix_Run a \<Rightarrow> matrix_command cs a
     | Benchmark_Scheduler_Run a \<Rightarrow> replay_command cs a
     | Import_Llama_Bench a \<Rightarrow> import_command cs a
     | No_Command \<Rightarrow> yield_step (Inl usage_error))"

section \<open>Properties\<close>

lemma gateway_operations_distinct: "distinct (map fst gateway_operations)" "distinct (map snd gateway_operations)"
  by code_simp+

text \<open>
  The gateway gives no authority beyond its table: a capability outside it is answered \<open>UNSUPPORTED\<close> without
  touching the adapter, whatever the adapter could do; one inside it calls exactly its own method, once, and
  answers that method's data or lets its exception through; and what \<open>inspect\<close> lists as executable is exactly
  what \<open>invoke\<close> supports.
\<close>

theorem gateway_authority:
  "(c \<notin> set gateway_capabilities \<longleftrightarrow> map_of gateway_operations c = None)
    \<and> (c \<in> set gateway_capabilities \<longleftrightarrow> (\<exists>entry \<in> set gateway_inspect. map_of entry ''capability'' = Some (PStr c)))
    \<and> (case map_of gateway_operations c of
        None \<Rightarrow> (\<exists>r. gateway_invoke adapter c s = (Inr r, s) \<and> cap_status r = ''UNSUPPORTED'' \<and> cap_data r = [])
      | Some method \<Rightarrow> (case adapter method s of
          (Inl e, s') \<Rightarrow> gateway_invoke adapter c s = (Inl e, s')
        | (Inr data, s') \<Rightarrow> (\<exists>r. gateway_invoke adapter c s = (Inr r, s') \<and> cap_status r = ''OK'' \<and> cap_data r = data)))"
proof -
  have "(\<exists>entry \<in> set gateway_inspect. map_of entry ''capability'' = Some (PStr c)) \<longleftrightarrow> c \<in> set gateway_capabilities"
    by (simp add: gateway_inspect_def image_iff eq_commute)
  moreover have "c \<notin> set gateway_capabilities \<longleftrightarrow> map_of gateway_operations c = None"
    by (simp add: gateway_capabilities_def map_of_eq_None_iff)
  moreover have "case map_of gateway_operations c of
        None \<Rightarrow> (\<exists>r. gateway_invoke adapter c s = (Inr r, s) \<and> cap_status r = ''UNSUPPORTED'' \<and> cap_data r = [])
      | Some method \<Rightarrow> (case adapter method s of
          (Inl e, s') \<Rightarrow> gateway_invoke adapter c s = (Inl e, s')
        | (Inr data, s') \<Rightarrow> (\<exists>r. gateway_invoke adapter c s = (Inr r, s') \<and> cap_status r = ''OK'' \<and> cap_data r = data))"
    by (auto simp: gateway_invoke_def then_step_def split: option.splits prod.splits sum.splits)
  ultimately show ?thesis by blast
qed

text \<open>
  The command line shows what it did: \<open>discover\<close> prints a vessel exactly when discovery found one and the
  requested file, if any, was written; the file then holds the printed text and a newline. When discovery or
  the write fails nothing is printed and no file is recorded as written.
\<close>

theorem discover_command_reports:
  "(case discover_command cs a s of
      (Inr _, s') \<Rightarrow> (\<exists>v. found_by cs a = Inr v \<and> printed s' = printed s @ [render cs v]
        \<and> (case nonempty_text (arg_output a) of
             None \<Rightarrow> files_written s' = files_written s
           | Some path \<Rightarrow> write_failure cs path = None
               \<and> files_written s' = files_written s @ [(path, render cs v @ [char_of (10 :: nat)])]))
    | (Inl e, s') \<Rightarrow> s' = s \<and> (found_by cs a = Inl e \<or> (\<exists>path. nonempty_text (arg_output a) = Some path \<and> write_failure cs path = Some e)))"
  by (cases "found_by cs a"; cases "nonempty_text (arg_output a)")
    (auto simp: discover_command_def write_text_def print_text_def then_step_def yield_step_def change_def split: option.splits)

end
