(* ===== verification/Command_Line.thy ===== *)
theory Command_Line
  imports Entry_Points
begin

text \<open>
  The command line of \<open>__main__.py\<close>: the parsers it declares, the arguments its handlers read, and the program
  from the argument vector to what it prints. A written command line reads back as its command, and every
  argument vector either is a command or ends the program with status 0 or 2.
\<close>

section \<open>The parsers\<close>

definition help_options :: "(string \<times> action) list" where
  "help_options = [(''-h'', Help), (''--help'', Help)]"

definition show_parser :: parser_spec where
  "show_parser = \<lparr>option_table = help_options, required_dests = [], positional_arg = Some (Operand ''manifest'')\<rparr>"

definition discover_parser :: parser_spec where
  "discover_parser = \<lparr>option_table = help_options @ [(''--vessel-id'', Store ''vessel_id'' Text), (''--name'', Store ''name'' Text),
     (''--class-name'', Store ''class_name'' (One_Of [''station'', ''ship'', ''light_craft''])),
     (''--resource-prefix'', Store ''resource_prefix'' Text), (''--output'', Store ''output'' Text)],
     required_dests = [''vessel_id''], positional_arg = None\<rparr>"

definition reference_parser :: parser_spec where
  "reference_parser = \<lparr>option_table = help_options @ [(''--binary'', Store ''binary'' Text), (''--model'', Store ''model'' Text),
     (''--output'', Store ''output'' Text), (''--timeout'', Store ''timeout'' Number), (''--vessel-id'', Store ''vessel_id'' Text),
     (''--vessel-name'', Store ''vessel_name'' Text), (''--resource-prefix'', Store ''resource_prefix'' Text)],
     required_dests = [''binary'', ''model''], positional_arg = None\<rparr>"

definition matrix_parser :: parser_spec where
  "matrix_parser = \<lparr>option_table = help_options @ [(''--binary'', Store ''binary'' Text), (''--model'', Store ''model'' Text),
     (''--manifest'', Store ''manifest'' Text), (''--output'', Store ''output'' Text), (''--timeout'', Store ''timeout'' Number)],
     required_dests = [''binary'', ''model'', ''manifest''], positional_arg = None\<rparr>"

definition replay_parser :: parser_spec where
  "replay_parser = \<lparr>option_table = help_options @ [(''--vessel'', Store ''vessel'' Text),
     (''--matrix-report'', Store ''matrix_report'' Text), (''--benchmarks'', Store ''benchmarks'' Text), (''--workload'', Store ''workload'' Text)],
     required_dests = [''vessel'', ''matrix_report'', ''benchmarks''], positional_arg = None\<rparr>"

definition import_parser :: parser_spec where
  "import_parser = \<lparr>option_table = help_options @ [(''--manifest'', Store ''manifest'' Text),
     (''--profile-id'', Store ''profile_id'' Text), (''--raw'', Store ''raw'' Text), (''--output'', Store ''output'' Text)],
     required_dests = [''manifest'', ''profile_id'', ''raw'', ''output''], positional_arg = None\<rparr>"

definition subparsers :: "(string \<times> parser_spec) list" where
  "subparsers = [(''show'', show_parser), (''discover'', discover_parser), (''validate-reference'', reference_parser),
     (''benchmark-matrix'', matrix_parser), (''benchmark-scheduler'', replay_parser), (''import-llama-bench'', import_parser)]"

definition main_parser :: parser_spec where
  "main_parser = \<lparr>option_table = help_options, required_dests = [], positional_arg = Some Subcommand\<rparr>"

section \<open>Arguments\<close>

text \<open>The value of a destination, or its default.\<close>

definition given :: "namespace \<Rightarrow> string \<Rightarrow> string option" where
  "given ns d = (case map_of ns d of Some (PStr s) \<Rightarrow> Some s | _ \<Rightarrow> None)"

definition given_or :: "namespace \<Rightarrow> string \<Rightarrow> string \<Rightarrow> string" where
  "given_or ns d fallback = (case given ns d of Some s \<Rightarrow> s | None \<Rightarrow> fallback)"

definition given_timeout :: "namespace \<Rightarrow> pyfloat" where
  "given_timeout ns = (case map_of ns ''timeout'' of Some (PFloat x) \<Rightarrow> x | _ \<Rightarrow> Fin 900)"

definition class_of_name :: "string \<Rightarrow> vessel_class" where
  "class_of_name s = (if s = ''ship'' then Ship else if s = ''light_craft'' then LightCraft else Station)"

definition command_of :: "namespace \<Rightarrow> command" where
  "command_of ns = (let name = given ns ''command''; req = (\<lambda>d. given_or ns d []) in
     if name = Some ''show'' then Show_Manifest (req ''manifest'')
     else if name = Some ''discover'' then Discover_Vessel \<lparr>arg_vessel_id = req ''vessel_id'', arg_name = given ns ''name'',
       arg_class = class_of_name (given_or ns ''class_name'' ''station''), arg_prefix = given ns ''resource_prefix'',
       arg_output = given ns ''output''\<rparr>
     else if name = Some ''validate-reference'' then Validate_Reference \<lparr>ref_binary = req ''binary'', ref_model = req ''model'',
       ref_output = given_or ns ''output'' ''reference-run'', ref_timeout = given_timeout ns, ref_vessel_id = given ns ''vessel_id'',
       ref_vessel_name = given ns ''vessel_name'', ref_prefix = given ns ''resource_prefix''\<rparr>
     else if name = Some ''benchmark-matrix'' then Benchmark_Matrix_Run \<lparr>mx_binary = req ''binary'', mx_model = req ''model'',
       mx_manifest = req ''manifest'', mx_output = given_or ns ''output'' ''benchmark-matrix'', mx_timeout = given_timeout ns\<rparr>
     else if name = Some ''benchmark-scheduler'' then Benchmark_Scheduler_Run \<lparr>rp_vessel = req ''vessel'',
       rp_matrix_report = req ''matrix_report'', rp_benchmarks = req ''benchmarks'', rp_workload = given ns ''workload''\<rparr>
     else if name = Some ''import-llama-bench'' then Import_Llama_Bench \<lparr>im_manifest = req ''manifest'', im_profile_id = req ''profile_id'',
       im_raw = req ''raw'', im_output = req ''output''\<rparr>
     else No_Command)"

definition parse_command :: "string list \<Rightarrow> command result" where
  "parse_command argv = ebind (parse_all (run_subparser subparsers) main_parser argv) (\<lambda>ns. Inr (command_of ns))"

text \<open>The program, from the argument vector; \<open>argparse\<close> prints the help it ends with (usage errors go to stderr).\<close>

definition program :: "command_set \<Rightarrow> string list \<Rightarrow> (console, unit) stateful" where
  "program cs argv = (case parse_command argv of
       Inl e \<Rightarrow> if e = help_shown then then_step (print_text (help_text cs argv)) (\<lambda>_. yield_step (Inl e)) else yield_step (Inl e)
     | Inr c \<Rightarrow> run_main cs c)"

section \<open>Written command lines\<close>

definition assign_word :: "string \<times> string \<Rightarrow> string" where
  "assign_word kv = fst kv @ ''='' @ snd kv"

definition optional :: "string \<Rightarrow> string option \<Rightarrow> (string \<times> string) list" where
  "optional k v = (case v of None \<Rightarrow> [] | Some s \<Rightarrow> [(k, s)])"

definition class_name_of :: "vessel_class \<Rightarrow> string" where
  "class_name_of c = (case c of Station \<Rightarrow> ''station'' | Ship \<Rightarrow> ''ship'' | LightCraft \<Rightarrow> ''light_craft'')"

text \<open>\<open>text_of\<close> writes a number.\<close>

definition command_line :: "(pyfloat \<Rightarrow> string) \<Rightarrow> command \<Rightarrow> string list" where
  "command_line text_of c = (case c of
       Show_Manifest m \<Rightarrow> [''show'', ''--'', m]
     | Discover_Vessel a \<Rightarrow> ''discover'' # map assign_word ((''--vessel-id'', arg_vessel_id a) # optional ''--name'' (arg_name a)
         @ (''--class-name'', class_name_of (arg_class a)) # optional ''--resource-prefix'' (arg_prefix a) @ optional ''--output'' (arg_output a))
     | Validate_Reference a \<Rightarrow> ''validate-reference'' # map assign_word ([(''--binary'', ref_binary a), (''--model'', ref_model a),
         (''--output'', ref_output a), (''--timeout'', text_of (ref_timeout a))] @ optional ''--vessel-id'' (ref_vessel_id a)
         @ optional ''--vessel-name'' (ref_vessel_name a) @ optional ''--resource-prefix'' (ref_prefix a))
     | Benchmark_Matrix_Run a \<Rightarrow> ''benchmark-matrix'' # map assign_word [(''--binary'', mx_binary a), (''--model'', mx_model a),
         (''--manifest'', mx_manifest a), (''--output'', mx_output a), (''--timeout'', text_of (mx_timeout a))]
     | Benchmark_Scheduler_Run a \<Rightarrow> ''benchmark-scheduler'' # map assign_word ([(''--vessel'', rp_vessel a),
         (''--matrix-report'', rp_matrix_report a), (''--benchmarks'', rp_benchmarks a)] @ optional ''--workload'' (rp_workload a))
     | Import_Llama_Bench a \<Rightarrow> ''import-llama-bench'' # map assign_word [(''--manifest'', im_manifest a),
         (''--profile-id'', im_profile_id a), (''--raw'', im_raw a), (''--output'', im_output a)]
     | No_Command \<Rightarrow> [])"

section \<open>Reading assignments\<close>

fun assign_all :: "(string \<times> action) list \<Rightarrow> (string \<times> string) list \<Rightarrow> namespace \<Rightarrow> namespace result" where
  "assign_all table [] ns = Inr ns"
| "assign_all table ((k, v) # kvs) ns = (case map_of table k of
       Some (Store d c) \<Rightarrow> ebind (store_value d c v ns) (assign_all table kvs)
     | _ \<Rightarrow> Inl usage_error)"

definition long_keys :: "(string \<times> action) list \<Rightarrow> bool" where
  "long_keys table \<longleftrightarrow> (\<forall>ka \<in> set table. CHR ''='' \<notin> set (fst ka))"

definition assignable :: "(string \<times> action) list \<Rightarrow> string \<times> string \<Rightarrow> bool" where
  "assignable table kv \<longleftrightarrow> starts_with (fst kv) ''-'' \<and> length (fst kv) > 2
     \<and> (case map_of table (fst kv) of Some (Store d c) \<Rightarrow> True | _ \<Rightarrow> False)"

lemma split_at_equals:
  "CHR ''='' \<notin> set k \<Longrightarrow> takeWhile (\<lambda>c. c \<noteq> CHR ''='') (k @ CHR ''='' # v) = k"
  "CHR ''='' \<notin> set k \<Longrightarrow> dropWhile (\<lambda>c. c \<noteq> CHR ''='') (k @ CHR ''='' # v) = CHR ''='' # v"
  by (induction k) auto

lemma classify_assignment:
  assumes "long_keys table" and "assignable table kv"
  shows "classify_word table (assign_word kv) = Inr (Option_Word (map_of table (fst kv)) (fst kv) (Some (True, snd kv)))"
    "assign_word kv \<noteq> ''--''"
proof -
  obtain a where a: "map_of table (fst kv) = Some a" using assms(2) by (auto simp: assignable_def split: option.splits)
  have plain: "CHR ''='' \<notin> set (fst kv)" using assms(1) map_of_SomeD [OF a] by (auto simp: long_keys_def)
  have "map_of table (assign_word kv) = None"
    using assms(1) by (force simp: map_of_eq_None_iff long_keys_def assign_word_def)
  moreover have "before_equals (assign_word kv) = fst kv" "explicit_value (assign_word kv) = Some (True, snd kv)"
    using plain by (simp_all add: before_equals_def explicit_value_def assign_word_def split_at_equals)
  moreover have key: "starts_with (fst kv) ''-''" "length (fst kv) > 2" using assms(2) unfolding assignable_def by blast+
  then obtain c k where k: "fst kv = c # k" by (cases "fst kv") auto
  have word: "starts_with (assign_word kv) ''-''" "length (assign_word kv) > 2" "CHR ''='' \<in> set (assign_word kv)"
    using key by (auto simp: k assign_word_def)
  ultimately show "classify_word table (assign_word kv) = Inr (Option_Word (map_of table (fst kv)) (fst kv) (Some (True, snd kv)))"
    using a word by (simp add: classify_word_def)
  show "assign_word kv \<noteq> ''--''" using word(2) by auto
qed

lemma parse_known_assignments:
  assumes "long_keys (option_table spec)" and "list_all (assignable (option_table spec)) kvs" and "positional_arg spec = None"
  shows "parse_known sub spec (map assign_word kvs) = ebind (assign_all (option_table spec) kvs []) (\<lambda>ns.
    if \<exists>d \<in> set (required_dests spec). map_of ns d = None then Inl usage_error else Inr (ns, []))"
proof -
  let ?table = "option_table spec"
  let ?words = "map (\<lambda>kv. (assign_word kv, Option_Word (map_of ?table (fst kv)) (fst kv) (Some (True, snd kv))))"
  have classified: "classify_words ?table (map assign_word kvs) = Inr (?words kvs)"
    using assms(2) by (induction kvs) (auto simp: classify_assignment [OF assms(1)])
  have "parse_words sub None (?words kvs) (ns, []) = ebind (assign_all ?table kvs ns) (\<lambda>ns. Inr ((ns, []), None))" for ns
    using assms(2)
  proof (induction kvs arbitrary: ns)
    case (Cons kv kvs)
    obtain k v where kv: "kv = (k, v)" by (cases kv)
    from Cons.prems obtain d c where "map_of ?table k = Some (Store d c)"
      by (auto simp: kv assignable_def split: option.splits action.splits)
    then show ?case using Cons by (cases "store_value d c v ns") (auto simp: kv parse_words_option consume_optional_def)
  qed (simp add: parse_words_Nil)
  then show ?thesis
    using assms(3) by (simp add: parse_known_def classified) (cases "assign_all ?table kvs []"; simp)
qed

section \<open>Dispatch\<close>

lemma main_word: "\<exists>k. classify_word help_options s = Inr k"
proof (cases "starts_with s ''-'' \<and> length s \<noteq> 1")
  case True
  then obtain c t where s: "s = CHR ''-'' # c # t" by (cases s; cases "tl s") auto
  have "length (option_candidates help_options s) \<le> 1"
    by (simp add: s option_candidates_def help_options_def before_equals_def List.map_filter_simps)
  then have "option_candidates help_options s = [] \<or> (\<exists>a k v. option_candidates help_options s = [(a, k, v)])"
    by (cases "option_candidates help_options s") auto
  then show ?thesis by (auto simp: classify_word_def split: option.splits)
qed (auto simp: classify_word_def split: option.splits)

lemma main_words: "\<exists>ws. classify_words help_options ss = Inr ws \<and> map fst ws = ss"
proof (induction ss)
  case (Cons s ss)
  then show ?case using main_word [of s] by (auto simp: comp_def)
qed simp

lemma parse_main:
  assumes "\<not> starts_with name ''-''"
  shows "parse_all (run_subparser subs) main_parser (name # argv) =
    ebind (run_subparser subs (name # argv)) (\<lambda>(ns, extras). if extras \<noteq> [] then Inl usage_error else Inr ns)"
proof -
  obtain ws where ws: "classify_words help_options argv = Inr ws" "map fst ws = argv" using main_words by blast
  have "name \<noteq> ''--''" using assms by auto
  then have "classify_words help_options (name # argv) = Inr ((name, Operand_Word) # ws)"
    using assms ws by (simp add: classify_word_def)
  then show ?thesis
    using ws by (cases "run_subparser subs (name # argv)")
      (auto simp: parse_all_def parse_known_def main_parser_def parse_words_subcommand)
qed

section \<open>Properties\<close>

text \<open>Each subcommand with its options written as assignments.\<close>

lemma parse_assigned:
  assumes "map_of subs name = Some spec" and "\<not> starts_with name ''-''" and "long_keys (option_table spec)"
    and "list_all (assignable (option_table spec)) kvs" and "positional_arg spec = None"
    and "assign_all (option_table spec) kvs [] = Inr ns" and "\<forall>d \<in> set (required_dests spec). map_of ns d \<noteq> None"
  shows "parse_all (run_subparser subs) main_parser (name # map assign_word kvs) = Inr ((''command'', PStr name) # ns)"
  using assms(1,6,7) parse_known_assignments [OF assms(3-5)]
  by (auto simp: parse_main [OF assms(2)] run_subparser_def)

lemmas parsers = discover_parser_def reference_parser_def matrix_parser_def replay_parser_def import_parser_def help_options_def
  long_keys_def assignable_def optional_def store_value_def convert_value_def

lemma discover_line_parses: "parse_command (command_line text_of (Discover_Vessel a)) = Inr (Discover_Vessel a)"
proof -
  let ?kvs = "(''--vessel-id'', arg_vessel_id a) # optional ''--name'' (arg_name a)
         @ (''--class-name'', class_name_of (arg_class a)) # optional ''--resource-prefix'' (arg_prefix a) @ optional ''--output'' (arg_output a)"
  let ?opt = "\<lambda>d v. case v of None \<Rightarrow> [] | Some s \<Rightarrow> [(d, PStr s)]"
  let ?ns = "(''vessel_id'', PStr (arg_vessel_id a)) # ?opt ''name'' (arg_name a) @ (''class_name'', PStr (class_name_of (arg_class a)))
    # ?opt ''resource_prefix'' (arg_prefix a) @ ?opt ''output'' (arg_output a)"
  have "parse_all (run_subparser subparsers) main_parser (''discover'' # map assign_word ?kvs) = Inr ((''command'', PStr ''discover'') # ?ns)"
  proof (rule parse_assigned [where spec = discover_parser])
    show "assign_all (option_table discover_parser) ?kvs [] = Inr ?ns"
      by (cases "arg_name a"; cases "arg_prefix a"; cases "arg_output a"; cases "arg_class a") (simp_all add: parsers class_name_of_def)
  qed (auto simp: subparsers_def parsers split: option.splits)
  then show ?thesis
    by (cases "arg_name a"; cases "arg_prefix a"; cases "arg_output a"; cases "arg_class a")
      (simp_all add: parse_command_def command_line_def command_of_def given_or_def given_def class_name_of_def class_of_name_def)
qed

lemma reference_line_parses:
  assumes "float_of_text (text_of (ref_timeout a)) = Some (ref_timeout a)"
  shows "parse_command (command_line text_of (Validate_Reference a)) = Inr (Validate_Reference a)"
proof -
  let ?kvs = "[(''--binary'', ref_binary a), (''--model'', ref_model a), (''--output'', ref_output a), (''--timeout'', text_of (ref_timeout a))]
    @ optional ''--vessel-id'' (ref_vessel_id a) @ optional ''--vessel-name'' (ref_vessel_name a) @ optional ''--resource-prefix'' (ref_prefix a)"
  let ?opt = "\<lambda>d v. case v of None \<Rightarrow> [] | Some s \<Rightarrow> [(d, PStr s)]"
  let ?ns = "[(''binary'', PStr (ref_binary a)), (''model'', PStr (ref_model a)), (''output'', PStr (ref_output a)), (''timeout'', PFloat (ref_timeout a))]
    @ ?opt ''vessel_id'' (ref_vessel_id a) @ ?opt ''vessel_name'' (ref_vessel_name a) @ ?opt ''resource_prefix'' (ref_prefix a)"
  have "parse_all (run_subparser subparsers) main_parser (''validate-reference'' # map assign_word ?kvs)
      = Inr ((''command'', PStr ''validate-reference'') # ?ns)"
  proof (rule parse_assigned [where spec = reference_parser])
    show "assign_all (option_table reference_parser) ?kvs [] = Inr ?ns"
      using assms by (cases "ref_vessel_id a"; cases "ref_vessel_name a"; cases "ref_prefix a") (simp_all add: parsers)
  qed (auto simp: subparsers_def parsers split: option.splits)
  then show ?thesis
    by (cases "ref_vessel_id a"; cases "ref_vessel_name a"; cases "ref_prefix a")
      (simp_all add: parse_command_def command_line_def command_of_def given_or_def given_def given_timeout_def)
qed

lemma matrix_line_parses:
  assumes "float_of_text (text_of (mx_timeout a)) = Some (mx_timeout a)"
  shows "parse_command (command_line text_of (Benchmark_Matrix_Run a)) = Inr (Benchmark_Matrix_Run a)"
proof -
  let ?kvs = "[(''--binary'', mx_binary a), (''--model'', mx_model a), (''--manifest'', mx_manifest a), (''--output'', mx_output a),
    (''--timeout'', text_of (mx_timeout a))]"
  have "parse_all (run_subparser subparsers) main_parser (''benchmark-matrix'' # map assign_word ?kvs)
      = Inr [(''command'', PStr ''benchmark-matrix''), (''binary'', PStr (mx_binary a)), (''model'', PStr (mx_model a)),
        (''manifest'', PStr (mx_manifest a)), (''output'', PStr (mx_output a)), (''timeout'', PFloat (mx_timeout a))]"
    by (rule parse_assigned [where spec = matrix_parser]) (use assms in \<open>auto simp: subparsers_def parsers\<close>)
  then show ?thesis
    by (simp add: parse_command_def command_line_def command_of_def given_or_def given_def given_timeout_def)
qed

lemma replay_line_parses: "parse_command (command_line text_of (Benchmark_Scheduler_Run a)) = Inr (Benchmark_Scheduler_Run a)"
proof -
  let ?kvs = "[(''--vessel'', rp_vessel a), (''--matrix-report'', rp_matrix_report a), (''--benchmarks'', rp_benchmarks a)]
    @ optional ''--workload'' (rp_workload a)"
  let ?ns = "[(''vessel'', PStr (rp_vessel a)), (''matrix_report'', PStr (rp_matrix_report a)), (''benchmarks'', PStr (rp_benchmarks a))]
    @ (case rp_workload a of None \<Rightarrow> [] | Some s \<Rightarrow> [(''workload'', PStr s)])"
  have "parse_all (run_subparser subparsers) main_parser (''benchmark-scheduler'' # map assign_word ?kvs)
      = Inr ((''command'', PStr ''benchmark-scheduler'') # ?ns)"
  proof (rule parse_assigned [where spec = replay_parser])
    show "assign_all (option_table replay_parser) ?kvs [] = Inr ?ns" by (cases "rp_workload a") (simp_all add: parsers)
  qed (auto simp: subparsers_def parsers split: option.splits)
  then show ?thesis
    by (cases "rp_workload a") (simp_all add: parse_command_def command_line_def command_of_def given_or_def given_def)
qed

lemma import_line_parses: "parse_command (command_line text_of (Import_Llama_Bench a)) = Inr (Import_Llama_Bench a)"
proof -
  let ?kvs = "[(''--manifest'', im_manifest a), (''--profile-id'', im_profile_id a), (''--raw'', im_raw a), (''--output'', im_output a)]"
  have "parse_all (run_subparser subparsers) main_parser (''import-llama-bench'' # map assign_word ?kvs)
      = Inr [(''command'', PStr ''import-llama-bench''), (''manifest'', PStr (im_manifest a)), (''profile_id'', PStr (im_profile_id a)),
        (''raw'', PStr (im_raw a)), (''output'', PStr (im_output a))]"
    by (rule parse_assigned [where spec = import_parser]) (auto simp: subparsers_def parsers)
  then show ?thesis
    by (simp add: parse_command_def command_line_def command_of_def given_or_def given_def)
qed

lemma show_line_parses: "parse_command (command_line text_of (Show_Manifest m)) = Inr (Show_Manifest m)"
proof -
  have "classify_words help_options [''--'', m] = Inr [(''--'', Separator), (m, Operand_Word)]" by simp
  moreover have "parse_words sub (Some (Operand d)) [(''--'', Separator), (m, Operand_Word)] ([], []) = Inr (([(d, PStr m)], []), None)" for sub d
    by (simp add: parse_words_last is_option_def take_positional_def store_positional_def)
  ultimately have "run_subparser subparsers [''show'', ''--'', m] = Inr ([(''command'', PStr ''show''), (''manifest'', PStr m)], [])"
    by (simp add: run_subparser_def subparsers_def show_parser_def parse_known_def parse_words_Nil)
  then have "parse_all (run_subparser subparsers) main_parser [''show'', ''--'', m] = Inr [(''command'', PStr ''show''), (''manifest'', PStr m)]"
    by (simp add: parse_main)
  then show ?thesis by (simp add: parse_command_def command_line_def command_of_def given_or_def given_def)
qed

lemma parse_nothing: "parse_command [] = Inr No_Command"
proof -
  have "parse_all (run_subparser subparsers) main_parser [] = Inr []"
    by (simp add: parse_all_def parse_known_def main_parser_def parse_words_Nil)
  then show ?thesis by (simp add: parse_command_def command_of_def given_def)
qed

definition timeouts_of :: "command \<Rightarrow> pyfloat set" where
  "timeouts_of c = (case c of Validate_Reference a \<Rightarrow> {ref_timeout a} | Benchmark_Matrix_Run a \<Rightarrow> {mx_timeout a} | _ \<Rightarrow> {})"

text \<open>
  C28. The command line round trips. For every command and any arguments, also empty ones, ones that start with a
  dash and ones that contain an equals sign, the argument vector that writes each option as
  \<open>--option=value\<close> (and the manifest of \<open>show\<close> after \<open>--\<close>) is parsed back to exactly that command, provided the
  text of a timeout reads back as the number.
\<close>

theorem command_line_roundtrip:
  assumes "\<forall>x \<in> timeouts_of c. float_of_text (text_of x) = Some x"
  shows "parse_command (command_line text_of c) = Inr c"
proof (cases c)
  case No_Command
  then show ?thesis by (simp add: command_line_def parse_nothing)
qed (use assms in \<open>simp_all add: timeouts_of_def discover_line_parses reference_line_parses matrix_line_parses replay_line_parses
  import_line_parses show_line_parses\<close>)

lemma command_line_roundtrip_witness:
  "parse_command (command_line (\<lambda>x. ''900'') (Validate_Reference \<lparr>ref_binary = ''--bin=x'', ref_model = [], ref_output = ''-o'',
      ref_timeout = Fin 900, ref_vessel_id = Some ''a b'', ref_vessel_name = None, ref_prefix = None\<rparr>))
    = Inr (Validate_Reference \<lparr>ref_binary = ''--bin=x'', ref_model = [], ref_output = ''-o'',
      ref_timeout = Fin 900, ref_vessel_id = Some ''a b'', ref_vessel_name = None, ref_prefix = None\<rparr>)"
proof (rule command_line_roundtrip)
  have "float_of_text ''900'' = Some (Fin 900)"
    by (simp add: float_of_text_def number_body_def number_space_def lower_def lower_char_def decimal_value_def digits_or_none_def
      is_digit_def scaled_def decimal_def fl_numeral Let_def)
  then show "\<forall>x \<in> timeouts_of (Validate_Reference \<lparr>ref_binary = ''--bin=x'', ref_model = [], ref_output = ''-o'',
      ref_timeout = Fin 900, ref_vessel_id = Some ''a b'', ref_vessel_name = None, ref_prefix = None\<rparr>). float_of_text ''900'' = Some x"
    by (simp add: timeouts_of_def)
qed

text \<open>
  Every argument vector either is one of the commands or ends the program with exit status 2 (a usage error) or 0
  (after help was printed), never with another exception; in these cases, and when there is no command, the
  program writes nothing and runs no operation.
\<close>

theorem bad_command_line_runs_nothing:
  "(case parse_command argv of
      Inl e \<Rightarrow> e = usage_error \<and> program cs argv s = (Inl e, s)
        \<or> e = help_shown \<and> program cs argv s = (Inl e, s\<lparr>printed := printed s @ [help_text cs argv]\<rparr>)
    | Inr No_Command \<Rightarrow> program cs argv s = (Inl usage_error, s)
    | Inr c \<Rightarrow> program cs argv s = run_main cs c s)"
proof -
  have known: "exits e" if raises: "parse_known sub spec ws = Inl e" and sub: "\<And>ts e. sub ts = Inl e \<Longrightarrow> exits e" for sub spec ws e
  proof (cases "classify_words (option_table spec) ws")
    case (Inl e')
    then show ?thesis using raises classify_words_exits by (simp add: parse_known_def)
  next
    case (Inr ks)
    show ?thesis
    proof (cases "parse_words sub (positional_arg spec) ks ([], [])")
      case (Inl e')
      then show ?thesis using raises \<open>classify_words _ _ = _\<close> parse_words_exits [OF sub] by (simp add: parse_known_def)
    next
      case parsed: (Inr r)
      then show ?thesis using raises Inr by (cases r) (auto simp: parse_known_def split: if_splits)
    qed
  qed
  have sub: "exits e" if "run_subparser subs ts = Inl e" for subs ts e
  proof (cases ts)
    case (Cons name words)
    show ?thesis
    proof (cases "map_of subs name")
      case (Some spec)
      then have "parse_known (\<lambda>_. Inl usage_error) spec words = Inl e" using that Cons by (auto simp: run_subparser_def ebind_Inl_iff)
      then show ?thesis by (rule known) auto
    qed (use that Cons in \<open>simp add: run_subparser_def exits_def\<close>)
  qed (use that in \<open>simp add: run_subparser_def exits_def\<close>)
  have "exits e" if "parse_command argv = Inl e" for e
  proof (cases "parse_known (run_subparser subparsers) main_parser argv")
    case (Inl e')
    then show ?thesis using that known [OF Inl sub] by (simp add: parse_command_def parse_all_def)
  next
    case (Inr r)
    then show ?thesis using that by (cases r) (auto simp: parse_command_def parse_all_def split: if_splits)
  qed
  then show ?thesis
  proof (cases "parse_command argv")
    case (Inl e)
    with \<open>\<And>e. parse_command argv = Inl e \<Longrightarrow> exits e\<close> have "e = usage_error \<or> e = help_shown" by (simp add: exits_def)
    moreover have "usage_error \<noteq> help_shown" by (simp add: usage_error_def help_shown_def)
    ultimately show ?thesis using Inl by (auto simp: program_def then_step_def yield_step_def print_text_def change_def)
  next
    case (Inr c)
    then have "program cs argv s = run_main cs c s" by (simp add: program_def)
    moreover have "run_main cs No_Command s = (Inl usage_error, s)" by (simp add: run_main_def yield_step_def)
    ultimately show ?thesis using Inr by (cases c) simp_all
  qed
qed

section \<open>What the options decide\<close>

text \<open>The last value given for an option.\<close>

definition last_of :: "(string \<times> string) list \<Rightarrow> string \<Rightarrow> string option" where
  "last_of kvs k = map_of (rev kvs) k"

definition last_or :: "(string \<times> string) list \<Rightarrow> string \<Rightarrow> string \<Rightarrow> string" where
  "last_or kvs k fallback = (case last_of kvs k of None \<Rightarrow> fallback | Some v \<Rightarrow> v)"

definition last_number :: "(string \<times> string) list \<Rightarrow> string \<Rightarrow> pyfloat \<Rightarrow> pyfloat" where
  "last_number kvs k fallback = (case last_of kvs k of None \<Rightarrow> fallback | Some v \<Rightarrow> (case float_of_text v of None \<Rightarrow> fallback | Some x \<Rightarrow> x))"

text \<open>
  The options each subcommand of \<open>__main__.py\<close> takes, those it requires, the values it accepts, and the command
  that is meant.
\<close>

definition known_options :: "string \<Rightarrow> string list" where
  "known_options name = (if name = ''discover'' then [''--vessel-id'', ''--name'', ''--class-name'', ''--resource-prefix'', ''--output'']
     else if name = ''validate-reference'' then [''--binary'', ''--model'', ''--output'', ''--timeout'', ''--vessel-id'', ''--vessel-name'',
       ''--resource-prefix'']
     else if name = ''benchmark-matrix'' then [''--binary'', ''--model'', ''--manifest'', ''--output'', ''--timeout'']
     else if name = ''benchmark-scheduler'' then [''--vessel'', ''--matrix-report'', ''--benchmarks'', ''--workload'']
     else if name = ''import-llama-bench'' then [''--manifest'', ''--profile-id'', ''--raw'', ''--output'']
     else [])"

definition needed_options :: "string \<Rightarrow> string list" where
  "needed_options name = (if name = ''discover'' then [''--vessel-id'']
     else if name = ''validate-reference'' then [''--binary'', ''--model'']
     else if name = ''benchmark-matrix'' then [''--binary'', ''--model'', ''--manifest'']
     else if name = ''benchmark-scheduler'' then [''--vessel'', ''--matrix-report'', ''--benchmarks'']
     else if name = ''import-llama-bench'' then [''--manifest'', ''--profile-id'', ''--raw'', ''--output'']
     else [])"

definition value_accepted :: "string \<Rightarrow> string \<Rightarrow> bool" where
  "value_accepted k v \<longleftrightarrow> (if k = ''--class-name'' then v = ''station'' \<or> v = ''ship'' \<or> v = ''light_craft''
     else if k = ''--timeout'' then float_of_text v \<noteq> None else True)"

definition meant_command :: "string \<Rightarrow> (string \<times> string) list \<Rightarrow> command" where
  "meant_command name kvs = (let need = (\<lambda>k. last_or kvs k []); opt = last_of kvs in
     if name = ''discover'' then Discover_Vessel \<lparr>arg_vessel_id = need ''--vessel-id'', arg_name = opt ''--name'',
       arg_class = class_of_name (last_or kvs ''--class-name'' ''station''), arg_prefix = opt ''--resource-prefix'', arg_output = opt ''--output''\<rparr>
     else if name = ''validate-reference'' then Validate_Reference \<lparr>ref_binary = need ''--binary'', ref_model = need ''--model'',
       ref_output = last_or kvs ''--output'' ''reference-run'', ref_timeout = last_number kvs ''--timeout'' (Fin 900),
       ref_vessel_id = opt ''--vessel-id'', ref_vessel_name = opt ''--vessel-name'', ref_prefix = opt ''--resource-prefix''\<rparr>
     else if name = ''benchmark-matrix'' then Benchmark_Matrix_Run \<lparr>mx_binary = need ''--binary'', mx_model = need ''--model'',
       mx_manifest = need ''--manifest'', mx_output = last_or kvs ''--output'' ''benchmark-matrix'', mx_timeout = last_number kvs ''--timeout'' (Fin 900)\<rparr>
     else if name = ''benchmark-scheduler'' then Benchmark_Scheduler_Run \<lparr>rp_vessel = need ''--vessel'', rp_matrix_report = need ''--matrix-report'',
       rp_benchmarks = need ''--benchmarks'', rp_workload = opt ''--workload''\<rparr>
     else if name = ''import-llama-bench'' then Import_Llama_Bench \<lparr>im_manifest = need ''--manifest'', im_profile_id = need ''--profile-id'',
       im_raw = need ''--raw'', im_output = need ''--output''\<rparr>
     else No_Command)"

text \<open>Assignments fail exactly on a value that does not convert, and leave the last value of each option.\<close>

definition stores :: "(string \<times> action) list \<Rightarrow> string \<Rightarrow> string \<Rightarrow> conversion \<Rightarrow> bool" where
  "stores table k d c \<longleftrightarrow> map_of table k = Some (Store d c)
     \<and> (\<forall>(k', a) \<in> set table. case a of Store d' c' \<Rightarrow> d' = d \<longrightarrow> k' = k | _ \<Rightarrow> True)"

lemma assign_all_fails:
  assumes "list_all (assignable table) kvs"
  shows "(\<exists>ns'. assign_all table kvs ns = Inr ns') \<longleftrightarrow>
      (\<forall>(k, v) \<in> set kvs. case map_of table k of Some (Store d c) \<Rightarrow> (\<exists>x. convert_value c v = Inr x) | _ \<Rightarrow> True)"
    and "assign_all table kvs ns = Inl e \<Longrightarrow> e = usage_error"
proof -
  have conv: "convert_value c v = Inl e \<Longrightarrow> e = usage_error" for c v e
    by (auto simp: convert_value_def split: conversion.splits option.splits if_splits)
  have "((\<exists>ns'. assign_all table kvs ns = Inr ns') \<longleftrightarrow>
      (\<forall>(k, v) \<in> set kvs. case map_of table k of Some (Store d c) \<Rightarrow> (\<exists>x. convert_value c v = Inr x) | _ \<Rightarrow> True))
    \<and> (assign_all table kvs ns = Inl e \<longrightarrow> e = usage_error)"
    using assms
  proof (induction kvs arbitrary: ns)
    case (Cons kv kvs)
    obtain k v where kv: "kv = (k, v)" by (cases kv)
    from Cons.prems obtain d c where dc: "map_of table k = Some (Store d c)"
      by (auto simp: kv assignable_def split: option.splits action.splits)
    show ?case
    proof (cases "convert_value c v")
      case (Inl e')
      with conv [OF Inl] show ?thesis by (simp add: kv dc store_value_def)
    next
      case (Inr x)
      then have "assign_all table (kv # kvs) ns = assign_all table kvs (AList.update d x ns)" by (simp add: kv dc store_value_def)
      with Cons.IH [of "AList.update d x ns"] Cons.prems Inr show ?thesis by (simp add: kv dc)
    qed
  qed simp
  then show "(\<exists>ns'. assign_all table kvs ns = Inr ns') \<longleftrightarrow>
      (\<forall>(k, v) \<in> set kvs. case map_of table k of Some (Store d c) \<Rightarrow> (\<exists>x. convert_value c v = Inr x) | _ \<Rightarrow> True)"
    "assign_all table kvs ns = Inl e \<Longrightarrow> e = usage_error" by blast+
qed

lemma assign_all_last:
  assumes "assign_all table kvs ns = Inr ns'" "stores table k d c"
  shows "map_of ns' d = (case last_of kvs k of None \<Rightarrow> map_of ns d
    | Some v \<Rightarrow> (case convert_value c v of Inl e \<Rightarrow> None | Inr x \<Rightarrow> Some x))"
  using assms(1)
proof (induction kvs arbitrary: ns)
  case (Cons kv kvs)
  obtain k' v where kv: "kv = (k', v)" by (cases kv)
  from Cons.prems obtain d' c' where dc: "map_of table k' = Some (Store d' c')"
    by (auto simp: kv split: option.splits action.splits)
  with Cons.prems obtain x where x: "convert_value c' v = Inr x" "assign_all table kvs (AList.update d' x ns) = Inr ns'"
    by (auto simp: kv store_value_def)
  have same: "d' = d \<longleftrightarrow> k' = k" "k' = k \<Longrightarrow> c' = c"
    using dc assms(2) map_of_SomeD [OF dc] by (auto simp: stores_def)
  show ?case
    using Cons.IH [OF x(2)] x(1) same
    by (cases "last_of kvs k") (auto simp: kv last_of_def update_conv' map_add_def split: option.split)
qed (simp add: last_of_def)

lemma assigned_line:
  assumes sub: "map_of subparsers name = Some spec" and plain: "\<not> starts_with name ''-''" "long_keys (option_table spec)" "positional_arg spec = None"
    and kvs: "list_all (assignable (option_table spec)) kvs"
    and ok: "\<And>k v d c. map_of (option_table spec) k = Some (Store d c) \<Longrightarrow> (\<exists>x. convert_value c v = Inr x) \<longleftrightarrow> value_accepted k v"
    and req: "\<And>ns. assign_all (option_table spec) kvs [] = Inr ns \<Longrightarrow>
      (\<forall>d \<in> set (required_dests spec). map_of ns d \<noteq> None) \<longleftrightarrow> (\<forall>k \<in> set (needed_options name). last_of kvs k \<noteq> None)"
    and meant: "\<And>ns. assign_all (option_table spec) kvs [] = Inr ns \<Longrightarrow> command_of ((''command'', PStr name) # ns) = meant_command name kvs"
  shows "parse_command (name # map assign_word kvs) = (if (\<forall>(k, v) \<in> set kvs. value_accepted k v)
      \<and> (\<forall>k \<in> set (needed_options name). last_of kvs k \<noteq> None) then Inr (meant_command name kvs) else Inl usage_error)"
proof -
  have accepted: "(\<exists>ns. assign_all (option_table spec) kvs [] = Inr ns) \<longleftrightarrow> (\<forall>(k, v) \<in> set kvs. value_accepted k v)"
    unfolding assign_all_fails(1) [OF kvs]
  proof (intro ball_cong refl, clarify)
    fix k v assume "(k, v) \<in> set kvs"
    then have "assignable (option_table spec) (k, v)" using kvs by (auto simp: list_all_iff)
    then obtain d c where dc: "map_of (option_table spec) k = Some (Store d c)"
      by (auto simp: assignable_def split: option.splits action.splits)
    then show "(case map_of (option_table spec) k of Some (Store d c) \<Rightarrow> (\<exists>x. convert_value c v = Inr x) | _ \<Rightarrow> True) = value_accepted k v"
      using ok [OF dc] by simp
  qed
  show ?thesis
  proof (cases "assign_all (option_table spec) kvs []")
    case (Inl e)
    then show ?thesis
      using accepted assign_all_fails(2) [OF kvs Inl] sub parse_known_assignments [OF plain(2) kvs plain(3)]
      by (auto simp: parse_command_def parse_main [OF plain(1)] run_subparser_def)
  next
    case (Inr ns)
    then have yes: "\<forall>(k, v) \<in> set kvs. value_accepted k v" using accepted by blast
    show ?thesis
    proof (cases "\<forall>k \<in> set (needed_options name). last_of kvs k \<noteq> None")
      case True
      then have "\<not> (\<exists>d \<in> set (required_dests spec). map_of ns d = None)" using req [OF Inr] by simp
      then show ?thesis
        using yes True meant [OF Inr] sub parse_known_assignments [OF plain(2) kvs plain(3)] Inr
        by (simp add: parse_command_def parse_main [OF plain(1)] run_subparser_def)
    next
      case False
      then have "\<exists>d \<in> set (required_dests spec). map_of ns d = None" using req [OF Inr] by (simp only: bex_simps not_not) simp
      then show ?thesis
        using False sub parse_known_assignments [OF plain(2) kvs plain(3)] Inr
        by (simp add: parse_command_def parse_main [OF plain(1)] run_subparser_def)
    qed
  qed
qed

text \<open>The arguments read back from a namespace made by assignments.\<close>

lemma last_given:
  assumes "list_all (assignable table) kvs" "assign_all table kvs [] = Inr ns" "stores table k d c"
  shows "map_of ns d = (case last_of kvs k of None \<Rightarrow> None | Some v \<Rightarrow> (case convert_value c v of Inl e \<Rightarrow> None | Inr x \<Rightarrow> Some x))"
    and "map_of ns d = None \<longleftrightarrow> last_of kvs k = None"
    and "last_of kvs k = Some v \<Longrightarrow> \<exists>x. convert_value c v = Inr x"
proof -
  show given: "map_of ns d = (case last_of kvs k of None \<Rightarrow> None | Some v \<Rightarrow> (case convert_value c v of Inl e \<Rightarrow> None | Inr x \<Rightarrow> Some x))"
    using assign_all_last [OF assms(2,3)] by (simp split: option.split)
  have conv: "\<exists>x. convert_value c v = Inr x" if "last_of kvs k = Some v" for v
  proof -
    have "(k, v) \<in> set kvs" using map_of_SomeD [OF that [unfolded last_of_def]] by simp
    moreover have "map_of table k = Some (Store d c)" using assms(3) by (simp add: stores_def)
    moreover have "\<forall>(k, v) \<in> set kvs. case map_of table k of Some (Store d c) \<Rightarrow> (\<exists>x. convert_value c v = Inr x) | _ \<Rightarrow> True"
      using assign_all_fails(1) [OF assms(1)] assms(2) by blast
    ultimately show ?thesis by fastforce
  qed
  then show "last_of kvs k = Some v \<Longrightarrow> \<exists>x. convert_value c v = Inr x" .
  show "map_of ns d = None \<longleftrightarrow> last_of kvs k = None"
    using given conv by (auto split: option.splits sum.splits)
qed

lemma given_last:
  assumes "list_all (assignable table) kvs" "assign_all table kvs [] = Inr ns"
  shows "stores table k d Text \<Longrightarrow> d \<noteq> ''command'' \<Longrightarrow> given ((''command'', PStr name) # ns) d = last_of kvs k"
    and "stores table k d (One_Of cs) \<Longrightarrow> d \<noteq> ''command'' \<Longrightarrow> given ((''command'', PStr name) # ns) d = last_of kvs k"
    and "stores table k ''timeout'' Number \<Longrightarrow> given_timeout ((''command'', PStr name) # ns) = last_number kvs k (Fin 900)"
proof -
  show "given ((''command'', PStr name) # ns) d = last_of kvs k" if st: "stores table k d Text" and d: "d \<noteq> ''command''"
    using last_given(1) [OF assms st] d by (cases "last_of kvs k") (simp_all add: given_def convert_value_def)
  show "given ((''command'', PStr name) # ns) d = last_of kvs k" if st: "stores table k d (One_Of cs)" and d: "d \<noteq> ''command''"
    using last_given(1) [OF assms st] last_given(3) [OF assms st] d
    by (cases "last_of kvs k") (auto simp: given_def convert_value_def split: if_splits)
  show "given_timeout ((''command'', PStr name) # ns) = last_number kvs k (Fin 900)" if st: "stores table k ''timeout'' Number"
    using last_given(1) [OF assms st] last_given(3) [OF assms st]
    by (cases "last_of kvs k") (auto simp: given_timeout_def last_number_def convert_value_def split: option.splits)
qed

lemma given_command: "given ((''command'', PStr name) # ns) ''command'' = Some name"
  by (simp add: given_def)

lemmas decided = Let_def known_options_def needed_options_def value_accepted_def meant_command_def command_of_def given_or_def last_or_def

definition asks_for :: "string \<Rightarrow> (string \<times> string) list \<Rightarrow> command result" where
  "asks_for name kvs = (if (\<forall>(k, v) \<in> set kvs. value_accepted k v) \<and> (\<forall>k \<in> set (needed_options name). last_of kvs k \<noteq> None)
     then Inr (meant_command name kvs) else Inl usage_error)"

lemma discover_stores:
  "stores (option_table discover_parser) ''--vessel-id'' ''vessel_id'' Text"
  "stores (option_table discover_parser) ''--name'' ''name'' Text"
  "stores (option_table discover_parser) ''--class-name'' ''class_name'' (One_Of [''station'', ''ship'', ''light_craft''])"
  "stores (option_table discover_parser) ''--resource-prefix'' ''resource_prefix'' Text"
  "stores (option_table discover_parser) ''--output'' ''output'' Text"
  by (simp_all add: stores_def discover_parser_def help_options_def)

lemma discover_decided:
  assumes "fst ` set kvs \<subseteq> set (known_options ''discover'')"
  shows "parse_command (''discover'' # map assign_word kvs) = asks_for ''discover'' kvs"
  unfolding asks_for_def
proof (rule assigned_line [where spec = discover_parser])
  show kvs: "list_all (assignable (option_table discover_parser)) kvs"
    using assms by (fastforce simp: list_all_iff parsers known_options_def)
  show "(\<exists>x. convert_value c v = Inr x) \<longleftrightarrow> value_accepted k v" if "map_of (option_table discover_parser) k = Some (Store d c)" for k v d c
    using that by (auto simp: parsers value_accepted_def split: if_splits option.splits)
  fix ns assume ns: "assign_all (option_table discover_parser) kvs [] = Inr ns"
  note given = discover_stores [THEN last_given(2) [OF kvs ns]]
  show "(\<forall>d \<in> set (required_dests discover_parser). map_of ns d \<noteq> None) \<longleftrightarrow> (\<forall>k \<in> set (needed_options ''discover''). last_of kvs k \<noteq> None)"
    by (simp add: discover_parser_def needed_options_def given del: not_None_eq)
  show "command_of ((''command'', PStr ''discover'') # ns) = meant_command ''discover'' kvs"
    by (simp add: decided given_command discover_stores(1,2,4,5) [THEN given_last(1) [OF kvs ns]] discover_stores(3) [THEN given_last(2) [OF kvs ns]])
qed (simp_all add: subparsers_def parsers)

lemma reference_stores:
  "stores (option_table reference_parser) ''--binary'' ''binary'' Text"
  "stores (option_table reference_parser) ''--model'' ''model'' Text"
  "stores (option_table reference_parser) ''--output'' ''output'' Text"
  "stores (option_table reference_parser) ''--vessel-id'' ''vessel_id'' Text"
  "stores (option_table reference_parser) ''--vessel-name'' ''vessel_name'' Text"
  "stores (option_table reference_parser) ''--resource-prefix'' ''resource_prefix'' Text"
  "stores (option_table reference_parser) ''--timeout'' ''timeout'' Number"
  by (simp_all add: stores_def reference_parser_def help_options_def)

lemma reference_decided:
  assumes "fst ` set kvs \<subseteq> set (known_options ''validate-reference'')"
  shows "parse_command (''validate-reference'' # map assign_word kvs) = asks_for ''validate-reference'' kvs"
  unfolding asks_for_def
proof (rule assigned_line [where spec = reference_parser])
  show kvs: "list_all (assignable (option_table reference_parser)) kvs"
    using assms by (fastforce simp: list_all_iff parsers known_options_def)
  show "(\<exists>x. convert_value c v = Inr x) \<longleftrightarrow> value_accepted k v" if "map_of (option_table reference_parser) k = Some (Store d c)" for k v d c
    using that by (auto simp: parsers value_accepted_def split: if_splits option.splits)
  fix ns assume ns: "assign_all (option_table reference_parser) kvs [] = Inr ns"
  note given = reference_stores [THEN last_given(2) [OF kvs ns]]
  show "(\<forall>d \<in> set (required_dests reference_parser). map_of ns d \<noteq> None) \<longleftrightarrow> (\<forall>k \<in> set (needed_options ''validate-reference''). last_of kvs k \<noteq> None)"
    by (simp add: reference_parser_def needed_options_def given del: not_None_eq)
  show "command_of ((''command'', PStr ''validate-reference'') # ns) = meant_command ''validate-reference'' kvs"
    by (simp add: decided given_command reference_stores(1-6) [THEN given_last(1) [OF kvs ns]] given_last(3) [OF kvs ns reference_stores(7)])
qed (simp_all add: subparsers_def parsers)

lemma matrix_stores:
  "stores (option_table matrix_parser) ''--binary'' ''binary'' Text"
  "stores (option_table matrix_parser) ''--model'' ''model'' Text"
  "stores (option_table matrix_parser) ''--manifest'' ''manifest'' Text"
  "stores (option_table matrix_parser) ''--output'' ''output'' Text"
  "stores (option_table matrix_parser) ''--timeout'' ''timeout'' Number"
  by (simp_all add: stores_def matrix_parser_def help_options_def)

lemma matrix_decided:
  assumes "fst ` set kvs \<subseteq> set (known_options ''benchmark-matrix'')"
  shows "parse_command (''benchmark-matrix'' # map assign_word kvs) = asks_for ''benchmark-matrix'' kvs"
  unfolding asks_for_def
proof (rule assigned_line [where spec = matrix_parser])
  show kvs: "list_all (assignable (option_table matrix_parser)) kvs"
    using assms by (fastforce simp: list_all_iff parsers known_options_def)
  show "(\<exists>x. convert_value c v = Inr x) \<longleftrightarrow> value_accepted k v" if "map_of (option_table matrix_parser) k = Some (Store d c)" for k v d c
    using that by (auto simp: parsers value_accepted_def split: if_splits option.splits)
  fix ns assume ns: "assign_all (option_table matrix_parser) kvs [] = Inr ns"
  note given = matrix_stores [THEN last_given(2) [OF kvs ns]]
  show "(\<forall>d \<in> set (required_dests matrix_parser). map_of ns d \<noteq> None) \<longleftrightarrow> (\<forall>k \<in> set (needed_options ''benchmark-matrix''). last_of kvs k \<noteq> None)"
    by (simp add: matrix_parser_def needed_options_def given del: not_None_eq)
  show "command_of ((''command'', PStr ''benchmark-matrix'') # ns) = meant_command ''benchmark-matrix'' kvs"
    by (simp add: decided given_command matrix_stores(1-4) [THEN given_last(1) [OF kvs ns]] given_last(3) [OF kvs ns matrix_stores(5)])
qed (simp_all add: subparsers_def parsers)

lemma replay_stores:
  "stores (option_table replay_parser) ''--vessel'' ''vessel'' Text"
  "stores (option_table replay_parser) ''--matrix-report'' ''matrix_report'' Text"
  "stores (option_table replay_parser) ''--benchmarks'' ''benchmarks'' Text"
  "stores (option_table replay_parser) ''--workload'' ''workload'' Text"
  by (simp_all add: stores_def replay_parser_def help_options_def)

lemma replay_decided:
  assumes "fst ` set kvs \<subseteq> set (known_options ''benchmark-scheduler'')"
  shows "parse_command (''benchmark-scheduler'' # map assign_word kvs) = asks_for ''benchmark-scheduler'' kvs"
  unfolding asks_for_def
proof (rule assigned_line [where spec = replay_parser])
  show kvs: "list_all (assignable (option_table replay_parser)) kvs"
    using assms by (fastforce simp: list_all_iff parsers known_options_def)
  show "(\<exists>x. convert_value c v = Inr x) \<longleftrightarrow> value_accepted k v" if "map_of (option_table replay_parser) k = Some (Store d c)" for k v d c
    using that by (auto simp: parsers value_accepted_def split: if_splits option.splits)
  fix ns assume ns: "assign_all (option_table replay_parser) kvs [] = Inr ns"
  note given = replay_stores [THEN last_given(2) [OF kvs ns]]
  show "(\<forall>d \<in> set (required_dests replay_parser). map_of ns d \<noteq> None) \<longleftrightarrow> (\<forall>k \<in> set (needed_options ''benchmark-scheduler''). last_of kvs k \<noteq> None)"
    by (simp add: replay_parser_def needed_options_def given del: not_None_eq)
  show "command_of ((''command'', PStr ''benchmark-scheduler'') # ns) = meant_command ''benchmark-scheduler'' kvs"
    by (simp add: decided given_command replay_stores [THEN given_last(1) [OF kvs ns]])
qed (simp_all add: subparsers_def parsers)

lemma import_stores:
  "stores (option_table import_parser) ''--manifest'' ''manifest'' Text"
  "stores (option_table import_parser) ''--profile-id'' ''profile_id'' Text"
  "stores (option_table import_parser) ''--raw'' ''raw'' Text"
  "stores (option_table import_parser) ''--output'' ''output'' Text"
  by (simp_all add: stores_def import_parser_def help_options_def)

lemma import_decided:
  assumes "fst ` set kvs \<subseteq> set (known_options ''import-llama-bench'')"
  shows "parse_command (''import-llama-bench'' # map assign_word kvs) = asks_for ''import-llama-bench'' kvs"
  unfolding asks_for_def
proof (rule assigned_line [where spec = import_parser])
  show kvs: "list_all (assignable (option_table import_parser)) kvs"
    using assms by (fastforce simp: list_all_iff parsers known_options_def)
  show "(\<exists>x. convert_value c v = Inr x) \<longleftrightarrow> value_accepted k v" if "map_of (option_table import_parser) k = Some (Store d c)" for k v d c
    using that by (auto simp: parsers value_accepted_def split: if_splits option.splits)
  fix ns assume ns: "assign_all (option_table import_parser) kvs [] = Inr ns"
  note given = import_stores [THEN last_given(2) [OF kvs ns]]
  show "(\<forall>d \<in> set (required_dests import_parser). map_of ns d \<noteq> None) \<longleftrightarrow> (\<forall>k \<in> set (needed_options ''import-llama-bench''). last_of kvs k \<noteq> None)"
    by (simp add: import_parser_def needed_options_def given del: not_None_eq)
  show "command_of ((''command'', PStr ''import-llama-bench'') # ns) = meant_command ''import-llama-bench'' kvs"
    by (simp add: decided given_command import_stores [THEN given_last(1) [OF kvs ns]])
qed (simp_all add: subparsers_def parsers)

text \<open>
  C32. The options decide the command. Take a subcommand and any list of its options written as
  \<open>--option=value\<close>, in any order, repeated or missing. The program runs exactly when every option the subcommand
  requires is there, every \<open>--class-name\<close> is one of the three classes and every \<open>--timeout\<close> reads as a number, and
  then runs the subcommand with the last value given for each option, or its default. Otherwise it ends with exit
  status 2, having printed nothing and written nothing. So it does without a subcommand, with an unknown one, and
  for \<open>show\<close> without a manifest.
\<close>

theorem options_decide_command:
  assumes "fst ` set kvs \<subseteq> set (known_options name)"
  shows "(name \<in> {''discover'', ''validate-reference'', ''benchmark-matrix'', ''benchmark-scheduler'', ''import-llama-bench''} \<longrightarrow>
      program cs (name # map assign_word kvs) s =
        (if (\<forall>(k, v) \<in> set kvs. value_accepted k v) \<and> (\<forall>k \<in> set (needed_options name). last_of kvs k \<noteq> None)
         then run_main cs (meant_command name kvs) s else (Inl usage_error, s)))
    \<and> program cs [] s = (Inl usage_error, s) \<and> program cs [''show''] s = (Inl usage_error, s)
    \<and> (\<not> starts_with other ''-'' \<and> other \<notin> fst ` set subparsers \<longrightarrow> program cs (other # ws) s = (Inl usage_error, s))"
proof (intro conjI impI)
  have refused: "program cs argv s = (Inl usage_error, s)" if "parse_command argv = Inl usage_error" for argv
    using that by (simp add: program_def yield_step_def usage_error_def help_shown_def)
  assume name: "name \<in> {''discover'', ''validate-reference'', ''benchmark-matrix'', ''benchmark-scheduler'', ''import-llama-bench''}"
  then have "parse_command (name # map assign_word kvs) = asks_for name kvs"
    using assms discover_decided reference_decided matrix_decided replay_decided import_decided by blast
  then show "program cs (name # map assign_word kvs) s =
        (if (\<forall>(k, v) \<in> set kvs. value_accepted k v) \<and> (\<forall>k \<in> set (needed_options name). last_of kvs k \<noteq> None)
         then run_main cs (meant_command name kvs) s else (Inl usage_error, s))"
    unfolding asks_for_def using refused [of "name # map assign_word kvs"]
    by (cases "(\<forall>(k, v) \<in> set kvs. value_accepted k v) \<and> (\<forall>k \<in> set (needed_options name). last_of kvs k \<noteq> None)")
      (simp only: if_P program_def sum.case, simp only: if_not_P if_False if_True simp_thms)
next
  have refused: "program cs argv s = (Inl usage_error, s)" if "parse_command argv = Inl usage_error" for argv
    using that by (simp add: program_def yield_step_def usage_error_def help_shown_def)
  show "program cs [] s = (Inl usage_error, s)"
    by (simp add: program_def parse_nothing run_main_def yield_step_def)
  show "program cs [''show''] s = (Inl usage_error, s)"
    by (rule refused) (simp add: parse_command_def parse_main run_subparser_def subparsers_def show_parser_def parse_known_def parse_words_Nil)
  assume "\<not> starts_with other ''-'' \<and> other \<notin> fst ` set subparsers"
  then show "program cs (other # ws) s = (Inl usage_error, s)"
    by (intro refused) (simp add: parse_command_def parse_main run_subparser_def iffD2 [OF map_of_eq_None_iff])
qed

lemma options_decide_command_witness:
  "\<forall>cs s. program cs [''discover'', ''--class-name=boat'', ''--vessel-id=v1''] s = (Inl usage_error, s)
    \<and> program cs [''discover'', ''--vessel-id=v1'', ''--class-name=ship'', ''--vessel-id=v2''] s
      = run_main cs (Discover_Vessel \<lparr>arg_vessel_id = ''v2'', arg_name = None, arg_class = Ship, arg_prefix = None, arg_output = None\<rparr>) s"
proof (intro allI conjI)
  fix cs s
  show "program cs [''discover'', ''--class-name=boat'', ''--vessel-id=v1''] s = (Inl usage_error, s)"
    using conjunct1 [OF options_decide_command [of "[(''--class-name'', ''boat''), (''--vessel-id'', ''v1'')]" "''discover''" cs s]]
    by (simp add: known_options_def value_accepted_def assign_word_def)
  show "program cs [''discover'', ''--vessel-id=v1'', ''--class-name=ship'', ''--vessel-id=v2''] s
      = run_main cs (Discover_Vessel \<lparr>arg_vessel_id = ''v2'', arg_name = None, arg_class = Ship, arg_prefix = None, arg_output = None\<rparr>) s"
    using conjunct1 [OF options_decide_command [of "[(''--vessel-id'', ''v1''), (''--class-name'', ''ship''), (''--vessel-id'', ''v2'')]" "''discover''" cs s]]
    by (simp add: known_options_def needed_options_def value_accepted_def assign_word_def last_of_def meant_command_def last_or_def class_of_name_def)
qed

end
