(* ===== verification/Tool_Commands.thy ===== *)
theory Tool_Commands
  imports Command_Line Artifact_Guard Offline_Properties
begin

text \<open>
  The command lines of the repository's scripts: the documentation and artifact guard
  (\<open>scripts/check_documentation_artifacts.py\<close>) and the offline package builder
  (\<open>scripts/build_offline_package.py\<close>), from the argument vector to the exit status.
\<close>

section \<open>The guard\<close>

definition guard_parser :: parser_spec where
  "guard_parser = \<lparr>option_table = help_options @ [(''--base'', Store ''base'' Text),
     (''--print-living-markdown'', Flag ''print_living_markdown'')], required_dests = [''base''], positional_arg = None\<rparr>"

definition git_diff_command :: "string \<Rightarrow> string list" where
  "git_diff_command base = [''git'', ''diff'', ''--name-status'', ''-z'', ''--find-renames'', ''--find-copies'',
     ''--diff-filter=ACMR'', base @ ''...HEAD'']"

text \<open>\<open>git n\<close> runs the n-th command and decodes what it prints; \<open>main\<close> asks twice to print the living documents.\<close>

definition guard_tool :: "(posix_path \<Rightarrow> posix_path result) \<Rightarrow> (nat \<Rightarrow> string list \<Rightarrow> string result) \<Rightarrow> string list
    \<Rightarrow> (int \<times> string list) result" where
  "guard_tool resolve git argv =
     ebind (parse_all (\<lambda>_. Inl usage_error) guard_parser argv) (\<lambda>ns.
     let diff = git_diff_command (given_or ns ''base'' []) in
     ebind (git 0 diff) (\<lambda>first.
     ebind (changed_files first) (\<lambda>_.
     if map_of ns ''print_living_markdown'' = Some (PBool True)
     then ebind (git 1 diff) (\<lambda>again. guard_main resolve first again True)
     else guard_main resolve first [] False)))"

section \<open>The package builder\<close>

definition package_parser :: parser_spec where
  "package_parser = \<lparr>option_table = help_options @ [(''--output-dir'', Store ''output_dir'' Text)], required_dests = [''output_dir''],
     positional_arg = None\<rparr>"

text \<open>\<open>OSError\<close>, \<open>ValueError\<close>, \<open>CalledProcessError\<close> and \<open>TarError\<close>, with the subclasses that occur.\<close>

definition package_failure :: "exn \<Rightarrow> bool" where
  "package_failure e \<longleftrightarrow> is_value_error e \<or> e \<in> OtherError ` {''OSError'', ''FileNotFoundError'', ''FileExistsError'', ''PermissionError'',
     ''IsADirectoryError'', ''NotADirectoryError'', ''CalledProcessError'', ''TarError'', ''ReadError''}"

text \<open>How the process ends: with a status and what it printed, with a status and a message, or with a traceback.\<close>

datatype ending = Printed int string | Message int string | Traceback exn

definition package_main :: "(string \<Rightarrow> string) \<Rightarrow> (pyval \<Rightarrow> string) \<Rightarrow> (bool \<Rightarrow> tar_entry list \<Rightarrow> string) \<Rightarrow> (pyval \<Rightarrow> string)
    \<Rightarrow> runner \<Rightarrow> string \<Rightarrow> (string \<times> string) list \<Rightarrow> (string \<Rightarrow> folder) \<Rightarrow> string list \<Rightarrow> string result \<times> (string \<Rightarrow> folder)" where
  "package_main hash layout packed str_of w repo env dirs argv =
     (case parse_all (\<lambda>_. Inl usage_error) package_parser argv of
       Inl e \<Rightarrow> (Inl e, dirs)
     | Inr ns \<Rightarrow> (let dir = given_or ns ''output_dir'' [] in
         case build hash layout packed str_of w repo env \<lparr>commands = [], unpacked = nothing_extracted, output_dir = dirs dir\<rparr> of
           (Inl e, s) \<Rightarrow> (Inl e, dirs(dir := output_dir s))
         | (Inr r, s) \<Rightarrow> (Inr (''Checked offline Long Haul package: '' @ rc_bundle_sha256 r), dirs(dir := output_dir s))))"

text \<open>The script's last lines; \<open>error_text\<close> is \<open>str\<close> of an exception.\<close>

definition package_tool :: "(exn \<Rightarrow> string) \<Rightarrow> string result \<Rightarrow> ending" where
  "package_tool error_text r = (case r of
       Inr line \<Rightarrow> Printed 0 line
     | Inl e \<Rightarrow> if e = usage_error then Printed 2 []
         else if e = help_shown then Printed 0 []
         else if package_failure e then Message 1 (''Long Haul offline package failed: '' @ error_text e)
         else Traceback e)"

section \<open>Properties\<close>

lemma parse_assigned_alone:
  assumes "long_keys (option_table spec)" and "list_all (assignable (option_table spec)) kvs" and "positional_arg spec = None"
    and "assign_all (option_table spec) kvs [] = Inr ns" and "\<forall>d \<in> set (required_dests spec). map_of ns d \<noteq> None"
  shows "parse_all sub spec (map assign_word kvs) = Inr ns"
  using parse_known_assignments [OF assms(1-3), of sub] assms(4,5) by (auto simp: parse_all_def)

lemma guard_line_parses: "parse_all sub guard_parser [''--base='' @ base] = Inr [(''base'', PStr base)]"
  using parse_assigned_alone [of guard_parser "[(''--base'', base)]" "[(''base'', PStr base)]" sub]
  by (simp add: guard_parser_def parsers assign_word_def)

lemma package_line_parses: "parse_all sub package_parser [''--output-dir='' @ dir] = Inr [(''output_dir'', PStr dir)]"
  using parse_assigned_alone [of package_parser "[(''--output-dir'', dir)]" "[(''output_dir'', PStr dir)]" sub]
  by (simp add: package_parser_def parsers assign_word_def)

text \<open>
  The guard from its command line. Called with a base revision, the guard asks git once for the changes since that
  base; when git prints relative paths without NUL characters it exits with 0 exactly if every change is approved,
  and with 1 otherwise.
\<close>

theorem guard_tool_decides:
  assumes "git 0 (git_diff_command base) = Inr (git_print cs)" and "\<forall>c \<in> set cs. change_ok c \<and> \<not> is_absolute (pure_path (snd (snd c)))"
  shows "\<exists>printed. guard_tool resolve git [''--base='' @ base] = Inr (if \<forall>c \<in> set cs. change_passes (change_record c) then 0 else 1, printed)"
proof -
  have records: "changed_files (git_print cs) = Inr (map change_record cs)" using assms(2) by (intro changed_files_roundtrip) simp
  have "\<forall>r \<in> set (map change_record cs). \<not> is_absolute (pure_path (snd r))" using assms(2) by (auto simp: change_record_def)
  from guard_passes_iff [OF records this, of resolve "[]"] obtain printed where
    "guard_main resolve (git_print cs) [] False = Inr (if \<forall>r \<in> set (map change_record cs). change_passes r then 0 else 1, printed)" ..
  moreover have "guard_tool resolve git [''--base='' @ base] = guard_main resolve (git_print cs) [] False"
    unfolding guard_tool_def guard_line_parses using assms(1) records by (simp add: given_or_def given_def)
  ultimately show ?thesis by simp
qed

text \<open>
  The package tool reports exactly what happened. Whatever its arguments, it exits with 0 and the digest of the bundle only if
  the build into the named directory returned that receipt; in every other case, traceback included, no receipt file of any
  directory was written or replaced.
\<close>

theorem package_tool_honest:
  assumes "package_main hash layout packed str_of w repo env dirs argv = (r, dirs')"
  shows "(case package_tool error_text r of
      Printed code line \<Rightarrow> line \<noteq> [] \<longrightarrow> code = 0 \<and> (\<exists>dir receipt s.
        build hash layout packed str_of w repo env \<lparr>commands = [], unpacked = nothing_extracted, output_dir = dirs dir\<rparr> = (Inr receipt, s)
        \<and> dirs' = dirs(dir := output_dir s) \<and> line = ''Checked offline Long Haul package: '' @ rc_bundle_sha256 receipt)
    | _ \<Rightarrow> \<forall>dir. map_of (dirs' dir) ''package-receipt.json'' = map_of (dirs dir) ''package-receipt.json'')"
proof -
  have kept: "map_of (output_dir s) ''package-receipt.json'' = map_of (dirs dir) ''package-receipt.json''"
    if "build hash layout packed str_of w repo env \<lparr>commands = [], unpacked = nothing_extracted, output_dir = dirs dir\<rparr> = (Inl e, s)" for dir e s
    using failed_build_frame [OF that] by simp
  show ?thesis
    using assms
    by (auto simp: package_main_def package_tool_def Let_def kept split: sum.splits prod.splits if_splits)
qed

end
