(* ===== verification/Reference_Host.thy ===== *)
theory Reference_Host
  imports Reference_Properties Discovery_Properties
begin

text \<open>
  The reference run on a real machine (\<open>run\<close>, \<open>_Options\<close> and \<open>_discover\<close> in \<open>reference.py\<close>): discovery of the
  host feeds the run. What the machine answers to the probes is the record \<open>machine\<close>; everything else the run
  meets is the \<open>site\<close> of theory Reference_Run, whose vessel, binary, model, vessel id and timeout come from here.
\<close>

record machine =
  on_windows :: bool
  machine_shell :: "string list \<Rightarrow> ran"
  processor_name :: string
  machine_name :: string
  machine_json :: "string \<Rightarrow> json_read"
  machine_upper :: "string \<Rightarrow> string"

record reference_options =
  opt_binary :: string
  opt_model :: string
  opt_output_dir :: string
  opt_timeout_seconds :: pyfloat
  opt_vessel_id :: string
  opt_vessel_name :: string
  opt_resource_prefix :: "string option"

text \<open>The options of a call of \<open>run\<close>: an absent or empty vessel id or name is replaced by that of the platform.\<close>

definition reference_options_of :: "machine \<Rightarrow> string \<Rightarrow> string \<Rightarrow> string \<Rightarrow> pyfloat \<Rightarrow> string option \<Rightarrow> string option
    \<Rightarrow> string option \<Rightarrow> reference_options" where
  "reference_options_of m binary model output_dir timeout vessel name prefix_option =
     \<lparr>opt_binary = binary, opt_model = model, opt_output_dir = output_dir, opt_timeout_seconds = timeout,
      opt_vessel_id = detail_or (if on_windows m then ''windows-host'' else ''work-vm'') vessel,
      opt_vessel_name = detail_or (if on_windows m then ''Windows Host'' else ''Work VM'') name,
      opt_resource_prefix = prefix_option\<rparr>"

definition discover_host :: "(pyval \<Rightarrow> string) \<Rightarrow> machine \<Rightarrow> reference_options \<Rightarrow> vessel result" where
  "discover_host str_of m opts =
     (if on_windows m
      then windows_discover str_of (machine_json m) (machine_shell m)
             (default_prefix (machine_upper m) (opt_resource_prefix opts) (opt_vessel_id opts))
             (opt_vessel_id opts) (opt_vessel_name opts) Station
      else linux_discover (machine_shell m) (processor_name m) (machine_name m) (opt_vessel_id opts) (opt_vessel_name opts) Station)"

definition host_site :: "(pyval \<Rightarrow> string) \<Rightarrow> machine \<Rightarrow> reference_options \<Rightarrow> site \<Rightarrow> site" where
  "host_site str_of m opts w = w\<lparr>discovered := discover_host str_of m opts, binary_file := opt_binary opts,
     model_file := opt_model opts, host_vessel_id := opt_vessel_id opts, run_timeout := opt_timeout_seconds opts\<rparr>"

text \<open>\<open>stores\<close> is what an output directory holds before the run: its event log and its benchmark log.\<close>

definition reference_on_host :: "(pyval \<Rightarrow> string) \<Rightarrow> (pyval \<Rightarrow> string) \<Rightarrow> machine \<Rightarrow> site
    \<Rightarrow> (string \<Rightarrow> text_file \<times> text_file) \<Rightarrow> reference_options \<Rightarrow> unit result \<times> run" where
  "reference_on_host digest str_of m w stores opts =
     run_reference digest str_of (host_site str_of m opts w)
       (new_run (fst (stores (opt_output_dir opts))) (snd (stores (opt_output_dir opts))))"

section \<open>The CPU of a host\<close>

text \<open>The first resource discovery lists, on either platform, is the CPU, and its id follows from the options.\<close>

definition host_cpu :: "machine \<Rightarrow> reference_options \<Rightarrow> string" where
  "host_cpu m opts =
     (if on_windows m then default_prefix (machine_upper m) (opt_resource_prefix opts) (opt_vessel_id opts) @ ''-C0''
      else opt_vessel_id opts @ ''-CPU'')"

lemma validated_vessel_head:
  assumes "validate_vessel (found_vessel vid name cls (r # rs) ls) = Inr v"
  shows "\<exists>r' rs'. vessel_resources v = r' # rs' \<and> res_id r' = res_id r \<and> res_kind r' = res_kind r"
  using assms
  by (auto simp: validate_vessel_def found_vessel_def dest!: resource_references_exist_id dest: validate_resource_keeps(2,3))

lemma host_lists_cpu_first:
  assumes "discover_host str_of m opts = Inr v"
  shows "\<exists>r rs. vessel_resources v = r # rs \<and> res_id r = host_cpu m opts \<and> res_kind r = CPU"
proof (cases "on_windows m")
  case True
  let ?label = "default_prefix (machine_upper m) (opt_resource_prefix opts) (opt_vessel_id opts)"
  from assms True obtain c mem ss sl gs gl where
    cpu: "windows_cpu str_of (machine_json m) (machine_shell m) ?label = Inr c"
    and valid: "validate_vessel (found_vessel (opt_vessel_id opts) (opt_vessel_name opts) Station (c # memory_list mem @ ss @ gs) (sl @ gl)) = Inr v"
    by (auto simp: discover_host_def windows_discover_def memory_list_def)
  show ?thesis
    using validated_vessel_head [OF valid] windows_cpu_found [OF cpu] by (simp add: host_cpu_def True)
next
  case False
  from assms False obtain c mem gs where
    cpu: "validate_resource (found_resource (opt_vessel_id opts @ ''-CPU'') CPU
      (Some (if processor_name m \<noteq> [] then processor_name m else machine_name m)) [] []) = Inr c"
    and valid: "validate_vessel (found_vessel (opt_vessel_id opts) (opt_vessel_name opts) Station (c # mem @ gs) []) = Inr v"
    by (auto simp: discover_host_def linux_discover_def)
  show ?thesis
    using validated_vessel_head [OF valid] validate_resource_keeps(2,3) [OF cpu] by (simp add: host_cpu_def False)
qed

section \<open>What every statement of the run keeps\<close>

text \<open>A request of the run for the CPU \<open>cpu\<close>: one of the two prompts, on the one profile, nothing else.\<close>

definition planned_request :: "site \<Rightarrow> string \<Rightarrow> execution_request \<Rightarrow> bool" where
  "planned_request w cpu req \<longleftrightarrow> (\<exists>v. discovered w = Inr v) \<and> (\<exists>i. req = reference_request w i (reference_profile w cpu) ''Return exactly: LONG_HAUL_OK'' 12
     \<or> req = reference_request w i (reference_profile w cpu) ''Say hello.'' 8)"

definition cpu_reported :: "report \<Rightarrow> bool" where
  "cpu_reported rep \<longleftrightarrow> (\<forall>l \<in> set (layers rep). layer l = 3 \<longrightarrow> layer_verdict l \<noteq> L_FAIL_RESOURCE)"

definition on_plan :: "(pyval \<Rightarrow> string) \<Rightarrow> (pyval \<Rightarrow> string) \<Rightarrow> site \<Rightarrow> string \<Rightarrow> run \<Rightarrow> bool" where
  "on_plan digest str_of w cpu s \<longleftrightarrow>
     (\<forall>p. run_profile s = Some p \<longrightarrow> p = reference_profile w cpu \<and> (\<exists>v. discovered w = Inr v))
     \<and> (\<forall>(req, out) \<in> set (executions s). planned_request w cpu req
          \<and> (\<exists>call \<in> {1, 3}. out = fst (cpp_execute digest str_of (hosts w call) (binary_file w) req)))
     \<and> cpu_reported (current_report s) \<and> (\<forall>rep \<in> set (saved_reports s). cpu_reported rep)"

definition keeps :: "(run \<Rightarrow> bool) \<Rightarrow> ('a \<Rightarrow> bool) \<Rightarrow> 'a step \<Rightarrow> bool" where
  "keeps I Q m \<longleftrightarrow> (\<forall>s r s'. I s \<longrightarrow> m s = (r, s') \<longrightarrow> I s' \<and> (\<forall>x. r = Inr x \<longrightarrow> Q x))"

abbreviation kept :: "(run \<Rightarrow> bool) \<Rightarrow> 'a step \<Rightarrow> bool" where
  "kept I m \<equiv> keeps I (\<lambda>_. True) m"

named_theorems kept_intros

lemma keepsI: "(\<And>s r s'. I s \<Longrightarrow> m s = (r, s') \<Longrightarrow> I s' \<and> (\<forall>x. r = Inr x \<longrightarrow> Q x)) \<Longrightarrow> keeps I Q m"
  by (simp add: keeps_def)

lemma keeps_then:
  assumes "keeps I Q m" and "\<And>x. Q x \<Longrightarrow> keeps I R (f x)"
  shows "keeps I R (then_step m f)"
proof (rule keepsI)
  fix s r s' assume I: "I s" and run: "then_step m f s = (r, s')"
  obtain a s1 where m: "m s = (a, s1)" by (cases "m s")
  with I assms(1) have step: "I s1" "\<And>x. a = Inr x \<Longrightarrow> Q x" unfolding keeps_def by blast+
  show "I s' \<and> (\<forall>x. r = Inr x \<longrightarrow> R x)"
  proof (cases a)
    case (Inl e)
    then show ?thesis using run m step(1) by (auto simp: then_step_def)
  next
    case (Inr x)
    then have "f x s1 = (r, s')" using run m by (simp add: then_step_def)
    then show ?thesis using assms(2) [OF step(2) [OF Inr]] step(1) unfolding keeps_def by blast
  qed
qed

lemma kept_yield [kept_intros]: "kept I (yield_step r)"
  by (auto simp: keeps_def)

lemma kept_look [kept_intros]: "kept I (look f)"
  by (auto simp: keeps_def)

lemma kept_need [kept_intros]: "kept I (need f)"
  by (auto simp: keeps_def need_def split: option.splits)

lemma kept_change [kept_intros]: "(\<And>s. I s \<Longrightarrow> I (f s)) \<Longrightarrow> kept I (change f)"
  by (auto simp: keeps_def)

lemma kept_catch [kept_intros]: "kept I m \<Longrightarrow> kept I (catch_step handled m)"
  by (auto simp: keeps_def catch_step_def split: prod.splits sum.splits if_splits)

lemma kept_if [kept_intros]: "(b \<Longrightarrow> kept I m) \<Longrightarrow> (\<not> b \<Longrightarrow> kept I m') \<Longrightarrow> kept I (if b then m else m')"
  by simp

lemma kept_then [kept_intros]: "kept I m \<Longrightarrow> (\<And>x. kept I (f x)) \<Longrightarrow> kept I (then_step m f)"
  by (rule keeps_then)

section \<open>The run keeps its plan\<close>

lemma record_cpu_reported: "\<not> (n = 3 \<and> st = L_FAIL_RESOURCE) \<Longrightarrow> cpu_reported rep \<Longrightarrow> cpu_reported (record_layer n st detail rep)"
  by (auto simp: cpu_reported_def record_layer_def)

lemma replace_layer_set: "set (replace_layer r ls) \<subseteq> insert r (set ls)"
  by (induction ls) auto

lemma set_cpu_reported: "n \<noteq> 3 \<Longrightarrow> cpu_reported rep \<Longrightarrow> cpu_reported (set_layer n st detail rep)"
  using replace_layer_set by (fastforce simp: cpu_reported_def set_layer_def)

lemma put_cpu_reported: "cpu_reported rep \<Longrightarrow> cpu_reported (put_artifact k a rep)"
  by (simp add: cpu_reported_def put_artifact_def)

lemma kept_report: "(\<And>rep. cpu_reported rep \<Longrightarrow> cpu_reported (f rep)) \<Longrightarrow> kept (on_plan d t w c) (on_report f)"
  unfolding on_report_def by (rule kept_change) (simp add: on_plan_def)

lemma kept_reports [kept_intros]:
  "\<not> (n = 3 \<and> st = L_FAIL_RESOURCE) \<Longrightarrow> kept (on_plan d t w c) (on_report (record_layer n st detail))"
  "n \<noteq> 3 \<Longrightarrow> kept (on_plan d t w c) (on_report (set_layer n st detail))"
  "kept (on_plan d t w c) (on_report (put_artifact k a))"
  by (rule kept_report, erule (1) record_cpu_reported set_cpu_reported, rule kept_report, erule (1) set_cpu_reported,
      rule kept_report, erule put_cpu_reported)

lemma kept_save [kept_intros]: "kept (on_plan d t w c) (save_report w')"
  by (auto simp: keeps_def save_report_def on_plan_def split: sum.splits)

lemma kept_id [kept_intros]: "kept (on_plan d t w c) (fresh_id w')"
  by (auto simp: keeps_def fresh_id_def on_plan_def)

lemma kept_log [kept_intros]: "kept (on_plan d t w c) (log_event w' kind source payload)"
  unfolding log_event_def
  by (rule kept_then [OF kept_id]) (auto simp: keeps_def on_plan_def split: sum.splits)

lemma kept_started [kept_intros]: "kept (on_plan d t w c) (log_started w' r)"
  by (simp add: log_started_def kept_log)

lemma kept_store [kept_intros]: "kept (on_plan d t w c) (store_and_query w' b)"
  unfolding store_and_query_def query_benchmarks_def by (intro kept_intros) (simp add: on_plan_def)

lemma planned_profile: "keeps (on_plan d t w c) (\<lambda>p. p = reference_profile w c \<and> (\<exists>v. discovered w = Inr v)) (need run_profile)"
  by (auto simp: keeps_def need_def on_plan_def split: option.splits)

lemma validate_request_same: "validate_request r = Inr r' \<Longrightarrow> r' = r"
  by (auto simp: validate_request_def)

lemma planned_new_request:
  assumes "(text, n) \<in> {(''Return exactly: LONG_HAUL_OK'', 12), (''Say hello.'', 8)}" and "\<exists>v. discovered w = Inr v"
  shows "keeps (on_plan d t w c) (planned_request w c) (new_request w (reference_profile w c) text n)"
  unfolding new_request_def
proof (rule keeps_then [OF kept_id])
  fix i
  have "planned_request w c r" if "validate_request (reference_request w i (reference_profile w c) text n) = Inr r" for r
    using validate_request_same [OF that] assms by (auto simp: planned_request_def)
  then show "keeps (on_plan d t w c) (planned_request w c) (yield_step (validate_request (reference_request w i (reference_profile w c) text n)))"
    by (auto simp: keeps_def)
qed

lemma kept_execution:
  "planned_request w c r \<Longrightarrow> call \<in> {1, 3} \<Longrightarrow> kept (on_plan digest str_of w c) (execute_request digest str_of w call r)"
  by (auto simp: keeps_def execute_request_def Let_def on_plan_def)

text \<open>Discovery that lists a CPU first: what the run relies on, and every host provides.\<close>

definition lists_cpu_first :: "site \<Rightarrow> string \<Rightarrow> bool" where
  "lists_cpu_first w cpu \<longleftrightarrow>
     (\<forall>v. discovered w = Inr v \<longrightarrow> (\<exists>r rs. vessel_resources v = r # rs \<and> res_id r = cpu \<and> res_kind r = CPU))"

lemma kept_profile: "validate_profile (reference_profile w c) = Inr p \<Longrightarrow> discovered w = Inr v \<Longrightarrow>
    kept (on_plan d t w c) (change (\<lambda>s. s\<lparr>run_profile := Some p\<rparr>))"
  by (rule kept_change) (auto simp: on_plan_def validate_profile_def)

lemma kept_fields [kept_intros]:
  "kept (on_plan d t w c) (change (\<lambda>s. s\<lparr>run_vessel := v\<rparr>))"
  "kept (on_plan d t w c) (change (\<lambda>s. s\<lparr>run_validation := x\<rparr>))"
  "kept (on_plan d t w c) (change (\<lambda>s. s\<lparr>direct_result := y\<rparr>))"
  by (rule kept_change, simp add: on_plan_def)+

lemma keeps_yield: "keeps I (\<lambda>x. r = Inr x) (yield_step r)"
  by (auto simp: keeps_def)

lemma kept_prepare:
  assumes "lists_cpu_first w c"
  shows "kept (on_plan d t w c) (prepare digest str_of w)"
  unfolding prepare_def
proof (rule kept_then [OF kept_reports(1)], simp, rule kept_then [OF kept_reports(1)], simp, rule keeps_then [OF keeps_yield], goal_cases)
  case (1 _ _ v)
  note found = this
  with assms obtain r rs where v: "vessel_resources v = r # rs" "res_id r = c" "res_kind r = CPU"
    unfolding lists_cpu_first_def by blast
  show ?case
    unfolding v filter.simps simp_thms if_True list.case
    by (intro kept_fields kept_then kept_reports keeps_then [OF keeps_yield] kept_profile kept_if kept_save kept_yield) (auto simp: found)
qed

lemma kept_direct: "kept (on_plan digest str_of w c) (direct digest str_of w)"
  unfolding direct_def Let_def
  apply (rule keeps_then [OF planned_profile])
  apply (elim conjE, simp only:)
  apply (rule keeps_then [OF planned_new_request], simp, assumption)
  apply (intro kept_then kept_reports kept_save kept_started kept_execution kept_if kept_yield kept_need kept_fields)
  apply auto
  done

lemma kept_give_up: "kept (on_plan d t w c) (give_up_benchmark w' why)"
  unfolding give_up_benchmark_def by (intro kept_intros) auto

lemma kept_found: "(\<And>e. kept I (f e)) \<Longrightarrow> kept I g \<Longrightarrow> (\<And>x xs. kept I (h x xs)) \<Longrightarrow>
    kept I (case r of Inl e \<Rightarrow> f e | Inr [] \<Rightarrow> g | Inr (x # xs) \<Rightarrow> h x xs)"
  by (simp split: sum.split list.split)

lemma kept_benchmark: "kept (on_plan d t w c) (benchmark w')"
  unfolding benchmark_def Let_def
  by (intro kept_then kept_found kept_need kept_look kept_id kept_catch kept_store kept_give_up kept_fields kept_reports kept_yield) auto

lemma kept_choose: "kept (on_plan d t w c) (choose_plan digest w')"
  unfolding choose_plan_def query_benchmarks_def by (intro kept_then kept_need kept_yield kept_look)

lemma kept_scheduled: "kept (on_plan digest str_of w c) (scheduled digest str_of w)"
  unfolding scheduled_def
  apply (intro kept_then [OF kept_choose] kept_then [OF kept_reports(1)] kept_then [OF kept_reports(3)])
   apply simp
  apply (rule keeps_then [OF planned_profile])
  apply (elim conjE, simp only:)
  apply (rule keeps_then [OF planned_new_request], simp, assumption)
  apply (intro kept_then kept_reports kept_save kept_log kept_started kept_execution kept_if kept_yield)
  apply auto
  done

lemma kept_finish: "kept (on_plan d t w c) (finish w')"
  unfolding finish_def by (intro kept_then kept_look kept_yield kept_log kept_reports kept_save) auto

lemma kept_run: "lists_cpu_first w c \<Longrightarrow> kept (on_plan digest str_of w c) (run_reference digest str_of w)"
  unfolding run_reference_def
  by (intro kept_then kept_if kept_yield kept_prepare kept_direct kept_benchmark kept_scheduled kept_finish)

lemma host_run_on_plan:
  assumes "reference_on_host digest str_of m w stores opts = (r, s)"
  shows "on_plan digest str_of (host_site str_of m opts w) (host_cpu m opts) s"
proof -
  have "lists_cpu_first (host_site str_of m opts w) (host_cpu m opts)"
    using host_lists_cpu_first by (auto simp: lists_cpu_first_def host_site_def)
  then have "kept (on_plan digest str_of (host_site str_of m opts w) (host_cpu m opts)) (run_reference digest str_of (host_site str_of m opts w))"
    by (rule kept_run)
  moreover have "on_plan digest str_of (host_site str_of m opts w) (host_cpu m opts) (new_run events bench)" for events bench
    by (simp add: on_plan_def new_run_def cpu_reported_def)
  ultimately show ?thesis using assms unfolding keeps_def reference_on_host_def by blast
qed

section \<open>What a reference run measures\<close>

lemma planned_supported:
  assumes "planned_request w c req" and "snd (cpp_execute digest str_of h binary req) = Some (cmd, env)"
  shows "hd cmd = binary \<and> is_file h (model_file w) \<and> (\<exists>version. version_probe h = Inr (''ready'', version))"
proof -
  have req: "\<not> req_allow_unknown req" "profile_options (req_profile req) = [(''model_path'', PStr (model_file w))]"
    using assms(1) by (auto simp: planned_request_def reference_request_def reference_profile_def)
  with assms(2) obtain rt why where "cpp_identity h binary = Inr rt" "verdict_of str_of h rt (req_profile req) = Inr (SUPPORTED, why)"
    and "cpp_command str_of binary req = Inr cmd"
    by (auto simp: started_iff validate_state)
  then show ?thesis
    using supported_verdict [of str_of h rt "req_profile req" why] ready_identity [of h binary rt] command_starts [of str_of binary req cmd] req(2)
    by (auto simp: model_path_def py_str_def)
qed

lemma planned_success:
  assumes "planned_request w c req" and "fst (cpp_execute digest str_of h binary req) = Inr res" and "success res"
  shows "\<exists>cmd env stdout stderr. snd (cpp_execute digest str_of h binary req) = Some (cmd, env) \<and> hd cmd = binary
    \<and> is_file h (model_file w) \<and> (\<exists>version. version_probe h = Inr (''ready'', version)) \<and> run_process h cmd env = Completed 0 stdout stderr"
proof -
  obtain cmd env where call: "snd (cpp_execute digest str_of h binary req) = Some (cmd, env)"
    using not_started_fails [OF _ assms(2)] assms(3) by (metis not_Some_eq surj_pair)
  obtain rt where "run_command h req rt (cmd, env) = Inr res" using started_result [OF call] assms(2) by auto
  then have "\<exists>stdout stderr. run_process h cmd env = Completed 0 stdout stderr"
    using assms(3) by (cases "run_process h cmd env") (auto simp: run_command_def Let_def failed_result_def dest: completion_failed)
  then show ?thesis using call planned_supported [OF assms(1) call] by blast
qed

definition measured_on_host :: "(pyval \<Rightarrow> string) \<Rightarrow> (pyval \<Rightarrow> string) \<Rightarrow> machine \<Rightarrow> site \<Rightarrow> reference_options
    \<Rightarrow> execution_request \<times> execution_result result \<Rightarrow> bool" where
  "measured_on_host digest str_of m w opts = (\<lambda>(req, out).
      (\<exists>v cpu rest. discover_host str_of m opts = Inr v \<and> vessel_resources v = cpu # rest \<and> res_kind cpu = CPU
        \<and> res_id cpu = host_cpu m opts \<and> participating_resources (req_profile req) = [res_id cpu])
      \<and> strategy (req_profile req) = ''resident'' \<and> profile_options (req_profile req) = [(''model_path'', PStr (opt_model opts))]
      \<and> timeout_seconds req = opt_timeout_seconds opts
      \<and> (\<forall>res. out = Inr res \<and> success res \<longrightarrow> (\<exists>call cmd env stdout stderr.
           snd (cpp_execute digest str_of (hosts w call) (opt_binary opts) req) = Some (cmd, env) \<and> hd cmd = opt_binary opts
           \<and> is_file (hosts w call) (opt_model opts) \<and> (\<exists>version. version_probe (hosts w call) = Inr (''ready'', version))
           \<and> run_process (hosts w call) cmd env = Completed 0 stdout stderr)))"

lemma plan_measured:
  assumes "on_plan digest str_of (host_site str_of m opts w) (host_cpu m opts) s" and "(req, out) \<in> set (executions s)"
  shows "measured_on_host digest str_of m w opts (req, out)"
proof -
  let ?w = "host_site str_of m opts w"
  have w: "discovered ?w = discover_host str_of m opts" "model_file ?w = opt_model opts" "binary_file ?w = opt_binary opts"
    "run_timeout ?w = opt_timeout_seconds opts" "hosts ?w = hosts w"
    by (simp_all add: host_site_def)
  from assms obtain call where req: "planned_request ?w (host_cpu m opts) req"
    and out: "out = fst (cpp_execute digest str_of (hosts w call) (opt_binary opts) req)"
    unfolding on_plan_def w by fastforce
  then obtain v where v: "discover_host str_of m opts = Inr v" by (auto simp: planned_request_def w)
  have fields: "strategy (req_profile req) = ''resident''" "profile_options (req_profile req) = [(''model_path'', PStr (opt_model opts))]"
    "timeout_seconds req = opt_timeout_seconds opts" "participating_resources (req_profile req) = [host_cpu m opts]"
    using req by (auto simp: planned_request_def reference_request_def reference_profile_def w)
  have "\<exists>v cpu rest. discover_host str_of m opts = Inr v \<and> vessel_resources v = cpu # rest \<and> res_kind cpu = CPU
        \<and> res_id cpu = host_cpu m opts \<and> participating_resources (req_profile req) = [res_id cpu]"
    using v host_lists_cpu_first [OF v] fields(4) by auto
  moreover have "\<exists>call cmd env stdout stderr.
           snd (cpp_execute digest str_of (hosts w call) (opt_binary opts) req) = Some (cmd, env) \<and> hd cmd = opt_binary opts
           \<and> is_file (hosts w call) (opt_model opts) \<and> (\<exists>version. version_probe (hosts w call) = Inr (''ready'', version))
           \<and> run_process (hosts w call) cmd env = Completed 0 stdout stderr" if "out = Inr res \<and> success res" for res
    using planned_success [OF req, of digest str_of "hosts w call" "opt_binary opts" res] out that unfolding w by metis
  ultimately show ?thesis unfolding measured_on_host_def prod.case using fields(1-3) by (intro conjI allI impI)
qed

text \<open>
  C39. A reference run measures the machine it runs on, on either platform and however it ends. Whatever it
  executes, it executes on the one CPU discovery listed first, resident, with the model and the timeout of the
  call; an inference counts as successful only if the binary of the call, probed and identified, was started on
  that existing model file and exited with code 0. No report of such a run says that discovery found no CPU.
\<close>

theorem reference_measures_its_host:
  assumes "reference_on_host digest str_of m w stores opts = (r, s)"
  shows "(\<forall>e \<in> set (executions s). measured_on_host digest str_of m w opts e)
    \<and> (\<forall>rep \<in> insert (current_report s) (set (saved_reports s)). \<forall>l \<in> set (layers rep). layer l = 3 \<longrightarrow> layer_verdict l \<noteq> L_FAIL_RESOURCE)"
proof -
  note plan = host_run_on_plan [OF assms]
  have "measured_on_host digest str_of m w opts e" if "e \<in> set (executions s)" for e
    using plan_measured [OF plan, of "fst e" "snd e"] that by simp
  moreover have "layer_verdict l \<noteq> L_FAIL_RESOURCE"
    if "rep \<in> insert (current_report s) (set (saved_reports s))" "l \<in> set (layers rep)" "layer l = 3" for rep l
    using plan that by (auto simp: on_plan_def cpu_reported_def)
  ultimately show ?thesis by blast
qed

section \<open>Witness\<close>

definition bare_machine :: machine where
  "bare_machine = \<lparr>on_windows = False, machine_shell = (\<lambda>_. Command_Fails), processor_name = ''p'', machine_name = ''x86_64'',
     machine_json = (\<lambda>_. Not_Json), machine_upper = (\<lambda>s. s)\<rparr>"

definition bare_options :: reference_options where
  "bare_options = reference_options_of bare_machine ''cli'' ''m'' ''out'' (Fin 5) None None None"

definition bare_site :: site where
  "bare_site = sample_site [] failing_query"

abbreviation bare_profile :: inference_profile where
  "bare_profile \<equiv> reference_profile (host_site (\<lambda>_. []) bare_machine bare_options bare_site) ''work-vm-CPU''"

abbreviation bare_request :: execution_request where
  "bare_request \<equiv> reference_request (host_site (\<lambda>_. []) bare_machine bare_options bare_site) ''i'' bare_profile ''Return exactly: LONG_HAUL_OK'' 12"

lemma bare_options_simps [simp]:
  "opt_binary bare_options = ''cli''" "opt_model bare_options = ''m''" "opt_vessel_id bare_options = ''work-vm''"
  "opt_vessel_name bare_options = ''Work VM''" "opt_timeout_seconds bare_options = Fin 5"
  by (simp_all add: bare_options_def reference_options_of_def bare_machine_def detail_or_def)

lemma bare_discovery:
  "discover_host (\<lambda>_. []) bare_machine bare_options = Inr (found_vessel ''work-vm'' ''Work VM'' Station
     [found_resource ''work-vm-CPU'' CPU (Some ''p'') [] []] [])"
  using failed_probes_claim_nothing [of "\<lambda>_. Command_Fails"] by (simp add: discover_host_def bare_machine_def)

lemma bare_supported:
  "\<exists>v. cpp_validate (\<lambda>_. []) (\<lambda>_. []) (sample_host []) ''cli'' bare_profile = Inr v \<and> val_state v = SUPPORTED"
  by (simp add: sample_cpp_run reference_profile_def host_site_def Let_def del: int_str.simps)

lemma bare_succeeds:
  "\<exists>res. fst (cpp_execute (\<lambda>_. []) (\<lambda>_. []) (sample_host []) ''cli'' bare_request) = Inr res \<and> success res"
  by (simp add: sample_cpp_run reference_profile_def reference_request_def host_site_def parse_timings_def Let_def del: int_str.simps)

lemma bare_valid:
  "validate_profile bare_profile = Inr bare_profile"
  "validate_request bare_request = Inr bare_request"
  by (simp_all add: validate_profile_def validate_request_def reference_profile_def reference_request_def host_site_def opt_range_def)

lemma bare_site_simps [simp]:
  "discovered (host_site d m opts bare_site) = discover_host d m opts" "hosts (host_site d m opts bare_site) i = sample_host []"
  "binary_file (host_site d m opts bare_site) = opt_binary opts" "new_id (host_site d m opts bare_site) n = ''i''"
  "save_outcome (host_site d m opts bare_site) n = Inr ()" "append_outcome (host_site d m opts bare_site) n = Inr ()"
  "benchmark_outcome (host_site d m opts bare_site) = failing_query"
  by (simp_all add: host_site_def bare_site_def sample_site_def)

lemma bare_run:
  "\<exists>r s res. reference_on_host (\<lambda>_. []) (\<lambda>_. []) bare_machine bare_site (\<lambda>_. (None, None)) bare_options = (r, s)
     \<and> executions s = [(bare_request, Inr res)] \<and> success res"
proof -
  obtain v res where "cpp_validate (\<lambda>_. []) (\<lambda>_. []) (sample_host []) ''cli'' bare_profile = Inr v" "val_state v = SUPPORTED"
    "fst (cpp_execute (\<lambda>_. []) (\<lambda>_. []) (sample_host []) ''cli'' bare_request) = Inr res" "success res"
    using bare_supported bare_succeeds by blast
  then show ?thesis
    using bare_valid
    by (simp add: reference_on_host_def run_reference_def prepare_def direct_def benchmark_def run_step_simps(1-11) new_run_def
        bare_discovery found_vessel_def found_resource_def
        new_request_def log_started_def log_event_def execute_request_def catch_step_def store_and_query_def
        failing_query_def os_error_def Let_def numeral_eq_Suc)
qed

theorem reference_measures_its_host_witness:
  "\<exists>(s :: run) res. executions s = [(bare_request, Inr res)] \<and> success res
     \<and> measured_on_host (\<lambda>_. []) (\<lambda>_. []) bare_machine bare_site bare_options (bare_request, Inr res)"
proof -
  obtain r s res where run: "reference_on_host (\<lambda>_. []) (\<lambda>_. []) bare_machine bare_site (\<lambda>_. (None, None)) bare_options = (r, s)"
    and s: "executions s = [(bare_request, Inr res)]" "success res"
    using bare_run by (elim exE conjE)
  from reference_measures_its_host [OF run] s(1)
  have "measured_on_host (\<lambda>_. []) (\<lambda>_. []) bare_machine bare_site bare_options (bare_request, Inr res)" by simp
  with s show ?thesis by (intro exI conjI)
qed

end
