(* ===== verification/Reference_Log.thy ===== *)
theory Reference_Log
  imports Scheduler_Safety Fleet_Log_File Reference_Host
begin

text \<open>
  The files of a reference run: what the log holds when every layer passed, and that a run on a working host
  passes every layer, also in an output directory earlier runs have used.
\<close>

section \<open>The log of a run that passed\<close>

lemma stopped_not_passed: "stopped (view s) \<Longrightarrow> \<not> all_passed (layers (current_report s))"
  by (auto simp: stopped_def view_def all_passed_def)

lemma passed_outcome:
  assumes "triple P m (outcome n)" and "P (view s0)"
    and "then_step m (\<lambda>ok. if \<not> ok then yield_step (Inr ()) else m') s0 = (Inr (), s)" and "all_passed (layers (current_report s))"
  shows "\<exists>s1. stage n (view s1) \<and> m' s1 = (Inr (), s)"
proof -
  from assms(3) obtain ok s1 where m: "m s0 = (Inr ok, s1)" and m': "(if \<not> ok then yield_step (Inr ()) else m') s1 = (Inr (), s)"
    by (auto simp: then_step_Inr)
  have "outcome n ok (view s1)" using triple_returns [OF assms(1,2) m] .
  then show ?thesis
    using m' assms(4) stopped_not_passed by (cases ok) (auto simp: outcome_def)
qed

lemma passed_run_finished:
  assumes "run_reference digest str_of w (new_run events bench) = (Inr (), s)" and "all_passed (layers (current_report s))"
  shows "\<exists>s4. finish w s4 = (Inr (), s)"
proof -
  obtain s1 where s1: "stage 5 (view s1)" "then_step (direct digest str_of w) (\<lambda>inferred.
     if \<not> inferred then yield_step (Inr ()) else
     then_step (benchmark w) (\<lambda>measured.
     if \<not> measured then yield_step (Inr ()) else
     then_step (scheduled digest str_of w) (\<lambda>executed.
     if \<not> executed then yield_step (Inr ()) else finish w))) s1 = (Inr (), s)"
    using passed_outcome [OF prepare_triple new_run_stage assms(1) [unfolded run_reference_def] assms(2)] by (elim exE conjE)
  obtain s2 where s2: "stage 6 (view s2)" "then_step (benchmark w) (\<lambda>measured.
     if \<not> measured then yield_step (Inr ()) else
     then_step (scheduled digest str_of w) (\<lambda>executed.
     if \<not> executed then yield_step (Inr ()) else finish w)) s2 = (Inr (), s)"
    using passed_outcome [OF direct_triple s1 assms(2)] by (elim exE conjE)
  obtain s3 where s3: "stage 7 (view s3)" "then_step (scheduled digest str_of w) (\<lambda>executed.
     if \<not> executed then yield_step (Inr ()) else finish w) s3 = (Inr (), s)"
    using passed_outcome [OF benchmark_triple s2 assms(2)] by (elim exE conjE)
  show ?thesis using passed_outcome [OF scheduled_triple s3 assms(2)] by blast
qed

lemma logged_event:
  assumes "log_event w kind source payload s = (Inr u, s')"
  shows "\<exists>f e. event_log s' = event_file_append (event_line w) f e \<and> ev_type e = kind \<and> ev_payload e = payload
    \<and> current_report s' = current_report s"
  using assms by (auto simp: log_event_def then_step_Inr fresh_id_def split: sum.splits) (metis event.select_convs(3,6))

lemma saved_unchanged: "save_report w s = (Inr u, s') \<Longrightarrow> event_log s' = event_log s \<and> current_report s' = current_report s"
  by (auto simp: save_report_def split: sum.splits)

lemma recorded_output [simp]: "result_output (record_layer n st detail rep) = result_output rep"
  by (simp add: result_output_def record_layer_def)

text \<open>
  Passing means the evidence is on disk. When a reference run returns with every layer passed, the event log
  it leaves ends in the line of an observation that holds the output of the last inference, and the whole log,
  with whatever it held before the run, reads back from its file and replays without an exception.
\<close>

theorem passed_reference_log_replays:
  assumes "run_reference digest str_of w (new_run events bench) = (Inr (), s)" and "all_passed (layers (current_report s))"
  shows "(\<exists>es st. event_file_events (read_event w) (event_log s) = Inr es \<and> materialize es [] [] = Inr st)
    \<and> (\<exists>f e output. event_log s = event_file_append (event_line w) f e \<and> ev_type e = E_observation
        \<and> ev_payload e = [(''success'', VBool True), (''output'', output)] \<and> result_output (current_report s) = Inr output)"
proof -
  obtain s4 where "finish w s4 = (Inr (), s)" using passed_run_finished [OF assms] ..
  then obtain out s5 s6 es st where out: "result_output (current_report s4) = Inr out"
    and logged: "log_event w E_observation ''runtime'' [(''success'', VBool True), (''output'', out)] s4 = (Inr (), s5)"
    and s6: "s6 = s5\<lparr>current_report := record_layer 10 L_PASS ''fresh event-log replay completed''
      (record_layer 9 L_PASS ''execution events persisted'' (current_report s5))\<rparr>"
    and read: "event_file_events (read_event w) (event_log s5) = Inr es" "materialize es [] [] = Inr st"
    and saved: "save_report w s6 = (Inr (), s)"
    by (auto simp: finish_def then_step_Inr on_report_def)
  have "event_log s = event_log s5" "result_output (current_report s) = result_output (current_report s5)"
    using saved_unchanged [OF saved] by (simp_all add: s6)
  moreover obtain f e where e: "event_log s5 = event_file_append (event_line w) f e" "ev_type e = E_observation"
    "ev_payload e = [(''success'', VBool True), (''output'', out)]" "current_report s5 = current_report s4"
    using logged_event [OF logged] by (elim exE conjE)
  ultimately show ?thesis using out read by (intro conjI exI [of _ es] exI [of _ st] exI [of _ f] exI [of _ e] exI [of _ out]) simp_all
qed

section \<open>A working host\<close>

text \<open>Text whose JSON form is one line: control characters are escaped, U+0085 is not.\<close>

definition one_line :: "string \<Rightarrow> bool" where
  "one_line s \<longleftrightarrow> next_line \<notin> set s"

text \<open>The three kinds of events a reference run logs, with source and payload.\<close>

definition run_payload :: "event_type \<Rightarrow> string \<Rightarrow> payload \<Rightarrow> bool" where
  "run_payload kind source payload \<longleftrightarrow>
     (kind = E_request \<and> source = ''reference'' \<and> (\<exists>i. one_line i \<and> payload = [(''request_id'', VStr i), (''state'', VStr ''started'')]))
     \<or> (kind = E_decision \<and> source = ''scheduler'' \<and> (\<exists>pid. one_line pid \<and> payload = [(''plan_id'', VStr pid)]))
     \<or> (kind = E_observation \<and> source = ''runtime'' \<and> (\<exists>t. one_line t \<and> payload = [(''success'', VBool True), (''output'', VStr t)]))"

definition run_event :: "site \<Rightarrow> event \<Rightarrow> bool" where
  "run_event w e \<longleftrightarrow> ev_id e \<in> range (new_id w) \<and> ev_timestamp e \<in> range (wall_time w) \<and> ev_actor e = None
     \<and> (\<exists>source. ev_source e = Some source \<and> run_payload (ev_type e) source (ev_payload e))"

definition reference_cpu :: "vessel \<Rightarrow> string" where
  "reference_cpu v = res_id (hd (vessel_resources v))"

definition own_profile :: "site \<Rightarrow> vessel \<Rightarrow> inference_profile" where
  "own_profile w v = reference_profile w (reference_cpu v)"

text \<open>The host at every call: an identified binary, the model file, and a process that completes with one line of text.\<close>

definition working_host :: "host \<Rightarrow> string \<Rightarrow> string \<Rightarrow> bool" where
  "working_host h binary model \<longleftrightarrow> is_file h model \<and> model \<noteq> []
     \<and> (\<exists>rt. cpp_identity h binary = Inr rt \<and> runtime_id rt = ''llama.cpp'' \<and> (named (rt_version rt) \<or> named (rt_build_id rt))
          \<and> map_of (capabilities rt) ''identity_probe'' = Some (CapStr ''ready''))
     \<and> (\<forall>cmd env. \<exists>out err t. run_process h cmd env = Completed 0 out err \<and> one_line out \<and> parse_timings err (elapsed h) = Inr t)"

text \<open>Every outside operation works; the events of a run, of one line each, and its observation survive their files.\<close>

definition working_site :: "(pyval \<Rightarrow> string) \<Rightarrow> (pyval \<Rightarrow> string) \<Rightarrow> site \<Rightarrow> vessel \<Rightarrow> host \<Rightarrow> bool" where
  "working_site digest str_of w v h \<longleftrightarrow>
     (\<forall>k. hosts w k = h) \<and> working_host h (binary_file w) (model_file w)
     \<and> isfinite (run_timeout w) \<and> fgt (run_timeout w) (Fin 0)
     \<and> (\<forall>k. save_outcome w k = Inr () \<and> append_outcome w k = Inr () \<and> benchmark_outcome w k = Inr ())
     \<and> (\<forall>k. one_line (new_id w k) \<and> tz_aware (wall_time w k)) \<and> one_line (host_vessel_id w)
     \<and> tz_aware (scheduler_time w) \<and> (\<forall>i j. tz_aware (evidence_clock w i j))
     \<and> (\<forall>e. run_event w e \<longrightarrow> faithful_event (event_line w) (read_event w) e)
     \<and> (\<forall>i j k res. fst (cpp_execute digest str_of h (binary_file w)
             (reference_request w (new_id w i) (own_profile w v) ''Return exactly: LONG_HAUL_OK'' 12)) = Inr res \<longrightarrow>
          faithful (\<lambda>line. line \<noteq> []) (observation_line w) (read_observation w)
            (observation_of (wall_time w j) (new_id w k) (own_profile w v) res))"

text \<open>A vessel as discovery makes it: valid, without a lease, the CPU first.\<close>

definition plain_vessel :: "vessel \<Rightarrow> bool" where
  "plain_vessel v \<longleftrightarrow> vessel_ok v \<and> vessel_lease v = None \<and> (\<exists>cpu rest. vessel_resources v = cpu # rest \<and> res_kind cpu = CPU)"

lemma one_line_literals:
  "one_line ''local''" "one_line ''pool''" "one_line ''pipeline''" "one_line ''compose''" "one_line '':''" "one_line ''-cpu-resident''"
  by code_simp+

lemma one_line_append: "one_line (s @ t) \<longleftrightarrow> one_line s \<and> one_line t"
  by (auto simp: one_line_def)

lemma one_line_drop: "one_line s \<Longrightarrow> one_line (drop n s)"
  unfolding one_line_def using set_drop_subset by fast

lemma one_line_while: "one_line s \<Longrightarrow> one_line (dropWhile P s)"
  unfolding one_line_def using set_dropWhileD by fast

lemma one_line_strip: "one_line s \<Longrightarrow> one_line (strip s)"
  using one_line_while [of s is_space] one_line_while [of "rev (dropWhile is_space s)" is_space]
  by (simp add: strip_def one_line_def)

section \<open>What its runtime answers\<close>

lemma own_profile_valid: "validate_profile (own_profile w v) = Inr (own_profile w v)"
  by (simp add: validate_profile_def own_profile_def reference_profile_def)

lemma working_validation:
  assumes "working_host h binary (model_file w)"
  shows "\<exists>val. cpp_validate digest str_of h binary (own_profile w v) = Inr val \<and> val_state val = SUPPORTED
    \<and> cpp_identity h binary = Inr (val_runtime val) \<and> val_profile_id val = profile_id (own_profile w v)
    \<and> artifact_key digest (profile_artifact (own_profile w v)) = Inr (val_artifact_key val)
    \<and> val_resources val = participating_resources (own_profile w v) \<and> val_strategy val = strategy (own_profile w v)
    \<and> val_options val = profile_options (own_profile w v)
    \<and> runtime_id (val_runtime val) = ''llama.cpp'' \<and> (named (rt_version (val_runtime val)) \<or> named (rt_build_id (val_runtime val)))"
proof -
  let ?p = "own_profile w v"
  obtain rt where rt: "cpp_identity h binary = Inr rt" "runtime_id rt = ''llama.cpp''" "named (rt_version rt) \<or> named (rt_build_id rt)"
      "map_of (capabilities rt) ''identity_probe'' = Some (CapStr ''ready'')" and model: "is_file h (model_file w)" "model_file w \<noteq> []"
    using assms unfolding working_host_def by (elim conjE exE)
  have "profile_runtime_id ?p = ''llama.cpp''" "strategy ?p = ''resident''" "profile_options ?p = [(''model_path'', PStr (model_file w))]"
    by (simp_all add: own_profile_def reference_profile_def)
  with rt(4) model obtain why where verdict: "verdict_of str_of h rt ?p = Inr (SUPPORTED, why)"
    by (simp add: verdict_of_def has_model_path_def model_path_def py_str_def)
  obtain key where key: "artifact_key digest (profile_artifact ?p) = Inr key" by (simp add: artifact_key_def json_dumps_artifact)
  have "cpp_validate digest str_of h binary ?p = Inr \<lparr>val_runtime = rt, val_profile_id = profile_id ?p, val_artifact_key = key,
      val_resources = participating_resources ?p, val_strategy = strategy ?p, val_options = profile_options ?p, val_state = SUPPORTED,
      val_depth = PREFLIGHT, val_rationale = why, val_timestamp = today h, val_provenance = VProbe\<rparr>"
    using rt(1) verdict key by (simp add: cpp_validate_def)
  then show ?thesis using rt key by simp
qed

lemma working_execution:
  assumes "working_host h binary (model_file w)"
    and "req = reference_request w i (own_profile w v) text n"
  shows "\<exists>res t. fst (cpp_execute digest str_of h binary req) = Inr res \<and> success res
    \<and> res_output res = Some t \<and> one_line t"
proof -
  obtain val where val: "cpp_validate digest str_of h binary (own_profile w v) = Inr val" "val_state val = SUPPORTED"
    using working_validation [OF assms(1)] by blast
  obtain cmd where cmd: "cpp_command str_of binary req = Inr cmd"
    by (simp add: assms(2) cpp_command_def reference_request_def own_profile_def reference_profile_def model_path_def
        completion_arguments_def context_arguments_def positive_option_def
        gpu_layers_def int_flag_def Let_def del: int_str.simps)
  obtain out err t where run: "run_process h cmd (inference_environment str_of h req) = Completed 0 out err" "one_line out"
      "parse_timings err (elapsed h) = Inr t"
    using assms(1) unfolding working_host_def by blast
  have "req_profile req = own_profile w v" by (simp add: assms(2) reference_request_def)
  with val cmd run show ?thesis
    by (auto simp: cpp_execute_def run_command_def completion_result_def Let_def intro: one_line_strip one_line_drop)
qed

section \<open>Every phase passes\<close>

definition certifies :: "(pyval \<Rightarrow> string) \<Rightarrow> site \<Rightarrow> vessel \<Rightarrow> host \<Rightarrow> profile_validation \<Rightarrow> bool" where
  "certifies digest w v h val \<longleftrightarrow> val_state val = SUPPORTED
    \<and> cpp_identity h (binary_file w) = Inr (val_runtime val) \<and> val_profile_id val = profile_id (own_profile w v)
    \<and> artifact_key digest (profile_artifact (own_profile w v)) = Inr (val_artifact_key val)
    \<and> val_resources val = participating_resources (own_profile w v) \<and> val_strategy val = strategy (own_profile w v)
    \<and> val_options val = profile_options (own_profile w v)
    \<and> runtime_id (val_runtime val) = ''llama.cpp'' \<and> (named (rt_version (val_runtime val)) \<or> named (rt_build_id (val_runtime val)))"

definition log_ok :: "site \<Rightarrow> text_file \<Rightarrow> bool" where
  "log_ok w f \<longleftrightarrow> complete_file f \<and> (\<exists>es st. event_file_events (read_event w) f = Inr es \<and> materialize es [] [] = Inr st)"

definition benchmarks_ok :: "site \<Rightarrow> text_file \<Rightarrow> bool" where
  "benchmarks_ok w f \<longleftrightarrow> complete_file f \<and> (\<exists>bs. file_records (\<lambda>line. line \<noteq> []) (read_observation w) f = Inr bs
     \<and> (\<forall>b \<in> set bs. profile_ok (obs_profile b) \<and> (has_tzinfo (obs_timestamp b) \<longrightarrow> tz_aware (obs_timestamp b))))"

lemma log_ok_append:
  assumes "log_ok w f" and "faithful_event (event_line w) (read_event w) e" and "ev_type e \<in> {E_request, E_decision, E_observation}"
  shows "log_ok w (event_file_append (event_line w) f e)"
proof -
  from assms(1) obtain es st where es: "complete_file f" "event_file_events (read_event w) f = Inr es" "materialize es [] [] = Inr st"
    by (auto simp: log_ok_def)
  then have "holds_log (read_event w) f (Some es)" by (simp add: holds_log_def store_events_def)
  from holds_log_append [OF this assms(2)]
  have "complete_file (event_file_append (event_line w) f e)" "event_file_events (read_event w) (event_file_append (event_line w) f e) = Inr (es @ [e])"
    by (simp_all add: holds_log_def store_events_def)
  moreover have "materialize (es @ [e]) [] [] = Inr st"
    using es(3) assms(3) by (auto simp: materialize_def replay_append apply_event_def)
  ultimately show ?thesis unfolding log_ok_def by blast
qed

lemma log_works:
  assumes "working_site digest str_of w v h" and "log_ok w (event_log s)" and "run_payload kind source payload"
  shows "\<exists>f n m. log_event w kind source payload s = (Inr (), s\<lparr>event_log := f, writes_tried := n, ids_used := m\<rparr>) \<and> log_ok w f"
proof -
  let ?e = "\<lparr>ev_id = new_id w (ids_used s), ev_timestamp = wall_time w (Suc (ids_used s)), ev_type = kind, ev_actor = None,
    ev_source = Some source, ev_payload = payload\<rparr> :: event"
  have "run_event w ?e" using assms(3) by (simp add: run_event_def)
  then have "faithful_event (event_line w) (read_event w) ?e" using assms(1) by (simp add: working_site_def)
  moreover have "kind \<in> {E_request, E_decision, E_observation}" using assms(3) by (auto simp: run_payload_def)
  ultimately have "log_ok w (event_file_append (event_line w) (event_log s) ?e)" using log_ok_append [OF assms(2)] by simp
  moreover have "log_event w kind source payload s = (Inr (), s\<lparr>event_log := event_file_append (event_line w) (event_log s) ?e,
      writes_tried := Suc (writes_tried s), ids_used := Suc (ids_used s)\<rparr>)"
    using assms(1) by (simp add: log_event_def then_step_def fresh_id_def working_site_def)
  ultimately show ?thesis by blast
qed

lemma request_works:
  assumes "working_site digest str_of w v h" and "1 \<le> n" "n \<le> 4096"
  shows "new_request w (own_profile w v) text n s =
    (Inr (reference_request w (new_id w (ids_used s)) (own_profile w v) text n), s\<lparr>ids_used := Suc (ids_used s)\<rparr>)"
  using assms own_profile_valid [of w v]
  by (simp add: new_request_def then_step_def fresh_id_def yield_step_def validate_request_def reference_request_def working_site_def opt_range_def)

lemma started_works:
  assumes "working_site digest str_of w v h" and "log_ok w (event_log s)"
  shows "\<exists>f n m. log_started w (reference_request w (new_id w i) p text k) s = (Inr (), s\<lparr>event_log := f, writes_tried := n, ids_used := m\<rparr>) \<and> log_ok w f"
proof -
  have "one_line (new_id w i)" using assms(1) by (simp add: working_site_def)
  then show ?thesis
    unfolding log_started_def by (intro log_works [OF assms]) (simp add: run_payload_def reference_request_def)
qed

lemma prepare_works:
  assumes "working_site digest str_of w v h" and "discovered w = Inr v" and "plain_vessel v"
  shows "\<exists>s1 val. prepare digest str_of w s = (Inr True, s1) \<and> run_vessel s1 = Some v \<and> run_profile s1 = Some (own_profile w v)
    \<and> run_validation s1 = Some val \<and> certifies digest w v h val \<and> event_log s1 = event_log s \<and> benchmark_log s1 = benchmark_log s"
proof -
  have host: "working_host h (binary_file w) (model_file w)" "hosts w 0 = h" using assms(1) by (auto simp: working_site_def)
  obtain val where val: "cpp_validate digest str_of h (binary_file w) (own_profile w v) = Inr val" "val_state val = SUPPORTED" "certifies digest w v h val"
    using working_validation [OF host(1), of digest str_of v] unfolding certifies_def by blast
  obtain cpu rest where cpu: "vessel_resources v = cpu # rest" "res_kind cpu = CPU" using assms(3) by (auto simp: plain_vessel_def)
  then have p: "reference_profile w (res_id cpu) = own_profile w v" by (simp add: own_profile_def reference_cpu_def)
  show ?thesis
    using val host(2) cpu own_profile_valid [of w v]
    by (simp add: prepare_def then_step_def assms(2) p on_report_def change_def yield_step_def)
qed

lemma execution_works:
  assumes "working_site digest str_of w v h"
  shows "\<exists>res t. fst (cpp_execute digest str_of h (binary_file w) (reference_request w i (own_profile w v) text n)) = Inr res
    \<and> success res \<and> res_output res = Some t \<and> one_line t"
  using assms working_execution [OF _ refl, of h "binary_file w" w digest str_of i v "text" n] by (simp add: working_site_def)

lemma direct_works:
  assumes "working_site digest str_of w v h" and "run_vessel s = Some v" and "run_profile s = Some (own_profile w v)"
    and "run_validation s = Some val" and "certifies digest w v h val" and "log_ok w (event_log s)" and "benchmarks_ok w (benchmark_log s)"
  shows "\<exists>s1 val' res i. direct digest str_of w s = (Inr True, s1) \<and> run_vessel s1 = Some v \<and> run_profile s1 = Some (own_profile w v)
    \<and> run_validation s1 = Some val' \<and> certifies digest w v h val' \<and> log_ok w (event_log s1) \<and> benchmarks_ok w (benchmark_log s1)
    \<and> direct_result s1 = Some res
    \<and> fst (cpp_execute digest str_of h (binary_file w)
        (reference_request w (new_id w i) (own_profile w v) ''Return exactly: LONG_HAUL_OK'' 12)) = Inr res"
proof -
  let ?req = "reference_request w (new_id w (ids_used s)) (own_profile w v) ''Return exactly: LONG_HAUL_OK'' 12"
  obtain f n m where logged: "log_started w ?req (s\<lparr>ids_used := Suc (ids_used s)\<rparr>)
      = (Inr (), s\<lparr>event_log := f, writes_tried := n, ids_used := m\<rparr>)" and f: "log_ok w f"
    using started_works [OF assms(1), of "s\<lparr>ids_used := Suc (ids_used s)\<rparr>"] assms(6) by fastforce
  obtain res where res: "fst (cpp_execute digest str_of h (binary_file w) ?req) = Inr res" "success res"
    using execution_works [OF assms(1)] by blast
  have w: "hosts w 1 = h" "\<And>k. save_outcome w k = Inr ()" using assms(1) by (auto simp: working_site_def)
  have "certifies digest w v h (val\<lparr>val_depth := EXECUTION, val_provenance := VMeasured\<rparr>)" using assms(5) by (simp add: certifies_def)
  moreover have "\<exists>s1. direct digest str_of w s = (Inr True, s1) \<and> run_vessel s1 = Some v \<and> run_profile s1 = Some (own_profile w v)
      \<and> run_validation s1 = Some (val\<lparr>val_depth := EXECUTION, val_provenance := VMeasured\<rparr>) \<and> event_log s1 = f
      \<and> benchmark_log s1 = benchmark_log s \<and> direct_result s1 = Some res"
    using assms(2-4) res w
    by (simp add: direct_def then_step_def need_def request_works [OF assms(1)] logged on_report_def change_def yield_step_def
        save_report_def execute_request_def Let_def)
  ultimately show ?thesis using f res(1) assms(7) by metis
qed

lemma benchmark_works:
  assumes "working_site digest str_of w v h" and "run_vessel s = Some v" and "run_profile s = Some (own_profile w v)"
    and "run_validation s = Some val" and "certifies digest w v h val" and "log_ok w (event_log s)" and "benchmarks_ok w (benchmark_log s)"
    and "direct_result s = Some res"
    and "fst (cpp_execute digest str_of h (binary_file w)
        (reference_request w (new_id w i) (own_profile w v) ''Return exactly: LONG_HAUL_OK'' 12)) = Inr res"
  shows "\<exists>s1 val'. benchmark w s = (Inr True, s1) \<and> run_vessel s1 = Some v \<and> run_profile s1 = Some (own_profile w v)
    \<and> run_validation s1 = Some val' \<and> certifies digest w v h val' \<and> log_ok w (event_log s1) \<and> benchmarks_ok w (benchmark_log s1)"
proof -
  let ?b = "observation_of (wall_time w (Suc (ids_used s))) (new_id w (ids_used s)) (own_profile w v) res"
  let ?f = "bench_file_append (observation_line w) (benchmark_log s) ?b"
  obtain bs where bs: "complete_file (benchmark_log s)" "file_records (\<lambda>line. line \<noteq> []) (read_observation w) (benchmark_log s) = Inr bs"
      "\<forall>b \<in> set bs. profile_ok (obs_profile b) \<and> (has_tzinfo (obs_timestamp b) \<longrightarrow> tz_aware (obs_timestamp b))"
    using assms(7) by (auto simp: benchmarks_ok_def)
  have "faithful (\<lambda>line. line \<noteq> []) (observation_line w) (read_observation w) ?b"
    using assms(1,9) by (simp add: working_site_def)
  with file_records_appended [of "benchmark_log s" "\<lambda>line. line \<noteq> []" "read_observation w" bs "observation_line w" "[?b]"] bs(1,2)
  have stored: "complete_file ?f" "file_records (\<lambda>line. line \<noteq> []) (read_observation w) ?f = Inr (bs @ [?b])"
    by (simp_all add: bench_file_append_def)
  have "profile_ok (obs_profile ?b)" "tz_aware (obs_timestamp ?b)"
    using assms(1) own_profile_valid [of w v] by (simp_all add: observation_of_def profile_ok_def working_site_def)
  then have ok: "benchmarks_ok w ?f" using stored bs(3) by (auto simp: benchmarks_ok_def)
  have query: "bench_file_query (read_observation w) (Some (profile_id (own_profile w v))) None None ?f
      = Inr (bench_query (Some (profile_id (own_profile w v))) None None (Some bs) @ [?b])"
    using stored(2) by (simp add: bench_file_query_def bench_query_def observation_of_def)
  have found: "\<exists>x xs. bench_query (Some (profile_id (own_profile w v))) None None (Some bs) @ [?b] = x # xs"
    by (cases "bench_query (Some (profile_id (own_profile w v))) None None (Some bs)") simp_all
  then obtain x xs where xs: "bench_query (Some (profile_id (own_profile w v))) None None (Some bs) @ [?b] = x # xs" by blast
  have w: "\<And>k. benchmark_outcome w k = Inr ()" using assms(1) by (simp add: working_site_def)
  have "certifies digest w v h (val\<lparr>val_depth := BENCHMARK\<rparr>)" using assms(5) by (simp add: certifies_def)
  moreover have "\<exists>s1. benchmark w s = (Inr True, s1) \<and> run_vessel s1 = Some v \<and> run_profile s1 = Some (own_profile w v)
      \<and> run_validation s1 = Some (val\<lparr>val_depth := BENCHMARK\<rparr>) \<and> event_log s1 = event_log s \<and> benchmark_log s1 = ?f"
    using assms(2-4,8) w query xs
    by (simp add: benchmark_def then_step_def need_def fresh_id_def look_def on_report_def change_def yield_step_def
        catch_step_def store_and_query_def query_benchmarks_def observation_of_def Let_def)
  ultimately show ?thesis using ok assms(6) by metis
qed

section \<open>The scheduler admits the measured profile\<close>

lemma own_profile_ok: "profile_ok (own_profile w v)"
  by (simp add: profile_ok_def own_profile_valid)

lemma reference_mission_valid: "validate_mission reference_mission = Inr reference_mission"
  by (simp add: validate_mission_def reference_mission_def)

lemma certified_found:
  assumes "certifies digest w v h val" and "current_runtimes sch = agreed_runtimes [val_runtime val]" and "validations sch = [val]"
  shows "find_validation digest sch (own_profile w v) = Inr (Some val)"
proof -
  have runtime: "map_of (current_runtimes sch) ''llama.cpp'' = Some (val_runtime val)"
    using assms(1,2) by (simp add: certifies_def agreed_runtimes_def group_runtimes_def runtime_eq_def)
  have "dumps_ok (PDict (profile_options (own_profile w v)))"
    by (simp add: own_profile_def reference_profile_def)
  then obtain t where options: "json_dumps (PDict (profile_options (own_profile w v))) = Inr t" by (auto simp: dumps_ok_def)
  have "val_options val = profile_options (own_profile w v)" using assms(1) by (simp add: certifies_def)
  then have "dumps_ok (validation_dump val)"
    using options by (intro dumps_ok_validation) (simp only: dumpable_def, blast)
  then obtain d where dump: "json_dumps (validation_dump val) = Inr d" by (auto simp: dumps_ok_def)
  have "validation_matches digest (own_profile w v) (val_runtime val) val = Inr True"
    using assms(1) options by (simp add: validation_matches_def certifies_def eand_def runtime_eq_def del: json_dumps.simps)
  moreover have "profile_runtime_id (own_profile w v) = ''llama.cpp''" by (simp add: own_profile_def reference_profile_def)
  ultimately show ?thesis
    using runtime assms(1,3) dump by (auto simp: find_validation_def certifies_def unique_by_def dict_of_def)
qed

lemma select_works:
  assumes "working_site digest str_of w v h" and "plain_vessel v" and "certifies digest w v h val"
    and sch: "make_scheduler [v] [] bs [val] [val_runtime val] None (scheduler_time w) = Inr sch"
    and "\<forall>b \<in> set bs. profile_ok (obs_profile b) \<and> (has_tzinfo (obs_timestamp b) \<longrightarrow> tz_aware (obs_timestamp b))"
  shows "\<exists>c. select digest (evidence_clock w) sch reference_mission [own_profile w v] = Inr c \<and> one_line (plan_id (cand_plan c))"
proof -
  let ?p = "own_profile w v"
  have fields: "sch_vessels sch = [v]" "vessels_by_id sch = [(vessel_id v, v)]" "validations sch = [val]"
      "current_runtimes sch = agreed_runtimes [val_runtime val]"
    using sch by (auto simp: make_scheduler_def dict_of_def Let_def)
  have "dumpable (val_options val)"
    using assms(3) by (simp add: certifies_def dumpable_iff own_profile_def reference_profile_def)
  then have ok: "scheduler_ok sch"
    using make_scheduler_ok [OF sch] assms(2,5) by (simp add: plain_vessel_def)
  have ready: "mission_ready reference_mission"
    by (simp add: mission_ready_def reference_mission_valid) (simp add: reference_mission_def)
  have leases: "leases_ok sch reference_mission (plan_for sch ?p LOCAL)"
    using assms(2) by (auto simp: leases_ok_def planned_lease_def fields plan_for_def plain_vessel_def sorted_set_def)
  have "memory_ok sch reference_mission (plan_for sch ?p LOCAL) ?p"
    by (simp add: memory_ok_def memory_bounds_def own_profile_def reference_profile_def reference_mission_def)
  then have "constraints_ok sch reference_mission (plan_for sch ?p LOCAL) ?p"
    using leases by (simp add: constraints_ok_def link_ok_def plan_for_def reference_mission_def)
  then have admitted: "admissible digest sch reference_mission (plan_for sch ?p LOCAL) ?p"
    using certified_found [OF assms(3) fields(4,3)] assms(3) by (auto simp: admissible_def feasible_def certifies_def)
  have only: "profiles_by_id [?p] = [(profile_id ?p, ?p)]" by (simp add: profiles_by_id_def dict_of_def)
  have clock: "\<forall>i j. tz_aware (evidence_clock w i j)" using assms(1) by (simp add: working_site_def)
  have profiles: "\<forall>p \<in> set [?p]. profile_ok p" by (simp add: own_profile_ok)
  have "\<exists>p mode c. select digest (evidence_clock w) sch reference_mission [?p] = Inr (assign_rank c) \<and> map_of (profiles_by_id [?p]) (profile_id p) = Some p
      \<and> evaluated digest (evidence_clock w) sch reference_mission (plan_for sch p mode) p c"
    by (rule select_cases [OF ok ready profiles clock, where digest = digest]) (use admitted only in simp, blast)
  then obtain p mode c where some: "select digest (evidence_clock w) sch reference_mission [?p] = Inr (assign_rank c)"
      "map_of (profiles_by_id [?p]) (profile_id p) = Some p"
      "evaluated digest (evidence_clock w) sch reference_mission (plan_for sch p mode) p c"
    by blast
  from some(2) have p: "p = ?p" by (simp add: only split: if_splits)
  from some(3) have plan: "cand_plan c = plan_for sch p mode" by (auto simp: evaluated_def evaluate_def Let_def)
  have "cand_plan (assign_rank c) = cand_plan c" by (simp add: assign_rank_def)
  moreover have "one_line (profile_id ?p)"
    using assms(1) by (simp add: own_profile_def reference_profile_def one_line_append one_line_literals working_site_def)
  moreover have "one_line (mode_lower mode)" by (cases mode) (simp_all add: one_line_literals)
  ultimately have "cand_plan (assign_rank c) = plan_for sch ?p mode" "one_line (mode_lower mode @ '':'' @ profile_id ?p)"
    unfolding one_line_append using plan p one_line_literals by simp_all
  then have "one_line (plan_id (cand_plan (assign_rank c)))" by (simp add: plan_for_def)
  then show ?thesis using some(1) by blast
qed

lemma choose_works:
  assumes "working_site digest str_of w v h" and "plain_vessel v" and "run_vessel s = Some v" and "run_profile s = Some (own_profile w v)"
    and "run_validation s = Some val" and "certifies digest w v h val" and "benchmarks_ok w (benchmark_log s)"
  shows "\<exists>c. choose_plan digest w s = (Inr c, s) \<and> one_line (plan_id (cand_plan c))"
proof -
  obtain bs where bs: "file_records (\<lambda>line. line \<noteq> []) (read_observation w) (benchmark_log s) = Inr bs"
      "\<forall>b \<in> set bs. profile_ok (obs_profile b) \<and> (has_tzinfo (obs_timestamp b) \<longrightarrow> tz_aware (obs_timestamp b))"
    using assms(7) by (auto simp: benchmarks_ok_def)
  let ?bs = "bench_query (Some (profile_id (own_profile w v))) None None (Some bs)"
  have query: "bench_file_query (read_observation w) (Some (profile_id (own_profile w v))) None None (benchmark_log s) = Inr ?bs"
    using bs(1) by (simp add: bench_file_query_def)
  have bs_ok: "\<forall>b \<in> set ?bs. profile_ok (obs_profile b) \<and> (has_tzinfo (obs_timestamp b) \<longrightarrow> tz_aware (obs_timestamp b))"
    using bs(2) by (auto simp: bench_query_def)
  have "tz_aware (scheduler_time w)" using assms(1) by (simp add: working_site_def)
  then obtain sch where sch: "make_scheduler [v] [] ?bs [val] [val_runtime val] None (scheduler_time w) = Inr sch"
    by (simp add: make_scheduler_def guard_def Let_def)
  obtain c where c: "select digest (evidence_clock w) sch reference_mission [own_profile w v] = Inr c" "one_line (plan_id (cand_plan c))"
    using select_works [OF assms(1,2,6) sch bs_ok] by blast
  have w: "hosts w 2 = h" "\<And>k. benchmark_outcome w k = Inr ()" using assms(1) by (auto simp: working_site_def)
  have runtime: "cpp_identity h (binary_file w) = Inr (val_runtime val)" using assms(6) by (simp add: certifies_def)
  show ?thesis
    using assms(3-5) w query sch c runtime reference_mission_valid
    by (simp add: choose_plan_def then_step_def need_def yield_step_def query_benchmarks_def look_def)
qed

lemma output_of_result:
  "res_output res = Some t \<Longrightarrow> result_output (put_artifact ''execution_result'' (A_Result res) rep) = Inr (VStr t)"
  by (simp add: result_output_def put_artifact_def update_conv')

lemma scheduled_works:
  assumes "working_site digest str_of w v h" and "plain_vessel v" and "run_vessel s = Some v" and "run_profile s = Some (own_profile w v)"
    and "run_validation s = Some val" and "certifies digest w v h val" and "log_ok w (event_log s)" and "benchmarks_ok w (benchmark_log s)"
  shows "\<exists>s1 t. scheduled digest str_of w s = (Inr True, s1) \<and> log_ok w (event_log s1)
    \<and> result_output (current_report s1) = Inr (VStr t) \<and> one_line t"
proof -
  obtain c where c: "choose_plan digest w s = (Inr c, s)" "one_line (plan_id (cand_plan c))"
    using choose_works [OF assms(1-6,8)] by blast
  define rep where "rep = record_layer 7 L_PASS ''scheduler selected validated LOCAL resident plan'' (put_artifact ''selected_plan'' (A_Plan (cand_plan c)) (current_report s))"
  let ?s0 = "s\<lparr>current_report := rep, ids_used := Suc (ids_used s)\<rparr>"
  let ?req = "reference_request w (new_id w (ids_used s)) (own_profile w v) ''Say hello.'' 8"
  have payload: "run_payload E_decision ''scheduler'' [(''plan_id'', VStr (plan_id (cand_plan c)))]"
    using c(2) by (simp add: run_payload_def)
  obtain f n m where decision: "log_event w E_decision ''scheduler'' [(''plan_id'', VStr (plan_id (cand_plan c)))] ?s0
      = (Inr (), ?s0\<lparr>event_log := f, writes_tried := n, ids_used := m\<rparr>)" and f: "log_ok w f"
    using log_works [OF assms(1) _ payload, of ?s0] assms(7) by auto
  let ?s1 = "?s0\<lparr>event_log := f, writes_tried := n, ids_used := m\<rparr>"
  obtain f' n' m' where started: "log_started w ?req ?s1 = (Inr (), ?s1\<lparr>event_log := f', writes_tried := n', ids_used := m'\<rparr>)"
      and f': "log_ok w f'"
    using started_works [OF assms(1), of ?s1] f by fastforce
  obtain res t where res: "fst (cpp_execute digest str_of h (binary_file w) ?req) = Inr res" "success res"
      "res_output res = Some t" "one_line t"
    using execution_works [OF assms(1)] by blast
  have w: "hosts w 3 = h" "\<And>k. save_outcome w k = Inr ()" using assms(1) by (auto simp: working_site_def)
  have "\<exists>s1. scheduled digest str_of w s = (Inr True, s1) \<and> event_log s1 = f' \<and> result_output (current_report s1) = Inr (VStr t)"
    using assms(4) c(1) decision started res w
    by (simp add: scheduled_def then_step_def need_def request_works [OF assms(1)] on_report_def change_def yield_step_def
        save_report_def execute_request_def output_of_result Let_def flip: rep_def)
  then show ?thesis using f' res(4) by metis
qed

lemma finish_works:
  assumes "working_site digest str_of w v h" and "log_ok w (event_log s)" and "result_output (current_report s) = Inr (VStr t)" and "one_line t"
  shows "\<exists>s1. finish w s = (Inr (), s1) \<and> layers (current_report s1)
      = layers (current_report s) @ [\<lparr>layer = 9, layer_verdict = L_PASS, layer_detail = ''execution events persisted''\<rparr>,
          \<lparr>layer = 10, layer_verdict = L_PASS, layer_detail = ''fresh event-log replay completed''\<rparr>]"
proof -
  have payload: "run_payload E_observation ''runtime'' [(''success'', VBool True), (''output'', VStr t)]"
    using assms(4) by (simp add: run_payload_def)
  obtain f n m where logged: "log_event w E_observation ''runtime'' [(''success'', VBool True), (''output'', VStr t)] s
      = (Inr (), s\<lparr>event_log := f, writes_tried := n, ids_used := m\<rparr>)" and f: "log_ok w f"
    using log_works [OF assms(1,2) payload] by auto
  from f obtain es st where "event_file_events (read_event w) f = Inr es" "materialize es [] [] = Inr st" by (auto simp: log_ok_def)
  moreover have "\<And>k. save_outcome w k = Inr ()" using assms(1) by (auto simp: working_site_def)
  ultimately show ?thesis
    using assms(3) logged
    by (simp add: finish_def then_step_def look_def yield_step_def on_report_def change_def save_report_def record_layer_def)
qed

lemma working_run:
  assumes "working_site digest str_of w v h" and "discovered w = Inr v" and "plain_vessel v"
    and "log_ok w events" and "benchmarks_ok w bench"
  shows "\<exists>s. run_reference digest str_of w (new_run events bench) = (Inr (), s)
    \<and> map (\<lambda>l. (layer l, layer_verdict l)) (layers (current_report s)) = map (\<lambda>i. (int i, L_PASS)) [0..<11]
    \<and> layers (last (saved_reports s)) = layers (current_report s)"
proof -
  let ?s0 = "new_run events bench"
  have s0: "event_log ?s0 = events" "benchmark_log ?s0 = bench" by (simp_all add: new_run_def)
  obtain s1 val where s1: "prepare digest str_of w ?s0 = (Inr True, s1)" "run_vessel s1 = Some v" "run_profile s1 = Some (own_profile w v)"
      "run_validation s1 = Some val" "certifies digest w v h val" "event_log s1 = events" "benchmark_log s1 = bench"
    using prepare_works [OF assms(1-3), of ?s0] s0 by metis
  obtain s2 val2 res i where s2: "direct digest str_of w s1 = (Inr True, s2)" "run_vessel s2 = Some v" "run_profile s2 = Some (own_profile w v)"
      "run_validation s2 = Some val2" "certifies digest w v h val2" "log_ok w (event_log s2)" "benchmarks_ok w (benchmark_log s2)"
      "direct_result s2 = Some res" "fst (cpp_execute digest str_of h (binary_file w)
        (reference_request w (new_id w i) (own_profile w v) ''Return exactly: LONG_HAUL_OK'' 12)) = Inr res"
    using direct_works [OF assms(1) s1(2-5)] assms(4,5) s1(6,7) by metis
  obtain s3 val3 where s3: "benchmark w s2 = (Inr True, s3)" "run_vessel s3 = Some v" "run_profile s3 = Some (own_profile w v)"
      "run_validation s3 = Some val3" "certifies digest w v h val3" "log_ok w (event_log s3)" "benchmarks_ok w (benchmark_log s3)"
    using benchmark_works [OF assms(1) s2(2-9)] by metis
  obtain s4 t where s4: "scheduled digest str_of w s3 = (Inr True, s4)" "log_ok w (event_log s4)"
      "result_output (current_report s4) = Inr (VStr t)" "one_line t"
    using scheduled_works [OF assms(1,3) s3(2-7)] by metis
  obtain s where s: "finish w s4 = (Inr (), s)" "layers (current_report s)
      = layers (current_report s4) @ [\<lparr>layer = 9, layer_verdict = L_PASS, layer_detail = ''execution events persisted''\<rparr>,
          \<lparr>layer = 10, layer_verdict = L_PASS, layer_detail = ''fresh event-log replay completed''\<rparr>]"
    using finish_works [OF assms(1) s4(2-4)] by metis
  have run: "run_reference digest str_of w ?s0 = (Inr (), s)"
    using s1(1) s2(1) s3(1) s4(1) s(1) by (simp add: run_reference_def then_step_def)
  have "stage 5 (view s1)" using triple_returns [OF prepare_triple new_run_stage s1(1)] by (simp add: outcome_def)
  from triple_returns [OF direct_triple this s2(1)] have "stage 6 (view s2)" by (simp add: outcome_def)
  from triple_returns [OF benchmark_triple this s3(1)] have "stage 7 (view s3)" by (simp add: outcome_def)
  from triple_returns [OF scheduled_triple this s4(1)] have "stage 9 (view s4)" by (simp add: outcome_def)
  then have "all_passed (layers (current_report s4))" by (simp add: stage_def view_def)
  then have passed: "all_passed (layers (current_report s))" by (auto simp: s(2) all_passed_def)
  have "concluded (view s)" using triple_returns [OF run_triple new_run_stage run] .
  then have "map layer (layers (current_report s)) = map int [0..<11] \<and> layers (last (saved_reports s)) = layers (current_report s)"
    using passed by (auto simp: concluded_def view_def truthful_def in_order_def last_map split: if_splits)
  moreover have "map (\<lambda>l. (layer l, layer_verdict l)) (layers (current_report s)) = map (\<lambda>n. (n, L_PASS)) (map layer (layers (current_report s)))"
    using passed by (simp add: all_passed_def)
  ultimately show ?thesis using run by (intro exI [of _ s]) (simp add: comp_def)
qed


text \<open>
  C5. A working host passes. Suppose discovery lists a valid vessel with its CPU first, the binary is identified,
  the model exists, every process it starts completes with readable timings and output without U+0085, writes
  succeed, and events and observations survive their files. Then a reference run, also in an output directory
  whose logs earlier runs have filled, returns with exactly the eleven layers, all passed, and that report saved;
  nothing in the run itself, scheduler, benchmark query and replay included, can refuse a host that works.
\<close>

theorem working_reference_run_passes:
  assumes "working_site digest str_of w v h" and "discovered w = Inr v" and "plain_vessel v"
    and "log_ok w events" and "benchmarks_ok w bench"
  shows "\<exists>s. run_reference digest str_of w (new_run events bench) = (Inr (), s)
    \<and> map (\<lambda>l. (layer l, layer_verdict l)) (layers (current_report s)) = map (\<lambda>i. (int i, L_PASS)) [0..<11]
    \<and> layers (last (saved_reports s)) = layers (current_report s)"
  using assms by (rule working_run)

section \<open>Witnesses\<close>

text \<open>A codec for the events of a run: a letter for the kind, then the text, two letters for each character.\<close>

definition letters :: "string \<Rightarrow> string" where
  "letters s = concat (map (\<lambda>c. [char_of (65 + of_char c div 16 :: nat), char_of (65 + of_char c mod 16 :: nat)]) s)"

fun unletters :: "string \<Rightarrow> string" where
  "unletters (a # b # s) = char_of (16 * (of_char a - 65) + (of_char b - 65) :: nat) # unletters s"
| "unletters _ = []"

lemma letter: "n < 16 \<Longrightarrow> of_char (char_of (65 + n :: nat) :: char) = (65 + n :: nat)"
  by simp

lemma unletters_letters: "unletters (letters s) = s"
proof (induction s)
  case (Cons c s)
  have "(of_char c :: nat) < 256" by simp
  then have "of_char c div 16 < (16 :: nat)" by presburger
  then show ?case using Cons by (simp add: letters_def letter)
qed (simp add: letters_def)

lemma letters_unbroken: "unbroken (letters s)"
proof (induction s)
  case (Cons c s)
  have "(of_char c :: nat) < 256" by simp
  then have bound: "of_char c div 16 < (16 :: nat)" "of_char c mod 16 < (16 :: nat)" by presburger+
  have "\<not> is_line_break (char_of (65 + n :: nat))" if "n < 16" for n
    using letter [OF that] that by (auto simp: is_line_break_def)
  with Cons bound show ?case by (simp add: letters_def unbroken_def)
qed (simp add: letters_def unbroken_def)

definition coded_line :: "event \<Rightarrow> string" where
  "coded_line e = (case ev_payload e of
       [(_, VStr i), _] \<Rightarrow> CHR ''r'' # letters i
     | [(_, VStr pid)] \<Rightarrow> CHR ''d'' # letters pid
     | [_, (_, VStr t)] \<Rightarrow> CHR ''o'' # letters t
     | _ \<Rightarrow> [])"

definition coded_event :: "event_type \<Rightarrow> string \<Rightarrow> payload \<Rightarrow> event" where
  "coded_event kind source payload = \<lparr>ev_id = ''i'', ev_timestamp = Aware 0 0, ev_type = kind, ev_actor = None,
     ev_source = Some source, ev_payload = payload\<rparr>"

definition decoded_event :: "string \<Rightarrow> event result" where
  "decoded_event line = (case line of [] \<Rightarrow> Inl (ValueError ''line'') | c # s \<Rightarrow> Inr (
       if c = CHR ''r'' then coded_event E_request ''reference'' [(''request_id'', VStr (unletters s)), (''state'', VStr ''started'')]
       else if c = CHR ''d'' then coded_event E_decision ''scheduler'' [(''plan_id'', VStr (unletters s))]
       else coded_event E_observation ''runtime'' [(''success'', VBool True), (''output'', VStr (unletters s))]))"

abbreviation log_profile :: inference_profile where
  "log_profile \<equiv> reference_profile (host_site (\<lambda>_. []) bare_machine bare_options (sample_site [] (\<lambda>_. Inr ()))) ''work-vm-CPU''"

abbreviation log_request :: execution_request where
  "log_request \<equiv> reference_request (host_site (\<lambda>_. []) bare_machine bare_options (sample_site [] (\<lambda>_. Inr ()))) ''i'' log_profile ''Return exactly: LONG_HAUL_OK'' 12"

definition log_site :: site where
  "log_site = (host_site (\<lambda>_. []) bare_machine bare_options (sample_site [] (\<lambda>_. Inr ())))
     \<lparr>event_line := coded_line, read_event := decoded_event, observation_line := (\<lambda>b. ''b''),
      read_observation := (\<lambda>_. ebind (fst (cpp_execute (\<lambda>_. []) (\<lambda>_. []) (sample_host []) ''cli'' log_request))
        (\<lambda>res. Inr (observation_of (Aware 0 0) ''i'' log_profile res)))\<rparr>"

lemma log_site_simps [simp]:
  "discovered log_site = discover_host (\<lambda>_. []) bare_machine bare_options" "hosts log_site k = sample_host []" "binary_file log_site = ''cli''"
  "model_file log_site = ''m''" "host_vessel_id log_site = ''work-vm''" "run_timeout log_site = Fin 5" "new_id log_site k = ''i''"
  "wall_time log_site k = Aware 0 0" "scheduler_time log_site = Aware 0 0" "evidence_clock log_site i j = Aware 0 0"
  "save_outcome log_site k = Inr ()" "append_outcome log_site k = Inr ()" "benchmark_outcome log_site k = Inr ()"
  "event_line log_site = coded_line" "read_event log_site = decoded_event" "observation_line log_site = (\<lambda>b. ''b'')"
  by (simp_all add: log_site_def host_site_def sample_site_def)

lemma log_site_files: "log_ok log_site None" "benchmarks_ok log_site None"
  by (simp_all add: log_ok_def benchmarks_ok_def complete_file_def event_file_events_def file_records_def materialize_def)

definition bare_vessel :: vessel where
  "bare_vessel = found_vessel ''work-vm'' ''Work VM'' Station [found_resource ''work-vm-CPU'' CPU (Some ''p'') [] []] []"

lemma bare_vessel_plain: "plain_vessel bare_vessel"
  by (simp add: plain_vessel_def bare_vessel_def vessel_ok_def validate_vessel_def found_vessel_def validate_resource_def found_resource_def
      migrate_memory_mb_def validate_lease_option_def resource_references_exist_def Let_def)

lemma log_own_profile: "own_profile log_site bare_vessel = log_profile"
  by (simp add: own_profile_def reference_cpu_def bare_vessel_def found_vessel_def reference_profile_def host_site_def)

lemma log_own_request: "reference_request log_site ''i'' log_profile ''Return exactly: LONG_HAUL_OK'' 12 = log_request"
  by (simp add: reference_request_def host_site_def)

lemma strip_nonblank: "\<not> is_space c \<Longrightarrow> strip (c # s) \<noteq> []"
  by (auto simp: strip_def dropWhile_eq_Nil_conv)

lemma coded_faithful:
  assumes "run_event log_site e"
  shows "faithful_event coded_line decoded_event e"
proof -
  from assms obtain source where e: "e = coded_event (ev_type e) source (ev_payload e)" and payload: "run_payload (ev_type e) source (ev_payload e)"
    by (cases e) (auto simp: run_event_def coded_event_def)
  have "unbroken (coded_line e) \<and> strip (coded_line e) \<noteq> [] \<and> decoded_event (coded_line e) = Inr (coded_event (ev_type e) source (ev_payload e))"
    using payload letters_unbroken unletters_letters
    by (auto simp: run_payload_def coded_line_def decoded_event_def unbroken_def is_line_break_def is_space_def strip_nonblank)
  then show ?thesis using e by (simp add: faithful_def)
qed

lemma one_line_samples: "one_line ''i''" "one_line ''ok''" "one_line ''work-vm''"
  by code_simp+

lemma sample_host_works: "working_host (sample_host []) ''cli'' ''m''"
  unfolding working_host_def
  by (intro conjI) (simp_all add: sample_cpp_run parse_timings_def named_def one_line_samples Let_def)

lemma log_site_works: "working_site (\<lambda>_. []) (\<lambda>_. []) log_site bare_vessel (sample_host [])"
proof -
  have "faithful (\<lambda>line. line \<noteq> []) (\<lambda>b. ''b'') (read_observation log_site) (observation_of (Aware 0 0) ''i'' log_profile res)"
    if "fst (cpp_execute (\<lambda>_. []) (\<lambda>_. []) (sample_host []) ''cli'' log_request) = Inr res" for res
    using that by (simp add: faithful_def unbroken_def is_line_break_def log_site_def)
  then show ?thesis
    unfolding working_site_def log_own_profile log_site_simps log_own_request
    using sample_host_works coded_faithful one_line_samples by simp
qed

lemma log_site_passes:
  "\<exists>s :: run. run_reference (\<lambda>_. []) (\<lambda>_. []) log_site (new_run None None) = (Inr (), s)
     \<and> map (\<lambda>l. (layer l, layer_verdict l)) (layers (current_report s)) = map (\<lambda>i. (int i, L_PASS)) [0..<11]"
proof -
  have "discovered log_site = Inr bare_vessel" using bare_discovery by (simp add: bare_vessel_def)
  from working_run [OF log_site_works this bare_vessel_plain log_site_files] show ?thesis by (elim exE conjE) (intro exI conjI)
qed

theorem working_reference_run_passes_witness:
  "\<exists>s :: run. run_reference (\<lambda>_. []) (\<lambda>_. []) log_site (new_run None None) = (Inr (), s)
     \<and> layers (last (saved_reports s)) = layers (current_report s)"
proof -
  have "discovered log_site = Inr bare_vessel" using bare_discovery by (simp add: bare_vessel_def)
  from working_reference_run_passes [OF log_site_works this bare_vessel_plain log_site_files] show ?thesis
    by (elim exE conjE) (intro exI conjI)
qed

theorem passed_reference_log_replays_witness:
  "\<exists>(s :: run) es st. run_reference (\<lambda>_. []) (\<lambda>_. []) log_site (new_run None None) = (Inr (), s)
     \<and> event_file_events decoded_event (event_log s) = Inr es \<and> materialize es [] [] = Inr st"
proof -
  obtain s :: run where s: "run_reference (\<lambda>_. []) (\<lambda>_. []) log_site (new_run None None) = (Inr (), s)"
      "map (\<lambda>l. (layer l, layer_verdict l)) (layers (current_report s)) = map (\<lambda>i. (int i, L_PASS)) [0..<11]"
    using log_site_passes by (elim exE conjE)
  from arg_cong [OF s(2), of "\<lambda>xs. snd ` set xs"] have "all_passed (layers (current_report s))"
    by (force simp: all_passed_def image_image)
  from passed_reference_log_replays [OF s(1) this] obtain es st where "event_file_events (read_event log_site) (event_log s) = Inr es" "materialize es [] [] = Inr st"
    by (elim conjE exE)
  with s(1) show ?thesis by (intro exI [of _ s] exI [of _ es] exI [of _ st] conjI) simp_all
qed

end
