(* ===== verification/Experiments.thy ===== *)
theory Experiments
  imports Discovery_Properties
begin

text \<open>
  The synthetic evaluation harness (\<open>experiments/harness.py\<close>) and the simulated fleet (\<open>fixtures/topology.py\<close>).

  \<open>sum\<close> over floats is the interpreter's: plain additions up to Python 3.11, additions with Neumaier's
  compensation from 3.12 on; \<open>compensated\<close> says which. Lengths are below \<open>2^53\<close>, so dividing by one is exact
  but for the rounding of the quotient.
\<close>

section \<open>The harness\<close>

record scenario =
  scenario_id :: string
  expected_plan :: string
  rupture_expected :: bool

record trial =
  trial_scenario :: string
  task_success :: bool
  trial_latency_ms :: pyfloat
  token_use :: int
  plan_regret :: pyfloat
  disagreement :: bool
  false_consensus :: bool
  coordination_overhead :: pyfloat

definition fabs :: "pyfloat \<Rightarrow> pyfloat" where
  "fabs x = (if flt x (Fin 0) then fneg x else x)"

fun compensated_sum :: "pyfloat \<Rightarrow> pyfloat \<Rightarrow> pyfloat list \<Rightarrow> pyfloat" where
  "compensated_sum s c [] = (if ftruthy c \<and> isfinite c then fadd s c else s)"
| "compensated_sum s c (x # xs) = (let t = fadd s x in
     compensated_sum t (fadd c (if fge (fabs s) (fabs x) then fadd (fsub s t) x else fadd (fsub x t) s)) xs)"

text \<open>The sum starts as the integer 0, to which the first float is added.\<close>

definition float_sum :: "bool \<Rightarrow> pyfloat list \<Rightarrow> pyfloat" where
  "float_sum compensated xs = (case xs of
       [] \<Rightarrow> Fin 0
     | x # rest \<Rightarrow> if compensated then compensated_sum (fadd (Fin 0) x) (Fin 0) rest else foldl fadd (fadd (Fin 0) x) rest)"

definition divided_by :: "pyfloat \<Rightarrow> nat \<Rightarrow> pyfloat" where
  "divided_by x n = (case x of Fin q \<Rightarrow> fl (q / of_nat n) | _ \<Rightarrow> x)"

definition s_net :: "bool \<Rightarrow> trial list \<Rightarrow> pyfloat \<Rightarrow> pyfloat result" where
  "s_net compensated results best_baseline_success =
     (if results = [] then Inr (Fin 0)
      else ebind (int_quotient (int (length (filter task_success results))) (int (length results))) (\<lambda>rate.
        Inr (fsub (fsub rate best_baseline_success)
          (divided_by (float_sum compensated (map coordination_overhead results)) (length results)))))"

definition replay_scenario :: "scenario \<Rightarrow> (scenario \<Rightarrow> execution_plan result) \<Rightarrow> trial result" where
  "replay_scenario sc pick = ebind (pick sc) (\<lambda>plan.
     let ok = (plan_id plan = expected_plan sc) in
     Inr \<lparr>trial_scenario = scenario_id sc, task_success = ok, trial_latency_ms = Fin 1, token_use = 0,
       plan_regret = (if ok then Fin 0 else Fin 1), disagreement = rupture_expected sc, false_consensus = False,
       coordination_overhead = (if rupture_expected sc then fl (1 / 10) else Fin 0)\<rparr>)"

section \<open>The simulated fleet\<close>

definition simulated :: "string \<Rightarrow> resource_kind \<Rightarrow> string option \<Rightarrow> capacity list \<Rightarrow> (string \<times> pyval) list \<Rightarrow> resource" where
  "simulated rid kind model caps meta = found_resource rid kind model caps ((''provenance'', PStr ''simulated'') # meta)"

definition mib :: "rat \<Rightarrow> capacity list" where
  "mib n = [\<lparr>cap_kind = KMemory, cap_amount = Fin n, cap_unit = MiB\<rparr>]"

definition gib :: "rat \<Rightarrow> capacity list" where
  "gib n = [\<lparr>cap_kind = KStorage, cap_amount = Fin n, cap_unit = GiB\<rparr>]"

definition simulated_link :: "string \<Rightarrow> string \<Rightarrow> link_kind \<Rightarrow> string \<Rightarrow> link" where
  "simulated_link source target kind notes = \<lparr>link_source = source, link_target = target, link_kind_of = kind, link_direct = None,
     latency_ms = None, read_gbps = None, write_gbps = None, throughput_mbps = None, link_path = None, link_measured = False,
     link_notes = Some notes\<rparr>"

definition anchorage :: vessel where
  "anchorage = found_vessel ''anchorage-fixture'' ''Anchorage (SIMULATED)'' Station
     [simulated ''ANC-C0'' CPU (Some ''Ryzen 7700-class'') [] [],
      simulated ''ANC-M0'' MEMORY None (mib 24576) [],
      simulated ''ANC-G0'' GPU (Some ''GTX 1070'') (mib 8192) [(''path'', PStr ''higher'')],
      simulated ''ANC-G1'' GPU (Some ''GTX 1070'') (mib 8192) [(''path'', PStr ''lower'')],
      simulated ''ANC-S0'' STORAGE (Some ''NVMe'') (gib 2048) []]
     [simulated_link ''ANC-C0'' ''ANC-G0'' Pcie ''SIMULATED asymmetric primary path'',
      simulated_link ''ANC-C0'' ''ANC-G1'' Pcie ''SIMULATED asymmetric secondary path'',
      simulated_link ''ANC-S0'' ''ANC-M0'' StorageBus ''SIMULATED'']"

definition kestrel :: vessel where
  "kestrel = found_vessel ''kestrel-fixture'' ''Kestrel (SIMULATED)'' Ship
     [simulated ''KST-C0'' CPU (Some ''Orin Nano CPU'') [] [],
      simulated ''KST-M0'' MEMORY None (mib 8192) [(''unified'', PBool True)],
      simulated ''KST-G0'' GPU (Some ''Orin GPU'') (mib 8192) [(''unified'', PBool True)],
      simulated ''KST-S0'' STORAGE None (gib 128) []]
     [simulated_link ''KST-C0'' ''KST-G0'' MemoryLink ''SIMULATED unified memory'']"

text \<open>\<open>note\<close> is the code's text, which has a dash outside Latin-1.\<close>

definition tailscale_link :: "string \<Rightarrow> string \<Rightarrow> link" where
  "tailscale_link note path = (simulated_link ''anchorage-fixture'' ''kestrel-fixture'' Tailscale note)
     \<lparr>link_direct := Some (path = ''direct''), link_path := Some path\<rparr>"

section \<open>Properties\<close>

text \<open>The fixtures pass the validators, and nothing in them claims to be measured.\<close>

theorem fixtures_valid:
  "vessel_ok anchorage \<and> vessel_ok kestrel \<and> (\<forall>l \<in> set (vessel_links anchorage @ vessel_links kestrel). \<not> link_measured l)
    \<and> validate_link (tailscale_link note path) = Inr (tailscale_link note path) \<and> \<not> link_measured (tailscale_link note path)"
  by (simp add: vessel_ok_def validate_vessel_def anchorage_def kestrel_def found_vessel_def simulated_def found_resource_def mib_def gib_def
      simulated_link_def tailscale_link_def validate_resource_def validate_capacity_def as_mib_def migrate_memory_mb_def
      validate_link_def nonneg_field_def validate_lease_option_def resource_references_exist_def fl_numeral Let_def)

text \<open>
  A chooser that always picks the expected plan of scenarios without a rupture scores 1 less the baseline, whatever the
  number of scenarios and whichever sum the interpreter uses.
\<close>

lemma zero_sums:
  "foldl fadd (Fin 0) (replicate n (Fin 0)) = Fin 0" "compensated_sum (Fin 0) (Fin 0) (replicate n (Fin 0)) = Fin 0"
  by (induction n) (simp_all add: ftruthy_def fsub_def fabs_def)

lemma zero_sum: "float_sum compensated (replicate n (Fin 0)) = Fin 0"
  by (cases n) (simp_all add: float_sum_def zero_sums)

lemma expected_trials:
  assumes "emap (\<lambda>sc. replay_scenario sc pick) scs = Inr trials"
    and "\<forall>sc \<in> set scs. \<not> rupture_expected sc \<and> (\<forall>plan. pick sc = Inr plan \<longrightarrow> plan_id plan = expected_plan sc)"
  shows "length trials = length scs \<and> filter task_success trials = trials \<and> map coordination_overhead trials = replicate (length scs) (Fin 0)"
  using assms
proof (induction scs arbitrary: trials)
  case (Cons sc scs)
  from Cons.prems(1) obtain t ts where t: "replay_scenario sc pick = Inr t" "emap (\<lambda>sc. replay_scenario sc pick) scs = Inr ts" "trials = t # ts"
    by auto
  moreover have "task_success t \<and> coordination_overhead t = Fin 0"
    using t(1) Cons.prems(2) by (auto simp: replay_scenario_def Let_def)
  ultimately show ?case using Cons.IH [OF t(2)] Cons.prems(2) by simp
qed simp

theorem expected_plans_score:
  assumes "emap (\<lambda>sc. replay_scenario sc pick) scs = Inr trials" and "scs \<noteq> []"
    and "\<forall>sc \<in> set scs. \<not> rupture_expected sc \<and> (\<forall>plan. pick sc = Inr plan \<longrightarrow> plan_id plan = expected_plan sc)"
  shows "s_net compensated trials best = Inr (fsub (fsub (Fin 1) best) (Fin 0))"
proof -
  note trials = expected_trials [OF assms(1,3)]
  with assms(2) have "trials \<noteq> []" by auto
  moreover have "int_quotient (int (length trials)) (int (length trials)) = Inr (Fin 1)"
    using \<open>trials \<noteq> []\<close> fl_numeral [of "num.One"] by (simp add: int_quotient_def Let_def)
  ultimately show ?thesis
    using trials by (simp add: s_net_def zero_sum divided_by_def)
qed

end
