(* ===== verification/Spec2Isabelle.thy ===== *)
theory Spec2Isabelle
  imports Lease_Safety Scheduler_Properties Work_Evaluator Flash_Properties Flash_Http
    Work_Progress Decision_Engine Digest_Properties Storage_Workers
    Pi_Rpc Runtime_Adapters Reference_Properties Benchmark_Properties
    Artifact_Guard Offline_Properties Discovery_Properties Requirements_Properties
    Version_Probe Fleet_Log_File Tool_Commands Reference_Log Experiments
begin

text \<open>
  Long-Haul: a verification development for the core of \<open>src/long_haul\<close>.

  The program places inference work on borrowed machines, lets coding agents work on missions under
  leases, and accepts their results only on evidence. Events are the source of truth: the fleet state,
  missions and checkpoints are replayed from logs. Below, each part of the program, the theories that
  model it and what their lemmas show.

  \<^bold>\<open>Foundations.\<close>
  \<^item> \<open>LH_Prelude\<close>: exceptions as values (\<open>exn\<close>, \<open>'a result = exn + 'a\<close>, \<open>ebind\<close>, \<open>guard\<close>, \<open>emap\<close>), dictionaries as
    association lists in insertion order, sorting and windows.
  \<^item> \<open>PyFloat\<close>: IEEE doubles as rationals with correct rounding (\<open>fl\<close>), infinities and one NaN, with Python's
    comparisons. \<open>PyData\<close>: timestamps, JSON-shaped values, \<open>json_dumps\<close>, \<open>str\<close>.
  \<^item> \<open>Python_Text\<close>: lines, case, \<open>int\<close>, \<open>repr\<close> and searching on text. \<open>Posix_Paths\<close>: \<open>PurePosixPath\<close>.
    \<open>Stateful\<close>: statements that change a state and may raise.
  \<^item> \<open>Domain_Models\<close> (\<open>models.py\<close>), \<open>Runtime_Contracts\<close> (\<open>runtime.py\<close>, \<open>benchmarks/store.py\<close>): the records,
    their validators, their canonical dumps and fingerprints.

  \<^bold>\<open>Fleet leases\<close> (\<open>ephemeral.py\<close>, \<open>events/store.py\<close>). \<open>Ephemeral_Leases\<close> and \<open>Fleet_Events\<close> hold the lease and
  resource models and the replay of events into a fleet state; \<open>Fleet_Invariants\<close> shows what every event
  keeps; \<open>Lease_Controller\<close> has one definition per method of \<open>FleetLeaseController\<close>, reading the log and
  appending to it. \<open>Lease_Safety\<close>: any sequence of calls keeps the log replayable and the state safe; when
  \<open>start_attempt\<close> accepts, exactly, what it appends and which error it raises otherwise; what disappearing hardware
  interrupts. Running attempts hold the lease they started under; that its window is open is tested at the start only.

  \<^bold>\<open>Files of records.\<close> \<open>Jsonl_Store\<close>: the JSON-lines files of the event store and the benchmark store implement the
  lists of events and observations every other theory works on, as long as no line contains a character at which
  \<open>str.splitlines\<close> splits; one such line makes the log unreadable. \<open>Fleet_Log_File\<close> runs
  the lease controller on such a file and carries its safety over to what is on disk.

  \<^bold>\<open>Scheduling\<close> (\<open>scheduler/core.py\<close>). \<open>Scheduler_Core\<close> generates and evaluates plans, \<open>Scheduler_Ranking\<close> orders
  them. \<open>Scheduler_Safety\<close> and \<open>Scheduler_Properties\<close>: eligibility is a declarative admissibility predicate,
  \<open>select\<close> answers exactly when one plan is admissible, its answer is a best one, and the order in which
  validations are listed does not matter.

  \<^bold>\<open>Work contracts and evidence\<close> (\<open>work/contracts.py\<close>, \<open>work/evaluator.py\<close>). \<open>Work_Contracts\<close> holds contracts,
  path scopes and \<open>evaluate_work\<close>; \<open>Work_Acceptance\<close> their meaning (component-wise path prefixes, the exact
  verdict). \<open>Work_Evaluator\<close>: packets of evidence and the runner's verdict.

  \<^bold>\<open>Observing agents.\<close> \<open>Work_Progress\<close> (\<open>work/progress.py\<close>) proves the incremental monitor equal to conditions on
  the whole history. \<open>Work_Checkpoints\<close>, \<open>Checkpoint_Properties\<close> and \<open>Digest_Properties\<close> (\<open>work/checkpoints.py\<close>)
  show that a checkpoint holds exactly what the events said, loses no open failure, and that a rendered digest is
  bounded and honest about what it left out. \<open>Pi_Rpc\<close> (\<open>adapters/pi_rpc.py\<close>) feeds the events of the Pi agent to the monitor.

  \<^bold>\<open>Decisions\<close> (\<open>decisions/engine.py\<close>). \<open>Decision_Engine\<close>: which positions are recorded, when
  a decision resolves, and with which error it is refused.

  \<^bold>\<open>Flash delivery\<close> (\<open>work/flash_delivery.py\<close>, \<open>work/flash_http.py\<close>). \<open>Flash_Delivery\<close> is the in-memory state
  machine; \<open>Flash_Safety\<close> and \<open>Flash_Properties\<close> give its invariants and the exact condition of each grant
  and acceptance; \<open>Flash_Http\<close> is the WSGI boundary, which performs exactly the operations its requests name.

  \<^bold>\<open>Durable flash delivery\<close> (\<open>work/flash_storage.py\<close>). \<open>Flash_Protocol\<close> is the abstract protocol of one job, with
  its invariant and progress order. \<open>Storage_Effects\<close> represents a method as a program over the Blob and
  Queue calls it makes; \<open>Flash_Storage\<close> writes every method of \<open>DurableFlashDelivery\<close> in it. \<open>cas_service\<close> states what a
  caller relies on (a compare-and-swap store), \<open>Storage_Logic\<close> holds the rules for programs over the calls made so far, and
  \<open>Storage_Refinement\<close> proves each method with them. \<open>Storage_System\<close> runs any number of workers on such a
  store, each call answered, lost before or lost after it took effect, each worker stopping anywhere.
  \<open>Storage_Service\<close> is a concrete service, the instance of the interface; \<open>Storage_Healthy\<close> runs one job through
  it; \<open>Storage_Workers\<close> states the results.

  \<^bold>\<open>Runtime adapters\<close> (\<open>adapters/llama_server.py\<close>, \<open>adapters/llama_cpp.py\<close>). \<open>Llama_Server\<close> and
  \<open>Llama_Server_Properties\<close>: which requests a server adapter sends, that the token ids it submits and
  the counts it reports are those of the server's replies, and that it answers with a result. \<open>Llama_Cpp\<close> and \<open>Llama_Cpp_Properties\<close>: when a process is started, with which arguments
  and environment, and what a success means. \<open>Version_Probe\<close>: the child process that is asked for its version is
  read within a size and a deadline, always ends, and a version is the whole of what it printed. \<open>Runtime_Adapters\<close> states
  the protocol both implement as a locale, interprets it for each, and composes them with the scheduler: the validation an
  adapter returns is the one the scheduler finds.

  \<^bold>\<open>Reference run\<close> (\<open>reference.py\<close>, \<open>validation.py\<close>). \<open>Reference_Run\<close> writes the layers 0 to 10 as statements of
  \<open>Stateful\<close>, over the files of both logs. \<open>Reference_Properties\<close> proves by Hoare triples that no
  report, saved or in memory, claims more than was executed, also when the run raises. \<open>Reference_Host\<close> composes
  the run with discovery of the machine it runs on: it measures that machine's CPU with the binary, model and
  timeout of the call. \<open>Reference_Log\<close>: on a host that works the run passes all eleven layers, through scheduler,
  benchmark query and log replay, and when it passes, its log ends in the last output and replays.

  \<^bold>\<open>Benchmark tools.\<close> \<open>Benchmark_Matrix\<close> (\<open>benchmark_matrix.py\<close>) executes the profiles of a manifest on its
  workloads, \<open>Benchmark_Import\<close> (\<open>llama_bench_import.py\<close>) turns llama-bench rows into observations,
  \<open>Benchmark_Replay\<close> (\<open>benchmark_scheduler.py\<close>) reads a matrix back and ranks its profiles.
  \<open>Benchmark_Properties\<close>: every execution is accounted for, only successful ones become validations, and the
  replay selects what the scheduler would.

  \<^bold>\<open>Discovery\<close> (\<open>discovery/parsers.py\<close>, \<open>discovery/linux.py\<close>, \<open>discovery/windows.py\<close>). \<open>Discovery\<close> has the parsers
  and the probes of both systems, \<open>Discovery_Properties\<close> shows that the vessel is valid, holds exactly what the
  probes found, and claims nothing when they fail.

  \<^bold>\<open>Repository tools.\<close> \<open>Artifact_Guard\<close> (\<open>scripts/check_documentation_artifacts.py\<close>): git's records read back and
  the guard passes exactly on allowed names. \<open>Offline_Package\<close> and \<open>Offline_Build\<close>
  (\<open>scripts/build_offline_package.py\<close>) check and extract the source, check wheels and runtime, run the commands and
  make the bundle; \<open>Offline_Properties\<close>: extraction stays inside, overwrites nothing and keeps its limit unless the archive declares
  negative sizes, when a bundle is made, where a receipt comes from.
  \<open>Requirements_Check\<close> and \<open>Requirements_Properties\<close> (\<open>tools/requirements.py\<close>): manifests are bounded regular files
  inside the source tree, profiles refer only to them, and a report follows only an accepted declaration.

  \<^bold>\<open>Entry points.\<close> \<open>Entry_Points\<close>: the capability gateway (\<open>mcp/gateway.py\<close>, \<open>mcp/identity.py\<close>), the tools of the
  Azure function app, the registry (\<open>registry.py\<close>) and the dispatch of the command line (\<open>__main__.py\<close>).
  \<open>Argument_Parser\<close> models what is used of \<open>argparse\<close> as in Python 3.11; \<open>Command_Line\<close> declares the six parsers and
  shows that written command lines read back, which options each subcommand needs and accepts and what they mean, and
  that every other command line exits with 2, or with 0 after its help.
  \<open>Tool_Commands\<close> does the same for the guard and the package builder, up to their exit status.

  \<^bold>\<open>Experiments\<close> (\<open>experiments/harness.py\<close>, \<open>fixtures/topology.py\<close>). \<open>Experiments\<close>: the synthetic score, for the plain
  and the compensated sum of floats, and the simulated fleet, which passes the validators and measures nothing.

  \<^bold>\<open>Conventions.\<close> Strings are Latin-1 character lists; digests of text for agents are lists of code points.
  A dictionary keeps its insertion order. Raising is an \<open>Inl\<close>, with the state as it is when the exception is
  raised. What is not under \<open>src/\<close>, and what the operating system and the network answer, is a parameter:
  SHA-256, \<open>secrets\<close>, clocks, id factories, verifiers, notifiers, JSON decoding, the Azure services, HTTP
  connections, processes and the file system.

  \<^bold>\<open>Bounds and termination.\<close> All definitions but one are total. A loop of the source that need not end is either
  bounded by its own measure (the bytes read of a reply) or is a program tree whose depth is bounded by the
  limits the source has (message receives, recovery pages). The read loop of the version probe turns as often as
  the child lets it; it is a partial function, proved to return when a silent child uses up the deadline. No fuel
  is used.

  \<^bold>\<open>Not modelled.\<close> Package exports and protocol declarations; the wording of the help texts; the rendering of
  reports as text; directories that cannot be created, and the removal of temporary directories; the prototype page, CUE and infrastructure files.
\<close>

end
